(* ===== verification/Prelude.thy ===== *)
theory Prelude
  imports Main "HOL-Library.Word" "HOL-Library.List_Lexorder" "HOL-Library.Char_ord"
begin

text \<open>
  Shared vocabulary of the development: the machine integers of the code, the generation
  counter of \<open>include/portfabric/generation.hpp\<close>, the ordered association lists that
  stand for the keyed containers of the runtime, and the collections of rewrite rules that
  the component theories extend.
\<close>

section \<open>Machine integers and collections of rules\<close>

type_synonym u8 = "8 word"
type_synonym u16 = "16 word"
type_synonym u32 = "32 word"
type_synonym u64 = "64 word"

text \<open>
  \<open>model_defs\<close> collects small definitions that a proof always unfolds, \<open>frame_simps\<close>
  the facts that an operation leaves a part of the state alone.
\<close>

named_theorems model_defs
named_theorems frame_simps

section \<open>Generations\<close>

text \<open>
  A generation is a 64 bit counter; zero is the null generation. The code distinguishes the
  domains by a phantom tag, which has no run time content: every domain is the same word type
  here and the name of a field says which domain it belongs to.
\<close>

type_synonym generation = u64

definition gen_valid :: "generation \<Rightarrow> bool" where
  "gen_valid g \<longleftrightarrow> g \<noteq> 0"

definition gen_exhaustible :: "generation \<Rightarrow> bool" where
  "gen_exhaustible g \<longleftrightarrow> g = 0xffffffffffffffff"

definition gen_next :: "generation \<Rightarrow> generation" where
  "gen_next g = (if g = 0xffffffffffffffff then g else g + 1)"

text \<open>
  The idiom \<open>g.valid() ? g.next() : from_value(1)\<close> that every generation advance of the
  engine uses.
\<close>

definition gen_advance :: "generation \<Rightarrow> generation" where
  "gen_advance g = (if gen_valid g then gen_next g else 1)"

lemma max_u64_eq: "(0xffffffffffffffff :: u64) = - 1"
  by simp

lemma unat_gen_next: "\<not> gen_exhaustible g \<Longrightarrow> unat (gen_next g) = Suc (unat g)"
proof -
  assume "\<not> gen_exhaustible g"
  then have ne: "g \<noteq> - 1" by (simp only: gen_exhaustible_def max_u64_eq not_False_eq_True)
  then have "1 + g \<noteq> 0" by (metis add.commute add_eq_0_iff)
  then have "unat (1 + g) = Suc (unat g)" by (rule unatSuc)
  with ne show ?thesis by (simp only: gen_next_def max_u64_eq if_False add.commute [of g 1])
qed

lemma gen_next_strict: "\<not> gen_exhaustible g \<Longrightarrow> g < gen_next g"
  by (simp add: word_less_nat_alt unat_gen_next)

lemma gen_next_mono: "g \<le> gen_next g"
  by (cases "gen_exhaustible g")
    (simp_all add: gen_next_strict order_less_imp_le, simp add: gen_next_def gen_exhaustible_def)

lemma gen_advance_eq: "\<not> gen_exhaustible g \<Longrightarrow> gen_advance g = g + 1"
  by (simp add: gen_advance_def gen_next_def gen_exhaustible_def gen_valid_def)

lemma gen_advance_mono: "g \<le> gen_advance g"
  by (simp add: gen_advance_def gen_next_mono gen_valid_def)

lemma gen_advance_strict: "\<not> gen_exhaustible g \<Longrightarrow> g < gen_advance g"
  by (cases "g = 0") (simp_all add: gen_advance_def gen_next_strict gen_valid_def)

lemma gen_advance_valid [simp]: "gen_valid (gen_advance g)"
proof (cases "g = 0")
  case True
  then show ?thesis by (simp add: gen_advance_def gen_valid_def)
next
  case False
  then have "0 < g" by (simp add: word_neq_0_conv)
  also have "g \<le> gen_advance g" by (rule gen_advance_mono)
  finally show ?thesis by (auto simp: gen_valid_def)
qed

lemma gen_advance_zero [simp]: "gen_advance 0 = 1"
  by (simp add: gen_advance_def gen_valid_def)

lemma gen_advance_saturates: "gen_exhaustible g \<Longrightarrow> gen_advance g = g"
  by (simp add: gen_advance_def gen_valid_def gen_exhaustible_def gen_next_def)

section \<open>Keyed containers\<close>

text \<open>
  \<open>std::map\<close> is an association list kept in strictly increasing key order;
  \<open>std::unordered_map\<close> is modelled by the same structure, its iteration order (which the
  language leaves open) being the key order. Lookup is the library's \<open>map_of\<close>.
\<close>

fun om_update :: "'k::linorder \<Rightarrow> 'v \<Rightarrow> ('k \<times> 'v) list \<Rightarrow> ('k \<times> 'v) list" where
  "om_update k v [] = [(k, v)]"
| "om_update k v ((a, b) # m) =
     (if k < a then (k, v) # (a, b) # m
      else if k = a then (k, v) # m
      else (a, b) # om_update k v m)"

definition om_erase :: "'k \<Rightarrow> ('k \<times> 'v) list \<Rightarrow> ('k \<times> 'v) list" where
  "om_erase k m = filter (\<lambda>e. fst e \<noteq> k) m"

definition om_map_values :: "('v \<Rightarrow> 'w) \<Rightarrow> ('k \<times> 'v) list \<Rightarrow> ('k \<times> 'w) list" where
  "om_map_values f m = map (\<lambda>e. (fst e, f (snd e))) m"

definition om_sorted :: "('k::linorder \<times> 'v) list \<Rightarrow> bool" where
  "om_sorted m \<longleftrightarrow> sorted_wrt (<) (map fst m)"

text \<open>The contract of a keyed container, and what follows from it for every client.\<close>

locale keyed_container =
  fixes lookup :: "'m \<Rightarrow> 'k \<Rightarrow> 'v option"
    and update :: "'k \<Rightarrow> 'v \<Rightarrow> 'm \<Rightarrow> 'm"
    and erase :: "'k \<Rightarrow> 'm \<Rightarrow> 'm"
    and size_of :: "'m \<Rightarrow> nat"
    and inv :: "'m \<Rightarrow> bool"
  assumes lookup_update: "lookup (update k v m) = (lookup m)(k \<mapsto> v)"
    and lookup_erase: "lookup (erase k m) = (lookup m)(k := None)"
    and size_update: "inv m \<Longrightarrow>
      size_of (update k v m) = (if lookup m k = None then Suc (size_of m) else size_of m)"
    and inv_update: "inv m \<Longrightarrow> inv (update k v m)"
    and inv_erase: "inv m \<Longrightarrow> inv (erase k m)"
begin

lemma all_update:
  "(\<forall>j x. lookup m j = Some x \<longrightarrow> P j x) \<Longrightarrow> P k v \<Longrightarrow>
   lookup (update k v m) j = Some x \<Longrightarrow> P j x"
  by (auto simp: lookup_update split: if_splits)

lemma all_erase:
  "(\<forall>j x. lookup m j = Some x \<longrightarrow> P j x) \<Longrightarrow> lookup (erase k m) j = Some x \<Longrightarrow> P j x"
  by (auto simp: lookup_erase split: if_splits)

lemma bounded_update:
  "inv m \<Longrightarrow> size_of m \<le> bound \<Longrightarrow> (lookup m k = None \<Longrightarrow> size_of m < bound) \<Longrightarrow>
   size_of (update k v m) \<le> bound"
  by (auto simp: size_update Suc_le_eq)

end

lemma map_of_om_update [simp]: "map_of (om_update k v m) = (map_of m)(k \<mapsto> v)"
  by (induction k v m rule: om_update.induct) (auto simp: fun_eq_iff)

lemma map_of_om_erase [simp]: "map_of (om_erase k m) = (map_of m)(k := None)"
  by (induction m) (auto simp: om_erase_def fun_eq_iff)

lemma map_of_om_map_values [simp]: "map_of (om_map_values f m) k = map_option f (map_of m k)"
  by (induction m) (auto simp: om_map_values_def)

lemma om_keys_update: "set (map fst (om_update k v m)) = insert k (set (map fst m))"
  by (induction k v m rule: om_update.induct) auto

lemma om_sorted_update: "om_sorted m \<Longrightarrow> om_sorted (om_update k v m)"
proof (induction k v m rule: om_update.induct)
  case (1 k v)
  then show ?case by (simp add: om_sorted_def)
next
  case (2 k v a b m)
  then show ?case
    using om_keys_update [of k v m] by (auto simp: om_sorted_def)
qed

lemma om_sorted_erase: "om_sorted m \<Longrightarrow> om_sorted (om_erase k m)"
  by (induction m) (auto simp: om_sorted_def om_erase_def)

lemma om_sorted_map_values: "om_sorted (om_map_values f m) = om_sorted m"
  by (simp add: om_sorted_def om_map_values_def comp_def)

lemma om_length_update:
  "om_sorted m \<Longrightarrow>
   length (om_update k v m) = (if map_of m k = None then Suc (length m) else length m)"
proof (induction k v m rule: om_update.induct)
  case (1 k v)
  then show ?case by simp
next
  case (2 k v a b m)
  then show ?case
    by (force simp: om_sorted_def map_of_eq_None_iff)
qed

interpretation om: keyed_container map_of om_update om_erase length om_sorted
  by unfold_locales (simp_all add: om_length_update om_sorted_update om_sorted_erase)

lemma om_sorted_distinct: "om_sorted m \<Longrightarrow> distinct (map fst m)"
  unfolding om_sorted_def
  by (induction m) auto

lemma om_map_of_mem: "om_sorted m \<Longrightarrow> (k, v) \<in> set m \<longleftrightarrow> map_of m k = Some v"
  using om_sorted_distinct by (metis map_of_eq_Some_iff)

text \<open>The first match of a table, the loop that every \<open>parse_*\<close> of the code runs.\<close>

fun first_match :: "'a \<Rightarrow> ('a \<times> 'b) list \<Rightarrow> 'b option" where
  "first_match text [] = None"
| "first_match text ((rendering, value) # table) =
     (if rendering = text then Some value else first_match text table)"

lemma first_match_map_of: "first_match t table = map_of table t"
  by (induction t table rule: first_match.induct) auto

text \<open>
  A chain of early returns is a function into an option, \<open>Some\<close> answer when a branch returns. To
  show that every answer of such a chain has a property, the rules below walk the chain
  without splitting its conditions.
\<close>

named_theorems gate_intros

definition answers :: "('a \<Rightarrow> bool) \<Rightarrow> 'a option \<Rightarrow> bool" where
  "answers P g \<longleftrightarrow> (\<forall>x. g = Some x \<longrightarrow> P x)"

lemma answersD: "answers P g \<Longrightarrow> g = Some x \<Longrightarrow> P x"
  by (simp add: answers_def)

lemma answers_None [gate_intros]: "answers P None"
  by (simp add: answers_def)

lemma answers_Some [gate_intros]: "P x \<Longrightarrow> answers P (Some x)"
  by (simp add: answers_def)

lemma answers_if [gate_intros]:
  "answers P x \<Longrightarrow> answers P y \<Longrightarrow> answers P (if c then x else y)"
  by simp

lemma answers_case_option [gate_intros]:
  "answers P x \<Longrightarrow> (\<And>z. answers P (f z)) \<Longrightarrow> answers P (case g of None \<Rightarrow> x | Some z \<Rightarrow> f z)"
  by (simp split: option.split)

lemma answers_Let [gate_intros]: "(\<And>z. answers P (f z)) \<Longrightarrow> answers P (let z = t in f z)"
  by (simp add: Let_def)

text \<open>
  An enumeration with a stable rendering: the parser of the code walks a table of
  \<open>(rendering, value)\<close> pairs. The contract is that the table lists every enumerator once
  under its rendering and that no two renderings agree; parsing is then the exact inverse of
  rendering.
\<close>

locale enum_text =
  fixes render :: "'e \<Rightarrow> string"
    and table :: "(string \<times> 'e) list"
    and all :: "'e list"
  assumes table_eq: "table = map (\<lambda>e. (render e, e)) all"
    and complete: "e \<in> set all"
    and distinct_renderings: "distinct (map render all)"
begin

lemma render_inj: "render e = render e' \<longleftrightarrow> e = e'"
  using distinct_renderings complete [of e] complete [of e']
  by (auto simp: distinct_map inj_on_def)

lemma map_of_table: "map_of (map (\<lambda>e. (render e, e)) es) t = Some e \<longleftrightarrow> e \<in> set es \<and> render e = t"
proof (induction es)
  case Nil
  then show ?case by simp
next
  case (Cons a es)
  then show ?case by (auto simp: render_inj)
qed

lemma parse_iff: "first_match t table = Some e \<longleftrightarrow> t = render e"
  by (auto simp: first_match_map_of table_eq map_of_table complete)

lemma parse_render: "first_match (render e) table = Some e"
  by (simp add: parse_iff)

lemma parse_None_iff: "first_match t table = None \<longleftrightarrow> t \<notin> range render"
  by (metis not_None_eq parse_iff rangeE rangeI)

end

end
