(* ===== verification/Text.thy ===== *)
theory Text
  imports Prelude
begin

unbundle bit_operations_syntax

text \<open>
  The bounded text helpers of \<open>src/text.cpp\<close>: decimal rendering, UTF-8 validation, bounded
  text validation, single line folding, hexadecimal rendering, the FNV-1a hash and checked
  arithmetic. A \<open>bool f(..., std::string& error)\<close> of the code is a function into
  \<open>string option\<close>: \<open>None\<close> when the code returns true, \<open>Some error\<close> when it returns false.
\<close>

type_synonym check = "string option"

section \<open>Decimal rendering\<close>

definition digit_char :: "nat \<Rightarrow> char" where
  "digit_char d = char_of (48 + d)"

fun decimal :: "nat \<Rightarrow> string" where
  "decimal n = (if n < 10 then [digit_char n] else decimal (n div 10) @ [digit_char (n mod 10)])"

declare decimal.simps [simp del]

definition format_u64 :: "u64 \<Rightarrow> string" where
  "format_u64 value = decimal (unat value)"

definition format_bool :: "bool \<Rightarrow> string" where
  "format_bool value = (if value then ''true'' else ''false'')"

definition is_digit :: "char \<Rightarrow> bool" where
  "is_digit c \<longleftrightarrow> 48 \<le> (of_char c :: nat) \<and> (of_char c :: nat) \<le> 57"

definition digit_value :: "char \<Rightarrow> nat" where
  "digit_value c = of_char c - 48"

definition decimal_value :: "nat \<Rightarrow> string \<Rightarrow> nat" where
  "decimal_value acc ds = foldl (\<lambda>v c. v * 10 + digit_value c) acc ds"

lemma of_char_digit_char: "d < 10 \<Longrightarrow> (of_char (digit_char d) :: nat) = 48 + d"
  by (simp add: digit_char_def)

lemma is_digit_digit_char [simp]: "d < 10 \<Longrightarrow> is_digit (digit_char d)"
  by (simp add: is_digit_def of_char_digit_char)

lemma digit_value_digit_char [simp]: "d < 10 \<Longrightarrow> digit_value (digit_char d) = d"
  by (simp add: digit_value_def of_char_digit_char)

lemma decimal_digits: "list_all is_digit (decimal n)"
proof (induction n rule: decimal.induct)
  case (1 n)
  then show ?case by (subst decimal.simps) simp
qed

lemma decimal_nonempty [simp]: "decimal n \<noteq> []"
  by (subst decimal.simps) simp

lemma decimal_value_append:
  "decimal_value acc (xs @ ys) = decimal_value (decimal_value acc xs) ys"
  by (simp add: decimal_value_def)

lemma decimal_value_decimal: "decimal_value 0 (decimal n) = n"
proof (induction n rule: decimal.induct)
  case (1 n)
  show ?case
  proof (cases "n < 10")
    case True
    then show ?thesis by (subst decimal.simps) (simp add: decimal_value_def)
  next
    case False
    with 1 have "decimal_value 0 (decimal (n div 10)) = n div 10" by simp
    with False show ?thesis
      by (subst decimal.simps) (simp add: decimal_value_append, simp add: decimal_value_def)
  qed
qed

lemma decimal_inject [simp]: "decimal m = decimal n \<longleftrightarrow> m = n"
  by (metis decimal_value_decimal)

lemma format_u64_inject [simp]: "format_u64 x = format_u64 y \<longleftrightarrow> x = y"
  by (simp only: format_u64_def decimal_inject word_unat_eq_iff)

lemma decimal_length_bound: "n < 10 ^ k \<Longrightarrow> 0 < k \<Longrightarrow> length (decimal n) \<le> k"
proof (induction k arbitrary: n)
  case 0
  then show ?case by simp
next
  case (Suc k)
  show ?case
  proof (cases "n < 10")
    case True
    then show ?thesis by (subst decimal.simps) simp
  next
    case False
    with Suc.prems have "0 < k" by (cases k) auto
    moreover from Suc.prems have "n div 10 < 10 ^ k" by (simp add: less_mult_imp_div_less)
    ultimately have "length (decimal (n div 10)) \<le> k" by (rule Suc.IH [rotated])
    with False show ?thesis by (subst decimal.simps) simp
  qed
qed

lemma format_u64_length: "length (format_u64 x) \<le> 20"
proof -
  have "unat x < 2 ^ 64" using unsigned_less [of x] by simp
  also have "(2 :: nat) ^ 64 \<le> 10 ^ 20" by simp
  finally show ?thesis by (simp add: format_u64_def decimal_length_bound)
qed

lemma format_u64_digits: "list_all is_digit (format_u64 x)"
  by (simp add: format_u64_def decimal_digits)

lemma format_u64_nonempty [simp]: "format_u64 x \<noteq> []"
  by (simp add: format_u64_def)

section \<open>Well formed UTF-8\<close>

text \<open>
  The lead byte of a sequence decides how many continuation bytes follow, the first bits of
  the code point and the least code point that may be encoded with that length.
\<close>

definition utf8_lead :: "u8 \<Rightarrow> (nat \<times> u32 \<times> u32) option" where
  "utf8_lead byte =
     (if byte AND 0xe0 = 0xc0 then Some (1, ucast (byte AND 0x1f), 0x80)
      else if byte AND 0xf0 = 0xe0 then Some (2, ucast (byte AND 0x0f), 0x800)
      else if byte AND 0xf8 = 0xf0 then Some (3, ucast (byte AND 0x07), 0x10000)
      else None)"

fun utf8_continue :: "u32 \<Rightarrow> string \<Rightarrow> u32 option" where
  "utf8_continue code_point [] = Some code_point"
| "utf8_continue code_point (ch # rest) =
     (let continuation = (of_char ch :: u8)
      in if continuation AND 0xc0 \<noteq> 0x80 then None
         else utf8_continue (push_bit 6 code_point OR ucast (continuation AND 0x3f)) rest)"

text \<open>The argument is the part of the text from \<open>index\<close> on.\<close>

function is_valid_utf8 :: "string \<Rightarrow> bool" where
  "is_valid_utf8 [] = True"
| "is_valid_utf8 (ch # rest) =
     (let byte = (of_char ch :: u8)
      in if byte < 0x80 then is_valid_utf8 rest
         else case utf8_lead byte of
             None \<Rightarrow> False
           | Some (extra, first_bits, minimum) \<Rightarrow>
               if length rest < extra then False
               else case utf8_continue first_bits (take extra rest) of
                   None \<Rightarrow> False
                 | Some code_point \<Rightarrow>
                     if code_point < minimum \<or> 0x10ffff < code_point then False
                     else if 0xd800 \<le> code_point \<and> code_point \<le> 0xdfff then False
                     else is_valid_utf8 (drop extra rest))"
  by pat_completeness auto
termination
  by (relation "measure length") auto

section \<open>Bounded text\<close>

definition is_control :: "char \<Rightarrow> bool" where
  "is_control ch \<longleftrightarrow> (of_char ch :: u8) < 0x20 \<or> (of_char ch :: u8) = 0x7f"

definition validate_text :: "string \<Rightarrow> nat \<Rightarrow> check" where
  "validate_text text max_length =
     (if max_length < length text
      then Some (''text exceeds maximum length '' @ decimal max_length)
      else if \<not> is_valid_utf8 text then Some ''text is not well formed UTF-8''
      else if list_ex is_control text then Some ''text contains a control character''
      else None)"

definition single_line :: "string \<Rightarrow> string" where
  "single_line text =
     map (\<lambda>ch. if ch = CHR 0x0A \<or> ch = CHR 0x0D then CHR '' '' else ch) text"

lemma validate_text_None_iff:
  "validate_text text n = None \<longleftrightarrow>
     length text \<le> n \<and> is_valid_utf8 text \<and> \<not> list_ex is_control text"
  by (auto simp: validate_text_def)

lemma length_single_line [simp]: "length (single_line text) = length text"
  by (simp add: single_line_def)

lemma single_line_no_newline:
  "CHR 0x0A \<notin> set (single_line text) \<and> CHR 0x0D \<notin> set (single_line text)"
  by (auto simp: single_line_def)

lemma single_line_id:
  "CHR 0x0A \<notin> set t \<Longrightarrow> CHR 0x0D \<notin> set t \<Longrightarrow> single_line t = t"
  by (induction t) (auto simp: single_line_def)

text \<open>ASCII text is well formed, which is what the constant labels of the runtime are.\<close>

lemma is_valid_utf8_ascii: "list_all (\<lambda>c. (of_char c :: u8) < 0x80) t \<Longrightarrow> is_valid_utf8 t"
  by (induction t) (auto simp: Let_def)

section \<open>Hexadecimal rendering\<close>

definition hex_digit :: "nat \<Rightarrow> char" where
  "hex_digit n = ''0123456789abcdef'' ! n"

definition bytes_to_hex :: "u8 list \<Rightarrow> string" where
  "bytes_to_hex bytes =
     concat (map (\<lambda>value. [hex_digit (unat (drop_bit 4 value AND 0x0f)),
                           hex_digit (unat (value AND 0x0f))]) bytes)"

section \<open>FNV-1a\<close>

definition fnv1a :: "string \<Rightarrow> u64" where
  "fnv1a bytes =
     foldl (\<lambda>hash ch. (hash XOR of_char ch) * 1099511628211) 1469598103934665603 bytes"

section \<open>Checked arithmetic\<close>

definition checked_multiply :: "u64 \<Rightarrow> u64 \<Rightarrow> u64 option" where
  "checked_multiply lhs rhs =
     (if lhs \<noteq> 0 \<and> 0xffffffffffffffff div lhs < rhs then None else Some (lhs * rhs))"

definition checked_add :: "u64 \<Rightarrow> u64 \<Rightarrow> u64 option" where
  "checked_add lhs rhs =
     (if 0xffffffffffffffff - lhs < rhs then None else Some (lhs + rhs))"

lemma unat_max_u64: "unat (0xffffffffffffffff :: u64) = 2 ^ 64 - 1"
  by simp

lemma unat_less_u64: "unat (x :: u64) < 2 ^ 64"
  using unsigned_less [where 'a = nat, of x] by simp

lemma checked_multiply_Some_iff:
  "checked_multiply a b = Some c \<longleftrightarrow> unat a * unat b < 2 ^ 64 \<and> c = a * b"
proof (cases "a = 0")
  case True
  then show ?thesis by (auto simp: checked_multiply_def)
next
  case False
  then have pos: "0 < unat a" by (simp add: unat_gt_0)
  have e: "(2 ^ 64 - 1 < p) = (\<not> p < 2 ^ 64)" for p :: nat
    by auto
  have "(0xffffffffffffffff div a < b) = ((2 ^ 64 - 1) div unat a < unat b)"
    by (simp only: word_less_nat_alt unat_div unat_max_u64)
  also have "\<dots> = (2 ^ 64 - 1 < unat b * unat a)"
    using pos by (simp only: div_less_iff_less_mult)
  finally have "(0xffffffffffffffff div a < b) = (\<not> unat a * unat b < 2 ^ 64)"
    by (simp only: mult.commute [of "unat b"] e)
  with False show ?thesis by (auto simp: checked_multiply_def)
qed

lemma checked_multiply_exact: "checked_multiply a b = Some c \<Longrightarrow> unat c = unat a * unat b"
  by (simp add: checked_multiply_Some_iff unat_word_ariths)

lemma checked_add_Some_iff:
  "checked_add a b = Some c \<longleftrightarrow> unat a + unat b < 2 ^ 64 \<and> c = a + b"
proof -
  have le: "a \<le> 0xffffffffffffffff"
    by (simp only: max_u64_eq word_order.extremum)
  have "(0xffffffffffffffff - a < b) = (2 ^ 64 - 1 - unat a < unat b)"
    by (simp only: word_less_nat_alt unat_sub [OF le] unat_max_u64)
  also have "\<dots> = (\<not> unat a + unat b < 2 ^ 64)"
    using unat_less_u64 [of a] by auto
  finally show ?thesis by (auto simp: checked_add_def)
qed

lemma checked_add_exact: "checked_add a b = Some c \<Longrightarrow> unat c = unat a + unat b"
  by (simp add: checked_add_Some_iff unat_word_ariths)

end
