(* ===== verification/Ids.thy ===== *)
theory Ids
  imports Text
begin

text \<open>
  Strong identifiers (\<open>include/portfabric/ids.hpp\<close>, \<open>src/ids.cpp\<close>). The code tags every
  identifier with a phantom domain and caches its hash; both are functions of the encoding,
  and equality and order compare the encoding only, so an identifier is its encoding here and
  the null identifier is the empty string. Also the composed identifiers of
  \<open>src/engine.cpp\<close> and the entity classes.
\<close>

section \<open>Bounds\<close>

definition max_identifier_length :: nat where "max_identifier_length = 128"
definition max_name_length :: nat where "max_name_length = 128"
definition max_description_length :: nat where "max_description_length = 1024"

section \<open>Identifier grammar\<close>

datatype id_validation = Id_Ok | Id_Empty | Id_TooLong | Id_InvalidCharacter | Id_LeadingSeparator
    | Id_TrailingSeparator | Id_DotDot

primrec id_validation_to_string :: "id_validation \<Rightarrow> string" where
  "id_validation_to_string Id_Ok = ''OK''"
| "id_validation_to_string Id_Empty = ''EMPTY''"
| "id_validation_to_string Id_TooLong = ''TOO_LONG''"
| "id_validation_to_string Id_InvalidCharacter = ''INVALID_CHARACTER''"
| "id_validation_to_string Id_LeadingSeparator = ''LEADING_SEPARATOR''"
| "id_validation_to_string Id_TrailingSeparator = ''TRAILING_SEPARATOR''"
| "id_validation_to_string Id_DotDot = ''DOT_DOT''"

definition all_id_validation :: "id_validation list" where
  "all_id_validation = [Id_Ok, Id_Empty, Id_TooLong, Id_InvalidCharacter, Id_LeadingSeparator,
     Id_TrailingSeparator, Id_DotDot]"

definition is_alphanumeric :: "char \<Rightarrow> bool" where
  "is_alphanumeric ch \<longleftrightarrow>
     (let c = (of_char ch :: nat)
      in (48 \<le> c \<and> c \<le> 57) \<or> (65 \<le> c \<and> c \<le> 90) \<or> (97 \<le> c \<and> c \<le> 122))"

definition is_interior :: "char \<Rightarrow> bool" where
  "is_interior ch \<longleftrightarrow> is_alphanumeric ch \<or> ch = CHR ''-'' \<or> ch = CHR ''_'' \<or> ch = CHR ''.'' \<or>
     ch = CHR '':'' \<or> ch = CHR ''/''"

fun has_dot_dot :: "string \<Rightarrow> bool" where
  "has_dot_dot (a # b # rest) = ((a = CHR ''.'' \<and> b = CHR ''.'') \<or> has_dot_dot (b # rest))"
| "has_dot_dot _ = False"

definition validate_identifier :: "string \<Rightarrow> id_validation" where
  "validate_identifier value =
     (if value = [] then Id_Empty
      else if max_identifier_length < length value then Id_TooLong
      else if has_dot_dot value then Id_DotDot
      else if \<not> is_alphanumeric (hd value) then Id_LeadingSeparator
      else if \<not> is_alphanumeric (last value) then Id_TrailingSeparator
      else if \<not> list_all is_interior value then Id_InvalidCharacter
      else Id_Ok)"

type_synonym strong_id = string

definition id_from_validated :: "string \<Rightarrow> strong_id" where
  "id_from_validated value = (if validate_identifier value \<noteq> Id_Ok then [] else value)"

definition id_parse :: "string \<Rightarrow> strong_id option" where
  "id_parse value =
     (if validate_identifier value \<noteq> Id_Ok then None else Some (id_from_validated value))"

definition id_valid :: "strong_id \<Rightarrow> bool" where
  "id_valid i \<longleftrightarrow> i \<noteq> []"

definition id_hash_of :: "string \<Rightarrow> u64" where
  "id_hash_of value =
     (let hash = foldl (\<lambda>h ch. (h XOR of_char ch) * 1099511628211) 1469598103934665603 value
      in if hash = 0 then 1 else hash)"

text \<open>
  The identifiers the class can hold: the null identifier or a valid encoding. Every
  constructor of the class establishes this.
\<close>

definition id_wf :: "strong_id \<Rightarrow> bool" where
  "id_wf i \<longleftrightarrow> i = [] \<or> validate_identifier i = Id_Ok"

lemma id_wf_from_validated [simp]: "id_wf (id_from_validated v)"
  by (simp add: id_wf_def id_from_validated_def)

lemma validate_identifier_Ok_iff:
  "validate_identifier v = Id_Ok \<longleftrightarrow>
     v \<noteq> [] \<and> length v \<le> 128 \<and> \<not> has_dot_dot v \<and> is_alphanumeric (hd v) \<and>
     is_alphanumeric (last v) \<and> list_all is_interior v"
  by (auto simp: validate_identifier_def max_identifier_length_def)

lemma id_parse_Some_iff: "id_parse v = Some i \<longleftrightarrow> validate_identifier v = Id_Ok \<and> i = v"
  by (auto simp: id_parse_def id_from_validated_def)

lemma id_hash_nonzero: "id_hash_of v \<noteq> 0"
  by (simp add: id_hash_of_def Let_def)

lemma has_dot_dot_append:
  "has_dot_dot (xs @ ys) \<longleftrightarrow>
     has_dot_dot xs \<or> has_dot_dot ys \<or>
     (xs \<noteq> [] \<and> ys \<noteq> [] \<and> last xs = CHR ''.'' \<and> hd ys = CHR ''.'')"
proof (induction xs)
  case Nil
  then show ?case by simp
next
  case (Cons x xs)
  then show ?case by (cases xs; cases ys) auto
qed

lemma is_digit_alphanumeric: "is_digit c \<Longrightarrow> is_alphanumeric c"
  by (simp add: is_digit_def is_alphanumeric_def Let_def)

lemma is_alphanumeric_interior: "is_alphanumeric c \<Longrightarrow> is_interior c"
  by (simp add: is_interior_def)

lemma not_dot_alphanumeric [simp]: "\<not> is_alphanumeric (CHR ''.'')"
  by (simp add: is_alphanumeric_def Let_def)

lemma digits_no_dot_dot: "list_all is_digit ds \<Longrightarrow> \<not> has_dot_dot ds"
proof (induction ds rule: has_dot_dot.induct)
  case (1 a b rest)
  then show ?case by (auto dest: is_digit_alphanumeric)
qed simp_all

lemma has_dot_dot_take: "\<not> has_dot_dot xs \<Longrightarrow> \<not> has_dot_dot (take n xs)"
  using has_dot_dot_append [of "take n xs" "drop n xs"] by simp

section \<open>Composed identifiers\<close>

definition compose_identifier :: "string \<Rightarrow> string \<Rightarrow> u64 \<Rightarrow> string" where
  "compose_identifier prefix identity generation =
     (let generation_text = format_u64 generation;
          candidate = prefix @ ''-'' @ identity @ ''-'' @ generation_text
      in if length candidate \<le> max_identifier_length then candidate
         else let suffix = ''-'' @ format_u64 (fnv1a identity) @ ''-'' @ generation_text;
                  budget = max_identifier_length - length prefix - 1 - length suffix;
                  folded = prefix @ ''-'' @ take budget identity @ suffix
              in if max_identifier_length < length folded then take max_identifier_length folded
                 else folded)"

lemma digits_interior: "list_all is_digit ds \<Longrightarrow> list_all is_interior ds"
  by (auto simp: list_all_iff is_digit_alphanumeric is_alphanumeric_interior)

text \<open>
  A separator-joined text of alphanumeric-bounded parts stays inside the grammar; this is the
  shape both branches of the composition have.
\<close>

lemma joined_valid:
  assumes "prefix \<noteq> []" "list_all is_interior prefix" "\<not> has_dot_dot prefix"
    and "is_alphanumeric (hd prefix)"
    and "list_all is_interior body" "\<not> has_dot_dot body"
    and "list_all is_digit ds" "ds \<noteq> []"
    and "length (prefix @ ''-'' @ body @ ''-'' @ ds) \<le> 128"
  shows "validate_identifier (prefix @ ''-'' @ body @ ''-'' @ ds) = Id_Ok"
proof -
  have "is_interior (CHR ''-'')" by (simp add: is_interior_def)
  moreover have "is_alphanumeric (last ds)"
    using assms(7,8) by (auto simp: list_all_iff is_digit_alphanumeric)
  moreover have "hd ds \<noteq> CHR ''.''"
    using assms(7,8) by (metis hd_in_set is_digit_alphanumeric list_all_iff not_dot_alphanumeric)
  moreover have "\<not> has_dot_dot ([c] :: string)" for c by simp
  ultimately show ?thesis
    using assms digits_no_dot_dot [of ds] digits_interior [of ds] has_dot_dot_append [of "''-''" ds]
      has_dot_dot_append [of body "''-'' @ ds"] has_dot_dot_append [of "''-''" "body @ ''-'' @ ds"]
      has_dot_dot_append [of prefix "''-'' @ body @ ''-'' @ ds"]
    by (simp add: validate_identifier_Ok_iff)
qed

lemma valid_parts:
  "validate_identifier v = Id_Ok \<Longrightarrow>
   v \<noteq> [] \<and> list_all is_interior v \<and> \<not> has_dot_dot v \<and> is_alphanumeric (hd v) \<and> length v \<le> 128"
  by (simp add: validate_identifier_Ok_iff)

lemma compose_short:
  assumes "validate_identifier prefix = Id_Ok" "validate_identifier identity = Id_Ok"
    and "length (prefix @ ''-'' @ identity @ ''-'' @ format_u64 g) \<le> 128"
  shows "validate_identifier (prefix @ ''-'' @ identity @ ''-'' @ format_u64 g) = Id_Ok"
  using valid_parts [OF assms(1)] valid_parts [OF assms(2)] assms(3) format_u64_digits [of g]
  by (intro joined_valid) simp_all

lemma compose_folded:
  assumes "validate_identifier prefix = Id_Ok" "validate_identifier identity = Id_Ok"
    and "length (prefix @ ''-'' @ (take n identity @ ''-'' @ format_u64 h) @ ''-'' @ format_u64 g) \<le> 128"
  shows "validate_identifier
           (prefix @ ''-'' @ (take n identity @ ''-'' @ format_u64 h) @ ''-'' @ format_u64 g) = Id_Ok"
proof (rule joined_valid [OF _ _ _ _ _ _ _ _ assms(3)])
  note v = valid_parts [OF assms(1)] valid_parts [OF assms(2)]
  have digits: "list_all is_digit (format_u64 h)" by (rule format_u64_digits)
  show "list_all is_interior (take n identity @ ''-'' @ format_u64 h)"
    using v digits_interior [OF digits]
    by (auto simp: list_all_iff is_interior_def dest: in_set_takeD)
  have "\<not> has_dot_dot (''-'' @ format_u64 h)"
    using digits_no_dot_dot [OF digits] has_dot_dot_append [of "''-''" "format_u64 h"] by simp
  then show "\<not> has_dot_dot (take n identity @ ''-'' @ format_u64 h)"
    using v has_dot_dot_take [of identity n]
      has_dot_dot_append [of "take n identity" "''-'' @ format_u64 h"] by simp
qed (use valid_parts [OF assms(1)] format_u64_digits in simp_all)

text \<open>The identifier that the engine composes from a valid prefix, a valid
  identity and any generation is always a valid identifier: whether or not the long form has
  to be folded into a hash, the result is non-empty, at most 128 bytes long, free of "..", and
  bounded by alphanumeric bytes.\<close>

theorem compose_identifier_valid:
  assumes "validate_identifier prefix = Id_Ok" "validate_identifier identity = Id_Ok"
    and "length prefix \<le> 85"
  shows "validate_identifier (compose_identifier prefix identity generation) = Id_Ok"
proof (cases "length (prefix @ ''-'' @ identity @ ''-'' @ format_u64 generation) \<le> 128")
  case True
  with compose_short [OF assms(1,2) True] show ?thesis
    by (simp add: compose_identifier_def max_identifier_length_def)
next
  case False
  define budget where "budget = 128 - length prefix - 1 -
    length (''-'' @ format_u64 (fnv1a identity) @ ''-'' @ format_u64 generation)"
  let ?folded = "prefix @ ''-'' @ (take budget identity @ ''-'' @ format_u64 (fnv1a identity)) @
    ''-'' @ format_u64 generation"
  have "length ?folded \<le> 128"
    using assms(3) format_u64_length [of generation] format_u64_length [of "fnv1a identity"]
    by (simp add: budget_def)
  moreover from this have "validate_identifier ?folded = Id_Ok"
    by (rule compose_folded [OF assms(1,2)])
  moreover have "compose_identifier prefix identity generation = ?folded"
    using False calculation(1)
    by (simp add: compose_identifier_def max_identifier_length_def Let_def budget_def)
  ultimately show ?thesis by simp
qed

theorem compose_identifier_valid_witness:
  "validate_identifier (compose_identifier ''cfg'' ''leaf-1/eth0'' 7) = Id_Ok"
  by (rule compose_identifier_valid)
    (simp_all add: validate_identifier_Ok_iff is_interior_def is_alphanumeric_def)

section \<open>Entity classes\<close>

datatype port_entity_class = PEC_Unknown | PEC_SwitchPort | PEC_RouterPort | PEC_NicPort
    | PEC_SmartNicPort | PEC_DpuPort | PEC_LogicalPort | PEC_SyntheticPort

primrec port_entity_class_to_string :: "port_entity_class \<Rightarrow> string" where
  "port_entity_class_to_string PEC_Unknown = ''UNKNOWN''"
| "port_entity_class_to_string PEC_SwitchPort = ''SWITCH_PORT''"
| "port_entity_class_to_string PEC_RouterPort = ''ROUTER_PORT''"
| "port_entity_class_to_string PEC_NicPort = ''NIC_PORT''"
| "port_entity_class_to_string PEC_SmartNicPort = ''SMARTNIC_PORT''"
| "port_entity_class_to_string PEC_DpuPort = ''DPU_PORT''"
| "port_entity_class_to_string PEC_LogicalPort = ''LOGICAL_PORT''"
| "port_entity_class_to_string PEC_SyntheticPort = ''SYNTHETIC_PORT''"

definition all_port_entity_class :: "port_entity_class list" where
  "all_port_entity_class = [PEC_Unknown, PEC_SwitchPort, PEC_RouterPort, PEC_NicPort,
     PEC_SmartNicPort, PEC_DpuPort, PEC_LogicalPort, PEC_SyntheticPort]"

definition port_entity_class_table :: "(string \<times> port_entity_class) list" where
  "port_entity_class_table = [(''UNKNOWN'', PEC_Unknown), (''SWITCH_PORT'', PEC_SwitchPort),
     (''ROUTER_PORT'', PEC_RouterPort), (''NIC_PORT'', PEC_NicPort),
     (''SMARTNIC_PORT'', PEC_SmartNicPort), (''DPU_PORT'', PEC_DpuPort),
     (''LOGICAL_PORT'', PEC_LogicalPort), (''SYNTHETIC_PORT'', PEC_SyntheticPort)]"

definition parse_port_entity_class :: "string \<Rightarrow> port_entity_class option" where
  "parse_port_entity_class t = first_match t port_entity_class_table"

interpretation port_entity_class_text: enum_text port_entity_class_to_string port_entity_class_table all_port_entity_class
proof
  show "port_entity_class_table = map (\<lambda>e. (port_entity_class_to_string e, e)) all_port_entity_class"
    by (simp add: port_entity_class_table_def all_port_entity_class_def)
  show "e \<in> set all_port_entity_class" for e
    by (cases e) (simp_all add: all_port_entity_class_def)
  show "distinct (map port_entity_class_to_string all_port_entity_class)"
    by (simp add: all_port_entity_class_def)
qed

primrec is_valid_port_entity_class :: "port_entity_class \<Rightarrow> bool" where
  "is_valid_port_entity_class PEC_Unknown = True"
| "is_valid_port_entity_class PEC_SwitchPort = True"
| "is_valid_port_entity_class PEC_RouterPort = True"
| "is_valid_port_entity_class PEC_NicPort = True"
| "is_valid_port_entity_class PEC_SmartNicPort = True"
| "is_valid_port_entity_class PEC_DpuPort = True"
| "is_valid_port_entity_class PEC_LogicalPort = True"
| "is_valid_port_entity_class PEC_SyntheticPort = True"

lemma is_valid_port_entity_class_True [simp]: "is_valid_port_entity_class e"
  by (cases e) simp_all

end
