(* ===== verification/Outcome_Code.thy ===== *)
theory Outcome_Code
  imports Text
begin

text \<open>
  The result codes of \<open>include/portfabric/outcome.hpp\<close> with their renderings and
  classification in \<open>src/outcome.cpp\<close>.
\<close>

datatype (plugins only: code) outcome_code = OC_Ok | OC_Idempotent | OC_AlreadyCurrent
    | OC_MalformedRequest | OC_UnknownPort | OC_UnknownDevice | OC_UnknownProfile
    | OC_UnknownPublisher | OC_UnknownOwnership | OC_UnknownAggregate | OC_WrongEntityClass
    | OC_DuplicateRecord | OC_ResourceBoundExceeded | OC_InvalidText | OC_InvalidEnumValue
    | OC_StaleDeviceGeneration | OC_StaleTopologyGeneration | OC_StaleConfigurationGeneration
    | OC_StaleCapabilityGeneration | OC_StaleWorkerBoot | OC_StaleCoordinatorEpoch
    | OC_StaleOwnershipGeneration | OC_UnauthorizedOwner | OC_OwnershipConflict
    | OC_PublisherFenced | OC_FencedByRestart | OC_UnsupportedConfiguration | OC_CapabilityUnknown
    | OC_CapabilityUnavailable | OC_InvalidLifecycleTransition | OC_InvalidConfiguration
    | OC_InvalidSpeed | OC_InvalidMtu | OC_InvalidLaneConfiguration | OC_InvalidBreakout
    | OC_InvalidProfile | OC_PortRetired | OC_PortSuperseded | OC_RevalidationRequired
    | OC_DriftDetected | OC_ConflictDetected | OC_TransceiverUnknown | OC_ApplyFailed
    | OC_ApplyOutcomeUnknown | OC_ReadbackMismatch | OC_AdapterUnavailable
    | OC_PersistenceCorruption | OC_PersistenceVersionUnsupported | OC_PersistenceIoFailure
    | OC_PersistenceBoundsExceeded | OC_TransportFailure | OC_InternalError | OC_ShuttingDown

primrec outcome_code_to_string :: "outcome_code \<Rightarrow> string" where
  "outcome_code_to_string OC_Ok = ''OK''"
| "outcome_code_to_string OC_Idempotent = ''IDEMPOTENT''"
| "outcome_code_to_string OC_AlreadyCurrent = ''ALREADY_CURRENT''"
| "outcome_code_to_string OC_MalformedRequest = ''MALFORMED_REQUEST''"
| "outcome_code_to_string OC_UnknownPort = ''UNKNOWN_PORT''"
| "outcome_code_to_string OC_UnknownDevice = ''UNKNOWN_DEVICE''"
| "outcome_code_to_string OC_UnknownProfile = ''UNKNOWN_PROFILE''"
| "outcome_code_to_string OC_UnknownPublisher = ''UNKNOWN_PUBLISHER''"
| "outcome_code_to_string OC_UnknownOwnership = ''UNKNOWN_OWNERSHIP''"
| "outcome_code_to_string OC_UnknownAggregate = ''UNKNOWN_AGGREGATE''"
| "outcome_code_to_string OC_WrongEntityClass = ''WRONG_ENTITY_CLASS''"
| "outcome_code_to_string OC_DuplicateRecord = ''DUPLICATE_RECORD''"
| "outcome_code_to_string OC_ResourceBoundExceeded = ''RESOURCE_BOUND_EXCEEDED''"
| "outcome_code_to_string OC_InvalidText = ''INVALID_TEXT''"
| "outcome_code_to_string OC_InvalidEnumValue = ''INVALID_ENUM_VALUE''"
| "outcome_code_to_string OC_StaleDeviceGeneration = ''STALE_DEVICE_GENERATION''"
| "outcome_code_to_string OC_StaleTopologyGeneration = ''STALE_TOPOLOGY_GENERATION''"
| "outcome_code_to_string OC_StaleConfigurationGeneration = ''STALE_CONFIGURATION_GENERATION''"
| "outcome_code_to_string OC_StaleCapabilityGeneration = ''STALE_CAPABILITY_GENERATION''"
| "outcome_code_to_string OC_StaleWorkerBoot = ''STALE_WORKER_BOOT''"
| "outcome_code_to_string OC_StaleCoordinatorEpoch = ''STALE_COORDINATOR_EPOCH''"
| "outcome_code_to_string OC_StaleOwnershipGeneration = ''STALE_OWNERSHIP_GENERATION''"
| "outcome_code_to_string OC_UnauthorizedOwner = ''UNAUTHORIZED_OWNER''"
| "outcome_code_to_string OC_OwnershipConflict = ''OWNERSHIP_CONFLICT''"
| "outcome_code_to_string OC_PublisherFenced = ''PUBLISHER_FENCED''"
| "outcome_code_to_string OC_FencedByRestart = ''FENCED_BY_RESTART''"
| "outcome_code_to_string OC_UnsupportedConfiguration = ''UNSUPPORTED_CONFIGURATION''"
| "outcome_code_to_string OC_CapabilityUnknown = ''CAPABILITY_UNKNOWN''"
| "outcome_code_to_string OC_CapabilityUnavailable = ''CAPABILITY_UNAVAILABLE''"
| "outcome_code_to_string OC_InvalidLifecycleTransition = ''INVALID_LIFECYCLE_TRANSITION''"
| "outcome_code_to_string OC_InvalidConfiguration = ''INVALID_CONFIGURATION''"
| "outcome_code_to_string OC_InvalidSpeed = ''INVALID_SPEED''"
| "outcome_code_to_string OC_InvalidMtu = ''INVALID_MTU''"
| "outcome_code_to_string OC_InvalidLaneConfiguration = ''INVALID_LANE_CONFIGURATION''"
| "outcome_code_to_string OC_InvalidBreakout = ''INVALID_BREAKOUT''"
| "outcome_code_to_string OC_InvalidProfile = ''INVALID_PROFILE''"
| "outcome_code_to_string OC_PortRetired = ''PORT_RETIRED''"
| "outcome_code_to_string OC_PortSuperseded = ''PORT_SUPERSEDED''"
| "outcome_code_to_string OC_RevalidationRequired = ''REVALIDATION_REQUIRED''"
| "outcome_code_to_string OC_DriftDetected = ''DRIFT_DETECTED''"
| "outcome_code_to_string OC_ConflictDetected = ''CONFLICT_DETECTED''"
| "outcome_code_to_string OC_TransceiverUnknown = ''TRANSCEIVER_UNKNOWN''"
| "outcome_code_to_string OC_ApplyFailed = ''APPLY_FAILED''"
| "outcome_code_to_string OC_ApplyOutcomeUnknown = ''APPLY_OUTCOME_UNKNOWN''"
| "outcome_code_to_string OC_ReadbackMismatch = ''READBACK_MISMATCH''"
| "outcome_code_to_string OC_AdapterUnavailable = ''ADAPTER_UNAVAILABLE''"
| "outcome_code_to_string OC_PersistenceCorruption = ''PERSISTENCE_CORRUPTION''"
| "outcome_code_to_string OC_PersistenceVersionUnsupported = ''PERSISTENCE_VERSION_UNSUPPORTED''"
| "outcome_code_to_string OC_PersistenceIoFailure = ''PERSISTENCE_IO_FAILURE''"
| "outcome_code_to_string OC_PersistenceBoundsExceeded = ''PERSISTENCE_BOUNDS_EXCEEDED''"
| "outcome_code_to_string OC_TransportFailure = ''TRANSPORT_FAILURE''"
| "outcome_code_to_string OC_InternalError = ''INTERNAL_ERROR''"
| "outcome_code_to_string OC_ShuttingDown = ''SHUTTING_DOWN''"

definition all_outcome_code :: "outcome_code list" where
  "all_outcome_code = [OC_Ok, OC_Idempotent, OC_AlreadyCurrent, OC_MalformedRequest,
     OC_UnknownPort, OC_UnknownDevice, OC_UnknownProfile, OC_UnknownPublisher,
     OC_UnknownOwnership, OC_UnknownAggregate, OC_WrongEntityClass, OC_DuplicateRecord,
     OC_ResourceBoundExceeded, OC_InvalidText, OC_InvalidEnumValue, OC_StaleDeviceGeneration,
     OC_StaleTopologyGeneration, OC_StaleConfigurationGeneration, OC_StaleCapabilityGeneration,
     OC_StaleWorkerBoot, OC_StaleCoordinatorEpoch, OC_StaleOwnershipGeneration,
     OC_UnauthorizedOwner, OC_OwnershipConflict, OC_PublisherFenced, OC_FencedByRestart,
     OC_UnsupportedConfiguration, OC_CapabilityUnknown, OC_CapabilityUnavailable,
     OC_InvalidLifecycleTransition, OC_InvalidConfiguration, OC_InvalidSpeed, OC_InvalidMtu,
     OC_InvalidLaneConfiguration, OC_InvalidBreakout, OC_InvalidProfile, OC_PortRetired,
     OC_PortSuperseded, OC_RevalidationRequired, OC_DriftDetected, OC_ConflictDetected,
     OC_TransceiverUnknown, OC_ApplyFailed, OC_ApplyOutcomeUnknown, OC_ReadbackMismatch,
     OC_AdapterUnavailable, OC_PersistenceCorruption, OC_PersistenceVersionUnsupported,
     OC_PersistenceIoFailure, OC_PersistenceBoundsExceeded, OC_TransportFailure,
     OC_InternalError, OC_ShuttingDown]"

definition is_accepted :: "outcome_code \<Rightarrow> bool" where
  "is_accepted code \<longleftrightarrow> code = OC_Ok \<or> code = OC_Idempotent \<or> code = OC_AlreadyCurrent"

definition advances_generation :: "outcome_code \<Rightarrow> bool" where
  "advances_generation code \<longleftrightarrow> code = OC_Ok"

end
