(* ===== verification/Explanation_Code.thy ===== *)
theory Explanation_Code
  imports Text
begin

text \<open>
  The reason vocabulary of \<open>include/portfabric/explanation.hpp\<close> with its renderings and
  parser in \<open>src/explanation.cpp\<close>.
\<close>

datatype (plugins only: code) explanation_code = EC_Accepted | EC_IdempotentReplay
    | EC_AlreadyCurrent | EC_RejectedMalformedRequest | EC_RejectedUnknownPort
    | EC_RejectedWrongEntityClass | EC_RejectedStaleConfigurationGeneration
    | EC_RejectedStaleCapabilityGeneration | EC_RejectedStaleTopologyGeneration
    | EC_RejectedStaleDeviceGeneration | EC_RejectedStaleWorkerBoot
    | EC_RejectedStaleCoordinatorEpoch | EC_RejectedStaleOwnershipGeneration
    | EC_RejectedUnauthorizedOwner | EC_RejectedOwnershipConflict | EC_RejectedPublisherFenced
    | EC_RejectedFencedByRestart | EC_RejectedUnsupportedConfiguration
    | EC_RejectedCapabilityUnknown | EC_RejectedCapabilityUnavailable
    | EC_RejectedTransceiverUnknown | EC_RejectedInvalidLifecycleTransition
    | EC_RejectedInvalidConfiguration | EC_RejectedInvalidSpeed | EC_RejectedInvalidMtu
    | EC_RejectedInvalidLaneConfiguration | EC_RejectedInvalidBreakout | EC_RejectedInvalidProfile
    | EC_RejectedPortRetired | EC_RejectedPortSuperseded | EC_RejectedRevalidationRequired
    | EC_RejectedDriftDetected | EC_RejectedConflictDetected | EC_RejectedApplyFailed
    | EC_RejectedApplyOutcomeUnknown | EC_RejectedReadbackMismatch | EC_RejectedAdapterUnavailable
    | EC_RejectedUnknownProfile | EC_RejectedDuplicateRecord | EC_RejectedResourceBoundExceeded
    | EC_RejectedPersistenceCorruption | EC_RejectedPersistenceVersionUnsupported
    | EC_RejectedPersistenceIoFailure | EC_RejectedPersistenceBoundsExceeded
    | EC_RejectedTransportFailure | EC_RejectedInternalError | EC_RejectedShuttingDown
    | EC_LifecycleUnconfigured | EC_LifecycleSuperseded | EC_LifecycleRetired
    | EC_LifecycleRevalidationRequired | EC_LifecycleConflicted | EC_DriftObserved
    | EC_AppliedEvidenceStale | EC_AppliedOutcomeUnknownPending | EC_CapabilityGenerationAdvanced
    | EC_TopologyGenerationAdvanced | EC_DeviceGenerationAdvanced | EC_RecoveredFromPersistence
    | EC_PublisherFenced | EC_OwnershipHeld | EC_ProfileBound | EC_ConfigurationCommitted

primrec explanation_code_to_string :: "explanation_code \<Rightarrow> string" where
  "explanation_code_to_string EC_Accepted = ''ACCEPTED''"
| "explanation_code_to_string EC_IdempotentReplay = ''IDEMPOTENT_REPLAY''"
| "explanation_code_to_string EC_AlreadyCurrent = ''ALREADY_CURRENT''"
| "explanation_code_to_string EC_RejectedMalformedRequest = ''REJECTED_MALFORMED_REQUEST''"
| "explanation_code_to_string EC_RejectedUnknownPort = ''REJECTED_UNKNOWN_PORT''"
| "explanation_code_to_string EC_RejectedWrongEntityClass = ''REJECTED_WRONG_ENTITY_CLASS''"
| "explanation_code_to_string EC_RejectedStaleConfigurationGeneration = ''REJECTED_STALE_CONFIGURATION_GENERATION''"
| "explanation_code_to_string EC_RejectedStaleCapabilityGeneration = ''REJECTED_STALE_CAPABILITY_GENERATION''"
| "explanation_code_to_string EC_RejectedStaleTopologyGeneration = ''REJECTED_STALE_TOPOLOGY_GENERATION''"
| "explanation_code_to_string EC_RejectedStaleDeviceGeneration = ''REJECTED_STALE_DEVICE_GENERATION''"
| "explanation_code_to_string EC_RejectedStaleWorkerBoot = ''REJECTED_STALE_WORKER_BOOT''"
| "explanation_code_to_string EC_RejectedStaleCoordinatorEpoch = ''REJECTED_STALE_COORDINATOR_EPOCH''"
| "explanation_code_to_string EC_RejectedStaleOwnershipGeneration = ''REJECTED_STALE_OWNERSHIP_GENERATION''"
| "explanation_code_to_string EC_RejectedUnauthorizedOwner = ''REJECTED_UNAUTHORIZED_OWNER''"
| "explanation_code_to_string EC_RejectedOwnershipConflict = ''REJECTED_OWNERSHIP_CONFLICT''"
| "explanation_code_to_string EC_RejectedPublisherFenced = ''REJECTED_PUBLISHER_FENCED''"
| "explanation_code_to_string EC_RejectedFencedByRestart = ''REJECTED_FENCED_BY_RESTART''"
| "explanation_code_to_string EC_RejectedUnsupportedConfiguration = ''REJECTED_UNSUPPORTED_CONFIGURATION''"
| "explanation_code_to_string EC_RejectedCapabilityUnknown = ''REJECTED_CAPABILITY_UNKNOWN''"
| "explanation_code_to_string EC_RejectedCapabilityUnavailable = ''REJECTED_CAPABILITY_UNAVAILABLE''"
| "explanation_code_to_string EC_RejectedTransceiverUnknown = ''REJECTED_TRANSCEIVER_UNKNOWN''"
| "explanation_code_to_string EC_RejectedInvalidLifecycleTransition = ''REJECTED_INVALID_LIFECYCLE_TRANSITION''"
| "explanation_code_to_string EC_RejectedInvalidConfiguration = ''REJECTED_INVALID_CONFIGURATION''"
| "explanation_code_to_string EC_RejectedInvalidSpeed = ''REJECTED_INVALID_SPEED''"
| "explanation_code_to_string EC_RejectedInvalidMtu = ''REJECTED_INVALID_MTU''"
| "explanation_code_to_string EC_RejectedInvalidLaneConfiguration = ''REJECTED_INVALID_LANE_CONFIGURATION''"
| "explanation_code_to_string EC_RejectedInvalidBreakout = ''REJECTED_INVALID_BREAKOUT''"
| "explanation_code_to_string EC_RejectedInvalidProfile = ''REJECTED_INVALID_PROFILE''"
| "explanation_code_to_string EC_RejectedPortRetired = ''REJECTED_PORT_RETIRED''"
| "explanation_code_to_string EC_RejectedPortSuperseded = ''REJECTED_PORT_SUPERSEDED''"
| "explanation_code_to_string EC_RejectedRevalidationRequired = ''REJECTED_REVALIDATION_REQUIRED''"
| "explanation_code_to_string EC_RejectedDriftDetected = ''REJECTED_DRIFT_DETECTED''"
| "explanation_code_to_string EC_RejectedConflictDetected = ''REJECTED_CONFLICT_DETECTED''"
| "explanation_code_to_string EC_RejectedApplyFailed = ''REJECTED_APPLY_FAILED''"
| "explanation_code_to_string EC_RejectedApplyOutcomeUnknown = ''REJECTED_APPLY_OUTCOME_UNKNOWN''"
| "explanation_code_to_string EC_RejectedReadbackMismatch = ''REJECTED_READBACK_MISMATCH''"
| "explanation_code_to_string EC_RejectedAdapterUnavailable = ''REJECTED_ADAPTER_UNAVAILABLE''"
| "explanation_code_to_string EC_RejectedUnknownProfile = ''REJECTED_UNKNOWN_PROFILE''"
| "explanation_code_to_string EC_RejectedDuplicateRecord = ''REJECTED_DUPLICATE_RECORD''"
| "explanation_code_to_string EC_RejectedResourceBoundExceeded = ''REJECTED_RESOURCE_BOUND_EXCEEDED''"
| "explanation_code_to_string EC_RejectedPersistenceCorruption = ''REJECTED_PERSISTENCE_CORRUPTION''"
| "explanation_code_to_string EC_RejectedPersistenceVersionUnsupported = ''REJECTED_PERSISTENCE_VERSION_UNSUPPORTED''"
| "explanation_code_to_string EC_RejectedPersistenceIoFailure = ''REJECTED_PERSISTENCE_IO_FAILURE''"
| "explanation_code_to_string EC_RejectedPersistenceBoundsExceeded = ''REJECTED_PERSISTENCE_BOUNDS_EXCEEDED''"
| "explanation_code_to_string EC_RejectedTransportFailure = ''REJECTED_TRANSPORT_FAILURE''"
| "explanation_code_to_string EC_RejectedInternalError = ''REJECTED_INTERNAL_ERROR''"
| "explanation_code_to_string EC_RejectedShuttingDown = ''REJECTED_SHUTTING_DOWN''"
| "explanation_code_to_string EC_LifecycleUnconfigured = ''LIFECYCLE_UNCONFIGURED''"
| "explanation_code_to_string EC_LifecycleSuperseded = ''LIFECYCLE_SUPERSEDED''"
| "explanation_code_to_string EC_LifecycleRetired = ''LIFECYCLE_RETIRED''"
| "explanation_code_to_string EC_LifecycleRevalidationRequired = ''LIFECYCLE_REVALIDATION_REQUIRED''"
| "explanation_code_to_string EC_LifecycleConflicted = ''LIFECYCLE_CONFLICTED''"
| "explanation_code_to_string EC_DriftObserved = ''DRIFT_OBSERVED''"
| "explanation_code_to_string EC_AppliedEvidenceStale = ''APPLIED_EVIDENCE_STALE''"
| "explanation_code_to_string EC_AppliedOutcomeUnknownPending = ''APPLIED_OUTCOME_UNKNOWN_PENDING''"
| "explanation_code_to_string EC_CapabilityGenerationAdvanced = ''CAPABILITY_GENERATION_ADVANCED''"
| "explanation_code_to_string EC_TopologyGenerationAdvanced = ''TOPOLOGY_GENERATION_ADVANCED''"
| "explanation_code_to_string EC_DeviceGenerationAdvanced = ''DEVICE_GENERATION_ADVANCED''"
| "explanation_code_to_string EC_RecoveredFromPersistence = ''RECOVERED_FROM_PERSISTENCE''"
| "explanation_code_to_string EC_PublisherFenced = ''PUBLISHER_FENCED''"
| "explanation_code_to_string EC_OwnershipHeld = ''OWNERSHIP_HELD''"
| "explanation_code_to_string EC_ProfileBound = ''PROFILE_BOUND''"
| "explanation_code_to_string EC_ConfigurationCommitted = ''CONFIGURATION_COMMITTED''"

definition all_explanation_code :: "explanation_code list" where
  "all_explanation_code = [EC_Accepted, EC_IdempotentReplay, EC_AlreadyCurrent,
     EC_RejectedMalformedRequest, EC_RejectedUnknownPort, EC_RejectedWrongEntityClass,
     EC_RejectedStaleConfigurationGeneration, EC_RejectedStaleCapabilityGeneration,
     EC_RejectedStaleTopologyGeneration, EC_RejectedStaleDeviceGeneration,
     EC_RejectedStaleWorkerBoot, EC_RejectedStaleCoordinatorEpoch,
     EC_RejectedStaleOwnershipGeneration, EC_RejectedUnauthorizedOwner,
     EC_RejectedOwnershipConflict, EC_RejectedPublisherFenced, EC_RejectedFencedByRestart,
     EC_RejectedUnsupportedConfiguration, EC_RejectedCapabilityUnknown,
     EC_RejectedCapabilityUnavailable, EC_RejectedTransceiverUnknown,
     EC_RejectedInvalidLifecycleTransition, EC_RejectedInvalidConfiguration,
     EC_RejectedInvalidSpeed, EC_RejectedInvalidMtu, EC_RejectedInvalidLaneConfiguration,
     EC_RejectedInvalidBreakout, EC_RejectedInvalidProfile, EC_RejectedPortRetired,
     EC_RejectedPortSuperseded, EC_RejectedRevalidationRequired, EC_RejectedDriftDetected,
     EC_RejectedConflictDetected, EC_RejectedApplyFailed, EC_RejectedApplyOutcomeUnknown,
     EC_RejectedReadbackMismatch, EC_RejectedAdapterUnavailable, EC_RejectedUnknownProfile,
     EC_RejectedDuplicateRecord, EC_RejectedResourceBoundExceeded,
     EC_RejectedPersistenceCorruption, EC_RejectedPersistenceVersionUnsupported,
     EC_RejectedPersistenceIoFailure, EC_RejectedPersistenceBoundsExceeded,
     EC_RejectedTransportFailure, EC_RejectedInternalError, EC_RejectedShuttingDown,
     EC_LifecycleUnconfigured, EC_LifecycleSuperseded, EC_LifecycleRetired,
     EC_LifecycleRevalidationRequired, EC_LifecycleConflicted, EC_DriftObserved,
     EC_AppliedEvidenceStale, EC_AppliedOutcomeUnknownPending, EC_CapabilityGenerationAdvanced,
     EC_TopologyGenerationAdvanced, EC_DeviceGenerationAdvanced, EC_RecoveredFromPersistence,
     EC_PublisherFenced, EC_OwnershipHeld, EC_ProfileBound, EC_ConfigurationCommitted]"

definition explanation_code_table :: "(string \<times> explanation_code) list" where
  "explanation_code_table = [(''ACCEPTED'', EC_Accepted),
     (''IDEMPOTENT_REPLAY'', EC_IdempotentReplay), (''ALREADY_CURRENT'', EC_AlreadyCurrent),
     (''REJECTED_MALFORMED_REQUEST'', EC_RejectedMalformedRequest),
     (''REJECTED_UNKNOWN_PORT'', EC_RejectedUnknownPort),
     (''REJECTED_WRONG_ENTITY_CLASS'', EC_RejectedWrongEntityClass),
     (''REJECTED_STALE_CONFIGURATION_GENERATION'', EC_RejectedStaleConfigurationGeneration),
     (''REJECTED_STALE_CAPABILITY_GENERATION'', EC_RejectedStaleCapabilityGeneration),
     (''REJECTED_STALE_TOPOLOGY_GENERATION'', EC_RejectedStaleTopologyGeneration),
     (''REJECTED_STALE_DEVICE_GENERATION'', EC_RejectedStaleDeviceGeneration),
     (''REJECTED_STALE_WORKER_BOOT'', EC_RejectedStaleWorkerBoot),
     (''REJECTED_STALE_COORDINATOR_EPOCH'', EC_RejectedStaleCoordinatorEpoch),
     (''REJECTED_STALE_OWNERSHIP_GENERATION'', EC_RejectedStaleOwnershipGeneration),
     (''REJECTED_UNAUTHORIZED_OWNER'', EC_RejectedUnauthorizedOwner),
     (''REJECTED_OWNERSHIP_CONFLICT'', EC_RejectedOwnershipConflict),
     (''REJECTED_PUBLISHER_FENCED'', EC_RejectedPublisherFenced),
     (''REJECTED_FENCED_BY_RESTART'', EC_RejectedFencedByRestart),
     (''REJECTED_UNSUPPORTED_CONFIGURATION'', EC_RejectedUnsupportedConfiguration),
     (''REJECTED_CAPABILITY_UNKNOWN'', EC_RejectedCapabilityUnknown),
     (''REJECTED_CAPABILITY_UNAVAILABLE'', EC_RejectedCapabilityUnavailable),
     (''REJECTED_TRANSCEIVER_UNKNOWN'', EC_RejectedTransceiverUnknown),
     (''REJECTED_INVALID_LIFECYCLE_TRANSITION'', EC_RejectedInvalidLifecycleTransition),
     (''REJECTED_INVALID_CONFIGURATION'', EC_RejectedInvalidConfiguration),
     (''REJECTED_INVALID_SPEED'', EC_RejectedInvalidSpeed),
     (''REJECTED_INVALID_MTU'', EC_RejectedInvalidMtu),
     (''REJECTED_INVALID_LANE_CONFIGURATION'', EC_RejectedInvalidLaneConfiguration),
     (''REJECTED_INVALID_BREAKOUT'', EC_RejectedInvalidBreakout),
     (''REJECTED_INVALID_PROFILE'', EC_RejectedInvalidProfile),
     (''REJECTED_PORT_RETIRED'', EC_RejectedPortRetired),
     (''REJECTED_PORT_SUPERSEDED'', EC_RejectedPortSuperseded),
     (''REJECTED_REVALIDATION_REQUIRED'', EC_RejectedRevalidationRequired),
     (''REJECTED_DRIFT_DETECTED'', EC_RejectedDriftDetected),
     (''REJECTED_CONFLICT_DETECTED'', EC_RejectedConflictDetected),
     (''REJECTED_APPLY_FAILED'', EC_RejectedApplyFailed),
     (''REJECTED_APPLY_OUTCOME_UNKNOWN'', EC_RejectedApplyOutcomeUnknown),
     (''REJECTED_READBACK_MISMATCH'', EC_RejectedReadbackMismatch),
     (''REJECTED_ADAPTER_UNAVAILABLE'', EC_RejectedAdapterUnavailable),
     (''REJECTED_UNKNOWN_PROFILE'', EC_RejectedUnknownProfile),
     (''REJECTED_DUPLICATE_RECORD'', EC_RejectedDuplicateRecord),
     (''REJECTED_RESOURCE_BOUND_EXCEEDED'', EC_RejectedResourceBoundExceeded),
     (''REJECTED_PERSISTENCE_CORRUPTION'', EC_RejectedPersistenceCorruption),
     (''REJECTED_PERSISTENCE_VERSION_UNSUPPORTED'', EC_RejectedPersistenceVersionUnsupported),
     (''REJECTED_PERSISTENCE_IO_FAILURE'', EC_RejectedPersistenceIoFailure),
     (''REJECTED_PERSISTENCE_BOUNDS_EXCEEDED'', EC_RejectedPersistenceBoundsExceeded),
     (''REJECTED_TRANSPORT_FAILURE'', EC_RejectedTransportFailure),
     (''REJECTED_INTERNAL_ERROR'', EC_RejectedInternalError),
     (''REJECTED_SHUTTING_DOWN'', EC_RejectedShuttingDown),
     (''LIFECYCLE_UNCONFIGURED'', EC_LifecycleUnconfigured),
     (''LIFECYCLE_SUPERSEDED'', EC_LifecycleSuperseded),
     (''LIFECYCLE_RETIRED'', EC_LifecycleRetired),
     (''LIFECYCLE_REVALIDATION_REQUIRED'', EC_LifecycleRevalidationRequired),
     (''LIFECYCLE_CONFLICTED'', EC_LifecycleConflicted), (''DRIFT_OBSERVED'', EC_DriftObserved),
     (''APPLIED_EVIDENCE_STALE'', EC_AppliedEvidenceStale),
     (''APPLIED_OUTCOME_UNKNOWN_PENDING'', EC_AppliedOutcomeUnknownPending),
     (''CAPABILITY_GENERATION_ADVANCED'', EC_CapabilityGenerationAdvanced),
     (''TOPOLOGY_GENERATION_ADVANCED'', EC_TopologyGenerationAdvanced),
     (''DEVICE_GENERATION_ADVANCED'', EC_DeviceGenerationAdvanced),
     (''RECOVERED_FROM_PERSISTENCE'', EC_RecoveredFromPersistence),
     (''PUBLISHER_FENCED'', EC_PublisherFenced), (''OWNERSHIP_HELD'', EC_OwnershipHeld),
     (''PROFILE_BOUND'', EC_ProfileBound),
     (''CONFIGURATION_COMMITTED'', EC_ConfigurationCommitted)]"

definition parse_explanation_code :: "string \<Rightarrow> explanation_code option" where
  "parse_explanation_code t = first_match t explanation_code_table"

interpretation explanation_code_text:
  enum_text explanation_code_to_string explanation_code_table all_explanation_code
proof
  show "explanation_code_table = map (\<lambda>e. (explanation_code_to_string e, e)) all_explanation_code"
    by (simp add: explanation_code_table_def all_explanation_code_def)
  show "e \<in> set all_explanation_code" for e
    by (cases e) (simp_all add: all_explanation_code_def)
  show "distinct (map explanation_code_to_string all_explanation_code)"
    by (simp add: all_explanation_code_def)
qed

end
