(* ===== verification/Outcome.thy ===== *)
theory Outcome
  imports Ids Outcome_Code Explanation_Code
begin

text \<open>
  Result codes, outcomes and explanations: \<open>include/portfabric/outcome.hpp\<close>,
  \<open>src/outcome.cpp\<close>, \<open>include/portfabric/explanation.hpp\<close> and \<open>src/explanation.cpp\<close>.
  An outcome is a code, a message and bounded details; an explanation is a verdict with a
  bounded list of reasons.
\<close>

section \<open>Outcomes\<close>

definition max_outcome_details :: nat where "max_outcome_details = 32"
definition max_explanation_reasons :: nat where "max_explanation_reasons = 64"

record outcome =
  oc_code :: outcome_code
  oc_message :: string
  oc_details :: "(string \<times> string) list"

definition success :: "string \<Rightarrow> outcome" where
  "success message = \<lparr>oc_code = OC_Ok, oc_message = message, oc_details = []\<rparr>"

definition idempotent :: "string \<Rightarrow> outcome" where
  "idempotent message = \<lparr>oc_code = OC_Idempotent, oc_message = message, oc_details = []\<rparr>"

definition current :: "string \<Rightarrow> outcome" where
  "current message = \<lparr>oc_code = OC_AlreadyCurrent, oc_message = message, oc_details = []\<rparr>"

definition failure :: "outcome_code \<Rightarrow> string \<Rightarrow> outcome" where
  "failure code message = \<lparr>oc_code = code, oc_message = message, oc_details = []\<rparr>"

definition outcome_ok :: "outcome \<Rightarrow> bool" where
  "outcome_ok oc \<longleftrightarrow> oc_code oc = OC_Ok"

definition outcome_accepted :: "outcome \<Rightarrow> bool" where
  "outcome_accepted oc \<longleftrightarrow> is_accepted (oc_code oc)"

definition outcome_advanced :: "outcome \<Rightarrow> bool" where
  "outcome_advanced oc \<longleftrightarrow> advances_generation (oc_code oc)"

definition with_message :: "string \<Rightarrow> outcome \<Rightarrow> outcome" where
  "with_message message oc = oc\<lparr>oc_message := take max_description_length (single_line message)\<rparr>"

definition with_detail :: "string \<Rightarrow> string \<Rightarrow> outcome \<Rightarrow> outcome" where
  "with_detail key value oc =
     (if max_outcome_details \<le> length (oc_details oc) then oc
      else oc\<lparr>oc_details := oc_details oc @
             [(take max_name_length (single_line key),
               take max_description_length (single_line value))]\<rparr>)"

definition outcome_to_string :: "outcome \<Rightarrow> string" where
  "outcome_to_string oc =
     outcome_code_to_string (oc_code oc) @ '': '' @
     (if oc_message oc = [] then ''no detail'' else oc_message oc) @
     concat (map (\<lambda>(key, value). '' '' @ key @ ''='' @ value) (oc_details oc))"

lemma oc_code_simps [simp]:
  "oc_code (success m) = OC_Ok" "oc_code (idempotent m) = OC_Idempotent"
  "oc_code (current m) = OC_AlreadyCurrent" "oc_code (failure c m) = c"
  "oc_code (with_detail k v oc) = oc_code oc" "oc_code (with_message m oc) = oc_code oc"
  by (simp_all add: success_def idempotent_def current_def failure_def with_detail_def
      with_message_def)

text \<open>The bound on details holds for every outcome built by the constructors.\<close>

definition outcome_bounded :: "outcome \<Rightarrow> bool" where
  "outcome_bounded oc \<longleftrightarrow> length (oc_details oc) \<le> max_outcome_details \<and>
     (\<forall>(k, v) \<in> set (oc_details oc). length k \<le> max_name_length \<and>
        length v \<le> max_description_length)"

lemma outcome_bounded_with: "outcome_bounded oc \<Longrightarrow> outcome_bounded (with_detail k v oc)"
  by (auto simp: outcome_bounded_def with_detail_def)

lemma outcome_bounded_constructors:
  "outcome_bounded (success m)" "outcome_bounded (idempotent m)"
  "outcome_bounded (current m)" "outcome_bounded (failure c m)"
  by (simp_all add: outcome_bounded_def success_def idempotent_def current_def failure_def)

text \<open>The explanation code that corresponds to an outcome code.\<close>

primrec explain_code_for :: "outcome_code \<Rightarrow> explanation_code" where
  "explain_code_for OC_Ok = EC_Accepted"
| "explain_code_for OC_Idempotent = EC_IdempotentReplay"
| "explain_code_for OC_AlreadyCurrent = EC_AlreadyCurrent"
| "explain_code_for OC_MalformedRequest = EC_RejectedMalformedRequest"
| "explain_code_for OC_UnknownPort = EC_RejectedUnknownPort"
| "explain_code_for OC_UnknownDevice = EC_RejectedUnknownPort"
| "explain_code_for OC_UnknownProfile = EC_RejectedUnknownProfile"
| "explain_code_for OC_UnknownPublisher = EC_RejectedUnauthorizedOwner"
| "explain_code_for OC_UnknownOwnership = EC_RejectedUnauthorizedOwner"
| "explain_code_for OC_UnknownAggregate = EC_RejectedInvalidConfiguration"
| "explain_code_for OC_WrongEntityClass = EC_RejectedWrongEntityClass"
| "explain_code_for OC_DuplicateRecord = EC_RejectedDuplicateRecord"
| "explain_code_for OC_ResourceBoundExceeded = EC_RejectedResourceBoundExceeded"
| "explain_code_for OC_InvalidText = EC_RejectedMalformedRequest"
| "explain_code_for OC_InvalidEnumValue = EC_RejectedMalformedRequest"
| "explain_code_for OC_StaleDeviceGeneration = EC_RejectedStaleDeviceGeneration"
| "explain_code_for OC_StaleTopologyGeneration = EC_RejectedStaleTopologyGeneration"
| "explain_code_for OC_StaleConfigurationGeneration = EC_RejectedStaleConfigurationGeneration"
| "explain_code_for OC_StaleCapabilityGeneration = EC_RejectedStaleCapabilityGeneration"
| "explain_code_for OC_StaleWorkerBoot = EC_RejectedStaleWorkerBoot"
| "explain_code_for OC_StaleCoordinatorEpoch = EC_RejectedStaleCoordinatorEpoch"
| "explain_code_for OC_StaleOwnershipGeneration = EC_RejectedStaleOwnershipGeneration"
| "explain_code_for OC_UnauthorizedOwner = EC_RejectedUnauthorizedOwner"
| "explain_code_for OC_OwnershipConflict = EC_RejectedOwnershipConflict"
| "explain_code_for OC_PublisherFenced = EC_RejectedPublisherFenced"
| "explain_code_for OC_FencedByRestart = EC_RejectedFencedByRestart"
| "explain_code_for OC_UnsupportedConfiguration = EC_RejectedUnsupportedConfiguration"
| "explain_code_for OC_CapabilityUnknown = EC_RejectedCapabilityUnknown"
| "explain_code_for OC_CapabilityUnavailable = EC_RejectedCapabilityUnavailable"
| "explain_code_for OC_InvalidLifecycleTransition = EC_RejectedInvalidLifecycleTransition"
| "explain_code_for OC_InvalidConfiguration = EC_RejectedInvalidConfiguration"
| "explain_code_for OC_InvalidSpeed = EC_RejectedInvalidSpeed"
| "explain_code_for OC_InvalidMtu = EC_RejectedInvalidMtu"
| "explain_code_for OC_InvalidLaneConfiguration = EC_RejectedInvalidLaneConfiguration"
| "explain_code_for OC_InvalidBreakout = EC_RejectedInvalidBreakout"
| "explain_code_for OC_InvalidProfile = EC_RejectedInvalidProfile"
| "explain_code_for OC_PortRetired = EC_RejectedPortRetired"
| "explain_code_for OC_PortSuperseded = EC_RejectedPortSuperseded"
| "explain_code_for OC_RevalidationRequired = EC_RejectedRevalidationRequired"
| "explain_code_for OC_DriftDetected = EC_RejectedDriftDetected"
| "explain_code_for OC_ConflictDetected = EC_RejectedConflictDetected"
| "explain_code_for OC_TransceiverUnknown = EC_RejectedTransceiverUnknown"
| "explain_code_for OC_ApplyFailed = EC_RejectedApplyFailed"
| "explain_code_for OC_ApplyOutcomeUnknown = EC_RejectedApplyOutcomeUnknown"
| "explain_code_for OC_ReadbackMismatch = EC_RejectedReadbackMismatch"
| "explain_code_for OC_AdapterUnavailable = EC_RejectedAdapterUnavailable"
| "explain_code_for OC_PersistenceCorruption = EC_RejectedPersistenceCorruption"
| "explain_code_for OC_PersistenceVersionUnsupported = EC_RejectedPersistenceVersionUnsupported"
| "explain_code_for OC_PersistenceIoFailure = EC_RejectedPersistenceIoFailure"
| "explain_code_for OC_PersistenceBoundsExceeded = EC_RejectedPersistenceBoundsExceeded"
| "explain_code_for OC_TransportFailure = EC_RejectedTransportFailure"
| "explain_code_for OC_InternalError = EC_RejectedInternalError"
| "explain_code_for OC_ShuttingDown = EC_RejectedShuttingDown"

section \<open>Explanations\<close>

record explanation_reason =
  er_code :: explanation_code
  er_detail :: string

record explanation =
  ex_accepted :: bool
  ex_outcome :: outcome_code
  ex_summary :: string
  ex_reasons :: "explanation_reason list"

definition empty_explanation :: explanation where
  "empty_explanation = \<lparr>ex_accepted = False, ex_outcome = OC_Ok, ex_summary = [], ex_reasons = []\<rparr>"

definition reason_to_string :: "explanation_reason \<Rightarrow> string" where
  "reason_to_string r =
     explanation_code_to_string (er_code r) @
     (if er_detail r = [] then [] else '': '' @ er_detail r)"

definition explanation_add :: "explanation_code \<Rightarrow> string \<Rightarrow> explanation \<Rightarrow> explanation" where
  "explanation_add code d ex =
     (if max_explanation_reasons \<le> length (ex_reasons ex) then ex
      else ex\<lparr>ex_reasons := ex_reasons ex @
             [\<lparr>er_code = code, er_detail = take max_description_length (single_line d)\<rparr>]\<rparr>)"

definition explanation_has :: "explanation_code \<Rightarrow> explanation \<Rightarrow> bool" where
  "explanation_has code ex \<longleftrightarrow> list_ex (\<lambda>r. er_code r = code) (ex_reasons ex)"

definition explanation_to_string :: "explanation \<Rightarrow> string" where
  "explanation_to_string ex =
     (if ex_accepted ex then ''ACCEPTED'' else ''REJECTED'') @ '' ['' @
     outcome_code_to_string (ex_outcome ex) @ '']'' @
     (if ex_summary ex = [] then [] else '' '' @ ex_summary ex) @
     concat (map (\<lambda>r. [CHR 0x0A] @ ''  '' @ reason_to_string r) (ex_reasons ex))"

lemma explanation_add_fields [simp]:
  "ex_accepted (explanation_add c d ex) = ex_accepted ex"
  "ex_outcome (explanation_add c d ex) = ex_outcome ex"
  "ex_summary (explanation_add c d ex) = ex_summary ex"
  by (simp_all add: explanation_add_def)

end
