(* ===== verification/Sha256.thy ===== *)
theory Sha256
  imports Text
begin

unbundle bit_operations_syntax

text \<open>
  The incremental SHA-256 of \<open>src/sha256.hpp\<close> and \<open>src/sha256.cpp\<close>: eight chaining words, a
  64 byte buffer that \<open>update\<close> fills and compresses, and the padding of \<open>finish\<close>. The result
  is proved equal to hashing the padded message block by block, however the message was cut
  into updates.
\<close>

section \<open>The compression function\<close>

text \<open>The constants of \<open>kRoundConstants\<close> and of the constructor, four to a row, in decimal.\<close>

definition round_constants :: "u32 list" where
  "round_constants =
    [1116352408, 1899447441, 3049323471, 3921009573,
     961987163, 1508970993, 2453635748, 2870763221,
     3624381080, 310598401, 607225278, 1426881987,
     1925078388, 2162078206, 2614888103, 3248222580,
     3835390401, 4022224774, 264347078, 604807628,
     770255983, 1249150122, 1555081692, 1996064986,
     2554220882, 2821834349, 2952996808, 3210313671,
     3336571891, 3584528711, 113926993, 338241895,
     666307205, 773529912, 1294757372, 1396182291,
     1695183700, 1986661051, 2177026350, 2456956037,
     2730485921, 2820302411, 3259730800, 3345764771,
     3516065817, 3600352804, 4094571909, 275423344,
     430227734, 506948616, 659060556, 883997877,
     958139571, 1322822218, 1537002063, 1747873779,
     1955562222, 2024104815, 2227730452, 2361852424,
     2428436474, 2756734187, 3204031479, 3329325298]"

definition rotr :: "u32 \<Rightarrow> nat \<Rightarrow> u32" where
  "rotr v n = drop_bit n v OR push_bit (32 - n) v"

definition big_sigma0 :: "u32 \<Rightarrow> u32" where
  "big_sigma0 v = rotr v 2 XOR rotr v 13 XOR rotr v 22"

definition big_sigma1 :: "u32 \<Rightarrow> u32" where
  "big_sigma1 v = rotr v 6 XOR rotr v 11 XOR rotr v 25"

definition small_sigma0 :: "u32 \<Rightarrow> u32" where
  "small_sigma0 v = rotr v 7 XOR rotr v 18 XOR drop_bit 3 v"

definition small_sigma1 :: "u32 \<Rightarrow> u32" where
  "small_sigma1 v = rotr v 17 XOR rotr v 19 XOR drop_bit 10 v"

definition initial_state :: "u32 list" where
  "initial_state = [1779033703, 3144134277, 1013904242, 2773480762,
     1359893119, 2600822924, 528734635, 1541459225]"

definition schedule_head :: "u8 list \<Rightarrow> u32 list" where
  "schedule_head block =
     map (\<lambda>i. push_bit 24 (ucast (block ! (i * 4))) OR push_bit 16 (ucast (block ! (i * 4 + 1))) OR
              push_bit 8 (ucast (block ! (i * 4 + 2))) OR ucast (block ! (i * 4 + 3))) [0..<16]"

definition schedule :: "u8 list \<Rightarrow> u32 list" where
  "schedule block =
     foldl (\<lambda>w i. w @ [small_sigma1 (w ! (i - 2)) + w ! (i - 7) + small_sigma0 (w ! (i - 15)) +
                       w ! (i - 16)])
       (schedule_head block) [16..<64]"

text \<open>One round on the working variables \<open>a\<close> to \<open>h\<close>, given as the list \<open>[a, \<dots>, h]\<close>.\<close>

definition sha_round :: "u32 \<Rightarrow> u32 \<Rightarrow> u32 list \<Rightarrow> u32 list" where
  "sha_round constant word v =
     (let a = v ! 0; b = v ! 1; c = v ! 2; d = v ! 3; e = v ! 4; f = v ! 5; g = v ! 6; h = v ! 7;
          temp1 = h + big_sigma1 e + ((e AND f) XOR (NOT e AND g)) + constant + word;
          temp2 = big_sigma0 a + ((a AND b) XOR (a AND c) XOR (b AND c))
      in [temp1 + temp2, a, b, c, d + temp1, e, f, g])"

definition compress :: "u32 list \<Rightarrow> u8 list \<Rightarrow> u32 list" where
  "compress state block =
     (let w = schedule block;
          v = foldl (\<lambda>v i. sha_round (round_constants ! i) (w ! i) v) state [0..<64]
      in map2 (+) state v)"

section \<open>The incremental interface\<close>

record sha256 =
  sh_state :: "u32 list"
  sh_buffer :: "u8 list"
  sh_total :: u64
  sh_finished :: bool

definition sha_init :: sha256 where
  "sha_init = \<lparr>sh_state = initial_state, sh_buffer = [], sh_total = 0, sh_finished = False\<rparr>"

text \<open>
  The copying loop of \<open>update\<close>: take what fits, compress a full buffer. The second disjunct of
  the guard never holds (a full buffer is emptied at once); it makes the loop total.
\<close>

function sha_absorb :: "sha256 \<Rightarrow> u8 list \<Rightarrow> sha256" where
  "sha_absorb s bytes =
     (if bytes = [] \<or> 64 \<le> length (sh_buffer s) then s
      else let n = min (length bytes) (64 - length (sh_buffer s));
               buffer = sh_buffer s @ take n bytes;
               s' = (if length buffer = 64
                     then s\<lparr>sh_state := compress (sh_state s) buffer, sh_buffer := []\<rparr>
                     else s\<lparr>sh_buffer := buffer\<rparr>)
           in sha_absorb s' (drop n bytes))"
  by pat_completeness auto
termination by (relation "measure (\<lambda>(s, bytes). length bytes)") auto

declare sha_absorb.simps [simp del]

definition sha_update :: "sha256 \<Rightarrow> u8 list \<Rightarrow> sha256" where
  "sha_update s bytes =
     (if sh_finished s then s
      else sha_absorb (s\<lparr>sh_total := sh_total s + of_nat (length bytes)\<rparr>) bytes)"

section \<open>What absorbing bytes does\<close>

function absorb_blocks :: "u32 list \<Rightarrow> u8 list \<Rightarrow> u32 list \<times> u8 list" where
  "absorb_blocks h bytes =
     (if length bytes < 64 then (h, bytes)
      else absorb_blocks (compress h (take 64 bytes)) (drop 64 bytes))"
  by pat_completeness auto
termination by (relation "measure (\<lambda>(h, bytes). length bytes)") auto

declare absorb_blocks.simps [simp del]

lemma absorb_blocks_short: "length bytes < 64 \<Longrightarrow> absorb_blocks h bytes = (h, bytes)"
  by (simp add: absorb_blocks.simps)

lemma absorb_blocks_full:
  "length block = 64 \<Longrightarrow> absorb_blocks h (block @ bytes) = absorb_blocks (compress h block) bytes"
  by (simp add: absorb_blocks.simps [of h "block @ bytes"])

lemma absorb_blocks_rest_short: "length (snd (absorb_blocks h bytes)) < 64"
  by (induction h bytes rule: absorb_blocks.induct) (subst absorb_blocks.simps, simp)

lemma absorb_blocks_append:
  "absorb_blocks h (xs @ ys) =
     absorb_blocks (fst (absorb_blocks h xs)) (snd (absorb_blocks h xs) @ ys)"
proof (induction h xs rule: absorb_blocks.induct)
  case (1 h xs)
  show ?case
  proof (cases "length xs < 64")
    case True
    then show ?thesis by (simp add: absorb_blocks_short)
  next
    case False
    then have "absorb_blocks h (xs @ ys) = absorb_blocks (compress h (take 64 xs)) (drop 64 xs @ ys)"
      using absorb_blocks_full [of "take 64 xs" h "drop 64 xs @ ys"]
      by (simp flip: append_assoc)
    with 1 False show ?thesis by (simp add: absorb_blocks.simps [of h xs])
  qed
qed

lemma sha_absorb_eq:
  "length (sh_buffer s) < 64 \<Longrightarrow>
   sha_absorb s bytes =
     s\<lparr>sh_state := fst (absorb_blocks (sh_state s) (sh_buffer s @ bytes)),
       sh_buffer := snd (absorb_blocks (sh_state s) (sh_buffer s @ bytes))\<rparr>"
proof (induction s bytes rule: sha_absorb.induct)
  case (1 s bytes)
  show ?case
  proof (cases "bytes = []")
    case True
    with 1(2) show ?thesis by (simp add: sha_absorb.simps absorb_blocks_short)
  next
    case False
    define n where "n = min (length bytes) (64 - length (sh_buffer s))"
    define buffer where "buffer = sh_buffer s @ take n bytes"
    define s' where "s' = (if length buffer = 64
      then s\<lparr>sh_state := compress (sh_state s) buffer, sh_buffer := []\<rparr>
      else s\<lparr>sh_buffer := buffer\<rparr>)"
    have step: "sha_absorb s bytes = sha_absorb s' (drop n bytes)"
      using False 1(2) by (simp add: sha_absorb.simps [of s] n_def buffer_def s'_def Let_def)
    have len: "length (sh_buffer s') < 64"
      using 1(2) by (auto simp: s'_def buffer_def n_def)
    have split: "sh_buffer s @ bytes = buffer @ drop n bytes" by (simp add: buffer_def)
    have IH: "sha_absorb s' (drop n bytes) =
      s'\<lparr>sh_state := fst (absorb_blocks (sh_state s') (sh_buffer s' @ drop n bytes)),
         sh_buffer := snd (absorb_blocks (sh_state s') (sh_buffer s' @ drop n bytes))\<rparr>"
      using 1(1) [OF _ n_def buffer_def s'_def] False 1(2) len by simp
    have "absorb_blocks (sh_state s') (sh_buffer s' @ drop n bytes) =
        absorb_blocks (sh_state s) (sh_buffer s @ bytes)"
      unfolding split by (simp add: s'_def absorb_blocks_full)
    with step IH show ?thesis by (simp add: s'_def)
  qed
qed

text \<open>An update cut in two has the effect of one update.\<close>

lemma sha_update_append:
  assumes "length (sh_buffer s) < 64"
  shows "sha_update (sha_update s xs) ys = sha_update s (xs @ ys)"
  using assms absorb_blocks_rest_short [of "sh_state s" "sh_buffer s @ xs"]
    absorb_blocks_append [of "sh_state s" "sh_buffer s @ xs" ys]
  by (simp add: sha_update_def sha_absorb_eq algebra_simps)

section \<open>Finishing\<close>

definition length_bytes :: "u64 \<Rightarrow> u8 list" where
  "length_bytes bit_length = map (\<lambda>i. ucast (drop_bit (56 - 8 * i) bit_length AND 0xff)) [0..<8]"

lemma length_length_bytes [simp]: "length (length_bytes n) = 8"
  by (simp add: length_bytes_def)

lemma sha_update_buffer_length:
  assumes "length (sh_buffer s) < 64" "\<not> sh_finished s"
  shows "length (sh_buffer (sha_update s [b])) =
    (if length (sh_buffer s) = 63 then 0 else Suc (length (sh_buffer s)))"
proof (cases "length (sh_buffer s) = 63")
  case True
  then show ?thesis
    using assms absorb_blocks_full [of "sh_buffer s @ [b]" "sh_state s" "[]"]
    by (simp add: sha_update_def sha_absorb_eq absorb_blocks_short)
next
  case False
  with assms show ?thesis by (simp add: sha_update_def sha_absorb_eq absorb_blocks_short)
qed

lemma sha_update_finished [simp]: "sh_finished (sha_update s bs) = sh_finished s"
proof -
  have "sh_finished (sha_absorb s bs) = sh_finished s" for s bs
  proof (induction s bs rule: sha_absorb.induct)
    case (1 s bytes)
    then show ?case by (subst sha_absorb.simps) (auto simp: Let_def)
  qed
  then show ?thesis by (simp add: sha_update_def)
qed

text \<open>
  The loop \<open>while (buffer_size_ != 56) update(0)\<close>. Its guard has the unreachable states (a
  buffer of 64 bytes or more, a finished hash) added, so that it is total.
\<close>

function sha_pad :: "sha256 \<Rightarrow> sha256" where
  "sha_pad s =
     (if length (sh_buffer s) = 56 \<or> 64 \<le> length (sh_buffer s) \<or> sh_finished s then s
      else sha_pad (sha_update s [0]))"
  by pat_completeness auto
termination
proof (relation "measure (\<lambda>s. if length (sh_buffer s) \<le> 56 then 56 - length (sh_buffer s)
    else 120 - length (sh_buffer s))")
  fix s :: sha256
  assume a: "\<not> (length (sh_buffer s) = 56 \<or> 64 \<le> length (sh_buffer s) \<or> sh_finished s)"
  then show "(sha_update s [0], s) \<in> measure (\<lambda>s. if length (sh_buffer s) \<le> 56
      then 56 - length (sh_buffer s) else 120 - length (sh_buffer s))"
    using sha_update_buffer_length [of s 0] by auto
qed simp

declare sha_pad.simps [simp del]

definition sha_finish :: "sha256 \<Rightarrow> sha256" where
  "sha_finish s =
     (if sh_finished s then s
      else let bit_length = sh_total s * 8;
               padded = sha_pad (sha_update s [0x80]);
               closed = sha_update padded (length_bytes bit_length)
           in closed\<lparr>sh_finished := True\<rparr>)"

definition word_bytes :: "u32 \<Rightarrow> u8 list" where
  "word_bytes w = [ucast (drop_bit 24 w AND 0xff), ucast (drop_bit 16 w AND 0xff),
     ucast (drop_bit 8 w AND 0xff), ucast (w AND 0xff)]"

definition sha_output :: "sha256 \<Rightarrow> u8 list" where
  "sha_output s = concat (map word_bytes (sh_state s))"

definition sha256_of :: "u8 list \<Rightarrow> u8 list" where
  "sha256_of bytes = sha_output (sha_finish (sha_update sha_init bytes))"

section \<open>What is computed\<close>

text \<open>The standard's definition: pad the whole message, cut it into blocks, fold the compression.\<close>

definition sha_padding :: "nat \<Rightarrow> u8 list" where
  "sha_padding n = 0x80 # replicate ((119 - n mod 64) mod 64) 0 @ length_bytes (of_nat n * 8)"

definition blocks :: "u8 list \<Rightarrow> u8 list list" where
  "blocks xs = map (\<lambda>i. take 64 (drop (64 * i) xs)) [0..<length xs div 64]"

definition sha256_spec :: "u8 list \<Rightarrow> u8 list" where
  "sha256_spec m =
     concat (map word_bytes (foldl compress initial_state (blocks (m @ sha_padding (length m)))))"

definition sha_holds :: "sha256 \<Rightarrow> u8 list \<Rightarrow> bool" where
  "sha_holds s m \<longleftrightarrow> \<not> sh_finished s \<and> sh_total s = of_nat (length m) \<and>
     (sh_state s, sh_buffer s) = absorb_blocks initial_state m"

lemma sha_holds_init: "sha_holds sha_init []"
  by (simp add: sha_holds_def sha_init_def absorb_blocks_short)

lemma length_absorb_blocks: "length (snd (absorb_blocks h xs)) = length xs mod 64"
proof (induction h xs rule: absorb_blocks.induct)
  case (1 h xs)
  show ?case
  proof (cases "length xs < 64")
    case True
    then show ?thesis by (simp add: absorb_blocks_short)
  next
    case False
    with 1 show ?thesis by (simp add: absorb_blocks.simps [of h xs] le_mod_geq)
  qed
qed

lemma sha_holds_buffer: "sha_holds s m \<Longrightarrow> length (sh_buffer s) = length m mod 64"
  using length_absorb_blocks [of initial_state m] by (auto simp: sha_holds_def dest: sym)

lemma sha_holds_update: "sha_holds s m \<Longrightarrow> sha_holds (sha_update s xs) (m @ xs)"
  using absorb_blocks_rest_short [of initial_state m] absorb_blocks_append [of initial_state m xs]
  by (cases "absorb_blocks initial_state m")
    (auto simp: sha_holds_def sha_update_def sha_absorb_eq)

lemma sha_holds_updates: "sha_holds s m \<Longrightarrow> sha_holds (foldl sha_update s chunks) (m @ concat chunks)"
proof (induction chunks arbitrary: s m)
  case Nil
  then show ?case by simp
next
  case (Cons c chunks)
  then show ?case using sha_holds_update [of s m c] by fastforce
qed

lemma pad_step:
  assumes "n < 63" "n \<noteq> 56"
  shows "(120 - n) mod 64 = Suc ((119 - n) mod (64 :: nat))"
proof (cases "n < 56")
  case True
  define k where "k = 55 - n"
  with True have "120 - n = Suc k + 64" "119 - n = k + 64" "Suc k < 64" by simp_all
  then show ?thesis by (simp only: mod_add_self2) simp
next
  case False
  with assms show ?thesis by simp
qed

lemma sha_pad_eq:
  "length (sh_buffer s) < 64 \<Longrightarrow> \<not> sh_finished s \<Longrightarrow>
   sha_pad s = sha_update s (replicate ((120 - length (sh_buffer s)) mod 64) 0)"
proof (induction s rule: sha_pad.induct)
  case (1 s)
  let ?n = "length (sh_buffer s)"
  show ?case
  proof (cases "?n = 56")
    case True
    with 1(3) show ?thesis
      by (simp add: sha_pad.simps [of s] sha_update_def sha_absorb.simps)
  next
    case False
    let ?s = "sha_update s [0]"
    from 1 have len: "length (sh_buffer ?s) = (if ?n = 63 then 0 else Suc ?n)"
      by (simp add: sha_update_buffer_length)
    have count: "(120 - ?n) mod 64 = Suc ((120 - length (sh_buffer ?s)) mod 64)"
      using False 1(2) by (auto simp: len pad_step)
    from False 1 have "sha_pad s = sha_pad ?s" by (simp add: sha_pad.simps [of s])
    also have "\<dots> = sha_update ?s (replicate ((120 - length (sh_buffer ?s)) mod 64) 0)"
      using 1(1) False 1(2,3) len by (auto split: if_splits)
    also have "\<dots> = sha_update s (0 # replicate ((120 - length (sh_buffer ?s)) mod 64) 0)"
      using sha_update_append [of s "[0]"] 1(2) by simp
    finally show ?thesis by (simp add: count)
  qed
qed

lemma blocks_step:
  assumes "64 \<le> length xs"
  shows "blocks xs = take 64 xs # blocks (drop 64 xs)"
proof -
  have "length xs div 64 = Suc ((length xs - 64) div 64)" using assms by (simp add: le_div_geq)
  then have "[0..<length xs div 64] = 0 # map Suc [0..<(length xs - 64) div 64]"
    by (simp only: upt_conv_Cons map_Suc_upt zero_less_Suc)
  then show ?thesis by (simp add: blocks_def comp_def add.commute)
qed

lemma absorb_blocks_fold: "fst (absorb_blocks h xs) = foldl compress h (blocks xs)"
proof (induction h xs rule: absorb_blocks.induct)
  case (1 h xs)
  show ?case
  proof (cases "length xs < 64")
    case True
    then show ?thesis by (simp add: absorb_blocks_short blocks_def)
  next
    case False
    with 1 show ?thesis by (simp add: absorb_blocks.simps [of h xs] blocks_step)
  qed
qed

lemma pad_count: "(120 - Suc n mod 64) mod 64 = (119 - n mod 64) mod (64 :: nat)"
proof (cases "n mod 64 = 63")
  case True
  then have "Suc n mod 64 = 0" by (simp add: mod_Suc)
  with True show ?thesis by simp
next
  case False
  then have "Suc n mod 64 = Suc (n mod 64)" by (simp add: mod_Suc)
  then show ?thesis by simp
qed

lemma sha_finish_holds:
  assumes "sha_holds s m"
  shows "sh_state (sha_finish s) = foldl compress initial_state (blocks (m @ sha_padding (length m)))"
proof -
  let ?t = "sha_update s [0x80]"
  have t: "sha_holds ?t (m @ [0x80])" by (rule sha_holds_update) fact
  then have len: "length (sh_buffer ?t) = Suc (length m) mod 64"
    using sha_holds_buffer by fastforce
  then have "sha_pad ?t = sha_update ?t (replicate ((119 - length m mod 64) mod 64) 0)"
    using t by (simp add: sha_pad_eq sha_holds_def flip: pad_count)
  then have "sha_holds (sha_update (sha_pad ?t) (length_bytes (sh_total s * 8)))
      (m @ sha_padding (length m))"
    using sha_holds_update [OF sha_holds_update [OF t]] assms
    by (simp add: sha_padding_def sha_holds_def)
  then show ?thesis
    using assms absorb_blocks_fold [of initial_state "m @ sha_padding (length m)"]
    by (auto simp: sha_finish_def sha_holds_def Let_def dest: sym)
qed

text \<open>
  However a message is cut into updates, the incremental hash returns the SHA-256
  of the whole message: the compression folded over the blocks of the padded message, the
  padding being one set bit, zeros up to 56 bytes modulo 64 and the bit length.
\<close>

theorem sha256_incremental:
  "sha_output (sha_finish (foldl sha_update sha_init chunks)) = sha256_spec (concat chunks)"
  using sha_finish_holds [OF sha_holds_updates [OF sha_holds_init, of chunks]]
  by (simp add: sha_output_def sha256_spec_def)

lemma sha256_of_spec: "sha256_of m = sha256_spec m"
  using sha_finish_holds [OF sha_holds_update [OF sha_holds_init, of m]]
  by (simp add: sha256_of_def sha_output_def sha256_spec_def)

end
