(* ===== verification/Speed.thy ===== *)
theory Speed
  imports Text
begin

text \<open>
  Port speeds (\<open>PortSpeed\<close> of \<open>include/portfabric/characteristics.hpp\<close> and
  \<open>src/characteristics.cpp\<close>): a bit rate in a 64 bit integer, zero when absent, with the
  canonical rendering and its parser. The parser keeps the code's checked 64 bit arithmetic;
  the renderer only divides, so it works on the value of the word.
\<close>

type_synonym port_speed = u64

definition min_speed_bits_per_second :: u64 where "min_speed_bits_per_second = 1000000"
definition max_speed_bits_per_second :: u64 where "max_speed_bits_per_second = 1600000000000"

definition speed_valid :: "port_speed \<Rightarrow> bool" where
  "speed_valid s \<longleftrightarrow> s \<noteq> 0"

definition speed_from_bits_per_second :: "u64 \<Rightarrow> port_speed option" where
  "speed_from_bits_per_second bits =
     (if bits < min_speed_bits_per_second \<or> max_speed_bits_per_second < bits then None
      else Some bits)"

section \<open>Parsing\<close>

definition speed_suffix :: "string \<Rightarrow> u64 \<times> string" where
  "speed_suffix t =
     (let c = last t
      in if c = CHR ''G'' \<or> c = CHR ''g'' then (1000000000, butlast t)
         else if c = CHR ''M'' \<or> c = CHR ''m'' then (1000000, butlast t)
         else if c = CHR ''K'' \<or> c = CHR ''k'' then (1000, butlast t)
         else (1, t))"

text \<open>The digit loop: the digits consumed so far as a number, and the rest of the text.\<close>

fun parse_whole :: "u64 \<Rightarrow> string \<Rightarrow> (u64 \<times> string) option" where
  "parse_whole whole [] = Some (whole, [])"
| "parse_whole whole (c # rest) =
     (if is_digit c
      then let digit = of_nat (digit_value c)
           in if (0xffffffffffffffff - digit) div 10 < whole then None
              else parse_whole (whole * 10 + digit) rest
      else Some (whole, c # rest))"

fun parse_fraction_digits ::
  "u64 \<Rightarrow> u64 \<Rightarrow> nat \<Rightarrow> string \<Rightarrow> (u64 \<times> u64 \<times> nat \<times> string) option" where
  "parse_fraction_digits fraction scale n [] = Some (fraction, scale, n, [])"
| "parse_fraction_digits fraction scale n (c # rest) =
     (if is_digit c
      then if 3 \<le> n then None
           else parse_fraction_digits (fraction * 10 + of_nat (digit_value c)) (scale * 10) (Suc n) rest
      else Some (fraction, scale, n, c # rest))"

definition parse_fraction :: "string \<Rightarrow> (u64 \<times> u64) option" where
  "parse_fraction rest =
     (case rest of
        [] \<Rightarrow> Some (0, 1)
      | c # ds \<Rightarrow>
          if c \<noteq> CHR ''.'' then None
          else case parse_fraction_digits 0 1 0 ds of
              None \<Rightarrow> None
            | Some (fraction, scale, n, left) \<Rightarrow>
                if n = 0 then None else if left \<noteq> [] then None else Some (fraction, scale))"

definition fractional_value :: "u64 \<Rightarrow> u64 \<Rightarrow> u64 \<Rightarrow> u64 option" where
  "fractional_value multiplier fraction scale =
     (if multiplier = 1 then (if scale \<noteq> 1 then None else Some 0)
      else let unit = multiplier div scale
           in if unit = 0 then None else checked_multiply fraction unit)"

definition speed_parse :: "string \<Rightarrow> port_speed option" where
  "speed_parse t =
     (if t = [] \<or> 32 < length t then None
      else let (multiplier, digits) = speed_suffix t
           in if digits = [] \<or> 20 < length digits then None
              else Option.bind (parse_whole 0 digits) (\<lambda>(whole, rest).
                   Option.bind (parse_fraction rest) (\<lambda>(fraction, scale).
                   Option.bind (checked_multiply whole multiplier) (\<lambda>total.
                   Option.bind (fractional_value multiplier fraction scale) (\<lambda>part.
                   Option.bind (checked_add total part) speed_from_bits_per_second)))))"

section \<open>Rendering\<close>

text \<open>The two loops over the three decimals of a fractional rate.\<close>

function strip_zeros :: "nat \<Rightarrow> nat \<Rightarrow> nat \<times> nat" where
  "strip_zeros scale remainder =
     (if 1 < scale \<and> remainder mod 10 = 0 then strip_zeros (scale div 10) (remainder div 10)
      else (scale, remainder))"
  by pat_completeness auto
termination by (relation "measure fst") auto

function pad_zeros :: "nat \<Rightarrow> nat \<Rightarrow> string" where
  "pad_zeros scale remainder =
     (if 1 < scale \<and> remainder < scale then CHR ''0'' # pad_zeros (scale div 10) remainder else [])"
  by pat_completeness auto
termination by (relation "measure fst") auto

declare strip_zeros.simps [simp del] pad_zeros.simps [simp del]

definition fraction_text :: "nat \<Rightarrow> string" where
  "fraction_text remainder =
     (let (scale, r) = strip_zeros 100 remainder in pad_zeros scale r @ decimal r)"

definition speed_to_string :: "port_speed \<Rightarrow> string" where
  "speed_to_string s =
     (if \<not> speed_valid s then ''UNSPECIFIED''
      else let bps = unat s
           in if bps mod 1000000000 = 0 then decimal (bps div 1000000000) @ ''G''
              else if bps mod 1000000 = 0 \<and> 1000000000 < bps
              then decimal (bps div 1000000000) @ ''.'' @
                   fraction_text ((bps mod 1000000000) div 1000000) @ ''G''
              else if bps mod 1000000 = 0 then decimal (bps div 1000000) @ ''M''
              else if bps mod 1000 = 0 then decimal (bps div 1000) @ ''K''
              else decimal bps)"

section \<open>The rendering is reversible\<close>

lemma digit_value_less: "is_digit c \<Longrightarrow> digit_value c < 10"
  unfolding is_digit_def digit_value_def by arith

lemma decimal_value_mono: "acc \<le> decimal_value acc ds"
proof (induction ds arbitrary: acc)
  case Nil
  then show ?case by (simp add: decimal_value_def)
next
  case (Cons c ds)
  have "acc \<le> acc * 10 + digit_value c" by simp
  also have "\<dots> \<le> decimal_value (acc * 10 + digit_value c) ds" by (rule Cons.IH)
  finally show ?case by (simp add: decimal_value_def)
qed

lemma whole_step_guard:
  assumes "d < 10"
  shows "(0xffffffffffffffff - of_nat d) div 10 < w \<longleftrightarrow> \<not> unat (w :: u64) * 10 + d < 2 ^ 64"
proof -
  have d: "unat (of_nat d :: u64) = d" using assms by (simp add: unat_of_nat)
  have le: "(of_nat d :: u64) \<le> 0xffffffffffffffff"
    by (simp only: max_u64_eq word_order.extremum)
  have "((0xffffffffffffffff - of_nat d) div 10 < w) = ((2 ^ 64 - 1 - d) div 10 < unat w)"
    by (simp add: word_less_nat_alt unat_div unat_sub [OF le] d)
  also have "\<dots> = (\<not> unat w * 10 + d < 2 ^ 64)"
    using assms by (simp add: div_less_iff_less_mult) linarith
  finally show ?thesis .
qed

lemma whole_step_value:
  assumes "d < 10" "unat (w :: u64) * 10 + d < 2 ^ 64"
  shows "unat (w * 10 + of_nat d) = unat w * 10 + d"
  using assms by (simp add: unat_word_ariths unat_of_nat)

lemma parse_whole_digits:
  assumes "list_all is_digit ds" "decimal_value (unat acc) ds < 2 ^ 64"
    and "rest = [] \<or> \<not> is_digit (hd rest)"
  shows "\<exists>w. parse_whole acc (ds @ rest) = Some (w, rest) \<and> unat w = decimal_value (unat acc) ds"
  using assms
proof (induction ds arbitrary: acc)
  case Nil
  then show ?case by (cases rest) (auto simp: decimal_value_def)
next
  case (Cons c ds)
  from Cons.prems have c: "digit_value c < 10" by (simp add: digit_value_less)
  have dv: "decimal_value (unat acc) (c # ds) = decimal_value (unat acc * 10 + digit_value c) ds"
    by (simp add: decimal_value_def)
  have small: "unat acc * 10 + digit_value c < 2 ^ 64"
    using Cons.prems(2) decimal_value_mono [of "unat acc * 10 + digit_value c" ds]
    unfolding dv by linarith
  note step = whole_step_value [OF c small]
  have "decimal_value (unat (acc * 10 + of_nat (digit_value c))) ds < 2 ^ 64"
    using Cons.prems(2) by (simp only: dv step)
  with Cons.prems have "\<exists>w. parse_whole (acc * 10 + of_nat (digit_value c)) (ds @ rest) = Some (w, rest)
      \<and> unat w = decimal_value (unat (acc * 10 + of_nat (digit_value c))) ds"
    by (intro Cons.IH) simp_all
  moreover have "\<not> (0xffffffffffffffff - of_nat (digit_value c)) div 10 < acc"
    using whole_step_guard [OF c, of acc] small by simp
  ultimately show ?case
    using Cons.prems(1) by (simp only: dv step) simp
qed

lemma parse_whole_decimal:
  assumes "m < 2 ^ 64" "rest = [] \<or> \<not> is_digit (hd rest)"
  shows "parse_whole 0 (decimal m @ rest) = Some (of_nat m, rest)"
proof -
  obtain w where "parse_whole 0 (decimal m @ rest) = Some (w, rest)" "unat w = m"
    using parse_whole_digits [OF decimal_digits [of m], of 0 rest] assms
    by (auto simp: decimal_value_decimal)
  then show ?thesis by (metis of_nat_unat ucast_id)
qed

text \<open>The three decimals of a fractional rate, written out from their digits.\<close>

lemma div_mod_digit:
  "(d :: nat) < 10 \<Longrightarrow> (10 * k + d) div 10 = k \<and> (10 * k + d) mod 10 = d"
  by simp

lemma decimal_step: "0 < k \<Longrightarrow> d < 10 \<Longrightarrow> decimal (10 * k + d) = decimal k @ [digit_char d]"
  using div_mod_digit [of d k] by (subst decimal.simps) simp

lemma decimal_one: "a < 10 \<Longrightarrow> decimal a = [digit_char a]"
  by (subst decimal.simps) simp

lemma decimal_two:
  "0 < a \<Longrightarrow> a < 10 \<Longrightarrow> b < 10 \<Longrightarrow> decimal (10 * a + b) = [digit_char a, digit_char b]"
  by (simp only: decimal_step decimal_one append.simps)

lemma decimal_three:
  assumes "0 < a" "a < 10" "b < 10" "c < 10"
  shows "decimal (100 * a + 10 * b + c) = [digit_char a, digit_char b, digit_char c]"
proof -
  have "100 * a + 10 * b + c = 10 * (10 * a + b) + c" by simp
  moreover have "0 < 10 * a + b" using assms by simp
  ultimately show ?thesis
    using assms by (simp only: decimal_step decimal_one append.simps)
qed

lemma strip_zeros_1: "strip_zeros 1 r = (1, r)"
  by (subst strip_zeros.simps) simp

lemma strip_zeros_10:
  "b < 10 \<Longrightarrow> strip_zeros 10 (10 * a + b) = (if b \<noteq> 0 then (10, 10 * a + b) else (1, a))"
  using div_mod_digit [of b a] by (subst strip_zeros.simps) (simp add: strip_zeros_1 [simplified])

lemma strip_zeros_three:
  assumes "b < 10" "c < 10"
  shows "strip_zeros 100 (100 * a + 10 * b + c) =
    (if c \<noteq> 0 then (100, 100 * a + 10 * b + c) else if b \<noteq> 0 then (10, 10 * a + b) else (1, a))"
proof -
  have e: "100 * a + 10 * b + c = 10 * (10 * a + b) + c" by simp
  show ?thesis
    unfolding e using div_mod_digit [OF assms(2), of "10 * a + b"] strip_zeros_10 [OF assms(1), of a]
    by (subst strip_zeros.simps) simp
qed

lemma pad_zeros_1 [simp]: "pad_zeros (Suc 0) r = []"
  by (subst pad_zeros.simps) simp

lemma pad_zeros_10: "pad_zeros 10 r = (if r < 10 then ''0'' else [])"
  by (subst pad_zeros.simps) simp

lemma pad_zeros_100:
  "pad_zeros 100 r = (if r < 100 then CHR ''0'' # (if r < 10 then ''0'' else []) else [])"
  by (subst pad_zeros.simps) (simp add: pad_zeros_10)

lemma digit_char_0: "CHR ''0'' = digit_char 0"
  unfolding digit_char_def by code_simp

lemma fraction_text_digits:
  assumes "a < 10" "b < 10" "c < 10" "0 < 100 * a + 10 * b + c"
  shows "fraction_text (100 * a + 10 * b + c) =
    map digit_char (if c \<noteq> 0 then [a, b, c] else if b \<noteq> 0 then [a, b] else [a])"
proof -
  have three: "pad_zeros 100 (100 * a + 10 * b + c) @ decimal (100 * a + 10 * b + c) =
      [digit_char a, digit_char b, digit_char c]"
    using assms decimal_three [of a b c] decimal_two [of b c] decimal_one [of c]
    by (cases "a = 0"; cases "b = 0") (simp_all add: pad_zeros_100 digit_char_0)
  have two: "pad_zeros 10 (10 * a + b) @ decimal (10 * a + b) = [digit_char a, digit_char b]"
    using assms decimal_two [of a b] decimal_one [of b]
    by (cases "a = 0") (simp_all add: pad_zeros_10 digit_char_0)
  show ?thesis
    using assms three two decimal_one [of a]
    by (simp add: fraction_text_def strip_zeros_three)
qed

lemma three_digits:
  assumes "(r :: nat) < 1000"
  shows "\<exists>a b c. r = 100 * a + 10 * b + c \<and> a < 10 \<and> b < 10 \<and> c < 10"
proof (intro exI conjI)
  have "r = 10 * (r div 10) + r mod 10" "r div 10 = 10 * (r div 10 div 10) + r div 10 mod 10"
    by simp_all
  then show "r = 100 * (r div 10 div 10) + 10 * (r div 10 mod 10) + r mod 10" by linarith
  show "r div 10 div 10 < 10" using assms by (simp add: less_mult_imp_div_less)
qed simp_all

lemma parse_fraction_text:
  assumes "0 < r" "r < 1000"
  shows "\<exists>f k. parse_fraction (CHR ''.'' # fraction_text r) = Some (of_nat f, 10 ^ k) \<and>
    f * 10 ^ (3 - k) = r \<and> k \<le> 3"
proof -
  obtain a b c where r: "r = 100 * a + 10 * b + c" and lt: "a < 10" "b < 10" "c < 10"
    using three_digits assms(2) by blast
  have t: "fraction_text r =
      map digit_char (if c \<noteq> 0 then [a, b, c] else if b \<noteq> 0 then [a, b] else [a])"
    using fraction_text_digits [of a b c] assms(1) lt unfolding r by simp
  consider "c \<noteq> 0" | "c = 0" "b \<noteq> 0" | "c = 0" "b = 0" by blast
  then show ?thesis
  proof cases
    case 1
    show ?thesis
      by (rule exI [of _ r], rule exI [of _ 3])
        (use 1 lt in \<open>simp add: t parse_fraction_def, simp add: r algebra_simps\<close>)
  next
    case 2
    show ?thesis
      by (rule exI [of _ "10 * a + b"], rule exI [of _ 2])
        (use 2 lt in \<open>simp add: t parse_fraction_def, simp add: r algebra_simps\<close>)
  next
    case 3
    show ?thesis
      by (rule exI [of _ a], rule exI [of _ 1])
        (use 3 lt in \<open>simp add: t parse_fraction_def, simp add: r\<close>)
  qed
qed

text \<open>
  One evaluation of the parser: a decimal whole part, a fractional part and a unit whose
  products add up to the rate.
\<close>

lemma speed_parse_eval:
  assumes suffix: "speed_suffix t = (M, decimal m @ rest)"
    and lengths: "length t \<le> 32" "length (decimal m @ rest) \<le> 20"
    and m: "m < 2 ^ 64" and rest: "rest = [] \<or> \<not> is_digit (hd rest)"
    and fraction: "parse_fraction rest = Some (f, sc)" "fractional_value M f sc = Some part"
    and total: "m * unat M + unat part = unat s"
    and rate: "speed_from_bits_per_second s = Some s"
  shows "speed_parse t = Some s"
proof -
  have um: "unat (of_nat m :: u64) = m" using m by (simp add: unat_of_nat)
  have small: "m * unat M < 2 ^ 64" using total unat_less_u64 [of s] by linarith
  have prod: "checked_multiply (of_nat m) M = Some (of_nat m * M)"
    using small by (simp add: checked_multiply_Some_iff um)
  have up: "unat (of_nat m * M) = m * unat M"
    using checked_multiply_exact [OF prod] by (simp add: um)
  have sum: "checked_add (of_nat m * M) part = Some s"
    using total unat_less_u64 [of s] up
    by (simp add: checked_add_Some_iff word_unat_eq_iff unat_word_ariths)
  have "t \<noteq> []"
    using suffix by (auto simp: speed_suffix_def Let_def split: if_splits)
  then show ?thesis
    using suffix lengths fraction prod sum rate parse_whole_decimal [OF m rest]
    by (simp add: speed_parse_def)
qed

lemma speed_suffix_letter:
  "speed_suffix (ds @ ''G'') = (1000000000, ds)"
  "speed_suffix (ds @ ''M'') = (1000000, ds)"
  "speed_suffix (ds @ ''K'') = (1000, ds)"
  by (simp_all add: speed_suffix_def)

lemma last_decimal_digit: "is_digit (last (decimal n))"
  using decimal_digits [of n] by (simp add: list_all_iff)

lemma speed_suffix_plain: "speed_suffix (decimal n) = (1, decimal n)"
  using last_decimal_digit [of n] by (auto simp: speed_suffix_def Let_def is_digit_def)

lemma fractional_value_none: "M \<noteq> 0 \<Longrightarrow> fractional_value M 0 1 = Some 0"
  by (simp add: fractional_value_def checked_multiply_def Let_def)

lemma fractional_value_giga:
  assumes "f * 10 ^ (3 - k) = r" "k \<le> 3" "r < 1000"
  shows "\<exists>part. fractional_value 1000000000 (of_nat f) (10 ^ k) = Some part \<and>
    unat part = r * 1000000"
proof -
  have "k = 0 \<or> k = 1 \<or> k = 2 \<or> k = 3" using assms(2) by arith
  then obtain u :: u64 where u: "1000000000 div (10 ^ k :: u64) = u" "unat u = 10 ^ (3 - k) * 1000000"
    by (elim disjE) auto
  have "f \<le> r" using assms(1) by (cases "3 - k") auto
  then have uf: "unat (of_nat f :: u64) = f" using assms(3) by (simp add: unat_of_nat)
  have val: "f * (10 ^ (3 - k) * 1000000) = r * 1000000" using assms(1) by (simp add: ac_simps)
  have "unat (of_nat f :: u64) * unat u < 2 ^ 64" using assms(3) by (simp add: uf u val)
  then have "checked_multiply (of_nat f) u = Some (of_nat f * u)"
    by (simp add: checked_multiply_Some_iff)
  moreover from checked_multiply_exact [OF this] have "unat (of_nat f * u) = r * 1000000"
    by (simp add: uf u val)
  moreover have "u \<noteq> 0" using u(2) by (metis mult_eq_0_iff power_not_zero unat_0 zero_neq_numeral)
  ultimately show ?thesis
    by (simp add: fractional_value_def Let_def u(1))
qed

lemma speed_range:
  assumes "speed_from_bits_per_second b = Some s"
  shows "s = b" "1000000 \<le> unat s" "unat s \<le> 1600000000000" "speed_from_bits_per_second s = Some s"
  using assms
  by (auto simp: speed_from_bits_per_second_def min_speed_bits_per_second_def
      max_speed_bits_per_second_def not_less word_le_nat_alt split: if_splits)

lemma decimal_short: "n < 10 ^ 13 \<Longrightarrow> length (decimal n) \<le> 13"
  by (rule decimal_length_bound) simp_all

lemma fraction_text_short: "0 < r \<Longrightarrow> r < 1000 \<Longrightarrow> length (fraction_text r) \<le> 3"
  using three_digits [of r] by (auto simp: fraction_text_digits)

lemma dot_not_digit [simp]: "\<not> is_digit (CHR ''.'')"
  by (simp add: is_digit_def)

lemma speed_parse_whole_unit:
  assumes "speed_suffix t = (M, decimal m)" "length t \<le> 14" "m < 10 ^ 13"
    and "M \<noteq> 0" "m * unat M = unat s" "speed_from_bits_per_second s = Some s"
  shows "speed_parse t = Some s"
  using assms decimal_short [of m] fractional_value_none [OF assms(4)]
  by (intro speed_parse_eval [where rest = "[]" and f = 0 and sc = 1 and part = 0 and m = m])
    (simp_all add: parse_fraction_def)

lemma speed_parse_giga_fraction:
  assumes s: "speed_from_bits_per_second s = Some s"
    and m: "unat s = m * 1000000000 + r * 1000000" "0 < r" "r < 1000" "m < 10 ^ 13"
  shows "speed_parse (decimal m @ ''.'' @ fraction_text r @ ''G'') = Some s"
proof -
  obtain f k where pf: "parse_fraction (CHR ''.'' # fraction_text r) = Some (of_nat f, 10 ^ k)"
    and f: "f * 10 ^ (3 - k) = r" "k \<le> 3"
    using parse_fraction_text [OF m(2,3)] by blast
  obtain part where part: "fractional_value 1000000000 (of_nat f) (10 ^ k) = Some part"
    "unat part = r * 1000000"
    using fractional_value_giga [OF f m(3)] by blast
  have "speed_suffix (decimal m @ ''.'' @ fraction_text r @ ''G'') =
      (1000000000, decimal m @ (CHR ''.'' # fraction_text r))"
    using speed_suffix_letter(1) [of "decimal m @ (CHR ''.'' # fraction_text r)"] by simp
  then show ?thesis
    using pf part m s decimal_short [OF m(4)] fraction_text_short [OF m(2,3)]
    by (intro speed_parse_eval [where rest = "CHR ''.'' # fraction_text r" and m = m
          and M = 1000000000 and f = "of_nat f" and sc = "10 ^ k" and part = part]) simp_all
qed

text \<open>Rendering a representable speed and parsing the text back gives the same
  bit rate: the canonical rendering ("400G", "2.5G", "1.005G", "100M", "1250K", or plain bits
  per second) is reversible for every rate the runtime accepts, including its three-decimal
  fractions.\<close>

theorem speed_roundtrip:
  assumes "speed_from_bits_per_second b = Some s"
  shows "speed_parse (speed_to_string s) = Some s"
proof -
  note s = speed_range [OF assms]
  define n where "n = unat s"
  have n: "1000000 \<le> n" "n \<le> 1600000000000" using s unfolding n_def by simp_all
  have valid: "speed_valid s" using s(2) by (auto simp: speed_valid_def)
  have q: "n div 1000000000 < 10 ^ 13" "n div 1000000 < 10 ^ 13" "n div 1000 < 10 ^ 13" "n < 10 ^ 13"
    using n by (auto simp: div_less_iff_less_mult)
  note short = q [THEN decimal_short]
  consider (giga) "n mod 1000000000 = 0"
    | (fraction) "n mod 1000000000 \<noteq> 0" "n mod 1000000 = 0" "1000000000 < n"
    | (mega) "n mod 1000000000 \<noteq> 0" "n mod 1000000 = 0" "\<not> 1000000000 < n"
    | (kilo) "n mod 1000000 \<noteq> 0" "n mod 1000 = 0"
    | (plain) "n mod 1000000 \<noteq> 0" "n mod 1000 \<noteq> 0" by blast
  then show ?thesis
  proof cases
    case giga
    then have "speed_to_string s = decimal (n div 1000000000) @ ''G''"
      using valid by (simp add: speed_to_string_def n_def Let_def)
    then show ?thesis
      using giga q short s(4)
      by (auto intro!: speed_parse_whole_unit [OF speed_suffix_letter(1)] simp: n_def)
  next
    case fraction
    define r where "r = n mod 1000000000 div 1000000"
    have d: "n mod 1000000000 = r * 1000000"
    proof -
      have "n mod 1000000000 mod 1000000 = n mod 1000000" by (rule mod_mod_cancel) simp
      with fraction(2) show ?thesis unfolding r_def by (simp add: mod_eq_0_iff_dvd)
    qed
    have "speed_to_string s = decimal (n div 1000000000) @ ''.'' @ fraction_text r @ ''G''"
      using fraction valid by (simp add: speed_to_string_def n_def Let_def r_def)
    moreover have "unat s = n div 1000000000 * 1000000000 + r * 1000000"
      using d unfolding n_def by (metis div_mult_mod_eq)
    moreover have "0 < r" using fraction(1) d by (cases r) auto
    moreover have "r < 1000" unfolding r_def by (simp add: div_less_iff_less_mult)
    ultimately show ?thesis using speed_parse_giga_fraction [OF s(4)] q(1) by simp
  next
    case mega
    then have "speed_to_string s = decimal (n div 1000000) @ ''M''"
      using valid by (simp add: speed_to_string_def n_def Let_def)
    then show ?thesis
      using mega q short s(4)
      by (auto intro!: speed_parse_whole_unit [OF speed_suffix_letter(2)] simp: n_def)
  next
    case kilo
    then have "n mod 1000000000 \<noteq> 0" by (auto simp: mod_eq_0_iff_dvd dest: dvd_trans [rotated])
    with kilo have "speed_to_string s = decimal (n div 1000) @ ''K''"
      using valid by (simp add: speed_to_string_def n_def Let_def)
    then show ?thesis
      using kilo q short s(4)
      by (auto intro!: speed_parse_whole_unit [OF speed_suffix_letter(3)] simp: n_def)
  next
    case plain
    then have "n mod 1000000000 \<noteq> 0" by (auto simp: mod_eq_0_iff_dvd dest: dvd_trans [rotated])
    with plain have "speed_to_string s = decimal n"
      using valid by (simp add: speed_to_string_def n_def Let_def)
    then show ?thesis
      using q short s(4)
      by (auto intro!: speed_parse_whole_unit [OF speed_suffix_plain] simp: n_def)
  qed
qed

theorem speed_roundtrip_witness:
  "speed_parse (speed_to_string 2500000000) = Some 2500000000"
  by (rule speed_roundtrip [of 2500000000])
    (simp add: speed_from_bits_per_second_def min_speed_bits_per_second_def
      max_speed_bits_per_second_def)

end
