(* ===== verification/Characteristics.thy ===== *)
theory Characteristics
  imports Ids Speed
begin

text \<open>
  Port characteristics: \<open>include/portfabric/characteristics.hpp\<close> and
  \<open>src/characteristics.cpp\<close>. The enumerations with their renderings, parsers and legality
  tests, the breakout geometry, lane configurations, MTUs, speed settings and port-local
  aggregation membership.
\<close>

section \<open>Bounds\<close>

definition max_lanes :: u32 where "max_lanes = 16"
definition max_mtu :: u32 where "max_mtu = 65536"
definition min_mtu :: u32 where "min_mtu = 68"
definition max_breakout_children :: u32 where "max_breakout_children = 8"
definition max_queue_count :: u32 where "max_queue_count = 4096"

section \<open>Enumerations\<close>

datatype port_mode = Mode_Physical | Mode_Logical

primrec port_mode_to_string :: "port_mode \<Rightarrow> string" where
  "port_mode_to_string Mode_Physical = ''PHYSICAL''"
| "port_mode_to_string Mode_Logical = ''LOGICAL''"

definition all_port_mode :: "port_mode list" where
  "all_port_mode = [Mode_Physical, Mode_Logical]"

definition port_mode_table :: "(string \<times> port_mode) list" where
  "port_mode_table = [(''PHYSICAL'', Mode_Physical), (''LOGICAL'', Mode_Logical)]"

definition parse_port_mode :: "string \<Rightarrow> port_mode option" where
  "parse_port_mode t = first_match t port_mode_table"

interpretation port_mode_text: enum_text port_mode_to_string port_mode_table all_port_mode
proof
  show "port_mode_table = map (\<lambda>e. (port_mode_to_string e, e)) all_port_mode"
    by (simp add: port_mode_table_def all_port_mode_def)
  show "e \<in> set all_port_mode" for e
    by (cases e) (simp_all add: all_port_mode_def)
  show "distinct (map port_mode_to_string all_port_mode)"
    by (simp add: all_port_mode_def)
qed

primrec is_valid_port_mode :: "port_mode \<Rightarrow> bool" where
  "is_valid_port_mode Mode_Physical = True"
| "is_valid_port_mode Mode_Logical = True"

lemma is_valid_port_mode_True [simp]: "is_valid_port_mode e"
  by (cases e) simp_all

datatype protocol_family = Proto_Unknown | Proto_Ethernet | Proto_InfiniBand | Proto_FibreChannel
    | Proto_OpticalTransport | Proto_Overlay | Proto_Synthetic

primrec protocol_family_to_string :: "protocol_family \<Rightarrow> string" where
  "protocol_family_to_string Proto_Unknown = ''UNKNOWN''"
| "protocol_family_to_string Proto_Ethernet = ''ETHERNET''"
| "protocol_family_to_string Proto_InfiniBand = ''INFINIBAND''"
| "protocol_family_to_string Proto_FibreChannel = ''FIBRECHANNEL''"
| "protocol_family_to_string Proto_OpticalTransport = ''OPTICAL_TRANSPORT''"
| "protocol_family_to_string Proto_Overlay = ''OVERLAY''"
| "protocol_family_to_string Proto_Synthetic = ''SYNTHETIC''"

definition all_protocol_family :: "protocol_family list" where
  "all_protocol_family = [Proto_Unknown, Proto_Ethernet, Proto_InfiniBand, Proto_FibreChannel,
     Proto_OpticalTransport, Proto_Overlay, Proto_Synthetic]"

definition protocol_family_table :: "(string \<times> protocol_family) list" where
  "protocol_family_table = [(''UNKNOWN'', Proto_Unknown), (''ETHERNET'', Proto_Ethernet),
     (''INFINIBAND'', Proto_InfiniBand), (''FIBRECHANNEL'', Proto_FibreChannel),
     (''OPTICAL_TRANSPORT'', Proto_OpticalTransport), (''OVERLAY'', Proto_Overlay),
     (''SYNTHETIC'', Proto_Synthetic)]"

definition parse_protocol_family :: "string \<Rightarrow> protocol_family option" where
  "parse_protocol_family t = first_match t protocol_family_table"

interpretation protocol_family_text: enum_text protocol_family_to_string protocol_family_table all_protocol_family
proof
  show "protocol_family_table = map (\<lambda>e. (protocol_family_to_string e, e)) all_protocol_family"
    by (simp add: protocol_family_table_def all_protocol_family_def)
  show "e \<in> set all_protocol_family" for e
    by (cases e) (simp_all add: all_protocol_family_def)
  show "distinct (map protocol_family_to_string all_protocol_family)"
    by (simp add: all_protocol_family_def)
qed

primrec is_valid_protocol_family :: "protocol_family \<Rightarrow> bool" where
  "is_valid_protocol_family Proto_Unknown = True"
| "is_valid_protocol_family Proto_Ethernet = True"
| "is_valid_protocol_family Proto_InfiniBand = True"
| "is_valid_protocol_family Proto_FibreChannel = True"
| "is_valid_protocol_family Proto_OpticalTransport = True"
| "is_valid_protocol_family Proto_Overlay = True"
| "is_valid_protocol_family Proto_Synthetic = True"

lemma is_valid_protocol_family_True [simp]: "is_valid_protocol_family e"
  by (cases e) simp_all

datatype fec_mode = Fec_Unknown | Fec_Unsupported | Fec_None | Fec_Firecode | Fec_ReedSolomon528
    | Fec_ReedSolomon544 | Fec_ReedSolomon544Interleaved | Fec_ReedSolomon272Interleaved

primrec fec_mode_to_string :: "fec_mode \<Rightarrow> string" where
  "fec_mode_to_string Fec_Unknown = ''UNKNOWN''"
| "fec_mode_to_string Fec_Unsupported = ''UNSUPPORTED''"
| "fec_mode_to_string Fec_None = ''NONE''"
| "fec_mode_to_string Fec_Firecode = ''FIRECODE''"
| "fec_mode_to_string Fec_ReedSolomon528 = ''RS528''"
| "fec_mode_to_string Fec_ReedSolomon544 = ''RS544''"
| "fec_mode_to_string Fec_ReedSolomon544Interleaved = ''RS544_INTERLEAVED''"
| "fec_mode_to_string Fec_ReedSolomon272Interleaved = ''RS272_INTERLEAVED''"

definition all_fec_mode :: "fec_mode list" where
  "all_fec_mode = [Fec_Unknown, Fec_Unsupported, Fec_None, Fec_Firecode, Fec_ReedSolomon528,
     Fec_ReedSolomon544, Fec_ReedSolomon544Interleaved, Fec_ReedSolomon272Interleaved]"

definition fec_mode_table :: "(string \<times> fec_mode) list" where
  "fec_mode_table = [(''UNKNOWN'', Fec_Unknown), (''UNSUPPORTED'', Fec_Unsupported),
     (''NONE'', Fec_None), (''FIRECODE'', Fec_Firecode), (''RS528'', Fec_ReedSolomon528),
     (''RS544'', Fec_ReedSolomon544), (''RS544_INTERLEAVED'', Fec_ReedSolomon544Interleaved),
     (''RS272_INTERLEAVED'', Fec_ReedSolomon272Interleaved)]"

definition parse_fec_mode :: "string \<Rightarrow> fec_mode option" where
  "parse_fec_mode t = first_match t fec_mode_table"

interpretation fec_mode_text: enum_text fec_mode_to_string fec_mode_table all_fec_mode
proof
  show "fec_mode_table = map (\<lambda>e. (fec_mode_to_string e, e)) all_fec_mode"
    by (simp add: fec_mode_table_def all_fec_mode_def)
  show "e \<in> set all_fec_mode" for e
    by (cases e) (simp_all add: all_fec_mode_def)
  show "distinct (map fec_mode_to_string all_fec_mode)"
    by (simp add: all_fec_mode_def)
qed

primrec is_valid_fec_mode :: "fec_mode \<Rightarrow> bool" where
  "is_valid_fec_mode Fec_Unknown = True"
| "is_valid_fec_mode Fec_Unsupported = True"
| "is_valid_fec_mode Fec_None = True"
| "is_valid_fec_mode Fec_Firecode = True"
| "is_valid_fec_mode Fec_ReedSolomon528 = True"
| "is_valid_fec_mode Fec_ReedSolomon544 = True"
| "is_valid_fec_mode Fec_ReedSolomon544Interleaved = True"
| "is_valid_fec_mode Fec_ReedSolomon272Interleaved = True"

lemma is_valid_fec_mode_True [simp]: "is_valid_fec_mode e"
  by (cases e) simp_all

datatype duplex_mode = Duplex_Unknown | Duplex_Unsupported | Duplex_Half | Duplex_Full

primrec duplex_mode_to_string :: "duplex_mode \<Rightarrow> string" where
  "duplex_mode_to_string Duplex_Unknown = ''UNKNOWN''"
| "duplex_mode_to_string Duplex_Unsupported = ''UNSUPPORTED''"
| "duplex_mode_to_string Duplex_Half = ''HALF''"
| "duplex_mode_to_string Duplex_Full = ''FULL''"

definition all_duplex_mode :: "duplex_mode list" where
  "all_duplex_mode = [Duplex_Unknown, Duplex_Unsupported, Duplex_Half, Duplex_Full]"

definition duplex_mode_table :: "(string \<times> duplex_mode) list" where
  "duplex_mode_table = [(''UNKNOWN'', Duplex_Unknown), (''UNSUPPORTED'', Duplex_Unsupported),
     (''HALF'', Duplex_Half), (''FULL'', Duplex_Full)]"

definition parse_duplex_mode :: "string \<Rightarrow> duplex_mode option" where
  "parse_duplex_mode t = first_match t duplex_mode_table"

interpretation duplex_mode_text: enum_text duplex_mode_to_string duplex_mode_table all_duplex_mode
proof
  show "duplex_mode_table = map (\<lambda>e. (duplex_mode_to_string e, e)) all_duplex_mode"
    by (simp add: duplex_mode_table_def all_duplex_mode_def)
  show "e \<in> set all_duplex_mode" for e
    by (cases e) (simp_all add: all_duplex_mode_def)
  show "distinct (map duplex_mode_to_string all_duplex_mode)"
    by (simp add: all_duplex_mode_def)
qed

primrec is_valid_duplex_mode :: "duplex_mode \<Rightarrow> bool" where
  "is_valid_duplex_mode Duplex_Unknown = True"
| "is_valid_duplex_mode Duplex_Unsupported = True"
| "is_valid_duplex_mode Duplex_Half = True"
| "is_valid_duplex_mode Duplex_Full = True"

lemma is_valid_duplex_mode_True [simp]: "is_valid_duplex_mode e"
  by (cases e) simp_all

datatype autoneg_policy = Autoneg_Unknown | Autoneg_Unsupported | Autoneg_Forced
    | Autoneg_Preferred | Autoneg_Negotiated

primrec autoneg_policy_to_string :: "autoneg_policy \<Rightarrow> string" where
  "autoneg_policy_to_string Autoneg_Unknown = ''UNKNOWN''"
| "autoneg_policy_to_string Autoneg_Unsupported = ''UNSUPPORTED''"
| "autoneg_policy_to_string Autoneg_Forced = ''FORCED''"
| "autoneg_policy_to_string Autoneg_Preferred = ''PREFERRED''"
| "autoneg_policy_to_string Autoneg_Negotiated = ''NEGOTIATED''"

definition all_autoneg_policy :: "autoneg_policy list" where
  "all_autoneg_policy = [Autoneg_Unknown, Autoneg_Unsupported, Autoneg_Forced, Autoneg_Preferred,
     Autoneg_Negotiated]"

definition autoneg_policy_table :: "(string \<times> autoneg_policy) list" where
  "autoneg_policy_table = [(''UNKNOWN'', Autoneg_Unknown),
     (''UNSUPPORTED'', Autoneg_Unsupported), (''FORCED'', Autoneg_Forced),
     (''PREFERRED'', Autoneg_Preferred), (''NEGOTIATED'', Autoneg_Negotiated)]"

definition parse_autoneg_policy :: "string \<Rightarrow> autoneg_policy option" where
  "parse_autoneg_policy t = first_match t autoneg_policy_table"

interpretation autoneg_policy_text: enum_text autoneg_policy_to_string autoneg_policy_table all_autoneg_policy
proof
  show "autoneg_policy_table = map (\<lambda>e. (autoneg_policy_to_string e, e)) all_autoneg_policy"
    by (simp add: autoneg_policy_table_def all_autoneg_policy_def)
  show "e \<in> set all_autoneg_policy" for e
    by (cases e) (simp_all add: all_autoneg_policy_def)
  show "distinct (map autoneg_policy_to_string all_autoneg_policy)"
    by (simp add: all_autoneg_policy_def)
qed

primrec is_valid_autoneg_policy :: "autoneg_policy \<Rightarrow> bool" where
  "is_valid_autoneg_policy Autoneg_Unknown = True"
| "is_valid_autoneg_policy Autoneg_Unsupported = True"
| "is_valid_autoneg_policy Autoneg_Forced = True"
| "is_valid_autoneg_policy Autoneg_Preferred = True"
| "is_valid_autoneg_policy Autoneg_Negotiated = True"

lemma is_valid_autoneg_policy_True [simp]: "is_valid_autoneg_policy e"
  by (cases e) simp_all

datatype pause_mode = Pause_Unknown | Pause_Unsupported | Pause_Disabled | Pause_Transmit
    | Pause_Receive | Pause_Bidirectional

primrec pause_mode_to_string :: "pause_mode \<Rightarrow> string" where
  "pause_mode_to_string Pause_Unknown = ''UNKNOWN''"
| "pause_mode_to_string Pause_Unsupported = ''UNSUPPORTED''"
| "pause_mode_to_string Pause_Disabled = ''DISABLED''"
| "pause_mode_to_string Pause_Transmit = ''TRANSMIT''"
| "pause_mode_to_string Pause_Receive = ''RECEIVE''"
| "pause_mode_to_string Pause_Bidirectional = ''BIDIRECTIONAL''"

definition all_pause_mode :: "pause_mode list" where
  "all_pause_mode = [Pause_Unknown, Pause_Unsupported, Pause_Disabled, Pause_Transmit,
     Pause_Receive, Pause_Bidirectional]"

definition pause_mode_table :: "(string \<times> pause_mode) list" where
  "pause_mode_table = [(''UNKNOWN'', Pause_Unknown), (''UNSUPPORTED'', Pause_Unsupported),
     (''DISABLED'', Pause_Disabled), (''TRANSMIT'', Pause_Transmit),
     (''RECEIVE'', Pause_Receive), (''BIDIRECTIONAL'', Pause_Bidirectional)]"

definition parse_pause_mode :: "string \<Rightarrow> pause_mode option" where
  "parse_pause_mode t = first_match t pause_mode_table"

interpretation pause_mode_text: enum_text pause_mode_to_string pause_mode_table all_pause_mode
proof
  show "pause_mode_table = map (\<lambda>e. (pause_mode_to_string e, e)) all_pause_mode"
    by (simp add: pause_mode_table_def all_pause_mode_def)
  show "e \<in> set all_pause_mode" for e
    by (cases e) (simp_all add: all_pause_mode_def)
  show "distinct (map pause_mode_to_string all_pause_mode)"
    by (simp add: all_pause_mode_def)
qed

primrec is_valid_pause_mode :: "pause_mode \<Rightarrow> bool" where
  "is_valid_pause_mode Pause_Unknown = True"
| "is_valid_pause_mode Pause_Unsupported = True"
| "is_valid_pause_mode Pause_Disabled = True"
| "is_valid_pause_mode Pause_Transmit = True"
| "is_valid_pause_mode Pause_Receive = True"
| "is_valid_pause_mode Pause_Bidirectional = True"

lemma is_valid_pause_mode_True [simp]: "is_valid_pause_mode e"
  by (cases e) simp_all

datatype breakout_mode = Breakout_None | Breakout_X2 | Breakout_X4 | Breakout_X8

primrec breakout_mode_to_string :: "breakout_mode \<Rightarrow> string" where
  "breakout_mode_to_string Breakout_None = ''NONE''"
| "breakout_mode_to_string Breakout_X2 = ''X2''"
| "breakout_mode_to_string Breakout_X4 = ''X4''"
| "breakout_mode_to_string Breakout_X8 = ''X8''"

definition all_breakout_mode :: "breakout_mode list" where
  "all_breakout_mode = [Breakout_None, Breakout_X2, Breakout_X4, Breakout_X8]"

definition breakout_mode_table :: "(string \<times> breakout_mode) list" where
  "breakout_mode_table = [(''NONE'', Breakout_None), (''X2'', Breakout_X2),
     (''X4'', Breakout_X4), (''X8'', Breakout_X8)]"

definition parse_breakout_mode :: "string \<Rightarrow> breakout_mode option" where
  "parse_breakout_mode t = first_match t breakout_mode_table"

interpretation breakout_mode_text: enum_text breakout_mode_to_string breakout_mode_table all_breakout_mode
proof
  show "breakout_mode_table = map (\<lambda>e. (breakout_mode_to_string e, e)) all_breakout_mode"
    by (simp add: breakout_mode_table_def all_breakout_mode_def)
  show "e \<in> set all_breakout_mode" for e
    by (cases e) (simp_all add: all_breakout_mode_def)
  show "distinct (map breakout_mode_to_string all_breakout_mode)"
    by (simp add: all_breakout_mode_def)
qed

primrec is_valid_breakout_mode :: "breakout_mode \<Rightarrow> bool" where
  "is_valid_breakout_mode Breakout_None = True"
| "is_valid_breakout_mode Breakout_X2 = True"
| "is_valid_breakout_mode Breakout_X4 = True"
| "is_valid_breakout_mode Breakout_X8 = True"

lemma is_valid_breakout_mode_True [simp]: "is_valid_breakout_mode e"
  by (cases e) simp_all

datatype speed_selection = Speed_Auto | Speed_Forced

primrec speed_selection_to_string :: "speed_selection \<Rightarrow> string" where
  "speed_selection_to_string Speed_Auto = ''AUTO''"
| "speed_selection_to_string Speed_Forced = ''FORCED''"

definition all_speed_selection :: "speed_selection list" where
  "all_speed_selection = [Speed_Auto, Speed_Forced]"

definition speed_selection_table :: "(string \<times> speed_selection) list" where
  "speed_selection_table = [(''AUTO'', Speed_Auto), (''FORCED'', Speed_Forced)]"

definition parse_speed_selection :: "string \<Rightarrow> speed_selection option" where
  "parse_speed_selection t = first_match t speed_selection_table"

interpretation speed_selection_text: enum_text speed_selection_to_string speed_selection_table all_speed_selection
proof
  show "speed_selection_table = map (\<lambda>e. (speed_selection_to_string e, e)) all_speed_selection"
    by (simp add: speed_selection_table_def all_speed_selection_def)
  show "e \<in> set all_speed_selection" for e
    by (cases e) (simp_all add: all_speed_selection_def)
  show "distinct (map speed_selection_to_string all_speed_selection)"
    by (simp add: all_speed_selection_def)
qed

primrec is_valid_speed_selection :: "speed_selection \<Rightarrow> bool" where
  "is_valid_speed_selection Speed_Auto = True"
| "is_valid_speed_selection Speed_Forced = True"

lemma is_valid_speed_selection_True [simp]: "is_valid_speed_selection e"
  by (cases e) simp_all

section \<open>Breakout geometry\<close>

primrec breakout_children :: "breakout_mode \<Rightarrow> u32" where
  "breakout_children Breakout_None = 1"
| "breakout_children Breakout_X2 = 2"
| "breakout_children Breakout_X4 = 4"
| "breakout_children Breakout_X8 = 8"

definition breakout_for_children :: "u32 \<Rightarrow> breakout_mode option" where
  "breakout_for_children children =
     (if children = 1 then Some Breakout_None
      else if children = 2 then Some Breakout_X2
      else if children = 4 then Some Breakout_X4
      else if children = 8 then Some Breakout_X8
      else None)"

definition breakout_lanes_are_divisible :: "u32 \<Rightarrow> breakout_mode \<Rightarrow> bool" where
  "breakout_lanes_are_divisible lanes mode =
     (let children = breakout_children mode
      in if children = 0 \<or> lanes = 0 then False else lanes mod children = 0)"

lemma breakout_for_children_inverse: "breakout_for_children (breakout_children m) = Some m"
  by (cases m) (simp_all add: breakout_for_children_def)

lemma breakout_for_children_Some: "breakout_for_children n = Some m \<Longrightarrow> breakout_children m = n"
  by (auto simp: breakout_for_children_def split: if_splits)

lemma breakout_divisible_iff:
  "breakout_lanes_are_divisible n m \<longleftrightarrow>
     n \<noteq> 0 \<and> (\<exists>per_child. unat n = per_child * unat (breakout_children m))"
  by (cases m)
    (auto simp: breakout_lanes_are_divisible_def word_unat_eq_iff unat_mod mod_eq_0_iff_dvd dvd_def
      mult.commute)

section \<open>Lane configurations\<close>

record lane_configuration =
  lane_count :: u32
  lane_rate :: port_speed

definition no_lanes :: lane_configuration where
  "no_lanes = \<lparr>lane_count = 0, lane_rate = 0\<rparr>"

definition lanes_valid :: "lane_configuration \<Rightarrow> bool" where
  "lanes_valid l \<longleftrightarrow> lane_count l \<noteq> 0 \<and> speed_valid (lane_rate l)"

definition lanes_total :: "lane_configuration \<Rightarrow> port_speed option" where
  "lanes_total l =
     (if \<not> lanes_valid l then None
      else case checked_multiply (lane_rate l) (ucast (lane_count l)) of
          None \<Rightarrow> None
        | Some bits \<Rightarrow> speed_from_bits_per_second bits)"

definition lanes_create :: "u32 \<Rightarrow> port_speed \<Rightarrow> lane_configuration option" where
  "lanes_create lanes per_lane =
     (if lanes = 0 \<or> max_lanes < lanes \<or> \<not> speed_valid per_lane then None
      else let configuration = \<lparr>lane_count = lanes, lane_rate = per_lane\<rparr>
           in if lanes_total configuration = None then None else Some configuration)"

definition lanes_for_total :: "u32 \<Rightarrow> port_speed \<Rightarrow> lane_configuration option" where
  "lanes_for_total lanes total_rate =
     (if lanes = 0 \<or> max_lanes < lanes \<or> \<not> speed_valid total_rate then None
      else if total_rate mod ucast lanes \<noteq> 0 then None
      else case speed_from_bits_per_second (total_rate div ucast lanes) of
          None \<Rightarrow> None
        | Some per_lane \<Rightarrow> lanes_create lanes per_lane)"

definition lanes_to_string :: "lane_configuration \<Rightarrow> string" where
  "lanes_to_string l =
     (if \<not> lanes_valid l then ''UNSPECIFIED''
      else decimal (unat (lane_count l)) @ ''x'' @ speed_to_string (lane_rate l) @
           (case lanes_total l of None \<Rightarrow> [] | Some total_rate \<Rightarrow> ''='' @ speed_to_string total_rate))"

lemma unat_ucast_u32: "unat (ucast (n :: u32) :: u64) = unat n"
proof -
  have "unat n < 2 ^ 32" using unsigned_less [where 'a = nat, of n] by simp
  then show ?thesis by (simp add: unsigned_ucast_eq take_bit_nat_eq_self)
qed

lemma lanes_total_exact:
  assumes "lanes_total l = Some t"
  shows "unat t = unat (lane_count l) * unat (lane_rate l)"
    "1000000 \<le> unat t" "unat t \<le> 1600000000000"
proof -
  obtain bits where bits: "checked_multiply (lane_rate l) (ucast (lane_count l)) = Some bits"
    "speed_from_bits_per_second bits = Some t"
    using assms by (auto simp: lanes_total_def split: if_splits option.splits)
  note range = speed_range [OF bits(2)]
  show "unat t = unat (lane_count l) * unat (lane_rate l)"
    using checked_multiply_exact [OF bits(1)] range(1) by (simp add: unat_ucast_u32)
  show "1000000 \<le> unat t" "unat t \<le> 1600000000000" by (rule range(2), rule range(3))
qed

text \<open>A lane configuration built from a lane count and a total rate realises
  that total exactly, with the requested number of lanes: the product of lanes and per-lane rate
  neither wraps nor rounds, and the count stays within the lane bound.\<close>

theorem lanes_for_total_exact:
  assumes "lanes_for_total n total_rate = Some l"
  shows "lane_count l = n \<and> unat n * unat (lane_rate l) = unat total_rate \<and>
    lanes_total l = Some total_rate \<and> 0 < unat n \<and> unat n \<le> 16"
proof -
  from assms have n: "n \<noteq> 0" "n \<le> max_lanes" "total_rate mod ucast n = 0"
    and l: "lane_count l = n" "lane_rate l = total_rate div ucast n" "lanes_total l \<noteq> None"
    by (auto simp: lanes_for_total_def lanes_create_def Let_def speed_range not_less
        split: if_splits option.splits dest: speed_range(1))
  have "unat total_rate mod unat n = 0"
    using n(3) by (metis unat_mod unat_ucast_u32 unat_0)
  then have product: "unat n * unat (lane_rate l) = unat total_rate"
    by (simp add: l(2) unat_div unat_ucast_u32 mod_eq_0_iff_dvd)
  moreover obtain t where t: "lanes_total l = Some t" using l(3) by blast
  moreover from lanes_total_exact(1) [OF t] have "t = total_rate"
    by (simp add: l(1) product word_unat_eq_iff)
  moreover have "unat n \<le> 16" using n(2) by (simp add: max_lanes_def word_le_nat_alt)
  moreover have "0 < unat n" using n(1) by (simp add: unat_gt_0)
  ultimately show ?thesis using l(1) by simp
qed

theorem lanes_for_total_exact_witness:
  "lanes_total \<lparr>lane_count = 4, lane_rate = 25000000000\<rparr> = Some 100000000000"
proof -
  have "lanes_for_total 4 100000000000 = Some \<lparr>lane_count = 4, lane_rate = 25000000000\<rparr>"
    by (simp add: lanes_for_total_def lanes_create_def max_lanes_def speed_valid_def
        speed_from_bits_per_second_def min_speed_bits_per_second_def
        max_speed_bits_per_second_def lanes_total_def lanes_valid_def checked_multiply_def)
  from lanes_for_total_exact [OF this] show ?thesis by simp
qed

section \<open>MTU, speed settings, aggregation\<close>

type_synonym mtu = u32

definition mtu_create :: "u32 \<Rightarrow> mtu option" where
  "mtu_create value = (if value < min_mtu \<or> max_mtu < value then None else Some value)"

definition mtu_valid :: "mtu \<Rightarrow> bool" where
  "mtu_valid m \<longleftrightarrow> m \<noteq> 0"

definition mtu_to_string :: "mtu \<Rightarrow> string" where
  "mtu_to_string m = (if \<not> mtu_valid m then ''UNSPECIFIED'' else decimal (unat m))"

record speed_setting =
  ss_selection :: speed_selection
  ss_rate :: port_speed

definition speed_setting_valid :: "speed_setting \<Rightarrow> bool" where
  "speed_setting_valid s =
     (if \<not> is_valid_speed_selection (ss_selection s) then False
      else if ss_selection s = Speed_Auto then \<not> speed_valid (ss_rate s)
      else speed_valid (ss_rate s))"

definition speed_setting_to_string :: "speed_setting \<Rightarrow> string" where
  "speed_setting_to_string s =
     speed_selection_to_string (ss_selection s) @
     (if ss_selection s = Speed_Forced then ''('' @ speed_to_string (ss_rate s) @ '')'' else [])"

record aggregation_membership =
  ag_member :: bool
  ag_aggregate :: strong_id
  ag_generation :: generation
  ag_participation :: bool

definition aggregation_valid :: "aggregation_membership \<Rightarrow> bool" where
  "aggregation_valid a =
     (if \<not> ag_member a
      then \<not> id_valid (ag_aggregate a) \<and> \<not> gen_valid (ag_generation a) \<and> \<not> ag_participation a
      else id_valid (ag_aggregate a) \<and> gen_valid (ag_generation a))"

definition aggregation_to_string :: "aggregation_membership \<Rightarrow> string" where
  "aggregation_to_string a =
     (if \<not> ag_member a then ''NONE''
      else ag_aggregate a @ ''@'' @ format_u64 (ag_generation a) @
           (if ag_participation a then '' participating'' else '' passive''))"

definition no_aggregation :: aggregation_membership where
  "no_aggregation =
     \<lparr>ag_member = False, ag_aggregate = [], ag_generation = 0, ag_participation = False\<rparr>"

end
