(* ===== verification/Capability.thy ===== *)
theory Capability
  imports Outcome Characteristics
begin

text \<open>
  Capability evidence (\<open>include/portfabric/capability.hpp\<close>, \<open>src/capability.cpp\<close>): what a
  port is known to support, the binding of that evidence to a generation, and the verdict of
  validating a configuration against it. The providers that produce evidence are behind an
  abstract class; the engine sees them as a function (theory \<open>Engine_State\<close>).
\<close>

section \<open>Evidence\<close>

datatype capability_certainty = Cert_Unknown | Cert_Known | Cert_Partial

primrec capability_certainty_to_string :: "capability_certainty \<Rightarrow> string" where
  "capability_certainty_to_string Cert_Unknown = ''UNKNOWN''"
| "capability_certainty_to_string Cert_Known = ''KNOWN''"
| "capability_certainty_to_string Cert_Partial = ''PARTIAL''"

definition all_capability_certainty :: "capability_certainty list" where
  "all_capability_certainty = [Cert_Unknown, Cert_Known, Cert_Partial]"

definition capability_certainty_table :: "(string \<times> capability_certainty) list" where
  "capability_certainty_table = [(''UNKNOWN'', Cert_Unknown), (''KNOWN'', Cert_Known),
     (''PARTIAL'', Cert_Partial)]"

definition parse_capability_certainty :: "string \<Rightarrow> capability_certainty option" where
  "parse_capability_certainty t = first_match t capability_certainty_table"

interpretation capability_certainty_text: enum_text capability_certainty_to_string capability_certainty_table all_capability_certainty
proof
  show "capability_certainty_table = map (\<lambda>e. (capability_certainty_to_string e, e)) all_capability_certainty"
    by (simp add: capability_certainty_table_def all_capability_certainty_def)
  show "e \<in> set all_capability_certainty" for e
    by (cases e) (simp_all add: all_capability_certainty_def)
  show "distinct (map capability_certainty_to_string all_capability_certainty)"
    by (simp add: all_capability_certainty_def)
qed

primrec is_valid_capability_certainty :: "capability_certainty \<Rightarrow> bool" where
  "is_valid_capability_certainty Cert_Unknown = True"
| "is_valid_capability_certainty Cert_Known = True"
| "is_valid_capability_certainty Cert_Partial = True"

lemma is_valid_capability_certainty_True [simp]: "is_valid_capability_certainty e"
  by (cases e) simp_all

definition max_capability_entries :: nat where "max_capability_entries = 64"
definition max_mode_entries :: nat where "max_mode_entries = 32"

record port_capabilities =
  cap_certainty :: capability_certainty
  cap_supported_speeds :: "port_speed list"
  cap_lane_modes :: "u32 list"
  cap_max_lanes :: u32
  cap_breakout_supported :: bool
  cap_max_breakout_children :: u32
  cap_fec_modes :: "fec_mode list"
  cap_autoneg_modes :: "autoneg_policy list"
  cap_pause_modes :: "pause_mode list"
  cap_protocol_families :: "protocol_family list"
  cap_mtu_min :: u32
  cap_mtu_max :: u32
  cap_duplex :: duplex_mode
  cap_logical_interface_supported :: bool
  cap_max_queue_count :: u32
  cap_transceiver_required :: bool
  cap_transceiver_class :: string

definition no_capabilities :: port_capabilities where
  "no_capabilities = \<lparr>cap_certainty = Cert_Unknown, cap_supported_speeds = [],
     cap_lane_modes = [], cap_max_lanes = 0, cap_breakout_supported = False,
     cap_max_breakout_children = 1, cap_fec_modes = [], cap_autoneg_modes = [],
     cap_pause_modes = [], cap_protocol_families = [], cap_mtu_min = 0, cap_mtu_max = 0,
     cap_duplex = Duplex_Unknown, cap_logical_interface_supported = False,
     cap_max_queue_count = 0, cap_transceiver_required = False, cap_transceiver_class = []\<rparr>"

definition capabilities_validate :: "port_capabilities \<Rightarrow> check" where
  "capabilities_validate c =
     (if \<not> is_valid_capability_certainty (cap_certainty c)
      then Some ''capability certainty is not a legal value''
      else if max_capability_entries < length (cap_supported_speeds c)
      then Some ''supported speed list exceeds the configured bound''
      else if max_mode_entries < length (cap_lane_modes c)
      then Some ''lane mode list exceeds the configured bound''
      else if max_mode_entries < length (cap_fec_modes c)
      then Some ''FEC mode list exceeds the configured bound''
      else if max_mode_entries < length (cap_autoneg_modes c)
      then Some ''autonegotiation mode list exceeds the configured bound''
      else if max_mode_entries < length (cap_pause_modes c)
      then Some ''pause mode list exceeds the configured bound''
      else if max_mode_entries < length (cap_protocol_families c)
      then Some ''protocol family list exceeds the configured bound''
      else if max_lanes < cap_max_lanes c
      then Some ''lane bound exceeds the configured bound''
      else if list_ex (\<lambda>speed. \<not> speed_valid speed) (cap_supported_speeds c)
      then Some ''a supported speed entry is not a valid rate''
      else if list_ex (\<lambda>lanes. lanes = 0 \<or> max_lanes < lanes) (cap_lane_modes c)
      then Some ''a lane mode entry is outside the legal lane range''
      else if list_ex (\<lambda>mode. \<not> is_valid_fec_mode mode) (cap_fec_modes c)
      then Some ''a FEC mode entry is not a legal value''
      else if list_ex (\<lambda>policy. \<not> is_valid_autoneg_policy policy) (cap_autoneg_modes c)
      then Some ''an autonegotiation entry is not a legal value''
      else if list_ex (\<lambda>mode. \<not> is_valid_pause_mode mode) (cap_pause_modes c)
      then Some ''a pause mode entry is not a legal value''
      else if list_ex (\<lambda>family. \<not> is_valid_protocol_family family) (cap_protocol_families c)
      then Some ''a protocol family entry is not a legal value''
      else if \<not> is_valid_duplex_mode (cap_duplex c)
      then Some ''duplex evidence is not a legal value''
      else if cap_mtu_max c < cap_mtu_min c
      then Some ''capability MTU bounds are inverted''
      else if max_mtu < cap_mtu_max c
      then Some ''capability MTU bound exceeds the runtime bound''
      else if max_breakout_children < cap_max_breakout_children c
      then Some ''breakout bound exceeds the configured bound''
      else if max_queue_count < cap_max_queue_count c
      then Some ''queue count bound exceeds the configured bound''
      else case validate_text (cap_transceiver_class c) max_name_length of
          Some err \<Rightarrow> Some (''transceiver class: '' @ err)
        | None \<Rightarrow> None)"

definition supports_speed :: "port_capabilities \<Rightarrow> port_speed \<Rightarrow> bool" where
  "supports_speed c speed =
     (if \<not> speed_valid speed \<or> cap_certainty c = Cert_Unknown then False
      else speed \<in> set (cap_supported_speeds c))"

definition supports_lanes :: "port_capabilities \<Rightarrow> u32 \<Rightarrow> bool" where
  "supports_lanes c lanes =
     (if lanes = 0 \<or> cap_certainty c = Cert_Unknown then False
      else if cap_max_lanes c \<noteq> 0 \<and> cap_max_lanes c < lanes then False
      else if cap_lane_modes c = [] then cap_max_lanes c = 0 \<and> lanes = 1
      else lanes \<in> set (cap_lane_modes c))"

definition supports_fec :: "port_capabilities \<Rightarrow> fec_mode \<Rightarrow> bool" where
  "supports_fec c mode =
     (if cap_certainty c = Cert_Unknown then False
      else if mode = Fec_Unknown then False
      else mode \<in> set (cap_fec_modes c))"

definition supports_autoneg :: "port_capabilities \<Rightarrow> autoneg_policy \<Rightarrow> bool" where
  "supports_autoneg c policy =
     (if cap_certainty c = Cert_Unknown then False
      else if policy = Autoneg_Unknown then False
      else policy \<in> set (cap_autoneg_modes c))"

definition supports_pause :: "port_capabilities \<Rightarrow> pause_mode \<Rightarrow> bool" where
  "supports_pause c mode =
     (if cap_certainty c = Cert_Unknown then False
      else if mode = Pause_Unknown then False
      else mode \<in> set (cap_pause_modes c))"

definition supports_protocol :: "port_capabilities \<Rightarrow> protocol_family \<Rightarrow> bool" where
  "supports_protocol c family =
     (if cap_certainty c = Cert_Unknown \<or> family = Proto_Unknown then False
      else family \<in> set (cap_protocol_families c))"

text \<open>Comma separated lists, \<open>"none"\<close> when empty.\<close>

fun join_comma :: "string list \<Rightarrow> string" where
  "join_comma [] = []"
| "join_comma [x] = x"
| "join_comma (x # y # xs) = x @ '','' @ join_comma (y # xs)"

definition append_rendered :: "('a \<Rightarrow> string) \<Rightarrow> 'a list \<Rightarrow> string" where
  "append_rendered render values =
     (if values = [] then ''none'' else join_comma (map render values))"

definition capabilities_to_string :: "port_capabilities \<Rightarrow> string" where
  "capabilities_to_string c =
     ''certainty='' @ capability_certainty_to_string (cap_certainty c) @
     '' speeds='' @ append_rendered speed_to_string (cap_supported_speeds c) @
     '' lanes='' @ append_rendered (\<lambda>v. decimal (unat v)) (cap_lane_modes c) @
     '' max_lanes='' @ decimal (unat (cap_max_lanes c)) @
     '' breakout='' @ format_bool (cap_breakout_supported c) @
     '' fec='' @ append_rendered fec_mode_to_string (cap_fec_modes c) @
     '' mtu='' @ decimal (unat (cap_mtu_min c)) @ ''-'' @ decimal (unat (cap_mtu_max c)) @
     '' protocols='' @ append_rendered protocol_family_to_string (cap_protocol_families c)"

section \<open>Bindings\<close>

record capability_binding =
  cb_capabilities :: port_capabilities
  cb_generation :: generation
  cb_evidence_generation :: generation
  cb_evidence :: strong_id
  cb_source :: string
  cb_present :: bool

definition no_binding :: capability_binding where
  "no_binding = \<lparr>cb_capabilities = no_capabilities, cb_generation = 0,
     cb_evidence_generation = 0, cb_evidence = [], cb_source = [], cb_present = False\<rparr>"

definition binding_valid :: "capability_binding \<Rightarrow> bool" where
  "binding_valid b \<longleftrightarrow>
     \<not> cb_present b \<or> (gen_valid (cb_generation b) \<and> gen_valid (cb_evidence_generation b))"

definition binding_to_string :: "capability_binding \<Rightarrow> string" where
  "binding_to_string b =
     (if \<not> cb_present b then ''unbound''
      else ''generation='' @ format_u64 (cb_generation b) @
           '' evidence_generation='' @ format_u64 (cb_evidence_generation b) @
           '' source='' @ (if cb_source b = [] then ''unspecified'' else cb_source b) @
           '' '' @ capabilities_to_string (cb_capabilities b))"

section \<open>Verdicts\<close>

record capability_validation =
  cv_accepted :: bool
  cv_code :: outcome_code
  cv_reason :: string
  cv_detail :: string

definition cv_accept :: capability_validation where
  "cv_accept = \<lparr>cv_accepted = True, cv_code = OC_Ok, cv_reason = [], cv_detail = []\<rparr>"

definition cv_reject :: "outcome_code \<Rightarrow> string \<Rightarrow> string \<Rightarrow> capability_validation" where
  "cv_reject code reason d =
     \<lparr>cv_accepted = False, cv_code = code, cv_reason = reason, cv_detail = d\<rparr>"

definition cv_to_string :: "capability_validation \<Rightarrow> string" where
  "cv_to_string v = (if cv_accepted v then ''ACCEPTED'' else outcome_code_to_string (cv_code v))"

lemma cv_simps [simp]:
  "cv_accepted cv_accept" "\<not> cv_accepted (cv_reject c r d)" "cv_code (cv_reject c r d) = c"
  "cv_code cv_accept = OC_Ok" "cv_reason (cv_reject c r d) = r" "cv_detail (cv_reject c r d) = d"
  by (simp_all add: cv_accept_def cv_reject_def)

text \<open>UNKNOWN evidence never claims support: the fail-closed rule, dimension by dimension.\<close>

lemma unknown_supports_nothing:
  assumes "cap_certainty c = Cert_Unknown"
  shows "\<not> supports_speed c s" "\<not> supports_lanes c n" "\<not> supports_fec c f"
    "\<not> supports_autoneg c a" "\<not> supports_pause c p" "\<not> supports_protocol c q"
  using assms
  by (simp_all add: supports_speed_def supports_lanes_def supports_fec_def supports_autoneg_def
      supports_pause_def supports_protocol_def)

end
