(* ===== verification/Lifecycle.thy ===== *)
theory Lifecycle
  imports Text
begin

text \<open>
  The port lifecycle and the administrative state: \<open>include/portfabric/lifecycle.hpp\<close>,
  \<open>src/lifecycle.cpp\<close>, \<open>include/portfabric/administrative.hpp\<close> and
  \<open>src/administrative.cpp\<close>. The enumerations have only their legal values here: a value
  outside them can only come from a decoder, and the decoders reject it.
\<close>

section \<open>Lifecycle states and transitions\<close>

datatype port_lifecycle = LC_Unconfigured | LC_Configured | LC_Active | LC_AdminDisabled
    | LC_Draining | LC_Maintenance | LC_RevalidationRequired | LC_Superseded | LC_Retired
    | LC_Conflicted

primrec port_lifecycle_to_string :: "port_lifecycle \<Rightarrow> string" where
  "port_lifecycle_to_string LC_Unconfigured = ''UNCONFIGURED''"
| "port_lifecycle_to_string LC_Configured = ''CONFIGURED''"
| "port_lifecycle_to_string LC_Active = ''ACTIVE''"
| "port_lifecycle_to_string LC_AdminDisabled = ''ADMIN_DISABLED''"
| "port_lifecycle_to_string LC_Draining = ''DRAINING''"
| "port_lifecycle_to_string LC_Maintenance = ''MAINTENANCE''"
| "port_lifecycle_to_string LC_RevalidationRequired = ''REVALIDATION_REQUIRED''"
| "port_lifecycle_to_string LC_Superseded = ''SUPERSEDED''"
| "port_lifecycle_to_string LC_Retired = ''RETIRED''"
| "port_lifecycle_to_string LC_Conflicted = ''CONFLICTED''"

definition all_port_lifecycle :: "port_lifecycle list" where
  "all_port_lifecycle = [LC_Unconfigured, LC_Configured, LC_Active, LC_AdminDisabled,
     LC_Draining, LC_Maintenance, LC_RevalidationRequired, LC_Superseded, LC_Retired,
     LC_Conflicted]"

definition port_lifecycle_table :: "(string \<times> port_lifecycle) list" where
  "port_lifecycle_table = [(''UNCONFIGURED'', LC_Unconfigured), (''CONFIGURED'', LC_Configured),
     (''ACTIVE'', LC_Active), (''ADMIN_DISABLED'', LC_AdminDisabled),
     (''DRAINING'', LC_Draining), (''MAINTENANCE'', LC_Maintenance),
     (''REVALIDATION_REQUIRED'', LC_RevalidationRequired), (''SUPERSEDED'', LC_Superseded),
     (''RETIRED'', LC_Retired), (''CONFLICTED'', LC_Conflicted)]"

definition parse_port_lifecycle :: "string \<Rightarrow> port_lifecycle option" where
  "parse_port_lifecycle t = first_match t port_lifecycle_table"

interpretation port_lifecycle_text: enum_text port_lifecycle_to_string port_lifecycle_table all_port_lifecycle
proof
  show "port_lifecycle_table = map (\<lambda>e. (port_lifecycle_to_string e, e)) all_port_lifecycle"
    by (simp add: port_lifecycle_table_def all_port_lifecycle_def)
  show "e \<in> set all_port_lifecycle" for e
    by (cases e) (simp_all add: all_port_lifecycle_def)
  show "distinct (map port_lifecycle_to_string all_port_lifecycle)"
    by (simp add: all_port_lifecycle_def)
qed

primrec is_valid_port_lifecycle :: "port_lifecycle \<Rightarrow> bool" where
  "is_valid_port_lifecycle LC_Unconfigured = True"
| "is_valid_port_lifecycle LC_Configured = True"
| "is_valid_port_lifecycle LC_Active = True"
| "is_valid_port_lifecycle LC_AdminDisabled = True"
| "is_valid_port_lifecycle LC_Draining = True"
| "is_valid_port_lifecycle LC_Maintenance = True"
| "is_valid_port_lifecycle LC_RevalidationRequired = True"
| "is_valid_port_lifecycle LC_Superseded = True"
| "is_valid_port_lifecycle LC_Retired = True"
| "is_valid_port_lifecycle LC_Conflicted = True"

lemma is_valid_port_lifecycle_True [simp]: "is_valid_port_lifecycle e"
  by (cases e) simp_all

datatype lifecycle_transition = LT_Configure | LT_Activate | LT_AdminDisable | LT_AdminEnable
    | LT_BeginDrain | LT_CompleteDrain | LT_EnterMaintenance | LT_ExitMaintenance
    | LT_RequireRevalidation | LT_Supersede | LT_Retire | LT_Conflict | LT_Reconcile

primrec lifecycle_transition_to_string :: "lifecycle_transition \<Rightarrow> string" where
  "lifecycle_transition_to_string LT_Configure = ''CONFIGURE''"
| "lifecycle_transition_to_string LT_Activate = ''ACTIVATE''"
| "lifecycle_transition_to_string LT_AdminDisable = ''ADMIN_DISABLE''"
| "lifecycle_transition_to_string LT_AdminEnable = ''ADMIN_ENABLE''"
| "lifecycle_transition_to_string LT_BeginDrain = ''BEGIN_DRAIN''"
| "lifecycle_transition_to_string LT_CompleteDrain = ''COMPLETE_DRAIN''"
| "lifecycle_transition_to_string LT_EnterMaintenance = ''ENTER_MAINTENANCE''"
| "lifecycle_transition_to_string LT_ExitMaintenance = ''EXIT_MAINTENANCE''"
| "lifecycle_transition_to_string LT_RequireRevalidation = ''REQUIRE_REVALIDATION''"
| "lifecycle_transition_to_string LT_Supersede = ''SUPERSEDE''"
| "lifecycle_transition_to_string LT_Retire = ''RETIRE''"
| "lifecycle_transition_to_string LT_Conflict = ''CONFLICT''"
| "lifecycle_transition_to_string LT_Reconcile = ''RECONCILE''"

definition all_lifecycle_transition :: "lifecycle_transition list" where
  "all_lifecycle_transition = [LT_Configure, LT_Activate, LT_AdminDisable, LT_AdminEnable,
     LT_BeginDrain, LT_CompleteDrain, LT_EnterMaintenance, LT_ExitMaintenance,
     LT_RequireRevalidation, LT_Supersede, LT_Retire, LT_Conflict, LT_Reconcile]"

definition lifecycle_transition_table :: "(string \<times> lifecycle_transition) list" where
  "lifecycle_transition_table = [(''CONFIGURE'', LT_Configure), (''ACTIVATE'', LT_Activate),
     (''ADMIN_DISABLE'', LT_AdminDisable), (''ADMIN_ENABLE'', LT_AdminEnable),
     (''BEGIN_DRAIN'', LT_BeginDrain), (''COMPLETE_DRAIN'', LT_CompleteDrain),
     (''ENTER_MAINTENANCE'', LT_EnterMaintenance), (''EXIT_MAINTENANCE'', LT_ExitMaintenance),
     (''REQUIRE_REVALIDATION'', LT_RequireRevalidation), (''SUPERSEDE'', LT_Supersede),
     (''RETIRE'', LT_Retire), (''CONFLICT'', LT_Conflict), (''RECONCILE'', LT_Reconcile)]"

definition parse_lifecycle_transition :: "string \<Rightarrow> lifecycle_transition option" where
  "parse_lifecycle_transition t = first_match t lifecycle_transition_table"

interpretation lifecycle_transition_text: enum_text lifecycle_transition_to_string lifecycle_transition_table all_lifecycle_transition
proof
  show "lifecycle_transition_table = map (\<lambda>e. (lifecycle_transition_to_string e, e)) all_lifecycle_transition"
    by (simp add: lifecycle_transition_table_def all_lifecycle_transition_def)
  show "e \<in> set all_lifecycle_transition" for e
    by (cases e) (simp_all add: all_lifecycle_transition_def)
  show "distinct (map lifecycle_transition_to_string all_lifecycle_transition)"
    by (simp add: all_lifecycle_transition_def)
qed

primrec is_valid_lifecycle_transition :: "lifecycle_transition \<Rightarrow> bool" where
  "is_valid_lifecycle_transition LT_Configure = True"
| "is_valid_lifecycle_transition LT_Activate = True"
| "is_valid_lifecycle_transition LT_AdminDisable = True"
| "is_valid_lifecycle_transition LT_AdminEnable = True"
| "is_valid_lifecycle_transition LT_BeginDrain = True"
| "is_valid_lifecycle_transition LT_CompleteDrain = True"
| "is_valid_lifecycle_transition LT_EnterMaintenance = True"
| "is_valid_lifecycle_transition LT_ExitMaintenance = True"
| "is_valid_lifecycle_transition LT_RequireRevalidation = True"
| "is_valid_lifecycle_transition LT_Supersede = True"
| "is_valid_lifecycle_transition LT_Retire = True"
| "is_valid_lifecycle_transition LT_Conflict = True"
| "is_valid_lifecycle_transition LT_Reconcile = True"

lemma is_valid_lifecycle_transition_True [simp]: "is_valid_lifecycle_transition e"
  by (cases e) simp_all

definition is_live :: "port_lifecycle \<Rightarrow> bool" where
  "is_live state \<longleftrightarrow> (case state of
       LC_Configured \<Rightarrow> True | LC_Active \<Rightarrow> True | LC_AdminDisabled \<Rightarrow> True
     | LC_Draining \<Rightarrow> True | LC_Maintenance \<Rightarrow> True
     | LC_Unconfigured \<Rightarrow> False | LC_RevalidationRequired \<Rightarrow> False | LC_Superseded \<Rightarrow> False
     | LC_Retired \<Rightarrow> False | LC_Conflicted \<Rightarrow> False)"

definition is_terminal :: "port_lifecycle \<Rightarrow> bool" where
  "is_terminal state \<longleftrightarrow> state = LC_Retired"

definition is_mutable :: "port_lifecycle \<Rightarrow> bool" where
  "is_mutable state \<longleftrightarrow> is_live state \<or> state = LC_Unconfigured"

definition requires_reconciliation :: "port_lifecycle \<Rightarrow> bool" where
  "requires_reconciliation state \<longleftrightarrow> state = LC_RevalidationRequired \<or>
     state = LC_Superseded \<or> state = LC_Conflicted"

record transition_evaluation =
  te_allowed :: bool
  te_result :: port_lifecycle
  te_reason :: string

definition reject_transition :: "port_lifecycle \<Rightarrow> string \<Rightarrow> transition_evaluation" where
  "reject_transition lc reason = \<lparr>te_allowed = False, te_result = lc, te_reason = reason\<rparr>"

definition allow_transition :: "port_lifecycle \<Rightarrow> transition_evaluation" where
  "allow_transition result = \<lparr>te_allowed = True, te_result = result, te_reason = ''OK''\<rparr>"

definition enabled_landing :: port_lifecycle where
  "enabled_landing = LC_Configured"

definition evaluate_transition ::
  "port_lifecycle \<Rightarrow> lifecycle_transition \<Rightarrow> transition_evaluation" where
  "evaluate_transition lc transition =
     (if \<not> is_valid_port_lifecycle lc then reject_transition lc ''INVALID_LIFECYCLE_STATE''
      else if \<not> is_valid_lifecycle_transition transition
      then reject_transition lc ''INVALID_LIFECYCLE_TRANSITION''
      else if lc = LC_Retired then reject_transition lc ''TERMINAL_LIFECYCLE''
      else case transition of
        LT_Configure \<Rightarrow>
          (if lc = LC_Unconfigured then allow_transition enabled_landing
           else reject_transition lc ''CONFIGURATION_ALREADY_EXISTS'')
      | LT_Activate \<Rightarrow>
          (case lc of
             LC_Configured \<Rightarrow> allow_transition LC_Active
           | LC_AdminDisabled \<Rightarrow> allow_transition LC_Active
           | LC_Draining \<Rightarrow> allow_transition LC_Active
           | LC_Maintenance \<Rightarrow> allow_transition LC_Active
           | LC_Active \<Rightarrow> allow_transition LC_Active
           | _ \<Rightarrow> reject_transition lc ''ACTIVATION_REQUIRES_CONFIGURATION'')
      | LT_AdminDisable \<Rightarrow>
          (if is_live lc then allow_transition LC_AdminDisabled
           else reject_transition lc ''ADMIN_DISABLE_REQUIRES_LIVE_CONFIGURATION'')
      | LT_AdminEnable \<Rightarrow>
          (if lc = LC_AdminDisabled then allow_transition LC_Configured
           else reject_transition lc ''ENABLE_REQUIRES_DISABLED_STATE'')
      | LT_BeginDrain \<Rightarrow>
          (if is_live lc then allow_transition LC_Draining
           else reject_transition lc ''DRAIN_REQUIRES_LIVE_CONFIGURATION'')
      | LT_CompleteDrain \<Rightarrow>
          (if lc = LC_Draining then allow_transition LC_Maintenance
           else reject_transition lc ''DRAIN_COMPLETION_REQUIRES_DRAINING_STATE'')
      | LT_EnterMaintenance \<Rightarrow>
          (if is_live lc then allow_transition LC_Maintenance
           else reject_transition lc ''MAINTENANCE_REQUIRES_LIVE_CONFIGURATION'')
      | LT_ExitMaintenance \<Rightarrow>
          (if lc = LC_Maintenance \<or> lc = LC_Draining then allow_transition enabled_landing
           else reject_transition lc ''EXIT_MAINTENANCE_REQUIRES_MAINTENANCE_STATE'')
      | LT_RequireRevalidation \<Rightarrow>
          (if is_live lc \<or> lc = LC_Unconfigured then allow_transition LC_RevalidationRequired
           else if lc = LC_RevalidationRequired then allow_transition LC_RevalidationRequired
           else reject_transition lc ''REVALIDATION_NOT_APPLICABLE'')
      | LT_Supersede \<Rightarrow>
          (if lc = LC_Superseded then reject_transition lc ''ALREADY_SUPERSEDED''
           else allow_transition LC_Superseded)
      | LT_Retire \<Rightarrow> allow_transition LC_Retired
      | LT_Conflict \<Rightarrow>
          (if lc = LC_Conflicted then reject_transition lc ''ALREADY_CONFLICTED''
           else allow_transition LC_Conflicted)
      | LT_Reconcile \<Rightarrow>
          (if requires_reconciliation lc then allow_transition LC_Configured
           else reject_transition lc ''RECONCILIATION_NOT_REQUIRED''))"

definition evaluate_target ::
  "port_lifecycle \<Rightarrow> port_lifecycle \<Rightarrow> transition_evaluation" where
  "evaluate_target lc target =
     (if \<not> is_valid_port_lifecycle target then reject_transition lc ''INVALID_LIFECYCLE_STATE''
      else if lc = target then reject_transition lc ''ALREADY_IN_STATE''
      else case target of
        LC_Configured \<Rightarrow>
          (if lc = LC_Unconfigured then allow_transition target
           else if lc = LC_AdminDisabled \<or> lc = LC_Draining \<or> lc = LC_Maintenance
           then allow_transition target
           else if requires_reconciliation lc then allow_transition target
           else reject_transition lc ''TRANSITION_NOT_DEFINED'')
      | LC_Active \<Rightarrow> evaluate_transition lc LT_Activate
      | LC_AdminDisabled \<Rightarrow> evaluate_transition lc LT_AdminDisable
      | LC_Draining \<Rightarrow> evaluate_transition lc LT_BeginDrain
      | LC_Maintenance \<Rightarrow> evaluate_transition lc LT_EnterMaintenance
      | LC_RevalidationRequired \<Rightarrow> evaluate_transition lc LT_RequireRevalidation
      | LC_Superseded \<Rightarrow> evaluate_transition lc LT_Supersede
      | LC_Retired \<Rightarrow> evaluate_transition lc LT_Retire
      | LC_Conflicted \<Rightarrow> evaluate_transition lc LT_Conflict
      | LC_Unconfigured \<Rightarrow> reject_transition lc ''TRANSITION_TO_UNCONFIGURED_NOT_DEFINED'')"

lemma te_simps [simp]:
  "te_allowed (allow_transition r)" "te_result (allow_transition r) = r"
  "\<not> te_allowed (reject_transition l m)" "te_result (reject_transition l m) = l"
  "te_reason (reject_transition l m) = m"
  by (simp_all add: allow_transition_def reject_transition_def)

lemma is_live_simps [simp]:
  "\<not> is_live LC_Unconfigured" "is_live LC_Configured" "is_live LC_Active"
  "is_live LC_AdminDisabled" "is_live LC_Draining" "is_live LC_Maintenance"
  "\<not> is_live LC_RevalidationRequired" "\<not> is_live LC_Superseded" "\<not> is_live LC_Retired"
  "\<not> is_live LC_Conflicted"
  by (simp_all add: is_live_def)

text \<open>
  The transition relation of the state machine: one rule per arrow of the lifecycle diagram.
  It is the abstract specification of \<open>evaluate_transition\<close>.
\<close>

inductive lifecycle_arrow :: "port_lifecycle \<Rightarrow> lifecycle_transition \<Rightarrow> port_lifecycle \<Rightarrow> bool" where
  configure: "lifecycle_arrow LC_Unconfigured LT_Configure LC_Configured"
| activate: "is_live s \<Longrightarrow> lifecycle_arrow s LT_Activate LC_Active"
| disable: "is_live s \<Longrightarrow> lifecycle_arrow s LT_AdminDisable LC_AdminDisabled"
| enable: "lifecycle_arrow LC_AdminDisabled LT_AdminEnable LC_Configured"
| drain: "is_live s \<Longrightarrow> lifecycle_arrow s LT_BeginDrain LC_Draining"
| drained: "lifecycle_arrow LC_Draining LT_CompleteDrain LC_Maintenance"
| maintain: "is_live s \<Longrightarrow> lifecycle_arrow s LT_EnterMaintenance LC_Maintenance"
| resume: "s \<in> {LC_Maintenance, LC_Draining} \<Longrightarrow> lifecycle_arrow s LT_ExitMaintenance LC_Configured"
| revalidate: "is_mutable s \<or> s = LC_RevalidationRequired \<Longrightarrow>
     lifecycle_arrow s LT_RequireRevalidation LC_RevalidationRequired"
| supersede: "s \<notin> {LC_Superseded, LC_Retired} \<Longrightarrow> lifecycle_arrow s LT_Supersede LC_Superseded"
| retire: "s \<noteq> LC_Retired \<Longrightarrow> lifecycle_arrow s LT_Retire LC_Retired"
| conflict: "s \<notin> {LC_Conflicted, LC_Retired} \<Longrightarrow> lifecycle_arrow s LT_Conflict LC_Conflicted"
| reconcile: "requires_reconciliation s \<Longrightarrow> lifecycle_arrow s LT_Reconcile LC_Configured"

inductive_simps lifecycle_arrow_simps:
  "lifecycle_arrow s LT_Configure t" "lifecycle_arrow s LT_Activate t"
  "lifecycle_arrow s LT_AdminDisable t" "lifecycle_arrow s LT_AdminEnable t"
  "lifecycle_arrow s LT_BeginDrain t" "lifecycle_arrow s LT_CompleteDrain t"
  "lifecycle_arrow s LT_EnterMaintenance t" "lifecycle_arrow s LT_ExitMaintenance t"
  "lifecycle_arrow s LT_RequireRevalidation t" "lifecycle_arrow s LT_Supersede t"
  "lifecycle_arrow s LT_Retire t" "lifecycle_arrow s LT_Conflict t"
  "lifecycle_arrow s LT_Reconcile t"

lemma evaluate_transition_arrow:
  "(te_allowed (evaluate_transition s tr) \<and> te_result (evaluate_transition s tr) = t) =
     lifecycle_arrow s tr t"
  by (cases tr; cases s)
    (auto simp: evaluate_transition_def lifecycle_arrow_simps enabled_landing_def
      requires_reconciliation_def is_mutable_def)

lemma evaluate_transition_rejected:
  "te_allowed (evaluate_transition s tr) \<or> te_result (evaluate_transition s tr) = s"
  by (cases tr; cases s) (simp_all add: evaluate_transition_def)

text \<open>The evaluator is exactly the lifecycle diagram: a transition is allowed
  with result \<open>t\<close> if and only if the diagram has the arrow, and a rejected transition reports
  the unchanged state. So the relation is total and deterministic.\<close>

theorem evaluate_transition_diagram:
  "(te_allowed (evaluate_transition s tr) \<and> te_result (evaluate_transition s tr) = t) =
     lifecycle_arrow s tr t \<and>
   (te_allowed (evaluate_transition s tr) \<or> te_result (evaluate_transition s tr) = s)"
  by (simp add: evaluate_transition_arrow evaluate_transition_rejected)

lemma lifecycle_arrow_from_retired: "\<not> lifecycle_arrow LC_Retired tr t"
  by (cases tr) (auto simp: lifecycle_arrow_simps requires_reconciliation_def is_mutable_def)

lemma evaluate_transition_retired [simp]: "\<not> te_allowed (evaluate_transition LC_Retired tr)"
  by (simp add: evaluate_transition_def)

lemma evaluate_transition_not_retire:
  "te_allowed (evaluate_transition s tr) \<Longrightarrow> tr \<noteq> LT_Retire \<Longrightarrow>
   te_result (evaluate_transition s tr) \<noteq> LC_Retired"
  by (cases tr; cases s)
    (simp_all add: evaluate_transition_def enabled_landing_def requires_reconciliation_def)

text \<open>Runs of the machine: the reflexive transitive closure of the arrows.\<close>

inductive lifecycle_run :: "port_lifecycle \<Rightarrow> port_lifecycle \<Rightarrow> bool" where
  stay: "lifecycle_run s s"
| move: "lifecycle_run s t \<Longrightarrow> lifecycle_arrow t tr u \<Longrightarrow> lifecycle_run s u"

lemma lifecycle_run_retired: "lifecycle_run s t \<Longrightarrow> s = LC_Retired \<Longrightarrow> t = LC_Retired"
proof (induction rule: lifecycle_run.induct)
  case (stay s)
  then show ?case by simp
next
  case (move s t tr u)
  then show ?case by (simp add: lifecycle_arrow_from_retired)
qed

lemma lifecycle_run_unconfigured:
  "lifecycle_run s t \<Longrightarrow> t = LC_Unconfigured \<Longrightarrow> s = LC_Unconfigured"
  by (induction rule: lifecycle_run.induct) (auto elim: lifecycle_arrow.cases)

section \<open>Administrative state\<close>

datatype administrative_state = Adm_Unknown | Adm_Enabled | Adm_Disabled | Adm_Draining
    | Adm_Maintenance | Adm_RevalidationRequired

primrec administrative_state_to_string :: "administrative_state \<Rightarrow> string" where
  "administrative_state_to_string Adm_Unknown = ''UNKNOWN''"
| "administrative_state_to_string Adm_Enabled = ''ENABLED''"
| "administrative_state_to_string Adm_Disabled = ''DISABLED''"
| "administrative_state_to_string Adm_Draining = ''DRAINING''"
| "administrative_state_to_string Adm_Maintenance = ''MAINTENANCE''"
| "administrative_state_to_string Adm_RevalidationRequired = ''REVALIDATION_REQUIRED''"

definition all_administrative_state :: "administrative_state list" where
  "all_administrative_state = [Adm_Unknown, Adm_Enabled, Adm_Disabled, Adm_Draining,
     Adm_Maintenance, Adm_RevalidationRequired]"

definition administrative_state_table :: "(string \<times> administrative_state) list" where
  "administrative_state_table = [(''UNKNOWN'', Adm_Unknown), (''ENABLED'', Adm_Enabled),
     (''DISABLED'', Adm_Disabled), (''DRAINING'', Adm_Draining),
     (''MAINTENANCE'', Adm_Maintenance), (''REVALIDATION_REQUIRED'', Adm_RevalidationRequired)]"

definition parse_administrative_state :: "string \<Rightarrow> administrative_state option" where
  "parse_administrative_state t = first_match t administrative_state_table"

interpretation administrative_state_text: enum_text administrative_state_to_string administrative_state_table all_administrative_state
proof
  show "administrative_state_table = map (\<lambda>e. (administrative_state_to_string e, e)) all_administrative_state"
    by (simp add: administrative_state_table_def all_administrative_state_def)
  show "e \<in> set all_administrative_state" for e
    by (cases e) (simp_all add: all_administrative_state_def)
  show "distinct (map administrative_state_to_string all_administrative_state)"
    by (simp add: all_administrative_state_def)
qed

primrec is_valid_administrative_state :: "administrative_state \<Rightarrow> bool" where
  "is_valid_administrative_state Adm_Unknown = True"
| "is_valid_administrative_state Adm_Enabled = True"
| "is_valid_administrative_state Adm_Disabled = True"
| "is_valid_administrative_state Adm_Draining = True"
| "is_valid_administrative_state Adm_Maintenance = True"
| "is_valid_administrative_state Adm_RevalidationRequired = True"

lemma is_valid_administrative_state_True [simp]: "is_valid_administrative_state e"
  by (cases e) simp_all

datatype administrative_op = Op_Enable | Op_Disable | Op_Drain | Op_EnterMaintenance | Op_Resume
    | Op_RequireRevalidation

primrec administrative_op_to_string :: "administrative_op \<Rightarrow> string" where
  "administrative_op_to_string Op_Enable = ''ENABLE''"
| "administrative_op_to_string Op_Disable = ''DISABLE''"
| "administrative_op_to_string Op_Drain = ''DRAIN''"
| "administrative_op_to_string Op_EnterMaintenance = ''ENTER_MAINTENANCE''"
| "administrative_op_to_string Op_Resume = ''RESUME''"
| "administrative_op_to_string Op_RequireRevalidation = ''REQUIRE_REVALIDATION''"

definition all_administrative_op :: "administrative_op list" where
  "all_administrative_op = [Op_Enable, Op_Disable, Op_Drain, Op_EnterMaintenance, Op_Resume,
     Op_RequireRevalidation]"

definition administrative_op_table :: "(string \<times> administrative_op) list" where
  "administrative_op_table = [(''ENABLE'', Op_Enable), (''DISABLE'', Op_Disable),
     (''DRAIN'', Op_Drain), (''ENTER_MAINTENANCE'', Op_EnterMaintenance),
     (''RESUME'', Op_Resume), (''REQUIRE_REVALIDATION'', Op_RequireRevalidation)]"

definition parse_administrative_op :: "string \<Rightarrow> administrative_op option" where
  "parse_administrative_op t = first_match t administrative_op_table"

interpretation administrative_op_text: enum_text administrative_op_to_string administrative_op_table all_administrative_op
proof
  show "administrative_op_table = map (\<lambda>e. (administrative_op_to_string e, e)) all_administrative_op"
    by (simp add: administrative_op_table_def all_administrative_op_def)
  show "e \<in> set all_administrative_op" for e
    by (cases e) (simp_all add: all_administrative_op_def)
  show "distinct (map administrative_op_to_string all_administrative_op)"
    by (simp add: all_administrative_op_def)
qed

primrec is_valid_administrative_op :: "administrative_op \<Rightarrow> bool" where
  "is_valid_administrative_op Op_Enable = True"
| "is_valid_administrative_op Op_Disable = True"
| "is_valid_administrative_op Op_Drain = True"
| "is_valid_administrative_op Op_EnterMaintenance = True"
| "is_valid_administrative_op Op_Resume = True"
| "is_valid_administrative_op Op_RequireRevalidation = True"

lemma is_valid_administrative_op_True [simp]: "is_valid_administrative_op e"
  by (cases e) simp_all

primrec administrative_target :: "administrative_op \<Rightarrow> administrative_state" where
  "administrative_target Op_Enable = Adm_Enabled"
| "administrative_target Op_Disable = Adm_Disabled"
| "administrative_target Op_Drain = Adm_Draining"
| "administrative_target Op_EnterMaintenance = Adm_Maintenance"
| "administrative_target Op_Resume = Adm_Enabled"
| "administrative_target Op_RequireRevalidation = Adm_RevalidationRequired"

primrec lifecycle_transition_for :: "administrative_op \<Rightarrow> lifecycle_transition" where
  "lifecycle_transition_for Op_Enable = LT_Activate"
| "lifecycle_transition_for Op_Disable = LT_AdminDisable"
| "lifecycle_transition_for Op_Drain = LT_BeginDrain"
| "lifecycle_transition_for Op_EnterMaintenance = LT_EnterMaintenance"
| "lifecycle_transition_for Op_Resume = LT_Activate"
| "lifecycle_transition_for Op_RequireRevalidation = LT_RequireRevalidation"

definition administrative_transition_allowed ::
  "administrative_state \<Rightarrow> administrative_state \<Rightarrow> bool" where
  "administrative_transition_allowed src dst =
     (if \<not> is_valid_administrative_state src \<or> \<not> is_valid_administrative_state dst then False
      else if src = dst then True
      else case dst of
        Adm_Enabled \<Rightarrow> src \<noteq> Adm_Unknown
      | Adm_Disabled \<Rightarrow> src \<noteq> Adm_Unknown
      | Adm_Draining \<Rightarrow> src = Adm_Enabled \<or> src = Adm_Maintenance
      | Adm_Maintenance \<Rightarrow> src = Adm_Enabled \<or> src = Adm_Draining \<or> src = Adm_Disabled
      | Adm_RevalidationRequired \<Rightarrow> True
      | Adm_Unknown \<Rightarrow> False)"

primrec administrative_state_of :: "port_lifecycle \<Rightarrow> administrative_state" where
  "administrative_state_of LC_Configured = Adm_Enabled"
| "administrative_state_of LC_Active = Adm_Enabled"
| "administrative_state_of LC_AdminDisabled = Adm_Disabled"
| "administrative_state_of LC_Draining = Adm_Draining"
| "administrative_state_of LC_Maintenance = Adm_Maintenance"
| "administrative_state_of LC_RevalidationRequired = Adm_RevalidationRequired"
| "administrative_state_of LC_Unconfigured = Adm_Unknown"
| "administrative_state_of LC_Superseded = Adm_Unknown"
| "administrative_state_of LC_Retired = Adm_Unknown"
| "administrative_state_of LC_Conflicted = Adm_Unknown"

text \<open>
  The claim of the header that one mapping relates the two dimensions: an administrative
  operation on a live port is always allowed, and the lifecycle it lands in implies exactly
  the administrative state it establishes.
\<close>

lemma administrative_landing:
  "is_live s \<Longrightarrow> te_allowed (evaluate_transition s (lifecycle_transition_for op)) \<and>
   administrative_state_of (te_result (evaluate_transition s (lifecycle_transition_for op))) =
     administrative_target op"
  by (cases op; cases s) (simp_all add: evaluate_transition_def)

section \<open>Orders for the container keys\<close>

text \<open>
  The index containers are keyed by the enumerations; their order is the enumerator order of
  the code.
\<close>

primrec port_lifecycle_code :: "port_lifecycle \<Rightarrow> nat" where
  "port_lifecycle_code LC_Unconfigured = 0"
| "port_lifecycle_code LC_Configured = 1"
| "port_lifecycle_code LC_Active = 2"
| "port_lifecycle_code LC_AdminDisabled = 3"
| "port_lifecycle_code LC_Draining = 4"
| "port_lifecycle_code LC_Maintenance = 5"
| "port_lifecycle_code LC_RevalidationRequired = 6"
| "port_lifecycle_code LC_Superseded = 7"
| "port_lifecycle_code LC_Retired = 8"
| "port_lifecycle_code LC_Conflicted = 9"

primrec administrative_state_code :: "administrative_state \<Rightarrow> nat" where
  "administrative_state_code Adm_Unknown = 0"
| "administrative_state_code Adm_Enabled = 1"
| "administrative_state_code Adm_Disabled = 2"
| "administrative_state_code Adm_Draining = 3"
| "administrative_state_code Adm_Maintenance = 4"
| "administrative_state_code Adm_RevalidationRequired = 5"

lemma port_lifecycle_code_inject: "port_lifecycle_code a = port_lifecycle_code b \<Longrightarrow> a = b"
  by (cases a; cases b) simp_all

lemma administrative_state_code_inject:
  "administrative_state_code a = administrative_state_code b \<Longrightarrow> a = b"
  by (cases a; cases b) simp_all

instantiation port_lifecycle :: linorder
begin

definition less_eq_port_lifecycle :: "port_lifecycle \<Rightarrow> port_lifecycle \<Rightarrow> bool" where
  "less_eq_port_lifecycle a b \<longleftrightarrow> port_lifecycle_code a \<le> port_lifecycle_code b"

definition less_port_lifecycle :: "port_lifecycle \<Rightarrow> port_lifecycle \<Rightarrow> bool" where
  "less_port_lifecycle a b \<longleftrightarrow> port_lifecycle_code a < port_lifecycle_code b"

instance
  by standard
    (auto simp: less_eq_port_lifecycle_def less_port_lifecycle_def dest: port_lifecycle_code_inject)

end

instantiation administrative_state :: linorder
begin

definition less_eq_administrative_state :: "administrative_state \<Rightarrow> administrative_state \<Rightarrow> bool" where
  "less_eq_administrative_state a b \<longleftrightarrow> administrative_state_code a \<le> administrative_state_code b"

definition less_administrative_state :: "administrative_state \<Rightarrow> administrative_state \<Rightarrow> bool" where
  "less_administrative_state a b \<longleftrightarrow> administrative_state_code a < administrative_state_code b"

instance
  by standard
    (auto simp: less_eq_administrative_state_def less_administrative_state_def
      dest: administrative_state_code_inject)

end

end
