(* ===== verification/Configuration.thy ===== *)
theory Configuration
  imports Capability Lifecycle
begin

text \<open>
  Committed configurations and the authority that commits them:
  \<open>include/portfabric/configuration.hpp\<close>, \<open>src/configuration.cpp\<close>,
  \<open>include/portfabric/ownership.hpp\<close>, \<open>src/ownership.cpp\<close>,
  \<open>include/portfabric/authority.hpp\<close> and \<open>src/authority.cpp\<close>.
\<close>

definition gen_or_none :: "generation \<Rightarrow> string" where
  "gen_or_none g = (if gen_valid g then format_u64 g else ''none'')"

definition gen_or_empty :: "generation \<Rightarrow> string" where
  "gen_or_empty g = (if gen_valid g then format_u64 g else [])"

definition id_or_none :: "strong_id \<Rightarrow> string" where
  "id_or_none i = (if id_valid i then i else ''none'')"

definition id_or_empty :: "strong_id \<Rightarrow> string" where
  "id_or_empty i = (if id_valid i then i else [])"

lemma gen_or_empty_inject [simp]: "gen_or_empty g = gen_or_empty h \<longleftrightarrow> g = h"
  by (auto simp: gen_or_empty_def gen_valid_def) (metis format_u64_nonempty)+

lemma id_or_empty_id [simp]: "id_or_empty i = i"
  by (simp add: id_or_empty_def id_valid_def)

section \<open>Provenance and profile bindings\<close>

datatype provenance_kind = PK_Unknown | PK_Operator | PK_NetworkController | PK_SwitchAgent
    | PK_HostAgent | PK_DelegatedSubsystem | PK_SyntheticBackend | PK_HostAdapter | PK_Recovery
    | PK_Reconciliation

primrec provenance_kind_to_string :: "provenance_kind \<Rightarrow> string" where
  "provenance_kind_to_string PK_Unknown = ''UNKNOWN''"
| "provenance_kind_to_string PK_Operator = ''OPERATOR''"
| "provenance_kind_to_string PK_NetworkController = ''NETWORK_CONTROLLER''"
| "provenance_kind_to_string PK_SwitchAgent = ''SWITCH_AGENT''"
| "provenance_kind_to_string PK_HostAgent = ''HOST_AGENT''"
| "provenance_kind_to_string PK_DelegatedSubsystem = ''DELEGATED_SUBSYSTEM''"
| "provenance_kind_to_string PK_SyntheticBackend = ''SYNTHETIC_BACKEND''"
| "provenance_kind_to_string PK_HostAdapter = ''HOST_ADAPTER''"
| "provenance_kind_to_string PK_Recovery = ''RECOVERY''"
| "provenance_kind_to_string PK_Reconciliation = ''RECONCILIATION''"

definition all_provenance_kind :: "provenance_kind list" where
  "all_provenance_kind = [PK_Unknown, PK_Operator, PK_NetworkController, PK_SwitchAgent,
     PK_HostAgent, PK_DelegatedSubsystem, PK_SyntheticBackend, PK_HostAdapter, PK_Recovery,
     PK_Reconciliation]"

definition provenance_kind_table :: "(string \<times> provenance_kind) list" where
  "provenance_kind_table = [(''UNKNOWN'', PK_Unknown), (''OPERATOR'', PK_Operator),
     (''NETWORK_CONTROLLER'', PK_NetworkController), (''SWITCH_AGENT'', PK_SwitchAgent),
     (''HOST_AGENT'', PK_HostAgent), (''DELEGATED_SUBSYSTEM'', PK_DelegatedSubsystem),
     (''SYNTHETIC_BACKEND'', PK_SyntheticBackend), (''HOST_ADAPTER'', PK_HostAdapter),
     (''RECOVERY'', PK_Recovery), (''RECONCILIATION'', PK_Reconciliation)]"

definition parse_provenance_kind :: "string \<Rightarrow> provenance_kind option" where
  "parse_provenance_kind t = first_match t provenance_kind_table"

interpretation provenance_kind_text: enum_text provenance_kind_to_string provenance_kind_table all_provenance_kind
proof
  show "provenance_kind_table = map (\<lambda>e. (provenance_kind_to_string e, e)) all_provenance_kind"
    by (simp add: provenance_kind_table_def all_provenance_kind_def)
  show "e \<in> set all_provenance_kind" for e
    by (cases e) (simp_all add: all_provenance_kind_def)
  show "distinct (map provenance_kind_to_string all_provenance_kind)"
    by (simp add: all_provenance_kind_def)
qed

primrec is_valid_provenance_kind :: "provenance_kind \<Rightarrow> bool" where
  "is_valid_provenance_kind PK_Unknown = True"
| "is_valid_provenance_kind PK_Operator = True"
| "is_valid_provenance_kind PK_NetworkController = True"
| "is_valid_provenance_kind PK_SwitchAgent = True"
| "is_valid_provenance_kind PK_HostAgent = True"
| "is_valid_provenance_kind PK_DelegatedSubsystem = True"
| "is_valid_provenance_kind PK_SyntheticBackend = True"
| "is_valid_provenance_kind PK_HostAdapter = True"
| "is_valid_provenance_kind PK_Recovery = True"
| "is_valid_provenance_kind PK_Reconciliation = True"

lemma is_valid_provenance_kind_True [simp]: "is_valid_provenance_kind e"
  by (cases e) simp_all

record provenance =
  pv_kind :: provenance_kind
  pv_source :: string
  pv_publisher :: strong_id
  pv_boot :: strong_id
  pv_epoch :: generation
  pv_attempt :: strong_id

definition no_provenance :: provenance where
  "no_provenance = \<lparr>pv_kind = PK_Unknown, pv_source = [], pv_publisher = [], pv_boot = [],
     pv_epoch = 0, pv_attempt = []\<rparr>"

definition provenance_valid :: "provenance \<Rightarrow> bool" where
  "provenance_valid p \<longleftrightarrow>
     is_valid_provenance_kind (pv_kind p) \<and> gen_valid (pv_epoch p) \<and> id_valid (pv_attempt p)"

definition provenance_to_string :: "provenance \<Rightarrow> string" where
  "provenance_to_string p =
     provenance_kind_to_string (pv_kind p) @
     (if pv_source p \<noteq> [] then ''('' @ pv_source p @ '')'' else []) @
     (if id_valid (pv_publisher p) then '' publisher='' @ pv_publisher p else []) @
     (if id_valid (pv_boot p) then '' boot='' @ pv_boot p else []) @
     (if gen_valid (pv_epoch p) then '' epoch='' @ format_u64 (pv_epoch p) else []) @
     (if id_valid (pv_attempt p) then '' attempt='' @ pv_attempt p else [])"

record profile_binding =
  pb_bound :: bool
  pb_id :: strong_id
  pb_generation :: generation

definition no_profile :: profile_binding where
  "no_profile = \<lparr>pb_bound = False, pb_id = [], pb_generation = 0\<rparr>"

definition profile_binding_valid :: "profile_binding \<Rightarrow> bool" where
  "profile_binding_valid b =
     (if pb_bound b then id_valid (pb_id b) \<and> gen_valid (pb_generation b)
      else \<not> id_valid (pb_id b) \<and> \<not> gen_valid (pb_generation b))"

definition profile_binding_to_string :: "profile_binding \<Rightarrow> string" where
  "profile_binding_to_string b =
     (if \<not> pb_bound b then ''none'' else pb_id b @ ''@'' @ format_u64 (pb_generation b))"

section \<open>The configuration\<close>

record port_configuration =
  pc_record :: strong_id
  pc_port :: strong_id
  pc_parent_device :: strong_id
  pc_device_generation :: generation
  pc_topology_generation :: generation
  pc_generation :: generation
  pc_administrative :: administrative_state
  pc_mode :: port_mode
  pc_protocol :: protocol_family
  pc_speed :: speed_setting
  pc_duplex :: duplex_mode
  pc_mtu :: mtu
  pc_lanes :: lane_configuration
  pc_breakout :: breakout_mode
  pc_autoneg :: autoneg_policy
  pc_fec :: fec_mode
  pc_pause :: pause_mode
  pc_aggregation :: aggregation_membership
  pc_profile :: profile_binding
  pc_role :: string
  pc_logical_identity :: strong_id
  pc_derived_from :: strong_id
  pc_child_index :: u32
  pc_provenance :: provenance
  pc_capability_generation :: generation
  pc_evidence_generation :: generation

definition configuration_validate :: "port_configuration \<Rightarrow> check" where
  "configuration_validate c =
     (if \<not> id_valid (pc_record c) \<or> \<not> id_valid (pc_port c)
      then Some ''configuration record or port identity is missing''
      else if \<not> id_valid (pc_parent_device c) then Some ''parent device identity is missing''
      else if \<not> gen_valid (pc_device_generation c) then Some ''device generation is missing''
      else if \<not> gen_valid (pc_topology_generation c) then Some ''topology generation is missing''
      else if \<not> gen_valid (pc_generation c) then Some ''configuration generation is missing''
      else if \<not> is_valid_administrative_state (pc_administrative c)
      then Some ''administrative state is not a legal value''
      else if \<not> is_valid_port_mode (pc_mode c) then Some ''port mode is not a legal value''
      else if \<not> is_valid_protocol_family (pc_protocol c)
      then Some ''protocol family is not a legal value''
      else if \<not> speed_setting_valid (pc_speed c)
      then Some ''speed setting is inconsistent (selection and rate disagree)''
      else if \<not> is_valid_duplex_mode (pc_duplex c) then Some ''duplex mode is not a legal value''
      else if \<not> mtu_valid (pc_mtu c) then Some ''MTU is missing or outside the legal range''
      else if \<not> lanes_valid (pc_lanes c)
      then Some ''lane configuration is missing or inconsistent''
      else if \<not> is_valid_breakout_mode (pc_breakout c)
      then Some ''breakout mode is not a legal value''
      else if \<not> is_valid_autoneg_policy (pc_autoneg c)
      then Some ''autonegotiation policy is not a legal value''
      else if \<not> is_valid_fec_mode (pc_fec c) then Some ''FEC mode is not a legal value''
      else if \<not> is_valid_pause_mode (pc_pause c) then Some ''pause mode is not a legal value''
      else if \<not> aggregation_valid (pc_aggregation c)
      then Some ''aggregation membership is inconsistent''
      else if \<not> profile_binding_valid (pc_profile c) then Some ''profile binding is inconsistent''
      else if \<not> provenance_valid (pc_provenance c)
      then Some ''configuration provenance is incomplete''
      else case validate_text (pc_role c) max_name_length of
        Some err \<Rightarrow> Some (''role: '' @ err)
      | None \<Rightarrow>
        (if (case lanes_total (pc_lanes c) of None \<Rightarrow> False | Some lane_total \<Rightarrow>
              ss_selection (pc_speed c) = Speed_Forced \<and> ss_rate (pc_speed c) \<noteq> lane_total)
         then Some ''the forced rate and the lane configuration disagree''
         else if lanes_total (pc_lanes c) \<noteq> None \<and> ss_selection (pc_speed c) = Speed_Auto \<and>
              speed_valid (ss_rate (pc_speed c))
         then Some ''an automatic speed selection must not carry a rate''
         else if pc_breakout c \<noteq> Breakout_None \<and>
              \<not> breakout_lanes_are_divisible (lane_count (pc_lanes c)) (pc_breakout c)
         then Some ''the lane count is not divisible by the breakout fan-out''
         else if pc_mode c = Mode_Physical
         then (if id_valid (pc_logical_identity c) \<or> id_valid (pc_derived_from c) \<or>
                  pc_child_index c \<noteq> 0
               then Some ''a physical port must not carry a logical derivation'' else None)
         else if \<not> id_valid (pc_logical_identity c) \<or> \<not> id_valid (pc_derived_from c)
         then Some ''a logical port must carry a logical identity and its derivation''
         else if pc_child_index c \<noteq> 0 \<and> max_breakout_children < pc_child_index c
         then Some ''the breakout child index is outside the legal position range''
         else None))"

definition configuration_total_speed :: "port_configuration \<Rightarrow> port_speed option" where
  "configuration_total_speed c = lanes_total (pc_lanes c)"

definition configuration_to_string :: "port_configuration \<Rightarrow> string" where
  "configuration_to_string c =
     ''record='' @ id_or_none (pc_record c) @
     '' port='' @ id_or_none (pc_port c) @
     '' parent='' @ id_or_none (pc_parent_device c) @
     '' device_generation='' @ gen_or_none (pc_device_generation c) @
     '' topology_generation='' @ gen_or_none (pc_topology_generation c) @
     '' generation='' @ gen_or_none (pc_generation c) @
     '' administrative='' @ administrative_state_to_string (pc_administrative c) @
     '' mode='' @ port_mode_to_string (pc_mode c) @
     '' protocol='' @ protocol_family_to_string (pc_protocol c) @
     '' speed='' @ speed_setting_to_string (pc_speed c) @
     '' duplex='' @ duplex_mode_to_string (pc_duplex c) @
     '' mtu='' @ mtu_to_string (pc_mtu c) @
     '' lanes='' @ lanes_to_string (pc_lanes c) @
     '' breakout='' @ breakout_mode_to_string (pc_breakout c) @
     '' autoneg='' @ autoneg_policy_to_string (pc_autoneg c) @
     '' fec='' @ fec_mode_to_string (pc_fec c) @
     '' pause='' @ pause_mode_to_string (pc_pause c) @
     '' aggregation='' @ aggregation_to_string (pc_aggregation c) @
     '' profile='' @ profile_binding_to_string (pc_profile c) @
     '' role='' @ (if pc_role c = [] then ''none'' else pc_role c) @
     '' logical='' @ id_or_none (pc_logical_identity c) @
     '' derived_from='' @ id_or_none (pc_derived_from c) @
     '' child_index='' @ decimal (unat (pc_child_index c)) @
     '' capability_generation='' @ gen_or_none (pc_capability_generation c) @
     '' evidence_generation='' @ gen_or_none (pc_evidence_generation c) @
     '' provenance='' @ provenance_to_string (pc_provenance c)"

definition configuration_canonical_fields :: "port_configuration \<Rightarrow> (string \<times> string) list" where
  "configuration_canonical_fields c =
    [(''record'', id_or_empty (pc_record c)),
     (''port'', id_or_empty (pc_port c)),
     (''parent_device'', id_or_empty (pc_parent_device c)),
     (''device_generation'', gen_or_empty (pc_device_generation c)),
     (''topology_generation'', gen_or_empty (pc_topology_generation c)),
     (''generation'', gen_or_empty (pc_generation c)),
     (''administrative'', administrative_state_to_string (pc_administrative c)),
     (''mode'', port_mode_to_string (pc_mode c)),
     (''protocol'', protocol_family_to_string (pc_protocol c)),
     (''speed_selection'', speed_selection_to_string (ss_selection (pc_speed c))),
     (''speed_rate'', if speed_valid (ss_rate (pc_speed c))
                      then speed_to_string (ss_rate (pc_speed c)) else []),
     (''duplex'', duplex_mode_to_string (pc_duplex c)),
     (''mtu'', if mtu_valid (pc_mtu c) then mtu_to_string (pc_mtu c) else []),
     (''lanes'', lanes_to_string (pc_lanes c)),
     (''breakout'', breakout_mode_to_string (pc_breakout c)),
     (''autoneg'', autoneg_policy_to_string (pc_autoneg c)),
     (''fec'', fec_mode_to_string (pc_fec c)),
     (''pause'', pause_mode_to_string (pc_pause c)),
     (''aggregation'', aggregation_to_string (pc_aggregation c)),
     (''profile'', profile_binding_to_string (pc_profile c)),
     (''role'', pc_role c),
     (''logical_identity'', id_or_empty (pc_logical_identity c)),
     (''derived_from'', id_or_empty (pc_derived_from c)),
     (''child_index'', decimal (unat (pc_child_index c))),
     (''capability_generation'', gen_or_empty (pc_capability_generation c)),
     (''evidence_generation'', gen_or_empty (pc_evidence_generation c)),
     (''provenance_kind'', provenance_kind_to_string (pv_kind (pc_provenance c))),
     (''provenance_source'', pv_source (pc_provenance c)),
     (''provenance_publisher'', id_or_empty (pv_publisher (pc_provenance c))),
     (''provenance_epoch'', gen_or_empty (pv_epoch (pc_provenance c))),
     (''provenance_attempt'', id_or_empty (pv_attempt (pc_provenance c)))]"

text \<open>
  What a validated configuration means: every identity and generation present, the speed
  intent consistent with the lanes on the natural numbers (no wrap), the lanes split evenly
  over the breakout, and a logical derivation exactly on logical ports.
\<close>

definition configuration_consistent :: "port_configuration \<Rightarrow> bool" where
  "configuration_consistent c \<longleftrightarrow>
     pc_record c \<noteq> [] \<and> pc_port c \<noteq> [] \<and> pc_parent_device c \<noteq> [] \<and>
     pc_device_generation c \<noteq> 0 \<and> pc_topology_generation c \<noteq> 0 \<and> pc_generation c \<noteq> 0 \<and>
     (ss_selection (pc_speed c) = Speed_Forced) = (ss_rate (pc_speed c) \<noteq> 0) \<and>
     pc_mtu c \<noteq> 0 \<and> lane_count (pc_lanes c) \<noteq> 0 \<and> lane_rate (pc_lanes c) \<noteq> 0 \<and>
     aggregation_valid (pc_aggregation c) \<and> profile_binding_valid (pc_profile c) \<and>
     provenance_valid (pc_provenance c) \<and> validate_text (pc_role c) max_name_length = None \<and>
     (\<forall>rate. lanes_total (pc_lanes c) = Some rate \<longrightarrow>
        ss_selection (pc_speed c) = Speed_Forced \<longrightarrow> ss_rate (pc_speed c) = rate) \<and>
     (\<exists>per_child. unat (lane_count (pc_lanes c)) =
        per_child * unat (breakout_children (pc_breakout c))) \<and>
     (case pc_mode c of
        Mode_Physical \<Rightarrow>
          pc_logical_identity c = [] \<and> pc_derived_from c = [] \<and> pc_child_index c = 0
      | Mode_Logical \<Rightarrow>
          pc_logical_identity c \<noteq> [] \<and> pc_derived_from c \<noteq> [] \<and> pc_child_index c \<le> 8)"

lemma breakout_none_divisible: "\<exists>per_child. n = per_child * unat (breakout_children Breakout_None)"
  by simp

text \<open>Whole-configuration validation accepts exactly the consistent
  configurations. In particular an accepted forced rate is the exact product of lanes and lane
  rate whenever that product is representable, the lanes split evenly over the breakout
  children, and logical derivation fields occur on logical ports only.\<close>

theorem configuration_validate_iff:
  "configuration_validate c = None \<longleftrightarrow> configuration_consistent c"
proof (cases "validate_text (pc_role c) max_name_length")
  case (Some e)
  then show ?thesis
    by (simp add: configuration_validate_def configuration_consistent_def)
next
  case None
  have sel: "ss_selection (pc_speed c) = Speed_Auto \<or> ss_selection (pc_speed c) = Speed_Forced"
    by (cases "ss_selection (pc_speed c)") simp_all
  show ?thesis
    using None sel
    by (cases "pc_mode c"; cases "lanes_total (pc_lanes c)"; cases "pc_breakout c")
      (auto simp: configuration_validate_def configuration_consistent_def id_valid_def gen_valid_def
        speed_setting_valid_def speed_valid_def mtu_valid_def lanes_valid_def breakout_divisible_iff
        max_breakout_children_def not_less)
qed

section \<open>Validation against capability evidence\<close>

definition validate_against_capabilities ::
  "port_configuration \<Rightarrow> capability_binding \<Rightarrow> capability_validation" where
  "validate_against_capabilities c b =
     (if \<not> cb_present b \<or> \<not> gen_valid (cb_generation b)
      then cv_reject OC_CapabilityUnavailable ''CAPABILITY_UNBOUND''
             ''no capability evidence is bound to this port''
      else case capabilities_validate (cb_capabilities b) of
        Some err \<Rightarrow> cv_reject OC_CapabilityUnavailable ''CAPABILITY_EVIDENCE_INVALID'' err
      | None \<Rightarrow>
      (let cap = cb_capabilities b
       in if cap_certainty cap = Cert_Unknown
       then cv_reject OC_CapabilityUnknown ''CAPABILITY_UNKNOWN''
              ''capability evidence for this port is UNKNOWN''
       else case lanes_total (pc_lanes c) of
         None \<Rightarrow> cv_reject OC_InvalidLaneConfiguration ''LANE_TOTAL_OVERFLOW''
              ''the lane configuration does not yield a representable rate''
       | Some port_total \<Rightarrow>
       (if ss_selection (pc_speed c) = Speed_Auto \<and> port_total \<notin> set (cap_supported_speeds cap)
        then cv_reject OC_UnsupportedConfiguration ''SPEED_AUTO_UNSUPPORTED''
               (''no advertised rate matches the derived lane rate '' @ speed_to_string port_total)
        else if ss_selection (pc_speed c) \<noteq> Speed_Auto \<and>
                \<not> supports_speed cap (ss_rate (pc_speed c))
        then cv_reject OC_UnsupportedConfiguration ''SPEED_UNSUPPORTED''
               (''the port does not advertise '' @ speed_to_string (ss_rate (pc_speed c)))
        else if ss_selection (pc_speed c) \<noteq> Speed_Auto \<and> ss_rate (pc_speed c) \<noteq> port_total
        then cv_reject OC_InvalidLaneConfiguration ''LANE_RATE_MISMATCH''
               ''the lane configuration does not realise the forced rate''
        else if \<not> supports_lanes cap (lane_count (pc_lanes c))
        then cv_reject OC_UnsupportedConfiguration ''LANE_COUNT_UNSUPPORTED''
               (''the port does not support '' @ decimal (unat (lane_count (pc_lanes c))) @ '' lanes'')
        else if pc_breakout c \<noteq> Breakout_None \<and> \<not> cap_breakout_supported cap
        then cv_reject OC_UnsupportedConfiguration ''BREAKOUT_UNSUPPORTED''
               ''the port does not advertise breakout support''
        else if pc_breakout c \<noteq> Breakout_None \<and>
                cap_max_breakout_children cap < breakout_children (pc_breakout c)
        then cv_reject OC_UnsupportedConfiguration ''BREAKOUT_FANOUT_UNSUPPORTED''
               (''the port supports at most '' @ decimal (unat (cap_max_breakout_children cap)) @
                '' breakout children'')
        else if pc_protocol c = Proto_Unknown
        then cv_reject OC_CapabilityUnknown ''PROTOCOL_UNKNOWN''
               ''the configuration does not name a protocol family''
        else if \<not> supports_protocol cap (pc_protocol c)
        then cv_reject OC_UnsupportedConfiguration ''PROTOCOL_UNSUPPORTED''
               (''the port does not advertise protocol family '' @
                protocol_family_to_string (pc_protocol c))
        else if pc_fec c \<noteq> Fec_Unknown \<and> pc_fec c \<noteq> Fec_Unsupported \<and> \<not> supports_fec cap (pc_fec c)
        then cv_reject OC_UnsupportedConfiguration ''FEC_UNSUPPORTED''
               (''the port does not advertise FEC mode '' @ fec_mode_to_string (pc_fec c))
        else if pc_fec c = Fec_Unknown
        then cv_reject OC_CapabilityUnknown ''FEC_UNKNOWN''
               ''the configuration does not name a FEC mode''
        else if pc_autoneg c \<noteq> Autoneg_Unknown \<and> pc_autoneg c \<noteq> Autoneg_Unsupported \<and>
                \<not> supports_autoneg cap (pc_autoneg c)
        then cv_reject OC_UnsupportedConfiguration ''AUTONEG_UNSUPPORTED''
               (''the port does not advertise autonegotiation policy '' @
                autoneg_policy_to_string (pc_autoneg c))
        else if pc_autoneg c = Autoneg_Unknown
        then cv_reject OC_CapabilityUnknown ''AUTONEG_UNKNOWN''
               ''the configuration does not name an autonegotiation policy''
        else if pc_pause c \<noteq> Pause_Unknown \<and> pc_pause c \<noteq> Pause_Unsupported \<and>
                \<not> supports_pause cap (pc_pause c)
        then cv_reject OC_UnsupportedConfiguration ''PAUSE_UNSUPPORTED''
               (''the port does not advertise pause mode '' @ pause_mode_to_string (pc_pause c))
        else if pc_pause c = Pause_Unknown
        then cv_reject OC_CapabilityUnknown ''PAUSE_UNKNOWN''
               ''the configuration does not name a pause mode''
        else if pc_duplex c \<noteq> Duplex_Unknown \<and> pc_duplex c \<noteq> Duplex_Unsupported \<and>
                cap_duplex cap \<noteq> Duplex_Unknown \<and> cap_duplex cap \<noteq> pc_duplex c
        then cv_reject OC_UnsupportedConfiguration ''DUPLEX_UNSUPPORTED''
               (''the port does not advertise duplex mode '' @ duplex_mode_to_string (pc_duplex c))
        else if pc_duplex c = Duplex_Unknown
        then cv_reject OC_CapabilityUnknown ''DUPLEX_UNKNOWN''
               ''the configuration does not name a duplex mode''
        else if cap_mtu_max cap \<noteq> 0 \<and>
                (pc_mtu c < cap_mtu_min cap \<or> cap_mtu_max cap < pc_mtu c)
        then cv_reject OC_UnsupportedConfiguration ''MTU_OUT_OF_RANGE''
               (''the port supports MTU '' @ decimal (unat (cap_mtu_min cap)) @ ''..'' @
                decimal (unat (cap_mtu_max cap)))
        else if cap_mtu_max cap = 0
        then cv_reject OC_CapabilityUnknown ''MTU_UNKNOWN''
               ''the port does not advertise MTU bounds''
        else if pc_mode c = Mode_Logical \<and> \<not> cap_logical_interface_supported cap
        then cv_reject OC_UnsupportedConfiguration ''LOGICAL_INTERFACE_UNSUPPORTED''
               ''the port does not advertise logical interface support''
        else if cap_transceiver_required cap \<and> cap_transceiver_class cap = []
        then cv_reject OC_TransceiverUnknown ''TRANSCEIVER_UNKNOWN''
               ''the port requires a transceiver of unknown class''
        else cv_accept)))"

text \<open>
  The fail-closed contract: evidence is bound, well formed and not UNKNOWN, the lanes realise a
  representable rate that the evidence lists, and the evidence covers every further dimension
  the configuration uses.
\<close>

definition evidence_covers :: "port_capabilities \<Rightarrow> port_configuration \<Rightarrow> bool" where
  "evidence_covers cap c \<longleftrightarrow>
     cap_certainty cap \<noteq> Cert_Unknown \<and>
     (\<exists>rate. lanes_total (pc_lanes c) = Some rate \<and> rate \<in> set (cap_supported_speeds cap) \<and>
        (ss_selection (pc_speed c) = Speed_Forced \<longrightarrow> ss_rate (pc_speed c) = rate)) \<and>
     supports_lanes cap (lane_count (pc_lanes c)) \<and>
     (pc_breakout c \<noteq> Breakout_None \<longrightarrow> cap_breakout_supported cap \<and>
        breakout_children (pc_breakout c) \<le> cap_max_breakout_children cap) \<and>
     pc_protocol c \<in> set (cap_protocol_families cap) \<and> pc_protocol c \<noteq> Proto_Unknown \<and>
     pc_fec c \<noteq> Fec_Unknown \<and> (pc_fec c \<in> set (cap_fec_modes cap) \<or> pc_fec c = Fec_Unsupported) \<and>
     pc_autoneg c \<noteq> Autoneg_Unknown \<and>
     (pc_autoneg c \<in> set (cap_autoneg_modes cap) \<or> pc_autoneg c = Autoneg_Unsupported) \<and>
     pc_pause c \<noteq> Pause_Unknown \<and>
     (pc_pause c \<in> set (cap_pause_modes cap) \<or> pc_pause c = Pause_Unsupported) \<and>
     pc_duplex c \<noteq> Duplex_Unknown \<and>
     (pc_duplex c = Duplex_Unsupported \<or> cap_duplex cap \<in> {Duplex_Unknown, pc_duplex c}) \<and>
     cap_mtu_max cap \<noteq> 0 \<and> cap_mtu_min cap \<le> pc_mtu c \<and> pc_mtu c \<le> cap_mtu_max cap \<and>
     (pc_mode c = Mode_Logical \<longrightarrow> cap_logical_interface_supported cap) \<and>
     (cap_transceiver_required cap \<longrightarrow> cap_transceiver_class cap \<noteq> [])"

lemma lanes_total_valid: "lanes_total l = Some r \<Longrightarrow> speed_valid r"
  using lanes_total_exact(2) [of l r] by (auto simp: speed_valid_def)

text \<open>A chain of rejections accepts exactly when every guard fails.\<close>

lemma cv_accepted_if [simp]:
  "cv_accepted (if p then cv_reject k r d else v) \<longleftrightarrow> \<not> p \<and> cv_accepted v"
  by simp

text \<open>A rejecting verdict carries one of five codes.\<close>

definition capability_code :: "outcome_code \<Rightarrow> bool" where
  "capability_code k \<longleftrightarrow>
     k \<in> {OC_CapabilityUnavailable, OC_CapabilityUnknown, OC_InvalidLaneConfiguration,
          OC_UnsupportedConfiguration, OC_TransceiverUnknown}"

definition cv_coherent :: "capability_validation \<Rightarrow> bool" where
  "cv_coherent v \<longleftrightarrow> cv_accepted v \<or> capability_code (cv_code v)"

lemma cv_coherent_accept: "cv_coherent cv_accept"
  by (simp add: cv_coherent_def)

lemma cv_coherent_reject: "capability_code k \<Longrightarrow> cv_coherent (cv_reject k r d)"
  by (simp add: cv_coherent_def)

lemma cv_coherent_if: "cv_coherent v \<Longrightarrow> cv_coherent w \<Longrightarrow> cv_coherent (if p then v else w)"
  by simp

lemma cv_coherent_option:
  "cv_coherent v \<Longrightarrow> (\<And>x. cv_coherent (f x)) \<Longrightarrow> cv_coherent (case z of None \<Rightarrow> v | Some x \<Rightarrow> f x)"
  by (simp split: option.split)

lemma rejecting_codes:
  "capability_code OC_CapabilityUnavailable" "capability_code OC_CapabilityUnknown"
  "capability_code OC_InvalidLaneConfiguration" "capability_code OC_UnsupportedConfiguration"
  "capability_code OC_TransceiverUnknown"
  by (simp_all add: capability_code_def)

lemmas cv_coherent_intros =
  cv_coherent_if cv_coherent_option cv_coherent_accept cv_coherent_reject rejecting_codes

lemma supports_simps:
  "cap_certainty c \<noteq> Cert_Unknown \<Longrightarrow>
     supports_speed c s = (s \<in> set (cap_supported_speeds c) \<and> speed_valid s)"
  "cap_certainty c \<noteq> Cert_Unknown \<Longrightarrow>
     supports_fec c f = (f \<in> set (cap_fec_modes c) \<and> f \<noteq> Fec_Unknown)"
  "cap_certainty c \<noteq> Cert_Unknown \<Longrightarrow>
     supports_autoneg c a = (a \<in> set (cap_autoneg_modes c) \<and> a \<noteq> Autoneg_Unknown)"
  "cap_certainty c \<noteq> Cert_Unknown \<Longrightarrow>
     supports_pause c p = (p \<in> set (cap_pause_modes c) \<and> p \<noteq> Pause_Unknown)"
  "cap_certainty c \<noteq> Cert_Unknown \<Longrightarrow>
     supports_protocol c q = (q \<in> set (cap_protocol_families c) \<and> q \<noteq> Proto_Unknown)"
  by (auto simp: supports_speed_def supports_fec_def supports_autoneg_def supports_pause_def
      supports_protocol_def)

lemma not_auto_iff: "ss_selection s \<noteq> Speed_Auto \<longleftrightarrow> ss_selection s = Speed_Forced"
  by (cases "ss_selection s") simp_all

lemma capability_accepted_iff:
  "cv_accepted (validate_against_capabilities c b) \<longleftrightarrow>
     cb_present b \<and> cb_generation b \<noteq> 0 \<and> capabilities_validate (cb_capabilities b) = None \<and>
     evidence_covers (cb_capabilities b) c"
proof -
  consider (unbound) "\<not> cb_present b \<or> \<not> gen_valid (cb_generation b)"
    | (invalid) e where "cb_present b" "gen_valid (cb_generation b)"
        "capabilities_validate (cb_capabilities b) = Some e"
    | (unknown) "cb_present b" "gen_valid (cb_generation b)"
        "capabilities_validate (cb_capabilities b) = None" "cap_certainty (cb_capabilities b) = Cert_Unknown"
    | (overflow) "cb_present b" "gen_valid (cb_generation b)"
        "capabilities_validate (cb_capabilities b) = None"
        "cap_certainty (cb_capabilities b) \<noteq> Cert_Unknown" "lanes_total (pc_lanes c) = None"
    | (dimensions) rate where "cb_present b" "gen_valid (cb_generation b)"
        "capabilities_validate (cb_capabilities b) = None"
        "cap_certainty (cb_capabilities b) \<noteq> Cert_Unknown" "lanes_total (pc_lanes c) = Some rate"
    by (cases "capabilities_validate (cb_capabilities b)"; cases "lanes_total (pc_lanes c)") blast+
  then show ?thesis
  proof cases
    case unbound
    then show ?thesis by (auto simp: validate_against_capabilities_def gen_valid_def)
  next
    case invalid
    then show ?thesis by (simp add: validate_against_capabilities_def)
  next
    case unknown
    then show ?thesis by (simp add: validate_against_capabilities_def evidence_covers_def)
  next
    case overflow
    then show ?thesis by (simp add: validate_against_capabilities_def evidence_covers_def)
  next
    case (dimensions rate)
    have "cv_accepted (validate_against_capabilities c b) \<longleftrightarrow> evidence_covers (cb_capabilities b) c"
      using dimensions lanes_total_valid [OF dimensions(5)]
      by (cases "ss_selection (pc_speed c)")
        (simp_all add: validate_against_capabilities_def Let_def supports_simps evidence_covers_def
          not_less del: if_split, blast+)
    with dimensions show ?thesis by (simp add: gen_valid_def)
  qed
qed

text \<open>Capability validation is sound and complete for the fail-closed contract: a
  configuration is accepted exactly when capability evidence is bound and well formed and
  positively covers every dimension the configuration depends on; everything else, UNKNOWN
  evidence included, is rejected.\<close>

theorem capability_validation_iff:
  "cv_accepted (validate_against_capabilities c b) \<longleftrightarrow>
     cb_present b \<and> cb_generation b \<noteq> 0 \<and> capabilities_validate (cb_capabilities b) = None \<and>
     evidence_covers (cb_capabilities b) c"
  by (rule capability_accepted_iff)

lemma capability_verdict_coherent: "cv_coherent (validate_against_capabilities c b)"
  unfolding validate_against_capabilities_def Let_def
  by (intro cv_coherent_intros)

section \<open>Ownership\<close>

datatype port_owner_kind = Owner_Unknown | Owner_SwitchAgent | Owner_HostAgent
    | Owner_NetworkController | Owner_AdministrativeControlPlane | Owner_DelegatedSubsystem

primrec port_owner_kind_to_string :: "port_owner_kind \<Rightarrow> string" where
  "port_owner_kind_to_string Owner_Unknown = ''UNKNOWN''"
| "port_owner_kind_to_string Owner_SwitchAgent = ''SWITCH_AGENT''"
| "port_owner_kind_to_string Owner_HostAgent = ''HOST_AGENT''"
| "port_owner_kind_to_string Owner_NetworkController = ''NETWORK_CONTROLLER''"
| "port_owner_kind_to_string Owner_AdministrativeControlPlane = ''ADMINISTRATIVE_CONTROL_PLANE''"
| "port_owner_kind_to_string Owner_DelegatedSubsystem = ''DELEGATED_SUBSYSTEM''"

definition all_port_owner_kind :: "port_owner_kind list" where
  "all_port_owner_kind = [Owner_Unknown, Owner_SwitchAgent, Owner_HostAgent,
     Owner_NetworkController, Owner_AdministrativeControlPlane, Owner_DelegatedSubsystem]"

definition port_owner_kind_table :: "(string \<times> port_owner_kind) list" where
  "port_owner_kind_table = [(''UNKNOWN'', Owner_Unknown), (''SWITCH_AGENT'', Owner_SwitchAgent),
     (''HOST_AGENT'', Owner_HostAgent), (''NETWORK_CONTROLLER'', Owner_NetworkController),
     (''ADMINISTRATIVE_CONTROL_PLANE'', Owner_AdministrativeControlPlane),
     (''DELEGATED_SUBSYSTEM'', Owner_DelegatedSubsystem)]"

definition parse_port_owner_kind :: "string \<Rightarrow> port_owner_kind option" where
  "parse_port_owner_kind t = first_match t port_owner_kind_table"

interpretation port_owner_kind_text: enum_text port_owner_kind_to_string port_owner_kind_table all_port_owner_kind
proof
  show "port_owner_kind_table = map (\<lambda>e. (port_owner_kind_to_string e, e)) all_port_owner_kind"
    by (simp add: port_owner_kind_table_def all_port_owner_kind_def)
  show "e \<in> set all_port_owner_kind" for e
    by (cases e) (simp_all add: all_port_owner_kind_def)
  show "distinct (map port_owner_kind_to_string all_port_owner_kind)"
    by (simp add: all_port_owner_kind_def)
qed

primrec is_valid_port_owner_kind :: "port_owner_kind \<Rightarrow> bool" where
  "is_valid_port_owner_kind Owner_Unknown = True"
| "is_valid_port_owner_kind Owner_SwitchAgent = True"
| "is_valid_port_owner_kind Owner_HostAgent = True"
| "is_valid_port_owner_kind Owner_NetworkController = True"
| "is_valid_port_owner_kind Owner_AdministrativeControlPlane = True"
| "is_valid_port_owner_kind Owner_DelegatedSubsystem = True"

lemma is_valid_port_owner_kind_True [simp]: "is_valid_port_owner_kind e"
  by (cases e) simp_all

record port_ownership =
  ow_id :: strong_id
  ow_kind :: port_owner_kind
  ow_owner :: strong_id
  ow_generation :: generation
  ow_publisher :: strong_id
  ow_boot :: strong_id
  ow_epoch :: generation
  ow_exclusive :: bool

definition ownership_valid :: "port_ownership \<Rightarrow> bool" where
  "ownership_valid w \<longleftrightarrow>
     id_valid (ow_id w) \<and> is_valid_port_owner_kind (ow_kind w) \<and> id_valid (ow_owner w) \<and>
     gen_valid (ow_generation w) \<and> id_valid (ow_publisher w) \<and> id_valid (ow_boot w) \<and>
     gen_valid (ow_epoch w)"

definition held_by :: "port_ownership \<Rightarrow> strong_id \<Rightarrow> strong_id \<Rightarrow> generation \<Rightarrow> bool" where
  "held_by w publisher boot epoch \<longleftrightarrow>
     ownership_valid w \<and> ow_publisher w = publisher \<and> ow_boot w = boot \<and> ow_epoch w = epoch"

definition ownership_to_string :: "port_ownership \<Rightarrow> string" where
  "ownership_to_string w =
     (if \<not> ownership_valid w then ''unowned''
      else port_owner_kind_to_string (ow_kind w) @ '':'' @ ow_owner w @ ''#'' @
           format_u64 (ow_generation w) @ '' publisher='' @ ow_publisher w @
           '' boot='' @ ow_boot w @ '' epoch='' @ format_u64 (ow_epoch w) @
           (if ow_exclusive w then '' exclusive'' else '' shared''))"

section \<open>Authority contexts\<close>

record authority_context =
  au_epoch :: generation
  au_publisher :: strong_id
  au_boot :: strong_id
  au_ownership :: strong_id
  au_ownership_generation :: generation
  au_expected_configuration :: generation
  au_expected_capability :: generation
  au_expected_topology :: generation
  au_expected_device :: generation
  au_attempt :: strong_id

definition authority_valid :: "authority_context \<Rightarrow> bool" where
  "authority_valid a \<longleftrightarrow>
     gen_valid (au_epoch a) \<and> id_valid (au_publisher a) \<and> id_valid (au_boot a) \<and>
     id_valid (au_attempt a)"

definition authority_to_string :: "authority_context \<Rightarrow> string" where
  "authority_to_string a =
     ''epoch='' @ gen_or_none (au_epoch a) @
     '' publisher='' @ id_or_none (au_publisher a) @
     '' boot='' @ id_or_none (au_boot a) @
     '' ownership='' @ id_or_none (au_ownership a) @
     '' ownership_generation='' @ gen_or_none (au_ownership_generation a) @
     '' expected_configuration='' @ gen_or_none (au_expected_configuration a) @
     '' expected_capability='' @ gen_or_none (au_expected_capability a) @
     '' expected_topology='' @ gen_or_none (au_expected_topology a) @
     '' expected_device='' @ gen_or_none (au_expected_device a) @
     '' attempt='' @ id_or_none (au_attempt a)"

end
