(* ===== verification/Port_Record.thy ===== *)
theory Port_Record
  imports Configuration
begin

text \<open>
  The authoritative record of a port, \<open>include/portfabric/record.hpp\<close> and \<open>src/record.cpp\<close>:
  what is known about physical application, the drift state, the generations that apply to the
  record and the identity of the last committed mutation.
\<close>

section \<open>Applied outcome and drift\<close>

datatype applied_outcome = Applied_NotAttempted | Applied_Applied | Applied_ApplyFailed
    | Applied_OutcomeUnknown | Applied_Verified | Applied_Unsupported

primrec applied_outcome_to_string :: "applied_outcome \<Rightarrow> string" where
  "applied_outcome_to_string Applied_NotAttempted = ''NOT_ATTEMPTED''"
| "applied_outcome_to_string Applied_Applied = ''APPLIED''"
| "applied_outcome_to_string Applied_ApplyFailed = ''APPLY_FAILED''"
| "applied_outcome_to_string Applied_OutcomeUnknown = ''APPLY_OUTCOME_UNKNOWN''"
| "applied_outcome_to_string Applied_Verified = ''VERIFIED''"
| "applied_outcome_to_string Applied_Unsupported = ''UNSUPPORTED''"

definition all_applied_outcome :: "applied_outcome list" where
  "all_applied_outcome = [Applied_NotAttempted, Applied_Applied, Applied_ApplyFailed,
     Applied_OutcomeUnknown, Applied_Verified, Applied_Unsupported]"

definition applied_outcome_table :: "(string \<times> applied_outcome) list" where
  "applied_outcome_table = [(''NOT_ATTEMPTED'', Applied_NotAttempted),
     (''APPLIED'', Applied_Applied), (''APPLY_FAILED'', Applied_ApplyFailed),
     (''APPLY_OUTCOME_UNKNOWN'', Applied_OutcomeUnknown), (''VERIFIED'', Applied_Verified),
     (''UNSUPPORTED'', Applied_Unsupported)]"

definition parse_applied_outcome :: "string \<Rightarrow> applied_outcome option" where
  "parse_applied_outcome t = first_match t applied_outcome_table"

interpretation applied_outcome_text: enum_text applied_outcome_to_string applied_outcome_table all_applied_outcome
proof
  show "applied_outcome_table = map (\<lambda>e. (applied_outcome_to_string e, e)) all_applied_outcome"
    by (simp add: applied_outcome_table_def all_applied_outcome_def)
  show "e \<in> set all_applied_outcome" for e
    by (cases e) (simp_all add: all_applied_outcome_def)
  show "distinct (map applied_outcome_to_string all_applied_outcome)"
    by (simp add: all_applied_outcome_def)
qed

primrec is_valid_applied_outcome :: "applied_outcome \<Rightarrow> bool" where
  "is_valid_applied_outcome Applied_NotAttempted = True"
| "is_valid_applied_outcome Applied_Applied = True"
| "is_valid_applied_outcome Applied_ApplyFailed = True"
| "is_valid_applied_outcome Applied_OutcomeUnknown = True"
| "is_valid_applied_outcome Applied_Verified = True"
| "is_valid_applied_outcome Applied_Unsupported = True"

lemma is_valid_applied_outcome_True [simp]: "is_valid_applied_outcome e"
  by (cases e) simp_all

datatype drift_state = Drift_Unknown | Drift_InSync | Drift_Drifted | Drift_RevalidationRequired
    | Drift_Conflicted

primrec drift_state_to_string :: "drift_state \<Rightarrow> string" where
  "drift_state_to_string Drift_Unknown = ''UNKNOWN''"
| "drift_state_to_string Drift_InSync = ''IN_SYNC''"
| "drift_state_to_string Drift_Drifted = ''DRIFTED''"
| "drift_state_to_string Drift_RevalidationRequired = ''REVALIDATION_REQUIRED''"
| "drift_state_to_string Drift_Conflicted = ''CONFLICTED''"

definition all_drift_state :: "drift_state list" where
  "all_drift_state = [Drift_Unknown, Drift_InSync, Drift_Drifted, Drift_RevalidationRequired,
     Drift_Conflicted]"

definition drift_state_table :: "(string \<times> drift_state) list" where
  "drift_state_table = [(''UNKNOWN'', Drift_Unknown), (''IN_SYNC'', Drift_InSync),
     (''DRIFTED'', Drift_Drifted), (''REVALIDATION_REQUIRED'', Drift_RevalidationRequired),
     (''CONFLICTED'', Drift_Conflicted)]"

definition parse_drift_state :: "string \<Rightarrow> drift_state option" where
  "parse_drift_state t = first_match t drift_state_table"

interpretation drift_state_text: enum_text drift_state_to_string drift_state_table all_drift_state
proof
  show "drift_state_table = map (\<lambda>e. (drift_state_to_string e, e)) all_drift_state"
    by (simp add: drift_state_table_def all_drift_state_def)
  show "e \<in> set all_drift_state" for e
    by (cases e) (simp_all add: all_drift_state_def)
  show "distinct (map drift_state_to_string all_drift_state)"
    by (simp add: all_drift_state_def)
qed

primrec is_valid_drift_state :: "drift_state \<Rightarrow> bool" where
  "is_valid_drift_state Drift_Unknown = True"
| "is_valid_drift_state Drift_InSync = True"
| "is_valid_drift_state Drift_Drifted = True"
| "is_valid_drift_state Drift_RevalidationRequired = True"
| "is_valid_drift_state Drift_Conflicted = True"

lemma is_valid_drift_state_True [simp]: "is_valid_drift_state e"
  by (cases e) simp_all

section \<open>The parts of a record\<close>

record applied_evidence =
  ae_outcome :: applied_outcome
  ae_generation :: generation
  ae_evidence_generation :: generation
  ae_source :: string
  ae_verified :: bool

definition no_applied :: applied_evidence where
  "no_applied = \<lparr>ae_outcome = Applied_NotAttempted, ae_generation = 0,
     ae_evidence_generation = 0, ae_source = [], ae_verified = False\<rparr>"

definition applied_current_for :: "applied_evidence \<Rightarrow> generation \<Rightarrow> bool" where
  "applied_current_for e expected \<longleftrightarrow>
     ae_verified e \<and> gen_valid expected \<and> ae_generation e = expected"

definition applied_to_string :: "applied_evidence \<Rightarrow> string" where
  "applied_to_string e =
     applied_outcome_to_string (ae_outcome e) @
     '' generation='' @ gen_or_none (ae_generation e) @
     '' evidence_generation='' @ gen_or_none (ae_evidence_generation e) @
     '' verified='' @ format_bool (ae_verified e) @
     (if ae_source e = [] then [] else '' source='' @ ae_source e)"

record generation_vector =
  gv_configuration :: generation
  gv_administrative :: generation
  gv_ownership :: generation
  gv_capability :: generation
  gv_topology :: generation
  gv_device :: generation
  gv_lifecycle :: generation
  gv_evidence :: generation

definition no_generations :: generation_vector where
  "no_generations = \<lparr>gv_configuration = 0, gv_administrative = 0, gv_ownership = 0,
     gv_capability = 0, gv_topology = 0, gv_device = 0, gv_lifecycle = 0, gv_evidence = 0\<rparr>"

definition generations_to_string :: "generation_vector \<Rightarrow> string" where
  "generations_to_string g =
     ''configuration='' @ gen_or_none (gv_configuration g) @
     '' administrative='' @ gen_or_none (gv_administrative g) @
     '' ownership='' @ gen_or_none (gv_ownership g) @
     '' capability='' @ gen_or_none (gv_capability g) @
     '' topology='' @ gen_or_none (gv_topology g) @
     '' device='' @ gen_or_none (gv_device g) @
     '' lifecycle='' @ gen_or_none (gv_lifecycle g) @
     '' evidence='' @ gen_or_none (gv_evidence g)"

definition generations_canonical_fields :: "generation_vector \<Rightarrow> (string \<times> string) list" where
  "generations_canonical_fields g =
     [(''configuration'', gen_or_empty (gv_configuration g)),
      (''administrative'', gen_or_empty (gv_administrative g)),
      (''ownership'', gen_or_empty (gv_ownership g)),
      (''capability'', gen_or_empty (gv_capability g)),
      (''topology'', gen_or_empty (gv_topology g)),
      (''device'', gen_or_empty (gv_device g)),
      (''lifecycle'', gen_or_empty (gv_lifecycle g)),
      (''evidence'', gen_or_empty (gv_evidence g))]"

lemma generations_canonical_inject:
  "generations_canonical_fields g = generations_canonical_fields h \<longleftrightarrow> g = h"
  by (cases g, cases h) (simp add: generations_canonical_fields_def)

record last_mutation_record =
  lm_attempt :: strong_id
  lm_payload_digest :: u64
  lm_result_generation :: generation

definition no_last_mutation :: last_mutation_record where
  "no_last_mutation = \<lparr>lm_attempt = [], lm_payload_digest = 0, lm_result_generation = 0\<rparr>"

definition last_mutation_valid :: "last_mutation_record \<Rightarrow> bool" where
  "last_mutation_valid m \<longleftrightarrow> id_valid (lm_attempt m) \<and> lm_payload_digest m \<noteq> 0"

definition last_mutation_to_string :: "last_mutation_record \<Rightarrow> string" where
  "last_mutation_to_string m =
     (if \<not> last_mutation_valid m then ''none''
      else lm_attempt m @ '' payload='' @ format_u64 (lm_payload_digest m) @
           '' result_generation='' @ gen_or_none (lm_result_generation m))"

section \<open>The record\<close>

record port_record =
  pr_port :: strong_id
  pr_parent_device :: strong_id
  pr_lifecycle :: port_lifecycle
  pr_configuration :: "port_configuration option"
  pr_ownership :: "port_ownership option"
  pr_capability :: capability_binding
  pr_applied :: applied_evidence
  pr_drift :: drift_state
  pr_generations :: generation_vector
  pr_provenance :: provenance
  pr_last_mutation :: last_mutation_record
  pr_status_reason :: string
  pr_status_detail :: string

definition empty_record :: port_record where
  "empty_record = \<lparr>pr_port = [], pr_parent_device = [], pr_lifecycle = LC_Unconfigured,
     pr_configuration = None, pr_ownership = None, pr_capability = no_binding,
     pr_applied = no_applied, pr_drift = Drift_Unknown, pr_generations = no_generations,
     pr_provenance = no_provenance, pr_last_mutation = no_last_mutation,
     pr_status_reason = [], pr_status_detail = []\<rparr>"

definition prefixed :: "string \<Rightarrow> check \<Rightarrow> check" where
  "prefixed prefix c = map_option (\<lambda>err. prefix @ err) c"

definition record_validate :: "port_record \<Rightarrow> check" where
  "record_validate r =
     (if \<not> id_valid (pr_port r) then Some ''the record has no canonical port identity''
      else if \<not> id_valid (pr_parent_device r)
      then Some ''the record has no parent device identity''
      else if \<not> is_valid_port_lifecycle (pr_lifecycle r)
      then Some ''the lifecycle state is not a legal value''
      else if \<not> is_valid_drift_state (pr_drift r)
      then Some ''the drift state is not a legal value''
      else if \<not> is_valid_applied_outcome (ae_outcome (pr_applied r))
      then Some ''the applied outcome is not a legal value''
      else if \<not> binding_valid (pr_capability r)
      then Some ''the capability binding is inconsistent''
      else if (case pr_ownership r of None \<Rightarrow> False | Some w \<Rightarrow> \<not> ownership_valid w)
      then Some ''the ownership record is inconsistent''
      else case (case pr_configuration r of
          Some c \<Rightarrow>
            (case configuration_validate c of
               Some err \<Rightarrow> Some err
             | None \<Rightarrow>
               if pc_port c \<noteq> pr_port r
               then Some ''the configuration is bound to a different port identity''
               else if pc_parent_device c \<noteq> pr_parent_device r
               then Some ''the configuration is bound to a different parent device''
               else if gen_valid (gv_configuration (pr_generations r)) \<and>
                       pc_generation c \<noteq> gv_configuration (pr_generations r)
               then Some ''the record generation does not match the configuration generation''
               else None)
        | None \<Rightarrow>
            if pr_lifecycle r \<noteq> LC_Unconfigured \<and> pr_lifecycle r \<noteq> LC_Retired \<and>
               pr_lifecycle r \<noteq> LC_Superseded
            then Some ''a live lifecycle state requires a committed configuration''
            else None) of
        Some err \<Rightarrow> Some err
      | None \<Rightarrow>
        (case prefixed ''status reason: '' (validate_text (pr_status_reason r) max_name_length) of
           Some err \<Rightarrow> Some err
         | None \<Rightarrow>
           prefixed ''status detail: ''
             (validate_text (pr_status_detail r) max_description_length)))"

definition record_configured :: "port_record \<Rightarrow> bool" where
  "record_configured r \<longleftrightarrow> pr_configuration r \<noteq> None"

definition record_to_string :: "port_record \<Rightarrow> string" where
  "record_to_string r =
     ''port='' @ id_or_none (pr_port r) @
     '' parent='' @ id_or_none (pr_parent_device r) @
     '' lifecycle='' @ port_lifecycle_to_string (pr_lifecycle r) @
     '' drift='' @ drift_state_to_string (pr_drift r) @
     '' configuration='' @
       (case pr_configuration r of None \<Rightarrow> ''none'' | Some c \<Rightarrow> configuration_to_string c) @
     '' ownership='' @
       (case pr_ownership r of None \<Rightarrow> ''unowned'' | Some w \<Rightarrow> ownership_to_string w) @
     '' capability='' @ binding_to_string (pr_capability r) @
     '' applied='' @ applied_to_string (pr_applied r) @
     '' generations='' @ generations_to_string (pr_generations r) @
     '' last_mutation='' @ last_mutation_to_string (pr_last_mutation r) @
     (if pr_status_reason r = [] then [] else '' status='' @ pr_status_reason r)"

text \<open>What a valid record guarantees: identity, agreement of its parts, bounded text.\<close>

definition record_ok :: "port_record \<Rightarrow> bool" where
  "record_ok r \<longleftrightarrow>
     id_valid (pr_port r) \<and> id_valid (pr_parent_device r) \<and> binding_valid (pr_capability r) \<and>
     (\<forall>w. pr_ownership r = Some w \<longrightarrow> ownership_valid w) \<and>
     (case pr_configuration r of
        Some c \<Rightarrow> configuration_validate c = None \<and> pc_port c = pr_port r \<and>
          pc_parent_device c = pr_parent_device r \<and>
          (gen_valid (gv_configuration (pr_generations r)) \<longrightarrow>
             pc_generation c = gv_configuration (pr_generations r))
      | None \<Rightarrow> pr_lifecycle r \<in> {LC_Unconfigured, LC_Retired, LC_Superseded}) \<and>
     validate_text (pr_status_reason r) max_name_length = None \<and>
     validate_text (pr_status_detail r) max_description_length = None"

lemma prefixed_None [simp]: "prefixed p c = None \<longleftrightarrow> c = None"
  by (simp add: prefixed_def)

lemma prefixed_Some: "prefixed p c = Some e \<longleftrightarrow> (\<exists>d. c = Some d \<and> e = p @ d)"
  by (auto simp: prefixed_def)

lemma record_validate_ok: "record_validate r = None \<longleftrightarrow> record_ok r"
  unfolding record_validate_def record_ok_def
  by (auto simp: prefixed_Some split: if_splits option.splits)

end
