(* ===== verification/Digest.thy ===== *)
theory Digest
  imports Sha256 Port_Record "HOL-Library.Multiset"
begin

unbundle bit_operations_syntax

text \<open>
  Canonical digests, \<open>include/portfabric/digest.hpp\<close> and \<open>src/digest.cpp\<close>, with the 64 bit
  payload digest of \<open>src/engine.cpp\<close>. The builder's length prefixed encoding is proved
  unambiguous, so two digests agree only when the fields agree or SHA-256 collides.
\<close>

section \<open>The builder\<close>

type_synonym digest = "u8 list"

definition digest_zero :: digest where
  "digest_zero = replicate 32 0"

definition digest_is_zero :: "digest \<Rightarrow> bool" where
  "digest_is_zero d \<longleftrightarrow> list_all (\<lambda>b. b = 0) d"

definition text_bytes :: "string \<Rightarrow> u8 list" where
  "text_bytes s = map of_char s"

definition append_u32_le :: "u32 \<Rightarrow> u8 list" where
  "append_u32_le value = map (\<lambda>i. ucast (drop_bit (8 * i) value AND 0xff)) [0..<4]"

definition append_u64_le :: "u64 \<Rightarrow> u8 list" where
  "append_u64_le value = map (\<lambda>i. ucast (drop_bit (8 * i) value AND 0xff)) [0..<8]"

text \<open>One field; a builder's buffer is the concatenation of its fields.\<close>

definition encode_field :: "string \<times> string \<Rightarrow> u8 list" where
  "encode_field nv =
     append_u32_le (of_nat (length (fst nv))) @ text_bytes (fst nv) @
     append_u64_le (of_nat (length (snd nv))) @ text_bytes (snd nv)"

definition encode_fields :: "(string \<times> string) list \<Rightarrow> u8 list" where
  "encode_fields fs = concat (map encode_field fs)"

definition field_u64 :: "string \<Rightarrow> u64 \<Rightarrow> string \<times> string" where
  "field_u64 name value = (name, format_u64 value)"

definition field_bool :: "string \<Rightarrow> bool \<Rightarrow> string \<times> string" where
  "field_bool name value = (name, if value then ''1'' else ''0'')"

definition digest_fields :: "(string \<times> string) list \<Rightarrow> digest" where
  "digest_fields fs = sha256_of (encode_fields fs)"

definition digest_bytes :: "string \<Rightarrow> digest" where
  "digest_bytes bytes = sha256_of (text_bytes bytes)"

section \<open>The encoding is unambiguous\<close>

lemma text_bytes_inject [simp]: "text_bytes s = text_bytes t \<longleftrightarrow> s = t"
proof -
  have "inj (of_char :: char \<Rightarrow> u8)"
  proof (rule injI)
    fix c d :: char
    assume "(of_char c :: u8) = of_char d"
    then have "(of_nat (of_char c) :: u8) = of_nat (of_char d)" by (simp only: of_nat_of_char)
    then have "(of_char c :: nat) mod 256 = of_char d mod 256"
      by (simp add: word_of_nat_eq_iff take_bit_eq_mod del: of_nat_of_char of_char_mod_256)
    then show "c = d" by simp
  qed
  then show ?thesis by (auto simp: text_bytes_def inj_map_eq_map)
qed

lemma length_text_bytes [simp]: "length (text_bytes s) = length s"
  by (simp add: text_bytes_def)

lemma byte_bit_u32:
  "m < 8 \<Longrightarrow> bit (ucast (drop_bit k (v :: u32) AND 0xff) :: u8) m = bit v (k + m)"
proof -
  have m: "(0xff :: u32) = mask 8" by (simp add: mask_eq_exp_minus_1)
  assume "m < 8"
  then show ?thesis
    unfolding m by (auto simp: bit_simps dest: bit_imp_le_length)
qed

lemma byte_bit_u64:
  "m < 8 \<Longrightarrow> bit (ucast (drop_bit k (v :: u64) AND 0xff) :: u8) m = bit v (k + m)"
proof -
  have m: "(0xff :: u64) = mask 8" by (simp add: mask_eq_exp_minus_1)
  assume "m < 8"
  then show ?thesis
    unfolding m by (auto simp: bit_simps dest: bit_imp_le_length)
qed

lemma append_u32_le_inject [simp]: "append_u32_le v = append_u32_le w \<longleftrightarrow> v = w"
proof
  assume eq: "append_u32_le v = append_u32_le w"
  show "v = w"
  proof (rule bit_word_eqI)
    fix n
    assume "n < LENGTH(32)"
    then have i: "n div 8 < 4" by simp
    have "append_u32_le v ! (n div 8) = append_u32_le w ! (n div 8)" by (simp only: eq)
    with i have "(ucast (drop_bit (8 * (n div 8)) v AND 0xff) :: u8) =
        ucast (drop_bit (8 * (n div 8)) w AND 0xff)"
      by (simp only: append_u32_le_def nth_map length_upt diff_zero nth_upt add_0)
    from arg_cong [OF this, of "\<lambda>b. bit b (n mod 8)"] show "bit v n = bit w n"
      by (simp only: byte_bit_u32 pos_mod_bound mod_less_divisor zero_less_numeral mult_div_mod_eq)
  qed
qed simp

lemma append_u64_le_inject [simp]: "append_u64_le v = append_u64_le w \<longleftrightarrow> v = w"
proof
  assume eq: "append_u64_le v = append_u64_le w"
  show "v = w"
  proof (rule bit_word_eqI)
    fix n
    assume "n < LENGTH(64)"
    then have i: "n div 8 < 8" by simp
    have "append_u64_le v ! (n div 8) = append_u64_le w ! (n div 8)" by (simp only: eq)
    with i have "(ucast (drop_bit (8 * (n div 8)) v AND 0xff) :: u8) =
        ucast (drop_bit (8 * (n div 8)) w AND 0xff)"
      by (simp only: append_u64_le_def nth_map length_upt diff_zero nth_upt add_0)
    from arg_cong [OF this, of "\<lambda>b. bit b (n mod 8)"] show "bit v n = bit w n"
      by (simp only: byte_bit_u64 pos_mod_bound mod_less_divisor zero_less_numeral mult_div_mod_eq)
  qed
qed simp

lemma length_append_le [simp]: "length (append_u32_le v) = 4" "length (append_u64_le w) = 8"
  by (simp_all add: append_u32_le_def append_u64_le_def)

definition field_bounded :: "string \<times> string \<Rightarrow> bool" where
  "field_bounded nv \<longleftrightarrow> length (fst nv) < 2 ^ 32 \<and> length (snd nv) < 2 ^ 64"

lemma of_nat_u32_inject: "m < 2 ^ 32 \<Longrightarrow> n < 2 ^ 32 \<Longrightarrow> (of_nat m :: u32) = of_nat n \<longleftrightarrow> m = n"
  by (simp add: word_of_nat_eq_iff take_bit_nat_eq_self)

lemma of_nat_u64_inject: "m < 2 ^ 64 \<Longrightarrow> n < 2 ^ 64 \<Longrightarrow> (of_nat m :: u64) = of_nat n \<longleftrightarrow> m = n"
  by (simp add: word_of_nat_eq_iff take_bit_nat_eq_self)

lemma encode_field_prefix:
  assumes "encode_field a @ xs = encode_field b @ ys" "field_bounded a" "field_bounded b"
  shows "a = b \<and> xs = ys"
proof -
  obtain n v m w where ab: "a = (n, v)" "b = (m, w)" by (cases a, cases b) blast
  from assms(1) have eq: "append_u32_le (of_nat (length n)) @ text_bytes n @
      append_u64_le (of_nat (length v)) @ text_bytes v @ xs =
    append_u32_le (of_nat (length m)) @ text_bytes m @
      append_u64_le (of_nat (length w)) @ text_bytes w @ ys"
    by (simp add: encode_field_def ab)
  from assms(2,3) have bounds: "length n < 2 ^ 32" "length m < 2 ^ 32" "length v < 2 ^ 64"
    "length w < 2 ^ 64" by (simp_all add: ab field_bounded_def)
  from eq have "(of_nat (length n) :: u32) = of_nat (length m)" by (simp add: append_eq_append_conv)
  then have "length n = length m" using bounds by (simp only: of_nat_u32_inject)
  with eq have rest: "n = m" "append_u64_le (of_nat (length v)) @ text_bytes v @ xs =
      append_u64_le (of_nat (length w)) @ text_bytes w @ ys"
    by (simp_all add: append_eq_append_conv)
  from rest(2) have "(of_nat (length v) :: u64) = of_nat (length w)"
    by (simp add: append_eq_append_conv)
  then have "length v = length w" using bounds by (simp only: of_nat_u64_inject)
  with rest show ?thesis by (simp add: ab append_eq_append_conv)
qed

lemma encode_field_nonempty [simp]: "encode_field a \<noteq> []"
  by (simp add: encode_field_def append_u32_le_def)

text \<open>
  The length prefixed field encoding is unambiguous: two lists of named fields
  (names below 4 GiB, values below 16 EiB) have the same encoding only when they are the same
  list, so no two different canonical field lists feed the same bytes to SHA-256.
\<close>

theorem encode_fields_inject:
  "list_all field_bounded fs \<Longrightarrow> list_all field_bounded gs \<Longrightarrow>
   encode_fields fs = encode_fields gs \<longleftrightarrow> fs = gs"
proof (induction fs arbitrary: gs)
  case Nil
  then show ?case by (cases gs) (auto simp: encode_fields_def)
next
  case (Cons f fs)
  show ?case
  proof (cases gs)
    case Nil
    then show ?thesis by (simp add: encode_fields_def)
  next
    case (Cons g gs')
    with Cons.prems Cons.IH [of gs'] show ?thesis
      using encode_field_prefix [of f "encode_fields fs" g "encode_fields gs'"]
      by (auto simp: encode_fields_def)
  qed
qed

theorem encode_fields_inject_witness:
  "list_all field_bounded [(''mtu'', ''1500''), (''role'', [])] \<and>
   encode_fields [(''mtu'', ''1500''), (''role'', [])] \<noteq> encode_fields [(''mtu'', ''1500role'')]"
  using encode_fields_inject [of "[(''mtu'', ''1500''), (''role'', [])]" "[(''mtu'', ''1500role'')]"]
  by (simp add: field_bounded_def)

section \<open>Digests of configurations and records\<close>

definition digest_configuration :: "port_configuration \<Rightarrow> digest" where
  "digest_configuration c =
     digest_fields (filter (\<lambda>(name, value). name \<noteq> ''provenance_attempt'' \<and>
       name \<noteq> ''evidence_generation'') (configuration_canonical_fields c))"

definition record_fields :: "port_record \<Rightarrow> (string \<times> string) list" where
  "record_fields r =
     [(''port'', pr_port r), (''parent_device'', pr_parent_device r),
      (''lifecycle'', port_lifecycle_to_string (pr_lifecycle r)),
      (''drift'', drift_state_to_string (pr_drift r)),
      field_bool ''configured'' (pr_configuration r \<noteq> None)] @
     (case pr_configuration r of None \<Rightarrow> []
      | Some c \<Rightarrow> [(''configuration'', bytes_to_hex (digest_configuration c))]) @
     [(''ownership'', case pr_ownership r of None \<Rightarrow> [] | Some w \<Rightarrow> ownership_to_string w),
      (''capability_generation'', gen_or_empty (cb_generation (pr_capability r))),
      (''capability_source'', cb_source (pr_capability r)),
      (''applied'', applied_outcome_to_string (ae_outcome (pr_applied r))),
      field_bool ''applied_verified'' (ae_verified (pr_applied r))] @
     map (\<lambda>(name, value). (''generation.'' @ name, value))
       (generations_canonical_fields (pr_generations r)) @
     [(''last_mutation_attempt'', id_or_empty (lm_attempt (pr_last_mutation r))),
      field_u64 ''last_mutation_payload'' (lm_payload_digest (pr_last_mutation r)),
      (''status_reason'', pr_status_reason r)]"

definition digest_record :: "port_record \<Rightarrow> digest" where
  "digest_record r = digest_fields (record_fields r)"

definition digest_records :: "port_record list \<Rightarrow> digest" where
  "digest_records records =
     (let ordered = sort_key pr_port records
      in digest_fields (field_u64 ''record_count'' (of_nat (length ordered)) #
           map (\<lambda>r. (pr_port r, bytes_to_hex (digest_record r))) ordered))"

text \<open>
  The digest of a set of records does not depend on the order in which the
  container hands them out: any two enumerations of the same records, one record per port,
  have the same digest.
\<close>

theorem digest_records_order_independent:
  assumes "mset rs = mset ss" and "distinct (map pr_port rs)"
  shows "digest_records rs = digest_records ss"
proof -
  have "inj_on pr_port (set rs)" using assms(2) by (simp add: distinct_map)
  then have "sort_key pr_port rs = sort_key pr_port ss"
    using assms(1) by (intro sort_key_inj_key_eq) simp_all
  then show ?thesis by (simp only: digest_records_def)
qed

theorem digest_records_order_independent_witness:
  "digest_records [empty_record\<lparr>pr_port := ''a''\<rparr>, empty_record\<lparr>pr_port := ''b''\<rparr>] =
   digest_records [empty_record\<lparr>pr_port := ''b''\<rparr>, empty_record\<lparr>pr_port := ''a''\<rparr>]"
  by (rule digest_records_order_independent) simp_all

section \<open>The payload digest\<close>

definition hex_value :: "char \<Rightarrow> u64" where
  "hex_value ch = (if is_digit ch then of_char ch - 48 else of_char ch - 97 + 10)"

definition payload_digest_of :: "digest \<Rightarrow> u64" where
  "payload_digest_of d =
     (let value = foldl (\<lambda>v ch. push_bit 4 v OR hex_value ch) 0 (take 16 (bytes_to_hex d))
      in if value = 0 then 1 else value)"

definition payload_digest :: "string \<Rightarrow> u64" where
  "payload_digest payload = payload_digest_of (digest_bytes payload)"

lemma payload_digest_nonzero [simp]: "payload_digest p \<noteq> 0"
  by (simp add: payload_digest_def payload_digest_of_def Let_def)


end
