(* ===== verification/Profile.thy ===== *)
theory Profile
  imports Outcome Digest
begin

text \<open>
  Reusable configuration bundles, \<open>include/portfabric/profile.hpp\<close> and \<open>src/profile.cpp\<close>:
  the dimensions a profile specifies, the registry of immutable profile generations and the
  application of a profile to a configuration.
\<close>

definition max_profiles :: nat where "max_profiles = 65536"
definition max_profile_generations :: nat where "max_profile_generations = 64"

section \<open>Profile configurations\<close>

record profile_configuration =
  pf_specifies_speed :: bool
  pf_speed :: speed_setting
  pf_specifies_mtu :: bool
  pf_mtu :: mtu
  pf_specifies_duplex :: bool
  pf_duplex :: duplex_mode
  pf_specifies_autoneg :: bool
  pf_autoneg :: autoneg_policy
  pf_specifies_fec :: bool
  pf_fec :: fec_mode
  pf_specifies_pause :: bool
  pf_pause :: pause_mode
  pf_specifies_breakout :: bool
  pf_breakout :: breakout_mode
  pf_specifies_mode :: bool
  pf_mode :: port_mode
  pf_specifies_protocol :: bool
  pf_protocol :: protocol_family
  pf_specifies_aggregation :: bool
  pf_aggregate_participation :: bool
  pf_specifies_role :: bool
  pf_role :: string

definition no_profile_configuration :: profile_configuration where
  "no_profile_configuration =
     \<lparr>pf_specifies_speed = False, pf_speed = \<lparr>ss_selection = Speed_Auto, ss_rate = 0\<rparr>,
      pf_specifies_mtu = False, pf_mtu = 0,
      pf_specifies_duplex = False, pf_duplex = Duplex_Unknown,
      pf_specifies_autoneg = False, pf_autoneg = Autoneg_Unknown,
      pf_specifies_fec = False, pf_fec = Fec_Unknown,
      pf_specifies_pause = False, pf_pause = Pause_Unknown,
      pf_specifies_breakout = False, pf_breakout = Breakout_None,
      pf_specifies_mode = False, pf_mode = Mode_Physical,
      pf_specifies_protocol = False, pf_protocol = Proto_Unknown,
      pf_specifies_aggregation = False, pf_aggregate_participation = False,
      pf_specifies_role = False, pf_role = []\<rparr>"

definition profile_configuration_validate :: "profile_configuration \<Rightarrow> check" where
  "profile_configuration_validate p =
     (if pf_specifies_speed p \<and> \<not> speed_setting_valid (pf_speed p)
     then Some ''profile speed specification is inconsistent''
     else if pf_specifies_mtu p \<and> \<not> mtu_valid (pf_mtu p)
     then Some ''profile MTU specification is outside the legal range''
     else if pf_specifies_duplex p \<and> \<not> is_valid_duplex_mode (pf_duplex p)
     then Some ''profile duplex specification is not a legal value''
     else if pf_specifies_autoneg p \<and> \<not> is_valid_autoneg_policy (pf_autoneg p)
     then Some ''profile autonegotiation specification is not a legal value''
     else if pf_specifies_fec p \<and> \<not> is_valid_fec_mode (pf_fec p)
     then Some ''profile FEC specification is not a legal value''
     else if pf_specifies_pause p \<and> \<not> is_valid_pause_mode (pf_pause p)
     then Some ''profile pause specification is not a legal value''
     else if pf_specifies_breakout p \<and> \<not> is_valid_breakout_mode (pf_breakout p)
     then Some ''profile breakout specification is not a legal value''
     else if pf_specifies_mode p \<and> \<not> is_valid_port_mode (pf_mode p)
     then Some ''profile port mode specification is not a legal value''
     else if pf_specifies_protocol p \<and> \<not> is_valid_protocol_family (pf_protocol p)
     then Some ''profile protocol specification is not a legal value''
     else case prefixed ''profile role: '' (validate_text (pf_role p) max_name_length) of
         Some err \<Rightarrow> Some err
       | None \<Rightarrow>
         if \<not> pf_specifies_role p \<and> pf_role p \<noteq> []
         then Some ''profile carries a role without declaring it specified''
         else None)"

definition profile_unspecified :: "profile_configuration \<Rightarrow> bool" where
  "profile_unspecified p \<longleftrightarrow>
     \<not> pf_specifies_speed p \<and> \<not> pf_specifies_mtu p \<and> \<not> pf_specifies_duplex p \<and>
     \<not> pf_specifies_autoneg p \<and> \<not> pf_specifies_fec p \<and> \<not> pf_specifies_pause p \<and>
     \<not> pf_specifies_breakout p \<and> \<not> pf_specifies_mode p \<and> \<not> pf_specifies_protocol p \<and>
     \<not> pf_specifies_aggregation p \<and> \<not> pf_specifies_role p"

definition flag_field :: "bool \<Rightarrow> string" where
  "flag_field present = (if present then ''specified'' else ''absent'')"

definition profile_canonical_fields :: "profile_configuration \<Rightarrow> (string \<times> string) list" where
  "profile_canonical_fields p =
     [(''speed'', flag_field (pf_specifies_speed p)), (''speed_value'', speed_setting_to_string (pf_speed p)),
      (''mtu'', flag_field (pf_specifies_mtu p)), (''mtu_value'', mtu_to_string (pf_mtu p)),
      (''duplex'', flag_field (pf_specifies_duplex p)), (''duplex_value'', duplex_mode_to_string (pf_duplex p)),
      (''autoneg'', flag_field (pf_specifies_autoneg p)), (''autoneg_value'', autoneg_policy_to_string (pf_autoneg p)),
      (''fec'', flag_field (pf_specifies_fec p)), (''fec_value'', fec_mode_to_string (pf_fec p)),
      (''pause'', flag_field (pf_specifies_pause p)), (''pause_value'', pause_mode_to_string (pf_pause p)),
      (''breakout'', flag_field (pf_specifies_breakout p)), (''breakout_value'', breakout_mode_to_string (pf_breakout p)),
      (''mode'', flag_field (pf_specifies_mode p)), (''mode_value'', port_mode_to_string (pf_mode p)),
      (''protocol'', flag_field (pf_specifies_protocol p)), (''protocol_value'', protocol_family_to_string (pf_protocol p)),
      (''aggregation'', flag_field (pf_specifies_aggregation p)),
      (''aggregation_participation'',
        if pf_aggregate_participation p then ''participating'' else ''passive''),
      (''role'', flag_field (pf_specifies_role p)), (''role_value'', pf_role p)]"

definition profile_configuration_to_string :: "profile_configuration \<Rightarrow> string" where
  "profile_configuration_to_string p =
     (let rendered = map (\<lambda>(name, value). name @ ''='' @ (if value = [] then ''none'' else value))
                       (profile_canonical_fields p)
      in hd rendered @ concat (map (\<lambda>f. '' '' @ f) (tl rendered)))"

definition apply_profile :: "profile_configuration \<Rightarrow> port_configuration \<Rightarrow> port_configuration" where
  "apply_profile p c =
     (let c = (if pf_specifies_speed p then c\<lparr>pc_speed := pf_speed p\<rparr> else c);
          c = (if pf_specifies_mtu p then c\<lparr>pc_mtu := pf_mtu p\<rparr> else c);
          c = (if pf_specifies_duplex p then c\<lparr>pc_duplex := pf_duplex p\<rparr> else c);
          c = (if pf_specifies_autoneg p then c\<lparr>pc_autoneg := pf_autoneg p\<rparr> else c);
          c = (if pf_specifies_fec p then c\<lparr>pc_fec := pf_fec p\<rparr> else c);
          c = (if pf_specifies_pause p then c\<lparr>pc_pause := pf_pause p\<rparr> else c);
          c = (if pf_specifies_breakout p then c\<lparr>pc_breakout := pf_breakout p\<rparr> else c);
          c = (if pf_specifies_mode p then c\<lparr>pc_mode := pf_mode p\<rparr> else c);
          c = (if pf_specifies_protocol p then c\<lparr>pc_protocol := pf_protocol p\<rparr> else c);
          c = (if pf_specifies_aggregation p
               then c\<lparr>pc_aggregation :=
                        (pc_aggregation c)\<lparr>ag_participation := pf_aggregate_participation p\<rparr>\<rparr>
               else c);
          c = (if pf_specifies_role p then c\<lparr>pc_role := pf_role p\<rparr> else c)
      in c)"

text \<open>What a profile may touch, and what it leaves as it was.\<close>

lemma apply_profile_identity [simp]:
  "pc_record (apply_profile p c) = pc_record c" "pc_port (apply_profile p c) = pc_port c"
  "pc_parent_device (apply_profile p c) = pc_parent_device c"
  "pc_device_generation (apply_profile p c) = pc_device_generation c"
  "pc_topology_generation (apply_profile p c) = pc_topology_generation c"
  "pc_generation (apply_profile p c) = pc_generation c"
  "pc_administrative (apply_profile p c) = pc_administrative c"
  "pc_lanes (apply_profile p c) = pc_lanes c" "pc_profile (apply_profile p c) = pc_profile c"
  "pc_logical_identity (apply_profile p c) = pc_logical_identity c"
  "pc_derived_from (apply_profile p c) = pc_derived_from c"
  "pc_child_index (apply_profile p c) = pc_child_index c"
  "pc_provenance (apply_profile p c) = pc_provenance c"
  "pc_capability_generation (apply_profile p c) = pc_capability_generation c"
  "pc_evidence_generation (apply_profile p c) = pc_evidence_generation c"
  by (simp_all add: apply_profile_def Let_def)

text \<open>
  Applying a profile sets every dimension the profile specifies to the profile's
  value and leaves every dimension it does not specify as it was.
\<close>

theorem apply_profile_dimensions:
  "pc_speed (apply_profile p c) = (if pf_specifies_speed p then pf_speed p else pc_speed c) \<and>
   pc_mtu (apply_profile p c) = (if pf_specifies_mtu p then pf_mtu p else pc_mtu c) \<and>
   pc_duplex (apply_profile p c) = (if pf_specifies_duplex p then pf_duplex p else pc_duplex c) \<and>
   pc_autoneg (apply_profile p c) =
     (if pf_specifies_autoneg p then pf_autoneg p else pc_autoneg c) \<and>
   pc_fec (apply_profile p c) = (if pf_specifies_fec p then pf_fec p else pc_fec c) \<and>
   pc_pause (apply_profile p c) = (if pf_specifies_pause p then pf_pause p else pc_pause c) \<and>
   pc_breakout (apply_profile p c) =
     (if pf_specifies_breakout p then pf_breakout p else pc_breakout c) \<and>
   pc_mode (apply_profile p c) = (if pf_specifies_mode p then pf_mode p else pc_mode c) \<and>
   pc_protocol (apply_profile p c) =
     (if pf_specifies_protocol p then pf_protocol p else pc_protocol c) \<and>
   pc_role (apply_profile p c) = (if pf_specifies_role p then pf_role p else pc_role c) \<and>
   pc_aggregation (apply_profile p c) =
     (if pf_specifies_aggregation p
      then (pc_aggregation c)\<lparr>ag_participation := pf_aggregate_participation p\<rparr>
      else pc_aggregation c)"
  by (simp add: apply_profile_def Let_def)

lemma apply_profile_unspecified: "profile_unspecified p \<Longrightarrow> apply_profile p c = c"
  by (simp add: profile_unspecified_def apply_profile_def)

section \<open>Profiles\<close>

record port_profile =
  pp_id :: strong_id
  pp_generation :: generation
  pp_name :: string
  pp_description :: string
  pp_configuration :: profile_configuration
  pp_provenance :: provenance

definition profile_validate :: "port_profile \<Rightarrow> check" where
  "profile_validate p =
     (if \<not> id_valid (pp_id p) \<or> \<not> gen_valid (pp_generation p)
      then Some ''the profile identity or generation is missing''
      else case prefixed ''profile name: '' (validate_text (pp_name p) max_name_length) of
        Some err \<Rightarrow> Some err
      | None \<Rightarrow>
        if pp_name p = [] then Some ''the profile name is empty''
        else case prefixed ''profile description: ''
                    (validate_text (pp_description p) max_description_length) of
          Some err \<Rightarrow> Some err
        | None \<Rightarrow>
          (case profile_configuration_validate (pp_configuration p) of
             Some err \<Rightarrow> Some err
           | None \<Rightarrow>
             if \<not> is_valid_provenance_kind (pv_kind (pp_provenance p)) \<or>
                \<not> gen_valid (pv_epoch (pp_provenance p))
             then Some ''profile provenance is incomplete''
             else None))"

definition profile_digest :: "port_profile \<Rightarrow> digest" where
  "profile_digest p =
     digest_fields ([(''id'', pp_id p), (''generation'', format_u64 (pp_generation p)),
       (''name'', pp_name p), (''description'', pp_description p)] @
       profile_canonical_fields (pp_configuration p))"

definition profile_to_string :: "port_profile \<Rightarrow> string" where
  "profile_to_string p =
     ''profile='' @ id_or_none (pp_id p) @ ''@'' @ gen_or_none (pp_generation p) @
     '' name='' @ (if pp_name p = [] then ''none'' else pp_name p) @
     '' configuration=['' @ profile_configuration_to_string (pp_configuration p) @ '']''"

section \<open>The registry\<close>

record profile_registry =
  rg_profiles :: "(strong_id \<times> port_profile list) list"
  rg_generation_count :: nat

definition registry_empty :: profile_registry where
  "registry_empty = \<lparr>rg_profiles = [], rg_generation_count = 0\<rparr>"

definition registry_define :: "port_profile \<Rightarrow> profile_registry \<Rightarrow> outcome \<times> profile_registry" where
  "registry_define p reg =
     (case profile_validate p of
        Some err \<Rightarrow> (failure OC_InvalidProfile err, reg)
      | None \<Rightarrow>
        (case map_of (rg_profiles reg) (pp_id p) of
           None \<Rightarrow>
             if max_profiles \<le> length (rg_profiles reg)
             then (failure OC_ResourceBoundExceeded
                     ''the profile registry is at its configured bound'', reg)
             else if pp_generation p \<noteq> 1
             then (failure OC_InvalidProfile
                     ''the first generation of a profile must be generation 1'', reg)
             else (success ''profile generation defined'',
                   reg\<lparr>rg_profiles := om_update (pp_id p) [p] (rg_profiles reg),
                       rg_generation_count := rg_generation_count reg + 1\<rparr>)
         | Some generations \<Rightarrow>
             (let latest = last generations
              in if pp_generation p = pp_generation latest
              then (if profile_digest p = profile_digest latest
                    then (current
                      ''the profile generation is already defined with identical content'', reg)
                    else (failure OC_DuplicateRecord
                      ''the profile generation is already defined with different content'', reg))
              else if pp_generation p < pp_generation latest
              then (failure OC_InvalidProfile
                ''the profile generation is older than the latest defined generation'', reg)
              else if max_profile_generations \<le> length generations
              then (failure OC_ResourceBoundExceeded
                ''the profile identifier reached its generation bound'', reg)
              else (success ''profile generation defined'',
                    reg\<lparr>rg_profiles :=
                          om_update (pp_id p) (generations @ [p]) (rg_profiles reg),
                        rg_generation_count := rg_generation_count reg + 1\<rparr>))))"

definition registry_get :: "strong_id \<Rightarrow> generation \<Rightarrow> profile_registry \<Rightarrow> port_profile option" where
  "registry_get i g reg =
     (case map_of (rg_profiles reg) i of
        None \<Rightarrow> None
      | Some generations \<Rightarrow> find (\<lambda>p. pp_generation p = g) generations)"

definition registry_latest :: "strong_id \<Rightarrow> profile_registry \<Rightarrow> port_profile option" where
  "registry_latest i reg =
     (case map_of (rg_profiles reg) i of
        None \<Rightarrow> None
      | Some generations \<Rightarrow> if generations = [] then None else Some (last generations))"

definition registry_contains :: "strong_id \<Rightarrow> profile_registry \<Rightarrow> bool" where
  "registry_contains i reg \<longleftrightarrow> map_of (rg_profiles reg) i \<noteq> None"

definition registry_list :: "profile_registry \<Rightarrow> port_profile list" where
  "registry_list reg = concat (map snd (rg_profiles reg))"

definition registry_clear :: "profile_registry \<Rightarrow> profile_registry" where
  "registry_clear reg = reg\<lparr>rg_profiles := [], rg_generation_count := 0\<rparr>"

section \<open>The registry invariant\<close>

text \<open>
  Every identifier has at least one generation and at most the bound, the first is generation
  1, the generations increase strictly, every stored profile is filed under its identifier and
  validates, and the counter counts what is stored.
\<close>

definition generations_ok :: "strong_id \<Rightarrow> port_profile list \<Rightarrow> bool" where
  "generations_ok i ps \<longleftrightarrow>
     ps \<noteq> [] \<and> length ps \<le> max_profile_generations \<and> pp_generation (hd ps) = 1 \<and>
     sorted_wrt (<) (map pp_generation ps) \<and>
     (\<forall>p \<in> set ps. pp_id p = i \<and> profile_validate p = None)"

definition registry_ok :: "profile_registry \<Rightarrow> bool" where
  "registry_ok reg \<longleftrightarrow>
     om_sorted (rg_profiles reg) \<and> length (rg_profiles reg) \<le> max_profiles \<and>
     (\<forall>i ps. map_of (rg_profiles reg) i = Some ps \<longrightarrow> generations_ok i ps) \<and>
     rg_generation_count reg = length (registry_list reg)"

lemma registry_ok_empty: "registry_ok registry_empty"
  by (simp add: registry_ok_def registry_empty_def om_sorted_def registry_list_def)

lemma length_concat_om_update:
  "om_sorted m \<Longrightarrow>
   length (concat (map snd (om_update k v m))) + (case map_of m k of None \<Rightarrow> 0 | Some w \<Rightarrow> length w) =
   length (concat (map snd m)) + length v"
proof (induction k v m rule: om_update.induct)
  case (1 k v)
  then show ?case by simp
next
  case (2 k v a b m)
  then show ?case
    by (auto simp: om_sorted_def split: option.splits) (force dest!: map_of_SomeD)+
qed

lemma sorted_wrt_snoc_last:
  fixes xs :: "'a :: linorder list"
  assumes "sorted_wrt (<) xs" "xs \<noteq> []" "last xs < x"
  shows "sorted_wrt (<) (xs @ [x])"
proof -
  have "y \<le> last xs" if "y \<in> set xs" for y
    using assms(1,2) that
    by (metis append_butlast_last_id in_set_conv_decomp order.order_iff_strict
        rotate1.simps(2) set_ConsD set_rotate1 sorted_wrt_append list.set_intros(1))
  with assms(1,3) show ?thesis by (auto simp: sorted_wrt_append intro: order.strict_trans1)
qed

lemma generations_ok_last:
  assumes "generations_ok i ps" "q \<in> set ps"
  shows "pp_generation q \<le> pp_generation (last ps)"
proof -
  obtain n where n: "n < length ps" "q = ps ! n" using assms(2) by (auto simp: in_set_conv_nth)
  have "sorted (map pp_generation ps)"
    using assms(1) by (simp add: generations_ok_def strict_sorted_imp_sorted)
  then have "map pp_generation ps ! n \<le> map pp_generation ps ! (length ps - 1)"
    using n by (intro sorted_nth_mono) auto
  moreover have "ps \<noteq> []" using n by auto
  ultimately show ?thesis using n by (simp add: last_conv_nth)
qed

lemma generations_ok_snoc:
  assumes "generations_ok i ps" "profile_validate p = None" "pp_id p = i"
    "pp_generation (last ps) < pp_generation p" "length ps < max_profile_generations"
  shows "generations_ok i (ps @ [p])"
  using assms sorted_wrt_snoc_last [of "map pp_generation ps" "pp_generation p"]
  by (auto simp: generations_ok_def last_map)

text \<open>When a definition is accepted, and what the registry is afterwards.\<close>

definition stored_generations :: "strong_id \<Rightarrow> profile_registry \<Rightarrow> port_profile list" where
  "stored_generations i reg =
     (case map_of (rg_profiles reg) i of None \<Rightarrow> [] | Some ps \<Rightarrow> ps)"

definition define_accepts :: "port_profile \<Rightarrow> profile_registry \<Rightarrow> bool" where
  "define_accepts p reg \<longleftrightarrow> profile_validate p = None \<and>
     (case map_of (rg_profiles reg) (pp_id p) of
        None \<Rightarrow> length (rg_profiles reg) < max_profiles \<and> pp_generation p = 1
      | Some ps \<Rightarrow> pp_generation (last ps) < pp_generation p \<and> length ps < max_profile_generations)"

lemma registry_define_result:
  "(oc_code (fst (registry_define p reg)) = OC_Ok \<longleftrightarrow> define_accepts p reg) \<and>
   snd (registry_define p reg) =
     (if define_accepts p reg
      then reg\<lparr>rg_profiles :=
                 om_update (pp_id p) (stored_generations (pp_id p) reg @ [p]) (rg_profiles reg),
               rg_generation_count := rg_generation_count reg + 1\<rparr>
      else reg)"
proof (cases "profile_validate p")
  case (Some err)
  then show ?thesis by (simp add: registry_define_def define_accepts_def)
next
  case valid: None
  show ?thesis
  proof (cases "map_of (rg_profiles reg) (pp_id p)")
    case None
    with valid show ?thesis
      by (simp add: registry_define_def define_accepts_def stored_generations_def not_le)
  next
    case (Some ps)
    with valid show ?thesis
      by (cases "pp_generation p" "pp_generation (last ps)" rule: linorder_cases)
        (simp_all add: registry_define_def define_accepts_def stored_generations_def Let_def not_le
          order.strict_implies_not_eq order.strict_implies_not_eq [symmetric] order_less_not_sym)
  qed
qed

lemmas registry_define_code = registry_define_result [THEN conjunct1]
lemmas registry_define_state = registry_define_result [THEN conjunct2]

lemma registry_define_ok:
  assumes "registry_ok reg"
  shows "registry_ok (snd (registry_define p reg))"
proof (cases "define_accepts p reg")
  case False
  with assms show ?thesis by (simp add: registry_define_state)
next
  case True
  have "generations_ok (pp_id p) (stored_generations (pp_id p) reg @ [p])"
  proof (cases "map_of (rg_profiles reg) (pp_id p)")
    case None
    with True show ?thesis
      by (simp add: generations_ok_def define_accepts_def stored_generations_def
          max_profile_generations_def)
  next
    case (Some ps)
    with True assms show ?thesis
      by (simp add: define_accepts_def registry_ok_def stored_generations_def generations_ok_snoc)
  qed
  moreover have "length (om_update (pp_id p) v (rg_profiles reg)) \<le> max_profiles" for v
    using True assms
    by (auto simp: registry_ok_def define_accepts_def om_length_update split: option.splits)
  ultimately show ?thesis
    using True assms
      length_concat_om_update [of "rg_profiles reg" "pp_id p" "stored_generations (pp_id p) reg @ [p]"]
    by (auto simp: registry_define_state registry_ok_def registry_list_def om_sorted_update
        stored_generations_def split: option.splits)
qed

lemma registry_get_wf:
  "registry_ok reg \<Longrightarrow> registry_get i g reg = Some p \<Longrightarrow>
   pp_id p = i \<and> pp_generation p = g \<and> profile_validate p = None"
  by (auto simp: registry_get_def registry_ok_def generations_ok_def find_Some_iff
      split: option.splits)

lemma find_snoc_None:
  "find P xs = None \<Longrightarrow> find P (xs @ [x]) = (if P x then Some x else None)"
  by (induction xs) (auto split: if_splits)

lemma find_snoc_Some: "find P xs = Some y \<Longrightarrow> find P (xs @ [x]) = Some y"
  by (induction xs) (auto split: if_splits)

text \<open>A profile that asks for jumbo frames, for the concrete instances below.\<close>

definition edge_profile :: port_profile where
  "edge_profile = \<lparr>pp_id = ''edge'', pp_generation = 1, pp_name = ''edge'', pp_description = [],
     pp_configuration = no_profile_configuration\<lparr>pf_specifies_mtu := True, pf_mtu := 9000\<rparr>,
     pp_provenance = no_provenance\<lparr>pv_kind := PK_Operator, pv_epoch := 1\<rparr>\<rparr>"

text \<open>
  A defined profile generation is immutable: whatever is defined later, with
  whatever outcome, looking up an identifier and generation that was defined returns the
  profile it returned before.
\<close>

theorem profile_generation_immutable:
  assumes "registry_get i g reg = Some p"
  shows "registry_get i g (snd (registry_define q reg)) = Some p"
  using assms
  by (auto simp: registry_define_state registry_get_def stored_generations_def find_snoc_Some
      split: option.splits)

theorem profile_generation_immutable_witness:
  "registry_get ''edge'' 1 (snd (registry_define (edge_profile\<lparr>pp_generation := 2\<rparr>)
     \<lparr>rg_profiles = [(''edge'', [edge_profile])], rg_generation_count = 1\<rparr>)) = Some edge_profile"
  by (rule profile_generation_immutable) (simp add: registry_get_def edge_profile_def)

text \<open>
  The registry stays well formed under every definition, and a definition that
  succeeds makes the new profile the one found under its identifier and generation and the
  latest of its identifier, strictly newer than the latest before it.
\<close>

theorem registry_define_correct:
  assumes "registry_ok reg"
  shows "registry_ok (snd (registry_define p reg)) \<and>
    (oc_code (fst (registry_define p reg)) = OC_Ok \<longrightarrow>
       registry_get (pp_id p) (pp_generation p) (snd (registry_define p reg)) = Some p \<and>
       registry_latest (pp_id p) (snd (registry_define p reg)) = Some p \<and>
       (\<forall>q. registry_latest (pp_id p) reg = Some q \<longrightarrow> pp_generation q < pp_generation p)) \<and>
    (oc_code (fst (registry_define p reg)) \<noteq> OC_Ok \<longrightarrow> snd (registry_define p reg) = reg)"
proof (cases "define_accepts p reg")
  case False
  with assms show ?thesis by (simp add: registry_define_code registry_define_state)
next
  case True
  let ?ps = "stored_generations (pp_id p) reg"
  have newer: "pp_generation q < pp_generation p" if "q \<in> set ?ps" for q
  proof (cases "map_of (rg_profiles reg) (pp_id p)")
    case None
    with that show ?thesis by (simp add: stored_generations_def)
  next
    case (Some ps)
    with assms have "generations_ok (pp_id p) ps" by (simp add: registry_ok_def)
    then have "pp_generation q \<le> pp_generation (last ps)"
      using that Some generations_ok_last by (simp add: stored_generations_def)
    also have "\<dots> < pp_generation p" using True Some by (simp add: define_accepts_def)
    finally show ?thesis .
  qed
  then have "find (\<lambda>q. pp_generation q = pp_generation p) ?ps = None"
    by (force simp: find_None_iff)
  moreover have "\<forall>q. registry_latest (pp_id p) reg = Some q \<longrightarrow> pp_generation q < pp_generation p"
    using newer by (auto simp: registry_latest_def stored_generations_def split: option.splits if_splits)
  ultimately show ?thesis
    using True registry_define_ok [OF assms, of p]
    by (simp add: registry_define_code registry_define_state registry_get_def registry_latest_def
        find_snoc_None)
qed

theorem registry_define_correct_witness:
  "registry_get ''edge'' 1 (snd (registry_define edge_profile registry_empty)) = Some edge_profile"
proof -
  have "profile_validate edge_profile = None"
    by (simp add: profile_validate_def edge_profile_def no_profile_configuration_def
        profile_configuration_validate_def validate_text_def is_control_def max_name_length_def
        max_description_length_def id_valid_def gen_valid_def no_provenance_def mtu_valid_def prefixed_def Let_def)
  then have "oc_code (fst (registry_define edge_profile registry_empty)) = OC_Ok"
    by (simp add: registry_define_code define_accepts_def registry_empty_def max_profiles_def
        edge_profile_def)
  moreover have "pp_id edge_profile = ''edge''" "pp_generation edge_profile = 1"
    by (simp_all add: edge_profile_def)
  ultimately show ?thesis
    using registry_define_correct [OF registry_ok_empty, of edge_profile] by simp
qed

end
