(* ===== verification/Port_Index.thy ===== *)
theory Port_Index
  imports Port_Record
begin

text \<open>
  The secondary indexes of \<open>EngineImpl\<close> (\<open>src/engine_internal.hpp\<close>) and their maintenance,
  \<open>index_add\<close>, \<open>index_remove\<close> and \<open>index_update\<close> of \<open>src/engine.cpp\<close>. Each index maps a key
  to the set of ports whose record has that key. The seven indexes share one contract, a
  locale that is interpreted on each of them: as long as every change of a record goes through
  \<open>index_update\<close>, an index holds exactly the ports its key selects.
\<close>

section \<open>One index\<close>

type_synonym 'k index = "('k \<times> strong_id set) list"

definition ix_ports :: "'k \<Rightarrow> 'k index \<Rightarrow> strong_id set" where
  "ix_ports k ix = (case map_of ix k of None \<Rightarrow> {} | Some s \<Rightarrow> s)"

text \<open>\<open>index[key].insert(port)\<close> and the \<open>erase_from\<close> of \<open>index_remove\<close>.\<close>

definition ix_insert :: "'k::linorder \<Rightarrow> strong_id \<Rightarrow> 'k index \<Rightarrow> 'k index" where
  "ix_insert k port ix = om_update k (insert port (ix_ports k ix)) ix"

definition ix_erase :: "'k::linorder \<Rightarrow> strong_id \<Rightarrow> 'k index \<Rightarrow> 'k index" where
  "ix_erase k port ix =
     (case map_of ix k of
        None \<Rightarrow> ix
      | Some s \<Rightarrow>
          if s - {port} = {} then om_erase k ix else om_update k (s - {port}) ix)"

definition ix_ok :: "'k::linorder index \<Rightarrow> bool" where
  "ix_ok ix \<longleftrightarrow> om_sorted ix \<and> (\<forall>k. map_of ix k \<noteq> Some {})"

lemma ix_ports_insert [simp]:
  "ix_ports k (ix_insert j p ix) = (if k = j then insert p (ix_ports k ix) else ix_ports k ix)"
  by (simp add: ix_ports_def ix_insert_def)

lemma ix_ports_erase [simp]:
  "ix_ports k (ix_erase j p ix) = (if k = j then ix_ports k ix - {p} else ix_ports k ix)"
  by (auto simp: ix_ports_def ix_erase_def split: option.splits)

lemma ix_ok_insert: "ix_ok ix \<Longrightarrow> ix_ok (ix_insert k p ix)"
  by (auto simp: ix_ok_def ix_insert_def om_sorted_update)

lemma ix_ok_erase: "ix_ok ix \<Longrightarrow> ix_ok (ix_erase k p ix)"
  by (auto simp: ix_ok_def ix_erase_def om_sorted_update om_sorted_erase split: option.splits)

lemma ix_ok_Nil: "ix_ok []"
  by (simp add: ix_ok_def om_sorted_def)

lemma ix_ports_Nil [simp]: "ix_ports k [] = {}"
  by (simp add: ix_ports_def)

section \<open>The indexes of the runtime\<close>

record port_indexes =
  ix_by_device :: "strong_id index"
  ix_by_lifecycle :: "port_lifecycle index"
  ix_by_administrative :: "administrative_state index"
  ix_by_owner :: "strong_id index"
  ix_by_profile :: "strong_id index"
  ix_by_aggregate :: "strong_id index"
  ix_derived_from :: "strong_id index"
  ix_revalidation :: "strong_id set"

definition no_indexes :: port_indexes where
  "no_indexes = \<lparr>ix_by_device = [], ix_by_lifecycle = [], ix_by_administrative = [], ix_by_owner = [], ix_by_profile = [], ix_by_aggregate = [], ix_derived_from = [], ix_revalidation = {}\<rparr>"

definition index_add :: "port_record \<Rightarrow> port_indexes \<Rightarrow> port_indexes" where
  "index_add r ix =
     (let p = pr_port r;
          ix = ix\<lparr>ix_by_device := ix_insert (pr_parent_device r) p (ix_by_device ix)\<rparr>;
          ix = ix\<lparr>ix_by_lifecycle := ix_insert (pr_lifecycle r) p (ix_by_lifecycle ix)\<rparr>;
          ix = (case pr_configuration r of
                  None \<Rightarrow> ix
                | Some c \<Rightarrow>
                   (let ix = ix\<lparr>ix_by_administrative :=
                               ix_insert (pc_administrative c) p (ix_by_administrative ix)\<rparr>;
                        ix = (if pb_bound (pc_profile c)
                              then ix\<lparr>ix_by_profile :=
                                       ix_insert (pb_id (pc_profile c)) p (ix_by_profile ix)\<rparr>
                              else ix);
                        ix = (if ag_member (pc_aggregation c)
                              then ix\<lparr>ix_by_aggregate :=
                                       ix_insert (ag_aggregate (pc_aggregation c)) p
                                         (ix_by_aggregate ix)\<rparr>
                              else ix)
                    in if id_valid (pc_derived_from c)
                       then ix\<lparr>ix_derived_from :=
                                ix_insert (pc_derived_from c) p (ix_derived_from ix)\<rparr>
                       else ix));
          ix = (case pr_ownership r of
                  None \<Rightarrow> ix
                | Some w \<Rightarrow> ix\<lparr>ix_by_owner := ix_insert (ow_owner w) p (ix_by_owner ix)\<rparr>)
      in if pr_lifecycle r = LC_RevalidationRequired
         then ix\<lparr>ix_revalidation := insert p (ix_revalidation ix)\<rparr>
         else ix)"

definition index_remove :: "port_record \<Rightarrow> port_indexes \<Rightarrow> port_indexes" where
  "index_remove r ix =
     (let p = pr_port r;
          ix = ix\<lparr>ix_by_device := ix_erase (pr_parent_device r) p (ix_by_device ix)\<rparr>;
          ix = ix\<lparr>ix_by_lifecycle := ix_erase (pr_lifecycle r) p (ix_by_lifecycle ix)\<rparr>;
          ix = (case pr_configuration r of
                  None \<Rightarrow> ix
                | Some c \<Rightarrow>
                   (let ix = ix\<lparr>ix_by_administrative :=
                               ix_erase (pc_administrative c) p (ix_by_administrative ix)\<rparr>;
                        ix = (if pb_bound (pc_profile c)
                              then ix\<lparr>ix_by_profile :=
                                       ix_erase (pb_id (pc_profile c)) p (ix_by_profile ix)\<rparr>
                              else ix);
                        ix = (if ag_member (pc_aggregation c)
                              then ix\<lparr>ix_by_aggregate :=
                                       ix_erase (ag_aggregate (pc_aggregation c)) p
                                         (ix_by_aggregate ix)\<rparr>
                              else ix)
                    in if id_valid (pc_derived_from c)
                       then ix\<lparr>ix_derived_from :=
                                ix_erase (pc_derived_from c) p (ix_derived_from ix)\<rparr>
                       else ix));
          ix = (case pr_ownership r of
                  None \<Rightarrow> ix
                | Some w \<Rightarrow> ix\<lparr>ix_by_owner := ix_erase (ow_owner w) p (ix_by_owner ix)\<rparr>)
      in ix\<lparr>ix_revalidation := ix_revalidation ix - {p}\<rparr>)"

definition index_update :: "port_record \<Rightarrow> port_record \<Rightarrow> port_indexes \<Rightarrow> port_indexes" where
  "index_update before after ix = index_add after (index_remove before ix)"

definition reindex_all :: "(strong_id \<times> port_record) list \<Rightarrow> port_indexes" where
  "reindex_all records = foldl (\<lambda>ix r. index_add r ix) no_indexes (map snd records)"

section \<open>Which key a record has in each index\<close>

definition key_device :: "port_record \<Rightarrow> strong_id option" where
  "key_device r = Some (pr_parent_device r)"

definition key_lifecycle :: "port_record \<Rightarrow> port_lifecycle option" where
  "key_lifecycle r = Some (pr_lifecycle r)"

definition key_administrative :: "port_record \<Rightarrow> administrative_state option" where
  "key_administrative r = map_option pc_administrative (pr_configuration r)"

definition key_owner :: "port_record \<Rightarrow> strong_id option" where
  "key_owner r = map_option ow_owner (pr_ownership r)"

definition key_profile :: "port_record \<Rightarrow> strong_id option" where
  "key_profile r =
     (case pr_configuration r of
        None \<Rightarrow> None
      | Some c \<Rightarrow> if pb_bound (pc_profile c) then Some (pb_id (pc_profile c)) else None)"

definition key_aggregate :: "port_record \<Rightarrow> strong_id option" where
  "key_aggregate r =
     (case pr_configuration r of
        None \<Rightarrow> None
      | Some c \<Rightarrow>
          if ag_member (pc_aggregation c) then Some (ag_aggregate (pc_aggregation c)) else None)"

definition key_derived :: "port_record \<Rightarrow> strong_id option" where
  "key_derived r =
     (case pr_configuration r of
        None \<Rightarrow> None
      | Some c \<Rightarrow> if id_valid (pc_derived_from c) then Some (pc_derived_from c) else None)"

lemmas key_defs = key_device_def key_lifecycle_def key_administrative_def key_owner_def
  key_profile_def key_aggregate_def key_derived_def

section \<open>The contract of an index\<close>

text \<open>
  \<open>sel\<close> reads one index out of the runtime's indexes, \<open>key\<close> says under which key, if any, a
  record belongs. The provider promises that adding a record inserts its port under its key
  and that removing it erases it there.
\<close>

definition well_filed :: "(strong_id \<Rightarrow> port_record option) \<Rightarrow> bool" where
  "well_filed m \<longleftrightarrow> (\<forall>p r. m p = Some r \<longrightarrow> pr_port r = p)"

lemma well_filed_update: "well_filed m \<Longrightarrow> pr_port r = p \<Longrightarrow> well_filed (m(p \<mapsto> r))"
  by (simp add: well_filed_def)

lemma well_filed_delete: "well_filed m \<Longrightarrow> well_filed (m(p := None))"
  by (simp add: well_filed_def)

locale record_index =
  fixes key :: "port_record \<Rightarrow> 'k::linorder option"
    and sel :: "port_indexes \<Rightarrow> 'k index"
  assumes sel_add: "sel (index_add r ix) =
      (case key r of None \<Rightarrow> sel ix | Some k \<Rightarrow> ix_insert k (pr_port r) (sel ix))"
    and sel_remove: "sel (index_remove r ix) =
      (case key r of None \<Rightarrow> sel ix | Some k \<Rightarrow> ix_erase k (pr_port r) (sel ix))"
    and sel_none: "sel no_indexes = []"
begin

definition exact :: "(strong_id \<Rightarrow> port_record option) \<Rightarrow> port_indexes \<Rightarrow> bool" where
  "exact m ix \<longleftrightarrow> ix_ok (sel ix) \<and>
     (\<forall>k. ix_ports k (sel ix) = {p. \<exists>r. m p = Some r \<and> key r = Some k})"

lemma exact_none: "exact (\<lambda>_. None) no_indexes"
  by (simp add: exact_def sel_none ix_ok_Nil)

lemma exact_add:
  "exact m ix \<Longrightarrow> m p = None \<Longrightarrow> pr_port r = p \<Longrightarrow> exact (m(p \<mapsto> r)) (index_add r ix)"
  by (auto simp: exact_def sel_add ix_ok_insert split: option.splits if_splits)

lemma exact_remove:
  "exact m ix \<Longrightarrow> well_filed m \<Longrightarrow> m p = Some r \<Longrightarrow> exact (m(p := None)) (index_remove r ix)"
  by (auto simp: exact_def well_filed_def sel_remove ix_ok_erase split: option.splits if_splits)

lemma exact_update:
  assumes "exact m ix" "well_filed m" "m p = Some before" "pr_port after = p"
  shows "exact (m(p \<mapsto> after)) (index_update before after ix)"
  using exact_add [OF exact_remove [OF assms(1-3)], of p after] assms(4)
  by (simp add: index_update_def)

lemma exact_lookup: "exact m ix \<Longrightarrow> p \<in> ix_ports k (sel ix) \<longleftrightarrow> (\<exists>r. m p = Some r \<and> key r = Some k)"
  by (simp add: exact_def)

end

lemma index_fields_add:
  "ix_by_device (index_add r ix) = (case key_device r of None \<Rightarrow> ix_by_device ix
     | Some k \<Rightarrow> ix_insert k (pr_port r) (ix_by_device ix))"
  "ix_by_lifecycle (index_add r ix) = (case key_lifecycle r of None \<Rightarrow> ix_by_lifecycle ix
     | Some k \<Rightarrow> ix_insert k (pr_port r) (ix_by_lifecycle ix))"
  "ix_by_administrative (index_add r ix) = (case key_administrative r of None \<Rightarrow> ix_by_administrative ix
     | Some k \<Rightarrow> ix_insert k (pr_port r) (ix_by_administrative ix))"
  "ix_by_owner (index_add r ix) = (case key_owner r of None \<Rightarrow> ix_by_owner ix
     | Some k \<Rightarrow> ix_insert k (pr_port r) (ix_by_owner ix))"
  "ix_by_profile (index_add r ix) = (case key_profile r of None \<Rightarrow> ix_by_profile ix
     | Some k \<Rightarrow> ix_insert k (pr_port r) (ix_by_profile ix))"
  "ix_by_aggregate (index_add r ix) = (case key_aggregate r of None \<Rightarrow> ix_by_aggregate ix
     | Some k \<Rightarrow> ix_insert k (pr_port r) (ix_by_aggregate ix))"
  "ix_derived_from (index_add r ix) = (case key_derived r of None \<Rightarrow> ix_derived_from ix
     | Some k \<Rightarrow> ix_insert k (pr_port r) (ix_derived_from ix))"
  by (simp_all add: index_add_def key_defs Let_def split: option.split)

lemma index_fields_remove:
  "ix_by_device (index_remove r ix) = (case key_device r of None \<Rightarrow> ix_by_device ix
     | Some k \<Rightarrow> ix_erase k (pr_port r) (ix_by_device ix))"
  "ix_by_lifecycle (index_remove r ix) = (case key_lifecycle r of None \<Rightarrow> ix_by_lifecycle ix
     | Some k \<Rightarrow> ix_erase k (pr_port r) (ix_by_lifecycle ix))"
  "ix_by_administrative (index_remove r ix) = (case key_administrative r of None \<Rightarrow> ix_by_administrative ix
     | Some k \<Rightarrow> ix_erase k (pr_port r) (ix_by_administrative ix))"
  "ix_by_owner (index_remove r ix) = (case key_owner r of None \<Rightarrow> ix_by_owner ix
     | Some k \<Rightarrow> ix_erase k (pr_port r) (ix_by_owner ix))"
  "ix_by_profile (index_remove r ix) = (case key_profile r of None \<Rightarrow> ix_by_profile ix
     | Some k \<Rightarrow> ix_erase k (pr_port r) (ix_by_profile ix))"
  "ix_by_aggregate (index_remove r ix) = (case key_aggregate r of None \<Rightarrow> ix_by_aggregate ix
     | Some k \<Rightarrow> ix_erase k (pr_port r) (ix_by_aggregate ix))"
  "ix_derived_from (index_remove r ix) = (case key_derived r of None \<Rightarrow> ix_derived_from ix
     | Some k \<Rightarrow> ix_erase k (pr_port r) (ix_derived_from ix))"
  by (simp_all add: index_remove_def key_defs Let_def split: option.split)

interpretation dev_ix: record_index key_device ix_by_device
  by unfold_locales (rule index_fields_add index_fields_remove | simp add: no_indexes_def)+

interpretation lc_ix: record_index key_lifecycle ix_by_lifecycle
  by unfold_locales (rule index_fields_add index_fields_remove | simp add: no_indexes_def)+

interpretation adm_ix: record_index key_administrative ix_by_administrative
  by unfold_locales (rule index_fields_add index_fields_remove | simp add: no_indexes_def)+

interpretation own_ix: record_index key_owner ix_by_owner
  by unfold_locales (rule index_fields_add index_fields_remove | simp add: no_indexes_def)+

interpretation prof_ix: record_index key_profile ix_by_profile
  by unfold_locales (rule index_fields_add index_fields_remove | simp add: no_indexes_def)+

interpretation agg_ix: record_index key_aggregate ix_by_aggregate
  by unfold_locales (rule index_fields_add index_fields_remove | simp add: no_indexes_def)+

interpretation der_ix: record_index key_derived ix_derived_from
  by unfold_locales (rule index_fields_add index_fields_remove | simp add: no_indexes_def)+

section \<open>All indexes together\<close>

definition revalidation_exact ::
  "(strong_id \<Rightarrow> port_record option) \<Rightarrow> port_indexes \<Rightarrow> bool" where
  "revalidation_exact m ix \<longleftrightarrow>
     ix_revalidation ix = {p. \<exists>r. m p = Some r \<and> pr_lifecycle r = LC_RevalidationRequired}"

lemma index_revalidation:
  "ix_revalidation (index_add r ix) =
     (if pr_lifecycle r = LC_RevalidationRequired then insert (pr_port r) (ix_revalidation ix)
      else ix_revalidation ix)"
  "ix_revalidation (index_remove r ix) = ix_revalidation ix - {pr_port r}"
  by (simp_all add: index_add_def index_remove_def Let_def split: option.split)

definition indexes_exact :: "(strong_id \<Rightarrow> port_record option) \<Rightarrow> port_indexes \<Rightarrow> bool" where
  "indexes_exact m ix \<longleftrightarrow>
     dev_ix.exact m ix \<and> lc_ix.exact m ix \<and> adm_ix.exact m ix \<and> own_ix.exact m ix \<and>
     prof_ix.exact m ix \<and> agg_ix.exact m ix \<and> der_ix.exact m ix \<and> revalidation_exact m ix"

lemma indexes_exact_none: "indexes_exact (\<lambda>_. None) no_indexes"
  by (simp add: indexes_exact_def dev_ix.exact_none lc_ix.exact_none adm_ix.exact_none
      own_ix.exact_none prof_ix.exact_none agg_ix.exact_none der_ix.exact_none
      revalidation_exact_def, simp add: no_indexes_def)

lemma indexes_exact_add:
  "indexes_exact m ix \<Longrightarrow> m p = None \<Longrightarrow> pr_port r = p \<Longrightarrow>
   indexes_exact (m(p \<mapsto> r)) (index_add r ix)"
  unfolding indexes_exact_def
  by (intro conjI dev_ix.exact_add lc_ix.exact_add adm_ix.exact_add own_ix.exact_add
      prof_ix.exact_add agg_ix.exact_add der_ix.exact_add)
    (auto simp: revalidation_exact_def index_revalidation)

lemma indexes_exact_remove:
  "indexes_exact m ix \<Longrightarrow> well_filed m \<Longrightarrow> m p = Some r \<Longrightarrow>
   indexes_exact (m(p := None)) (index_remove r ix)"
  unfolding indexes_exact_def
  by (intro conjI dev_ix.exact_remove lc_ix.exact_remove adm_ix.exact_remove own_ix.exact_remove
      prof_ix.exact_remove agg_ix.exact_remove der_ix.exact_remove)
    (auto simp: revalidation_exact_def index_revalidation well_filed_def)

lemma indexes_exact_update:
  assumes "indexes_exact m ix" "well_filed m" "m p = Some before" "pr_port after = p"
  shows "indexes_exact (m(p \<mapsto> after)) (index_update before after ix)"
  using indexes_exact_add [OF indexes_exact_remove [OF assms(1-3)], of p after] assms(4)
  by (simp add: index_update_def)

lemma reindex_fold:
  "indexes_exact m ix \<Longrightarrow> distinct (map fst rs) \<Longrightarrow> (\<forall>(p, r) \<in> set rs. pr_port r = p \<and> m p = None) \<Longrightarrow>
   indexes_exact (m ++ map_of rs) (foldl (\<lambda>ix r. index_add r ix) ix (map snd rs))"
proof (induction rs arbitrary: m ix)
  case Nil
  then show ?case by simp
next
  case (Cons a rs)
  obtain p r where a: "a = (p, r)" by (cases a)
  have step: "indexes_exact (m(p \<mapsto> r)) (index_add r ix)"
    using Cons.prems by (intro indexes_exact_add) (auto simp: a)
  have fresh: "\<forall>(q, s) \<in> set rs. pr_port s = q \<and> (m(p \<mapsto> r)) q = None"
    using Cons.prems by (force simp: a)
  have "distinct (map fst rs)" "p \<notin> fst ` set rs" using Cons.prems(2) by (simp_all add: a)
  then have "indexes_exact (m(p \<mapsto> r) ++ map_of rs)
      (foldl (\<lambda>ix r. index_add r ix) (index_add r ix) (map snd rs))"
    using Cons.IH [OF step _ fresh] by blast
  moreover have "m(p \<mapsto> r) ++ map_of rs = m ++ map_of (a # rs)"
    using \<open>p \<notin> fst ` set rs\<close> by (auto simp: a map_add_upd_left dom_map_of_conv_image_fst)
  ultimately show ?case by (simp only: a list.map foldl.simps snd_conv)
qed

lemma reindex_all_exact:
  assumes "om_sorted rs" "well_filed (map_of rs)"
  shows "indexes_exact (map_of rs) (reindex_all rs)"
proof -
  have "\<forall>(p, r) \<in> set rs. pr_port r = p \<and> None = None"
    using assms by (auto simp: om_map_of_mem well_filed_def)
  then show ?thesis
    using reindex_fold [OF indexes_exact_none om_sorted_distinct [OF assms(1)]]
    by (simp add: reindex_all_def)
qed

end
