(* ===== verification/Engine_State.thy ===== *)
theory Engine_State
  imports Profile Port_Index
begin

text \<open>
  The state of the runtime, \<open>EngineImpl\<close> of \<open>src/engine_internal.hpp\<close>, its configuration
  (\<open>EngineConfig\<close> of \<open>include/portfabric/engine.hpp\<close>), the durable state it hands to the
  container (\<open>include/portfabric/persistence.hpp\<close>) and the environment it consults: the
  capability provider and the device adapter are virtual interfaces that the program does not
  implement, and the container's file operations are answers of the operating system.
\<close>

section \<open>Adapter results\<close>

datatype adapter_apply_status = AS_Applied | AS_Failed | AS_OutcomeUnknown | AS_Unsupported

primrec adapter_apply_status_to_string :: "adapter_apply_status \<Rightarrow> string" where
  "adapter_apply_status_to_string AS_Applied = ''APPLIED''"
| "adapter_apply_status_to_string AS_Failed = ''FAILED''"
| "adapter_apply_status_to_string AS_OutcomeUnknown = ''OUTCOME_UNKNOWN''"
| "adapter_apply_status_to_string AS_Unsupported = ''UNSUPPORTED''"

definition all_adapter_apply_status :: "adapter_apply_status list" where
  "all_adapter_apply_status = [AS_Applied, AS_Failed, AS_OutcomeUnknown, AS_Unsupported]"

definition adapter_apply_status_table :: "(string \<times> adapter_apply_status) list" where
  "adapter_apply_status_table = [(''APPLIED'', AS_Applied), (''FAILED'', AS_Failed),
     (''OUTCOME_UNKNOWN'', AS_OutcomeUnknown), (''UNSUPPORTED'', AS_Unsupported)]"

definition parse_adapter_apply_status :: "string \<Rightarrow> adapter_apply_status option" where
  "parse_adapter_apply_status t = first_match t adapter_apply_status_table"

interpretation adapter_apply_status_text: enum_text adapter_apply_status_to_string adapter_apply_status_table all_adapter_apply_status
proof
  show "adapter_apply_status_table = map (\<lambda>e. (adapter_apply_status_to_string e, e)) all_adapter_apply_status"
    by (simp add: adapter_apply_status_table_def all_adapter_apply_status_def)
  show "e \<in> set all_adapter_apply_status" for e
    by (cases e) (simp_all add: all_adapter_apply_status_def)
  show "distinct (map adapter_apply_status_to_string all_adapter_apply_status)"
    by (simp add: all_adapter_apply_status_def)
qed

datatype adapter_readback_status = RB_Verified | RB_Mismatch | RB_Unknown | RB_Unsupported

primrec adapter_readback_status_to_string :: "adapter_readback_status \<Rightarrow> string" where
  "adapter_readback_status_to_string RB_Verified = ''VERIFIED''"
| "adapter_readback_status_to_string RB_Mismatch = ''MISMATCH''"
| "adapter_readback_status_to_string RB_Unknown = ''UNKNOWN''"
| "adapter_readback_status_to_string RB_Unsupported = ''UNSUPPORTED''"

definition all_adapter_readback_status :: "adapter_readback_status list" where
  "all_adapter_readback_status = [RB_Verified, RB_Mismatch, RB_Unknown, RB_Unsupported]"

definition adapter_readback_status_table :: "(string \<times> adapter_readback_status) list" where
  "adapter_readback_status_table = [(''VERIFIED'', RB_Verified), (''MISMATCH'', RB_Mismatch),
     (''UNKNOWN'', RB_Unknown), (''UNSUPPORTED'', RB_Unsupported)]"

definition parse_adapter_readback_status :: "string \<Rightarrow> adapter_readback_status option" where
  "parse_adapter_readback_status t = first_match t adapter_readback_status_table"

interpretation adapter_readback_status_text: enum_text adapter_readback_status_to_string adapter_readback_status_table all_adapter_readback_status
proof
  show "adapter_readback_status_table = map (\<lambda>e. (adapter_readback_status_to_string e, e)) all_adapter_readback_status"
    by (simp add: adapter_readback_status_table_def all_adapter_readback_status_def)
  show "e \<in> set all_adapter_readback_status" for e
    by (cases e) (simp_all add: all_adapter_readback_status_def)
  show "distinct (map adapter_readback_status_to_string all_adapter_readback_status)"
    by (simp add: all_adapter_readback_status_def)
qed

record adapter_apply_result =
  ar_status :: adapter_apply_status
  ar_detail :: string

record adapter_readback =
  ab_status :: adapter_readback_status
  ab_observed :: "port_configuration option"
  ab_detail :: string

definition apply_applied :: "string \<Rightarrow> adapter_apply_result" where
  "apply_applied d = \<lparr>ar_status = AS_Applied, ar_detail = d\<rparr>"

definition apply_failed :: "string \<Rightarrow> adapter_apply_result" where
  "apply_failed d = \<lparr>ar_status = AS_Failed, ar_detail = d\<rparr>"

definition apply_unknown :: "string \<Rightarrow> adapter_apply_result" where
  "apply_unknown d = \<lparr>ar_status = AS_OutcomeUnknown, ar_detail = d\<rparr>"

definition apply_unsupported :: "string \<Rightarrow> adapter_apply_result" where
  "apply_unsupported d = \<lparr>ar_status = AS_Unsupported, ar_detail = d\<rparr>"

section \<open>Mutation kinds\<close>

datatype port_mutation_kind = MK_BindPort | MK_Configure | MK_Reconfigure | MK_Administrative
    | MK_AssignProfile | MK_BindCapabilities | MK_Reconcile | MK_Supersede | MK_Retire
    | MK_ClaimOwnership | MK_TransferOwnership | MK_ReleaseOwnership | MK_RecordAppliedEvidence
    | MK_ObserveExternalState

primrec port_mutation_kind_to_string :: "port_mutation_kind \<Rightarrow> string" where
  "port_mutation_kind_to_string MK_BindPort = ''BIND_PORT''"
| "port_mutation_kind_to_string MK_Configure = ''CONFIGURE''"
| "port_mutation_kind_to_string MK_Reconfigure = ''RECONFIGURE''"
| "port_mutation_kind_to_string MK_Administrative = ''ADMINISTRATIVE''"
| "port_mutation_kind_to_string MK_AssignProfile = ''ASSIGN_PROFILE''"
| "port_mutation_kind_to_string MK_BindCapabilities = ''BIND_CAPABILITIES''"
| "port_mutation_kind_to_string MK_Reconcile = ''RECONCILE''"
| "port_mutation_kind_to_string MK_Supersede = ''SUPERSEDE''"
| "port_mutation_kind_to_string MK_Retire = ''RETIRE''"
| "port_mutation_kind_to_string MK_ClaimOwnership = ''CLAIM_OWNERSHIP''"
| "port_mutation_kind_to_string MK_TransferOwnership = ''TRANSFER_OWNERSHIP''"
| "port_mutation_kind_to_string MK_ReleaseOwnership = ''RELEASE_OWNERSHIP''"
| "port_mutation_kind_to_string MK_RecordAppliedEvidence = ''RECORD_APPLIED_EVIDENCE''"
| "port_mutation_kind_to_string MK_ObserveExternalState = ''OBSERVE_EXTERNAL_STATE''"

definition all_port_mutation_kind :: "port_mutation_kind list" where
  "all_port_mutation_kind = [MK_BindPort, MK_Configure, MK_Reconfigure, MK_Administrative,
     MK_AssignProfile, MK_BindCapabilities, MK_Reconcile, MK_Supersede, MK_Retire,
     MK_ClaimOwnership, MK_TransferOwnership, MK_ReleaseOwnership, MK_RecordAppliedEvidence,
     MK_ObserveExternalState]"

section \<open>Configuration of the runtime\<close>

datatype adapter_policy = Policy_DesiredStateOnly | Policy_Apply | Policy_ApplyAndVerify

datatype publisher_registration = Registration_Automatic | Registration_Explicit

primrec publisher_registration_to_string :: "publisher_registration \<Rightarrow> string" where
  "publisher_registration_to_string Registration_Automatic = ''AUTOMATIC''"
| "publisher_registration_to_string Registration_Explicit = ''EXPLICIT''"

definition parse_publisher_registration :: "string \<Rightarrow> publisher_registration option" where
  "parse_publisher_registration t =
     (if t = ''AUTOMATIC'' then Some Registration_Automatic
      else if t = ''EXPLICIT'' then Some Registration_Explicit else None)"

datatype persistence_mode = Persistence_Manual | Persistence_Automatic

definition max_ports :: nat where "max_ports = 1000000"
definition max_devices :: nat where "max_devices = 262144"
definition max_publishers :: nat where "max_publishers = 65536"

record engine_config =
  cf_fabric :: strong_id
  cf_site :: strong_id
  cf_coordinator :: strong_id
  cf_epoch :: generation
  cf_persistence_path :: string
  cf_persistence :: persistence_mode
  cf_adapter_policy :: adapter_policy
  cf_require_capability_evidence :: bool
  cf_require_ownership :: bool
  cf_publisher_registration :: publisher_registration
  cf_port_bound :: nat
  cf_device_bound :: nat

definition default_config :: engine_config where
  "default_config = \<lparr>cf_fabric = [], cf_site = [], cf_coordinator = [], cf_epoch = 0,
     cf_persistence_path = [], cf_persistence = Persistence_Manual,
     cf_adapter_policy = Policy_DesiredStateOnly, cf_require_capability_evidence = True,
     cf_require_ownership = True, cf_publisher_registration = Registration_Automatic,
     cf_port_bound = max_ports, cf_device_bound = max_devices\<rparr>"

definition config_valid :: "engine_config \<Rightarrow> check" where
  "config_valid cf =
     (if \<not> id_valid (cf_coordinator cf) then Some ''the coordinator identity is missing''
      else if \<not> gen_valid (cf_epoch cf) then Some ''the coordinator epoch is missing''
      else if cf_persistence cf = Persistence_Automatic \<and> cf_persistence_path cf = []
      then Some ''automatic persistence requires a container path''
      else if cf_port_bound cf = 0 \<or> max_ports < cf_port_bound cf
      then Some ''the port bound must be between 1 and the configured maximum''
      else if cf_device_bound cf = 0 \<or> max_devices < cf_device_bound cf
      then Some ''the device bound must be between 1 and the configured maximum''
      else None)"

section \<open>Durable state\<close>

record device_binding =
  dv_device :: strong_id
  dv_generation :: generation
  dv_source :: string

definition device_binding_to_string :: "device_binding \<Rightarrow> string" where
  "device_binding_to_string d =
     id_or_none (dv_device d) @ ''#'' @ gen_or_none (dv_generation d) @
     (if dv_source d = [] then [] else ''('' @ dv_source d @ '')'')"

record publisher_record =
  pub_publisher :: strong_id
  pub_boot :: strong_id
  pub_epoch :: generation
  pub_fenced :: bool

definition publisher_to_string :: "publisher_record \<Rightarrow> string" where
  "publisher_to_string p =
     id_or_none (pub_publisher p) @ '' boot='' @ id_or_none (pub_boot p) @
     '' epoch='' @ gen_or_none (pub_epoch p) @
     (if pub_fenced p then '' fenced'' else '' active'')"

record persisted_state =
  ps_fabric :: strong_id
  ps_site :: strong_id
  ps_epoch :: generation
  ps_engine_generation :: generation
  ps_topology :: generation
  ps_records :: "port_record list"
  ps_profiles :: "port_profile list"
  ps_devices :: "device_binding list"
  ps_publishers :: "publisher_record list"

section \<open>The environment\<close>

text \<open>
  The answers the environment gives to one operation. A null provider or adapter pointer is
  \<open>None\<close>. \<open>save\<close> and \<open>load\<close> are the container's file operations.
\<close>

record adapter =
  ad_label :: string
  ad_apply :: "strong_id \<Rightarrow> port_configuration \<Rightarrow> adapter_apply_result"
  ad_readback :: "strong_id \<Rightarrow> adapter_readback"

record environment =
  ev_provider :: "(strong_id \<Rightarrow> capability_binding option \<times> string) option"
  ev_adapter :: "adapter option"
  ev_save :: "string \<Rightarrow> persisted_state \<Rightarrow> outcome"
  ev_load :: "string \<Rightarrow> outcome \<times> persisted_state"

section \<open>The runtime\<close>

record engine =
  en_config :: engine_config
  en_records :: "(strong_id \<times> port_record) list"
  en_indexes :: port_indexes
  en_generation :: generation
  en_profiles :: profile_registry
  en_epoch :: generation
  en_topology :: generation
  en_publishers :: "(strong_id \<times> publisher_record) list"
  en_devices :: "(strong_id \<times> device_binding) list"
  en_durability_dirty :: bool
  en_shutting_down :: bool

definition engine_create :: "engine_config \<Rightarrow> engine" where
  "engine_create cf =
     \<lparr>en_config = (if config_valid cf = None then cf
                   else cf\<lparr>cf_port_bound := 0, cf_device_bound := 0\<rparr>),
      en_records = [], en_indexes = no_indexes, en_generation = 0,
      en_profiles = registry_empty, en_epoch = cf_epoch cf, en_topology = 1,
      en_publishers = [], en_devices = [], en_durability_dirty = False,
      en_shutting_down = False\<rparr>"

definition shutdown :: "engine \<Rightarrow> engine" where
  "shutdown e = e\<lparr>en_shutting_down := True\<rparr>"

text \<open>The record of a port, the map most properties speak about.\<close>

definition port_of :: "engine \<Rightarrow> strong_id \<Rightarrow> port_record option" where
  "port_of e = map_of (en_records e)"

definition render_port_summary :: "port_record \<Rightarrow> string" where
  "render_port_summary r =
     id_or_none (pr_port r) @ '' lifecycle='' @ port_lifecycle_to_string (pr_lifecycle r) @
     '' drift='' @ drift_state_to_string (pr_drift r) @
     (case pr_configuration r of
        None \<Rightarrow> []
      | Some c \<Rightarrow> '' configuration_generation='' @ format_u64 (pc_generation c))"

text \<open>
  Replacing the record of a port, with its indexes: the body every write section of the
  runtime runs (\<open>index_update(before, after); found->second = after\<close>).
\<close>

definition store_record :: "port_record \<Rightarrow> port_record \<Rightarrow> engine \<Rightarrow> engine" where
  "store_record before after e =
     e\<lparr>en_indexes := index_update before after (en_indexes e),
       en_records := om_update (pr_port before) after (en_records e)\<rparr>"

definition gather_state :: "engine \<Rightarrow> persisted_state" where
  "gather_state e =
     \<lparr>ps_fabric = cf_fabric (en_config e), ps_site = cf_site (en_config e), ps_epoch = en_epoch e,
      ps_engine_generation = en_generation e, ps_topology = en_topology e,
      ps_records = map snd (en_records e), ps_profiles = registry_list (en_profiles e),
      ps_devices = map snd (en_devices e), ps_publishers = map snd (en_publishers e)\<rparr>"

definition persist_locked_state :: "environment \<Rightarrow> engine \<Rightarrow> outcome \<times> engine" where
  "persist_locked_state env e =
     (if cf_persistence (en_config e) \<noteq> Persistence_Automatic
      then (success ''persistence is manual'', e)
      else if cf_persistence_path (en_config e) = []
      then (failure OC_PersistenceIoFailure
              ''automatic persistence is enabled without a container path'', e)
      else let written = ev_save env (cf_persistence_path (en_config e)) (gather_state e)
           in (written, e\<lparr>en_durability_dirty := \<not> outcome_ok written\<rparr>))"

definition engine_save :: "environment \<Rightarrow> engine \<Rightarrow> outcome \<times> engine" where
  "engine_save env e =
     (if cf_persistence_path (en_config e) = []
      then (failure OC_PersistenceIoFailure ''no persistence container path is configured'', e)
      else let written = ev_save env (cf_persistence_path (en_config e)) (gather_state e)
           in (written, e\<lparr>en_durability_dirty := \<not> outcome_ok written\<rparr>))"

text \<open>Persisting changes nothing but the dirty flag.\<close>

lemma persist_frame [simp]:
  "en_config (snd (persist_locked_state env e)) = en_config e"
  "en_records (snd (persist_locked_state env e)) = en_records e"
  "en_indexes (snd (persist_locked_state env e)) = en_indexes e"
  "en_generation (snd (persist_locked_state env e)) = en_generation e"
  "en_profiles (snd (persist_locked_state env e)) = en_profiles e"
  "en_epoch (snd (persist_locked_state env e)) = en_epoch e"
  "en_topology (snd (persist_locked_state env e)) = en_topology e"
  "en_publishers (snd (persist_locked_state env e)) = en_publishers e"
  "en_devices (snd (persist_locked_state env e)) = en_devices e"
  "en_shutting_down (snd (persist_locked_state env e)) = en_shutting_down e"
  by (simp_all add: persist_locked_state_def Let_def)

lemma store_record_frame [simp]:
  "en_config (store_record b a e) = en_config e"
  "en_generation (store_record b a e) = en_generation e"
  "en_profiles (store_record b a e) = en_profiles e"
  "en_epoch (store_record b a e) = en_epoch e"
  "en_topology (store_record b a e) = en_topology e"
  "en_publishers (store_record b a e) = en_publishers e"
  "en_devices (store_record b a e) = en_devices e"
  "en_shutting_down (store_record b a e) = en_shutting_down e"
  "port_of (store_record b a e) = (port_of e)(pr_port b \<mapsto> a)"
  by (simp_all add: store_record_def port_of_def)

section \<open>The invariant\<close>

text \<open>
  What a stored record satisfies at every moment. It leaves out the two clauses of \<open>record_ok\<close>
  that the handling of an uncertain apply does not establish, the lifecycle of a record
  without configuration and the bound on the status texts (the detail of an adapter is stored
  as it came), and adds three that hold of stored records only: ownership carries the
  record's ownership generation, an UNCONFIGURED port has no configuration and a retired port
  has no owner.
\<close>

definition record_core_ok :: "port_record \<Rightarrow> bool" where
  "record_core_ok r \<longleftrightarrow>
     id_valid (pr_port r) \<and> id_valid (pr_parent_device r) \<and> binding_valid (pr_capability r) \<and>
     (\<forall>w. pr_ownership r = Some w \<longrightarrow>
        ownership_valid w \<and> ow_generation w = gv_ownership (pr_generations r)) \<and>
     (\<forall>c. pr_configuration r = Some c \<longrightarrow>
        configuration_validate c = None \<and> pc_port c = pr_port r \<and>
        pc_parent_device c = pr_parent_device r \<and>
        (gen_valid (gv_configuration (pr_generations r)) \<longrightarrow>
           pc_generation c = gv_configuration (pr_generations r))) \<and>
     (pr_lifecycle r = LC_Unconfigured \<longrightarrow> pr_configuration r = None) \<and>
     (pr_lifecycle r = LC_Retired \<longrightarrow> pr_ownership r = None)"

text \<open>
  A device entry is known for every configured record whose lifecycle is live: the builders
  that read the parent device's generation without a test run on such records only.
\<close>

definition device_known :: "engine \<Rightarrow> port_record \<Rightarrow> bool" where
  "device_known e r \<longleftrightarrow>
     (pr_configuration r \<noteq> None \<and> is_live (pr_lifecycle r) \<longrightarrow>
        map_of (en_devices e) (pr_parent_device r) \<noteq> None)"

definition engine_ok :: "engine \<Rightarrow> bool" where
  "engine_ok e \<longleftrightarrow>
     om_sorted (en_records e) \<and> well_filed (port_of e) \<and>
     (\<forall>p r. port_of e p = Some r \<longrightarrow> record_core_ok r \<and> device_known e r) \<and>
     indexes_exact (port_of e) (en_indexes e) \<and>
     length (en_records e) \<le> cf_port_bound (en_config e) \<and>
     registry_ok (en_profiles e) \<and>
     om_sorted (en_devices e) \<and> om_sorted (en_publishers e) \<and>
     length (en_publishers e) \<le> max_publishers \<and>
     (\<forall>i p. map_of (en_publishers e) i = Some p \<longrightarrow> pub_publisher p = i) \<and>
     (\<forall>i d. map_of (en_devices e) i = Some d \<longrightarrow> dv_device d = i)"

lemma engine_ok_create: "engine_ok (engine_create cf)"
proof -
  have "indexes_exact (map_of []) no_indexes" using indexes_exact_none by simp
  then show ?thesis
    by (simp add: engine_ok_def engine_create_def om_sorted_def port_of_def well_filed_def
        registry_ok_empty)
qed

lemma engine_okD:
  assumes "engine_ok e" "port_of e p = Some r"
  shows "pr_port r = p" "record_core_ok r" "device_known e r"
  using assms by (auto simp: engine_ok_def well_filed_def)

text \<open>Storing a well formed record of the same port keeps the invariant.\<close>

lemma engine_ok_store:
  assumes ok: "engine_ok e" and old: "port_of e p = Some before"
    and new: "record_core_ok after" "pr_port after = p" "device_known e after"
  shows "engine_ok (store_record before after e)"
proof -
  have p: "pr_port before = p" using engine_okD [OF ok old] by simp
  have ix: "indexes_exact ((port_of e)(p \<mapsto> after)) (index_update before after (en_indexes e))"
    using ok old new(2) by (intro indexes_exact_update) (auto simp: engine_ok_def)
  have len: "length (om_update p after (en_records e)) = length (en_records e)"
    using ok old by (simp add: engine_ok_def om_length_update port_of_def)
  have recs: "\<forall>q r. ((port_of e)(p \<mapsto> after)) q = Some r \<longrightarrow>
      record_core_ok r \<and> device_known (store_record before after e) r"
    using ok new by (auto simp: engine_ok_def device_known_def)
  show ?thesis
    using ok ix len recs new(2) p
    by (simp add: engine_ok_def well_filed_update)
      (simp add: store_record_def om_sorted_update)
qed

text \<open>Changing parts that the invariant does not read.\<close>

lemma engine_ok_frame:
  "engine_ok (e\<lparr>en_generation := g\<rparr>) = engine_ok e"
  "engine_ok (e\<lparr>en_durability_dirty := d\<rparr>) = engine_ok e"
  "engine_ok (e\<lparr>en_shutting_down := s\<rparr>) = engine_ok e"
  "engine_ok (e\<lparr>en_topology := t\<rparr>) = engine_ok e"
  "engine_ok (e\<lparr>en_epoch := t\<rparr>) = engine_ok e"
  by (simp_all add: engine_ok_def port_of_def device_known_def)

lemma persist_state:
  "snd (persist_locked_state env e) = e \<or>
   (\<exists>d. snd (persist_locked_state env e) = e\<lparr>en_durability_dirty := d\<rparr>)"
  by (auto simp: persist_locked_state_def Let_def)

lemma engine_ok_persist [simp]: "engine_ok (snd (persist_locked_state env e)) = engine_ok e"
  using persist_state [of env e] by (auto simp: engine_ok_frame)

lemma port_of_frame [simp]:
  "port_of (e\<lparr>en_generation := g\<rparr>) = port_of e"
  "port_of (e\<lparr>en_durability_dirty := d\<rparr>) = port_of e"
  "port_of (snd (persist_locked_state env e)) = port_of e"
  by (simp_all add: port_of_def)

end
