(* ===== verification/Authority.thy ===== *)
theory Authority
  imports Engine_State
begin

text \<open>
  The authority side of the runtime: the publisher table, the coordinator epoch, device and
  topology generations and the release of ownership, from \<open>src/engine.cpp\<close> and
  \<open>src/engine_support.cpp\<close>.
\<close>

section \<open>The authority gate\<close>

text \<open>The refusing branches of \<open>check_authority\<close>; \<open>None\<close> when the request is let through.\<close>

definition authority_refusal :: "authority_context \<Rightarrow> engine \<Rightarrow> outcome option" where
  "authority_refusal au e =
     (if \<not> authority_valid au
      then Some (failure OC_MalformedRequest
             ''the authority context is incomplete (epoch, publisher, boot and attempt identity are all required)'')
      else if au_epoch au \<noteq> en_epoch e
      then Some (with_detail ''request_epoch'' (format_u64 (au_epoch au))
             (with_detail ''current_epoch'' (gen_or_none (en_epoch e))
               (failure OC_StaleCoordinatorEpoch
                 ''the request carries a coordinator epoch that is not current'')))
      else case map_of (en_publishers e) (au_publisher au) of
        None \<Rightarrow>
          if cf_publisher_registration (en_config e) = Registration_Explicit
          then Some (with_detail ''publisher'' (au_publisher au)
                 (failure OC_UnknownPublisher ''the publisher is not registered''))
          else if max_publishers \<le> length (en_publishers e)
          then Some (failure OC_ResourceBoundExceeded
                  ''the publisher table is at its configured bound'')
          else None
      | Some known \<Rightarrow>
          if pub_boot known \<noteq> au_boot au
          then Some (with_detail ''request_boot'' (au_boot au)
                 (with_detail ''current_boot'' (pub_boot known)
                   (failure OC_StaleWorkerBoot
                     ''the request carries a worker boot that is not the current incarnation of this publisher'')))
          else if pub_fenced known
          then Some (with_detail ''boot'' (au_boot au)
                 (with_detail ''publisher'' (au_publisher au)
                   (failure OC_PublisherFenced
                     ''the publisher incarnation is fenced and can never mutate again'')))
          else None)"

definition check_authority :: "authority_context \<Rightarrow> engine \<Rightarrow> outcome \<times> engine" where
  "check_authority au e =
     (case authority_refusal au e of
        Some refusal \<Rightarrow> (refusal, e)
      | None \<Rightarrow>
          (success [],
           case map_of (en_publishers e) (au_publisher au) of
             None \<Rightarrow> e\<lparr>en_publishers :=
                 om_update (au_publisher au)
                   \<lparr>pub_publisher = au_publisher au, pub_boot = au_boot au,
                    pub_epoch = au_epoch au, pub_fenced = False\<rparr> (en_publishers e)\<rparr>
           | Some known \<Rightarrow> e))"

text \<open>What the gate lets through: the current epoch and a live incarnation.\<close>

definition live_incarnation :: "engine \<Rightarrow> strong_id \<Rightarrow> strong_id \<Rightarrow> bool" where
  "live_incarnation e publisher boot \<longleftrightarrow>
     (\<exists>p. map_of (en_publishers e) publisher = Some p \<and> pub_boot p = boot \<and> \<not> pub_fenced p)"

text \<open>When the gate refuses, by its code.\<close>

lemma authority_refusal_None:
  "authority_refusal au e = None \<longleftrightarrow>
     authority_valid au \<and> au_epoch au = en_epoch e \<and>
     (live_incarnation e (au_publisher au) (au_boot au) \<or>
      (map_of (en_publishers e) (au_publisher au) = None \<and>
       cf_publisher_registration (en_config e) = Registration_Automatic \<and>
       length (en_publishers e) < max_publishers))"
proof -
  have r: "cf_publisher_registration (en_config e) \<noteq> Registration_Explicit \<longleftrightarrow>
      cf_publisher_registration (en_config e) = Registration_Automatic"
    by (cases "cf_publisher_registration (en_config e)") simp_all
  show ?thesis
    by (cases "map_of (en_publishers e) (au_publisher au)")
      (simp_all add: authority_refusal_def live_incarnation_def r not_le)
qed

lemma authority_refusal_code:
  "answers (\<lambda>oc. oc_code oc \<in> {OC_MalformedRequest, OC_StaleCoordinatorEpoch,
     OC_UnknownPublisher, OC_ResourceBoundExceeded, OC_StaleWorkerBoot, OC_PublisherFenced})
     (authority_refusal au e)"
  unfolding authority_refusal_def by (intro gate_intros) simp_all

lemma authority_refusal_not_ok:
  "authority_refusal au e = Some oc \<Longrightarrow> \<not> outcome_ok oc \<and> \<not> outcome_accepted oc"
  using answersD [OF authority_refusal_code [of au e], of oc]
  by (auto simp: outcome_ok_def outcome_accepted_def is_accepted_def)

lemma check_authority_admit_iff:
  "outcome_ok (fst (check_authority au e)) \<longleftrightarrow> authority_refusal au e = None"
  using authority_refusal_not_ok [of au e]
  by (auto simp: check_authority_def split: option.split) (simp add: outcome_ok_def)

lemma check_authority_admits:
  assumes "outcome_ok (fst (check_authority au e))"
  shows "authority_valid au" "au_epoch au = en_epoch e"
    "live_incarnation (snd (check_authority au e)) (au_publisher au) (au_boot au)"
proof -
  have n: "authority_refusal au e = None" using assms by (simp only: check_authority_admit_iff)
  then show "authority_valid au" "au_epoch au = en_epoch e"
    by (simp_all add: authority_refusal_None)
  from n iffD1 [OF authority_refusal_None n]
  show "live_incarnation (snd (check_authority au e)) (au_publisher au) (au_boot au)"
    by (auto simp: check_authority_def live_incarnation_def split: option.split)
qed

lemma check_authority_rejected:
  "\<not> outcome_ok (fst (check_authority au e)) \<Longrightarrow> snd (check_authority au e) = e"
  by (simp only: check_authority_admit_iff) (auto simp: check_authority_def)

lemma check_authority_publishers:
  "snd (check_authority au e) = e \<or>
   (map_of (en_publishers e) (au_publisher au) = None \<and>
    length (en_publishers e) < max_publishers \<and>
    snd (check_authority au e) = e\<lparr>en_publishers := om_update (au_publisher au)
      \<lparr>pub_publisher = au_publisher au, pub_boot = au_boot au,
       pub_epoch = au_epoch au, pub_fenced = False\<rparr> (en_publishers e)\<rparr>)"
proof (cases "authority_refusal au e")
  case None
  then show ?thesis
    using iffD1 [OF authority_refusal_None None]
    by (cases "map_of (en_publishers e) (au_publisher au)")
      (auto simp: check_authority_def live_incarnation_def)
qed (simp add: check_authority_def)

lemma check_authority_frame [simp]:
  "en_config (snd (check_authority au e)) = en_config e"
  "en_records (snd (check_authority au e)) = en_records e"
  "en_indexes (snd (check_authority au e)) = en_indexes e"
  "en_generation (snd (check_authority au e)) = en_generation e"
  "en_profiles (snd (check_authority au e)) = en_profiles e"
  "en_epoch (snd (check_authority au e)) = en_epoch e"
  "en_topology (snd (check_authority au e)) = en_topology e"
  "en_devices (snd (check_authority au e)) = en_devices e"
  "en_shutting_down (snd (check_authority au e)) = en_shutting_down e"
  using check_authority_publishers [of au e] by auto

lemma check_authority_port_of [simp]: "port_of (snd (check_authority au e)) = port_of e"
  by (simp add: port_of_def)

lemma engine_ok_publishers:
  "engine_ok e \<Longrightarrow> om_sorted ps \<Longrightarrow> length ps \<le> max_publishers \<Longrightarrow>
   (\<forall>i p. map_of ps i = Some p \<longrightarrow> pub_publisher p = i) \<Longrightarrow> engine_ok (e\<lparr>en_publishers := ps\<rparr>)"
  by (simp add: engine_ok_def port_of_def device_known_def)

lemma engine_ok_register:
  assumes "engine_ok e" "pub_publisher r = p"
    "map_of (en_publishers e) p = None \<longrightarrow> length (en_publishers e) < max_publishers"
  shows "engine_ok (e\<lparr>en_publishers := om_update p r (en_publishers e)\<rparr>)"
proof (rule engine_ok_publishers)
  have sorted: "om_sorted (en_publishers e)" and bound: "length (en_publishers e) \<le> max_publishers"
    using assms(1) by (simp_all add: engine_ok_def)
  from sorted show "om_sorted (om_update p r (en_publishers e))" by (rule om.inv_update)
  from sorted bound show "length (om_update p r (en_publishers e)) \<le> max_publishers"
    by (rule om.bounded_update) (use assms(3) in simp)
  show "\<forall>i q. map_of (om_update p r (en_publishers e)) i = Some q \<longrightarrow> pub_publisher q = i"
    using assms(1,2) by (simp add: engine_ok_def)
qed fact

lemma check_authority_ok:
  assumes "engine_ok e"
  shows "engine_ok (snd (check_authority au e))"
  using check_authority_publishers [of au e]
proof
  assume "snd (check_authority au e) = e"
  with assms show ?thesis by simp
next
  assume "map_of (en_publishers e) (au_publisher au) = None \<and>
    length (en_publishers e) < max_publishers \<and>
    snd (check_authority au e) = e\<lparr>en_publishers := om_update (au_publisher au)
      \<lparr>pub_publisher = au_publisher au, pub_boot = au_boot au,
       pub_epoch = au_epoch au, pub_fenced = False\<rparr> (en_publishers e)\<rparr>"
  with assms show ?thesis by (simp add: engine_ok_register)
qed

text \<open>
  A request passes the authority gate exactly when its context is complete, it
  carries the current epoch and its publisher is either registered with this boot and not
  fenced, or unknown while automatic registration is on and the table has room; a refused
  request changes nothing, an admitted one leaves its incarnation live.
\<close>

theorem check_authority_iff:
  "(outcome_ok (fst (check_authority au e)) \<longleftrightarrow>
      authority_valid au \<and> au_epoch au = en_epoch e \<and>
      (live_incarnation e (au_publisher au) (au_boot au) \<or>
       (map_of (en_publishers e) (au_publisher au) = None \<and>
        cf_publisher_registration (en_config e) = Registration_Automatic \<and>
        length (en_publishers e) < max_publishers))) \<and>
   (if outcome_ok (fst (check_authority au e))
    then live_incarnation (snd (check_authority au e)) (au_publisher au) (au_boot au)
    else snd (check_authority au e) = e)"
  using check_authority_admits(3) [of au e] check_authority_rejected [of au e]
  by (simp add: check_authority_admit_iff authority_refusal_None)

section \<open>Releasing ownership\<close>

text \<open>
  The loops of \<open>release_ownership_of\<close> and \<open>release_ownership_before_epoch\<close> have one body, run
  on every record whose ownership satisfies the guard.
\<close>

definition clear_ownership :: "string \<Rightarrow> string \<Rightarrow> port_record \<Rightarrow> port_record" where
  "clear_ownership reason d r =
     r\<lparr>pr_generations := (pr_generations r)\<lparr>gv_ownership := gen_advance (gv_ownership (pr_generations r))\<rparr>,
       pr_ownership := None, pr_status_reason := reason, pr_status_detail := d\<rparr>"

definition release_step ::
  "(port_ownership \<Rightarrow> bool) \<Rightarrow> (port_record \<Rightarrow> port_record) \<Rightarrow> port_record \<Rightarrow> engine \<times> bool \<Rightarrow> engine \<times> bool"
  where
  "release_step guard clear r st =
     (case pr_ownership r of
        None \<Rightarrow> st
      | Some w \<Rightarrow> if guard w then (store_record r (clear r) (fst st), True) else st)"

definition release_where ::
  "(port_ownership \<Rightarrow> bool) \<Rightarrow> (port_record \<Rightarrow> port_record) \<Rightarrow> engine \<Rightarrow> engine" where
  "release_where guard clear e =
     (let (e', changed) =
            foldl (\<lambda>st r. release_step guard clear r st) (e, False) (map snd (en_records e))
      in if changed then e'\<lparr>en_generation := gen_advance (en_generation e')\<rparr> else e')"

definition release_ownership_of :: "strong_id \<Rightarrow> strong_id \<Rightarrow> engine \<Rightarrow> engine" where
  "release_ownership_of publisher boot =
     release_where (\<lambda>w. \<not> (ow_publisher w \<noteq> publisher \<or> ow_boot w \<noteq> boot))
       (clear_ownership ''OWNERSHIP_FENCED''
          ''ownership released when the holding incarnation was fenced'')"

definition release_ownership_before_epoch :: "generation \<Rightarrow> engine \<Rightarrow> engine" where
  "release_ownership_before_epoch current_epoch =
     release_where (\<lambda>w. ow_epoch w < current_epoch)
       (clear_ownership ''OWNERSHIP_RELEASED_ON_RESTART''
          ''ownership granted under an earlier coordinator epoch does not survive'')"

text \<open>What releasing does to one record.\<close>

definition released :: "(port_ownership \<Rightarrow> bool) \<Rightarrow> (port_record \<Rightarrow> port_record) \<Rightarrow> port_record \<Rightarrow> port_record" where
  "released guard clear r =
     (case pr_ownership r of None \<Rightarrow> r | Some w \<Rightarrow> if guard w then clear r else r)"

lemma clear_ownership_fields [simp]:
  "pr_port (clear_ownership a b r) = pr_port r"
  "pr_parent_device (clear_ownership a b r) = pr_parent_device r"
  "pr_lifecycle (clear_ownership a b r) = pr_lifecycle r"
  "pr_configuration (clear_ownership a b r) = pr_configuration r"
  "pr_ownership (clear_ownership a b r) = None"
  "pr_capability (clear_ownership a b r) = pr_capability r"
  "pr_applied (clear_ownership a b r) = pr_applied r"
  "pr_drift (clear_ownership a b r) = pr_drift r"
  "pr_last_mutation (clear_ownership a b r) = pr_last_mutation r"
  "gv_configuration (pr_generations (clear_ownership a b r)) = gv_configuration (pr_generations r)"
  "gv_ownership (pr_generations (clear_ownership a b r)) = gen_advance (gv_ownership (pr_generations r))"
  by (simp_all add: clear_ownership_def)

lemma record_core_ok_clear: "record_core_ok r \<Longrightarrow> record_core_ok (clear_ownership a b r)"
  by (auto simp: record_core_ok_def)

lemma device_known_clear [simp]: "device_known e (clear_ownership a b r) = device_known e r"
  by (simp add: device_known_def)

text \<open>
  The loop changes each record by \<open>released\<close>, whatever the order: it visits every record of the
  table once, and a record it changed is not visited again.
\<close>

lemma release_fold:
  assumes "distinct (map fst rs)" "\<forall>(p, r) \<in> set rs. pr_port r = p \<and> port_of e p = Some r"
    "engine_ok e" "clear = clear_ownership a b"
  shows "let e' = fst (foldl (\<lambda>st r. release_step guard clear r st) (e, ch) (map snd rs))
    in engine_ok e' \<and>
       port_of e' = (\<lambda>p. if p \<in> fst ` set rs then map_option (released guard clear) (port_of e p)
                         else port_of e p) \<and>
       en_config e' = en_config e \<and> en_generation e' = en_generation e \<and>
       en_profiles e' = en_profiles e \<and> en_epoch e' = en_epoch e \<and>
       en_topology e' = en_topology e \<and> en_publishers e' = en_publishers e \<and>
       en_devices e' = en_devices e \<and> en_shutting_down e' = en_shutting_down e"
  using assms(1-3)
proof (induction rs arbitrary: e ch)
  case Nil
  then show ?case by simp
next
  case (Cons x rs)
  obtain p r where x: "x = (p, r)" by (cases x)
  have pr: "pr_port r = p" "port_of e p = Some r" using Cons.prems(2) by (simp_all add: x)
  have core: "record_core_ok r" "device_known e r" using engine_okD [OF Cons.prems(3) pr(2)] by simp_all
  define st where "st = release_step guard clear r (e, ch)"
  have fresh: "p \<notin> fst ` set rs" "distinct (map fst rs)" using Cons.prems(1) by (simp_all add: x)
  have st: "port_of (fst st) = (port_of e)(p \<mapsto> released guard clear r) \<and> engine_ok (fst st) \<and>
      en_config (fst st) = en_config e \<and> en_generation (fst st) = en_generation e \<and>
      en_profiles (fst st) = en_profiles e \<and> en_epoch (fst st) = en_epoch e \<and>
      en_topology (fst st) = en_topology e \<and> en_publishers (fst st) = en_publishers e \<and>
      en_devices (fst st) = en_devices e \<and> en_shutting_down (fst st) = en_shutting_down e"
  proof (cases "\<exists>w. pr_ownership r = Some w \<and> guard w")
    case True
    then have "fst st = store_record r (clear r) e" "released guard clear r = clear r"
      by (auto simp: st_def release_step_def released_def)
    moreover have "engine_ok (store_record r (clear r) e)"
      using engine_ok_store [OF Cons.prems(3) pr(2)] core pr(1)
      by (simp add: assms(4) record_core_ok_clear)
    ultimately show ?thesis by (simp add: pr(1))
  next
    case False
    then have "fst st = e" "released guard clear r = r"
      by (auto simp: st_def release_step_def released_def split: option.split)
    with Cons.prems(3) pr show ?thesis by (simp add: fun_upd_idem)
  qed
  have "\<forall>(q, s) \<in> set rs. pr_port s = q \<and> port_of (fst st) q = Some s"
    using Cons.prems(2) fresh by (force simp: x st)
  from Cons.IH [OF fresh(2) this, of "snd st"] st fresh show ?case
    by (auto simp: Let_def x st_def [symmetric] pr fun_eq_iff)
qed

lemma release_changed:
  "snd (foldl (\<lambda>st r. release_step guard clear r st) (e, ch) rs) =
     (ch \<or> (\<exists>r \<in> set rs. \<exists>w. pr_ownership r = Some w \<and> guard w))"
  by (induction rs arbitrary: e ch) (auto simp: release_step_def split: option.split)

lemma release_where_spec:
  assumes ok: "engine_ok e" and clear: "clear = clear_ownership a b"
  shows "engine_ok (release_where guard clear e)"
    "port_of (release_where guard clear e) = (\<lambda>p. map_option (released guard clear) (port_of e p))"
    "en_config (release_where guard clear e) = en_config e"
    "en_profiles (release_where guard clear e) = en_profiles e"
    "en_epoch (release_where guard clear e) = en_epoch e"
    "en_topology (release_where guard clear e) = en_topology e"
    "en_publishers (release_where guard clear e) = en_publishers e"
    "en_devices (release_where guard clear e) = en_devices e"
    "en_shutting_down (release_where guard clear e) = en_shutting_down e"
    "en_generation (release_where guard clear e) =
       (if \<exists>p r w. port_of e p = Some r \<and> pr_ownership r = Some w \<and> guard w
        then gen_advance (en_generation e) else en_generation e)"
proof -
  let ?f = "foldl (\<lambda>st r. release_step guard clear r st) (e, False) (map snd (en_records e))"
  have sorted: "om_sorted (en_records e)" using ok by (simp add: engine_ok_def)
  have "\<forall>(p, r) \<in> set (en_records e). pr_port r = p \<and> port_of e p = Some r"
    using ok sorted by (auto simp: om_map_of_mem engine_ok_def well_filed_def port_of_def)
  note fold = release_fold [OF om_sorted_distinct [OF sorted] this ok clear, of guard False,
      unfolded Let_def]
  have dom: "p \<in> fst ` set (en_records e) \<longleftrightarrow> port_of e p \<noteq> None" for p
    by (simp add: port_of_def map_of_eq_None_iff)
  have p: "port_of (fst ?f) = (\<lambda>p. map_option (released guard clear) (port_of e p))"
    using fold by (auto simp: dom fun_eq_iff)
  have changed: "snd ?f \<longleftrightarrow> (\<exists>p r w. port_of e p = Some r \<and> pr_ownership r = Some w \<and> guard w)"
  proof -
    have mem: "r \<in> snd ` set (en_records e) \<longleftrightarrow> (\<exists>p. port_of e p = Some r)" for r
      unfolding port_of_def om_map_of_mem [OF sorted, symmetric] by force
    have "snd ?f \<longleftrightarrow> (\<exists>r \<in> snd ` set (en_records e).
        \<exists>w. pr_ownership r = Some w \<and> guard w)"
      by (simp only: release_changed set_map simp_thms)
    then show ?thesis unfolding Bex_def mem by blast
  qed
  have eq: "release_where guard clear e =
      (if snd ?f then (fst ?f)\<lparr>en_generation := gen_advance (en_generation (fst ?f))\<rparr> else fst ?f)"
    by (simp add: release_where_def split_beta)
  show "engine_ok (release_where guard clear e)"
    using fold by (simp add: eq engine_ok_frame)
  show "port_of (release_where guard clear e) = (\<lambda>p. map_option (released guard clear) (port_of e p))"
    using p by (simp add: eq)
  show "en_config (release_where guard clear e) = en_config e"
    "en_profiles (release_where guard clear e) = en_profiles e"
    "en_epoch (release_where guard clear e) = en_epoch e"
    "en_topology (release_where guard clear e) = en_topology e"
    "en_publishers (release_where guard clear e) = en_publishers e"
    "en_devices (release_where guard clear e) = en_devices e"
    "en_shutting_down (release_where guard clear e) = en_shutting_down e"
    using fold by (simp_all add: eq)
  show "en_generation (release_where guard clear e) =
       (if \<exists>p r w. port_of e p = Some r \<and> pr_ownership r = Some w \<and> guard w
        then gen_advance (en_generation e) else en_generation e)"
    unfolding changed [symmetric] using fold by (simp add: eq)
qed

lemma released_owned:
  "pr_ownership (released guard (clear_ownership a b) r) = Some w \<longleftrightarrow>
     pr_ownership r = Some w \<and> \<not> guard w"
  by (auto simp: released_def split: option.split)

lemma released_unowned:
  "pr_ownership (released guard (clear_ownership a b) r) \<noteq> None \<Longrightarrow>
   released guard (clear_ownership a b) r = r"
  by (auto simp: released_def split: option.split)

lemma release_where_owned:
  assumes "engine_ok e" "clear = clear_ownership a b"
    "port_of (release_where guard clear e) p = Some r" "pr_ownership r = Some w"
  shows "port_of e p = Some r \<and> \<not> guard w"
proof -
  from assms(3) obtain s where s: "port_of e p = Some s" "r = released guard (clear_ownership a b) s"
    unfolding release_where_spec(2) [OF assms(1,2)] by (auto simp: assms(2))
  with assms(4) have "r = s" "\<not> guard w"
    using released_unowned [of guard a b s] released_owned [of guard a b s w] by auto
  with s show ?thesis by simp
qed

section \<open>Coordinator epochs\<close>

definition begin_epoch :: "engine \<Rightarrow> outcome \<times> engine" where
  "begin_epoch e =
     (if \<not> gen_valid (en_epoch e)
      then (failure OC_InternalError ''the coordinator epoch is not established'', e)
      else if gen_exhaustible (en_epoch e)
      then (failure OC_ResourceBoundExceeded ''the coordinator epoch can no longer advance'', e)
      else let e = e\<lparr>en_epoch := gen_next (en_epoch e)\<rparr>;
               e = e\<lparr>en_publishers :=
                       om_map_values (\<lambda>p. if pub_epoch p < en_epoch e then p\<lparr>pub_fenced := True\<rparr> else p)
                         (en_publishers e)\<rparr>
           in (success ''coordinator epoch advanced'',
               release_ownership_before_epoch (en_epoch e) e))"

lemma engine_ok_fenced:
  "engine_ok e \<Longrightarrow> (\<And>p. pub_publisher (f p) = pub_publisher p) \<Longrightarrow>
   engine_ok (e\<lparr>en_epoch := g, en_publishers := om_map_values f (en_publishers e)\<rparr>)"
  by (simp add: engine_ok_def port_of_def device_known_def om_sorted_map_values)
    (auto simp: om_map_values_def)

lemma begin_epoch_state:
  "snd (begin_epoch e) = e \<or>
   (gen_valid (en_epoch e) \<and> \<not> gen_exhaustible (en_epoch e) \<and>
    snd (begin_epoch e) = release_ownership_before_epoch (gen_next (en_epoch e))
      (e\<lparr>en_epoch := gen_next (en_epoch e),
         en_publishers := om_map_values
           (\<lambda>p. if pub_epoch p < gen_next (en_epoch e) then p\<lparr>pub_fenced := True\<rparr> else p)
           (en_publishers e)\<rparr>))"
  by (simp add: begin_epoch_def Let_def)

lemma begin_epoch_ok: "engine_ok e \<Longrightarrow> engine_ok (snd (begin_epoch e))"
  using begin_epoch_state [of e]
  by (auto simp: release_ownership_before_epoch_def intro!: release_where_spec(1) engine_ok_fenced)

text \<open>
  Advancing the coordinator epoch succeeds exactly when an epoch is established
  and can advance. Then the epoch is strictly newer, no port is owned under an earlier epoch
  any more, ownership granted later is untouched, every publisher incarnation registered under
  an earlier epoch is fenced, and every request that still carries an earlier epoch is refused.
\<close>

theorem begin_epoch_fences:
  assumes "engine_ok e"
  shows "(outcome_ok (fst (begin_epoch e)) \<longleftrightarrow>
            gen_valid (en_epoch e) \<and> \<not> gen_exhaustible (en_epoch e)) \<and>
    (outcome_ok (fst (begin_epoch e)) \<longrightarrow>
       en_epoch e < en_epoch (snd (begin_epoch e)) \<and>
       (\<forall>p r w. port_of (snd (begin_epoch e)) p = Some r \<and> pr_ownership r = Some w \<longrightarrow>
          port_of e p = Some r \<and> en_epoch (snd (begin_epoch e)) \<le> ow_epoch w) \<and>
       (\<forall>i p. map_of (en_publishers (snd (begin_epoch e))) i = Some p \<and>
          pub_epoch p < en_epoch (snd (begin_epoch e)) \<longrightarrow> pub_fenced p) \<and>
       (\<forall>au. au_epoch au < en_epoch (snd (begin_epoch e)) \<longrightarrow>
          \<not> outcome_ok (fst (check_authority au (snd (begin_epoch e))))))"
proof (cases "gen_valid (en_epoch e) \<and> \<not> gen_exhaustible (en_epoch e)")
  case False
  then show ?thesis by (auto simp: begin_epoch_def outcome_ok_def)
next
  case True
  let ?g = "gen_next (en_epoch e)"
  let ?f = "\<lambda>p. if pub_epoch p < ?g then p\<lparr>pub_fenced := True\<rparr> else p"
  let ?m = "e\<lparr>en_epoch := ?g, en_publishers := om_map_values ?f (en_publishers e)\<rparr>"
  let ?e = "release_ownership_before_epoch ?g ?m"
  have m: "engine_ok ?m" by (rule engine_ok_fenced) (use assms in simp_all)
  have eq: "begin_epoch e = (success ''coordinator epoch advanced'', ?e)"
    using True by (simp add: begin_epoch_def)
  note spec = release_where_spec [OF m refl, folded release_ownership_before_epoch_def]
  have epoch: "en_epoch ?e = ?g" and pubs: "en_publishers ?e = om_map_values ?f (en_publishers e)"
    by (simp_all add: release_ownership_before_epoch_def release_where_spec [OF m refl])
  have owned: "port_of e p = Some r \<and> ?g \<le> ow_epoch w"
    if "port_of ?e p = Some r" "pr_ownership r = Some w" for p r w
    using release_where_owned [OF m refl] that
    by (fastforce simp: release_ownership_before_epoch_def port_of_def not_less)
  have fenced: "pub_fenced p" if "map_of (en_publishers ?e) i = Some p" "pub_epoch p < ?g" for i p
  proof -
    from that(1) obtain q where q: "p = ?f q" by (auto simp: pubs)
    with that(2) show ?thesis by (cases "pub_epoch q < ?g") simp_all
  qed
  have refused: "\<not> outcome_ok (fst (check_authority au ?e))" if "au_epoch au < ?g" for au
    using that by (auto simp: check_authority_admit_iff authority_refusal_None epoch)
  have okc: "outcome_ok (success m)" for m by (simp add: outcome_ok_def)
  show ?thesis
    unfolding eq fst_conv snd_conv epoch
    using True gen_next_strict [of "en_epoch e"] owned fenced refused okc by blast
qed

theorem begin_epoch_fences_witness:
  "outcome_ok (fst (begin_epoch (engine_create (default_config\<lparr>cf_epoch := 7\<rparr>)))) \<and>
   7 < en_epoch (snd (begin_epoch (engine_create (default_config\<lparr>cf_epoch := 7\<rparr>))))"
  using begin_epoch_fences [OF engine_ok_create, of "default_config\<lparr>cf_epoch := 7\<rparr>"]
  by (simp add: engine_create_def gen_valid_def gen_exhaustible_def)

section \<open>Publisher incarnations\<close>

definition register_fresh ::
  "strong_id \<Rightarrow> strong_id \<Rightarrow> generation \<Rightarrow> engine \<Rightarrow> outcome \<times> engine" where
  "register_fresh publisher boot epoch e =
     (if max_publishers \<le> length (en_publishers e)
      then (failure OC_ResourceBoundExceeded ''the publisher table is at its configured bound'', e)
      else (success ''publisher registered'',
            e\<lparr>en_publishers := om_update publisher
                \<lparr>pub_publisher = publisher, pub_boot = boot, pub_epoch = epoch, pub_fenced = False\<rparr>
                (en_publishers e)\<rparr>))"

definition reincarnate ::
  "strong_id \<Rightarrow> strong_id \<Rightarrow> generation \<Rightarrow> publisher_record \<Rightarrow> engine \<Rightarrow> outcome \<times> engine" where
  "reincarnate publisher boot epoch known e =
     (success ''publisher reincarnated under a fresh boot identity'',
      e\<lparr>en_publishers := om_update publisher
          (known\<lparr>pub_boot := boot, pub_epoch := epoch, pub_fenced := False\<rparr>) (en_publishers e)\<rparr>)"

definition register_publisher ::
  "strong_id \<Rightarrow> strong_id \<Rightarrow> generation \<Rightarrow> engine \<Rightarrow> outcome \<times> engine" where
  "register_publisher publisher boot epoch e =
     (if \<not> id_valid publisher \<or> \<not> id_valid boot \<or> \<not> gen_valid epoch
      then (failure OC_MalformedRequest ''the publisher registration is incomplete'', e)
      else if epoch \<noteq> en_epoch e
      then (failure OC_StaleCoordinatorEpoch
              ''the publisher registered under a stale coordinator epoch'', e)
      else case map_of (en_publishers e) publisher of
        None \<Rightarrow> register_fresh publisher boot epoch e
      | Some known \<Rightarrow>
          if pub_boot known = boot
          then (if pub_fenced known
                then (failure OC_PublisherFenced ''the publisher incarnation is fenced'', e)
                else (current ''the publisher incarnation is already registered'', e))
          else if pub_boot known \<noteq> boot \<and> pub_epoch known = epoch
          then reincarnate publisher boot epoch known e
          else if pub_fenced known then reincarnate publisher boot epoch known e
          else register_fresh publisher boot epoch e)"

lemma register_publisher_state:
  "snd (register_publisher publisher boot epoch e) = e \<or>
   (\<exists>r. ((\<forall>k. map_of (en_publishers e) publisher = Some k \<longrightarrow> pub_publisher k = publisher) \<longrightarrow>
           pub_publisher r = publisher) \<and> pub_boot r = boot \<and> pub_epoch r = en_epoch e \<and> \<not> pub_fenced r \<and>
      (map_of (en_publishers e) publisher = None \<longrightarrow> length (en_publishers e) < max_publishers) \<and>
      snd (register_publisher publisher boot epoch e) =
        e\<lparr>en_publishers := om_update publisher r (en_publishers e)\<rparr>)"
proof (cases "epoch = en_epoch e \<and> id_valid publisher \<and> id_valid boot \<and> gen_valid epoch")
  case False
  then show ?thesis by (auto simp: register_publisher_def)
next
  case True
  let ?new = "\<lparr>pub_publisher = publisher, pub_boot = boot, pub_epoch = epoch, pub_fenced = False\<rparr>"
  have fresh: "snd (register_fresh publisher boot epoch e) = e \<or>
      length (en_publishers e) < max_publishers \<and> snd (register_fresh publisher boot epoch e) =
        e\<lparr>en_publishers := om_update publisher ?new (en_publishers e)\<rparr>"
    by (auto simp: register_fresh_def)
  show ?thesis
  proof (cases "map_of (en_publishers e) publisher")
    case None
    with True have "register_publisher publisher boot epoch e = register_fresh publisher boot epoch e"
      by (auto simp: register_publisher_def)
    with fresh True show ?thesis by (metis publisher_record.select_convs(1,2,3,4))
  next
    case (Some known)
    let ?again = "known\<lparr>pub_boot := boot, pub_epoch := epoch, pub_fenced := False\<rparr>"
    consider "snd (register_publisher publisher boot epoch e) = e"
      | "register_publisher publisher boot epoch e = reincarnate publisher boot epoch known e"
      | "register_publisher publisher boot epoch e = register_fresh publisher boot epoch e"
      using True Some
      by (cases "pub_boot known = boot"; cases "pub_epoch known = epoch"; cases "pub_fenced known")
        (auto simp: register_publisher_def)
    then show ?thesis
    proof cases
      case 2
      with True Some show ?thesis
        by (intro disjI2 exI [of _ ?again]) (simp add: reincarnate_def)
    next
      case 3
      with fresh True show ?thesis by (metis publisher_record.select_convs(1,2,3,4))
    qed simp
  qed
qed

lemma register_publisher_ok: "engine_ok e \<Longrightarrow> engine_ok (snd (register_publisher p b g e))"
  using register_publisher_state [of p b g e] engine_ok_register [of e _ p]
  by (auto simp: engine_ok_def [of e])

lemma register_publisher_frame:
  "port_of (snd (register_publisher p b g e)) = port_of e"
  "en_records (snd (register_publisher p b g e)) = en_records e"
  "en_epoch (snd (register_publisher p b g e)) = en_epoch e"
  "en_generation (snd (register_publisher p b g e)) = en_generation e"
  "en_config (snd (register_publisher p b g e)) = en_config e"
  "en_devices (snd (register_publisher p b g e)) = en_devices e"
  "en_topology (snd (register_publisher p b g e)) = en_topology e"
  using register_publisher_state [of p b g e] by (auto simp: port_of_def)

definition fence_publisher :: "strong_id \<Rightarrow> strong_id \<Rightarrow> engine \<Rightarrow> outcome \<times> engine" where
  "fence_publisher publisher boot e =
     (if \<not> id_valid publisher
      then (failure OC_MalformedRequest ''the publisher identity is missing'', e)
      else case map_of (en_publishers e) publisher of
        None \<Rightarrow> (failure OC_UnknownPublisher ''the publisher is not registered'', e)
      | Some known \<Rightarrow>
          if id_valid boot \<and> pub_boot known \<noteq> boot
          then (failure OC_StaleWorkerBoot ''the publisher is running a different worker boot'', e)
          else if pub_fenced known
          then (current ''the publisher incarnation is already fenced'', e)
          else (success ''publisher incarnation fenced'',
                release_ownership_of (pub_publisher known) (pub_boot known)
                  (e\<lparr>en_publishers :=
                      om_update publisher (known\<lparr>pub_fenced := True\<rparr>) (en_publishers e)\<rparr>)))"

definition is_publisher_fenced :: "strong_id \<Rightarrow> strong_id \<Rightarrow> engine \<Rightarrow> bool" where
  "is_publisher_fenced publisher boot e =
     (case map_of (en_publishers e) publisher of
        None \<Rightarrow> False
      | Some known \<Rightarrow> if id_valid boot \<and> pub_boot known \<noteq> boot then False else pub_fenced known)"

definition publisher_count :: "engine \<Rightarrow> nat" where
  "publisher_count e = length (en_publishers e)"

lemma fence_publisher_state:
  "(snd (fence_publisher publisher boot e) = e \<and> \<not> outcome_ok (fst (fence_publisher publisher boot e))) \<or>
   (\<exists>known. map_of (en_publishers e) publisher = Some known \<and> \<not> pub_fenced known \<and>
      (id_valid boot \<longrightarrow> pub_boot known = boot) \<and>
      outcome_ok (fst (fence_publisher publisher boot e)) \<and>
      snd (fence_publisher publisher boot e) =
        release_ownership_of (pub_publisher known) (pub_boot known)
          (e\<lparr>en_publishers := om_update publisher (known\<lparr>pub_fenced := True\<rparr>) (en_publishers e)\<rparr>))"
  by (simp add: fence_publisher_def outcome_ok_def split: option.split)

lemma fence_publisher_ok: "engine_ok e \<Longrightarrow> engine_ok (snd (fence_publisher publisher boot e))"
  using fence_publisher_state [of publisher boot e]
  by (auto simp: release_ownership_of_def engine_ok_def [of e]
      intro!: release_where_spec(1) engine_ok_register)

text \<open>
  Fencing a publisher incarnation leaves no port owned by that incarnation, leaves every other port as it was, and from then
  on the authority gate refuses every request of the incarnation.
\<close>

theorem fence_publisher_releases:
  assumes "engine_ok e" and "outcome_ok (fst (fence_publisher publisher boot e))"
    and "id_valid boot"
  shows "(\<forall>p r w. port_of (snd (fence_publisher publisher boot e)) p = Some r \<and>
              pr_ownership r = Some w \<longrightarrow>
            port_of e p = Some r \<and> \<not> (ow_publisher w = publisher \<and> ow_boot w = boot)) \<and>
    (\<forall>p r. port_of e p = Some r \<and>
            (\<forall>w. pr_ownership r = Some w \<longrightarrow> \<not> (ow_publisher w = publisher \<and> ow_boot w = boot)) \<longrightarrow>
            port_of (snd (fence_publisher publisher boot e)) p = Some r) \<and>
    (\<forall>au. au_publisher au = publisher \<and> au_boot au = boot \<longrightarrow>
            \<not> outcome_ok (fst (check_authority au (snd (fence_publisher publisher boot e))))) \<and>
    is_publisher_fenced publisher boot (snd (fence_publisher publisher boot e))"
proof -
  obtain known where known: "map_of (en_publishers e) publisher = Some known" "pub_boot known = boot"
    "snd (fence_publisher publisher boot e) =
        release_ownership_of (pub_publisher known) (pub_boot known)
          (e\<lparr>en_publishers := om_update publisher (known\<lparr>pub_fenced := True\<rparr>) (en_publishers e)\<rparr>)"
    using fence_publisher_state [of publisher boot e] assms(2,3) by auto
  then have pub: "pub_publisher known = publisher" using assms(1) by (simp add: engine_ok_def)
  let ?m = "e\<lparr>en_publishers := om_update publisher (known\<lparr>pub_fenced := True\<rparr>) (en_publishers e)\<rparr>"
  have m: "engine_ok ?m" using assms(1) known(1) pub by (simp add: engine_ok_register)
  have p: "port_of ?m = port_of e" by (simp add: port_of_def)
  note after = known(3) [unfolded pub known(2) release_ownership_of_def]
  have 1: "\<forall>p r w. port_of (snd (fence_publisher publisher boot e)) p = Some r \<and>
              pr_ownership r = Some w \<longrightarrow>
            port_of e p = Some r \<and> \<not> (ow_publisher w = publisher \<and> ow_boot w = boot)"
  proof (intro allI impI, elim conjE)
    fix q r w
    assume a: "port_of (snd (fence_publisher publisher boot e)) q = Some r" "pr_ownership r = Some w"
    from release_where_owned [OF m refl a(1) [unfolded after] a(2)]
    show "port_of e q = Some r \<and> \<not> (ow_publisher w = publisher \<and> ow_boot w = boot)"
      by (simp add: p)
  qed
  have 2: "\<forall>p r. port_of e p = Some r \<and>
            (\<forall>w. pr_ownership r = Some w \<longrightarrow> \<not> (ow_publisher w = publisher \<and> ow_boot w = boot)) \<longrightarrow>
            port_of (snd (fence_publisher publisher boot e)) p = Some r"
  proof (intro allI impI, elim conjE)
    fix p r
    assume "port_of e p = Some r"
      "\<forall>w. pr_ownership r = Some w \<longrightarrow> \<not> (ow_publisher w = publisher \<and> ow_boot w = boot)"
    then show "port_of (snd (fence_publisher publisher boot e)) p = Some r"
      unfolding after release_where_spec(2) [OF m refl] \<open>port_of ?m = port_of e\<close>
      by (cases "pr_ownership r") (auto simp: released_def)
  qed
  have pubs: "map_of (en_publishers (snd (fence_publisher publisher boot e))) publisher =
      Some (known\<lparr>pub_fenced := True\<rparr>)"
    unfolding after by (simp add: release_where_spec [OF m refl])
  have 3: "\<forall>au. au_publisher au = publisher \<and> au_boot au = boot \<longrightarrow>
            \<not> outcome_ok (fst (check_authority au (snd (fence_publisher publisher boot e))))"
    using pubs by (simp add: check_authority_admit_iff authority_refusal_None live_incarnation_def)
  have 4: "is_publisher_fenced publisher boot (snd (fence_publisher publisher boot e))"
    using pubs known(2) by (simp add: is_publisher_fenced_def)
  from 1 2 3 4 show ?thesis by blast
qed

text \<open>A runtime with one registered agent, for the concrete instances.\<close>

definition one_agent :: engine where
  "one_agent =
     snd (register_publisher ''agent'' ''boot-1'' 7
       (engine_create (default_config\<lparr>cf_coordinator := ''core'', cf_epoch := 7\<rparr>)))"

lemma one_agent_ok: "engine_ok one_agent"
  by (simp add: one_agent_def register_publisher_ok engine_ok_create)

lemma one_agent_publishers:
  "en_publishers one_agent =
     [(''agent'', \<lparr>pub_publisher = ''agent'', pub_boot = ''boot-1'', pub_epoch = 7, pub_fenced = False\<rparr>)]"
  "en_epoch one_agent = 7"
  by (simp_all add: one_agent_def engine_create_def register_publisher_def register_fresh_def
      id_valid_def gen_valid_def max_publishers_def)

theorem fence_publisher_releases_witness:
  "is_publisher_fenced ''agent'' ''boot-1'' (snd (fence_publisher ''agent'' ''boot-1'' one_agent))"
proof -
  have "outcome_ok (fst (fence_publisher ''agent'' ''boot-1'' one_agent))"
    by (simp add: fence_publisher_def one_agent_publishers outcome_ok_def id_valid_def)
  from fence_publisher_releases [OF one_agent_ok this] show ?thesis by (simp add: id_valid_def)
qed

text \<open>
  Property C27. Fencing is not permanent for the incarnation it names: after a boot was fenced
  and another boot of the same publisher registered, registering the fenced boot again within
  the epoch makes it live, and the authority gate admits its requests.
\<close>

theorem fenced_boot_regains_authority:
  assumes "engine_ok e" and "map_of (en_publishers e) p = Some known"
    and "pub_boot known = old" and "\<not> pub_fenced known" and "pub_epoch known = en_epoch e"
    and "id_valid p" and "id_valid old" and "id_valid new" and "old \<noteq> new" and "gen_valid (en_epoch e)"
  shows "let fenced = snd (fence_publisher p old e);
             replaced = snd (register_publisher p new (en_epoch e) fenced);
             returned = snd (register_publisher p old (en_epoch e) replaced)
         in is_publisher_fenced p old fenced \<and>
            (\<forall>au. au_publisher au = p \<and> au_boot au = old \<and> au_epoch au = en_epoch e \<and>
               authority_valid au \<longrightarrow> outcome_ok (fst (check_authority au returned)))"
proof -
  define k1 where "k1 = known\<lparr>pub_fenced := True\<rparr>"
  define k2 where "k2 = k1\<lparr>pub_boot := new, pub_epoch := en_epoch e, pub_fenced := False\<rparr>"
  define k3 where "k3 = k2\<lparr>pub_boot := old, pub_epoch := en_epoch e, pub_fenced := False\<rparr>"
  define e1 where "e1 = snd (fence_publisher p old e)"
  define e2 where "e2 = snd (register_publisher p new (en_epoch e) e1)"
  define e3 where "e3 = snd (register_publisher p old (en_epoch e) e2)"
  let ?m = "e\<lparr>en_publishers := om_update p k1 (en_publishers e)\<rparr>"
  have pub: "pub_publisher known = p" using assms(1,2) by (simp add: engine_ok_def)
  then have m: "engine_ok ?m" using assms(1,2) by (simp add: engine_ok_register k1_def)
  have "e1 = release_ownership_of p old ?m"
    using assms(2,3,4,6) by (simp add: e1_def fence_publisher_def pub k1_def)
  then have e1: "map_of (en_publishers e1) p = Some k1" "en_epoch e1 = en_epoch e"
    by (simp_all add: release_ownership_of_def release_where_spec [OF m refl])
  have e2: "map_of (en_publishers e2) p = Some k2" "en_epoch e2 = en_epoch e"
    using assms(3,5-10) e1
    by (simp_all add: e2_def register_publisher_def reincarnate_def k2_def, simp_all add: k1_def)
  have e3: "map_of (en_publishers e3) p = Some k3" "en_epoch e3 = en_epoch e"
    using assms(3,5-10) e2
    by (simp_all add: e3_def register_publisher_def reincarnate_def k3_def, simp_all add: k2_def)
  have "is_publisher_fenced p old e1"
    using e1 assms(3) by (simp add: is_publisher_fenced_def k1_def)
  moreover have "outcome_ok (fst (check_authority au e3))"
    if "au_publisher au = p" "au_boot au = old" "au_epoch au = en_epoch e" "authority_valid au" for au
    using that e3 by (simp add: check_authority_admit_iff authority_refusal_None live_incarnation_def k3_def)
  ultimately show ?thesis by (simp add: Let_def e1_def e2_def e3_def)
qed

theorem fenced_boot_regains_authority_witness:
  "is_publisher_fenced ''agent'' ''boot-1'' (snd (fence_publisher ''agent'' ''boot-1'' one_agent))"
  using fenced_boot_regains_authority [OF one_agent_ok, of "''agent''" _ "''boot-1''" "''boot-2''"]
  by (simp add: one_agent_publishers Let_def id_valid_def gen_valid_def)

section \<open>Devices and topology\<close>

text \<open>The branches of \<open>register_device\<close> that return without effect.\<close>

definition device_answer :: "strong_id \<Rightarrow> generation \<Rightarrow> string \<Rightarrow> engine \<Rightarrow> outcome option" where
  "device_answer device g source e =
     (if \<not> id_valid device \<or> \<not> gen_valid g
      then Some (failure OC_MalformedRequest ''the device generation registration is incomplete'')
      else case validate_text source max_name_length of
        Some err \<Rightarrow> Some (failure OC_InvalidText err)
      | None \<Rightarrow>
        (case map_of (en_devices e) device of
           Some known \<Rightarrow>
             if g < dv_generation known
             then Some (failure OC_StaleDeviceGeneration
                     ''the device generation is older than the recorded generation'')
             else if g = dv_generation known
             then Some (current ''the device generation is already recorded'')
             else if cf_device_bound (en_config e) < length (en_devices e)
             then Some (failure OC_ResourceBoundExceeded
                     ''the device table is at its configured bound'')
             else None
         | None \<Rightarrow>
             if cf_device_bound (en_config e) \<le> length (en_devices e)
             then Some (failure OC_ResourceBoundExceeded
                     ''the device table is at its configured bound'')
             else None))"

definition register_device :: "strong_id \<Rightarrow> generation \<Rightarrow> string \<Rightarrow> engine \<Rightarrow> outcome \<times> engine" where
  "register_device device g source e =
     (case device_answer device g source e of
        Some answer \<Rightarrow> (answer, e)
      | None \<Rightarrow>
        (case map_of (en_devices e) device of
           Some known \<Rightarrow>
             (success ''device generation advanced'',
              e\<lparr>en_devices := om_update device
                  (known\<lparr>dv_generation := g, dv_source := source\<rparr>) (en_devices e)\<rparr>)
         | None \<Rightarrow>
             (success ''device generation recorded'',
              e\<lparr>en_devices := om_update device
                  \<lparr>dv_device = device, dv_generation = g, dv_source = source\<rparr> (en_devices e)\<rparr>)))"

definition set_topology_generation :: "generation \<Rightarrow> engine \<Rightarrow> outcome \<times> engine" where
  "set_topology_generation g e =
     (if \<not> gen_valid g then (failure OC_MalformedRequest ''the topology generation is missing'', e)
      else if g < en_topology e
      then (failure OC_StaleTopologyGeneration
              ''the topology generation is older than the recorded generation'', e)
      else if g = en_topology e
      then (current ''the topology generation is already recorded'', e)
      else (success ''topology generation advanced'', e\<lparr>en_topology := g\<rparr>))"

definition device_generation :: "strong_id \<Rightarrow> engine \<Rightarrow> generation option" where
  "device_generation device e = map_option dv_generation (map_of (en_devices e) device)"

definition devices :: "engine \<Rightarrow> device_binding list" where
  "devices e = map snd (en_devices e)"

definition define_profile :: "port_profile \<Rightarrow> engine \<Rightarrow> outcome \<times> engine" where
  "define_profile p e =
     (let (oc, reg) = registry_define p (en_profiles e) in (oc, e\<lparr>en_profiles := reg\<rparr>))"

lemma engine_ok_device:
  assumes "engine_ok e" "dv_device d = i"
  shows "engine_ok (e\<lparr>en_devices := om_update i d (en_devices e)\<rparr>)"
proof -
  have "device_known (e\<lparr>en_devices := om_update i d (en_devices e)\<rparr>) r" if "device_known e r" for r
    using that by (auto simp: device_known_def)
  with assms show ?thesis by (simp add: engine_ok_def om_sorted_update port_of_def)
qed

lemma device_answer_not_ok: "answers (\<lambda>oc. oc_code oc \<noteq> OC_Ok) (device_answer i g s e)"
  unfolding device_answer_def by (intro gate_intros) simp_all

lemma device_answer_newer:
  "device_answer i g s e = None \<Longrightarrow> map_of (en_devices e) i = Some k \<Longrightarrow> dv_generation k < g"
  by (simp add: device_answer_def split: if_splits option.splits)

lemma register_device_state:
  "(oc_code (fst (register_device i g s e)) \<noteq> OC_Ok \<and> snd (register_device i g s e) = e) \<or>
   (oc_code (fst (register_device i g s e)) = OC_Ok \<and>
    (\<exists>d. (\<forall>k. map_of (en_devices e) i = Some k \<longrightarrow> dv_generation k < g) \<and> dv_generation d = g \<and>
       (engine_ok e \<longrightarrow> dv_device d = i) \<and>
       snd (register_device i g s e) = e\<lparr>en_devices := om_update i d (en_devices e)\<rparr>))"
proof (cases "device_answer i g s e")
  case (Some oc)
  then show ?thesis
    using answersD [OF device_answer_not_ok Some] by (simp add: register_device_def)
next
  case None
  then show ?thesis
  proof (cases "map_of (en_devices e) i")
    case new: None
    with None show ?thesis
      by (auto simp: register_device_def
          intro!: exI [of _ "\<lparr>dv_device = i, dv_generation = g, dv_source = s\<rparr>"])
  next
    case (Some k)
    with None device_answer_newer [OF None Some] show ?thesis
      by (auto simp: register_device_def engine_ok_def
          intro!: exI [of _ "k\<lparr>dv_generation := g, dv_source := s\<rparr>"])
  qed
qed

lemma register_device_ok: "engine_ok e \<Longrightarrow> engine_ok (snd (register_device i g s e))"
  using register_device_state [of i g s e] engine_ok_device [of e _ i] by auto

lemma set_topology_state:
  "snd (set_topology_generation g e) = e \<or>
   (en_topology e < g \<and> snd (set_topology_generation g e) = e\<lparr>en_topology := g\<rparr>)"
  by (auto simp: set_topology_generation_def)

lemma set_topology_ok: "engine_ok e \<Longrightarrow> engine_ok (snd (set_topology_generation g e))"
  using set_topology_state [of g e] by (auto simp: engine_ok_frame)

lemma define_profile_state:
  "snd (define_profile p e) = e\<lparr>en_profiles := snd (registry_define p (en_profiles e))\<rparr>"
  by (simp add: define_profile_def split_beta)

lemma define_profile_ok: "engine_ok e \<Longrightarrow> engine_ok (snd (define_profile p e))"
  by (simp add: define_profile_state engine_ok_def registry_define_ok port_of_def device_known_def)

text \<open>
  Device and topology generations never go back: registering a device or setting
  the topology leaves every recorded generation at least what it was, and a registration that
  succeeds makes the new generation, strictly newer than a recorded one, the recorded one.
\<close>

theorem structural_generations_monotone:
  "(\<forall>i known. device_generation i e = Some known \<longrightarrow>
      (\<exists>now. device_generation i (snd (register_device device g s e)) = Some now \<and> known \<le> now)) \<and>
   en_topology e \<le> en_topology (snd (set_topology_generation t e)) \<and>
   (outcome_ok (fst (register_device device g s e)) \<longrightarrow>
      device_generation device (snd (register_device device g s e)) = Some g \<and>
      (\<forall>known. device_generation device e = Some known \<longrightarrow> known < g)) \<and>
   (outcome_ok (fst (set_topology_generation t e)) \<longrightarrow>
      en_topology e < t \<and> en_topology (snd (set_topology_generation t e)) = t)"
proof (intro conjI)
  show "\<forall>i known. device_generation i e = Some known \<longrightarrow>
      (\<exists>now. device_generation i (snd (register_device device g s e)) = Some now \<and> known \<le> now)"
    using register_device_state [of device g s e]
    by (auto simp: device_generation_def simp del: not_None_eq)
  show "en_topology e \<le> en_topology (snd (set_topology_generation t e))"
    using set_topology_state [of t e] by auto
  show "outcome_ok (fst (register_device device g s e)) \<longrightarrow>
      device_generation device (snd (register_device device g s e)) = Some g \<and>
      (\<forall>known. device_generation device e = Some known \<longrightarrow> known < g)"
    using register_device_state [of device g s e]
    by (auto simp: device_generation_def outcome_ok_def)
  show "outcome_ok (fst (set_topology_generation t e)) \<longrightarrow>
      en_topology e < t \<and> en_topology (snd (set_topology_generation t e)) = t"
    by (auto simp: set_topology_generation_def outcome_ok_def not_less)
qed

theorem structural_generations_monotone_witness:
  "device_generation ''leaf'' (snd (register_device ''leaf'' 3 [] one_agent)) = Some 3"
proof -
  have "outcome_ok (fst (register_device ''leaf'' 3 [] one_agent))"
    by (simp add: register_device_def device_answer_def one_agent_def engine_create_def
        register_publisher_def register_fresh_def outcome_ok_def id_valid_def gen_valid_def
        validate_text_def default_config_def config_valid_def max_devices_def max_ports_def
        max_publishers_def)
  with structural_generations_monotone [of one_agent "''leaf''" 3 "[]" 1] show ?thesis by blast
qed

end
