(* ===== verification/Builders.thy ===== *)
theory Builders
  imports Engine_State
begin

text \<open>
  The requests of the mutation API (\<open>include/portfabric/engine.hpp\<close>) and the builders of
  \<open>src/engine_mutation.cpp\<close>: each reads the record the request was validated against and either
  rejects or proposes the next record, together with the generations it observed. All builders
  share one contract, the locale \<open>mutation_builder\<close>, from which the pipeline's safety follows.
\<close>

section \<open>Requests\<close>

record mutation_envelope =
  me_authority :: authority_context
  me_port :: strong_id
  me_provenance_kind :: provenance_kind
  me_provenance_source :: string

record configure_request =
  gq_envelope :: mutation_envelope
  gq_configuration :: port_configuration

record administrative_request =
  aq_envelope :: mutation_envelope
  aq_op :: administrative_op

record profile_request =
  pq_envelope :: mutation_envelope
  pq_profile :: strong_id
  pq_generation :: generation
  pq_release :: bool

record capability_request =
  cq_envelope :: mutation_envelope
  cq_binding :: capability_binding

record reconcile_request =
  rq_envelope :: mutation_envelope
  rq_detail :: string

record fence_request =
  fq_envelope :: mutation_envelope
  fq_detail :: string

record ownership_request =
  oq_envelope :: mutation_envelope
  oq_owner_kind :: port_owner_kind
  oq_owner :: strong_id
  oq_exclusive :: bool
  oq_release :: bool
  oq_delegate_publisher :: strong_id
  oq_delegate_boot :: strong_id

record evidence_request =
  eq_envelope :: mutation_envelope
  eq_evidence :: applied_evidence

record drift_request =
  dq_envelope :: mutation_envelope
  dq_observed :: drift_state
  dq_detail :: string

section \<open>Plans\<close>

record expected_state =
  xs_configuration :: generation
  xs_lifecycle :: generation
  xs_administrative :: generation
  xs_ownership :: generation
  xs_evidence :: generation
  xs_last_attempt :: strong_id

definition no_expectation :: expected_state where
  "no_expectation = \<lparr>xs_configuration = 0, xs_lifecycle = 0, xs_administrative = 0,
     xs_ownership = 0, xs_evidence = 0, xs_last_attempt = []\<rparr>"

definition expected_matches :: "expected_state \<Rightarrow> port_record \<Rightarrow> bool" where
  "expected_matches x r \<longleftrightarrow>
     gv_configuration (pr_generations r) = xs_configuration x \<and>
     gv_lifecycle (pr_generations r) = xs_lifecycle x \<and>
     gv_administrative (pr_generations r) = xs_administrative x \<and>
     gv_ownership (pr_generations r) = xs_ownership x \<and>
     gv_evidence (pr_generations r) = xs_evidence x \<and>
     lm_attempt (pr_last_mutation r) = xs_last_attempt x"

definition expected_to_string :: "expected_state \<Rightarrow> string" where
  "expected_to_string x =
     ''configuration='' @ gen_or_none (xs_configuration x) @
     '' lifecycle='' @ gen_or_none (xs_lifecycle x) @
     '' administrative='' @ gen_or_none (xs_administrative x) @
     '' ownership='' @ gen_or_none (xs_ownership x) @
     '' evidence='' @ gen_or_none (xs_evidence x) @
     '' last_attempt='' @ id_or_none (xs_last_attempt x)"

definition capture_expected :: "port_record \<Rightarrow> expected_state" where
  "capture_expected r =
     \<lparr>xs_configuration = gv_configuration (pr_generations r),
      xs_lifecycle = gv_lifecycle (pr_generations r),
      xs_administrative = gv_administrative (pr_generations r),
      xs_ownership = gv_ownership (pr_generations r),
      xs_evidence = gv_evidence (pr_generations r),
      xs_last_attempt = lm_attempt (pr_last_mutation r)\<rparr>"

lemma expected_matches_capture: "expected_matches (capture_expected r) r"
  by (simp add: expected_matches_def capture_expected_def)

lemma expected_matches_iff: "expected_matches x r \<longleftrightarrow> x = capture_expected r"
  by (cases x) (auto simp: expected_matches_def capture_expected_def)

record build_input =
  bi_current :: port_record
  bi_epoch :: generation
  bi_topology :: generation
  bi_parent_device_generation :: "generation option"
  bi_capability :: capability_binding
  bi_kind :: port_mutation_kind
  bi_profiles :: profile_registry
  bi_config :: engine_config

definition no_configuration :: port_configuration where
  "no_configuration =
     \<lparr>pc_record = [], pc_port = [], pc_parent_device = [], pc_device_generation = 0,
      pc_topology_generation = 0, pc_generation = 0, pc_administrative = Adm_Unknown,
      pc_mode = Mode_Physical, pc_protocol = Proto_Unknown,
      pc_speed = \<lparr>ss_selection = Speed_Auto, ss_rate = 0\<rparr>, pc_duplex = Duplex_Unknown, pc_mtu = 0,
      pc_lanes = no_lanes, pc_breakout = Breakout_None, pc_autoneg = Autoneg_Unknown,
      pc_fec = Fec_Unknown, pc_pause = Pause_Unknown, pc_aggregation = no_aggregation,
      pc_profile = no_profile, pc_role = [], pc_logical_identity = [], pc_derived_from = [],
      pc_child_index = 0, pc_provenance = no_provenance, pc_capability_generation = 0,
      pc_evidence_generation = 0\<rparr>"

record mutation_plan =
  pl_expected :: expected_state
  pl_capability :: capability_binding
  pl_next :: port_record
  pl_configuration_changed :: bool
  pl_requires_capability_validation :: bool
  pl_requires_apply :: bool
  pl_apply_configuration :: port_configuration
  pl_payload :: string
  pl_failure :: outcome_code
  pl_failure_detail :: string
  pl_failure_explanation :: explanation_code

definition empty_plan :: mutation_plan where
  "empty_plan = \<lparr>pl_expected = no_expectation, pl_capability = no_binding, pl_next = empty_record,
     pl_configuration_changed = False, pl_requires_capability_validation = False,
     pl_requires_apply = False, pl_apply_configuration = no_configuration, pl_payload = [],
     pl_failure = OC_Ok, pl_failure_detail = [],
     pl_failure_explanation = EC_RejectedInvalidConfiguration\<rparr>"

type_synonym rejection = "outcome_code \<times> string \<times> explanation_code"

definition reject_plan :: "rejection \<Rightarrow> mutation_plan" where
  "reject_plan r =
     empty_plan\<lparr>pl_failure := fst r, pl_failure_detail := fst (snd r),
                pl_failure_explanation := snd (snd r)\<rparr>"

text \<open>
  \<open>capture_expected(current, plan); plan.next = ...\<close>: an accepting plan before its apply and
  capability requirements are set.
\<close>

definition propose :: "port_record \<Rightarrow> port_record \<Rightarrow> mutation_plan" where
  "propose cur nxt = empty_plan\<lparr>pl_expected := capture_expected cur, pl_next := nxt\<rparr>"

text \<open>
  The plan of a new configuration: validated against \<open>evidence\<close> and applied to the device.
\<close>

definition propose_configuration ::
  "port_record \<Rightarrow> port_record \<Rightarrow> capability_binding \<Rightarrow> port_configuration \<Rightarrow> mutation_plan" where
  "propose_configuration cur nxt evidence c =
     (propose cur nxt)\<lparr>pl_configuration_changed := True,
       pl_requires_capability_validation := True, pl_requires_apply := True,
       pl_capability := evidence, pl_apply_configuration := c\<rparr>"

section \<open>Helpers\<close>

definition make_provenance :: "mutation_envelope \<Rightarrow> provenance_kind \<Rightarrow> provenance" where
  "make_provenance envelope fallback =
     \<lparr>pv_kind = (if me_provenance_kind envelope = PK_Unknown then fallback
                 else me_provenance_kind envelope),
      pv_source = me_provenance_source envelope,
      pv_publisher = au_publisher (me_authority envelope),
      pv_boot = au_boot (me_authority envelope), pv_epoch = au_epoch (me_authority envelope),
      pv_attempt = au_attempt (me_authority envelope)\<rparr>"

definition canonical_payload :: "port_configuration \<Rightarrow> string" where
  "canonical_payload c =
     concat (map (\<lambda>(name, value). name @ ''='' @ value @ '';'')
       (filter (\<lambda>(name, value). name \<noteq> ''provenance_attempt'' \<and> name \<noteq> ''provenance_epoch'' \<and>
          name \<noteq> ''evidence_generation'') (configuration_canonical_fields c)))"

definition configuration_semantically_equal :: "port_configuration \<Rightarrow> port_configuration \<Rightarrow> bool" where
  "configuration_semantically_equal lhs rhs \<longleftrightarrow> canonical_payload lhs = canonical_payload rhs"

definition advance_lifecycle_generation :: "port_record \<Rightarrow> port_record" where
  "advance_lifecycle_generation r =
     r\<lparr>pr_generations := (pr_generations r)\<lparr>gv_lifecycle := gen_advance (gv_lifecycle (pr_generations r))\<rparr>\<rparr>"

definition advance_administrative_generation :: "port_record \<Rightarrow> port_record" where
  "advance_administrative_generation r =
     r\<lparr>pr_generations :=
         (pr_generations r)\<lparr>gv_administrative := gen_advance (gv_administrative (pr_generations r))\<rparr>\<rparr>"

definition advance_configuration_generation :: "port_record \<Rightarrow> port_record" where
  "advance_configuration_generation r =
     r\<lparr>pr_generations :=
         (pr_generations r)\<lparr>gv_configuration := gen_advance (gv_configuration (pr_generations r))\<rparr>\<rparr>"

definition advance_ownership_generation :: "port_record \<Rightarrow> port_record" where
  "advance_ownership_generation r =
     r\<lparr>pr_generations := (pr_generations r)\<lparr>gv_ownership := gen_advance (gv_ownership (pr_generations r))\<rparr>\<rparr>"

definition advance_evidence_generation :: "port_record \<Rightarrow> port_record" where
  "advance_evidence_generation r =
     r\<lparr>pr_generations := (pr_generations r)\<lparr>gv_evidence := gen_advance (gv_evidence (pr_generations r))\<rparr>\<rparr>"

lemmas advance_defs = advance_lifecycle_generation_def advance_administrative_generation_def
  advance_configuration_generation_def advance_ownership_generation_def
  advance_evidence_generation_def

fun rejection_for_fenced_state :: "port_lifecycle \<Rightarrow> outcome_code" where
  "rejection_for_fenced_state LC_Retired = OC_PortRetired"
| "rejection_for_fenced_state LC_Superseded = OC_PortSuperseded"
| "rejection_for_fenced_state LC_RevalidationRequired = OC_RevalidationRequired"
| "rejection_for_fenced_state LC_Conflicted = OC_ConflictDetected"
| "rejection_for_fenced_state _ = OC_InvalidLifecycleTransition"

fun explanation_for_fenced_state :: "port_lifecycle \<Rightarrow> explanation_code" where
  "explanation_for_fenced_state LC_Retired = EC_RejectedPortRetired"
| "explanation_for_fenced_state LC_Superseded = EC_RejectedPortSuperseded"
| "explanation_for_fenced_state LC_RevalidationRequired = EC_RejectedRevalidationRequired"
| "explanation_for_fenced_state LC_Conflicted = EC_RejectedConflictDetected"
| "explanation_for_fenced_state _ = EC_RejectedInvalidLifecycleTransition"

text \<open>
  \<open>*input.parent_device_generation\<close>. On an empty option the read is undefined behaviour; the
  model gives it the null generation, and the invariant \<open>device_known\<close> shows that no builder
  reaches the read in that case.
\<close>

definition device_read :: "build_input \<Rightarrow> generation" where
  "device_read inp = (case bi_parent_device_generation inp of None \<Rightarrow> 0 | Some g \<Rightarrow> g)"

definition profile_defined :: "build_input \<Rightarrow> profile_binding \<Rightarrow> bool" where
  "profile_defined inp b \<longleftrightarrow> registry_get (pb_id b) (pb_generation b) (bi_profiles inp) \<noteq> None"

definition fresh_applied :: "generation \<Rightarrow> applied_evidence" where
  "fresh_applied g = no_applied\<lparr>ae_generation := g\<rparr>"

section \<open>First configuration\<close>

text \<open>The configuration as the builder completes it before validating it.\<close>

definition configure_candidate :: "build_input \<Rightarrow> configure_request \<Rightarrow> port_configuration" where
  "configure_candidate inp req =
     (let cur = bi_current inp; c = gq_configuration req
      in c\<lparr>pc_port := pr_port cur, pc_parent_device := pr_parent_device cur,
           pc_device_generation := device_read inp, pc_topology_generation := bi_topology inp,
           pc_generation := 1,
           pc_record := (if id_valid (pc_record c) then pc_record c
                         else id_from_validated (compose_identifier ''cfg'' (pr_port cur) 1)),
           pc_administrative := (if pc_administrative c = Adm_Unknown then Adm_Enabled
                                 else pc_administrative c),
           pc_capability_generation := cb_generation (bi_capability inp),
           pc_evidence_generation := gv_evidence (pr_generations cur),
           pc_provenance := make_provenance (gq_envelope req) PK_Operator\<rparr>)"

definition configure_refusal :: "build_input \<Rightarrow> configure_request \<Rightarrow> rejection option" where
  "configure_refusal inp req =
     (let cur = bi_current inp; c = gq_configuration req; d = configure_candidate inp req
      in if pr_lifecycle cur \<noteq> LC_Unconfigured
      then Some (rejection_for_fenced_state (pr_lifecycle cur),
             ''the port already carries a committed configuration generation'',
             explanation_for_fenced_state (pr_lifecycle cur))
      else if bi_parent_device_generation inp = None
      then Some (OC_UnknownDevice, ''the parent device generation is not recorded by this runtime'',
             EC_RejectedUnknownPort)
      else if \<not> cb_present (bi_capability inp)
      then Some (OC_CapabilityUnavailable, ''no capability evidence is available for this port'',
             EC_RejectedCapabilityUnavailable)
      else if id_valid (pc_port c) \<and> pc_port c \<noteq> pr_port cur
      then Some (OC_WrongEntityClass, ''the configuration addresses a different port identity'',
             EC_RejectedWrongEntityClass)
      else if id_valid (pc_parent_device c) \<and> pc_parent_device c \<noteq> pr_parent_device cur
      then Some (OC_WrongEntityClass, ''the configuration names a different parent device'',
             EC_RejectedWrongEntityClass)
      else if \<not> id_valid (pc_record d)
      then Some (OC_MalformedRequest, ''the configuration record identity is malformed'',
             EC_RejectedMalformedRequest)
      else if pc_administrative d = Adm_RevalidationRequired
      then Some (OC_InvalidConfiguration,
             ''a first configuration generation cannot be committed in REVALIDATION_REQUIRED state'',
             EC_RejectedInvalidConfiguration)
      else if pb_bound (pc_profile d) \<and> \<not> profile_defined inp (pc_profile d)
      then Some (OC_UnknownProfile,
             ''the configuration binds a profile generation that is not defined'',
             EC_RejectedUnknownProfile)
      else case configuration_validate d of
        Some err \<Rightarrow> Some (OC_InvalidConfiguration, err, EC_RejectedInvalidConfiguration)
      | None \<Rightarrow> None)"

definition build_configure :: "configure_request \<Rightarrow> build_input \<Rightarrow> mutation_plan" where
  "build_configure req inp =
     (case configure_refusal inp req of
        Some r \<Rightarrow> reject_plan r
      | None \<Rightarrow>
        (let cur = bi_current inp; c = configure_candidate inp req;
             nxt = cur\<lparr>pr_configuration := Some c, pr_lifecycle := LC_Configured\<rparr>;
             nxt = advance_configuration_generation nxt;
             nxt = advance_administrative_generation nxt;
             nxt = advance_lifecycle_generation nxt;
             nxt = nxt\<lparr>pr_status_reason := ''CONFIGURED'', pr_status_detail := [],
                      pr_drift := Drift_Unknown, pr_applied := fresh_applied (pc_generation c)\<rparr>
         in propose_configuration cur nxt (bi_capability inp) c))"

section \<open>Reconfiguration\<close>

definition reconfigure_candidate ::
  "build_input \<Rightarrow> configure_request \<Rightarrow> port_configuration \<Rightarrow> port_configuration" where
  "reconfigure_candidate inp req old =
     (let cur = bi_current inp; c = gq_configuration req
      in c\<lparr>pc_port := pr_port cur, pc_parent_device := pr_parent_device cur,
           pc_device_generation := device_read inp, pc_topology_generation := bi_topology inp,
           pc_record := pc_record old, pc_generation := gv_configuration (pr_generations cur),
           pc_administrative := (if pc_administrative c = Adm_Unknown then pc_administrative old
                                 else pc_administrative c),
           pc_capability_generation := cb_generation (bi_capability inp),
           pc_evidence_generation := gv_evidence (pr_generations cur),
           pc_provenance := make_provenance (gq_envelope req) PK_Operator\<rparr>)"

definition reconfigure_refusal ::
  "build_input \<Rightarrow> configure_request \<Rightarrow> port_configuration \<Rightarrow> rejection option" where
  "reconfigure_refusal inp req old =
     (let cur = bi_current inp; c = gq_configuration req; d = reconfigure_candidate inp req old
      in if \<not> is_live (pr_lifecycle cur)
      then Some (rejection_for_fenced_state (pr_lifecycle cur),
             ''the port is fenced and must be reconciled before further configuration'',
             explanation_for_fenced_state (pr_lifecycle cur))
      else if \<not> cb_present (bi_capability inp)
      then Some (OC_CapabilityUnavailable, ''no capability evidence is available for this port'',
             EC_RejectedCapabilityUnavailable)
      else if id_valid (pc_port c) \<and> pc_port c \<noteq> pr_port cur
      then Some (OC_WrongEntityClass, ''the configuration addresses a different port identity'',
             EC_RejectedWrongEntityClass)
      else if pc_administrative d \<noteq> pc_administrative old
      then Some (OC_InvalidConfiguration,
             ''administrative state is changed through the administrative operation, not through reconfiguration'',
             EC_RejectedInvalidConfiguration)
      else if pb_bound (pc_profile d) \<and> \<not> profile_defined inp (pc_profile d)
      then Some (OC_UnknownProfile,
             ''the configuration binds a profile generation that is not defined'',
             EC_RejectedUnknownProfile)
      else case configuration_validate d of
        Some err \<Rightarrow> Some (OC_InvalidConfiguration, err, EC_RejectedInvalidConfiguration)
      | None \<Rightarrow>
        if configuration_semantically_equal old d \<and> pc_profile d = pc_profile old
        then Some (OC_AlreadyCurrent,
               ''the submitted configuration is semantically identical to the committed generation'',
               EC_AlreadyCurrent)
        else None)"

definition build_reconfigure :: "configure_request \<Rightarrow> build_input \<Rightarrow> mutation_plan" where
  "build_reconfigure req inp =
     (case pr_configuration (bi_current inp) of
        None \<Rightarrow> reject_plan (OC_InvalidLifecycleTransition,
                  ''the port has no committed configuration generation to replace'',
                  EC_RejectedInvalidLifecycleTransition)
      | Some old \<Rightarrow>
        (case reconfigure_refusal inp req old of
           Some r \<Rightarrow> reject_plan r
         | None \<Rightarrow>
           (let cur = bi_current inp;
                nxt = advance_configuration_generation cur;
                c = (reconfigure_candidate inp req old)
                      \<lparr>pc_generation := gv_configuration (pr_generations nxt)\<rparr>;
                nxt = nxt\<lparr>pr_configuration := Some c\<rparr>;
                nxt = advance_lifecycle_generation nxt;
                nxt = nxt\<lparr>pr_status_reason := ''RECONFIGURED'', pr_status_detail := [],
                         pr_applied := fresh_applied (pc_generation c)\<rparr>
            in propose_configuration cur nxt (bi_capability inp) c)))"

section \<open>Administrative state\<close>

definition administrative_refusal ::
  "build_input \<Rightarrow> administrative_request \<Rightarrow> port_configuration \<Rightarrow> rejection option" where
  "administrative_refusal inp req old =
     (let cur = bi_current inp;
          evaluation = evaluate_transition (pr_lifecycle cur) (lifecycle_transition_for (aq_op req))
      in if \<not> is_live (pr_lifecycle cur)
      then Some (rejection_for_fenced_state (pr_lifecycle cur),
             ''the port is fenced and must be reconciled before its administrative state changes'',
             explanation_for_fenced_state (pr_lifecycle cur))
      else if \<not> te_allowed evaluation
      then Some (OC_InvalidLifecycleTransition,
             ''the lifecycle transition is not defined: '' @ te_reason evaluation,
             EC_RejectedInvalidLifecycleTransition)
      else if pc_administrative old = administrative_target (aq_op req) \<and>
              pr_lifecycle cur = te_result evaluation
      then Some (OC_AlreadyCurrent, ''the requested administrative state already holds'',
             EC_AlreadyCurrent)
      else None)"

definition build_administrative :: "administrative_request \<Rightarrow> build_input \<Rightarrow> mutation_plan" where
  "build_administrative req inp =
     (if \<not> is_valid_administrative_op (aq_op req)
      then reject_plan (OC_MalformedRequest, ''the administrative operation is not a legal value'',
             EC_RejectedMalformedRequest)
      else case pr_configuration (bi_current inp) of
        None \<Rightarrow> reject_plan (OC_InvalidLifecycleTransition,
                  ''administrative state requires a committed configuration generation'',
                  EC_RejectedInvalidLifecycleTransition)
      | Some old \<Rightarrow>
        (case administrative_refusal inp req old of
           Some r \<Rightarrow> reject_plan r
         | None \<Rightarrow>
           (let cur = bi_current inp;
                target = administrative_target (aq_op req);
                c = old\<lparr>pc_administrative := target,
                        pc_provenance := make_provenance (aq_envelope req) PK_Operator\<rparr>;
                nxt = cur\<lparr>pr_configuration := Some c,
                          pr_lifecycle := te_result (evaluate_transition (pr_lifecycle cur)
                            (lifecycle_transition_for (aq_op req)))\<rparr>;
                nxt = advance_administrative_generation nxt;
                nxt = advance_lifecycle_generation nxt;
                nxt = nxt\<lparr>pr_status_reason := ''ADMINISTRATIVE_'' @ administrative_op_to_string (aq_op req),
                         pr_status_detail := []\<rparr>;
                nxt = (if target = Adm_RevalidationRequired
                       then nxt\<lparr>pr_drift := Drift_RevalidationRequired\<rparr> else nxt)
            in (propose cur nxt)\<lparr>pl_requires_apply := aq_op req \<noteq> Op_RequireRevalidation,
                                 pl_apply_configuration := c\<rparr>)))"

section \<open>Profiles\<close>

text \<open>The profile edit: the released or assigned binding, or the rejection of the request.\<close>

definition profile_edit ::
  "build_input \<Rightarrow> profile_request \<Rightarrow> port_configuration \<Rightarrow> rejection + port_configuration" where
  "profile_edit inp req old =
     (if pq_release req
      then (if \<not> pb_bound (pc_profile old)
            then Inl (OC_AlreadyCurrent, ''no profile is bound to this port'', EC_AlreadyCurrent)
            else Inr (old\<lparr>pc_profile := no_profile\<rparr>))
      else case registry_get (pq_profile req) (pq_generation req) (bi_profiles inp) of
        None \<Rightarrow> Inl (OC_UnknownProfile, ''the requested profile generation is not defined'',
                   EC_RejectedUnknownProfile)
      | Some profile \<Rightarrow>
          Inr ((apply_profile (pp_configuration profile) old)
                 \<lparr>pc_profile := \<lparr>pb_bound = True, pb_id = pq_profile req,
                                pb_generation = pq_generation req\<rparr>\<rparr>))"

definition assign_candidate ::
  "build_input \<Rightarrow> profile_request \<Rightarrow> port_configuration \<Rightarrow> port_configuration" where
  "assign_candidate inp req edited =
     (let cur = bi_current inp
      in edited\<lparr>pc_port := pr_port cur, pc_parent_device := pr_parent_device cur,
           pc_device_generation := device_read inp, pc_topology_generation := bi_topology inp,
           pc_capability_generation :=
             (if cb_present (bi_capability inp) then cb_generation (bi_capability inp)
              else gv_capability (pr_generations cur)),
           pc_provenance := make_provenance (pq_envelope req) PK_Operator\<rparr>)"

definition assign_refusal :: "port_configuration \<Rightarrow> port_configuration \<Rightarrow> rejection option" where
  "assign_refusal old d =
     (case configuration_validate d of
        Some err \<Rightarrow> Some (OC_InvalidProfile, err, EC_RejectedInvalidProfile)
      | None \<Rightarrow>
        if configuration_semantically_equal old d
        then Some (OC_AlreadyCurrent,
               ''the profile assignment does not change the committed configuration'',
               EC_AlreadyCurrent)
        else None)"

definition build_assign_profile :: "profile_request \<Rightarrow> build_input \<Rightarrow> mutation_plan" where
  "build_assign_profile req inp =
     (let cur = bi_current inp
      in case pr_configuration cur of
        None \<Rightarrow> reject_plan (OC_InvalidLifecycleTransition,
                  ''a profile can only be assigned to a configured port'',
                  EC_RejectedInvalidLifecycleTransition)
      | Some old \<Rightarrow>
        if \<not> is_live (pr_lifecycle cur)
        then reject_plan (rejection_for_fenced_state (pr_lifecycle cur),
               ''the port is fenced and must be reconciled before profiles are assigned'',
               explanation_for_fenced_state (pr_lifecycle cur))
        else case profile_edit inp req old of
          Inl r \<Rightarrow> reject_plan r
        | Inr edited \<Rightarrow>
          (case assign_refusal old (assign_candidate inp req edited) of
             Some r \<Rightarrow> reject_plan r
           | None \<Rightarrow>
             (let nxt = advance_configuration_generation cur;
                  c = (assign_candidate inp req edited)
                        \<lparr>pc_generation := gv_configuration (pr_generations nxt)\<rparr>;
                  nxt = nxt\<lparr>pr_configuration := Some c\<rparr>;
                  nxt = advance_lifecycle_generation nxt;
                  nxt = nxt\<lparr>pr_status_reason := (if pq_release req then ''PROFILE_RELEASED''
                                                else ''PROFILE_ASSIGNED''),
                           pr_status_detail := [],
                           pr_applied := fresh_applied (pc_generation c)\<rparr>
              in propose_configuration cur nxt (bi_capability inp) c)))"

section \<open>Capability evidence\<close>

definition capability_refusal :: "build_input \<Rightarrow> capability_binding \<Rightarrow> rejection option" where
  "capability_refusal inp binding =
     (let bound = pr_capability (bi_current inp)
      in if \<not> cb_present binding \<or> \<not> gen_valid (cb_generation binding) \<or>
            \<not> gen_valid (cb_evidence_generation binding)
      then Some (OC_MalformedRequest,
             ''the capability binding is incomplete (generation and evidence generation are required)'',
             EC_RejectedMalformedRequest)
      else case capabilities_validate (cb_capabilities binding) of
        Some err \<Rightarrow> Some (OC_CapabilityUnavailable, err, EC_RejectedCapabilityUnavailable)
      | None \<Rightarrow>
        if cb_present bound \<and> cb_generation binding < cb_generation bound
        then Some (OC_StaleCapabilityGeneration,
               ''the supplied capability generation is older than the bound generation'',
               EC_RejectedStaleCapabilityGeneration)
        else if cb_present bound \<and> cb_generation binding = cb_generation bound
        then (if digest_bytes (capabilities_to_string (cb_capabilities binding)) =
                 digest_bytes (capabilities_to_string (cb_capabilities bound))
              then Some (OC_AlreadyCurrent,
                     ''the capability generation is already bound with identical evidence'',
                     EC_AlreadyCurrent)
              else Some (OC_ConflictDetected,
                     ''the capability generation is already bound with different evidence'',
                     EC_RejectedConflictDetected))
        else None)"

definition build_bind_capabilities :: "capability_request \<Rightarrow> build_input \<Rightarrow> mutation_plan" where
  "build_bind_capabilities req inp =
     (let cur = bi_current inp; binding = cq_binding req
      in case capability_refusal inp binding of
        Some r \<Rightarrow> reject_plan r
      | None \<Rightarrow>
        (let nxt = cur\<lparr>pr_capability := binding,
                      pr_generations := (pr_generations cur)
                        \<lparr>gv_capability := cb_generation binding,
                         gv_evidence := cb_evidence_generation binding\<rparr>,
                      pr_status_reason := ''CAPABILITY_BOUND'', pr_status_detail := []\<rparr>
         in case pr_configuration nxt of
              None \<Rightarrow> propose cur nxt
            | Some c \<Rightarrow>
              (let verdict = validate_against_capabilities c binding
               in if \<not> cv_accepted verdict
                  then propose cur (advance_lifecycle_generation
                    (nxt\<lparr>pr_lifecycle := LC_RevalidationRequired,
                        pr_drift := Drift_RevalidationRequired,
                        pr_status_reason := ''CAPABILITY_INVALIDATED'',
                        pr_status_detail := cv_reason verdict @ '': '' @ cv_detail verdict\<rparr>))
                  else propose cur (nxt\<lparr>pr_drift := Drift_Unknown\<rparr>))))"

section \<open>Reconciliation\<close>

definition reconcile_candidate ::
  "build_input \<Rightarrow> reconcile_request \<Rightarrow> port_configuration \<Rightarrow> port_configuration" where
  "reconcile_candidate inp req old =
     old\<lparr>pc_device_generation := device_read inp, pc_topology_generation := bi_topology inp,
         pc_capability_generation := cb_generation (bi_capability inp),
         pc_provenance := make_provenance (rq_envelope req) PK_Reconciliation\<rparr>"

definition rebinding :: "port_configuration \<Rightarrow> port_configuration \<Rightarrow> bool" where
  "rebinding old d \<longleftrightarrow>
     pc_device_generation d \<noteq> pc_device_generation old \<or>
     pc_topology_generation d \<noteq> pc_topology_generation old \<or>
     pc_capability_generation d \<noteq> pc_capability_generation old"

definition reconcile_refusal ::
  "build_input \<Rightarrow> reconcile_request \<Rightarrow> port_configuration \<Rightarrow> rejection option" where
  "reconcile_refusal inp req old =
     (let cur = bi_current inp; d = reconcile_candidate inp req old
      in if bi_parent_device_generation inp = None
      then Some (OC_UnknownDevice, ''the parent device generation is not recorded by this runtime'',
             EC_RejectedUnknownPort)
      else if \<not> cb_present (bi_capability inp)
      then Some (OC_CapabilityUnavailable, ''no capability evidence is available for this port'',
             EC_RejectedCapabilityUnavailable)
      else if pb_bound (pc_profile d) \<and> \<not> profile_defined inp (pc_profile d)
      then Some (OC_UnknownProfile, ''the bound profile generation is no longer defined'',
             EC_RejectedUnknownProfile)
      else case configuration_validate d of
        Some err \<Rightarrow> Some (OC_InvalidConfiguration, err, EC_RejectedInvalidConfiguration)
      | None \<Rightarrow>
        if \<not> requires_reconciliation (pr_lifecycle cur) \<and> pr_drift cur \<noteq> Drift_Drifted \<and>
           pr_drift cur \<noteq> Drift_RevalidationRequired \<and> \<not> rebinding old d
        then Some (OC_AlreadyCurrent, ''the port is already bound to the current generations'',
               EC_AlreadyCurrent)
        else None)"

definition build_reconcile :: "reconcile_request \<Rightarrow> build_input \<Rightarrow> mutation_plan" where
  "build_reconcile req inp =
     (case pr_configuration (bi_current inp) of
        None \<Rightarrow> reject_plan (OC_InvalidLifecycleTransition,
                  ''there is no configuration generation to reconcile'',
                  EC_RejectedInvalidLifecycleTransition)
      | Some old \<Rightarrow>
        (case reconcile_refusal inp req old of
           Some r \<Rightarrow> reject_plan r
         | None \<Rightarrow>
           (let cur = bi_current inp;
                nxt = advance_configuration_generation cur;
                c = (reconcile_candidate inp req old)
                      \<lparr>pc_generation := gv_configuration (pr_generations nxt),
                       pc_evidence_generation := gv_evidence (pr_generations nxt)\<rparr>;
                nxt = nxt\<lparr>pr_configuration := Some c, pr_lifecycle := LC_Configured\<rparr>;
                nxt = advance_lifecycle_generation nxt;
                nxt = nxt\<lparr>pr_drift := Drift_Unknown, pr_status_reason := ''RECONCILED'',
                         pr_status_detail := rq_detail req,
                         pr_applied := fresh_applied (pc_generation c)\<rparr>
            in propose_configuration cur nxt (bi_capability inp) c)))"

section \<open>Supersede and retire\<close>

definition build_fence :: "fence_request \<Rightarrow> bool \<Rightarrow> build_input \<Rightarrow> mutation_plan" where
  "build_fence req retire inp =
     (let cur = bi_current inp;
          evaluation = evaluate_transition (pr_lifecycle cur)
            (if retire then LT_Retire else LT_Supersede)
      in if \<not> te_allowed evaluation
      then (if te_reason evaluation = ''ALREADY_SUPERSEDED''
            then reject_plan (OC_AlreadyCurrent,
                   ''the port configuration is already superseded'', EC_AlreadyCurrent)
            else reject_plan (rejection_for_fenced_state (pr_lifecycle cur),
                   ''the lifecycle transition is not defined: '' @ te_reason evaluation,
                   explanation_for_fenced_state (pr_lifecycle cur)))
      else let nxt = advance_lifecycle_generation (cur\<lparr>pr_lifecycle := te_result evaluation\<rparr>);
               nxt = nxt\<lparr>pr_status_reason := (if retire then ''RETIRED'' else ''SUPERSEDED''),
                        pr_status_detail := fq_detail req,
                        pr_applied := (pr_applied nxt)\<lparr>ae_verified := False\<rparr>\<rparr>;
               nxt = (if retire \<and> pr_ownership nxt \<noteq> None
                      then (advance_ownership_generation nxt)\<lparr>pr_ownership := None\<rparr>
                      else nxt)
           in propose cur nxt)"

section \<open>Ownership\<close>

definition owner_incomplete :: "ownership_request \<Rightarrow> bool" where
  "owner_incomplete req \<longleftrightarrow>
     \<not> is_valid_port_owner_kind (oq_owner_kind req) \<or> oq_owner_kind req = Owner_Unknown \<or>
     \<not> id_valid (oq_owner req)"

definition caller_holds :: "ownership_request \<Rightarrow> port_ownership \<Rightarrow> bool" where
  "caller_holds req w \<longleftrightarrow>
     held_by w (au_publisher (me_authority (oq_envelope req)))
       (au_boot (me_authority (oq_envelope req))) (au_epoch (me_authority (oq_envelope req)))"

definition claim_refusal :: "build_input \<Rightarrow> ownership_request \<Rightarrow> rejection option" where
  "claim_refusal inp req =
     (let held = pr_ownership (bi_current inp);
          incomplete =
            (if owner_incomplete req
             then Some (OC_MalformedRequest,
                    ''an ownership claim requires an owner kind and an owner identity'',
                    EC_RejectedMalformedRequest)
             else None)
      in case held of
           None \<Rightarrow> incomplete
         | Some w \<Rightarrow>
             if caller_holds req w
             then Some (OC_AlreadyCurrent,
                    ''this process incarnation already holds ownership of the port'',
                    EC_AlreadyCurrent)
             else if ow_exclusive w
             then Some (OC_OwnershipConflict,
                    ''the port is owned exclusively by another authority'',
                    EC_RejectedOwnershipConflict)
             else incomplete)"

definition holder_refusal ::
  "build_input \<Rightarrow> ownership_request \<Rightarrow> port_mutation_kind \<Rightarrow> rejection option" where
  "holder_refusal inp req kind =
     (case pr_ownership (bi_current inp) of
        None \<Rightarrow>
          if kind = MK_ReleaseOwnership
          then Some (OC_AlreadyCurrent, ''the port is not owned'', EC_AlreadyCurrent)
          else Some (OC_UnknownOwnership, ''the port is not owned and cannot be transferred'',
                 EC_RejectedUnauthorizedOwner)
      | Some w \<Rightarrow>
          if \<not> caller_holds req w
          then Some (OC_UnauthorizedOwner, ''the caller does not hold ownership of the port'',
                 EC_RejectedUnauthorizedOwner)
          else if kind = MK_TransferOwnership \<and> owner_incomplete req
          then Some (OC_MalformedRequest,
                 ''an ownership transfer requires an owner kind and an owner identity'',
                 EC_RejectedMalformedRequest)
          else None)"

definition delegates :: "ownership_request \<Rightarrow> bool" where
  "delegates req \<longleftrightarrow> id_valid (oq_delegate_publisher req) \<or> id_valid (oq_delegate_boot req)"

definition delegate_refusal :: "ownership_request \<Rightarrow> port_mutation_kind \<Rightarrow> rejection option" where
  "delegate_refusal req kind =
     (if delegates req \<and>
         (\<not> id_valid (oq_delegate_publisher req) \<or> \<not> id_valid (oq_delegate_boot req))
      then Some (OC_MalformedRequest,
             ''a delegated transfer requires both the receiving publisher and its worker boot'',
             EC_RejectedMalformedRequest)
      else if delegates req \<and> kind \<noteq> MK_TransferOwnership
      then Some (OC_MalformedRequest,
             ''only an ownership transfer can name a receiving process incarnation'',
             EC_RejectedMalformedRequest)
      else None)"

definition granted_ownership :: "ownership_request \<Rightarrow> strong_id \<Rightarrow> generation \<Rightarrow> port_ownership" where
  "granted_ownership req port g =
     \<lparr>ow_id = id_from_validated (compose_identifier ''own'' port g),
      ow_kind = oq_owner_kind req, ow_owner = oq_owner req, ow_generation = g,
      ow_publisher = (if delegates req then oq_delegate_publisher req
                      else au_publisher (me_authority (oq_envelope req))),
      ow_boot = (if delegates req then oq_delegate_boot req
                 else au_boot (me_authority (oq_envelope req))),
      ow_epoch = au_epoch (me_authority (oq_envelope req)), ow_exclusive = oq_exclusive req\<rparr>"

definition build_ownership ::
  "ownership_request \<Rightarrow> port_mutation_kind \<Rightarrow> build_input \<Rightarrow> mutation_plan" where
  "build_ownership req kind inp =
     (case (if kind = MK_ClaimOwnership then claim_refusal inp req
            else holder_refusal inp req kind) of
        Some r \<Rightarrow> reject_plan r
      | None \<Rightarrow>
        (let cur = bi_current inp; nxt = advance_ownership_generation cur
         in if kind = MK_ReleaseOwnership
            then propose cur
              (nxt\<lparr>pr_ownership := None, pr_status_reason := ''OWNERSHIP_RELEASED'',
                  pr_status_detail := me_provenance_source (oq_envelope req)\<rparr>)
            else case delegate_refusal req kind of
              Some r \<Rightarrow> reject_plan r
            | None \<Rightarrow>
              (let w = granted_ownership req (pr_port cur) (gv_ownership (pr_generations nxt))
               in propose cur
                 (nxt\<lparr>pr_ownership := Some w,
                     pr_status_reason := (if kind = MK_TransferOwnership
                                          then ''OWNERSHIP_TRANSFERRED'' else ''OWNERSHIP_CLAIMED''),
                     pr_status_detail := ow_owner w\<rparr>))))"

section \<open>Evidence and drift\<close>

definition evidence_refusal :: "build_input \<Rightarrow> applied_evidence \<Rightarrow> rejection option" where
  "evidence_refusal inp ev =
     (let cur = bi_current inp
      in if \<not> is_valid_applied_outcome (ae_outcome ev)
      then Some (OC_MalformedRequest, ''the applied outcome is not a legal value'',
             EC_RejectedMalformedRequest)
      else if pr_configuration cur = None
      then Some (OC_InvalidLifecycleTransition,
             ''applied evidence requires a committed configuration generation'',
             EC_RejectedInvalidLifecycleTransition)
      else if ae_generation ev \<noteq> gv_configuration (pr_generations cur)
      then Some (OC_StaleConfigurationGeneration,
             ''the applied evidence describes a configuration generation that is not current'',
             EC_RejectedStaleConfigurationGeneration)
      else if ae_outcome (pr_applied cur) = ae_outcome ev \<and>
              ae_verified (pr_applied cur) = ae_verified ev \<and>
              ae_generation (pr_applied cur) = ae_generation ev
      then Some (OC_AlreadyCurrent, ''the applied evidence is already recorded'', EC_AlreadyCurrent)
      else None)"

definition build_applied_evidence :: "evidence_request \<Rightarrow> build_input \<Rightarrow> mutation_plan" where
  "build_applied_evidence req inp =
     (let cur = bi_current inp; ev = eq_evidence req
      in case evidence_refusal inp ev of
        Some r \<Rightarrow> reject_plan r
      | None \<Rightarrow>
        (let nxt = advance_evidence_generation (cur\<lparr>pr_applied := ev\<rparr>);
             nxt = nxt\<lparr>pr_applied := ev\<lparr>ae_evidence_generation := gv_evidence (pr_generations nxt)\<rparr>\<rparr>;
             nxt = (case ae_outcome ev of
                      Applied_Verified \<Rightarrow>
                        nxt\<lparr>pr_drift := Drift_InSync, pr_status_reason := ''APPLIED_VERIFIED''\<rparr>
                    | Applied_ApplyFailed \<Rightarrow>
                        nxt\<lparr>pr_drift := Drift_Drifted, pr_status_reason := ''APPLY_FAILED''\<rparr>
                    | Applied_OutcomeUnknown \<Rightarrow>
                        (let nxt = nxt\<lparr>pr_drift := Drift_RevalidationRequired\<rparr>;
                             nxt = (if is_live (pr_lifecycle nxt)
                                    then advance_lifecycle_generation
                                           (nxt\<lparr>pr_lifecycle := LC_RevalidationRequired\<rparr>)
                                    else nxt)
                         in nxt\<lparr>pr_status_reason := ''APPLY_OUTCOME_UNKNOWN''\<rparr>)
                    | Applied_Applied \<Rightarrow>
                        nxt\<lparr>pr_drift := Drift_Unknown, pr_status_reason := ''APPLIED''\<rparr>
                    | _ \<Rightarrow>
                        nxt\<lparr>pr_drift := Drift_Unknown,
                           pr_status_reason := ''APPLIED_NOT_ATTEMPTED''\<rparr>)
         in propose cur (nxt\<lparr>pr_status_detail := ae_source ev\<rparr>)))"

definition drift_lifecycle :: "drift_state \<Rightarrow> port_record \<Rightarrow> port_record" where
  "drift_lifecycle observed nxt =
     (if observed = Drift_RevalidationRequired \<and> pr_lifecycle nxt \<noteq> LC_Retired
      then (if is_live (pr_lifecycle nxt)
            then advance_lifecycle_generation (nxt\<lparr>pr_lifecycle := LC_RevalidationRequired\<rparr>)
            else nxt)
      else if observed = Drift_Conflicted \<and> pr_lifecycle nxt \<noteq> LC_Retired
      then (let evaluation = evaluate_transition (pr_lifecycle nxt) LT_Conflict
            in if te_allowed evaluation
               then advance_lifecycle_generation (nxt\<lparr>pr_lifecycle := te_result evaluation\<rparr>)
               else nxt)
      else nxt)"

definition build_drift :: "drift_request \<Rightarrow> build_input \<Rightarrow> mutation_plan" where
  "build_drift req inp =
     (let cur = bi_current inp
      in if \<not> is_valid_drift_state (dq_observed req)
      then reject_plan (OC_MalformedRequest, ''the observed drift state is not a legal value'',
             EC_RejectedMalformedRequest)
      else if pr_drift cur = dq_observed req
      then reject_plan (OC_AlreadyCurrent, ''the observed drift state is already recorded'',
             EC_AlreadyCurrent)
      else let nxt = cur\<lparr>pr_drift := dq_observed req,
                        pr_status_reason := ''DRIFT_'' @ drift_state_to_string (dq_observed req),
                        pr_status_detail := dq_detail req\<rparr>;
               nxt = drift_lifecycle (dq_observed req) nxt;
               nxt = (if dq_observed req = Drift_InSync
                      then nxt\<lparr>pr_applied := (pr_applied nxt)\<lparr>ae_verified := True\<rparr>\<rparr> else nxt)
           in propose cur nxt)"

section \<open>The contract of a builder\<close>

text \<open>What every generation but the evidence and capability generations does: it never goes back.\<close>

definition generations_advance :: "generation_vector \<Rightarrow> generation_vector \<Rightarrow> bool" where
  "generations_advance g h \<longleftrightarrow>
     gv_configuration g \<le> gv_configuration h \<and> gv_administrative g \<le> gv_administrative h \<and>
     gv_ownership g \<le> gv_ownership h \<and> gv_lifecycle g \<le> gv_lifecycle h \<and>
     gv_topology h = gv_topology g \<and> gv_device h = gv_device g"

definition lifecycle_change :: "port_lifecycle \<Rightarrow> port_lifecycle \<Rightarrow> bool" where
  "lifecycle_change s t \<longleftrightarrow>
     t = s \<or> (\<exists>tr. lifecycle_arrow s tr t) \<or>
     (s \<notin> {LC_Unconfigured, LC_Retired} \<and> t \<in> {LC_Configured, LC_RevalidationRequired})"

text \<open>
  What a builder promises when it accepts: it compares against the record it was given, it
  keeps the identity of the port, it moves the lifecycle along the diagram (or reconciles or
  fences it for revalidation), it never leaves a retired port owned, it moves generations
  forward only, and it produces a live configured port only where the device is known. A
  builder that rejects never reports success.
\<close>

definition plan_ok :: "build_input \<Rightarrow> mutation_plan \<Rightarrow> bool" where
  "plan_ok inp p \<longleftrightarrow>
     (let cur = bi_current inp; nxt = pl_next p
      in pl_expected p = capture_expected cur \<and>
         pr_port nxt = pr_port cur \<and> pr_parent_device nxt = pr_parent_device cur \<and>
         lifecycle_change (pr_lifecycle cur) (pr_lifecycle nxt) \<and>
         (pr_lifecycle nxt = LC_Unconfigured \<longrightarrow> pr_configuration nxt = pr_configuration cur) \<and>
         (pr_lifecycle nxt = LC_Retired \<longrightarrow> pr_ownership nxt = None) \<and>
         (\<forall>w. pr_ownership nxt = Some w \<longrightarrow> ow_generation w = gv_ownership (pr_generations nxt)) \<and>
         generations_advance (pr_generations cur) (pr_generations nxt) \<and>
         (pr_configuration nxt \<noteq> None \<and> is_live (pr_lifecycle nxt) \<longrightarrow>
            bi_parent_device_generation inp \<noteq> None \<or>
            (pr_configuration cur \<noteq> None \<and> is_live (pr_lifecycle cur))))"

text \<open>The codes of a refusal: neither a success nor a code of a mutation that wrote the state.\<close>

definition refusal_code :: "outcome_code \<Rightarrow> bool" where
  "refusal_code c \<longleftrightarrow>
     c \<notin> {OC_Ok, OC_Idempotent, OC_PersistenceIoFailure, OC_ApplyOutcomeUnknown, OC_ReadbackMismatch}"

lemma refusal_code_simps [simp]:
  "\<not> refusal_code OC_Ok"
  "refusal_code OC_AlreadyCurrent" "refusal_code OC_CapabilityUnavailable"
  "refusal_code OC_ConflictDetected" "refusal_code OC_InvalidConfiguration"
  "refusal_code OC_InvalidLifecycleTransition" "refusal_code OC_InvalidProfile"
  "refusal_code OC_MalformedRequest" "refusal_code OC_OwnershipConflict"
  "refusal_code OC_PortRetired" "refusal_code OC_PortSuperseded"
  "refusal_code OC_RevalidationRequired" "refusal_code OC_StaleCapabilityGeneration"
  "refusal_code OC_StaleConfigurationGeneration" "refusal_code OC_UnauthorizedOwner"
  "refusal_code OC_UnknownDevice" "refusal_code OC_UnknownOwnership"
  "refusal_code OC_UnknownProfile" "refusal_code OC_WrongEntityClass"
  by (simp_all add: refusal_code_def)

locale mutation_builder =
  fixes build :: "build_input \<Rightarrow> mutation_plan"
  assumes accepts: "record_core_ok (bi_current inp) \<Longrightarrow> pr_lifecycle (bi_current inp) \<noteq> LC_Retired \<Longrightarrow>
      pl_failure (build inp) = OC_Ok \<Longrightarrow> plan_ok inp (build inp)"
    and rejects: "pl_failure (build inp) = OC_Ok \<or> refusal_code (pl_failure (build inp))"
begin

text \<open>An accepted plan whose record validates may be stored.\<close>

lemma next_core_ok:
  assumes "record_core_ok (bi_current inp)" "pr_lifecycle (bi_current inp) \<noteq> LC_Retired"
    "pl_failure (build inp) = OC_Ok" "record_validate (pl_next (build inp)) = None"
  shows "record_core_ok (pl_next (build inp))"
proof -
  have p: "plan_ok inp (build inp)" using assms(1-3) by (rule accepts)
  have v: "record_ok (pl_next (build inp))" using assms(4) by (simp only: record_validate_ok)
  have "pr_lifecycle (pl_next (build inp)) = LC_Unconfigured \<longrightarrow>
      pr_configuration (pl_next (build inp)) = None"
  proof
    assume u: "pr_lifecycle (pl_next (build inp)) = LC_Unconfigured"
    with p have "pr_lifecycle (bi_current inp) = LC_Unconfigured"
      by (auto simp: plan_ok_def lifecycle_change_def Let_def elim: lifecycle_arrow.cases)
    with p u assms(1) show "pr_configuration (pl_next (build inp)) = None"
      by (simp add: plan_ok_def Let_def record_core_ok_def)
  qed
  with p v show ?thesis
    by (auto simp: record_core_ok_def record_ok_def plan_ok_def Let_def split: option.splits)
qed

lemma next_device_known:
  assumes "record_core_ok (bi_current inp)" "pr_lifecycle (bi_current inp) \<noteq> LC_Retired"
    "pl_failure (build inp) = OC_Ok" "device_known e (bi_current inp)"
    "bi_parent_device_generation inp = map_option dv_generation
       (map_of (en_devices e) (pr_parent_device (bi_current inp)))"
  shows "device_known e (pl_next (build inp))"
  using accepts [OF assms(1-3)] assms(4,5)
  by (auto simp: plan_ok_def Let_def device_known_def)

end

section \<open>Every builder meets the contract\<close>

lemma pl_simps [simp]:
  "pl_failure (propose cur nxt) = OC_Ok" "pl_next (propose cur nxt) = nxt"
  "pl_expected (propose cur nxt) = capture_expected cur"
  "pl_failure (propose_configuration cur nxt ev c) = OC_Ok"
  "pl_next (propose_configuration cur nxt ev c) = nxt"
  "pl_expected (propose_configuration cur nxt ev c) = capture_expected cur"
  "pl_failure (reject_plan r) = fst r"
  "pl_requires_capability_validation (propose cur nxt) = False"
  "pl_requires_capability_validation (propose_configuration cur nxt ev c) = True"
  "pl_capability (propose_configuration cur nxt ev c) = ev"
  "pl_requires_apply (propose cur nxt) = False"
  "pl_requires_apply (propose_configuration cur nxt ev c) = True"
  "pl_apply_configuration (propose_configuration cur nxt ev c) = c"
  by (simp_all add: propose_def propose_configuration_def reject_plan_def empty_plan_def)

lemma advance_fields [simp]:
  "pr_port (advance_lifecycle_generation r) = pr_port r"
  "pr_parent_device (advance_lifecycle_generation r) = pr_parent_device r"
  "pr_lifecycle (advance_lifecycle_generation r) = pr_lifecycle r"
  "pr_configuration (advance_lifecycle_generation r) = pr_configuration r"
  "pr_ownership (advance_lifecycle_generation r) = pr_ownership r"
  "pr_port (advance_ownership_generation r) = pr_port r"
  "pr_parent_device (advance_ownership_generation r) = pr_parent_device r"
  "pr_lifecycle (advance_ownership_generation r) = pr_lifecycle r"
  "pr_configuration (advance_ownership_generation r) = pr_configuration r"
  "pr_ownership (advance_ownership_generation r) = pr_ownership r"
  by (simp_all add: advance_defs)

text \<open>A rejection is never a success and never an idempotent replay.\<close>

definition real_rejection :: "rejection \<Rightarrow> bool" where
  "real_rejection r \<longleftrightarrow> refusal_code (fst r)"

lemma real_rejection_fenced [simp]:
  "refusal_code (rejection_for_fenced_state s)" "rejection_for_fenced_state s \<noteq> OC_Ok"
  by (cases s; simp)+

lemma refusals_real:
  "answers real_rejection (configure_refusal inp rq)"
  "answers real_rejection (reconfigure_refusal inp rq old)"
  "answers real_rejection (administrative_refusal inp arq old)"
  "answers real_rejection (assign_refusal old d)"
  "answers real_rejection (capability_refusal inp b)"
  "answers real_rejection (reconcile_refusal inp rrq old)"
  "answers real_rejection (claim_refusal inp orq)"
  "answers real_rejection (holder_refusal inp orq kind)"
  "answers real_rejection (delegate_refusal orq kind)"
  "answers real_rejection (evidence_refusal inp ev)"
  unfolding configure_refusal_def reconfigure_refusal_def administrative_refusal_def
    assign_refusal_def capability_refusal_def reconcile_refusal_def claim_refusal_def
    holder_refusal_def delegate_refusal_def evidence_refusal_def Let_def
  by (intro gate_intros; simp add: real_rejection_def)+

lemma real_rejectionD: "real_rejection r \<Longrightarrow> refusal_code (fst r) \<and> fst r \<noteq> OC_Ok"
  by (auto simp: real_rejection_def)

lemmas refusal_codes = refusals_real [THEN answersD, THEN real_rejectionD]

text \<open>What each builder has established when it accepts.\<close>

lemma configure_admits:
  assumes "configure_refusal inp req = None"
  shows "pr_lifecycle (bi_current inp) = LC_Unconfigured" "bi_parent_device_generation inp \<noteq> None"
    "cb_present (bi_capability inp)" "configuration_validate (configure_candidate inp req) = None"
  using assms by (simp_all add: configure_refusal_def Let_def split: if_split_asm option.split_asm)

lemma reconfigure_admits:
  assumes "reconfigure_refusal inp req old = None"
  shows "is_live (pr_lifecycle (bi_current inp))" "cb_present (bi_capability inp)"
    "configuration_validate (reconfigure_candidate inp req old) = None"
    "pc_administrative (reconfigure_candidate inp req old) = pc_administrative old"
  using assms by (simp_all add: reconfigure_refusal_def Let_def split: if_split_asm option.split_asm)

lemma administrative_admits:
  assumes "administrative_refusal inp req old = None"
  shows "is_live (pr_lifecycle (bi_current inp))"
    "te_allowed (evaluate_transition (pr_lifecycle (bi_current inp)) (lifecycle_transition_for (aq_op req)))"
  using assms by (simp_all add: administrative_refusal_def Let_def split: if_split_asm)

lemma capability_admits:
  assumes "capability_refusal inp b = None"
  shows "cb_present b" "gen_valid (cb_generation b)" "gen_valid (cb_evidence_generation b)"
    "capabilities_validate (cb_capabilities b) = None"
    "cb_present (pr_capability (bi_current inp)) \<Longrightarrow>
       cb_generation (pr_capability (bi_current inp)) < cb_generation b"
  using assms
  by (auto simp: capability_refusal_def Let_def not_less split: if_split_asm option.split_asm)

lemma reconcile_admits:
  assumes "reconcile_refusal inp req old = None"
  shows "bi_parent_device_generation inp \<noteq> None" "cb_present (bi_capability inp)"
    "configuration_validate (reconcile_candidate inp req old) = None"
  using assms by (simp_all add: reconcile_refusal_def Let_def split: if_split_asm option.split_asm)

lemma allowed_change:
  assumes "te_allowed (evaluate_transition s tr)"
  shows "lifecycle_change s (te_result (evaluate_transition s tr))"
  using assms evaluate_transition_arrow by (auto simp: lifecycle_change_def)

lemmas plan_defs = plan_ok_def Let_def generations_advance_def advance_defs gen_advance_mono

interpretation configure_builder: mutation_builder "build_configure req" for req
proof
  fix inp
  show "pl_failure (build_configure req inp) = OC_Ok \<or> refusal_code (pl_failure (build_configure req inp))"
    using refusal_codes(1) by (auto simp: build_configure_def Let_def split: option.split)
  assume core: "record_core_ok (bi_current inp)" and ok: "pl_failure (build_configure req inp) = OC_Ok"
  then have none: "configure_refusal inp req = None"
    using refusal_codes(1) by (cases "configure_refusal inp req") (auto simp: build_configure_def)
  with configure_admits [OF none] core show "plan_ok inp (build_configure req inp)"
    by (auto simp: build_configure_def plan_defs lifecycle_change_def record_core_ok_def
        intro: lifecycle_arrow.configure)
qed

interpretation reconfigure_builder: mutation_builder "build_reconfigure req" for req
proof
  fix inp
  show "pl_failure (build_reconfigure req inp) = OC_Ok \<or> refusal_code (pl_failure (build_reconfigure req inp))"
    using refusal_codes(2) by (auto simp: build_reconfigure_def Let_def split: option.split)
  assume core: "record_core_ok (bi_current inp)" and ret: "pr_lifecycle (bi_current inp) \<noteq> LC_Retired"
    and ok: "pl_failure (build_reconfigure req inp) = OC_Ok"
  from ok obtain old where old: "pr_configuration (bi_current inp) = Some old"
    by (cases "pr_configuration (bi_current inp)") (simp_all add: build_reconfigure_def)
  with ok have none: "reconfigure_refusal inp req old = None"
    using refusal_codes(2)
    by (cases "reconfigure_refusal inp req old") (auto simp: build_reconfigure_def)
  with reconfigure_admits [OF none] old core ret show "plan_ok inp (build_reconfigure req inp)"
    by (auto simp: build_reconfigure_def plan_defs lifecycle_change_def record_core_ok_def)
qed

interpretation administrative_builder: mutation_builder "build_administrative req" for req
proof
  fix inp
  show "pl_failure (build_administrative req inp) = OC_Ok \<or> refusal_code (pl_failure (build_administrative req inp))"
    using refusal_codes(3) by (auto simp: build_administrative_def Let_def split: option.split)
  assume core: "record_core_ok (bi_current inp)" and ret: "pr_lifecycle (bi_current inp) \<noteq> LC_Retired"
    and ok: "pl_failure (build_administrative req inp) = OC_Ok"
  from ok obtain old where old: "pr_configuration (bi_current inp) = Some old"
    by (cases "pr_configuration (bi_current inp)") (simp_all add: build_administrative_def)
  with ok have none: "administrative_refusal inp req old = None"
    using refusal_codes(3)
    by (cases "administrative_refusal inp req old") (auto simp: build_administrative_def)
  note admits = administrative_admits [OF none]
  have "te_result (evaluate_transition (pr_lifecycle (bi_current inp))
      (lifecycle_transition_for (aq_op req))) \<notin> {LC_Unconfigured, LC_Retired}"
    using admits(1) by (cases "aq_op req"; cases "pr_lifecycle (bi_current inp)")
      (simp_all add: evaluate_transition_def enabled_landing_def)
  with admits allowed_change [OF admits(2)] old none core ret
  show "plan_ok inp (build_administrative req inp)"
    by (auto simp: build_administrative_def plan_defs record_core_ok_def)
qed

interpretation assign_builder: mutation_builder "build_assign_profile req" for req
proof
  fix inp
  have edit: "profile_edit inp req old = Inl r \<Longrightarrow> real_rejection r" for old r
    by (auto simp: profile_edit_def real_rejection_def split: if_split_asm option.split_asm)
  show "pl_failure (build_assign_profile req inp) = OC_Ok \<or> refusal_code (pl_failure (build_assign_profile req inp))"
    using refusal_codes(4) edit
    by (auto simp: build_assign_profile_def real_rejection_def Let_def split: option.split sum.split)
  assume core: "record_core_ok (bi_current inp)" and ret: "pr_lifecycle (bi_current inp) \<noteq> LC_Retired"
    and ok: "pl_failure (build_assign_profile req inp) = OC_Ok"
  from ok obtain old where old: "pr_configuration (bi_current inp) = Some old"
    by (cases "pr_configuration (bi_current inp)") (simp_all add: build_assign_profile_def)
  with ok have live: "is_live (pr_lifecycle (bi_current inp))"
    by (simp add: build_assign_profile_def Let_def split: if_split_asm)
  from ok old live obtain edited where edited: "profile_edit inp req old = Inr edited"
    using edit by (cases "profile_edit inp req old")
      (force simp: build_assign_profile_def real_rejection_def Let_def)+
  with ok old live have none: "assign_refusal old (assign_candidate inp req edited) = None"
    using refusal_codes(4)
    by (cases "assign_refusal old (assign_candidate inp req edited)")
      (auto simp: build_assign_profile_def Let_def)
  with edited live old core ret show "plan_ok inp (build_assign_profile req inp)"
    by (auto simp: build_assign_profile_def plan_defs lifecycle_change_def record_core_ok_def)
qed

interpretation capability_builder: mutation_builder "build_bind_capabilities req" for req
proof
  fix inp
  show "pl_failure (build_bind_capabilities req inp) = OC_Ok \<or> refusal_code (pl_failure (build_bind_capabilities req inp))"
    using refusal_codes(5) by (auto simp: build_bind_capabilities_def Let_def split: option.split)
  assume core: "record_core_ok (bi_current inp)" and ret: "pr_lifecycle (bi_current inp) \<noteq> LC_Retired"
    and ok: "pl_failure (build_bind_capabilities req inp) = OC_Ok"
  then have none: "capability_refusal inp (cq_binding req) = None"
    using refusal_codes(5)
    by (cases "capability_refusal inp (cq_binding req)") (auto simp: build_bind_capabilities_def Let_def)
  show "plan_ok inp (build_bind_capabilities req inp)"
  proof (cases "pr_configuration (bi_current inp)")
    case None
    with none core ret show ?thesis
      by (auto simp: build_bind_capabilities_def plan_defs lifecycle_change_def record_core_ok_def)
  next
    case (Some c)
    then have "pr_lifecycle (bi_current inp) \<noteq> LC_Unconfigured"
      using core by (auto simp: record_core_ok_def)
    with Some none core ret show ?thesis
      by (auto simp: build_bind_capabilities_def plan_defs lifecycle_change_def record_core_ok_def)
  qed
qed

interpretation reconcile_builder: mutation_builder "build_reconcile req" for req
proof
  fix inp
  show "pl_failure (build_reconcile req inp) = OC_Ok \<or> refusal_code (pl_failure (build_reconcile req inp))"
    using refusal_codes(6) by (auto simp: build_reconcile_def Let_def split: option.split)
  assume core: "record_core_ok (bi_current inp)" and ret: "pr_lifecycle (bi_current inp) \<noteq> LC_Retired"
    and ok: "pl_failure (build_reconcile req inp) = OC_Ok"
  from ok obtain old where old: "pr_configuration (bi_current inp) = Some old"
    by (cases "pr_configuration (bi_current inp)") (simp_all add: build_reconcile_def)
  then have "pr_lifecycle (bi_current inp) \<noteq> LC_Unconfigured"
    using core by (auto simp: record_core_ok_def)
  moreover from ok old have none: "reconcile_refusal inp req old = None"
    using refusal_codes(6) by (cases "reconcile_refusal inp req old") (auto simp: build_reconcile_def)
  ultimately show "plan_ok inp (build_reconcile req inp)"
    using reconcile_admits [OF none] old core ret
    by (auto simp: build_reconcile_def plan_defs lifecycle_change_def record_core_ok_def)
qed

interpretation fence_builder: mutation_builder "build_fence req retire" for req retire
proof
  fix inp
  show "pl_failure (build_fence req retire inp) = OC_Ok \<or> refusal_code (pl_failure (build_fence req retire inp))"
    by (simp add: build_fence_def Let_def)
  assume core: "record_core_ok (bi_current inp)" and ret: "pr_lifecycle (bi_current inp) \<noteq> LC_Retired"
    and ok: "pl_failure (build_fence req retire inp) = OC_Ok"
  let ?tr = "if retire then LT_Retire else LT_Supersede"
  from ok have allowed: "te_allowed (evaluate_transition (pr_lifecycle (bi_current inp)) ?tr)"
    by (simp add: build_fence_def Let_def split: if_split_asm)
  have result: "te_result (evaluate_transition (pr_lifecycle (bi_current inp)) ?tr) =
      (if retire then LC_Retired else LC_Superseded)"
    using allowed ret by (auto simp: evaluate_transition_def split: if_split_asm)
  from allowed_change [OF allowed] allowed result core show "plan_ok inp (build_fence req retire inp)"
    by (cases retire) (auto simp: build_fence_def plan_defs record_core_ok_def)
qed

interpretation ownership_builder: mutation_builder "build_ownership req kind" for req kind
proof
  fix inp
  let ?r = "if kind = MK_ClaimOwnership then claim_refusal inp req else holder_refusal inp req kind"
  have codes: "?r = Some r \<Longrightarrow> refusal_code (fst r) \<and> fst r \<noteq> OC_Ok" for r
    using refusal_codes(7) [of inp req r] refusal_codes(8) [of inp req kind r] by presburger
  show "pl_failure (build_ownership req kind inp) = OC_Ok \<or> refusal_code (pl_failure (build_ownership req kind inp))"
    using codes refusal_codes(9) by (cases ?r) (auto simp: build_ownership_def Let_def split: option.split)
  assume core: "record_core_ok (bi_current inp)" and ret: "pr_lifecycle (bi_current inp) \<noteq> LC_Retired"
    and ok: "pl_failure (build_ownership req kind inp) = OC_Ok"
  then have none: "?r = None"
    using codes by (cases ?r) (auto simp: build_ownership_def)
  show "plan_ok inp (build_ownership req kind inp)"
  proof (cases "kind = MK_ReleaseOwnership")
    case True
    with none core ret show ?thesis
      by (auto simp: build_ownership_def plan_defs lifecycle_change_def record_core_ok_def)
  next
    case False
    with ok none have "delegate_refusal req kind = None"
      using refusal_codes(9)
      by (cases "delegate_refusal req kind") (auto simp: build_ownership_def Let_def)
    with False none core ret show ?thesis
      by (auto simp: build_ownership_def plan_defs lifecycle_change_def record_core_ok_def
          granted_ownership_def)
  qed
qed

interpretation evidence_builder: mutation_builder "build_applied_evidence req" for req
proof
  fix inp
  show "pl_failure (build_applied_evidence req inp) = OC_Ok \<or> refusal_code (pl_failure (build_applied_evidence req inp))"
    using refusal_codes(10) by (auto simp: build_applied_evidence_def Let_def split: option.split)
  assume core: "record_core_ok (bi_current inp)" and ret: "pr_lifecycle (bi_current inp) \<noteq> LC_Retired"
    and ok: "pl_failure (build_applied_evidence req inp) = OC_Ok"
  then have none: "evidence_refusal inp (eq_evidence req) = None"
    using refusal_codes(10)
    by (cases "evidence_refusal inp (eq_evidence req)") (auto simp: build_applied_evidence_def Let_def)
  show "plan_ok inp (build_applied_evidence req inp)"
    using none core ret
    by (cases "ae_outcome (eq_evidence req)"; cases "is_live (pr_lifecycle (bi_current inp))")
      (auto simp: build_applied_evidence_def plan_defs lifecycle_change_def record_core_ok_def
        intro: lifecycle_arrow.revalidate simp: is_mutable_def)
qed

interpretation drift_builder: mutation_builder "build_drift req" for req
proof
  fix inp
  show "pl_failure (build_drift req inp) = OC_Ok \<or> refusal_code (pl_failure (build_drift req inp))"
    by (simp add: build_drift_def Let_def)
  assume core: "record_core_ok (bi_current inp)" and ret: "pr_lifecycle (bi_current inp) \<noteq> LC_Retired"
    and ok: "pl_failure (build_drift req inp) = OC_Ok"
  then have new: "pr_drift (bi_current inp) \<noteq> dq_observed req"
    by (auto simp: build_drift_def Let_def)
  show "plan_ok inp (build_drift req inp)"
  proof (cases "te_allowed (evaluate_transition (pr_lifecycle (bi_current inp)) LT_Conflict)")
    case True
    then have "te_result (evaluate_transition (pr_lifecycle (bi_current inp)) LT_Conflict) = LC_Conflicted"
      using ret by (auto simp: evaluate_transition_def split: if_split_asm)
    with True new core ret allowed_change [OF True] show ?thesis
      by (cases "dq_observed req"; cases "is_live (pr_lifecycle (bi_current inp))")
        (auto simp: build_drift_def drift_lifecycle_def plan_defs lifecycle_change_def record_core_ok_def
          is_mutable_def intro: lifecycle_arrow.revalidate)
  next
    case False
    with new core ret show ?thesis
      by (cases "dq_observed req"; cases "is_live (pr_lifecycle (bi_current inp))")
        (auto simp: build_drift_def drift_lifecycle_def plan_defs lifecycle_change_def record_core_ok_def
          is_mutable_def intro: lifecycle_arrow.revalidate)
  qed
qed

end
