(* ===== verification/Mutation.thy ===== *)
theory Mutation
  imports Authority Builders
begin

text \<open>
  The mutation pipeline \<open>execute_mutation\<close> of \<open>src/engine_mutation.cpp\<close> and the commit protocol
  of \<open>src/engine_support.cpp\<close>. The pipeline is cut where the code releases its locks: the
  authority gate, the snapshot, the decision (every gate, the builder, the validations and the
  device adapter, none of which writes the state) and the commit or the recording of an
  uncertain apply. A branch that returns early is an answer of a gate.
\<close>

section \<open>Results\<close>

record mutation_result =
  mr_outcome :: outcome
  mr_explanation :: explanation
  mr_lifecycle :: port_lifecycle
  mr_configuration_generation :: generation
  mr_ownership_generation :: generation
  mr_record_digest :: digest

definition default_result :: mutation_result where
  "default_result = \<lparr>mr_outcome = success [], mr_explanation = empty_explanation,
     mr_lifecycle = LC_Unconfigured, mr_configuration_generation = 0,
     mr_ownership_generation = 0, mr_record_digest = digest_zero\<rparr>"

definition result_accepted :: "mutation_result \<Rightarrow> bool" where
  "result_accepted r \<longleftrightarrow> outcome_accepted (mr_outcome r)"

text \<open>A result that reports \<open>oc\<close> with a summary; its explanation carries the verdict.\<close>

definition conclude :: "bool \<Rightarrow> outcome \<Rightarrow> string \<Rightarrow> mutation_result" where
  "conclude accepted oc summary =
     default_result\<lparr>mr_outcome := oc,
       mr_explanation := empty_explanation\<lparr>ex_accepted := accepted, ex_outcome := oc_code oc,
                                            ex_summary := summary\<rparr>\<rparr>"

definition because :: "explanation_code \<Rightarrow> string \<Rightarrow> mutation_result \<Rightarrow> mutation_result" where
  "because code d r = r\<lparr>mr_explanation := explanation_add code d (mr_explanation r)\<rparr>"

definition refuse :: "outcome \<Rightarrow> explanation_code \<Rightarrow> string \<Rightarrow> mutation_result" where
  "refuse oc code d = because code d (conclude False oc [])"

text \<open>The state of the record a result reports, with and without ownership and digest.\<close>

definition reporting :: "port_record \<Rightarrow> mutation_result \<Rightarrow> mutation_result" where
  "reporting r res =
     res\<lparr>mr_lifecycle := pr_lifecycle r,
         mr_configuration_generation := gv_configuration (pr_generations r),
         mr_ownership_generation := gv_ownership (pr_generations r),
         mr_record_digest := digest_record r\<rparr>"

definition reporting_state :: "port_record \<Rightarrow> mutation_result \<Rightarrow> mutation_result" where
  "reporting_state r res =
     res\<lparr>mr_lifecycle := pr_lifecycle r,
         mr_configuration_generation := gv_configuration (pr_generations r)\<rparr>"

lemma result_outcome [simp]:
  "mr_outcome (conclude a oc s) = oc" "mr_outcome (because c d r) = mr_outcome r"
  "mr_outcome (refuse oc c d) = oc" "mr_outcome (reporting p r) = mr_outcome r"
  "mr_outcome (reporting_state p r) = mr_outcome r"
  by (simp_all add: conclude_def because_def refuse_def reporting_def reporting_state_def)

section \<open>Admission\<close>

definition gate_admission :: "engine \<Rightarrow> mutation_envelope \<Rightarrow> mutation_result option" where
  "gate_admission e envelope =
     (if en_shutting_down e
      then Some (refuse
             (failure OC_ShuttingDown ''the runtime is shutting down and rejects mutations'')
             EC_RejectedShuttingDown (me_port envelope))
      else if \<not> id_valid (me_port envelope)
      then Some (refuse
             (failure OC_MalformedRequest ''the request does not carry a valid port identity'')
             EC_RejectedMalformedRequest ''port identity'')
      else if \<not> authority_valid (me_authority envelope)
      then Some (refuse
             (failure OC_MalformedRequest
                ''the request does not carry a complete authority context'')
             EC_RejectedMalformedRequest ''authority context'')
      else None)"

definition refuse_authority :: "outcome \<Rightarrow> mutation_result" where
  "refuse_authority oc =
     because (explain_code_for (oc_code oc)) (outcome_to_string oc) (conclude False oc (oc_message oc))"

definition refuse_unknown_port :: "strong_id \<Rightarrow> mutation_result" where
  "refuse_unknown_port port =
     refuse (failure OC_UnknownPort ''the port identity is not bound to this runtime'')
       EC_RejectedUnknownPort port"

section \<open>Terminal state and replay\<close>

definition gate_replay ::
  "mutation_envelope \<Rightarrow> port_mutation_kind \<Rightarrow> string \<Rightarrow> port_record \<Rightarrow> mutation_result option" where
  "gate_replay envelope kind payload snap =
     (if pr_lifecycle snap = LC_Retired \<and> kind \<noteq> MK_Retire
      then Some (refuse (failure OC_PortRetired ''the port is retired and can never be resurrected'')
             EC_RejectedPortRetired (me_port envelope))
      else if pr_lifecycle snap = LC_Retired \<and> kind = MK_Retire
      then Some (reporting snap (because EC_AlreadyCurrent (me_port envelope)
             (conclude True (current ''the port is already retired'') ''the port is already retired'')))
      else if last_mutation_valid (pr_last_mutation snap) \<and>
              lm_attempt (pr_last_mutation snap) = au_attempt (me_authority envelope)
      then (if lm_payload_digest (pr_last_mutation snap) = payload_digest payload
            then Some (reporting snap
                   (because EC_IdempotentReplay
                     (''attempt '' @ au_attempt (me_authority envelope) @
                      '' already committed generation '' @
                      format_u64 (gv_configuration (pr_generations snap)))
                     (conclude True
                       (idempotent
                          ''the exact mutation attempt with an identical payload is already committed'')
                       ''the exact mutation attempt with an identical payload is already committed'')))
            else Some (refuse
                   (failure OC_ConflictDetected
                      ''the mutation attempt identity was already used with a different payload'')
                   EC_RejectedConflictDetected
                   (''attempt '' @ au_attempt (me_authority envelope) @ '' reused'')))
      else None)"

section \<open>Expectations\<close>

definition needs_configuration_expectation :: "port_mutation_kind \<Rightarrow> bool" where
  "needs_configuration_expectation kind \<longleftrightarrow>
     kind \<in> {MK_Configure, MK_Reconfigure, MK_AssignProfile, MK_Reconcile}"

definition gate_expectations ::
  "mutation_envelope \<Rightarrow> port_mutation_kind \<Rightarrow> generation \<Rightarrow> port_record \<Rightarrow> mutation_result option" where
  "gate_expectations envelope kind topology snap =
     (let au = me_authority envelope; g = pr_generations snap
      in if gen_valid (au_expected_topology au) \<and> au_expected_topology au \<noteq> topology
      then Some (refuse
             (failure OC_StaleTopologyGeneration
                ''the request expects a different topology generation'')
             EC_RejectedStaleTopologyGeneration
             (''expected '' @ format_u64 (au_expected_topology au) @ '' observed '' @
              format_u64 topology))
      else if gen_valid (au_expected_capability au) \<and> au_expected_capability au \<noteq> gv_capability g
      then Some (refuse
             (failure OC_StaleCapabilityGeneration
                ''the request expects a different capability generation'')
             EC_RejectedStaleCapabilityGeneration
             (''expected '' @ format_u64 (au_expected_capability au) @ '' observed '' @
              format_u64 (gv_capability g)))
      else if (needs_configuration_expectation kind \<or> gen_valid (au_expected_configuration au)) \<and>
              au_expected_configuration au \<noteq> gv_configuration g
      then Some (refuse
             (with_detail ''current'' (gen_or_none (gv_configuration g))
               (with_detail ''expected'' (gen_or_none (au_expected_configuration au))
                 (failure OC_StaleConfigurationGeneration
                    ''the request expects a configuration generation that is not current'')))
             EC_RejectedStaleConfigurationGeneration
             ''the request expects a configuration generation that is not current'')
      else None)"

section \<open>Ownership\<close>

definition gate_ownership ::
  "engine_config \<Rightarrow> mutation_envelope \<Rightarrow> port_mutation_kind \<Rightarrow> port_record \<Rightarrow> mutation_result option"
  where
  "gate_ownership cf envelope kind snap =
     (let au = me_authority envelope
      in if \<not> (cf_require_ownership cf \<and> kind \<noteq> MK_ClaimOwnership) then None
      else case pr_ownership snap of
        None \<Rightarrow>
          if pr_configuration snap \<noteq> None
          then Some (refuse
                 (failure OC_UnauthorizedOwner
                    ''the port has no owner and therefore no mutation authority is delegated'')
                 EC_RejectedUnauthorizedOwner ''ownership is required for mutation'')
          else None
      | Some w \<Rightarrow>
          if id_valid (au_ownership au) \<and> au_ownership au \<noteq> ow_id w
          then Some (refuse
                 (failure OC_StaleOwnershipGeneration
                    ''the request expects a different ownership identity'')
                 EC_RejectedStaleOwnershipGeneration
                 (''expected '' @ au_ownership au @ '' observed '' @ ow_id w))
          else if gen_valid (au_ownership_generation au) \<and>
                  au_ownership_generation au \<noteq> gv_ownership (pr_generations snap)
          then Some (refuse
                 (failure OC_StaleOwnershipGeneration
                    ''the request expects a different ownership generation'')
                 EC_RejectedStaleOwnershipGeneration
                 (''expected '' @ format_u64 (au_ownership_generation au) @ '' observed '' @
                  format_u64 (gv_ownership (pr_generations snap))))
          else if kind \<noteq> MK_TransferOwnership \<and> kind \<noteq> MK_ReleaseOwnership \<and>
                  \<not> held_by w (au_publisher au) (au_boot au) (au_epoch au)
          then Some (refuse
                 (with_detail ''boot'' (ow_boot w)
                   (with_detail ''publisher'' (ow_publisher w)
                     (with_detail ''owner'' (ow_owner w)
                       (failure OC_UnauthorizedOwner
                          ''the caller does not hold control ownership of this port''))))
                 EC_RejectedUnauthorizedOwner
                 ''the caller does not hold control ownership of this port'')
          else None)"

section \<open>The parent device\<close>

definition reconcile_kind :: "port_mutation_kind \<Rightarrow> bool" where
  "reconcile_kind kind \<longleftrightarrow> kind \<in> {MK_Reconcile, MK_Supersede, MK_Retire, MK_BindPort}"

definition gate_device ::
  "mutation_envelope \<Rightarrow> port_mutation_kind \<Rightarrow> generation option \<Rightarrow> port_record \<Rightarrow> mutation_result option"
  where
  "gate_device envelope kind device snap =
     (let au = me_authority envelope
      in case device of
        None \<Rightarrow> None
      | Some g \<Rightarrow>
          if reconcile_kind kind then None
          else if gen_valid (au_expected_device au) \<and> au_expected_device au \<noteq> g
          then Some (refuse
                 (with_detail ''current'' (format_u64 g)
                   (with_detail ''expected'' (format_u64 (au_expected_device au))
                     (failure OC_StaleDeviceGeneration
                        ''the request expects a device generation that was replaced'')))
                 EC_RejectedStaleDeviceGeneration
                 ''the request expects a device generation that was replaced'')
          else if g \<noteq> gv_device (pr_generations snap)
          then Some (because EC_RejectedStaleDeviceGeneration ''explicit reconciliation is required''
                 (conclude False
                   (with_detail ''current'' (format_u64 g)
                     (with_detail ''bound'' (gen_or_none (gv_device (pr_generations snap)))
                       (failure OC_StaleDeviceGeneration
                          ''the configuration is bound to a device generation that has been replaced'')))
                   ''the configuration is bound to a device generation that has been replaced''))
          else None)"

section \<open>Capability evidence\<close>

definition needs_capability :: "port_mutation_kind \<Rightarrow> bool" where
  "needs_capability kind \<longleftrightarrow> kind \<in> {MK_Configure, MK_Reconfigure, MK_AssignProfile, MK_Reconcile}"

text \<open>\<open>Inl\<close> the failure the code reports through its out parameter, \<open>Inr\<close> the evidence.\<close>

definition resolve_capabilities :: "environment \<Rightarrow> port_record \<Rightarrow> outcome + capability_binding" where
  "resolve_capabilities env r =
     (if cb_present (pr_capability r) then Inr (pr_capability r)
      else case ev_provider env of
        None \<Rightarrow> Inl (failure OC_CapabilityUnavailable
                   ''no capability evidence is bound and no provider is configured'')
      | Some provider \<Rightarrow>
        (case provider (pr_port r) of
           (None, err) \<Rightarrow>
             Inl (failure OC_CapabilityUnavailable
                    (if err = [] then ''the capability provider returned no evidence'' else err))
         | (Some binding, err) \<Rightarrow>
             if \<not> cb_present binding
             then Inl (failure OC_CapabilityUnknown ''the capability provider reported UNKNOWN evidence'')
             else case capabilities_validate (cb_capabilities binding) of
               Some err \<Rightarrow> Inl (failure OC_CapabilityUnavailable err)
             | None \<Rightarrow> Inr binding))"

definition refuse_capability :: "outcome \<Rightarrow> mutation_result" where
  "refuse_capability oc =
     because (explain_code_for (oc_code oc)) (outcome_to_string oc) (conclude False oc (oc_message oc))"

section \<open>The plan\<close>

definition gate_plan :: "port_record \<Rightarrow> mutation_plan \<Rightarrow> mutation_result option" where
  "gate_plan snap plan =
     (if pl_failure plan = OC_AlreadyCurrent
      then Some (reporting snap (because EC_AlreadyCurrent (pl_failure_detail plan)
             (conclude True (current (pl_failure_detail plan)) (pl_failure_detail plan))))
      else if pl_failure plan \<noteq> OC_Ok
      then Some (reporting snap (because (pl_failure_explanation plan) (pl_failure_detail plan)
             (conclude False (failure (pl_failure plan) (pl_failure_detail plan))
                (pl_failure_detail plan))))
      else case record_validate (pl_next plan) of
        Some err \<Rightarrow>
          Some (refuse (failure OC_InvalidConfiguration err) EC_RejectedInvalidConfiguration err)
      | None \<Rightarrow>
        if \<not> pl_requires_capability_validation plan then None
        else case pr_configuration (pl_next plan) of
          None \<Rightarrow> Some (conclude False
                    (failure OC_InternalError ''a capability validated plan carries no configuration'') [])
        | Some c \<Rightarrow>
          (let verdict = validate_against_capabilities c (pl_capability plan)
           in if \<not> cv_accepted verdict
              then Some (reporting_state snap
                     (because (explain_code_for (cv_code verdict)) (cv_reason verdict)
                       (conclude False
                         (with_detail ''reason'' (cv_reason verdict)
                           (failure (cv_code verdict) (cv_detail verdict)))
                         (cv_detail verdict))))
              else None))"

definition stamp ::
  "mutation_envelope \<Rightarrow> string \<Rightarrow> provenance_kind \<Rightarrow> mutation_plan \<Rightarrow> mutation_plan" where
  "stamp envelope payload fallback plan =
     plan\<lparr>pl_next := (pl_next plan)
       \<lparr>pr_last_mutation :=
          \<lparr>lm_attempt = au_attempt (me_authority envelope), lm_payload_digest = payload_digest payload,
           lm_result_generation = gv_configuration (pr_generations (pl_next plan))\<rparr>,
        pr_provenance := make_provenance envelope fallback\<rparr>\<rparr>"

section \<open>Application to the device\<close>

text \<open>
  The decision on a mutation: refused with its result, uncertain (the device may have changed:
  \<open>record_apply_uncertainty\<close> is called with a detail and a code, and a readback mismatch
  reports its own result), or ready to commit with the evidence the adapter produced.
\<close>

datatype decision =
    Refused mutation_result
  | Uncertain string outcome_code "mutation_result option" mutation_plan
  | Ready mutation_plan applied_evidence bool

text \<open>Evidence settled by the adapter advances the evidence generation and decides the drift.\<close>

definition settle_evidence :: "mutation_plan \<Rightarrow> applied_evidence \<Rightarrow> decision" where
  "settle_evidence plan applied =
     (let nxt = advance_evidence_generation (pl_next plan);
          applied = applied\<lparr>ae_evidence_generation := gv_evidence (pr_generations nxt)\<rparr>;
          nxt = (case ae_outcome applied of
                   Applied_Verified \<Rightarrow> nxt\<lparr>pr_drift := Drift_InSync\<rparr>
                 | Applied_ApplyFailed \<Rightarrow> nxt\<lparr>pr_drift := Drift_Drifted\<rparr>
                 | Applied_OutcomeUnknown \<Rightarrow> nxt\<lparr>pr_drift := Drift_RevalidationRequired\<rparr>
                 | _ \<Rightarrow> nxt)
      in Ready (plan\<lparr>pl_next := nxt\<rparr>) applied True)"

definition verify_applied :: "adapter \<Rightarrow> strong_id \<Rightarrow> mutation_plan \<Rightarrow> applied_evidence \<Rightarrow> decision" where
  "verify_applied ad port plan applied =
     (let readback = ad_readback ad port
      in case ab_status readback of
           RB_Verified \<Rightarrow>
             settle_evidence plan (applied\<lparr>ae_outcome := Applied_Verified, ae_verified := True\<rparr>)
         | RB_Mismatch \<Rightarrow>
             Uncertain ''readback reported a mismatch after a successful apply'' OC_ReadbackMismatch
               (Some (because EC_RejectedReadbackMismatch (ab_detail readback)
                 (conclude False
                   (with_detail ''detail'' (ab_detail readback)
                     (failure OC_ReadbackMismatch
                        ''the device does not match the configuration that was applied''))
                   ''the device does not match the configuration that was applied'')))
               plan
         | RB_Unknown \<Rightarrow>
             Uncertain ''the readback could not determine device state'' OC_ApplyOutcomeUnknown None plan
         | RB_Unsupported \<Rightarrow>
             settle_evidence plan (applied\<lparr>ae_outcome := Applied_Applied, ae_verified := False\<rparr>))"

definition apply_plan ::
  "environment \<Rightarrow> engine_config \<Rightarrow> strong_id \<Rightarrow> port_record \<Rightarrow> mutation_plan \<Rightarrow> decision" where
  "apply_plan env cf port snap plan =
     (let applied = pr_applied (pl_next plan); g = gv_configuration (pr_generations (pl_next plan))
      in if \<not> pl_requires_apply plan then Ready plan applied False
      else if cf_adapter_policy cf = Policy_DesiredStateOnly
      then Ready plan (applied\<lparr>ae_outcome := Applied_NotAttempted, ae_generation := g,
                               ae_verified := False, ae_source := ''desired-state-only''\<rparr>) True
      else case ev_adapter env of
        None \<Rightarrow>
          settle_evidence plan (applied\<lparr>ae_outcome := Applied_Unsupported, ae_generation := g,
                                        ae_verified := False, ae_source := ''no-adapter''\<rparr>)
      | Some ad \<Rightarrow>
          (let answer = ad_apply ad port (pl_apply_configuration plan);
               applied = applied\<lparr>ae_source := ad_label ad, ae_generation := g, ae_verified := False\<rparr>
           in case ar_status answer of
                AS_Applied \<Rightarrow>
                  if cf_adapter_policy cf = Policy_ApplyAndVerify
                  then verify_applied ad port plan (applied\<lparr>ae_outcome := Applied_Applied\<rparr>)
                  else settle_evidence plan (applied\<lparr>ae_outcome := Applied_Applied\<rparr>)
              | AS_Unsupported \<Rightarrow>
                  settle_evidence plan (applied\<lparr>ae_outcome := Applied_Unsupported\<rparr>)
              | AS_Failed \<Rightarrow>
                  Refused (reporting_state snap
                    (because EC_RejectedApplyFailed (ar_detail answer)
                      (conclude False
                        (with_detail ''adapter'' (ad_label ad)
                          (with_detail ''detail'' (ar_detail answer)
                            (failure OC_ApplyFailed ''the device adapter reported a failed apply'')))
                        ''the device adapter reported a failed apply'')))
              | AS_OutcomeUnknown \<Rightarrow>
                  Uncertain (if ar_detail answer = []
                             then ''the apply outcome is unknown and requires readback''
                             else ar_detail answer)
                    OC_ApplyOutcomeUnknown None plan))"

section \<open>The decision\<close>

text \<open>What a builder is given: the snapshot and the exact generations resolved after it.\<close>

definition mutation_input ::
  "engine \<Rightarrow> port_mutation_kind \<Rightarrow> port_record \<Rightarrow> capability_binding \<Rightarrow> build_input" where
  "mutation_input e kind snap evidence =
     \<lparr>bi_current = snap, bi_epoch = en_epoch e, bi_topology = en_topology e,
      bi_parent_device_generation = device_generation (pr_parent_device snap) e,
      bi_capability = evidence, bi_kind = kind, bi_profiles = en_profiles e,
      bi_config = en_config e\<rparr>"

text \<open>Everything between the snapshot and the commit; it reads the state and does not write it.\<close>

definition decide ::
  "environment \<Rightarrow> mutation_envelope \<Rightarrow> port_mutation_kind \<Rightarrow> string \<Rightarrow>
   (build_input \<Rightarrow> mutation_plan) \<Rightarrow> provenance_kind \<Rightarrow> port_record \<Rightarrow> engine \<Rightarrow> decision" where
  "decide env envelope kind payload build fallback snap e =
     (case gate_replay envelope kind payload snap of Some r \<Rightarrow> Refused r | None \<Rightarrow>
      case gate_expectations envelope kind (en_topology e) snap of Some r \<Rightarrow> Refused r | None \<Rightarrow>
      case gate_ownership (en_config e) envelope kind snap of Some r \<Rightarrow> Refused r | None \<Rightarrow>
      case gate_device envelope kind (device_generation (pr_parent_device snap) e) snap of
        Some r \<Rightarrow> Refused r | None \<Rightarrow>
      case (if needs_capability kind then resolve_capabilities env snap else Inr no_binding) of
        Inl oc \<Rightarrow> Refused (refuse_capability oc) | Inr evidence \<Rightarrow>
      let plan = build (mutation_input e kind snap evidence)
      in case gate_plan snap plan of Some r \<Rightarrow> Refused r | None \<Rightarrow>
      apply_plan env (en_config e) (me_port envelope) snap (stamp envelope payload fallback plan))"

section \<open>Uncertain applies\<close>

definition uncertain_record ::
  "environment \<Rightarrow> authority_context \<Rightarrow> generation \<Rightarrow> applied_outcome \<Rightarrow> string \<Rightarrow> port_record \<Rightarrow> port_record"
  where
  "uncertain_record env au g outcome d r =
     (let r = advance_evidence_generation r;
          r = r\<lparr>pr_applied := \<lparr>ae_outcome = outcome, ae_generation = g,
                  ae_evidence_generation = gv_evidence (pr_generations r),
                  ae_source = (case ev_adapter env of None \<Rightarrow> ''adapter'' | Some ad \<Rightarrow> ad_label ad),
                  ae_verified = False\<rparr>\<rparr>;
          r = (if outcome = Applied_OutcomeUnknown
               then (let r = r\<lparr>pr_drift := Drift_RevalidationRequired\<rparr>;
                         r = (if pr_lifecycle r \<noteq> LC_Retired \<and> pr_lifecycle r \<noteq> LC_Superseded
                              then advance_lifecycle_generation
                                     (r\<lparr>pr_lifecycle := LC_RevalidationRequired\<rparr>)
                              else r)
                     in r\<lparr>pr_status_reason := ''APPLY_OUTCOME_UNKNOWN''\<rparr>)
               else r\<lparr>pr_drift := Drift_Drifted, pr_status_reason := ''APPLY_INTERRUPTED''\<rparr>)
      in r\<lparr>pr_status_detail := d,
           pr_provenance := (pr_provenance r)\<lparr>pv_kind := PK_Recovery, pv_epoch := au_epoch au,
                               pv_attempt := au_attempt au\<rparr>\<rparr>)"

definition record_apply_uncertainty ::
  "environment \<Rightarrow> strong_id \<Rightarrow> authority_context \<Rightarrow> generation \<Rightarrow> applied_outcome \<Rightarrow> string \<Rightarrow>
   outcome_code \<Rightarrow> engine \<Rightarrow> mutation_result \<times> engine" where
  "record_apply_uncertainty env port au g outcome d code e =
     (case port_of e port of
        None \<Rightarrow> (default_result\<lparr>mr_outcome := failure code d\<rparr>, e)
      | Some before \<Rightarrow>
        (let e = store_record before (uncertain_record env au g outcome d before) e;
             e = e\<lparr>en_generation := gen_next (en_generation e)\<rparr>
         in (because (explain_code_for code) d (conclude False (failure code d) d),
             snd (persist_locked_state env e))))"

text \<open>\<open>mark_revalidation\<close> is declared and defined, and called from nowhere.\<close>

definition mark_revalidation ::
  "environment \<Rightarrow> strong_id \<Rightarrow> string \<Rightarrow> string \<Rightarrow> engine \<Rightarrow> engine" where
  "mark_revalidation env port reason d e =
     (case port_of e port of
        None \<Rightarrow> e
      | Some before \<Rightarrow>
        (let after = (if is_live (pr_lifecycle before) \<or> pr_lifecycle before = LC_Unconfigured
                      then advance_lifecycle_generation
                             (before\<lparr>pr_lifecycle := LC_RevalidationRequired\<rparr>)
                      else before);
             after = after\<lparr>pr_drift := Drift_RevalidationRequired, pr_status_reason := reason,
                           pr_status_detail := d\<rparr>;
             e = store_record before after e
         in snd (persist_locked_state env (e\<lparr>en_generation := gen_advance (en_generation e)\<rparr>))))"

section \<open>Compare and commit\<close>

text \<open>The refusing branches of \<open>commit\<close>, under the records lock.\<close>

definition commit_answer ::
  "strong_id \<Rightarrow> expected_state \<Rightarrow> mutation_plan \<Rightarrow> port_record \<Rightarrow> generation \<Rightarrow> mutation_result option"
  where
  "commit_answer port expected plan cur engine_gen =
     (if id_valid (lm_attempt (pr_last_mutation cur)) \<and>
         lm_attempt (pr_last_mutation cur) = lm_attempt (pr_last_mutation (pl_next plan))
      then Some (reporting cur (because EC_IdempotentReplay port
             (conclude True
               (idempotent ''the mutation attempt was already committed by a concurrent request'')
               ''the mutation attempt was already committed by a concurrent request'')))
      else if \<not> expected_matches expected cur
      then Some (reporting cur
             (because EC_RejectedStaleConfigurationGeneration
               ''compare-and-commit rejected the mutation''
               (conclude False
                 (with_detail ''current'' (render_port_summary cur)
                   (with_detail ''expected'' (expected_to_string expected)
                     (failure OC_StaleConfigurationGeneration
                        ''authoritative state changed while this mutation was prepared'')))
                 ''authoritative state changed while this mutation was prepared'')))
      else if pr_lifecycle cur = LC_Retired \<and> pr_lifecycle (pl_next plan) \<noteq> LC_Retired
      then Some ((refuse (failure OC_PortRetired ''a retired port can never be resurrected'')
             EC_RejectedPortRetired port)\<lparr>mr_lifecycle := pr_lifecycle cur\<rparr>)
      else if gen_exhaustible engine_gen
      then Some (conclude False
             (failure OC_ResourceBoundExceeded ''the engine generation can no longer advance'') [])
      else None)"

definition committed_record ::
  "mutation_plan \<Rightarrow> provenance \<Rightarrow> applied_evidence \<Rightarrow> bool \<Rightarrow> port_record" where
  "committed_record plan prov applied settled =
     (let updated = (pl_next plan)\<lparr>pr_provenance := prov\<rparr>
      in if settled then updated\<lparr>pr_applied := applied\<rparr> else updated)"

definition commit ::
  "environment \<Rightarrow> strong_id \<Rightarrow> expected_state \<Rightarrow> mutation_plan \<Rightarrow> provenance \<Rightarrow> applied_evidence \<Rightarrow>
   bool \<Rightarrow> engine \<Rightarrow> mutation_result \<times> engine" where
  "commit env port expected plan prov applied settled e =
     (case port_of e port of
        None \<Rightarrow> (refuse_unknown_port port, e)
      | Some cur \<Rightarrow>
        (case commit_answer port expected plan cur (en_generation e) of
           Some r \<Rightarrow> (r, e)
         | None \<Rightarrow>
           (let updated = committed_record plan prov applied settled;
                e = store_record cur updated e;
                e = e\<lparr>en_generation := gen_next (en_generation e)\<rparr>;
                (persisted, e) = persist_locked_state env e
            in (if \<not> outcome_ok persisted
                then reporting updated
                  (because EC_RejectedPersistenceIoFailure (oc_message persisted)
                    (conclude False
                      (with_detail ''persistence'' (outcome_to_string persisted)
                        (failure OC_PersistenceIoFailure
                           ''the mutation was committed in memory but durable state could not be written''))
                      ''the mutation was committed in memory but durable state could not be written''))
                else reporting updated
                  (conclude True (success ''mutation committed'') ''mutation committed''), e))))"

section \<open>The pipeline\<close>

definition explain_commit ::
  "port_mutation_kind \<Rightarrow> mutation_plan \<Rightarrow> mutation_result \<Rightarrow> mutation_result" where
  "explain_commit kind plan r =
     (if \<not> result_accepted r then r
      else let r = because EC_ConfigurationCommitted
                     (port_mutation_kind_to_string kind @ '' committed generation '' @
                      format_u64 (mr_configuration_generation r)) r;
               r = (case pr_configuration (pl_next plan) of
                      None \<Rightarrow> r
                    | Some c \<Rightarrow>
                        if kind \<in> {MK_Configure, MK_Reconfigure, MK_AssignProfile} \<and>
                           pb_bound (pc_profile c)
                        then because EC_ProfileBound (profile_binding_to_string (pc_profile c)) r
                        else r)
           in if kind = MK_Reconcile
              then because EC_TopologyGenerationAdvanced
                     (format_u64 (gv_topology (pr_generations (pl_next plan))))
                     (because EC_DeviceGenerationAdvanced
                       (format_u64 (gv_device (pr_generations (pl_next plan)))) r)
              else r)"

definition conclude_decision ::
  "environment \<Rightarrow> mutation_envelope \<Rightarrow> port_mutation_kind \<Rightarrow> decision \<Rightarrow> engine \<Rightarrow> mutation_result \<times> engine"
  where
  "conclude_decision env envelope kind d e =
     (case d of
        Refused r \<Rightarrow> (r, e)
      | Uncertain text code override plan \<Rightarrow>
          (let (r, e) = record_apply_uncertainty env (me_port envelope) (me_authority envelope)
                          (gv_configuration (pr_generations (pl_next plan)))
                          Applied_OutcomeUnknown text code e
           in (case override of None \<Rightarrow> r | Some r' \<Rightarrow> r', e))
      | Ready plan applied settled \<Rightarrow>
          (let (r, e) = commit env (me_port envelope) (pl_expected plan) plan
                          (pr_provenance (pl_next plan)) applied settled e
           in (explain_commit kind plan r, e)))"

definition execute_mutation ::
  "environment \<Rightarrow> mutation_envelope \<Rightarrow> port_mutation_kind \<Rightarrow> string \<Rightarrow>
   (build_input \<Rightarrow> mutation_plan) \<Rightarrow> provenance_kind \<Rightarrow> engine \<Rightarrow> mutation_result \<times> engine" where
  "execute_mutation env envelope kind payload build fallback e =
     (case gate_admission e envelope of
        Some r \<Rightarrow> (r, e)
      | None \<Rightarrow>
        (let (authority, e) = check_authority (me_authority envelope) e
         in if \<not> outcome_ok authority then (refuse_authority authority, e)
            else case port_of e (me_port envelope) of
              None \<Rightarrow> (refuse_unknown_port (me_port envelope), e)
            | Some snap \<Rightarrow>
                conclude_decision env envelope kind
                  (decide env envelope kind payload build fallback snap e) e))"

section \<open>The mutation API\<close>

datatype mutation_request =
    Req_Configure configure_request
  | Req_Reconfigure configure_request
  | Req_Administrative administrative_request
  | Req_AssignProfile profile_request
  | Req_BindCapabilities capability_request
  | Req_Reconcile reconcile_request
  | Req_Supersede fence_request
  | Req_Retire fence_request
  | Req_ClaimOwnership ownership_request
  | Req_TransferOwnership ownership_request
  | Req_ReleaseOwnership ownership_request
  | Req_RecordAppliedEvidence evidence_request
  | Req_ObserveExternalState drift_request

primrec request_envelope :: "mutation_request \<Rightarrow> mutation_envelope" where
  "request_envelope (Req_Configure q) = gq_envelope q"
| "request_envelope (Req_Reconfigure q) = gq_envelope q"
| "request_envelope (Req_Administrative q) = aq_envelope q"
| "request_envelope (Req_AssignProfile q) = pq_envelope q"
| "request_envelope (Req_BindCapabilities q) = cq_envelope q"
| "request_envelope (Req_Reconcile q) = rq_envelope q"
| "request_envelope (Req_Supersede q) = fq_envelope q"
| "request_envelope (Req_Retire q) = fq_envelope q"
| "request_envelope (Req_ClaimOwnership q) = oq_envelope q"
| "request_envelope (Req_TransferOwnership q) = oq_envelope q"
| "request_envelope (Req_ReleaseOwnership q) = oq_envelope q"
| "request_envelope (Req_RecordAppliedEvidence q) = eq_envelope q"
| "request_envelope (Req_ObserveExternalState q) = dq_envelope q"

primrec request_kind :: "mutation_request \<Rightarrow> port_mutation_kind" where
  "request_kind (Req_Configure q) = MK_Configure"
| "request_kind (Req_Reconfigure q) = MK_Reconfigure"
| "request_kind (Req_Administrative q) = MK_Administrative"
| "request_kind (Req_AssignProfile q) = MK_AssignProfile"
| "request_kind (Req_BindCapabilities q) = MK_BindCapabilities"
| "request_kind (Req_Reconcile q) = MK_Reconcile"
| "request_kind (Req_Supersede q) = MK_Supersede"
| "request_kind (Req_Retire q) = MK_Retire"
| "request_kind (Req_ClaimOwnership q) = MK_ClaimOwnership"
| "request_kind (Req_TransferOwnership q) = MK_TransferOwnership"
| "request_kind (Req_ReleaseOwnership q) = MK_ReleaseOwnership"
| "request_kind (Req_RecordAppliedEvidence q) = MK_RecordAppliedEvidence"
| "request_kind (Req_ObserveExternalState q) = MK_ObserveExternalState"

primrec request_payload :: "mutation_request \<Rightarrow> string" where
  "request_payload (Req_Configure q) = canonical_payload (gq_configuration q)"
| "request_payload (Req_Reconfigure q) = canonical_payload (gq_configuration q)"
| "request_payload (Req_Administrative q) =
     ''ADMINISTRATIVE|'' @ administrative_op_to_string (aq_op q)"
| "request_payload (Req_AssignProfile q) =
     ''ASSIGN_PROFILE|'' @ (if pq_release q then ''RELEASE''
                           else pq_profile q @ ''@'' @ format_u64 (pq_generation q))"
| "request_payload (Req_BindCapabilities q) =
     ''BIND_CAPABILITIES|'' @ format_u64 (cb_generation (cq_binding q)) @ ''|'' @
     capabilities_to_string (cb_capabilities (cq_binding q))"
| "request_payload (Req_Reconcile q) = ''RECONCILE|'' @ rq_detail q"
| "request_payload (Req_Supersede q) = ''SUPERSEDE|'' @ fq_detail q"
| "request_payload (Req_Retire q) = ''RETIRE|'' @ fq_detail q"
| "request_payload (Req_ClaimOwnership q) =
     ''CLAIM_OWNERSHIP|'' @ port_owner_kind_to_string (oq_owner_kind q) @ ''|'' @ oq_owner q"
| "request_payload (Req_TransferOwnership q) =
     ''TRANSFER_OWNERSHIP|'' @ port_owner_kind_to_string (oq_owner_kind q) @ ''|'' @ oq_owner q"
| "request_payload (Req_ReleaseOwnership q) = ''RELEASE_OWNERSHIP''"
| "request_payload (Req_RecordAppliedEvidence q) =
     ''RECORD_APPLIED_EVIDENCE|'' @ applied_outcome_to_string (ae_outcome (eq_evidence q)) @ ''|'' @
     format_u64 (ae_generation (eq_evidence q))"
| "request_payload (Req_ObserveExternalState q) =
     ''OBSERVE_EXTERNAL_STATE|'' @ drift_state_to_string (dq_observed q) @ ''|'' @ dq_detail q"

primrec request_build :: "mutation_request \<Rightarrow> build_input \<Rightarrow> mutation_plan" where
  "request_build (Req_Configure q) = build_configure q"
| "request_build (Req_Reconfigure q) = build_reconfigure q"
| "request_build (Req_Administrative q) = build_administrative q"
| "request_build (Req_AssignProfile q) = build_assign_profile q"
| "request_build (Req_BindCapabilities q) = build_bind_capabilities q"
| "request_build (Req_Reconcile q) = build_reconcile q"
| "request_build (Req_Supersede q) = build_fence q False"
| "request_build (Req_Retire q) = build_fence q True"
| "request_build (Req_ClaimOwnership q) = build_ownership q MK_ClaimOwnership"
| "request_build (Req_TransferOwnership q) = build_ownership q MK_TransferOwnership"
| "request_build (Req_ReleaseOwnership q) = build_ownership q MK_ReleaseOwnership"
| "request_build (Req_RecordAppliedEvidence q) = build_applied_evidence q"
| "request_build (Req_ObserveExternalState q) = build_drift q"

primrec request_fallback :: "mutation_request \<Rightarrow> provenance_kind" where
  "request_fallback (Req_Configure q) = PK_Operator"
| "request_fallback (Req_Reconfigure q) = PK_Operator"
| "request_fallback (Req_Administrative q) = PK_Operator"
| "request_fallback (Req_AssignProfile q) = PK_Operator"
| "request_fallback (Req_BindCapabilities q) = PK_Operator"
| "request_fallback (Req_Reconcile q) = PK_Reconciliation"
| "request_fallback (Req_Supersede q) = PK_Operator"
| "request_fallback (Req_Retire q) = PK_Operator"
| "request_fallback (Req_ClaimOwnership q) = PK_Operator"
| "request_fallback (Req_TransferOwnership q) = PK_Operator"
| "request_fallback (Req_ReleaseOwnership q) = PK_Operator"
| "request_fallback (Req_RecordAppliedEvidence q) = PK_HostAdapter"
| "request_fallback (Req_ObserveExternalState q) = PK_HostAdapter"

text \<open>\<open>PortFabricEngine::configure\<close>, \<open>reconfigure\<close>, \<dots>, \<open>observe_external_state\<close>.\<close>

definition mutate :: "environment \<Rightarrow> mutation_request \<Rightarrow> engine \<Rightarrow> mutation_result \<times> engine" where
  "mutate env q =
     execute_mutation env (request_envelope q) (request_kind q) (request_payload q)
       (request_build q) (request_fallback q)"

lemma request_builder: "mutation_builder (request_build q)"
  by (cases q)
    (simp_all add: configure_builder.mutation_builder_axioms reconfigure_builder.mutation_builder_axioms
      administrative_builder.mutation_builder_axioms assign_builder.mutation_builder_axioms
      capability_builder.mutation_builder_axioms reconcile_builder.mutation_builder_axioms
      fence_builder.mutation_builder_axioms ownership_builder.mutation_builder_axioms
      evidence_builder.mutation_builder_axioms drift_builder.mutation_builder_axioms)

end
