(* ===== verification/Mutation_Safety.thy ===== *)
theory Mutation_Safety
  imports Mutation
begin

text \<open>
  What the mutation pipeline guarantees: the shape of every committed record, the preservation
  of the runtime's invariant, that a refused mutation changes nothing, replay, staleness,
  ownership and capability evidence.
\<close>

section \<open>What the device adapter may change in a plan\<close>

text \<open>
  Settling a plan touches only the evidence generation, the drift and, in the commit, the
  applied evidence.
\<close>

definition same_but_evidence :: "generation_vector \<Rightarrow> generation_vector \<Rightarrow> bool" where
  "same_but_evidence g h \<longleftrightarrow>
     gv_configuration g = gv_configuration h \<and> gv_administrative g = gv_administrative h \<and>
     gv_ownership g = gv_ownership h \<and> gv_capability g = gv_capability h \<and>
     gv_topology g = gv_topology h \<and> gv_device g = gv_device h \<and> gv_lifecycle g = gv_lifecycle h"

definition settles :: "mutation_plan \<Rightarrow> mutation_plan \<Rightarrow> bool" where
  "settles p q \<longleftrightarrow>
     pl_expected q = pl_expected p \<and> pr_port (pl_next q) = pr_port (pl_next p) \<and>
     pr_parent_device (pl_next q) = pr_parent_device (pl_next p) \<and>
     pr_lifecycle (pl_next q) = pr_lifecycle (pl_next p) \<and>
     pr_configuration (pl_next q) = pr_configuration (pl_next p) \<and>
     pr_ownership (pl_next q) = pr_ownership (pl_next p) \<and>
     pr_capability (pl_next q) = pr_capability (pl_next p) \<and>
     pr_last_mutation (pl_next q) = pr_last_mutation (pl_next p) \<and>
     pr_status_reason (pl_next q) = pr_status_reason (pl_next p) \<and>
     pr_status_detail (pl_next q) = pr_status_detail (pl_next p) \<and>
     pr_provenance (pl_next q) = pr_provenance (pl_next p) \<and>
     same_but_evidence (pr_generations (pl_next q)) (pr_generations (pl_next p)) \<and>
     gv_evidence (pr_generations (pl_next q)) \<in>
       {gv_evidence (pr_generations (pl_next p)), gen_advance (gv_evidence (pr_generations (pl_next p)))}"

lemma same_but_evidence_refl [simp]: "same_but_evidence g g"
  by (simp add: same_but_evidence_def)

lemma settles_refl: "settles p p"
  by (simp add: settles_def)

definition on_ready ::
  "(mutation_plan \<Rightarrow> applied_evidence \<Rightarrow> bool \<Rightarrow> bool) \<Rightarrow> decision \<Rightarrow> bool" where
  "on_ready P d \<longleftrightarrow> (\<forall>p a s. d = Ready p a s \<longrightarrow> P p a s)"

lemma on_readyD: "on_ready P d \<Longrightarrow> d = Ready p a s \<Longrightarrow> P p a s"
  by (simp add: on_ready_def)

lemma on_ready_intros:
  "on_ready P (Refused r)" "on_ready P (Uncertain t c o' q)" "P p a s \<Longrightarrow> on_ready P (Ready p a s)"
  "on_ready P d \<Longrightarrow> on_ready P d' \<Longrightarrow> on_ready P (if b then d else d')"
  by (simp_all add: on_ready_def)

lemma on_ready_settle: "on_ready (\<lambda>q a s. settles p q) (settle_evidence p ap)"
  unfolding settle_evidence_def Let_def
  by (rule on_ready_intros(3), cases "ae_outcome ap")
    (simp_all add: settles_def same_but_evidence_def advance_defs)

lemma on_ready_verify: "on_ready (\<lambda>q a s. settles p q) (verify_applied ad port p ap)"
  unfolding verify_applied_def Let_def
  by (cases "ab_status (ad_readback ad port)")
    (simp_all only: adapter_readback_status.case on_ready_settle on_ready_intros(2))

lemma on_ready_apply: "on_ready (\<lambda>q a s. settles p q) (apply_plan env cf port snap p)"
proof (cases "ev_adapter env")
  case None
  then show ?thesis
    unfolding apply_plan_def Let_def None option.case
    by (intro on_ready_intros(3,4) on_ready_settle settles_refl)
next
  case (Some ad)
  then show ?thesis
    unfolding apply_plan_def Let_def Some option.case
    by (intro on_ready_intros(3,4) settles_refl;
        cases "ar_status (ad_apply ad port (pl_apply_configuration p))";
        simp only: adapter_apply_status.case;
        intro on_ready_intros(1,2,4) on_ready_settle on_ready_verify)
qed

section \<open>What a ready decision has established\<close>

text \<open>
  A decision is ready only when every gate let the request through; its plan is the builder's,
  validated, stamped with the attempt and settled by the adapter.
\<close>

definition gates_passed ::
  "environment \<Rightarrow> mutation_envelope \<Rightarrow> port_mutation_kind \<Rightarrow> string \<Rightarrow> port_record \<Rightarrow> engine \<Rightarrow>
   capability_binding \<Rightarrow> bool" where
  "gates_passed env envelope kind payload snap e evidence \<longleftrightarrow>
     gate_replay envelope kind payload snap = None \<and>
     gate_expectations envelope kind (en_topology e) snap = None \<and>
     gate_ownership (en_config e) envelope kind snap = None \<and>
     gate_device envelope kind (device_generation (pr_parent_device snap) e) snap = None \<and>
     (if needs_capability kind then resolve_capabilities env snap else Inr no_binding) = Inr evidence"

lemma decide_not_refused:
  assumes "decide env envelope kind payload build fallback snap e = d" "\<forall>r. d \<noteq> Refused r"
  obtains evidence where "gates_passed env envelope kind payload snap e evidence"
    "gate_plan snap (build (mutation_input e kind snap evidence)) = None"
    "apply_plan env (en_config e) (me_port envelope) snap
       (stamp envelope payload fallback (build (mutation_input e kind snap evidence))) = d"
proof -
  have 1: "gate_replay envelope kind payload snap = None"
    using assms by (cases "gate_replay envelope kind payload snap") (auto simp: decide_def)
  have 2: "gate_expectations envelope kind (en_topology e) snap = None"
    using assms 1
    by (cases "gate_expectations envelope kind (en_topology e) snap") (auto simp: decide_def)
  have 3: "gate_ownership (en_config e) envelope kind snap = None"
    using assms 1 2 by (cases "gate_ownership (en_config e) envelope kind snap") (auto simp: decide_def)
  have 4: "gate_device envelope kind (device_generation (pr_parent_device snap) e) snap = None"
    using assms 1 2 3
    by (cases "gate_device envelope kind (device_generation (pr_parent_device snap) e) snap")
      (auto simp: decide_def)
  let ?c = "if needs_capability kind then resolve_capabilities env snap else Inr no_binding"
  obtain evidence where 5: "?c = Inr evidence"
    using assms 1 2 3 4 by (cases ?c) (auto simp: decide_def)
  have 6: "gate_plan snap (build (mutation_input e kind snap evidence)) = None"
    using assms 1 2 3 4 5
    by (cases "gate_plan snap (build (mutation_input e kind snap evidence))")
      (auto simp: decide_def Let_def)
  show thesis
    by (rule that [of evidence])
      (use assms(1) 1 2 3 4 5 6 in \<open>simp_all add: gates_passed_def decide_def Let_def\<close>)
qed

text \<open>When each gate lets a request through.\<close>

lemma gate_replay_None:
  "gate_replay envelope kind payload snap = None \<longleftrightarrow>
     pr_lifecycle snap \<noteq> LC_Retired \<and>
     \<not> (last_mutation_valid (pr_last_mutation snap) \<and>
        lm_attempt (pr_last_mutation snap) = au_attempt (me_authority envelope))"
  by (cases "kind = MK_Retire") (auto simp: gate_replay_def)

lemma gate_expectations_None:
  "gate_expectations envelope kind topology snap = None \<longleftrightarrow>
     (gen_valid (au_expected_topology (me_authority envelope)) \<longrightarrow>
        au_expected_topology (me_authority envelope) = topology) \<and>
     (gen_valid (au_expected_capability (me_authority envelope)) \<longrightarrow>
        au_expected_capability (me_authority envelope) = gv_capability (pr_generations snap)) \<and>
     (needs_configuration_expectation kind \<or> gen_valid (au_expected_configuration (me_authority envelope)) \<longrightarrow>
        au_expected_configuration (me_authority envelope) = gv_configuration (pr_generations snap))"
  by (auto simp: gate_expectations_def Let_def)

lemma gate_ownership_None:
  "gate_ownership cf envelope kind snap = None \<longleftrightarrow>
     (cf_require_ownership cf \<and> kind \<noteq> MK_ClaimOwnership \<longrightarrow>
        (pr_ownership snap = None \<longrightarrow> pr_configuration snap = None) \<and>
        (\<forall>w. pr_ownership snap = Some w \<longrightarrow>
           (id_valid (au_ownership (me_authority envelope)) \<longrightarrow>
              au_ownership (me_authority envelope) = ow_id w) \<and>
           (gen_valid (au_ownership_generation (me_authority envelope)) \<longrightarrow>
              au_ownership_generation (me_authority envelope) = gv_ownership (pr_generations snap)) \<and>
           (kind \<in> {MK_TransferOwnership, MK_ReleaseOwnership} \<or>
            held_by w (au_publisher (me_authority envelope)) (au_boot (me_authority envelope))
              (au_epoch (me_authority envelope)))))"
  by (cases "pr_ownership snap"; cases "pr_configuration snap") (auto simp: gate_ownership_def Let_def)

lemma gate_device_None:
  "gate_device envelope kind device snap = None \<longleftrightarrow>
     (\<forall>g. device = Some g \<and> \<not> reconcile_kind kind \<longrightarrow>
        (gen_valid (au_expected_device (me_authority envelope)) \<longrightarrow>
           au_expected_device (me_authority envelope) = g) \<and>
        g = gv_device (pr_generations snap))"
  by (cases device) (auto simp: gate_device_def Let_def)

lemmas gate_None = gate_replay_None gate_expectations_None gate_ownership_None gate_device_None

lemma gate_plan_None:
  "gate_plan snap p = None \<longleftrightarrow>
     pl_failure p = OC_Ok \<and> record_validate (pl_next p) = None \<and>
     (pl_requires_capability_validation p \<longrightarrow>
        (\<exists>c. pr_configuration (pl_next p) = Some c \<and>
           cv_accepted (validate_against_capabilities c (pl_capability p))))"
proof (cases "record_validate (pl_next p)")
  case (Some err)
  then show ?thesis by (simp add: gate_plan_def)
next
  case None
  then show ?thesis
    by (cases "pr_configuration (pl_next p)") (auto simp: gate_plan_def Let_def)
qed

lemma stamp_fields [simp]:
  "pl_expected (stamp envelope payload fb p) = pl_expected p"
  "pr_port (pl_next (stamp envelope payload fb p)) = pr_port (pl_next p)"
  "pr_parent_device (pl_next (stamp envelope payload fb p)) = pr_parent_device (pl_next p)"
  "pr_lifecycle (pl_next (stamp envelope payload fb p)) = pr_lifecycle (pl_next p)"
  "pr_configuration (pl_next (stamp envelope payload fb p)) = pr_configuration (pl_next p)"
  "pr_ownership (pl_next (stamp envelope payload fb p)) = pr_ownership (pl_next p)"
  "pr_capability (pl_next (stamp envelope payload fb p)) = pr_capability (pl_next p)"
  "pr_generations (pl_next (stamp envelope payload fb p)) = pr_generations (pl_next p)"
  "pr_status_reason (pl_next (stamp envelope payload fb p)) = pr_status_reason (pl_next p)"
  "pr_status_detail (pl_next (stamp envelope payload fb p)) = pr_status_detail (pl_next p)"
  "lm_attempt (pr_last_mutation (pl_next (stamp envelope payload fb p))) =
     au_attempt (me_authority envelope)"
  "lm_payload_digest (pr_last_mutation (pl_next (stamp envelope payload fb p))) = payload_digest payload"
  "lm_result_generation (pr_last_mutation (pl_next (stamp envelope payload fb p))) =
     gv_configuration (pr_generations (pl_next p))"
  by (simp_all add: stamp_def)

lemma committed_fields [simp]:
  "pr_port (committed_record p v a s) = pr_port (pl_next p)"
  "pr_parent_device (committed_record p v a s) = pr_parent_device (pl_next p)"
  "pr_lifecycle (committed_record p v a s) = pr_lifecycle (pl_next p)"
  "pr_configuration (committed_record p v a s) = pr_configuration (pl_next p)"
  "pr_ownership (committed_record p v a s) = pr_ownership (pl_next p)"
  "pr_capability (committed_record p v a s) = pr_capability (pl_next p)"
  "pr_generations (committed_record p v a s) = pr_generations (pl_next p)"
  "pr_drift (committed_record p v a s) = pr_drift (pl_next p)"
  "pr_last_mutation (committed_record p v a s) = pr_last_mutation (pl_next p)"
  "pr_status_reason (committed_record p v a s) = pr_status_reason (pl_next p)"
  "pr_status_detail (committed_record p v a s) = pr_status_detail (pl_next p)"
  by (simp_all add: committed_record_def Let_def)

text \<open>The record a ready decision commits, and the record it was decided on.\<close>

definition commits :: "port_record \<Rightarrow> port_record \<Rightarrow> mutation_plan \<Rightarrow> mutation_envelope \<Rightarrow> string \<Rightarrow> bool"
  where
  "commits snap r p0 envelope payload \<longleftrightarrow>
     pr_port r = pr_port (pl_next p0) \<and> pr_parent_device r = pr_parent_device (pl_next p0) \<and>
     pr_lifecycle r = pr_lifecycle (pl_next p0) \<and> pr_configuration r = pr_configuration (pl_next p0) \<and>
     pr_ownership r = pr_ownership (pl_next p0) \<and> pr_capability r = pr_capability (pl_next p0) \<and>
     pr_status_reason r = pr_status_reason (pl_next p0) \<and>
     pr_status_detail r = pr_status_detail (pl_next p0) \<and>
     same_but_evidence (pr_generations r) (pr_generations (pl_next p0)) \<and>
     lm_attempt (pr_last_mutation r) = au_attempt (me_authority envelope) \<and>
     lm_payload_digest (pr_last_mutation r) = payload_digest payload \<and>
     lm_result_generation (pr_last_mutation r) = gv_configuration (pr_generations r)"

lemma decide_ready:
  assumes "decide env envelope kind payload build fallback snap e = Ready p a s"
  obtains evidence where "gates_passed env envelope kind payload snap e evidence"
    "gate_plan snap (build (mutation_input e kind snap evidence)) = None"
    "pl_expected p = pl_expected (build (mutation_input e kind snap evidence))"
    "commits snap (committed_record p v a s) (build (mutation_input e kind snap evidence)) envelope payload"
proof -
  obtain evidence where ev: "gates_passed env envelope kind payload snap e evidence"
    "gate_plan snap (build (mutation_input e kind snap evidence)) = None"
    "apply_plan env (en_config e) (me_port envelope) snap
       (stamp envelope payload fallback (build (mutation_input e kind snap evidence))) = Ready p a s"
    using decide_not_refused [OF assms] by auto
  let ?p0 = "build (mutation_input e kind snap evidence)"
  have "settles (stamp envelope payload fallback ?p0) p" by (rule on_readyD [OF on_ready_apply ev(3)])
  then have "commits snap (committed_record p v a s) ?p0 envelope payload"
    "pl_expected p = pl_expected ?p0"
    by (simp_all add: commits_def settles_def same_but_evidence_def)
  with ev show thesis by (intro that [of evidence])
qed

section \<open>Every mutation keeps the invariant\<close>

lemma record_core_ok_commits:
  assumes "record_core_ok (pl_next p0)" "commits snap r p0 envelope payload"
  shows "record_core_ok r"
  using assms by (auto simp: record_core_ok_def commits_def same_but_evidence_def)

lemma device_known_commits:
  "device_known e (pl_next p0) \<Longrightarrow> commits snap r p0 envelope payload \<Longrightarrow> device_known e r"
  by (auto simp: device_known_def commits_def)

lemma uncertain_fields [simp]:
  "pr_port (uncertain_record env au g oc d r) = pr_port r"
  "pr_parent_device (uncertain_record env au g oc d r) = pr_parent_device r"
  "pr_configuration (uncertain_record env au g oc d r) = pr_configuration r"
  "pr_ownership (uncertain_record env au g oc d r) = pr_ownership r"
  "pr_capability (uncertain_record env au g oc d r) = pr_capability r"
  "pr_last_mutation (uncertain_record env au g oc d r) = pr_last_mutation r"
  "gv_configuration (pr_generations (uncertain_record env au g oc d r)) = gv_configuration (pr_generations r)"
  "gv_ownership (pr_generations (uncertain_record env au g oc d r)) = gv_ownership (pr_generations r)"
  "gv_administrative (pr_generations (uncertain_record env au g oc d r)) =
     gv_administrative (pr_generations r)"
  "gv_device (pr_generations (uncertain_record env au g oc d r)) = gv_device (pr_generations r)"
  "gv_topology (pr_generations (uncertain_record env au g oc d r)) = gv_topology (pr_generations r)"
  "gv_capability (pr_generations (uncertain_record env au g oc d r)) = gv_capability (pr_generations r)"
  "gv_evidence (pr_generations (uncertain_record env au g oc d r)) =
     gen_advance (gv_evidence (pr_generations r))"
  by (simp_all add: uncertain_record_def Let_def advance_defs)

lemma uncertain_lifecycle:
  "pr_lifecycle (uncertain_record env au g Applied_OutcomeUnknown d r) =
     (if pr_lifecycle r \<in> {LC_Retired, LC_Superseded} then pr_lifecycle r else LC_RevalidationRequired)"
  by (simp add: uncertain_record_def Let_def advance_defs)

lemma record_core_ok_uncertain:
  "record_core_ok r \<Longrightarrow> record_core_ok (uncertain_record env au g Applied_OutcomeUnknown d r)"
  by (auto simp: record_core_ok_def uncertain_lifecycle split: if_splits)

lemma device_known_uncertain: "device_known e (uncertain_record env au g Applied_OutcomeUnknown d r)"
  by (auto simp: device_known_def uncertain_lifecycle is_live_def)

lemma record_apply_uncertainty_ok:
  assumes "engine_ok e"
  shows "engine_ok (snd (record_apply_uncertainty env port au g Applied_OutcomeUnknown d code e))"
proof (cases "port_of e port")
  case None
  with assms show ?thesis by (simp add: record_apply_uncertainty_def)
next
  case (Some before)
  have "engine_ok (store_record before (uncertain_record env au g Applied_OutcomeUnknown d before) e)"
    using engine_okD [OF assms Some]
    by (intro engine_ok_store [OF assms Some]) (simp_all add: record_core_ok_uncertain device_known_uncertain)
  with Some show ?thesis
    by (simp add: record_apply_uncertainty_def Let_def engine_ok_frame)
qed

text \<open>A result whose code no branch that writes the state reports.\<close>

definition quiet_code :: "outcome_code \<Rightarrow> bool" where
  "quiet_code c \<longleftrightarrow>
     c \<notin> {OC_Ok, OC_PersistenceIoFailure, OC_ApplyOutcomeUnknown, OC_ReadbackMismatch}"

definition quiet :: "mutation_result \<Rightarrow> bool" where
  "quiet r \<longleftrightarrow> quiet_code (oc_code (mr_outcome r))"

lemma quiet_code_simps [simp]:
  "quiet_code OC_ShuttingDown" "quiet_code OC_MalformedRequest" "quiet_code OC_UnknownPort"
  "quiet_code OC_PortRetired" "quiet_code OC_Idempotent" "quiet_code OC_AlreadyCurrent"
  "quiet_code OC_ConflictDetected" "quiet_code OC_StaleTopologyGeneration"
  "quiet_code OC_StaleCapabilityGeneration" "quiet_code OC_StaleConfigurationGeneration"
  "quiet_code OC_StaleOwnershipGeneration" "quiet_code OC_UnauthorizedOwner"
  "quiet_code OC_StaleDeviceGeneration" "quiet_code OC_CapabilityUnavailable"
  "quiet_code OC_CapabilityUnknown" "quiet_code OC_InvalidConfiguration" "quiet_code OC_InternalError"
  "quiet_code OC_ApplyFailed" "quiet_code OC_ResourceBoundExceeded" "quiet_code OC_UnknownPublisher"
  "quiet_code OC_StaleCoordinatorEpoch" "quiet_code OC_StaleWorkerBoot" "quiet_code OC_PublisherFenced"
  by (simp_all add: quiet_code_def)

lemma refusal_quiet: "refusal_code c \<Longrightarrow> quiet_code c"
  by (simp add: refusal_code_def quiet_code_def)

text \<open>A result that reports the state of a record.\<close>

definition reports :: "mutation_result \<Rightarrow> port_record \<Rightarrow> bool" where
  "reports res r \<longleftrightarrow>
     mr_lifecycle res = pr_lifecycle r \<and> mr_record_digest res = digest_record r \<and>
     mr_configuration_generation res = gv_configuration (pr_generations r) \<and>
     mr_ownership_generation res = gv_ownership (pr_generations r)"

lemma reports_simps [simp]:
  "reports (reporting r res) r" "reports (because c d res) r = reports res r"
  by (simp_all add: reports_def reporting_def because_def)

lemma explain_commit_outcome [simp]:
  "mr_outcome (explain_commit k p res) = mr_outcome res"
  "reports (explain_commit k p res) r = reports res r"
  by (simp_all add: explain_commit_def Let_def split: option.split)

text \<open>The three ways a commit ends.\<close>

lemma commit_cases:
  obtains (unbound) "port_of e port = None" "commit env port x p v a s e = (refuse_unknown_port port, e)"
  | (answered) cur r where "port_of e port = Some cur"
      "commit_answer port x p cur (en_generation e) = Some r" "commit env port x p v a s e = (r, e)"
  | (stored) cur e' d where "port_of e port = Some cur"
      "commit_answer port x p cur (en_generation e) = None"
      "e' = (store_record cur (committed_record p v a s) e)
              \<lparr>en_generation := gen_next (en_generation e), en_durability_dirty := d\<rparr>"
      "snd (commit env port x p v a s e) = e'"
      "oc_code (mr_outcome (fst (commit env port x p v a s e))) \<in> {OC_Ok, OC_PersistenceIoFailure}"
      "reports (fst (commit env port x p v a s e)) (committed_record p v a s)"
proof (cases "port_of e port")
  case None
  then show thesis by (intro unbound) (simp_all add: commit_def)
next
  case (Some cur)
  show thesis
  proof (cases "commit_answer port x p cur (en_generation e)")
    case (Some r)
    with \<open>port_of e port = Some cur\<close> show thesis by (intro answered) (simp_all add: commit_def)
  next
    case None
    let ?m = "(store_record cur (committed_record p v a s) e)\<lparr>en_generation := gen_next (en_generation e)\<rparr>"
    have m: "en_generation (store_record cur (committed_record p v a s) e) = en_generation e" by simp
    from persist_state [of env ?m]
    obtain d where "snd (persist_locked_state env ?m) = ?m\<lparr>en_durability_dirty := d\<rparr>"
    proof
      assume "snd (persist_locked_state env ?m) = ?m"
      then show ?thesis by (intro that [of "en_durability_dirty ?m"]) simp
    qed (auto intro: that)
    with \<open>port_of e port = Some cur\<close> None show thesis
      by (intro stored [of cur "?m\<lparr>en_durability_dirty := d\<rparr>" d])
        (simp_all add: commit_def Let_def split_beta)
  qed
qed

lemma commit_answer_code:
  "answers quiet (commit_answer port x p cur g)"
  unfolding commit_answer_def by (intro gate_intros) (simp_all add: quiet_def)

lemma commit_answer_None:
  assumes "commit_answer port x p cur g = None"
  shows "expected_matches x cur" "pr_lifecycle cur = LC_Retired \<longrightarrow> pr_lifecycle (pl_next p) = LC_Retired"
    "\<not> gen_exhaustible g"
    "\<not> (id_valid (lm_attempt (pr_last_mutation cur)) \<and>
        lm_attempt (pr_last_mutation cur) = lm_attempt (pr_last_mutation (pl_next p)))"
  using assms by (simp_all add: commit_answer_def split: if_split_asm)

lemma gate_replay_not_retired:
  "gate_replay envelope kind payload snap = None \<Longrightarrow> pr_lifecycle snap \<noteq> LC_Retired"
  by (simp add: gate_replay_None)

text \<open>
  A ready decision taken on the current record of a sound runtime may be committed: its record
  is well formed and its device known.
\<close>

lemma ready_record_ok:
  assumes "mutation_builder build" "engine_ok e" "port_of e port = Some snap"
    "decide env envelope kind payload build fallback snap e = Ready p a s"
  shows "record_core_ok (committed_record p v a s)" "pr_port (committed_record p v a s) = port"
    "device_known e (committed_record p v a s)" "pl_expected p = capture_expected snap"
proof -
  obtain evidence where ev: "gates_passed env envelope kind payload snap e evidence"
    "gate_plan snap (build (mutation_input e kind snap evidence)) = None"
    "pl_expected p = pl_expected (build (mutation_input e kind snap evidence))"
    "commits snap (committed_record p v a s) (build (mutation_input e kind snap evidence)) envelope payload"
    by (rule decide_ready [OF assms(4)])
  let ?inp = "mutation_input e kind snap evidence"
  have core: "record_core_ok (bi_current ?inp)" "device_known e (bi_current ?inp)"
    using engine_okD [OF assms(2,3)] by (simp_all add: mutation_input_def)
  have live: "pr_lifecycle (bi_current ?inp) \<noteq> LC_Retired"
    using ev(1) gate_replay_not_retired by (auto simp: gates_passed_def mutation_input_def)
  have ok: "pl_failure (build ?inp) = OC_Ok" "record_validate (pl_next (build ?inp)) = None"
    using ev(2) by (simp_all add: gate_plan_None)
  have dev: "bi_parent_device_generation ?inp = map_option dv_generation
       (map_of (en_devices e) (pr_parent_device (bi_current ?inp)))"
    by (simp add: mutation_input_def device_generation_def)
  have plan: "plan_ok ?inp (build ?inp)"
    by (rule mutation_builder.accepts [OF assms(1) core(1) live ok(1)])
  show "record_core_ok (committed_record p v a s)"
    using mutation_builder.next_core_ok [OF assms(1) core(1) live ok] ev(4)
    by (rule record_core_ok_commits)
  show "device_known e (committed_record p v a s)"
    using mutation_builder.next_device_known [OF assms(1) core(1) live ok(1) core(2) dev] ev(4)
    by (rule device_known_commits)
  show "pr_port (committed_record p v a s) = port"
    using plan ev(4) engine_okD(1) [OF assms(2,3)]
    by (simp add: plan_ok_def Let_def commits_def mutation_input_def)
  show "pl_expected p = capture_expected snap"
    using plan ev(3) by (simp add: plan_ok_def Let_def mutation_input_def)
qed

text \<open>The runtime as the authority gate leaves it: the publisher may have been registered.\<close>

definition admitted :: "mutation_request \<Rightarrow> engine \<Rightarrow> engine" where
  "admitted q e = snd (check_authority (me_authority (request_envelope q)) e)"

lemma admitted_frame [simp]:
  "en_config (admitted q e) = en_config e" "en_records (admitted q e) = en_records e"
  "en_indexes (admitted q e) = en_indexes e" "en_generation (admitted q e) = en_generation e"
  "en_profiles (admitted q e) = en_profiles e" "en_epoch (admitted q e) = en_epoch e"
  "en_topology (admitted q e) = en_topology e" "en_devices (admitted q e) = en_devices e"
  "en_shutting_down (admitted q e) = en_shutting_down e" "port_of (admitted q e) = port_of e"
  "device_generation d (admitted q e) = device_generation d e"
  by (simp_all add: admitted_def device_generation_def)

lemma admitted_ok: "engine_ok e \<Longrightarrow> engine_ok (admitted q e)"
  by (simp add: admitted_def check_authority_ok)

abbreviation target :: "mutation_request \<Rightarrow> strong_id" where
  "target q \<equiv> me_port (request_envelope q)"

abbreviation caller :: "mutation_request \<Rightarrow> authority_context" where
  "caller q \<equiv> me_authority (request_envelope q)"

text \<open>The request was let through admission and the authority gate.\<close>

definition admits :: "mutation_request \<Rightarrow> engine \<Rightarrow> bool" where
  "admits q e \<longleftrightarrow> gate_admission e (request_envelope q) = None \<and> authority_refusal (caller q) e = None"

definition decision_of :: "environment \<Rightarrow> mutation_request \<Rightarrow> port_record \<Rightarrow> engine \<Rightarrow> decision" where
  "decision_of env q snap e =
     decide env (request_envelope q) (request_kind q) (request_payload q) (request_build q)
       (request_fallback q) snap e"

definition plan_of :: "mutation_request \<Rightarrow> port_record \<Rightarrow> capability_binding \<Rightarrow> engine \<Rightarrow> mutation_plan" where
  "plan_of q snap evidence e = request_build q (mutation_input e (request_kind q) snap evidence)"

lemma mutation_input_admitted [simp]:
  "mutation_input (admitted q e) kind snap evidence = mutation_input e kind snap evidence"
  by (simp add: mutation_input_def)

lemma decision_of_admitted [simp]: "decision_of env q snap (admitted q' e) = decision_of env q snap e"
  unfolding decision_of_def decide_def Let_def admitted_frame mutation_input_admitted ..

lemma mutate_eq:
  "mutate env q e =
     (case gate_admission e (request_envelope q) of
        Some r \<Rightarrow> (r, e)
      | None \<Rightarrow>
        (case authority_refusal (caller q) e of
           Some oc \<Rightarrow> (refuse_authority oc, e)
         | None \<Rightarrow>
           (case port_of e (target q) of
              None \<Rightarrow> (refuse_unknown_port (target q), admitted q e)
            | Some snap \<Rightarrow> conclude_decision env (request_envelope q) (request_kind q)
                (decision_of env q snap e) (admitted q e))))"
proof -
  obtain oc where oc: "check_authority (caller q) e = (oc, admitted q e)"
    by (cases "check_authority (caller q) e") (simp add: admitted_def)
  have ok: "outcome_ok oc \<longleftrightarrow> authority_refusal (caller q) e = None"
    using check_authority_admit_iff [of "caller q" e] by (simp add: oc)
  have refusal: "r = oc \<and> admitted q e = e" if "authority_refusal (caller q) e = Some r" for r
    using that oc by (auto simp: check_authority_def)
  have d: "decide env (request_envelope q) (request_kind q) (request_payload q) (request_build q)
      (request_fallback q) snap (admitted q e) = decision_of env q snap e" for snap
    using decision_of_admitted [of env q snap q e] by (simp only: decision_of_def)
  show ?thesis
  proof (cases "gate_admission e (request_envelope q)")
    case (Some r)
    then show ?thesis by (simp add: mutate_def execute_mutation_def)
  next
    case admitted: None
    show ?thesis
    proof (cases "authority_refusal (caller q) e")
      case (Some r)
      with refusal [OF Some] ok have "oc = r" "admitted q e = e" "\<not> outcome_ok r" by auto
      with admitted Some oc show ?thesis by (simp add: mutate_def execute_mutation_def)
    next
      case None
      with ok have "outcome_ok oc" by simp
      with admitted None show ?thesis
        by (cases "port_of e (target q)") (simp_all add: mutate_def execute_mutation_def oc d)
    qed
  qed
qed

lemma gate_codes:
  "answers quiet (gate_admission e envelope)"
  "answers quiet (gate_replay envelope kind payload snap)"
  "answers quiet (gate_expectations envelope kind t snap)"
  "answers quiet (gate_ownership cf envelope kind snap)"
  "answers quiet (gate_device envelope kind d snap)"
  unfolding gate_admission_def gate_replay_def gate_expectations_def gate_ownership_def gate_device_def
    Let_def
  by (intro gate_intros; simp add: quiet_def)+

lemma gate_plan_code:
  assumes "pl_failure p = OC_Ok \<or> refusal_code (pl_failure p)" "gate_plan snap p = Some r"
  shows "quiet r"
proof -
  have "quiet_code (cv_code (validate_against_capabilities c b))"
    if "\<not> cv_accepted (validate_against_capabilities c b)" for c b
    using capability_verdict_coherent [of c b] that
    by (auto simp: cv_coherent_def capability_code_def quiet_code_def)
  with assms show ?thesis
    by (cases "record_validate (pl_next p)"; cases "pr_configuration (pl_next p)")
      (auto simp: gate_plan_def Let_def quiet_def refusal_quiet split: if_split_asm)
qed

lemma resolve_code: "resolve_capabilities env r = Inl oc \<Longrightarrow> quiet_code (oc_code oc)"
  by (auto simp: resolve_capabilities_def split: if_split_asm option.split_asm prod.split_asm)

lemma refuse_authority_quiet: "authority_refusal au e = Some oc \<Longrightarrow> quiet (refuse_authority oc)"
  using answersD [OF authority_refusal_code [of au e], of oc]
  by (auto simp: refuse_authority_def quiet_def)

lemma refused_code:
  assumes "decision_of env q snap e = Refused r"
  shows "quiet r"
proof -
  define on_refused where "on_refused d \<longleftrightarrow> (\<forall>r. d = Refused r \<longrightarrow> quiet r)" for d
  have settle: "on_refused (settle_evidence p ap)" for p ap
    by (simp add: on_refused_def settle_evidence_def Let_def)
  have verify: "on_refused (verify_applied ad port p ap)" for ad port p ap
    using settle by (cases "ab_status (ad_readback ad port)")
      (simp_all add: verify_applied_def Let_def, simp_all add: on_refused_def)
  have app: "on_refused (apply_plan env cf port snap p)" for cf port p
  proof (cases "ev_adapter env")
    case None
    then show ?thesis using settle by (simp add: apply_plan_def Let_def) (simp add: on_refused_def)
  next
    case (Some ad)
    show ?thesis
      using settle verify
      by (cases "ar_status (ad_apply ad port (pl_apply_configuration p))")
        (simp_all add: apply_plan_def Let_def Some, simp_all add: on_refused_def quiet_def)
  qed
  have rejects: "pl_failure (request_build q inp) = OC_Ok \<or> refusal_code (pl_failure (request_build q inp))"
    for inp by (rule mutation_builder.rejects [OF request_builder])
  have "on_refused (decision_of env q snap e)"
    unfolding decision_of_def decide_def Let_def
    using answersD [OF gate_codes(2)] answersD [OF gate_codes(3)] answersD [OF gate_codes(4)]
      answersD [OF gate_codes(5)] gate_plan_code [OF rejects] resolve_code app
    by (simp split: option.split sum.split)
      (auto simp: on_refused_def refuse_capability_def quiet_def split: if_split_asm)
  with assms show ?thesis by (simp add: on_refused_def)
qed

lemma uncertain_code:
  assumes "decision_of env q snap e = Uncertain t c override p"
  shows "c \<in> {OC_ApplyOutcomeUnknown, OC_ReadbackMismatch} \<and>
    (\<forall>r. override = Some r \<longrightarrow> oc_code (mr_outcome r) = OC_ReadbackMismatch) \<and>
    (\<exists>evidence. gates_passed env (request_envelope q) (request_kind q) (request_payload q) snap e evidence \<and>
       gate_plan snap (plan_of q snap evidence e) = None)"
proof -
  define codes where "codes d \<longleftrightarrow> (\<forall>t c override p. d = Uncertain t c override p \<longrightarrow>
    c \<in> {OC_ApplyOutcomeUnknown, OC_ReadbackMismatch} \<and>
    (\<forall>r. override = Some r \<longrightarrow> oc_code (mr_outcome r) = OC_ReadbackMismatch))" for d
  have settle: "codes (settle_evidence p ap)" for p ap
    by (simp add: codes_def settle_evidence_def Let_def)
  have verify: "codes (verify_applied ad port p ap)" for ad port p ap
    using settle by (cases "ab_status (ad_readback ad port)")
      (simp_all add: verify_applied_def Let_def, simp_all add: codes_def)
  have app: "codes (apply_plan env cf port snap p)" for cf port p
  proof (cases "ev_adapter env")
    case None
    then show ?thesis using settle by (simp add: apply_plan_def Let_def) (simp add: codes_def)
  next
    case (Some ad)
    show ?thesis
      using settle verify
      by (cases "ar_status (ad_apply ad port (pl_apply_configuration p))")
        (simp_all add: apply_plan_def Let_def Some, simp_all add: codes_def)
  qed
  obtain evidence where ev: "gates_passed env (request_envelope q) (request_kind q) (request_payload q) snap e evidence"
    "apply_plan env (en_config e) (target q) snap (stamp (request_envelope q) (request_payload q)
       (request_fallback q) (request_build q (mutation_input e (request_kind q) snap evidence))) =
     Uncertain t c override p"
    "gate_plan snap (plan_of q snap evidence e) = None"
    by (rule decide_not_refused [OF assms [unfolded decision_of_def]]) (auto simp: plan_of_def)
  have "codes (Uncertain t c override p)" unfolding ev(2) [symmetric] by (rule app)
  with ev(1,3) show ?thesis by (auto simp: codes_def)
qed

text \<open>The four ways a mutation ends.\<close>

lemma mutate_cases:
  obtains (unchanged) "snd (mutate env q e) = e \<or> snd (mutate env q e) = admitted q e"
      "quiet (fst (mutate env q e))"
  | (uncertain) snap t c override p where "admits q e" "port_of e (target q) = Some snap"
      "decision_of env q snap e = Uncertain t c override p"
      "snd (mutate env q e) = snd (record_apply_uncertainty env (target q) (caller q)
         (gv_configuration (pr_generations (pl_next p))) Applied_OutcomeUnknown t c (admitted q e))"
      "oc_code (mr_outcome (fst (mutate env q e))) \<in> {OC_ApplyOutcomeUnknown, OC_ReadbackMismatch}"
  | (committed) snap p a s d where "admits q e" "port_of e (target q) = Some snap"
      "decision_of env q snap e = Ready p a s"
      "commit_answer (target q) (pl_expected p) p snap (en_generation e) = None"
      "snd (mutate env q e) =
         (store_record snap (committed_record p (pr_provenance (pl_next p)) a s) (admitted q e))
           \<lparr>en_generation := gen_next (en_generation e), en_durability_dirty := d\<rparr>"
      "oc_code (mr_outcome (fst (mutate env q e))) \<in> {OC_Ok, OC_PersistenceIoFailure}"
      "reports (fst (mutate env q e)) (committed_record p (pr_provenance (pl_next p)) a s)"
proof (cases "admits q e")
  case False
  then show thesis
    using answersD [OF gate_codes(1)] refuse_authority_quiet [of "caller q" e]
    by (intro unchanged) (auto simp: mutate_eq admits_def split: option.split)
next
  case admit: True
  then have eq: "mutate env q e = (case port_of e (target q) of
        None \<Rightarrow> (refuse_unknown_port (target q), admitted q e)
      | Some snap \<Rightarrow> conclude_decision env (request_envelope q) (request_kind q)
          (decision_of env q snap e) (admitted q e))"
    by (simp add: mutate_eq admits_def)
  show thesis
  proof (cases "port_of e (target q)")
    case None
    then show thesis by (intro unchanged) (simp_all add: eq refuse_unknown_port_def quiet_def)
  next
    case (Some snap)
    show thesis
    proof (cases "decision_of env q snap e")
      case (Refused r)
      with Some refused_code [OF Refused] show thesis
        by (intro unchanged) (simp_all add: eq conclude_decision_def)
    next
      case (Uncertain t c override p)
      note codes = uncertain_code [OF Uncertain]
      have "oc_code (mr_outcome (fst (record_apply_uncertainty env (target q) (caller q)
          g Applied_OutcomeUnknown t c (admitted q e)))) = c" for g
        using Some by (simp add: record_apply_uncertainty_def Let_def)
      with codes Some Uncertain admit show thesis
        by (intro uncertain [of snap t c override p])
          (auto simp: eq conclude_decision_def split_beta split: option.split)
    next
      case (Ready p a s)
      let ?commit = "commit env (target q) (pl_expected p) p (pr_provenance (pl_next p)) a s (admitted q e)"
      have result: "mutate env q e = (explain_commit (request_kind q) p (fst ?commit), snd ?commit)"
        using Some Ready by (simp add: eq conclude_decision_def split_beta)
      show thesis
      proof (cases rule: commit_cases [where env = env and e = "admitted q e" and port = "target q"
            and x = "pl_expected p" and p = p and v = "pr_provenance (pl_next p)" and a = a and s = s])
        case unbound
        with Some show thesis by simp
      next
        case (answered cur r)
        with answersD [OF commit_answer_code answered(2)] show thesis
          by (intro unchanged) (simp_all add: result quiet_def)
      next
        case (stored cur e' d)
        with Some Ready admit show thesis
          by (intro committed [of snap p a s d]) (simp_all add: result)
      qed
    qed
  qed
qed

lemma mutate_ok: "engine_ok e \<Longrightarrow> engine_ok (snd (mutate env q e))"
proof (cases rule: mutate_cases [where env = env and q = q and e = e])
  case unchanged
  then show "engine_ok e \<Longrightarrow> ?thesis" by (auto simp: admitted_ok)
next
  case (uncertain snap t c override p)
  then show "engine_ok e \<Longrightarrow> ?thesis" by (simp add: record_apply_uncertainty_ok admitted_ok)
next
  case (committed snap p a s d)
  assume ok: "engine_ok e"
  note ready = ready_record_ok [OF request_builder ok committed(2)
      committed(3) [unfolded decision_of_def]]
  have "device_known (admitted q e) r" if "device_known e r" for r
    using that by (simp add: device_known_def)
  with ready have "engine_ok (store_record snap (committed_record p (pr_provenance (pl_next p)) a s) (admitted q e))"
    using committed(2) by (intro engine_ok_store [OF admitted_ok [OF ok]]) simp_all
  then have "engine_ok ((store_record snap (committed_record p (pr_provenance (pl_next p)) a s) (admitted q e))
      \<lparr>en_generation := gen_next (en_generation e)\<rparr>\<lparr>en_durability_dirty := d\<rparr>)"
    by (simp only: engine_ok_frame)
  with committed(5) show ?thesis by simp
qed

text \<open>Everything a committed mutation has established, in one place.\<close>

lemma mutate_commits:
  assumes "engine_ok e" "oc_code (mr_outcome (fst (mutate env q e))) \<in> {OC_Ok, OC_PersistenceIoFailure}"
  obtains snap r evidence p a s where "admits q e" "port_of e (target q) = Some snap"
    "decision_of env q snap e = Ready p a s"
    "gates_passed env (request_envelope q) (request_kind q) (request_payload q) snap e evidence"
    "gate_plan snap (plan_of q snap evidence e) = None"
    "plan_ok (mutation_input e (request_kind q) snap evidence) (plan_of q snap evidence e)"
    "r = committed_record p (pr_provenance (pl_next p)) a s"
    "commits snap r (plan_of q snap evidence e) (request_envelope q) (request_payload q)"
    "port_of (snd (mutate env q e)) = (port_of e)(target q \<mapsto> r)"
    "en_generation (snd (mutate env q e)) = gen_next (en_generation e)"
    "\<not> gen_exhaustible (en_generation e)"
    "record_core_ok r" "pr_port snap = target q" "reports (fst (mutate env q e)) r"
proof (cases rule: mutate_cases [where env = env and q = q and e = e])
  case unchanged
  with assms(2) show thesis by (auto simp: quiet_def quiet_code_def)
next
  case (uncertain snap t c override p)
  with assms(2) show thesis by auto
next
  case (committed snap p a s d)
  obtain evidence where ev:
    "gates_passed env (request_envelope q) (request_kind q) (request_payload q) snap e evidence"
    "gate_plan snap (plan_of q snap evidence e) = None"
    "commits snap (committed_record p (pr_provenance (pl_next p)) a s) (plan_of q snap evidence e)
       (request_envelope q) (request_payload q)"
    by (rule decide_ready [OF committed(3) [unfolded decision_of_def], where v = "pr_provenance (pl_next p)"])
      (auto simp: plan_of_def)
  note ok = engine_okD [OF assms(1) committed(2)]
  note ready = ready_record_ok [OF request_builder assms(1) committed(2)
      committed(3) [unfolded decision_of_def]]
  have "pr_lifecycle snap \<noteq> LC_Retired"
    using ev(1) gate_replay_not_retired by (auto simp: gates_passed_def)
  then have "plan_ok (mutation_input e (request_kind q) snap evidence) (plan_of q snap evidence e)"
    using ok ev(2) unfolding plan_of_def
    by (intro mutation_builder.accepts [OF request_builder])
      (simp_all add: mutation_input_def gate_plan_None)
  with committed ev ok ready(1) show thesis
    by (intro that [of snap p a s evidence "committed_record p (pr_provenance (pl_next p)) a s"])
      (simp_all add: commit_answer_None(3))
qed

end
