(* ===== verification/Sample.thy ===== *)
theory Sample
  imports Mutation_Safety
begin

text \<open>
  A small runtime on which the general theorems are instantiated: one publisher, one device and
  one port, before its first configuration, configured and owned, or fenced.
\<close>

definition sample_lanes :: lane_configuration where
  "sample_lanes = \<lparr>lane_count = 4, lane_rate = 25000000000\<rparr>"

definition sample_capability :: capability_binding where
  "sample_capability = no_binding\<lparr>cb_present := True, cb_generation := 5, cb_evidence_generation := 2,
     cb_capabilities := no_capabilities\<lparr>cap_certainty := Cert_Known,
       cap_supported_speeds := [100000000000], cap_lane_modes := [4], cap_max_lanes := 8,
       cap_fec_modes := [Fec_ReedSolomon544], cap_autoneg_modes := [Autoneg_Negotiated],
       cap_pause_modes := [Pause_Disabled], cap_protocol_families := [Proto_Ethernet],
       cap_mtu_min := 64, cap_mtu_max := 9216, cap_duplex := Duplex_Full\<rparr>\<rparr>"

definition sample_authority :: "strong_id \<Rightarrow> generation \<Rightarrow> authority_context" where
  "sample_authority attempt expected =
     \<lparr>au_epoch = 7, au_publisher = ''agent'', au_boot = ''boot-1'', au_ownership = [],
      au_ownership_generation = 0, au_expected_configuration = expected, au_expected_capability = 0,
      au_expected_topology = 0, au_expected_device = 0, au_attempt = attempt\<rparr>"

definition sample_envelope :: "strong_id \<Rightarrow> generation \<Rightarrow> mutation_envelope" where
  "sample_envelope attempt expected =
     \<lparr>me_authority = sample_authority attempt expected, me_port = ''p1'',
      me_provenance_kind = PK_Operator, me_provenance_source = []\<rparr>"

definition sample_request :: port_configuration where
  "sample_request = no_configuration\<lparr>pc_protocol := Proto_Ethernet,
     pc_speed := \<lparr>ss_selection = Speed_Forced, ss_rate = 100000000000\<rparr>, pc_duplex := Duplex_Full,
     pc_mtu := 9000, pc_lanes := sample_lanes, pc_autoneg := Autoneg_Negotiated, pc_fec := Fec_ReedSolomon544,
     pc_pause := Pause_Disabled\<rparr>"

definition sample_config :: port_configuration where
  "sample_config = sample_request\<lparr>pc_record := ''cfg-1'', pc_port := ''p1'',
     pc_parent_device := ''leaf'', pc_device_generation := 3, pc_topology_generation := 1,
     pc_generation := 1, pc_administrative := Adm_Enabled, pc_capability_generation := 5,
     pc_provenance := \<lparr>pv_kind = PK_Operator, pv_source = [], pv_publisher = ''agent'',
       pv_boot = ''boot-1'', pv_epoch = 7, pv_attempt = ''a0''\<rparr>\<rparr>"

definition sample_owner :: port_ownership where
  "sample_owner = \<lparr>ow_id = ''own-1'', ow_kind = Owner_SwitchAgent, ow_owner = ''agent'',
     ow_generation = 1, ow_publisher = ''agent'', ow_boot = ''boot-1'', ow_epoch = 7,
     ow_exclusive = True\<rparr>"

definition fresh_port :: port_record where
  "fresh_port = empty_record\<lparr>pr_port := ''p1'', pr_parent_device := ''leaf'',
     pr_capability := sample_capability,
     pr_generations := no_generations\<lparr>gv_capability := 5, gv_topology := 1, gv_device := 3\<rparr>\<rparr>"

definition configured_port :: port_record where
  "configured_port = fresh_port\<lparr>pr_configuration := Some sample_config, pr_lifecycle := LC_Configured,
     pr_ownership := Some sample_owner,
     pr_generations := \<lparr>gv_configuration = 1, gv_administrative = 1, gv_ownership = 1,
       gv_capability = 5, gv_topology = 1, gv_device = 3, gv_lifecycle = 1, gv_evidence = 2\<rparr>\<rparr>"

definition one_port :: "adapter_policy \<Rightarrow> port_record \<Rightarrow> engine" where
  "one_port pol r = one_agent\<lparr>
     en_devices := [(''leaf'', \<lparr>dv_device = ''leaf'', dv_generation = 3, dv_source = []\<rparr>)],
     en_config := (en_config one_agent)\<lparr>cf_adapter_policy := pol\<rparr>,
     en_records := [(pr_port r, r)], en_indexes := index_add r no_indexes\<rparr>"

definition quiet_env :: environment where
  "quiet_env = \<lparr>ev_provider = None, ev_adapter = None, ev_save = (\<lambda>_ _. success []),
     ev_load = (\<lambda>_. (success [], gather_state one_agent))\<rparr>"

lemma one_port_fields [simp]:
  "en_epoch (one_port pol r) = 7" "en_topology (one_port pol r) = 1" "en_generation (one_port pol r) = 0"
  "en_shutting_down (one_port pol r) = False" "port_of (one_port pol r) = [pr_port r \<mapsto> r]"
  "en_devices (one_port pol r) = [(''leaf'', \<lparr>dv_device = ''leaf'', dv_generation = 3, dv_source = []\<rparr>)]"
  "en_publishers (one_port pol r) =
     [(''agent'', \<lparr>pub_publisher = ''agent'', pub_boot = ''boot-1'', pub_epoch = 7, pub_fenced = False\<rparr>)]"
  "en_config (one_port pol r) = default_config\<lparr>cf_coordinator := ''core'', cf_epoch := 7, cf_adapter_policy := pol\<rparr>"
  by (simp_all add: one_port_def one_agent_publishers port_of_def)
    (simp_all add: one_agent_def engine_create_def register_publisher_def register_fresh_def
      id_valid_def gen_valid_def max_publishers_def config_valid_def default_config_def max_ports_def
      max_devices_def)

lemma one_port_ok:
  assumes "record_core_ok r" "pr_parent_device r = ''leaf''"
  shows "engine_ok (one_port pol r)"
proof -
  have "indexes_exact [pr_port r \<mapsto> r] (index_add r no_indexes)"
    using indexes_exact_add [OF indexes_exact_none, of r "pr_port r"] by simp
  moreover have "en_indexes (one_port pol r) = index_add r no_indexes"
    "en_records (one_port pol r) = [(pr_port r, r)]" "en_profiles (one_port pol r) = en_profiles one_agent"
    by (simp_all add: one_port_def)
  ultimately show ?thesis
    using one_agent_ok assms
    by (simp add: engine_ok_def om_sorted_def well_filed_def device_known_def default_config_def
        max_ports_def max_publishers_def)
qed

lemma sample_config_valid: "configuration_validate sample_config = None"
  by code_simp

lemma sample_capability_valid: "capabilities_validate (cb_capabilities sample_capability) = None"
  by code_simp

lemma sample_total: "lanes_total sample_lanes = Some 100000000000"
  by code_simp

lemma sample_covers: "evidence_covers (cb_capabilities sample_capability) sample_config"
  using sample_total
  by (simp add: evidence_covers_def sample_config_def sample_request_def sample_capability_def
      no_configuration_def no_binding_def no_capabilities_def supports_lanes_def)
    (simp add: sample_lanes_def)

text \<open>Sufficient conditions for a commit, one per stage of the pipeline.\<close>

lemma mutate_commit_ok:
  assumes "gate_admission e (request_envelope q) = None" "authority_refusal (caller q) e = None"
    "port_of e (target q) = Some snap"
    "gates_passed env (request_envelope q) (request_kind q) (request_payload q) snap e evidence"
    "gate_plan snap (plan_of q snap evidence e) = None"
    "apply_plan env (en_config e) (target q) snap (stamp (request_envelope q) (request_payload q)
       (request_fallback q) (plan_of q snap evidence e)) = Ready p a s"
    "commit_answer (target q) (pl_expected p) p snap (en_generation e) = None"
    "cf_persistence (en_config e) = Persistence_Manual"
  shows "oc_code (mr_outcome (fst (mutate env q e))) = OC_Ok"
proof -
  have d: "decision_of env q snap e = Ready p a s"
    using assms(4-6) by (simp add: decision_of_def decide_def gates_passed_def Let_def plan_of_def)
  show ?thesis
    using assms(1-3,7,8) d
    by (simp add: mutate_eq conclude_decision_def commit_def Let_def split_beta explain_commit_def
        persist_locked_state_def outcome_ok_def reporting_def result_outcome split: option.split)
qed

lemma fresh_port_fields:
  "pr_lifecycle fresh_port = LC_Unconfigured" "pr_last_mutation fresh_port = no_last_mutation"
  "pr_port fresh_port = ''p1''" "pr_parent_device fresh_port = ''leaf''"
  "pr_capability fresh_port = sample_capability" "pr_configuration fresh_port = None"
  by (simp_all add: fresh_port_def empty_record_def)

lemma fresh_port_ok: "record_core_ok fresh_port"
  by (simp add: record_core_ok_def fresh_port_def empty_record_def id_valid_def binding_valid_def
      sample_capability_def gen_valid_def)

lemma configured_port_ok: "record_core_ok configured_port"
  using sample_config_valid
  by (simp add: record_core_ok_def configured_port_def fresh_port_def empty_record_def id_valid_def
      binding_valid_def sample_capability_def gen_valid_def sample_config_def sample_owner_def
      ownership_valid_def)

lemma sample_admitted:
  assumes "request_envelope q = sample_envelope attempt g" "attempt \<noteq> []"
  shows "gate_admission (one_port pol r) (request_envelope q) = None"
    "authority_refusal (caller q) (one_port pol r) = None" "target q = ''p1''"
  using assms
  by (simp_all add: gate_admission_def sample_envelope_def sample_authority_def authority_valid_def
      id_valid_def gen_valid_def authority_refusal_None live_incarnation_def)

lemma apply_nothing:
  "\<not> pl_requires_apply p \<Longrightarrow> apply_plan env cf port snap p = Ready p (pr_applied (pl_next p)) False"
  by (simp add: apply_plan_def Let_def)

lemma commit_answer_current:
  "id_valid (lm_attempt (pr_last_mutation cur)) \<longrightarrow>
     lm_attempt (pr_last_mutation cur) \<noteq> lm_attempt (pr_last_mutation (pl_next p)) \<Longrightarrow>
   pl_expected p = capture_expected cur \<Longrightarrow> pr_lifecycle cur \<noteq> LC_Retired \<Longrightarrow>
   \<not> gen_exhaustible g \<Longrightarrow> commit_answer port (pl_expected p) p cur g = None"
  by (simp add: commit_answer_def expected_matches_iff)

definition claim :: mutation_request where
  "claim = Req_ClaimOwnership \<lparr>oq_envelope = sample_envelope ''a1'' 0,
     oq_owner_kind = Owner_SwitchAgent, oq_owner = ''agent'', oq_exclusive = True,
     oq_release = False, oq_delegate_publisher = [], oq_delegate_boot = []\<rparr>"

lemma sample_texts:
  "validate_text ''OWNERSHIP_CLAIMED'' max_name_length = None"
  "validate_text ''agent'' max_description_length = None"
  "validate_text ''CONFIGURED'' max_name_length = None"
  "validate_text [] max_name_length = None"
  "validate_text [] max_description_length = None"
  "id_from_validated (compose_identifier ''own'' ''p1'' 1) = ''own-p1-1''"
  "id_from_validated (compose_identifier ''cfg'' ''p1'' 1) = ''cfg-p1-1''"
  by code_simp+

definition claimed_port :: port_record where
  "claimed_port = fresh_port\<lparr>
     pr_generations := no_generations\<lparr>gv_ownership := 1, gv_capability := 5, gv_topology := 1, gv_device := 3\<rparr>,
     pr_ownership := Some \<lparr>ow_id = ''own-p1-1'', ow_kind = Owner_SwitchAgent, ow_owner = ''agent'',
       ow_generation = 1, ow_publisher = ''agent'', ow_boot = ''boot-1'', ow_epoch = 7, ow_exclusive = True\<rparr>,
     pr_status_reason := ''OWNERSHIP_CLAIMED'', pr_status_detail := ''agent''\<rparr>"

lemma claim_commits: "oc_code (mr_outcome (fst (mutate quiet_env claim (one_port Policy_DesiredStateOnly fresh_port)))) = OC_Ok"
proof (rule mutate_commit_ok)
  have env: "request_envelope claim = sample_envelope ''a1'' 0" by (simp add: claim_def)
  let ?p = "plan_of claim fresh_port no_binding (one_port Policy_DesiredStateOnly fresh_port)"
  let ?s = "stamp (request_envelope claim) (request_payload claim) (request_fallback claim) ?p"
  show "gate_admission (one_port Policy_DesiredStateOnly fresh_port) (request_envelope claim) = None"
    "authority_refusal (caller claim) (one_port Policy_DesiredStateOnly fresh_port) = None"
    by (rule sample_admitted [OF env]; simp)+
  show "port_of (one_port Policy_DesiredStateOnly fresh_port) (target claim) = Some fresh_port"
    using sample_admitted(3) [OF env] by (simp add: fresh_port_def)
  show "gates_passed quiet_env (request_envelope claim) (request_kind claim) (request_payload claim)
      fresh_port (one_port Policy_DesiredStateOnly fresh_port) no_binding"
    unfolding env
    by (simp add: gates_passed_def gate_None claim_def sample_envelope_def sample_authority_def
        fresh_port_def empty_record_def no_last_mutation_def last_mutation_valid_def id_valid_def
        gen_valid_def no_generations_def needs_configuration_expectation_def needs_capability_def
        device_generation_def)
  have p: "?p = propose fresh_port claimed_port"
    by (simp add: plan_of_def claim_def mutation_input_def build_ownership_def claim_refusal_def
        owner_incomplete_def fresh_port_def empty_record_def id_valid_def delegate_refusal_def
        delegates_def granted_ownership_def Let_def advance_ownership_generation_def
        no_generations_def sample_envelope_def sample_authority_def claimed_port_def gen_advance_def
        gen_valid_def sample_texts)
  have "record_ok claimed_port"
    by (simp add: record_ok_def claimed_port_def fresh_port_def empty_record_def id_valid_def binding_valid_def
        sample_capability_def gen_valid_def ownership_valid_def sample_texts granted_ownership_def)
  with p show "gate_plan fresh_port ?p = None"
    by (simp add: gate_plan_None record_validate_ok)
  show "apply_plan quiet_env (en_config (one_port Policy_DesiredStateOnly fresh_port)) (target claim) fresh_port ?s =
      Ready ?s (pr_applied (pl_next ?s)) False"
    by (rule apply_nothing) (simp add: p stamp_def)
  show "commit_answer (target claim) (pl_expected ?s) ?s fresh_port (en_generation (one_port Policy_DesiredStateOnly fresh_port)) = None"
    by (rule commit_answer_current) (simp_all add: p fresh_port_fields no_last_mutation_def id_valid_def
        gen_exhaustible_def)
  show "cf_persistence (en_config (one_port Policy_DesiredStateOnly fresh_port)) = Persistence_Manual"
    by (simp add: default_config_def)
qed

definition configure :: mutation_request where
  "configure = Req_Configure \<lparr>gq_envelope = sample_envelope ''a1'' 0, gq_configuration = sample_request\<rparr>"

definition configured_as :: port_configuration where
  "configured_as = sample_config\<lparr>pc_record := ''cfg-p1-1'',
     pc_provenance := \<lparr>pv_kind = PK_Operator, pv_source = [], pv_publisher = ''agent'',
       pv_boot = ''boot-1'', pv_epoch = 7, pv_attempt = ''a1''\<rparr>\<rparr>"

definition configured_next :: port_record where
  "configured_next = fresh_port\<lparr>pr_configuration := Some configured_as, pr_lifecycle := LC_Configured,
     pr_generations := no_generations\<lparr>gv_configuration := 1, gv_administrative := 1, gv_capability := 5,
       gv_topology := 1, gv_device := 3, gv_lifecycle := 1\<rparr>,
     pr_status_reason := ''CONFIGURED'', pr_status_detail := [],
     pr_applied := fresh_applied 1\<rparr>"

lemma configured_as_valid:
  "configuration_validate configured_as = None"
  "cv_accepted (validate_against_capabilities configured_as sample_capability)"
  by code_simp+

lemma configure_plan:
  "plan_of configure fresh_port sample_capability (one_port pol fresh_port) =
     propose_configuration fresh_port configured_next sample_capability configured_as"
proof -
  let ?inp = "mutation_input (one_port pol fresh_port) MK_Configure fresh_port sample_capability"
  let ?req = "\<lparr>gq_envelope = sample_envelope ''a1'' 0, gq_configuration = sample_request\<rparr>"
  have c: "configure_candidate ?inp ?req = configured_as"
    by (simp add: configure_candidate_def mutation_input_def fresh_port_def empty_record_def
        sample_request_def no_configuration_def id_valid_def device_read_def device_generation_def
        sample_capability_def no_binding_def make_provenance_def sample_envelope_def sample_authority_def
        configured_as_def sample_config_def no_generations_def sample_texts)
  have "configure_refusal ?inp ?req = None"
    unfolding configure_refusal_def Let_def c
    using configured_as_valid(1)
    by (simp add: mutation_input_def fresh_port_fields device_generation_def)
      (simp add: sample_capability_def sample_request_def no_configuration_def id_valid_def
        configured_as_def sample_config_def no_profile_def)
  then show ?thesis
    by (simp add: plan_of_def configure_def build_configure_def c Let_def)
      (simp add: mutation_input_def configured_next_def fresh_port_def empty_record_def advance_defs
        no_generations_def gen_advance_def gen_valid_def sample_capability_def configured_as_def sample_config_def)
qed

lemma configure_gates:
  "gate_admission (one_port pol fresh_port) (request_envelope configure) = None"
  "authority_refusal (caller configure) (one_port pol fresh_port) = None"
  "target configure = ''p1''"
  "port_of (one_port pol fresh_port) ''p1'' = Some fresh_port"
  "gates_passed env (request_envelope configure) (request_kind configure) (request_payload configure)
     fresh_port (one_port pol fresh_port) sample_capability"
  "gate_plan fresh_port (plan_of configure fresh_port sample_capability (one_port pol fresh_port)) = None"
proof -
  have env: "request_envelope configure = sample_envelope ''a1'' 0" by (simp add: configure_def)
  show "gate_admission (one_port pol fresh_port) (request_envelope configure) = None"
    "authority_refusal (caller configure) (one_port pol fresh_port) = None"
    "target configure = ''p1''"
    by (rule sample_admitted [OF env]; simp)+
  show "port_of (one_port pol fresh_port) ''p1'' = Some fresh_port" by (simp add: fresh_port_fields)
  show "gates_passed env (request_envelope configure) (request_kind configure) (request_payload configure)
     fresh_port (one_port pol fresh_port) sample_capability"
    unfolding env
    by (simp add: gates_passed_def gate_None configure_def sample_envelope_def sample_authority_def
        fresh_port_def empty_record_def no_last_mutation_def last_mutation_valid_def id_valid_def
        gen_valid_def no_generations_def device_generation_def resolve_capabilities_def
        needs_capability_def)
      (simp add: sample_capability_def)
  have "record_ok configured_next"
    using configured_as_valid(1)
    by (simp add: record_ok_def configured_next_def fresh_port_def empty_record_def id_valid_def
        binding_valid_def sample_capability_def gen_valid_def sample_texts)
      (simp add: configured_as_def sample_config_def)
  with configured_as_valid(2)
  show "gate_plan fresh_port (plan_of configure fresh_port sample_capability (one_port pol fresh_port)) = None"
    by (simp add: gate_plan_None configure_plan record_validate_ok) (simp add: configured_next_def)
qed

lemma configure_commits:
  "oc_code (mr_outcome (fst (mutate quiet_env configure (one_port Policy_DesiredStateOnly fresh_port)))) = OC_Ok"
proof (rule mutate_commit_ok)
  let ?e = "one_port Policy_DesiredStateOnly fresh_port"
  let ?s = "stamp (request_envelope configure) (request_payload configure) (request_fallback configure)
    (plan_of configure fresh_port sample_capability ?e)"
  note g = configure_gates
  show "gate_admission ?e (request_envelope configure) = None" by (rule g)
  show "authority_refusal (caller configure) ?e = None" by (rule g)
  show "port_of ?e (target configure) = Some fresh_port" unfolding g(3) by (rule g)
  show "gates_passed quiet_env (request_envelope configure) (request_kind configure)
    (request_payload configure) fresh_port ?e sample_capability" by (rule g)
  show "gate_plan fresh_port (plan_of configure fresh_port sample_capability ?e) = None" by (rule g)
  show "apply_plan quiet_env (en_config ?e) (target configure) fresh_port ?s =
      Ready ?s ((pr_applied (pl_next ?s))\<lparr>ae_outcome := Applied_NotAttempted,
        ae_generation := gv_configuration (pr_generations (pl_next ?s)), ae_verified := False,
        ae_source := ''desired-state-only''\<rparr>) True"
    by (simp add: apply_plan_def Let_def) (simp add: stamp_def configure_plan)
  show "commit_answer (target configure) (pl_expected ?s) ?s fresh_port (en_generation ?e) = None"
    by (rule commit_answer_current) (simp_all add: configure_plan fresh_port_fields no_last_mutation_def
        id_valid_def gen_exhaustible_def)
  show "cf_persistence (en_config ?e) = Persistence_Manual" by (simp add: default_config_def)
qed

text \<open>A device adapter whose every apply ends with an unknown outcome.\<close>

definition doubtful_env :: environment where
  "doubtful_env = quiet_env\<lparr>ev_adapter := Some \<lparr>ad_label = ''nic'',
     ad_apply = (\<lambda>_ _. apply_unknown ''link lost''),
     ad_readback = (\<lambda>_. \<lparr>ab_status = RB_Unknown, ab_observed = None, ab_detail = []\<rparr>)\<rparr>\<rparr>"

lemma configure_uncertain:
  "oc_code (mr_outcome (fst (mutate doubtful_env configure (one_port Policy_Apply fresh_port)))) =
     OC_ApplyOutcomeUnknown"
proof -
  let ?e = "one_port Policy_Apply fresh_port"
  note g = configure_gates
  have "\<exists>t p. decision_of doubtful_env configure fresh_port ?e = Uncertain t OC_ApplyOutcomeUnknown None p"
    using g(3) g(6) [of Policy_Apply] g(5) [of doubtful_env Policy_Apply]
    by (simp add: decision_of_def decide_def gates_passed_def Let_def plan_of_def apply_plan_def)
      (simp add: doubtful_env_def apply_unknown_def, simp add: stamp_def configure_plan [unfolded plan_of_def])
  then show ?thesis
    using g by (auto simp: mutate_eq conclude_decision_def split_beta record_apply_uncertainty_def Let_def)
qed

end
