(* ===== verification/Mutation_Correct.thy ===== *)
theory Mutation_Correct
  imports Sample
begin

text \<open>
  The guarantees of the mutation API: what a refused request leaves alone, what a committed one
  changes, replay, ownership, capability evidence and applied evidence, and two ways in which a
  port cannot be brought back.
\<close>

section \<open>Refused requests\<close>

text \<open>
  Property C3. A mutation that is refused (any code but OK, a failed durable write, an unknown
  apply outcome and a readback mismatch) changes no record, no index, no generation, no profile,
  no device and neither epoch nor topology; at most the caller's incarnation has been entered
  in the publisher table by the authority gate.
\<close>

theorem refused_mutation_changes_nothing:
  assumes "mutate env q e = (r, e')"
    "oc_code (mr_outcome r) \<notin> {OC_Ok, OC_PersistenceIoFailure, OC_ApplyOutcomeUnknown, OC_ReadbackMismatch}"
  shows "e' = e \<or> (authority_refusal (caller q) e = None \<and>
    map_of (en_publishers e) (au_publisher (caller q)) = None \<and>
    e' = e\<lparr>en_publishers := om_update (au_publisher (caller q))
      \<lparr>pub_publisher = au_publisher (caller q), pub_boot = au_boot (caller q),
       pub_epoch = au_epoch (caller q), pub_fenced = False\<rparr> (en_publishers e)\<rparr>)"
proof (cases rule: mutate_cases [where env = env and q = q and e = e])
  case unchanged
  then have "e' = e \<or> e' = admitted q e" using assms(1) by simp
  moreover have "admitted q e = e" if "authority_refusal (caller q) e \<noteq> None"
    using that by (auto simp: admitted_def check_authority_def)
  ultimately show ?thesis
    using check_authority_publishers [of "caller q" e] unfolding admitted_def by blast
next
  case (uncertain snap t c override p)
  with assms show ?thesis by simp
next
  case (committed snap p a s d)
  with assms show ?thesis by auto
qed

theorem refused_mutation_changes_nothing_witness:
  "snd (mutate quiet_env claim (shutdown (one_port Policy_Apply fresh_port))) =
     shutdown (one_port Policy_Apply fresh_port)"
proof -
  let ?e = "shutdown (one_port Policy_Apply fresh_port)"
  have "oc_code (mr_outcome (fst (mutate quiet_env claim ?e))) = OC_ShuttingDown"
    by (simp add: mutate_eq gate_admission_def shutdown_def)
  moreover have "map_of (en_publishers ?e) (au_publisher (caller claim)) \<noteq> None"
    by (simp add: shutdown_def claim_def sample_envelope_def sample_authority_def)
  ultimately show ?thesis
    using refused_mutation_changes_nothing [OF surjective_pairing, of quiet_env claim ?e] by auto
qed

section \<open>Committed mutations\<close>

text \<open>
  Property C2. A mutation that reports OK was admitted, replaces the record of the addressed
  port and of no other, keeps the identity and the parent device of the port, moves its
  lifecycle only along the diagram (or by reconciliation or revalidation), never moves a
  configuration, administrative, ownership or lifecycle generation back, stamps the attempt
  and the digest of the payload on the record and strictly advances the generation of the
  runtime; the result reports the committed record.
\<close>

theorem committed_mutation_effect:
  assumes "engine_ok e" "mutate env q e = (r, e')" "oc_code (mr_outcome r) = OC_Ok"
  shows "\<exists>before after.
    port_of e (target q) = Some before \<and> port_of e' = (port_of e)(target q \<mapsto> after) \<and>
    authority_refusal (caller q) e = None \<and> \<not> en_shutting_down e \<and>
    pr_port after = target q \<and> pr_parent_device after = pr_parent_device before \<and>
    pr_lifecycle before \<noteq> LC_Retired \<and> lifecycle_change (pr_lifecycle before) (pr_lifecycle after) \<and>
    generations_advance (pr_generations before) (pr_generations after) \<and>
    lm_attempt (pr_last_mutation after) = au_attempt (caller q) \<and>
    lm_payload_digest (pr_last_mutation after) = payload_digest (request_payload q) \<and>
    en_generation e < en_generation e' \<and> reports r after"
proof (rule mutate_commits [OF assms(1)])
  show "oc_code (mr_outcome (fst (mutate env q e))) \<in> {OC_Ok, OC_PersistenceIoFailure}"
    using assms by simp
  fix snap r' evidence p a s
  assume c: "admits q e" "port_of e (target q) = Some snap"
    "gates_passed env (request_envelope q) (request_kind q) (request_payload q) snap e evidence"
    "plan_ok (mutation_input e (request_kind q) snap evidence) (plan_of q snap evidence e)"
    "commits snap r' (plan_of q snap evidence e) (request_envelope q) (request_payload q)"
    "port_of (snd (mutate env q e)) = (port_of e)(target q \<mapsto> r')"
    "en_generation (snd (mutate env q e)) = gen_next (en_generation e)"
    "\<not> gen_exhaustible (en_generation e)" "pr_port snap = target q" "reports (fst (mutate env q e)) r'"
  have "\<not> en_shutting_down e" using c(1) by (auto simp: admits_def gate_admission_def split: if_split_asm)
  moreover have "pr_lifecycle snap \<noteq> LC_Retired"
    using c(3) gate_replay_not_retired by (auto simp: gates_passed_def)
  moreover have "generations_advance (pr_generations snap) (pr_generations r')"
    using c(4,5) by (auto simp: plan_ok_def Let_def commits_def generations_advance_def
        same_but_evidence_def mutation_input_def)
  moreover have "en_generation e < gen_next (en_generation e)" using c(8) by (rule gen_next_strict)
  ultimately show ?thesis
    using c assms(2)
    by (intro exI [of _ snap] exI [of _ r'])
      (simp add: admits_def plan_ok_def Let_def commits_def mutation_input_def)
qed

theorem committed_mutation_effect_witness:
  "en_generation (one_port Policy_DesiredStateOnly fresh_port) <
     en_generation (snd (mutate quiet_env claim (one_port Policy_DesiredStateOnly fresh_port)))"
  using committed_mutation_effect [OF one_port_ok [OF fresh_port_ok] surjective_pairing claim_commits]
  by (auto simp: fresh_port_fields)

section \<open>Replay\<close>

lemma authority_refusal_cong:
  "en_epoch e' = en_epoch e \<Longrightarrow> en_publishers e' = en_publishers e \<Longrightarrow> en_config e' = en_config e \<Longrightarrow>
   authority_refusal au e' = authority_refusal au e"
  by (simp add: authority_refusal_def)

text \<open>A caller that was let through is let through again, and is known then.\<close>

lemma admitted_again:
  assumes "authority_refusal (caller q) e = None"
  shows "authority_refusal (caller q) (admitted q e) = None"
    "map_of (en_publishers (admitted q e)) (au_publisher (caller q)) \<noteq> None"
proof -
  have n: "outcome_ok (fst (check_authority (caller q) e))" using assms by (simp add: check_authority_admit_iff)
  note adm = check_authority_admits [OF n]
  from adm show "authority_refusal (caller q) (admitted q e) = None"
    by (simp add: authority_refusal_None admitted_def)
  from adm(3) show "map_of (en_publishers (admitted q e)) (au_publisher (caller q)) \<noteq> None"
    by (auto simp: live_incarnation_def admitted_def)
qed

lemma known_admitted:
  assumes "map_of (en_publishers e) (au_publisher (caller q)) \<noteq> None"
  shows "admitted q e = e"
  using check_authority_publishers [of "caller q" e] assms by (auto simp: admitted_def)

text \<open>Only \<open>retire\<close> leads to RETIRED.\<close>

lemma rejected_lifecycle [simp]: "pr_lifecycle (pl_next (reject_plan r)) = LC_Unconfigured"
  by (simp add: reject_plan_def empty_plan_def empty_record_def)

lemma retired_by_retire:
  assumes "pl_failure (request_build q inp) = OC_Ok" "pr_lifecycle (bi_current inp) \<noteq> LC_Retired"
    "pr_lifecycle (pl_next (request_build q inp)) = LC_Retired"
  shows "request_kind q = MK_Retire"
proof (cases q)
  case (Req_Configure r)
  with assms refusal_codes(1) show ?thesis
    by (cases "configure_refusal inp r") (auto simp: build_configure_def advance_defs Let_def)
next
  case (Req_Reconfigure r)
  with assms refusal_codes(2) show ?thesis
    by (auto simp: build_reconfigure_def advance_defs Let_def split: option.split_asm)
next
  case (Req_Administrative r)
  have "pr_lifecycle (pl_next (build_administrative r inp)) \<noteq> LC_Retired"
    if "administrative_refusal inp r old = None" "pr_configuration (bi_current inp) = Some old" for old
    using that administrative_admits [OF that(1)]
    by (cases "aq_op r"; cases "pr_lifecycle (bi_current inp)")
      (simp_all add: build_administrative_def Let_def advance_defs evaluate_transition_def
        enabled_landing_def)
  with assms Req_Administrative refusal_codes(3) show ?thesis
    by (auto simp: build_administrative_def split: option.split_asm if_split_asm)
next
  case (Req_AssignProfile r)
  with assms show ?thesis
    by (auto simp: build_assign_profile_def advance_defs Let_def split: option.split_asm sum.split_asm
        if_split_asm)
next
  case (Req_BindCapabilities r)
  with assms refusal_codes(5) show ?thesis
    by (auto simp: build_bind_capabilities_def advance_defs Let_def split: option.split_asm if_split_asm)
next
  case (Req_Reconcile r)
  with assms refusal_codes(6) show ?thesis
    by (auto simp: build_reconcile_def advance_defs Let_def split: option.split_asm)
next
  case (Req_Supersede r)
  with assms show ?thesis
    by (auto simp: build_fence_def advance_defs Let_def evaluate_transition_def split: if_split_asm)
next
  case (Req_RecordAppliedEvidence r)
  with assms refusal_codes(10) show ?thesis
    by (auto simp: build_applied_evidence_def advance_defs Let_def
        split: option.split_asm if_split_asm applied_outcome.split_asm)
next
  case (Req_ObserveExternalState r)
  have "pr_lifecycle (drift_lifecycle d x) \<noteq> LC_Retired" if "pr_lifecycle x \<noteq> LC_Retired" for d x
    using that by (auto simp: drift_lifecycle_def advance_defs Let_def evaluate_transition_def)
  with assms Req_ObserveExternalState show ?thesis
    by (auto simp: build_drift_def Let_def split: if_split_asm)
qed (use assms refusal_codes(7,8,9) in \<open>auto simp: build_ownership_def advance_defs Let_def
    split: option.split_asm if_split_asm\<close>)


text \<open>
  Property C1. Replay is idempotent: once a mutation has been committed, submitting the same
  request again (with whatever the adapter and the provider answer the second time) is
  accepted, reports the committed record, and leaves the whole state of the runtime as it is.
\<close>

theorem replay_is_idempotent:
  assumes "engine_ok e" "mutate env q e = (r, e')"
    "oc_code (mr_outcome r) \<in> {OC_Ok, OC_PersistenceIoFailure}"
  shows "snd (mutate env' q e') = e' \<and> result_accepted (fst (mutate env' q e')) \<and>
    oc_code (mr_outcome (fst (mutate env' q e'))) \<in> {OC_Idempotent, OC_AlreadyCurrent} \<and>
    mr_record_digest (fst (mutate env' q e')) = mr_record_digest r \<and>
    mr_lifecycle (fst (mutate env' q e')) = mr_lifecycle r"
proof -
  have code: "oc_code (mr_outcome (fst (mutate env q e))) \<in> {OC_Ok, OC_PersistenceIoFailure}"
    using assms by simp
  obtain snap after evidence p a s where c: "admits q e"
    "gates_passed env (request_envelope q) (request_kind q) (request_payload q) snap e evidence"
    "gate_plan snap (plan_of q snap evidence e) = None"
    "commits snap after (plan_of q snap evidence e) (request_envelope q) (request_payload q)"
    "port_of e' = (port_of e)(target q \<mapsto> after)" "reports r after"
    by (rule mutate_commits [OF assms(1) code]) (use assms(2) in simp)
  obtain d x y where e': "e' = (store_record x y (admitted q e))
      \<lparr>en_generation := gen_next (en_generation e), en_durability_dirty := d\<rparr>"
    by (rule mutate_cases [where env = env and q = q and e = e])
      (use assms(2,3) in \<open>auto simp: quiet_def quiet_code_def\<close>)
  have valid: "id_valid (au_attempt (caller q))"
    using c(1) by (simp add: admits_def authority_refusal_None authority_valid_def)
  have gate: "gate_admission e' (request_envelope q) = None"
    using c(1) by (simp add: admits_def e' gate_admission_def)
  have auth: "authority_refusal (caller q) e' = None"
    using c(1) admitted_again(1) [of q e] authority_refusal_cong [of e' "admitted q e" "caller q"]
    by (simp add: admits_def e')
  have known: "admitted q e' = e'"
    using c(1) admitted_again(2) [of q e] by (intro known_admitted) (simp add: admits_def e')
  obtain r' where r': "decision_of env' q after e' = Refused r'" "reports r' after"
    "oc_code (mr_outcome r') \<in> {OC_Idempotent, OC_AlreadyCurrent}"
  proof (cases "pr_lifecycle after = LC_Retired")
    case True
    have "request_kind q = MK_Retire"
      using c(2,3,4) True gate_replay_not_retired
      by (intro retired_by_retire) (auto simp: gate_plan_None plan_of_def commits_def gates_passed_def
          mutation_input_def)
    with True show thesis
      by (intro that) (simp add: decision_of_def decide_def gate_replay_def, simp_all)
  next
    case False
    with c(4) valid show thesis
      by (intro that)
        (simp add: decision_of_def decide_def gate_replay_def commits_def last_mutation_valid_def, simp_all)
  qed
  then have m: "mutate env' q e' = (r', e')"
    using gate auth known c(5) by (simp add: mutate_eq conclude_decision_def)
  show ?thesis
    using r'(2,3) c(6) by (auto simp: m reports_def result_accepted_def outcome_accepted_def is_accepted_def)
qed


theorem replay_is_idempotent_witness:
  "snd (mutate doubtful_env claim (snd (mutate quiet_env claim (one_port Policy_DesiredStateOnly fresh_port)))) =
     snd (mutate quiet_env claim (one_port Policy_DesiredStateOnly fresh_port))"
proof -
  have "pr_parent_device fresh_port = ''leaf''" by (simp add: fresh_port_fields)
  note ok = one_port_ok [OF fresh_port_ok this, of Policy_DesiredStateOnly]
  show ?thesis using replay_is_idempotent [OF ok surjective_pairing] claim_commits by simp
qed

end
