(* ===== verification/Mutation_Evidence.thy ===== *)
theory Mutation_Evidence
  imports Mutation_Correct
begin

text \<open>
  Who may change a port, and on what evidence: ownership, capability evidence, the truth of
  applied evidence and the handling of an apply whose outcome is unknown.
\<close>

section \<open>Ownership\<close>

lemma written_admitted:
  assumes "\<not> quiet (fst (mutate env q e))"
  obtains snap evidence where "admits q e" "port_of e (target q) = Some snap"
    "gates_passed env (request_envelope q) (request_kind q) (request_payload q) snap e evidence"
    "gate_plan snap (plan_of q snap evidence e) = None"
proof (cases rule: mutate_cases [where env = env and q = q and e = e])
  case unchanged
  with assms show thesis by simp
next
  case (uncertain snap t c override p)
  with uncertain_code [OF uncertain(3)] show thesis by (auto intro: that)
next
  case (committed snap p a s d)
  obtain evidence where
    "gates_passed env (request_envelope q) (request_kind q) (request_payload q) snap e evidence"
    "gate_plan snap (plan_of q snap evidence e) = None"
    by (rule decide_ready [OF committed(3) [unfolded decision_of_def], where v = "pr_provenance (pl_next p)"])
      (auto simp: plan_of_def)
  with committed show thesis by (intro that)
qed

lemma mutate_quiet: "quiet (fst (mutate env q e)) \<Longrightarrow> port_of (snd (mutate env q e)) = port_of e"
  by (cases rule: mutate_cases [where env = env and q = q and e = e])
    (auto simp: quiet_def quiet_code_def)

text \<open>The builders of the three ownership operations, on a port owned by somebody else.\<close>

lemma foreign_owner_plan:
  assumes "pr_ownership (bi_current inp) = Some w" "\<not> caller_holds r w"
    "pl_failure (build_ownership r kind inp) = OC_Ok"
  shows "kind = MK_ClaimOwnership" "\<not> ow_exclusive w"
  using assms refusal_codes(7) [of inp r] refusal_codes(8) [of inp r kind]
  by (auto simp: build_ownership_def claim_refusal_def holder_refusal_def Let_def split: if_split_asm)

text \<open>
  Property C4. Control ownership protects a port: while ownership is required, a caller that
  does not hold the ownership of an owned port (same publisher, same boot, same epoch) changes
  nothing on it, whatever it asks for, except that it may claim a port whose owner is not
  exclusive; and a configured port without an owner can only be claimed.
\<close>

theorem ownership_protects_port:
  assumes "cf_require_ownership (en_config e)" "port_of e (target q) = Some snap"
    "case pr_ownership snap of
       Some w \<Rightarrow> \<not> held_by w (au_publisher (caller q)) (au_boot (caller q)) (au_epoch (caller q)) \<and>
         (ow_exclusive w \<or> request_kind q \<noteq> MK_ClaimOwnership)
     | None \<Rightarrow> pr_configuration snap \<noteq> None \<and> request_kind q \<noteq> MK_ClaimOwnership"
  shows "port_of (snd (mutate env q e)) = port_of e \<and>
    oc_code (mr_outcome (fst (mutate env q e))) \<notin>
      {OC_Ok, OC_PersistenceIoFailure, OC_ApplyOutcomeUnknown, OC_ReadbackMismatch}"
proof -
  have "quiet (fst (mutate env q e))"
  proof (rule ccontr)
    assume "\<not> quiet (fst (mutate env q e))"
    then obtain evidence where g:
      "gates_passed env (request_envelope q) (request_kind q) (request_payload q) snap e evidence"
      "gate_plan snap (plan_of q snap evidence e) = None"
      using assms(2) by (auto elim!: written_admitted)
    show False
    proof (cases "pr_ownership snap")
      case None
      with g(1) assms show False by (simp add: gates_passed_def gate_ownership_None)
    next
      case (Some w)
      with g(1) assms have k: "request_kind q \<in> {MK_ClaimOwnership, MK_TransferOwnership, MK_ReleaseOwnership}"
        by (auto simp: gates_passed_def gate_ownership_None)
      then obtain r where r: "request_build q = build_ownership r (request_kind q)"
        "oq_envelope r = request_envelope q"
        by (cases q) auto
      from g(2) have ok: "pl_failure (build_ownership r (request_kind q)
          (mutation_input e (request_kind q) snap evidence)) = OC_Ok"
        by (simp add: gate_plan_None plan_of_def r)
      from foreign_owner_plan [OF _ _ ok, of w] Some assms(3) show False
        by (simp add: mutation_input_def caller_holds_def r)
    qed
  qed
  then show ?thesis
    using mutate_quiet by (auto simp: quiet_def quiet_code_def)
qed


definition intruder :: mutation_request where
  "intruder = Req_Retire \<lparr>fq_envelope = (sample_envelope ''a2'' 1)
     \<lparr>me_authority := (sample_authority ''a2'' 1)\<lparr>au_publisher := ''other''\<rparr>\<rparr>, fq_detail = []\<rparr>"

theorem ownership_protects_port_witness:
  "port_of (snd (mutate quiet_env intruder (one_port Policy_Apply configured_port))) ''p1'' =
     Some configured_port"
proof -
  let ?e = "one_port Policy_Apply configured_port"
  have "pr_ownership configured_port = Some sample_owner" "pr_port configured_port = ''p1''"
    by (simp_all add: configured_port_def fresh_port_def empty_record_def)
  moreover have "cf_require_ownership (en_config ?e)" by (simp add: default_config_def)
  ultimately have "port_of (snd (mutate quiet_env intruder ?e)) = port_of ?e"
    using ownership_protects_port [of ?e intruder configured_port quiet_env]
    by (simp add: intruder_def sample_envelope_def sample_authority_def held_by_def sample_owner_def)
  then show ?thesis by (simp add: \<open>pr_port configured_port = ''p1''\<close>)
qed

section \<open>Capability evidence\<close>

lemma resolved_present: "resolve_capabilities env r = Inr b \<Longrightarrow> cb_present b"
  by (auto simp: resolve_capabilities_def split: if_split_asm option.split_asm prod.split_asm)

text \<open>The four builders of a new configuration generation, when they accept.\<close>

lemma configuration_plan:
  assumes "needs_capability (request_kind q)" "pl_failure (request_build q inp) = OC_Ok"
    "cb_present (bi_capability inp)"
  obtains c where "pr_configuration (pl_next (request_build q inp)) = Some c"
    "pl_requires_capability_validation (request_build q inp)"
    "pl_requires_apply (request_build q inp)"
    "pl_capability (request_build q inp) = bi_capability inp"
    "pl_apply_configuration (request_build q inp) = c"
    "pc_device_generation c = device_read inp" "pc_topology_generation c = bi_topology inp"
    "pc_capability_generation c = cb_generation (bi_capability inp)"
    "bi_parent_device_generation inp \<noteq> None \<or>
     (pr_configuration (bi_current inp) \<noteq> None \<and> is_live (pr_lifecycle (bi_current inp)))"
proof -
  consider (configure) r where "q = Req_Configure r" | (reconfigure) r where "q = Req_Reconfigure r"
    | (assign) r where "q = Req_AssignProfile r" | (reconcile) r where "q = Req_Reconcile r"
    using assms(1) by (cases q) (auto simp: needs_capability_def)
  then show thesis
  proof cases
    case configure
    with assms refusal_codes(1) have none: "configure_refusal inp r = None"
      by (cases "configure_refusal inp r") (auto simp: build_configure_def)
    with configure configure_admits [OF none] show thesis
      by (intro that [of "configure_candidate inp r"])
        (simp_all add: build_configure_def Let_def advance_defs configure_candidate_def)
  next
    case reconfigure
    with assms obtain old where old: "pr_configuration (bi_current inp) = Some old"
      by (cases "pr_configuration (bi_current inp)") (simp_all add: build_reconfigure_def)
    with reconfigure assms refusal_codes(2) have none: "reconfigure_refusal inp r old = None"
      by (cases "reconfigure_refusal inp r old") (auto simp: build_reconfigure_def)
    with reconfigure old reconfigure_admits [OF none] show thesis
      by (intro that [of "(reconfigure_candidate inp r old)
          \<lparr>pc_generation := gen_advance (gv_configuration (pr_generations (bi_current inp)))\<rparr>"])
        (simp_all add: build_reconfigure_def Let_def advance_defs reconfigure_candidate_def)
  next
    case assign
    with assms obtain old where old: "pr_configuration (bi_current inp) = Some old"
      "is_live (pr_lifecycle (bi_current inp))"
      by (cases "pr_configuration (bi_current inp)")
        (simp_all add: build_assign_profile_def Let_def split: if_split_asm)
    have edit: "profile_edit inp r old = Inl x \<Longrightarrow> fst x \<noteq> OC_Ok" for x
      by (auto simp: profile_edit_def split: if_split_asm option.split_asm)
    from assign assms old obtain d where d: "profile_edit inp r old = Inr d"
      using edit by (cases "profile_edit inp r old") (auto simp: build_assign_profile_def Let_def)
    with assign assms old refusal_codes(4) have none: "assign_refusal old (assign_candidate inp r d) = None"
      by (cases "assign_refusal old (assign_candidate inp r d)") (auto simp: build_assign_profile_def Let_def)
    with assign old d assms(3) show thesis
      by (intro that [of "(assign_candidate inp r d)
          \<lparr>pc_generation := gen_advance (gv_configuration (pr_generations (bi_current inp)))\<rparr>"])
        (simp_all add: build_assign_profile_def Let_def advance_defs assign_candidate_def)
  next
    case reconcile
    with assms obtain old where old: "pr_configuration (bi_current inp) = Some old"
      by (cases "pr_configuration (bi_current inp)") (simp_all add: build_reconcile_def)
    with reconcile assms refusal_codes(6) have none: "reconcile_refusal inp r old = None"
      by (cases "reconcile_refusal inp r old") (auto simp: build_reconcile_def)
    with reconcile old reconcile_admits [OF none] show thesis
      by (intro that [of "(reconcile_candidate inp r old)
          \<lparr>pc_generation := gen_advance (gv_configuration (pr_generations (bi_current inp))),
           pc_evidence_generation := gv_evidence (pr_generations (bi_current inp))\<rparr>"])
        (simp_all add: build_reconcile_def Let_def advance_defs reconcile_candidate_def)
  qed
qed


text \<open>
  What a committed configuration rests on: \<open>b\<close> is the evidence bound to the port, or the
  provider's answer when none is bound, and \<open>c\<close> the configuration committed on it.
\<close>

definition evidence_source :: "environment \<Rightarrow> port_record \<Rightarrow> capability_binding \<Rightarrow> bool" where
  "evidence_source env snap b \<longleftrightarrow>
     (if cb_present (pr_capability snap) then b = pr_capability snap
      else \<exists>provider err. ev_provider env = Some provider \<and> provider (pr_port snap) = (Some b, err))"

lemma resolved_source: "resolve_capabilities env r = Inr b \<Longrightarrow> evidence_source env r b"
  by (auto simp: resolve_capabilities_def evidence_source_def split: if_split_asm option.split_asm prod.split_asm)

lemma committed_configuration:
  assumes "engine_ok e" "oc_code (mr_outcome (fst (mutate env q e))) \<in> {OC_Ok, OC_PersistenceIoFailure}"
    "needs_capability (request_kind q)"
  obtains snap c b after p a s where "port_of e (target q) = Some snap"
    "port_of (snd (mutate env q e)) = (port_of e)(target q \<mapsto> after)"
    "pr_configuration after = Some c" "evidence_source env snap b" "cb_present b"
    "cv_accepted (validate_against_capabilities c b)"
    "record_core_ok after" "pc_capability_generation c = cb_generation b"
    "pc_topology_generation c = en_topology e"
    "device_generation (pr_parent_device snap) e = Some (pc_device_generation c)"
    "decision_of env q snap e = Ready p a s" "after = committed_record p (pr_provenance (pl_next p)) a s"
    "apply_plan env (en_config e) (target q) snap (stamp (request_envelope q) (request_payload q)
       (request_fallback q) (plan_of q snap b e)) = Ready p a s"
    "pl_requires_apply (plan_of q snap b e)" "pl_apply_configuration (plan_of q snap b e) = c"
proof (rule mutate_commits [OF assms(1,2)])
  fix snap after b p a s
  assume m: "port_of e (target q) = Some snap" "decision_of env q snap e = Ready p a s"
    "gates_passed env (request_envelope q) (request_kind q) (request_payload q) snap e b"
    "gate_plan snap (plan_of q snap b e) = None"
    "after = committed_record p (pr_provenance (pl_next p)) a s"
    "commits snap after (plan_of q snap b e) (request_envelope q) (request_payload q)"
    "port_of (snd (mutate env q e)) = (port_of e)(target q \<mapsto> after)" "record_core_ok after"
  let ?inp = "mutation_input e (request_kind q) snap b"
  have b: "resolve_capabilities env snap = Inr b" using m(3) assms(3) by (simp add: gates_passed_def)
  have "pl_failure (request_build q ?inp) = OC_Ok" "cb_present (bi_capability ?inp)"
    using m(4) resolved_present [OF b] by (simp_all add: gate_plan_None plan_of_def mutation_input_def)
  then obtain c where c: "pr_configuration (pl_next (request_build q ?inp)) = Some c"
    "pl_requires_capability_validation (request_build q ?inp)"
    "pl_requires_apply (request_build q ?inp)" "pl_capability (request_build q ?inp) = b"
    "pl_apply_configuration (request_build q ?inp) = c" "pc_device_generation c = device_read ?inp"
    "pc_topology_generation c = en_topology e" "pc_capability_generation c = cb_generation b"
    "bi_parent_device_generation ?inp \<noteq> None \<or>
     (pr_configuration snap \<noteq> None \<and> is_live (pr_lifecycle snap))"
    by (rule configuration_plan [OF assms(3), where inp = ?inp]) (simp_all add: mutation_input_def)
  have "device_generation (pr_parent_device snap) e \<noteq> None"
    using c(9) engine_okD(3) [OF assms(1) m(1)]
    by (auto simp: mutation_input_def device_known_def device_generation_def)
  then have dev: "device_generation (pr_parent_device snap) e = Some (pc_device_generation c)"
    using c(6) by (auto simp: device_read_def mutation_input_def)
  have app: "apply_plan env (en_config e) (target q) snap (stamp (request_envelope q) (request_payload q)
       (request_fallback q) (plan_of q snap b e)) = Ready p a s"
    using m(2,3,4) b assms(3)
    by (simp add: decision_of_def decide_def gates_passed_def Let_def plan_of_def)
  show thesis
    by (rule that [of snap after c b p a s])
      (use m b c dev app resolved_source [OF b] resolved_present [OF b] in
        \<open>simp_all add: plan_of_def commits_def gate_plan_None\<close>)
qed

text \<open>
  Property C5. Desired state is never committed on missing, stale or contradicting evidence:
  after a configure, reconfigure, profile assignment or reconcile that reports OK (or only
  failed to persist), the committed configuration is well formed, every dimension of it is
  covered by capability evidence that is bound to the port or was answered by the provider,
  and it is stamped with the generation of that evidence, the current topology generation and
  the current generation of the parent device.
\<close>

theorem committed_configuration_is_covered:
  assumes "engine_ok e" "mutate env q e = (r, e')"
    "oc_code (mr_outcome r) \<in> {OC_Ok, OC_PersistenceIoFailure}" "needs_capability (request_kind q)"
  shows "\<exists>snap after c b. port_of e (target q) = Some snap \<and> port_of e' (target q) = Some after \<and>
    pr_configuration after = Some c \<and> configuration_validate c = None \<and>
    evidence_source env snap b \<and> cb_present b \<and>
    capabilities_validate (cb_capabilities b) = None \<and> evidence_covers (cb_capabilities b) c \<and>
    pc_capability_generation c = cb_generation b \<and> pc_topology_generation c = en_topology e \<and>
    device_generation (pr_parent_device snap) e = Some (pc_device_generation c)"
proof -
  have code: "oc_code (mr_outcome (fst (mutate env q e))) \<in> {OC_Ok, OC_PersistenceIoFailure}"
    using assms by simp
  show ?thesis
    by (rule committed_configuration [OF assms(1) code assms(4)])
      (use assms(2) in \<open>auto simp: record_core_ok_def capability_accepted_iff\<close>)
qed

theorem committed_configuration_is_covered_witness:
  "\<exists>after c. port_of (snd (mutate quiet_env configure (one_port Policy_DesiredStateOnly fresh_port))) ''p1'' =
     Some after \<and> pr_configuration after = Some c \<and> pc_device_generation c = 3 \<and>
     evidence_covers (cb_capabilities sample_capability) c"
proof -
  let ?e = "one_port Policy_DesiredStateOnly fresh_port"
  have ok: "engine_ok ?e" by (rule one_port_ok) (simp_all add: fresh_port_ok fresh_port_fields)
  have "request_kind configure = MK_Configure" "target configure = ''p1''"
    by (simp_all add: configure_def sample_envelope_def)
  then show ?thesis
    using committed_configuration_is_covered [OF ok surjective_pairing, of quiet_env configure]
      configure_commits
    by (auto simp: needs_capability_def fresh_port_fields evidence_source_def sample_capability_def
        device_generation_def)
qed

section \<open>Applied evidence\<close>

text \<open>What the adapter stage may report about the device.\<close>

definition truthful ::
  "environment \<Rightarrow> engine_config \<Rightarrow> strong_id \<Rightarrow> port_configuration \<Rightarrow> applied_evidence \<Rightarrow> bool" where
  "truthful env cf port c a \<longleftrightarrow>
     (ae_outcome a \<in> {Applied_Applied, Applied_Verified} \<longrightarrow>
        (\<exists>ad. ev_adapter env = Some ad \<and> cf_adapter_policy cf \<noteq> Policy_DesiredStateOnly \<and>
           ar_status (ad_apply ad port c) = AS_Applied \<and>
           (ae_outcome a = Applied_Verified \<longrightarrow> cf_adapter_policy cf = Policy_ApplyAndVerify \<and>
              ab_status (ad_readback ad port) = RB_Verified) \<and>
           (cf_adapter_policy cf = Policy_ApplyAndVerify \<longrightarrow>
              ab_status (ad_readback ad port) \<in> {RB_Verified, RB_Unsupported}))) \<and>
     (ae_verified a \<longleftrightarrow> ae_outcome a = Applied_Verified)"

lemma apply_truthful:
  assumes "apply_plan env cf port snap p = Ready q a s" "pl_requires_apply p"
  shows "s \<and> truthful env cf port (pl_apply_configuration p) a"
proof (cases "ev_adapter env")
  case None
  with assms show ?thesis
    by (auto simp: apply_plan_def Let_def truthful_def settle_evidence_def split: if_split_asm)
next
  case (Some ad)
  with assms show ?thesis
    by (cases "ar_status (ad_apply ad port (pl_apply_configuration p))"; cases "ab_status (ad_readback ad port)")
      (auto simp: apply_plan_def Let_def truthful_def settle_evidence_def verify_applied_def
        split: if_split_asm)
qed

text \<open>
  Property C6. Applied evidence is truthful: a committed configuration is reported APPLIED or
  VERIFIED only when the adapter was called with exactly that configuration and reported it
  applied, and VERIFIED (the only case in which the record says so) only when the policy asks
  for a readback and the readback agreed; a configuration whose readback disagreed or was
  unknown is not committed.
\<close>

theorem applied_evidence_is_truthful:
  assumes "engine_ok e" "mutate env q e = (r, e')"
    "oc_code (mr_outcome r) \<in> {OC_Ok, OC_PersistenceIoFailure}" "needs_capability (request_kind q)"
  shows "\<exists>after c. port_of e' (target q) = Some after \<and> pr_configuration after = Some c \<and>
    truthful env (en_config e) (target q) c (pr_applied after)"
proof -
  have code: "oc_code (mr_outcome (fst (mutate env q e))) \<in> {OC_Ok, OC_PersistenceIoFailure}"
    using assms by simp
  show ?thesis
  proof (rule committed_configuration [OF assms(1) code assms(4)])
    fix snap after c b p a s
    let ?p = "stamp (request_envelope q) (request_payload q) (request_fallback q) (plan_of q snap b e)"
    assume m: "port_of (snd (mutate env q e)) = (port_of e)(target q \<mapsto> after)"
      "pr_configuration after = Some c" "after = committed_record p (pr_provenance (pl_next p)) a s"
      "apply_plan env (en_config e) (target q) snap ?p = Ready p a s"
      "pl_requires_apply (plan_of q snap b e)" "pl_apply_configuration (plan_of q snap b e) = c"
    have "s \<and> truthful env (en_config e) (target q) c a"
      using apply_truthful [OF m(4)] m(5,6) by (simp add: stamp_def)
    with m assms(2) show ?thesis by (simp add: committed_record_def Let_def)
  qed
qed

theorem applied_evidence_is_truthful_witness:
  "\<exists>after. port_of (snd (mutate quiet_env configure (one_port Policy_DesiredStateOnly fresh_port))) ''p1'' =
     Some after \<and> \<not> ae_verified (pr_applied after)"
proof -
  let ?e = "one_port Policy_DesiredStateOnly fresh_port"
  have ok: "engine_ok ?e" by (rule one_port_ok) (simp_all add: fresh_port_ok fresh_port_fields)
  have "request_kind configure = MK_Configure" "target configure = ''p1''"
    by (simp_all add: configure_def sample_envelope_def)
  then show ?thesis
    using applied_evidence_is_truthful [OF ok surjective_pairing, of quiet_env configure] configure_commits
    by (auto simp: needs_capability_def truthful_def quiet_env_def)
qed

end
