(* ===== verification/Mutation_Limits.thy ===== *)
theory Mutation_Limits
  imports Mutation_Evidence
begin

text \<open>
  What sequences of mutations cannot do: bring a retired port back, unlock a port whose parent
  device was replaced, or configure a port whose first apply had an unknown outcome.
\<close>

section \<open>Sequences of mutations\<close>

text \<open>Each request comes with the answers the environment gives to it.\<close>

definition mutations :: "(environment \<times> mutation_request) list \<Rightarrow> engine \<Rightarrow> engine" where
  "mutations qs e = foldl (\<lambda>e (env, q). snd (mutate env q e)) e qs"

lemma mutations_simps [simp]:
  "mutations [] e = e"
  "mutations ((env, q) # qs) e = mutations qs (snd (mutate env q e))"
  by (simp_all add: mutations_def)

text \<open>A property of the runtime kept by every mutation is kept by every sequence.\<close>

lemma mutations_induct [consumes 1, case_names mutate]:
  assumes "P e" "\<And>env q e. P e \<Longrightarrow> P (snd (mutate env q e))"
  shows "P (mutations qs e)"
  using assms(1) by (induction qs arbitrary: e) (auto simp: assms(2))

text \<open>What a mutation may do to the record of a port.\<close>

lemma mutate_port_cases:
  assumes "engine_ok e" "port_of e port = Some snap"
  obtains (same) "port_of (snd (mutate env q e)) port = Some snap"
  | (uncertain) after evidence where "target q = port"
      "port_of (snd (mutate env q e)) port = Some after"
      "\<exists>g d. after = uncertain_record env (caller q) g Applied_OutcomeUnknown d snap"
      "gates_passed env (request_envelope q) (request_kind q) (request_payload q) snap e evidence"
  | (committed) after evidence where "target q = port"
      "port_of (snd (mutate env q e)) port = Some after"
      "gates_passed env (request_envelope q) (request_kind q) (request_payload q) snap e evidence"
      "gate_plan snap (plan_of q snap evidence e) = None"
      "plan_ok (mutation_input e (request_kind q) snap evidence) (plan_of q snap evidence e)"
      "commits snap after (plan_of q snap evidence e) (request_envelope q) (request_payload q)"
proof (cases rule: mutate_cases [where env = env and q = q and e = e])
  case unchanged
  with assms(2) show thesis by (intro same) auto
next
  case (uncertain snap' t c override p)
  show thesis
  proof (cases "target q = port")
    case True
    with uncertain uncertain_code [OF uncertain(3)] assms(2) engine_okD(1) [OF assms] that(2)
    show thesis by (auto simp: record_apply_uncertainty_def Let_def)
  next
    case False
    with uncertain assms engine_okD(1) [OF assms(1) uncertain(2)] show thesis
      by (intro same) (simp add: record_apply_uncertainty_def Let_def)
  qed
next
  case (committed snap' p a s d)
  then have code: "oc_code (mr_outcome (fst (mutate env q e))) \<in> {OC_Ok, OC_PersistenceIoFailure}" by simp
  show thesis
  proof (rule mutate_commits [OF assms(1) code])
    fix snap' r evidence p a s
    assume "port_of e (target q) = Some snap'"
      "gates_passed env (request_envelope q) (request_kind q) (request_payload q) snap' e evidence"
      "gate_plan snap' (plan_of q snap' evidence e) = None"
      "plan_ok (mutation_input e (request_kind q) snap' evidence) (plan_of q snap' evidence e)"
      "commits snap' r (plan_of q snap' evidence e) (request_envelope q) (request_payload q)"
      "port_of (snd (mutate env q e)) = (port_of e)(target q \<mapsto> r)"
    with assms(2) show thesis
      by (cases "target q = port") (auto intro: same that(3))
  qed
qed

section \<open>Retirement is final\<close>

text \<open>
  Property C7. A retired port is frozen: no sequence of mutations, whoever sends them and
  whatever the adapter answers, changes its record in any way.
\<close>

theorem retired_port_is_frozen:
  assumes "engine_ok e" "port_of e port = Some r" "pr_lifecycle r = LC_Retired"
  shows "port_of (mutations qs e) port = Some r"
proof -
  have "engine_ok (mutations qs e) \<and> port_of (mutations qs e) port = Some r"
    using assms(1,2)
  proof (induction qs arbitrary: e)
    case (Cons eq qs)
    obtain env q where eq: "eq = (env, q)" by (cases eq)
    have "port_of (snd (mutate env q e)) port = Some r"
      by (cases rule: mutate_port_cases [OF Cons.prems, where env = env and q = q])
        (use assms(3) in \<open>auto simp: gates_passed_def gate_replay_None\<close>)
    with Cons eq show ?case by (simp add: mutate_ok)
  qed simp
  then show ?thesis by blast
qed

theorem retired_port_is_frozen_witness:
  "port_of (mutations [(quiet_env, claim)] (one_port Policy_Apply (fresh_port\<lparr>pr_lifecycle := LC_Retired\<rparr>))) ''p1'' =
     Some (fresh_port\<lparr>pr_lifecycle := LC_Retired\<rparr>)"
proof (rule retired_port_is_frozen)
  show "engine_ok (one_port Policy_Apply (fresh_port\<lparr>pr_lifecycle := LC_Retired\<rparr>))"
    using fresh_port_ok
    by (intro one_port_ok) (simp_all add: fresh_port_fields record_core_ok_def,
        simp add: fresh_port_def empty_record_def)
qed (simp_all add: fresh_port_fields)


section \<open>A replaced parent device\<close>

lemma mutate_devices: "en_devices (snd (mutate env q e)) = en_devices e"
proof (cases rule: mutate_cases [where env = env and q = q and e = e])
  case unchanged
  then show ?thesis by auto
next
  case (uncertain snap t c override p)
  then show ?thesis
    by (simp add: record_apply_uncertainty_def Let_def split: option.split)
next
  case (committed snap p a s d)
  then show ?thesis by simp
qed

lemma mutate_device_binding:
  assumes "engine_ok e" "port_of e port = Some snap"
  shows "\<exists>after. port_of (snd (mutate env q e)) port = Some after \<and>
    pr_parent_device after = pr_parent_device snap \<and>
    gv_device (pr_generations after) = gv_device (pr_generations snap)"
  by (cases rule: mutate_port_cases [OF assms, where env = env and q = q])
    (auto simp: plan_ok_def Let_def commits_def generations_advance_def same_but_evidence_def
      mutation_input_def)

text \<open>
  Property C8. Replacing a device locks its ports for good: the device generation a record is
  bound to is never advanced by a mutation, reconcile included, so once a newer generation of
  the parent device is registered every mutation of the port that is not a reconcile, supersede
  or retire is refused, after any sequence of mutations and in particular after a successful
  reconcile.
\<close>

theorem replaced_device_locks_port:
  assumes "engine_ok e" "port_of e port = Some r"
    "device_generation (pr_parent_device r) e = Some g" "g \<noteq> gv_device (pr_generations r)"
    "target q = port" "\<not> reconcile_kind (request_kind q)"
  shows "port_of (snd (mutate env q (mutations qs e))) port = port_of (mutations qs e) port \<and>
    oc_code (mr_outcome (fst (mutate env q (mutations qs e)))) \<notin>
      {OC_Ok, OC_PersistenceIoFailure, OC_ApplyOutcomeUnknown, OC_ReadbackMismatch}"
proof -
  define locked where "locked e \<longleftrightarrow> engine_ok e \<and> (\<exists>r. port_of e port = Some r \<and>
      device_generation (pr_parent_device r) e = Some g \<and> g \<noteq> gv_device (pr_generations r))" for e
  have "locked (mutations qs e)"
  proof (rule mutations_induct)
    show "locked e" using assms(1-4) by (auto simp: locked_def)
    show "locked (snd (mutate env q e))" if locked: "locked e" for env q e
    proof -
      from locked obtain r where "engine_ok e" "port_of e port = Some r"
        "device_generation (pr_parent_device r) e = Some g" "g \<noteq> gv_device (pr_generations r)"
        by (auto simp: locked_def)
      with mutate_device_binding [of e port r env q] show ?thesis
        by (auto simp: locked_def mutate_ok mutate_devices device_generation_def)
    qed
  qed
  then obtain r' where r': "port_of (mutations qs e) port = Some r'"
    "device_generation (pr_parent_device r') (mutations qs e) = Some g" "g \<noteq> gv_device (pr_generations r')"
    by (auto simp: locked_def)
  have "quiet (fst (mutate env q (mutations qs e)))"
  proof (rule ccontr)
    assume "\<not> ?thesis"
    then show False
      by (rule written_admitted) (use r' assms(5,6) in \<open>auto simp: gates_passed_def gate_device_None\<close>)
  qed
  then show ?thesis using mutate_quiet [of env q] by (auto simp: quiet_def quiet_code_def)
qed

definition disable_port :: mutation_request where
  "disable_port = Req_Administrative \<lparr>aq_envelope = sample_envelope ''a3'' 1, aq_op = Op_Disable\<rparr>"

definition reconcile_port :: mutation_request where
  "reconcile_port = Req_Reconcile \<lparr>rq_envelope = sample_envelope ''a2'' 1, rq_detail = []\<rparr>"

theorem replaced_device_locks_port_witness:
  "oc_code (mr_outcome (fst (mutate quiet_env disable_port
     (mutations [(quiet_env, reconcile_port)]
       (snd (register_device ''leaf'' 4 [] (one_port Policy_DesiredStateOnly configured_port))))))) \<noteq> OC_Ok"
proof -
  let ?e = "one_port Policy_DesiredStateOnly configured_port"
  let ?e4 = "snd (register_device ''leaf'' 4 [] ?e)"
  have f: "pr_port configured_port = ''p1''" "pr_parent_device configured_port = ''leaf''"
    "gv_device (pr_generations configured_port) = 3"
    by (simp_all add: configured_port_def fresh_port_def empty_record_def)
  have ok: "engine_ok ?e4" using f by (intro register_device_ok one_port_ok configured_port_ok)
  have e4: "?e4 = ?e\<lparr>en_devices := [(''leaf'', \<lparr>dv_device = ''leaf'', dv_generation = 4, dv_source = []\<rparr>)]\<rparr>"
    by (simp add: register_device_def device_answer_def id_valid_def gen_valid_def validate_text_def
        default_config_def max_devices_def)
  have p: "port_of ?e4 ''p1'' = Some configured_port"
    unfolding e4 by (simp add: f port_of_def one_port_def)
  have g: "device_generation (pr_parent_device configured_port) ?e4 = Some 4"
    by (simp add: e4 f device_generation_def)
  show ?thesis
    using replaced_device_locks_port [OF ok p g, of disable_port quiet_env "[(quiet_env, reconcile_port)]"]
    by (simp add: f disable_port_def sample_envelope_def reconcile_kind_def)
qed

section \<open>An apply with an unknown outcome\<close>

text \<open>
  Property C9. An apply whose outcome is unknown, or whose readback disagrees, commits nothing:
  the configuration, its generation, the ownership, the capability evidence and the recorded
  attempt stay what they were; the record says that the outcome is unknown and unverified and,
  unless the port is superseded, that it must be revalidated.
\<close>

theorem uncertain_apply_effect:
  assumes "engine_ok e" "mutate env q e = (r, e')"
    "oc_code (mr_outcome r) \<in> {OC_ApplyOutcomeUnknown, OC_ReadbackMismatch}"
  shows "\<exists>before after. port_of e (target q) = Some before \<and>
    port_of e' = (port_of e)(target q \<mapsto> after) \<and>
    pr_configuration after = pr_configuration before \<and> pr_ownership after = pr_ownership before \<and>
    pr_capability after = pr_capability before \<and> pr_last_mutation after = pr_last_mutation before \<and>
    gv_configuration (pr_generations after) = gv_configuration (pr_generations before) \<and>
    ae_outcome (pr_applied after) = Applied_OutcomeUnknown \<and> \<not> ae_verified (pr_applied after) \<and>
    pr_drift after = Drift_RevalidationRequired \<and>
    pr_lifecycle after = (if pr_lifecycle before = LC_Superseded then LC_Superseded
                          else LC_RevalidationRequired)"
proof (cases rule: mutate_cases [where env = env and q = q and e = e])
  case unchanged
  with assms show ?thesis by (auto simp: quiet_def quiet_code_def)
next
  case (committed snap p a s d)
  with assms show ?thesis by auto
next
  case (uncertain snap t c override p)
  let ?after = "uncertain_record env (caller q) (gv_configuration (pr_generations (pl_next p)))
    Applied_OutcomeUnknown t snap"
  have "pr_lifecycle snap \<noteq> LC_Retired"
    using uncertain_code [OF uncertain(3)] by (auto simp: gates_passed_def gate_replay_None)
  moreover have "ae_outcome (pr_applied ?after) = Applied_OutcomeUnknown" "\<not> ae_verified (pr_applied ?after)"
    "pr_drift ?after = Drift_RevalidationRequired"
    by (simp_all add: uncertain_record_def Let_def advance_defs)
  ultimately show ?thesis
    using uncertain assms(2) engine_okD(1) [OF assms(1) uncertain(2)]
    by (intro exI [of _ snap] exI [of _ ?after])
      (simp add: uncertain_lifecycle, simp add: record_apply_uncertainty_def Let_def)
qed

theorem uncertain_apply_effect_witness:
  "\<exists>after. port_of (snd (mutate doubtful_env configure (one_port Policy_Apply fresh_port))) ''p1'' = Some after \<and>
     pr_configuration after = None \<and> pr_lifecycle after = LC_RevalidationRequired"
proof -
  let ?e = "one_port Policy_Apply fresh_port"
  have ok: "engine_ok ?e" by (rule one_port_ok) (simp_all add: fresh_port_ok fresh_port_fields)
  have "target configure = ''p1''" by (simp add: configure_def sample_envelope_def)
  then show ?thesis
    using uncertain_apply_effect [OF ok surjective_pairing, of doubtful_env configure] configure_uncertain
    by (auto simp: fresh_port_fields)
qed

text \<open>A port fenced for revalidation without a configuration has no way back.\<close>

definition stranded :: "strong_id \<Rightarrow> engine \<Rightarrow> bool" where
  "stranded port e \<longleftrightarrow> engine_ok e \<and> (\<exists>r. port_of e port = Some r \<and> pr_configuration r = None \<and>
     pr_lifecycle r \<in> {LC_RevalidationRequired, LC_Superseded, LC_Retired})"

lemma rejected_configuration [simp]: "pr_configuration (pl_next (reject_plan r)) = None"
  by (simp add: reject_plan_def empty_plan_def empty_record_def)

lemma unconfigured_plan:
  assumes "pl_failure (request_build q inp) = OC_Ok" "pr_configuration (bi_current inp) = None"
    "pr_lifecycle (bi_current inp) \<noteq> LC_Unconfigured"
  shows "pr_configuration (pl_next (request_build q inp)) = None"
proof (cases q)
  case (Req_Configure r)
  with assms(1,3) configure_admits(1) [of inp r] refusal_codes(1) show ?thesis
    by (cases "configure_refusal inp r") (auto simp: build_configure_def)
qed (use assms in \<open>auto simp: build_reconfigure_def build_administrative_def build_assign_profile_def
    build_bind_capabilities_def build_reconcile_def build_fence_def build_ownership_def
    build_applied_evidence_def build_drift_def evidence_refusal_def drift_lifecycle_def advance_defs
    Let_def split: option.split_asm if_split_asm\<close>)

lemma stranded_mutate:
  assumes "stranded port e"
  shows "stranded port (snd (mutate env q e))"
proof -
  obtain r where r: "engine_ok e" "port_of e port = Some r" "pr_configuration r = None"
    "pr_lifecycle r \<in> {LC_RevalidationRequired, LC_Superseded, LC_Retired}"
    using assms by (auto simp: stranded_def)
  from r(1,2) show ?thesis
  proof (cases rule: mutate_port_cases [where env = env and q = q])
    case same
    with r show ?thesis by (simp add: stranded_def mutate_ok)
  next
    case (uncertain after evidence)
    with r show ?thesis by (auto simp: stranded_def mutate_ok uncertain_lifecycle)
  next
    case (committed after evidence)
    let ?p = "plan_of q r evidence e"
    have none: "pr_configuration (pl_next ?p) = None"
      using committed(4) r(3,4) unfolding plan_of_def
      by (intro unconfigured_plan) (auto simp: gate_plan_None mutation_input_def)
    have "pr_lifecycle (pl_next ?p) \<noteq> LC_Unconfigured"
      using committed(5) r(4)
      by (auto simp: plan_ok_def Let_def lifecycle_change_def mutation_input_def elim: lifecycle_arrow.cases)
    with none committed(4) have "pr_lifecycle (pl_next ?p) \<in> {LC_Superseded, LC_Retired}"
      by (auto simp: gate_plan_None record_validate_ok record_ok_def)
    with none committed(2,6) r(1) show ?thesis
      by (auto simp: stranded_def mutate_ok commits_def)
  qed
qed

text \<open>
  Property C10. When the first configuration of a port ends in an apply of unknown outcome, the
  port is stranded: its record no longer passes the validation that loading durable state
  applies, and no sequence of mutations ever gives the port a configuration again; it can only
  be superseded or retired.
\<close>

theorem uncertain_first_configuration_strands_port:
  assumes "engine_ok e" "port_of e (target q) = Some before" "pr_configuration before = None"
    "mutate env q e = (r, e')" "oc_code (mr_outcome r) \<in> {OC_ApplyOutcomeUnknown, OC_ReadbackMismatch}"
    "pr_lifecycle before = LC_Unconfigured"
  shows "(\<exists>after. port_of e' (target q) = Some after \<and> record_validate after \<noteq> None) \<and>
    (\<exists>last. port_of (mutations qs e') (target q) = Some last \<and> pr_configuration last = None \<and>
       pr_lifecycle last \<in> {LC_RevalidationRequired, LC_Superseded, LC_Retired})"
proof (cases rule: mutate_cases [where env = env and q = q and e = e])
  case unchanged
  with assms show ?thesis by (auto simp: quiet_def quiet_code_def)
next
  case (committed snap p a s d)
  with assms show ?thesis by auto
next
  case (uncertain snap t c override p)
  let ?after = "uncertain_record env (caller q) (gv_configuration (pr_generations (pl_next p)))
    Applied_OutcomeUnknown t before"
  have after: "port_of e' (target q) = Some ?after"
    using uncertain assms(2,4) engine_okD(1) [OF assms(1,2)]
    by (simp add: record_apply_uncertainty_def Let_def)
  have "pr_lifecycle ?after = LC_RevalidationRequired" "pr_configuration ?after = None"
    using assms(3,6) by (simp_all add: uncertain_lifecycle)
  moreover have "engine_ok e'" using mutate_ok [OF assms(1), of env q] assms(4) by simp
  ultimately have start: "stranded (target q) e'" and bad: "\<not> record_ok ?after"
    using after by (auto simp: stranded_def record_ok_def)
  from start have "stranded (target q) (mutations qs e')"
    by (rule mutations_induct [where P = "stranded (target q)"]) (rule stranded_mutate)
  then have last: "\<exists>last. port_of (mutations qs e') (target q) = Some last \<and> pr_configuration last = None \<and>
      pr_lifecycle last \<in> {LC_RevalidationRequired, LC_Superseded, LC_Retired}"
    by (simp only: stranded_def)
  have "record_validate ?after \<noteq> None" using bad by (simp only: record_validate_ok simp_thms)
  with after last show ?thesis by blast
qed

theorem uncertain_first_configuration_strands_port_witness:
  "\<exists>last. port_of (mutations [(quiet_env, configure)]
      (snd (mutate doubtful_env configure (one_port Policy_Apply fresh_port)))) ''p1'' = Some last \<and>
     pr_configuration last = None"
proof -
  let ?e = "one_port Policy_Apply fresh_port"
  have ok: "engine_ok ?e" by (rule one_port_ok) (simp_all add: fresh_port_ok fresh_port_fields)
  have t: "target configure = ''p1''" by (simp add: configure_def sample_envelope_def)
  have p: "port_of ?e (target configure) = Some fresh_port" by (simp add: t fresh_port_fields)
  have "oc_code (mr_outcome (fst (mutate doubtful_env configure ?e))) \<in>
      {OC_ApplyOutcomeUnknown, OC_ReadbackMismatch}" by (simp add: configure_uncertain)
  from uncertain_first_configuration_strands_port [OF ok p _ surjective_pairing this,
      of "[(quiet_env, configure)]"]
  show ?thesis by (simp add: t fresh_port_fields) blast
qed

end
