(* ===== verification/Binding.thy ===== *)
theory Binding
  imports Mutation_Limits
begin

text \<open>
  \<open>PortFabricEngine::bind_port\<close> of \<open>src/engine_mutation.cpp\<close>: a canonical port identity enters
  the runtime. The code runs in three locked sections, the checks of the request, the insertion
  of the record and the update of the device table; the last may take the record out again.
\<close>

record binding_request =
  bq_port :: strong_id
  bq_parent_device :: strong_id
  bq_entity_class :: port_entity_class
  bq_device_generation :: generation
  bq_provenance_kind :: provenance_kind
  bq_provenance_source :: string
  bq_epoch :: generation
  bq_attempt :: strong_id

section \<open>The request\<close>

definition binding_gate :: "engine \<Rightarrow> binding_request \<Rightarrow> mutation_result option" where
  "binding_gate e q =
     (if en_shutting_down e
      then Some (refuse (failure OC_ShuttingDown ''the runtime is shutting down'')
             EC_RejectedShuttingDown (bq_port q))
      else if \<not> id_valid (bq_port q) \<or> \<not> id_valid (bq_parent_device q) \<or>
              \<not> gen_valid (bq_device_generation q) \<or> \<not> id_valid (bq_attempt q)
      then Some (refuse (failure OC_MalformedRequest
             ''binding requires a port identity, a parent device, a device generation and an attempt identity'')
             EC_RejectedMalformedRequest ''binding request'')
      else if bq_entity_class q \<noteq> PEC_Unknown \<and> \<not> is_valid_port_entity_class (bq_entity_class q)
      then Some (refuse (failure OC_WrongEntityClass ''the entity class is not a legal value'')
             EC_RejectedWrongEntityClass ''entity class'')
      else if bq_epoch q \<noteq> en_epoch e
      then Some (refuse (failure OC_StaleCoordinatorEpoch
             ''the binding carries a coordinator epoch that is not current'')
             EC_RejectedStaleCoordinatorEpoch (format_u64 (bq_epoch q)))
      else None)"

text \<open>The provider is asked only for a port that is not bound yet.\<close>

definition binding_evidence :: "environment \<Rightarrow> engine \<Rightarrow> binding_request \<Rightarrow> capability_binding option" where
  "binding_evidence env e q =
     (if port_of e (bq_port q) \<noteq> None then None
      else case resolve_capabilities env
             (empty_record\<lparr>pr_port := bq_port q, pr_parent_device := bq_parent_device q\<rparr>) of
        Inl _ \<Rightarrow> None
      | Inr b \<Rightarrow> if cb_present b then Some b else None)"

section \<open>The record\<close>

definition bound_record :: "binding_request \<Rightarrow> capability_binding option \<Rightarrow> port_record" where
  "bound_record q evidence =
     (let r = empty_record\<lparr>pr_port := bq_port q, pr_parent_device := bq_parent_device q,
                pr_lifecycle := LC_Unconfigured, pr_drift := Drift_Unknown,
                pr_generations := no_generations\<lparr>gv_device := bq_device_generation q, gv_lifecycle := 1\<rparr>\<rparr>;
          r = (case evidence of
                 None \<Rightarrow> r
               | Some b \<Rightarrow> r\<lparr>pr_capability := b,
                   pr_generations := (pr_generations r)
                     \<lparr>gv_capability := cb_generation b, gv_evidence := cb_evidence_generation b\<rparr>\<rparr>)
      in r\<lparr>pr_provenance := no_provenance
             \<lparr>pv_kind := (if bq_provenance_kind q = PK_Unknown then PK_Operator else bq_provenance_kind q),
              pv_source := bq_provenance_source q, pv_epoch := bq_epoch q, pv_attempt := bq_attempt q\<rparr>,
           pr_last_mutation := \<lparr>lm_attempt = bq_attempt q,
             lm_payload_digest = payload_digest (bq_port q @ ''|'' @ bq_parent_device q @ ''|'' @ ''BIND_PORT''),
             lm_result_generation = 0\<rparr>,
           pr_status_reason := ''BOUND''\<rparr>)"

definition reporting_binding :: "port_record \<Rightarrow> mutation_result \<Rightarrow> mutation_result" where
  "reporting_binding r res =
     res\<lparr>mr_lifecycle := pr_lifecycle r,
         mr_configuration_generation := gv_configuration (pr_generations r),
         mr_record_digest := digest_record r\<rparr>"

text \<open>The answer for a port that is bound already.\<close>

definition rebinding_answer :: "binding_request \<Rightarrow> port_record \<Rightarrow> mutation_result" where
  "rebinding_answer q existing =
     (if pr_parent_device existing \<noteq> bq_parent_device q
      then refuse
             (with_detail ''requested_parent'' (bq_parent_device q)
               (with_detail ''bound_parent'' (pr_parent_device existing)
                 (failure OC_ConflictDetected
                    ''the canonical port identity is already bound to a different parent device'')))
             EC_RejectedConflictDetected
             ''the canonical port identity is already bound to a different parent device''
      else if last_mutation_valid (pr_last_mutation existing) \<and>
              lm_attempt (pr_last_mutation existing) = bq_attempt q
      then reporting_binding existing (because EC_IdempotentReplay (bq_port q)
             (conclude True (idempotent ''the binding attempt is already committed'') []))
      else reporting_binding existing (because EC_AlreadyCurrent (bq_port q)
             (conclude True (current ''the canonical port identity is already bound'') [])))"

definition insertion_refusal :: "engine \<Rightarrow> port_record \<Rightarrow> mutation_result option" where
  "insertion_refusal e r =
     (if cf_port_bound (en_config e) \<le> length (en_records e)
      then Some (refuse (failure OC_ResourceBoundExceeded ''the runtime is at its configured port bound'')
             EC_RejectedResourceBoundExceeded ''port bound reached'')
      else case record_validate r of
        Some err \<Rightarrow> Some (refuse (failure OC_InvalidConfiguration err) EC_RejectedInvalidConfiguration err)
      | None \<Rightarrow> None)"

definition insert_record :: "port_record \<Rightarrow> engine \<Rightarrow> engine" where
  "insert_record r e =
     e\<lparr>en_records := om_update (pr_port r) r (en_records e), en_indexes := index_add r (en_indexes e),
       en_generation := gen_advance (en_generation e)\<rparr>"

definition withdraw_record :: "port_record \<Rightarrow> engine \<Rightarrow> engine" where
  "withdraw_record r e =
     e\<lparr>en_records := om_erase (pr_port r) (en_records e), en_indexes := index_remove r (en_indexes e)\<rparr>"

section \<open>The device\<close>

text \<open>
  The device table after the record is in: a new device, a newer or the same generation of a
  known one, or an older one, for which the record is withdrawn.
\<close>

definition bind_device :: "binding_request \<Rightarrow> port_record \<Rightarrow> engine \<Rightarrow> mutation_result option \<times> engine" where
  "bind_device q r e =
     (case map_of (en_devices e) (bq_parent_device q) of
        None \<Rightarrow>
          if cf_device_bound (en_config e) \<le> length (en_devices e)
          then (Some (conclude False
                  (failure OC_ResourceBoundExceeded ''the device table is at its configured bound'') []), e)
          else (None, e\<lparr>en_devices := om_update (bq_parent_device q)
                  \<lparr>dv_device = bq_parent_device q, dv_generation = bq_device_generation q,
                   dv_source = bq_provenance_source q\<rparr> (en_devices e)\<rparr>)
      | Some known \<Rightarrow>
          if dv_generation known < bq_device_generation q
          then (None, e\<lparr>en_devices := om_update (bq_parent_device q)
                  (known\<lparr>dv_generation := bq_device_generation q, dv_source := bq_provenance_source q\<rparr>)
                  (en_devices e)\<rparr>)
          else if bq_device_generation q < dv_generation known
          then (Some (refuse (failure OC_StaleDeviceGeneration
                  ''the device has been replaced by a newer generation'')
                  EC_RejectedStaleDeviceGeneration (format_u64 (bq_device_generation q))),
                withdraw_record r e)
          else (None, e))"

definition bind_port :: "environment \<Rightarrow> binding_request \<Rightarrow> engine \<Rightarrow> mutation_result \<times> engine" where
  "bind_port env q e =
     (case binding_gate e q of
        Some r \<Rightarrow> (r, e)
      | None \<Rightarrow>
        (case port_of e (bq_port q) of
           Some existing \<Rightarrow> (rebinding_answer q existing, e)
         | None \<Rightarrow>
           (let r = bound_record q (binding_evidence env e q)
            in case insertion_refusal e r of
                 Some res \<Rightarrow> (res, e)
               | None \<Rightarrow>
                 (case bind_device q r (insert_record r e) of
                    (Some res, e) \<Rightarrow> (res, e)
                  | (None, e) \<Rightarrow>
                      (reporting_binding r
                         (because EC_Accepted (bq_port q)
                           (conclude True (success ''canonical port identity bound'')
                              ''canonical port identity bound'')),
                       snd (persist_locked_state env e))))))"


section \<open>What binding guarantees\<close>

lemma bound_record_fields [simp]:
  "pr_port (bound_record q ev) = bq_port q" "pr_parent_device (bound_record q ev) = bq_parent_device q"
  "pr_lifecycle (bound_record q ev) = LC_Unconfigured" "pr_configuration (bound_record q ev) = None"
  "pr_ownership (bound_record q ev) = None"
  "gv_device (pr_generations (bound_record q ev)) = bq_device_generation q"
  "gv_configuration (pr_generations (bound_record q ev)) = 0"
  "lm_attempt (pr_last_mutation (bound_record q ev)) = bq_attempt q"
  by (cases ev; simp add: bound_record_def empty_record_def no_generations_def)+

lemma insertion_refusal_None:
  assumes "insertion_refusal e r = None"
  shows "length (en_records e) < cf_port_bound (en_config e)" "record_validate r = None"
  using assms by (simp_all add: insertion_refusal_def split: if_split_asm option.split_asm)

lemma inserted_ok:
  assumes "engine_ok e" "port_of e (bq_port q) = None"
    "insertion_refusal e (bound_record q ev) = None"
  shows "engine_ok (insert_record (bound_record q ev) e)"
proof -
  let ?r = "bound_record q ev"
  have v: "record_ok ?r" using insertion_refusal_None(2) [OF assms(3)] by (simp only: record_validate_ok)
  have core: "record_core_ok ?r" using v by (simp add: record_core_ok_def record_ok_def)
  have known: "device_known e' ?r" for e' by (simp add: device_known_def)
  have port: "port_of (insert_record ?r e) = (port_of e)(bq_port q \<mapsto> ?r)"
    by (simp add: port_of_def insert_record_def)
  have ix: "indexes_exact ((port_of e)(bq_port q \<mapsto> ?r)) (index_add ?r (en_indexes e))"
    using assms(1,2) by (intro indexes_exact_add) (simp_all add: engine_ok_def)
  have "length (om_update (bq_port q) ?r (en_records e)) \<le> cf_port_bound (en_config e)"
    using assms(1,2) insertion_refusal_None(1) [OF assms(3)]
    by (simp add: engine_ok_def om_length_update port_of_def)
  moreover have "device_known (insert_record ?r e) x" if "device_known e x" for x
    using that by (simp add: device_known_def insert_record_def)
  ultimately show ?thesis
    unfolding engine_ok_def port
    using assms(1) ix core known
    by (auto simp: engine_ok_def insert_record_def well_filed_update om_sorted_update)
qed

lemma withdraw_inserted:
  assumes "engine_ok e" "port_of e (bq_port q) = None"
    "insertion_refusal e (bound_record q ev) = None"
  shows "engine_ok (withdraw_record (bound_record q ev) (insert_record (bound_record q ev) e))"
    "port_of (withdraw_record (bound_record q ev) (insert_record (bound_record q ev) e)) = port_of e"
proof -
  let ?r = "bound_record q ev"
  let ?i = "insert_record ?r e" and ?w = "withdraw_record ?r (insert_record ?r e)"
  have i: "engine_ok ?i" by (rule inserted_ok [OF assms])
  have pi: "port_of ?i = (port_of e)(bq_port q \<mapsto> ?r)" by (simp add: port_of_def insert_record_def)
  show pw: "port_of ?w = port_of e"
    using assms(2) by (auto simp: port_of_def insert_record_def withdraw_record_def fun_eq_iff)
  have "indexes_exact ((port_of ?i)(bq_port q := None)) (index_remove ?r (en_indexes ?i))"
    using i by (intro indexes_exact_remove) (auto simp: engine_ok_def pi)
  then have ix: "indexes_exact (port_of e) (en_indexes ?w)"
    using assms(2) by (simp add: pi withdraw_record_def fun_upd_idem)
  have "length (en_records ?w) \<le> length (en_records ?i)"
    by (simp add: withdraw_record_def om_erase_def)
  moreover have "om_sorted (en_records ?w)"
    using i by (simp add: engine_ok_def withdraw_record_def om_sorted_erase)
  ultimately show "engine_ok ?w"
    unfolding engine_ok_def pw
    using i assms(1) ix
    by (auto simp: engine_ok_def withdraw_record_def insert_record_def device_known_def)
qed

text \<open>The five ways a binding ends.\<close>

lemma bind_port_cases:
  obtains (unchanged) "snd (bind_port env q e) = e" "oc_code (mr_outcome (fst (bind_port env q e))) \<noteq> OC_Ok"
  | (unrecorded) r where "port_of e (bq_port q) = None" "insertion_refusal e r = None"
      "r = bound_record q (binding_evidence env e q)"
      "map_of (en_devices e) (bq_parent_device q) = None"
      "cf_device_bound (en_config e) \<le> length (en_devices e)"
      "snd (bind_port env q e) = insert_record r e"
      "oc_code (mr_outcome (fst (bind_port env q e))) = OC_ResourceBoundExceeded"
  | (withdrawn) r known where "port_of e (bq_port q) = None" "insertion_refusal e r = None"
      "r = bound_record q (binding_evidence env e q)"
      "map_of (en_devices e) (bq_parent_device q) = Some known" "bq_device_generation q < dv_generation known"
      "snd (bind_port env q e) = withdraw_record r (insert_record r e)"
      "oc_code (mr_outcome (fst (bind_port env q e))) = OC_StaleDeviceGeneration"
  | (bound) r e' where "port_of e (bq_port q) = None" "insertion_refusal e r = None"
      "r = bound_record q (binding_evidence env e q)" "binding_gate e q = None"
      "e' = insert_record r e \<or>
       (\<exists>d. dv_device d = (case map_of (en_devices e) (bq_parent_device q) of
              None \<Rightarrow> bq_parent_device q | Some known \<Rightarrow> dv_device known) \<and>
            dv_generation d = bq_device_generation q \<and>
            e' = (insert_record r e)\<lparr>en_devices := om_update (bq_parent_device q) d (en_devices e)\<rparr>)"
      "snd (bind_port env q e) = snd (persist_locked_state env e')"
      "oc_code (mr_outcome (fst (bind_port env q e))) = OC_Ok"
      "device_generation (bq_parent_device q) e' = Some (bq_device_generation q)"
      "\<forall>known. map_of (en_devices e) (bq_parent_device q) = Some known \<longrightarrow>
         dv_generation known \<le> bq_device_generation q"
proof -
  let ?r = "bound_record q (binding_evidence env e q)"
  have gate: "oc_code (mr_outcome r) \<noteq> OC_Ok" if "binding_gate e q = Some r" for r
    using that by (auto simp: binding_gate_def split: if_split_asm)
  have again: "oc_code (mr_outcome (rebinding_answer q x)) \<noteq> OC_Ok" for x
    by (simp add: rebinding_answer_def reporting_binding_def)
  have refusal: "oc_code (mr_outcome x) \<noteq> OC_Ok" if "insertion_refusal e r = Some x" for r x
    using that by (auto simp: insertion_refusal_def split: if_split_asm option.split_asm)
  show thesis
  proof (cases "binding_gate e q")
    case (Some r)
    with gate show thesis by (intro unchanged) (simp_all add: bind_port_def)
  next
    case open_gate: None
    show thesis
    proof (cases "port_of e (bq_port q)")
      case (Some x)
      with open_gate again show thesis by (intro unchanged) (simp_all add: bind_port_def)
    next
      case fresh: None
      show thesis
      proof (cases "insertion_refusal e ?r")
        case (Some x)
        with open_gate fresh refusal show thesis by (intro unchanged) (simp_all add: bind_port_def Let_def)
      next
        case ins: None
        have dev: "en_devices (insert_record ?r e) = en_devices e" "en_config (insert_record ?r e) = en_config e"
          by (simp_all add: insert_record_def)
        have step: "bind_port env q e = (case bind_device q ?r (insert_record ?r e) of
            (Some res, e) \<Rightarrow> (res, e)
          | (None, e) \<Rightarrow> (reporting_binding ?r (because EC_Accepted (bq_port q)
                 (conclude True (success ''canonical port identity bound'') ''canonical port identity bound'')),
               snd (persist_locked_state env e)))"
          using open_gate fresh ins by (simp add: bind_port_def Let_def)
        show thesis
        proof (cases "map_of (en_devices e) (bq_parent_device q)")
          case None
          show thesis
          proof (cases "cf_device_bound (en_config e) \<le> length (en_devices e)")
            case True
            with None fresh ins step show thesis
              by (intro unrecorded) (simp_all add: bind_device_def dev)
          next
            case False
            with None fresh ins step open_gate show thesis
              by (intro bound [of ?r "(insert_record ?r e)\<lparr>en_devices := om_update (bq_parent_device q)
                  \<lparr>dv_device = bq_parent_device q, dv_generation = bq_device_generation q,
                   dv_source = bq_provenance_source q\<rparr> (en_devices e)\<rparr>"])
                (auto simp: bind_device_def dev reporting_binding_def device_generation_def
                  intro!: exI [of _ "\<lparr>dv_device = bq_parent_device q,
                    dv_generation = bq_device_generation q, dv_source = bq_provenance_source q\<rparr>"])
          qed
        next
          case (Some known)
          consider "dv_generation known < bq_device_generation q" | "bq_device_generation q < dv_generation known"
            | "dv_generation known = bq_device_generation q" by fastforce
          then show thesis
          proof cases
            case 1
            with Some fresh ins step open_gate show thesis
              by (intro bound [of ?r "(insert_record ?r e)\<lparr>en_devices := om_update (bq_parent_device q)
                  (known\<lparr>dv_generation := bq_device_generation q, dv_source := bq_provenance_source q\<rparr>)
                   (en_devices e)\<rparr>"])
                (auto simp: bind_device_def dev reporting_binding_def device_generation_def
                  intro!: exI [of _ "known\<lparr>dv_generation := bq_device_generation q, dv_source := bq_provenance_source q\<rparr>"])
          next
            case 2
            then have "\<not> dv_generation known < bq_device_generation q" by simp
            with 2 Some fresh ins step show thesis
              by (intro withdrawn) (simp_all add: bind_device_def dev)
          next
            case 3
            with Some fresh ins step open_gate show thesis
              by (intro bound [of ?r "insert_record ?r e"])
                (simp_all add: bind_device_def dev reporting_binding_def device_generation_def)
          qed
        qed
      qed
    qed
  qed
qed


lemma insert_record_frame [simp]:
  "en_devices (insert_record r e) = en_devices e" "en_config (insert_record r e) = en_config e"
  "port_of (insert_record r e) = (port_of e)(pr_port r \<mapsto> r)"
  by (simp_all add: insert_record_def port_of_def)

lemma bind_port_ok:
  assumes "engine_ok e"
  shows "engine_ok (snd (bind_port env q e))"
proof (cases rule: bind_port_cases [where env = env and q = q and e = e])
  case unchanged
  with assms show ?thesis by simp
next
  case (unrecorded r)
  with inserted_ok [OF assms unrecorded(1)] show ?thesis by simp
next
  case (withdrawn r known)
  with withdraw_inserted(1) [OF assms withdrawn(1)] show ?thesis by simp
next
  case (bound r e')
  have ins: "engine_ok (insert_record r e)" using inserted_ok [OF assms bound(1)] bound(2,3) by simp
  have "dv_device k = bq_parent_device q" if "map_of (en_devices e) (bq_parent_device q) = Some k" for k
    using assms that by (simp add: engine_ok_def)
  moreover have "engine_ok ((insert_record r e)
      \<lparr>en_devices := om_update (bq_parent_device q) d (en_devices e)\<rparr>)" if "dv_device d = bq_parent_device q" for d
    using engine_ok_device [OF ins that] by simp
  ultimately have "engine_ok e'"
    using bound(5) ins by (auto split: option.split_asm)
  with bound(6) show ?thesis by simp
qed

text \<open>
  Property C17. Binding is all or nothing, with one exception. A binding that reports OK found
  the port unbound, was sent in the current epoch and adds exactly one record: UNCONFIGURED,
  without configuration or owner, bound to the generation of its device that is the recorded
  one afterwards and not older than the one recorded before. Any other result leaves the
  records as they were, except that a full device table is reported as a refusal although the
  new record stays, without a device.
\<close>

theorem bind_port_effect:
  assumes "engine_ok e" "bind_port env q e = (r, e')"
  shows "(oc_code (mr_outcome r) = OC_Ok \<longrightarrow>
      port_of e (bq_port q) = None \<and> bq_epoch q = en_epoch e \<and>
      (\<exists>rec. port_of e' = (port_of e)(bq_port q \<mapsto> rec) \<and> pr_port rec = bq_port q \<and>
         pr_parent_device rec = bq_parent_device q \<and> pr_lifecycle rec = LC_Unconfigured \<and>
         pr_configuration rec = None \<and> pr_ownership rec = None \<and>
         gv_device (pr_generations rec) = bq_device_generation q) \<and>
      device_generation (bq_parent_device q) e' = Some (bq_device_generation q) \<and>
      (\<forall>g. device_generation (bq_parent_device q) e = Some g \<longrightarrow> g \<le> bq_device_generation q)) \<and>
    (oc_code (mr_outcome r) \<noteq> OC_Ok \<longrightarrow>
      port_of e' = port_of e \<or>
      (oc_code (mr_outcome r) = OC_ResourceBoundExceeded \<and> port_of e' (bq_port q) \<noteq> None \<and>
       device_generation (bq_parent_device q) e' = None))"
proof (cases rule: bind_port_cases [where env = env and q = q and e = e])
  case unchanged
  with assms(2) show ?thesis by simp
next
  case (unrecorded r)
  with assms(2) show ?thesis by (auto simp: device_generation_def)
next
  case (withdrawn r known)
  with assms(2) withdraw_inserted(2) [OF assms(1) withdrawn(1)] show ?thesis by simp
next
  case (bound r e'')
  have "bq_epoch q = en_epoch e" using bound(4) by (auto simp: binding_gate_def split: if_split_asm)
  moreover have "port_of e'' = (port_of e)(bq_port q \<mapsto> r)"
    using bound(3,5) by (auto simp: port_of_def insert_record_def)
  moreover have "device_generation d (snd (persist_locked_state env x)) = device_generation d x" for d x
    by (simp add: device_generation_def)
  ultimately show ?thesis
    using bound assms(2) by (auto simp: device_generation_def)
qed

definition sample_binding_request :: binding_request where
  "sample_binding_request = \<lparr>bq_port = ''p2'', bq_parent_device = ''leaf'', bq_entity_class = PEC_SwitchPort,
     bq_device_generation = 3, bq_provenance_kind = PK_Operator, bq_provenance_source = [],
     bq_epoch = 7, bq_attempt = ''b1''\<rparr>"

lemma sample_bound:
  "oc_code (mr_outcome (fst (bind_port quiet_env sample_binding_request (one_port Policy_Apply fresh_port)))) = OC_Ok"
proof -
  let ?e = "one_port Policy_Apply fresh_port"
  have "validate_text ''BOUND'' max_name_length = None" "validate_text [] max_description_length = None"
    by code_simp+
  then have "record_ok (bound_record sample_binding_request None)"
    by (simp add: record_ok_def bound_record_def sample_binding_request_def empty_record_def id_valid_def
        binding_valid_def no_binding_def)
  then have "record_validate (bound_record sample_binding_request None) = None"
    by (simp only: record_validate_ok)
  then have "insertion_refusal ?e (bound_record sample_binding_request None) = None"
    by (simp add: insertion_refusal_def default_config_def max_ports_def) (simp add: one_port_def)
  moreover have "binding_evidence quiet_env ?e sample_binding_request = None"
    by (simp add: binding_evidence_def resolve_capabilities_def quiet_env_def empty_record_def no_binding_def)
  moreover have "binding_gate ?e sample_binding_request = None"
    by (simp add: binding_gate_def sample_binding_request_def id_valid_def gen_valid_def)
  ultimately show ?thesis
    by (simp add: bind_port_def fresh_port_fields bind_device_def Let_def)
      (simp add: sample_binding_request_def reporting_binding_def insert_record_def)
qed

theorem bind_port_effect_witness:
  "port_of (snd (bind_port quiet_env sample_binding_request (one_port Policy_Apply fresh_port))) ''p2'' \<noteq> None"
proof -
  let ?e = "one_port Policy_Apply fresh_port"
  have ok: "engine_ok ?e" by (rule one_port_ok) (simp_all add: fresh_port_ok fresh_port_fields)
  have "bq_port sample_binding_request = ''p2''" by (simp add: sample_binding_request_def)
  with bind_port_effect [OF ok surjective_pairing, of quiet_env sample_binding_request] sample_bound
  show ?thesis by auto
qed

end
