(* ===== verification/Stages.thy ===== *)
theory Stages
  imports Binding
begin

text \<open>
  The mutation pipeline of \<open>src/engine_mutation.cpp\<close> as a thread runs it. \<open>Mutation\<close> runs a mutation
  in one piece; the code takes a lock for each section of it and runs what lies between, the provider,
  the adapter and the store included, without one. Here a mutation is a sequence of stages, one for
  each locked section; run one after the other they give the pipeline back.
\<close>

section \<open>Stages\<close>

text \<open>
  \<open>Resolved\<close> carries what one lock on the authority state gave: epoch, topology and the generation
  of the parent device. Saving gathers the durable state in three sections.
\<close>

datatype ending =
    Stored_Commit port_mutation_kind mutation_plan port_record
  | Stored_Uncertainty mutation_result

datatype progress =
    At_Authority
  | At_Profiles persisted_state
  | At_Records persisted_state
  | At_Save persisted_state

datatype stage =
    Submitted
  | Admitted
  | Read port_record
  | Checked port_record
  | Resolved port_record generation generation "generation option"
  | Planned port_record mutation_plan
  | Decided port_record decision
  | Persisting ending progress
  | Answered mutation_result

section \<open>Saving\<close>

text \<open>What a mutation that has been stored answers once its save has ended.\<close>

definition commit_report :: "outcome \<Rightarrow> port_record \<Rightarrow> mutation_result" where
  "commit_report persisted updated =
     (if \<not> outcome_ok persisted
      then reporting updated
        (because EC_RejectedPersistenceIoFailure (oc_message persisted)
          (conclude False
            (with_detail ''persistence'' (outcome_to_string persisted)
              (failure OC_PersistenceIoFailure
                 ''the mutation was committed in memory but durable state could not be written''))
            ''the mutation was committed in memory but durable state could not be written''))
      else reporting updated (conclude True (success ''mutation committed'') ''mutation committed''))"

primrec ending_report :: "outcome \<Rightarrow> ending \<Rightarrow> mutation_result" where
  "ending_report persisted (Stored_Commit kind plan updated) =
     explain_commit kind plan (commit_report persisted updated)"
| "ending_report persisted (Stored_Uncertainty r) = r"

definition gather_authority :: "engine \<Rightarrow> persisted_state" where
  "gather_authority e =
     \<lparr>ps_fabric = cf_fabric (en_config e), ps_site = cf_site (en_config e), ps_epoch = en_epoch e,
      ps_engine_generation = 0, ps_topology = en_topology e, ps_records = [], ps_profiles = [],
      ps_devices = map snd (en_devices e), ps_publishers = map snd (en_publishers e)\<rparr>"

definition gather_profiles :: "engine \<Rightarrow> persisted_state \<Rightarrow> persisted_state" where
  "gather_profiles e ps = ps\<lparr>ps_profiles := registry_list (en_profiles e)\<rparr>"

definition gather_records :: "engine \<Rightarrow> persisted_state \<Rightarrow> persisted_state" where
  "gather_records e ps =
     ps\<lparr>ps_engine_generation := en_generation e, ps_records := map snd (en_records e)\<rparr>"

lemma gather_state_sections: "gather_state e = gather_records e (gather_profiles e (gather_authority e))"
  by (simp add: gather_state_def gather_records_def gather_profiles_def gather_authority_def)

primrec persist_step :: "environment \<Rightarrow> ending \<Rightarrow> engine \<Rightarrow> progress \<Rightarrow> stage \<times> engine" where
  "persist_step env ending e At_Authority =
     (if cf_persistence (en_config e) \<noteq> Persistence_Automatic
      then (Answered (ending_report (success ''persistence is manual'') ending), e)
      else if cf_persistence_path (en_config e) = []
      then (Answered (ending_report (failure OC_PersistenceIoFailure
              ''automatic persistence is enabled without a container path'') ending), e)
      else (Persisting ending (At_Profiles (gather_authority e)), e))"
| "persist_step env ending e (At_Profiles ps) = (Persisting ending (At_Records (gather_profiles e ps)), e)"
| "persist_step env ending e (At_Records ps) = (Persisting ending (At_Save (gather_records e ps)), e)"
| "persist_step env ending e (At_Save ps) =
     (let written = ev_save env (cf_persistence_path (en_config e)) ps
      in (Answered (ending_report written ending), e\<lparr>en_durability_dirty := \<not> outcome_ok written\<rparr>))"

section \<open>One section of a mutation\<close>

definition check_stage :: "mutation_request \<Rightarrow> port_record \<Rightarrow> engine \<Rightarrow> stage" where
  "check_stage q snap e =
     (case gate_replay (request_envelope q) (request_kind q) (request_payload q) snap of
        Some r \<Rightarrow> Answered r | None \<Rightarrow>
      case gate_expectations (request_envelope q) (request_kind q) (en_topology e) snap of
        Some r \<Rightarrow> Answered r | None \<Rightarrow>
      case gate_ownership (en_config e) (request_envelope q) (request_kind q) snap of
        Some r \<Rightarrow> Answered r | None \<Rightarrow> Checked snap)"

definition staged_input ::
  "mutation_request \<Rightarrow> port_record \<Rightarrow> generation \<Rightarrow> generation \<Rightarrow> generation option \<Rightarrow> capability_binding \<Rightarrow>
   engine \<Rightarrow> build_input" where
  "staged_input q snap epoch topology device evidence e =
     \<lparr>bi_current = snap, bi_epoch = epoch, bi_topology = topology, bi_parent_device_generation = device,
      bi_capability = evidence, bi_kind = request_kind q, bi_profiles = en_profiles e,
      bi_config = en_config e\<rparr>"

definition plan_stage ::
  "environment \<Rightarrow> mutation_request \<Rightarrow> port_record \<Rightarrow> generation \<Rightarrow> generation \<Rightarrow> generation option \<Rightarrow> engine \<Rightarrow> stage"
  where
  "plan_stage env q snap epoch topology device e =
     (case gate_device (request_envelope q) (request_kind q) device snap of
        Some r \<Rightarrow> Answered r | None \<Rightarrow>
      case (if needs_capability (request_kind q) then resolve_capabilities env snap else Inr no_binding) of
        Inl oc \<Rightarrow> Answered (refuse_capability oc) | Inr evidence \<Rightarrow>
      let plan = request_build q (staged_input q snap epoch topology device evidence e)
      in case gate_plan snap plan of Some r \<Rightarrow> Answered r | None \<Rightarrow>
      Planned snap (stamp (request_envelope q) (request_payload q) (request_fallback q) plan))"

text \<open>The section under the exclusive lock on the records.\<close>

definition store_stage :: "environment \<Rightarrow> mutation_request \<Rightarrow> decision \<Rightarrow> engine \<Rightarrow> stage \<times> engine" where
  "store_stage env q d e =
     (case d of
        Refused r \<Rightarrow> (Answered r, e)
      | Uncertain text code override plan \<Rightarrow>
          (case port_of e (target q) of
             None \<Rightarrow> (Answered (case override of None \<Rightarrow> default_result\<lparr>mr_outcome := failure code text\<rparr> | Some r \<Rightarrow> r), e)
           | Some before \<Rightarrow>
               (Persisting (Stored_Uncertainty (case override of
                    None \<Rightarrow> because (explain_code_for code) text (conclude False (failure code text) text)
                  | Some r \<Rightarrow> r)) At_Authority,
                (store_record before (uncertain_record env (caller q)
                    (gv_configuration (pr_generations (pl_next plan))) Applied_OutcomeUnknown text before) e)
                  \<lparr>en_generation := gen_next (en_generation e)\<rparr>))
      | Ready plan applied settled \<Rightarrow>
          (case port_of e (target q) of
             None \<Rightarrow> (Answered (explain_commit (request_kind q) plan (refuse_unknown_port (target q))), e)
           | Some cur \<Rightarrow>
             (case commit_answer (target q) (pl_expected plan) plan cur (en_generation e) of
                Some r \<Rightarrow> (Answered (explain_commit (request_kind q) plan r), e)
              | None \<Rightarrow>
                (let updated = committed_record plan (pr_provenance (pl_next plan)) applied settled
                 in (Persisting (Stored_Commit (request_kind q) plan updated) At_Authority,
                     (store_record cur updated e)\<lparr>en_generation := gen_next (en_generation e)\<rparr>)))))"

primrec advance :: "environment \<Rightarrow> mutation_request \<Rightarrow> engine \<Rightarrow> stage \<Rightarrow> stage \<times> engine" where
  "advance env q e Submitted =
     (case gate_admission e (request_envelope q) of
        Some r \<Rightarrow> (Answered r, e)
      | None \<Rightarrow>
        (case check_authority (caller q) e of
           (authority, e) \<Rightarrow> (if outcome_ok authority then Admitted else Answered (refuse_authority authority), e)))"
| "advance env q e Admitted =
     (case port_of e (target q) of
        None \<Rightarrow> (Answered (refuse_unknown_port (target q)), e)
      | Some snap \<Rightarrow> (Read snap, e))"
| "advance env q e (Read snap) = (check_stage q snap e, e)"
| "advance env q e (Checked snap) =
     (Resolved snap (en_epoch e) (en_topology e) (device_generation (pr_parent_device snap) e), e)"
| "advance env q e (Resolved snap epoch topology device) = (plan_stage env q snap epoch topology device e, e)"
| "advance env q e (Planned snap plan) = (Decided snap (apply_plan env (en_config e) (target q) snap plan), e)"
| "advance env q e (Decided snap d) = store_stage env q d e"
| "advance env q e (Persisting ending progress) = persist_step env ending e progress"
| "advance env q e (Answered r) = (Answered r, e)"

section \<open>A mutation that runs alone\<close>

text \<open>What is left of the pipeline at each stage, when nothing interferes.\<close>

definition conclude_save :: "environment \<Rightarrow> ending \<Rightarrow> outcome \<times> engine \<Rightarrow> mutation_result \<times> engine" where
  "conclude_save env ending = (\<lambda>(persisted, e). (ending_report persisted ending, e))"

definition save_gathered :: "environment \<Rightarrow> ending \<Rightarrow> engine \<Rightarrow> persisted_state \<Rightarrow> mutation_result \<times> engine" where
  "save_gathered env ending e ps =
     (let written = ev_save env (cf_persistence_path (en_config e)) ps
      in (ending_report written ending, e\<lparr>en_durability_dirty := \<not> outcome_ok written\<rparr>))"

primrec rest_of_save :: "environment \<Rightarrow> ending \<Rightarrow> engine \<Rightarrow> progress \<Rightarrow> mutation_result \<times> engine" where
  "rest_of_save env ending e At_Authority = conclude_save env ending (persist_locked_state env e)"
| "rest_of_save env ending e (At_Profiles ps) = save_gathered env ending e (gather_records e (gather_profiles e ps))"
| "rest_of_save env ending e (At_Records ps) = save_gathered env ending e (gather_records e ps)"
| "rest_of_save env ending e (At_Save ps) = save_gathered env ending e ps"

definition conclude_stage :: "environment \<Rightarrow> mutation_request \<Rightarrow> engine \<Rightarrow> decision \<Rightarrow> mutation_result \<times> engine" where
  "conclude_stage env q e d = conclude_decision env (request_envelope q) (request_kind q) d e"

definition rest_of_plan ::
  "environment \<Rightarrow> mutation_request \<Rightarrow> port_record \<Rightarrow> generation \<Rightarrow> generation \<Rightarrow> generation option \<Rightarrow> engine \<Rightarrow> decision"
  where
  "rest_of_plan env q snap epoch topology device e =
     (case plan_stage env q snap epoch topology device e of
        Planned snap plan \<Rightarrow> apply_plan env (en_config e) (target q) snap plan
      | Answered r \<Rightarrow> Refused r | _ \<Rightarrow> undefined)"

primrec rest_of :: "environment \<Rightarrow> mutation_request \<Rightarrow> engine \<Rightarrow> stage \<Rightarrow> mutation_result \<times> engine" where
  "rest_of env q e Submitted = mutate env q e"
| "rest_of env q e Admitted =
     (case port_of e (target q) of
        None \<Rightarrow> (refuse_unknown_port (target q), e)
      | Some snap \<Rightarrow> conclude_stage env q e (decision_of env q snap e))"
| "rest_of env q e (Read snap) = conclude_stage env q e (decision_of env q snap e)"
| "rest_of env q e (Checked snap) = conclude_stage env q e
     (rest_of_plan env q snap (en_epoch e) (en_topology e) (device_generation (pr_parent_device snap) e) e)"
| "rest_of env q e (Resolved snap epoch topology device) =
     conclude_stage env q e (rest_of_plan env q snap epoch topology device e)"
| "rest_of env q e (Planned snap plan) =
     conclude_stage env q e (apply_plan env (en_config e) (target q) snap plan)"
| "rest_of env q e (Decided snap d) = conclude_stage env q e d"
| "rest_of env q e (Persisting ending progress) = rest_of_save env ending e progress"
| "rest_of env q e (Answered r) = (r, e)"

lemma persist_step_rest:
  "(case persist_step env ending e pr of (st, e') \<Rightarrow> rest_of env q e' st) = rest_of_save env ending e pr"
  by (cases pr) (simp_all add: persist_locked_state_def conclude_save_def save_gathered_def gather_state_sections Let_def)

lemma plan_stage_cases:
  obtains (answered) r where "plan_stage env q snap epoch topology device e = Answered r"
  | (planned) evidence where
      "gate_device (request_envelope q) (request_kind q) device snap = None"
      "(if needs_capability (request_kind q) then resolve_capabilities env snap else Inr no_binding) = Inr evidence"
      "gate_plan snap (request_build q (staged_input q snap epoch topology device evidence e)) = None"
      "plan_stage env q snap epoch topology device e = Planned snap
         (stamp (request_envelope q) (request_payload q) (request_fallback q)
           (request_build q (staged_input q snap epoch topology device evidence e)))"
proof (cases "gate_device (request_envelope q) (request_kind q) device snap")
  case (Some r)
  then show thesis by (intro answered) (simp add: plan_stage_def)
next
  case gate: None
  let ?c = "if needs_capability (request_kind q) then resolve_capabilities env snap else Inr no_binding"
  show thesis
  proof (cases ?c)
    case (Inl oc)
    with gate show thesis by (intro answered) (simp add: plan_stage_def)
  next
    case (Inr evidence)
    with gate answered planned [of evidence] show thesis
      by (cases "gate_plan snap (request_build q (staged_input q snap epoch topology device evidence e))")
        (simp_all add: plan_stage_def Let_def)
  qed
qed

lemma check_stage_cases:
  obtains (answered) r where "check_stage q snap e = Answered r"
  | (checked) "gate_replay (request_envelope q) (request_kind q) (request_payload q) snap = None"
      "gate_expectations (request_envelope q) (request_kind q) (en_topology e) snap = None"
      "gate_ownership (en_config e) (request_envelope q) (request_kind q) snap = None"
      "check_stage q snap e = Checked snap"
  using answered checked
  by (cases "gate_replay (request_envelope q) (request_kind q) (request_payload q) snap";
      cases "gate_expectations (request_envelope q) (request_kind q) (en_topology e) snap";
      cases "gate_ownership (en_config e) (request_envelope q) (request_kind q) snap")
    (simp_all add: check_stage_def)

lemma decision_of_stages:
  "decision_of env q snap e =
     (case check_stage q snap e of
        Answered r \<Rightarrow> Refused r
      | _ \<Rightarrow> rest_of_plan env q snap (en_epoch e) (en_topology e)
          (device_generation (pr_parent_device snap) e) e)"
proof -
  have inp: "staged_input q snap (en_epoch e) (en_topology e) (device_generation (pr_parent_device snap) e)
      evidence e = mutation_input e (request_kind q) snap evidence" for evidence
    by (simp add: staged_input_def mutation_input_def)
  show ?thesis
    by (simp add: decision_of_def decide_def check_stage_def rest_of_plan_def plan_stage_def inp Let_def
        split: option.split sum.split)
qed

lemma conclude_refused [simp]: "conclude_stage env q e (Refused r) = (r, e)"
  by (simp add: conclude_stage_def conclude_decision_def)

lemma commit_report_eq:
  "commit env port x p v a s e =
     (case port_of e port of
        None \<Rightarrow> (refuse_unknown_port port, e)
      | Some cur \<Rightarrow>
        (case commit_answer port x p cur (en_generation e) of
           Some r \<Rightarrow> (r, e)
         | None \<Rightarrow>
           (case persist_locked_state env ((store_record cur (committed_record p v a s) e)
                  \<lparr>en_generation := gen_next (en_generation e)\<rparr>) of
              (persisted, e) \<Rightarrow> (commit_report persisted (committed_record p v a s), e))))"
  by (simp add: commit_def commit_report_def Let_def split_beta split: option.split)

lemma store_stage_rest:
  "(case store_stage env q d e of (st, e') \<Rightarrow> rest_of env q e' st) = conclude_stage env q e d"
  by (cases d)
    (simp_all add: store_stage_def conclude_stage_def conclude_decision_def record_apply_uncertainty_def
      commit_report_eq conclude_save_def Let_def split_beta split: option.split)

lemma advance_rest: "(case advance env q e st of (st', e') \<Rightarrow> rest_of env q e' st') = rest_of env q e st"
proof (cases st)
  case Submitted
  then show ?thesis
    by (simp add: mutate_def execute_mutation_def conclude_stage_def decision_of_def split_beta split: option.split)
next
  case Admitted
  then show ?thesis by (simp split: option.split)
next
  case (Read snap)
  then show ?thesis
    by (cases rule: check_stage_cases [of q snap e]) (simp_all add: decision_of_stages)
next
  case (Resolved snap epoch topology device)
  then show ?thesis
    by (cases rule: plan_stage_cases [of env q snap epoch topology device e]) (simp_all add: rest_of_plan_def)
qed (simp_all add: store_stage_rest persist_step_rest)

text \<open>Each stage is closer to the answer than the one before.\<close>

primrec save_distance :: "progress \<Rightarrow> nat" where
  "save_distance At_Authority = 4" | "save_distance (At_Profiles ps) = 3"
| "save_distance (At_Records ps) = 2" | "save_distance (At_Save ps) = 1"

primrec distance :: "stage \<Rightarrow> nat" where
  "distance Submitted = 11" | "distance Admitted = 10" | "distance (Read snap) = 9"
| "distance (Checked snap) = 8" | "distance (Resolved snap epoch topology device) = 7"
| "distance (Planned snap plan) = 6" | "distance (Decided snap d) = 5"
| "distance (Persisting ending progress) = save_distance progress" | "distance (Answered r) = 0"

lemma distance_decreases: "distance (fst (advance env q e st)) \<le> distance st - 1"
proof (cases st)
  case (Read snap)
  then show ?thesis by (cases rule: check_stage_cases [of q snap e]) simp_all
next
  case (Resolved snap epoch topology device)
  then show ?thesis by (cases rule: plan_stage_cases [of env q snap epoch topology device e]) simp_all
next
  case (Decided snap d)
  then show ?thesis
    by (cases d) (simp_all add: store_stage_def Let_def split: option.split)
next
  case (Persisting ending progress)
  then show ?thesis by (cases progress) (simp_all add: Let_def)
qed (simp_all add: split_beta split: option.split)

lemma distance_answered: "distance st = 0 \<Longrightarrow> \<exists>r. st = Answered r"
  by (cases st) (simp_all, metis progress.exhaust save_distance.simps zero_neq_numeral zero_neq_one)

definition run_alone :: "environment \<Rightarrow> mutation_request \<Rightarrow> nat \<Rightarrow> stage \<times> engine \<Rightarrow> stage \<times> engine" where
  "run_alone env q n = ((\<lambda>(st, e). advance env q e st) ^^ n)"

lemma stages_run:
  "run_alone env q 11 (Submitted, e) = (Answered (fst (mutate env q e)), snd (mutate env q e))"
proof -
  have "rest_of env q (snd (run_alone env q n x)) (fst (run_alone env q n x)) = rest_of env q (snd x) (fst x) \<and>
      distance (fst (run_alone env q n x)) \<le> distance (fst x) - n" for n x
  proof (induction n)
    case 0
    then show ?case by (simp add: run_alone_def)
  next
    case (Suc n)
    let ?y = "run_alone env q n x"
    have y: "run_alone env q (Suc n) x = advance env q (snd ?y) (fst ?y)"
      by (simp add: run_alone_def split_beta)
    show ?case
      unfolding y
      using Suc advance_rest [of env q "snd ?y" "fst ?y"] distance_decreases [of env q "snd ?y" "fst ?y"]
      by (auto simp: split_beta)
  qed
  note end_state = this [of 11 "(Submitted, e)"]
  obtain r where "fst (run_alone env q 11 (Submitted, e)) = Answered r"
    using end_state by (auto dest!: distance_answered)
  with end_state show ?thesis by (simp add: prod_eq_iff)
qed


section \<open>Up to the commit\<close>

lemma check_stage_admitted [simp]: "check_stage q snap (admitted q' e) = check_stage q snap e"
  unfolding check_stage_def admitted_frame ..

lemma plan_stage_admitted [simp]:
  "plan_stage env q snap epoch topology device (admitted q' e) = plan_stage env q snap epoch topology device e"
  unfolding plan_stage_def staged_input_def admitted_frame ..

lemma run_alone_Suc: "run_alone env q (Suc n) (st, e) =
  run_alone env q n (advance env q e st)"
  by (simp add: run_alone_def funpow_swap1 split_beta)

lemma run_alone_0 [simp]: "run_alone env q 0 x = x"
  by (simp add: run_alone_def)

text \<open>A mutation that is decided, run up to its decision.\<close>

lemma run_to_decision:
  assumes "admits q e" "port_of e (target q) = Some snap" "decision_of env q snap e = d" "\<forall>r. d \<noteq> Refused r"
  shows "run_alone env q 6 (Submitted, e) = (Decided snap d, admitted q e)"
proof -
  obtain oc where auth: "check_authority (caller q) e = (oc, admitted q e)"
    by (cases "check_authority (caller q) e") (simp add: admitted_def)
  then have ok: "outcome_ok oc"
    using assms(1) check_authority_admit_iff [of "caller q" e] by (simp add: admits_def)
  have checked: "check_stage q snap e = Checked snap"
    using assms(3,4) by (cases rule: check_stage_cases [of q snap e]) (auto simp: decision_of_stages)
  let ?p = "plan_stage env q snap (en_epoch e) (en_topology e) (device_generation (pr_parent_device snap) e) e"
  obtain plan where plan: "?p = Planned snap plan" "apply_plan env (en_config e) (target q) snap plan = d"
    using assms(3,4) checked
    by (cases rule: plan_stage_cases [of env q snap "en_epoch e" "en_topology e"
          "device_generation (pr_parent_device snap) e" e])
      (auto simp: decision_of_stages rest_of_plan_def)
  have "advance env q e Submitted = (Admitted, admitted q e)"
    using assms(1) ok by (simp add: auth admits_def)
  moreover have "advance env q (admitted q e) Admitted = (Read snap, admitted q e)" using assms(2) by simp
  moreover have "advance env q (admitted q e) (Read snap) = (Checked snap, admitted q e)" using checked by simp
  moreover have "advance env q (admitted q e) (Checked snap) = (Resolved snap (en_epoch e) (en_topology e)
      (device_generation (pr_parent_device snap) e), admitted q e)" by simp
  moreover have "advance env q (admitted q e) (Resolved snap (en_epoch e) (en_topology e)
      (device_generation (pr_parent_device snap) e)) = (Planned snap plan, admitted q e)" using plan(1) by simp
  moreover have "advance env q (admitted q e) (Planned snap plan) = (Decided snap d, admitted q e)"
    using plan(2) by simp
  ultimately have "run_alone env q (Suc (Suc (Suc (Suc (Suc (Suc 0)))))) (Submitted, e) = (Decided snap d, admitted q e)"
    by (simp only: run_alone_Suc run_alone_0)
  then show ?thesis by (simp add: numeral_eq_Suc)
qed

text \<open>A committed mutation whose state is gathered, before it is written.\<close>

definition committed_state :: "mutation_request \<Rightarrow> port_record \<Rightarrow> port_record \<Rightarrow> engine \<Rightarrow> engine" where
  "committed_state q snap r e =
     (store_record snap r (admitted q e))\<lparr>en_generation := gen_next (en_generation e)\<rparr>"

lemma run_to_save:
  assumes "admits q e" "port_of e (target q) = Some snap" "decision_of env q snap e = Ready p a b"
    "commit_answer (target q) (pl_expected p) p snap (en_generation e) = None"
    "cf_persistence (en_config e) = Persistence_Automatic" "cf_persistence_path (en_config e) \<noteq> []"
  defines "r \<equiv> committed_record p (pr_provenance (pl_next p)) a b"
  shows "run_alone env q 10 (Submitted, e) =
    (Persisting (Stored_Commit (request_kind q) p r) (At_Save (gather_state (committed_state q snap r e))),
     committed_state q snap r e)"
proof -
  let ?e = "committed_state q snap r e" and ?en = "Stored_Commit (request_kind q) p r"
  have cf: "en_config ?e = en_config e" by (simp add: committed_state_def)
  have "advance env q (admitted q e) (Decided snap (Ready p a b)) = (Persisting ?en At_Authority, ?e)"
    using assms(2,4) by (simp add: store_stage_def committed_state_def r_def Let_def)
  moreover have "advance env q ?e (Persisting ?en At_Authority) = (Persisting ?en (At_Profiles (gather_authority ?e)), ?e)"
    using assms(5,6) by (simp add: cf)
  moreover have "advance env q ?e (Persisting ?en (At_Profiles ps)) = (Persisting ?en (At_Records (gather_profiles ?e ps)), ?e)"
    "advance env q ?e (Persisting ?en (At_Records ps)) = (Persisting ?en (At_Save (gather_records ?e ps)), ?e)" for ps
    by simp_all
  ultimately have "run_alone env q (Suc (Suc (Suc (Suc 0)))) (Decided snap (Ready p a b), admitted q e) =
      (Persisting ?en (At_Save (gather_state ?e)), ?e)"
    by (simp only: run_alone_Suc run_alone_0 gather_state_sections)
  moreover have "run_alone env q 10 (Submitted, e) =
      run_alone env q (Suc (Suc (Suc (Suc 0)))) (run_alone env q 6 (Submitted, e))"
    by (simp add: run_alone_def numeral_eq_Suc)
  ultimately show ?thesis using run_to_decision [OF assms(1-3)] by simp
qed

end
