(* ===== verification/Interleaving.thy ===== *)
theory Interleaving
  imports Stages
begin

text \<open>
  Many mutations at once: a runtime with the mutations that are under way, whose locked sections
  interleave with each other and with the other operations of the runtime. \<open>bind_port\<close> and the
  operations of the authority state are one step each. Compare-and-commit never loses an update;
  two things go wrong: a prepared mutation outlives the fencing of its publisher, and a slow writer
  puts an older state on disk.
\<close>

section \<open>Systems\<close>

record system =
  sy_engine :: engine
  sy_threads :: "(mutation_request \<times> stage) list"
  sy_used :: "strong_id set"
  sy_disk :: "persisted_state option"

datatype operation =
    Op_RegisterPublisher strong_id strong_id generation
  | Op_FencePublisher strong_id strong_id
  | Op_BeginEpoch
  | Op_RegisterDevice strong_id generation string
  | Op_SetTopology generation
  | Op_DefineProfile port_profile
  | Op_BindPort binding_request
  | Op_Shutdown

primrec operate :: "environment \<Rightarrow> operation \<Rightarrow> engine \<Rightarrow> engine" where
  "operate env (Op_RegisterPublisher publisher boot epoch) e = snd (register_publisher publisher boot epoch e)"
| "operate env (Op_FencePublisher publisher boot) e = snd (fence_publisher publisher boot e)"
| "operate env Op_BeginEpoch e = snd (begin_epoch e)"
| "operate env (Op_RegisterDevice device g label) e = snd (register_device device g label e)"
| "operate env (Op_SetTopology g) e = snd (set_topology_generation g e)"
| "operate env (Op_DefineProfile p) e = snd (define_profile p e)"
| "operate env (Op_BindPort q) e = snd (bind_port env q e)"
| "operate env Op_Shutdown e = shutdown e"

text \<open>The attempt identities a system has seen: of its records, its mutations and its bindings.\<close>

primrec operation_attempts :: "operation \<Rightarrow> strong_id set" where
  "operation_attempts (Op_RegisterPublisher publisher boot epoch) = {}"
| "operation_attempts (Op_FencePublisher publisher boot) = {}"
| "operation_attempts Op_BeginEpoch = {}"
| "operation_attempts (Op_RegisterDevice device g label) = {}"
| "operation_attempts (Op_SetTopology g) = {}"
| "operation_attempts (Op_DefineProfile p) = {}"
| "operation_attempts (Op_BindPort q) = {bq_attempt q}"
| "operation_attempts Op_Shutdown = {}"

definition recorded_attempts :: "engine \<Rightarrow> strong_id set" where
  "recorded_attempts e = (\<lambda>r. lm_attempt (pr_last_mutation r)) ` ran (port_of e)"

definition attempt :: "mutation_request \<Rightarrow> strong_id" where
  "attempt q = au_attempt (caller q)"

text \<open>What the disk holds after a turn: a save that succeeds replaces it.\<close>

primrec saved_by :: "environment \<Rightarrow> engine \<Rightarrow> persisted_state option \<Rightarrow> progress \<Rightarrow> persisted_state option" where
  "saved_by env e disk At_Authority = disk"
| "saved_by env e disk (At_Profiles ps) = disk"
| "saved_by env e disk (At_Records ps) = disk"
| "saved_by env e disk (At_Save ps) =
     (if outcome_ok (ev_save env (cf_persistence_path (en_config e)) ps) then Some ps else disk)"

definition disk_after :: "environment \<Rightarrow> engine \<Rightarrow> stage \<Rightarrow> persisted_state option \<Rightarrow> persisted_state option" where
  "disk_after env e st disk = (case st of Persisting ending pr \<Rightarrow> saved_by env e disk pr | _ \<Rightarrow> disk)"

text \<open>
  A turn of a mutation is one section of it, under whatever the provider, the adapter and the store
  answer at that moment. A new mutation or binding carries an attempt identity of its own.
\<close>

definition turn :: "environment \<Rightarrow> nat \<Rightarrow> system \<Rightarrow> system" where
  "turn env i s =
     (case sy_threads s ! i of (q, st) \<Rightarrow>
      case advance env q (sy_engine s) st of (st', e) \<Rightarrow>
        s\<lparr>sy_engine := e, sy_threads := (sy_threads s)[i := (q, st')],
          sy_disk := disk_after env (sy_engine s) st (sy_disk s)\<rparr>)"

inductive reachable :: "engine \<Rightarrow> system \<Rightarrow> bool" for e0 where
  initial: "reachable e0 \<lparr>sy_engine = e0, sy_threads = [], sy_used = recorded_attempts e0, sy_disk = None\<rparr>"
| submitted: "reachable e0 s \<Longrightarrow> attempt q \<notin> sy_used s \<Longrightarrow>
    reachable e0 (s\<lparr>sy_threads := sy_threads s @ [(q, Submitted)], sy_used := insert (attempt q) (sy_used s)\<rparr>)"
| turned: "reachable e0 s \<Longrightarrow> i < length (sy_threads s) \<Longrightarrow> reachable e0 (turn env i s)"
| operated: "reachable e0 s \<Longrightarrow> operation_attempts op \<inter> sy_used s = {} \<Longrightarrow>
    reachable e0 (s\<lparr>sy_engine := operate env op (sy_engine s), sy_used := operation_attempts op \<union> sy_used s\<rparr>)"

inductive_cases reachableE: "reachable e0 s"

section \<open>How a record changes\<close>

text \<open>
  What happens to one record between two looks at it: a commit leaves its attempt on the record, an
  uncertain apply advances the evidence generation, the release of ownership the ownership generation.
\<close>

definition exhausted :: "port_record \<Rightarrow> bool" where
  "exhausted r \<longleftrightarrow> gen_exhaustible (gv_ownership (pr_generations r)) \<or> gen_exhaustible (gv_evidence (pr_generations r))"

definition moved_on :: "port_record \<Rightarrow> port_record \<Rightarrow> bool" where
  "moved_on snap cur \<longleftrightarrow>
     lm_attempt (pr_last_mutation cur) \<noteq> lm_attempt (pr_last_mutation snap) \<or>
     (gv_ownership (pr_generations snap) \<le> gv_ownership (pr_generations cur) \<and>
      gv_evidence (pr_generations snap) \<le> gv_evidence (pr_generations cur) \<and>
      (gv_ownership (pr_generations snap) < gv_ownership (pr_generations cur) \<or>
       gv_evidence (pr_generations snap) < gv_evidence (pr_generations cur) \<or> exhausted cur))"

text \<open>Compare-and-commit accepts a record that moved on only where a generation has no successor left.\<close>

lemma moved_on_rejected: "moved_on snap cur \<Longrightarrow> expected_matches (capture_expected snap) cur \<Longrightarrow> exhausted cur"
  by (auto simp: moved_on_def expected_matches_def capture_expected_def)

text \<open>The changes that keep the attempt.\<close>

definition drifts :: "port_record \<Rightarrow> port_record \<Rightarrow> bool" where
  "drifts r r' \<longleftrightarrow> r' = r \<or>
     (lm_attempt (pr_last_mutation r') = lm_attempt (pr_last_mutation r) \<and>
      (gv_ownership (pr_generations r') = gen_advance (gv_ownership (pr_generations r)) \<and>
       gv_evidence (pr_generations r') = gv_evidence (pr_generations r) \<or>
       gv_evidence (pr_generations r') = gen_advance (gv_evidence (pr_generations r)) \<and>
       gv_ownership (pr_generations r') = gv_ownership (pr_generations r)))"

lemma gen_advance_cases:
  obtains "g < gen_advance g" | "gen_exhaustible g" "gen_advance g = g"
  using gen_advance_strict gen_advance_saturates by blast

lemma drifts_moved_on:
  assumes "cur = snap \<or> moved_on snap cur" "drifts cur cur'"
  shows "cur' = snap \<or> moved_on snap cur'"
proof (cases "cur' = cur \<or> lm_attempt (pr_last_mutation cur) \<noteq> lm_attempt (pr_last_mutation snap)")
  case True
  with assms show ?thesis by (auto simp: drifts_def moved_on_def)
next
  case False
  then have le: "gv_ownership (pr_generations snap) \<le> gv_ownership (pr_generations cur)"
    "gv_evidence (pr_generations snap) \<le> gv_evidence (pr_generations cur)"
    using assms(1) by (auto simp: moved_on_def)
  consider (ownership) "gv_ownership (pr_generations cur') = gen_advance (gv_ownership (pr_generations cur))"
      "gv_evidence (pr_generations cur') = gv_evidence (pr_generations cur)"
    | (evidence) "gv_evidence (pr_generations cur') = gen_advance (gv_evidence (pr_generations cur))"
      "gv_ownership (pr_generations cur') = gv_ownership (pr_generations cur)"
    using False assms(2) by (auto simp: drifts_def)
  then show ?thesis
  proof cases
    case ownership
    with le show ?thesis
      by (cases rule: gen_advance_cases [of "gv_ownership (pr_generations cur)"])
        (auto simp: moved_on_def exhausted_def intro: order.strict_trans1)
  next
    case evidence
    with le show ?thesis
      by (cases rule: gen_advance_cases [of "gv_evidence (pr_generations cur)"])
        (auto simp: moved_on_def exhausted_def intro: order.strict_trans1)
  qed
qed

lemma drifts_refl [simp]: "drifts r r"
  by (simp add: drifts_def)

lemma drifts_attempt: "drifts r r' \<Longrightarrow> lm_attempt (pr_last_mutation r') = lm_attempt (pr_last_mutation r)"
  by (auto simp: drifts_def)

lemma drifts_clear: "drifts r (clear_ownership a b r)"
  by (simp add: drifts_def clear_ownership_def)

lemma drifts_uncertain: "drifts r (uncertain_record env au g oc d r)"
  by (simp add: drifts_def)

section \<open>What the other operations leave alone\<close>

text \<open>
  The records after an operation: those that were there at most lost their owner, and a new one
  carries the attempt of its binding. Devices that were known stay known.
\<close>

definition devices_grow :: "engine \<Rightarrow> engine \<Rightarrow> bool" where
  "devices_grow e e' \<longleftrightarrow> (\<forall>d. map_of (en_devices e) d \<noteq> None \<longrightarrow> map_of (en_devices e') d \<noteq> None)"

definition ports_drift :: "strong_id set \<Rightarrow> engine \<Rightarrow> engine \<Rightarrow> bool" where
  "ports_drift new e e' \<longleftrightarrow> (\<forall>p.
     (\<forall>r. port_of e p = Some r \<longrightarrow> (\<exists>r'. port_of e' p = Some r' \<and> drifts r r')) \<and>
     (\<forall>r'. port_of e p = None \<and> port_of e' p = Some r' \<longrightarrow> lm_attempt (pr_last_mutation r') \<in> new))"

lemma ports_drift_same: "port_of e' = port_of e \<Longrightarrow> ports_drift new e e'"
  by (auto simp: ports_drift_def)

lemma devices_grow_same: "en_devices e' = en_devices e \<Longrightarrow> devices_grow e e'"
  by (simp add: devices_grow_def)

lemma devices_grow_update: "en_devices e' = om_update i d (en_devices e) \<Longrightarrow> devices_grow e e'"
  by (simp add: devices_grow_def)

text \<open>Both releases of ownership, after the authority state has changed.\<close>

lemma release_drifts:
  assumes "engine_ok f" "en_records f = en_records e" "en_devices f = en_devices e"
  shows "devices_grow e (release_where guard (clear_ownership a b) f)"
    "ports_drift new e (release_where guard (clear_ownership a b) f)"
proof -
  have same: "port_of f = port_of e" using assms(2) by (simp add: port_of_def)
  show "devices_grow e (release_where guard (clear_ownership a b) f)"
    by (rule devices_grow_same) (simp add: release_where_spec(8) [OF assms(1) refl] assms(3))
  show "ports_drift new e (release_where guard (clear_ownership a b) f)"
    unfolding ports_drift_def release_where_spec(2) [OF assms(1) refl] same
    by (auto simp: released_def drifts_clear split: option.split)
qed

lemma devices_grow_known: "device_known e r \<Longrightarrow> devices_grow e e' \<Longrightarrow> device_known e' r"
  by (auto simp: device_known_def devices_grow_def)

lemma ports_drift_insert:
  assumes "port_of e (bq_port q) = None" "port_of e' = (port_of e)(bq_port q \<mapsto> bound_record q ev)"
  shows "ports_drift {bq_attempt q} e e'"
  using assms by (auto simp: ports_drift_def)

lemma bind_drifts:
  assumes "engine_ok e"
  shows "devices_grow e (snd (bind_port env q e)) \<and> ports_drift {bq_attempt q} e (snd (bind_port env q e))"
proof (cases rule: bind_port_cases [where env = env and q = q and e = e])
  case unchanged
  then show ?thesis by (simp add: devices_grow_same ports_drift_same)
next
  case (unrecorded r)
  then show ?thesis
    by (auto simp: insert_record_def port_of_def intro!: devices_grow_same ports_drift_insert)
next
  case (withdrawn r known)
  then show ?thesis
    using withdraw_inserted(2) [OF assms withdrawn(1), of "binding_evidence env e q"]
    by (auto simp: insert_record_def withdraw_record_def intro!: devices_grow_same ports_drift_same)
next
  case (bound r e')
  have inserted: "port_of (insert_record r e) = (port_of e)(bq_port q \<mapsto> r)"
    using bound(3) by (simp add: port_of_def insert_record_def)
  from bound(5) have "port_of e' = (port_of e)(bq_port q \<mapsto> r) \<and> devices_grow e e'"
  proof
    assume "e' = insert_record r e"
    with inserted show ?thesis by (simp add: devices_grow_same insert_record_def)
  next
    assume "\<exists>d. dv_device d = (case map_of (en_devices e) (bq_parent_device q) of
              None \<Rightarrow> bq_parent_device q | Some known \<Rightarrow> dv_device known) \<and>
            dv_generation d = bq_device_generation q \<and>
            e' = (insert_record r e)\<lparr>en_devices := om_update (bq_parent_device q) d (en_devices e)\<rparr>"
    with inserted show ?thesis by (auto simp: devices_grow_def port_of_def)
  qed
  with bound(1,3,6) show ?thesis
    by (auto simp: devices_grow_def port_of_def intro!: ports_drift_insert)
qed

lemma operate_keeps:
  assumes "engine_ok e"
  shows "engine_ok (operate env op e)" "devices_grow e (operate env op e)"
    "ports_drift (operation_attempts op) e (operate env op e)"
proof -
  have "engine_ok (operate env op e) \<and> devices_grow e (operate env op e) \<and>
      ports_drift (operation_attempts op) e (operate env op e)"
  proof (cases op)
    case (Op_FencePublisher publisher boot)
    let ?f = "\<lambda>k. e\<lparr>en_publishers := om_update publisher (k\<lparr>pub_fenced := True\<rparr>) (en_publishers e)\<rparr>"
    have "ports_drift {} e (release_ownership_of a b (?f k)) \<and> devices_grow e (release_ownership_of a b (?f k))"
      if "map_of (en_publishers e) publisher = Some k" for a b k
    proof -
      have "engine_ok (?f k)"
        using assms that by (intro engine_ok_register) (auto simp: engine_ok_def)
      from release_drifts [OF this, of e] show ?thesis by (simp add: release_ownership_of_def)
    qed
    then show ?thesis
      using fence_publisher_state [of publisher boot e] fence_publisher_ok [OF assms, of publisher boot]
      by (auto simp: Op_FencePublisher devices_grow_same ports_drift_same)
  next
    case Op_BeginEpoch
    let ?f = "e\<lparr>en_epoch := gen_next (en_epoch e), en_publishers := om_map_values
       (\<lambda>p. if pub_epoch p < gen_next (en_epoch e) then p\<lparr>pub_fenced := True\<rparr> else p) (en_publishers e)\<rparr>"
    have ok: "engine_ok ?f" using assms by (rule engine_ok_fenced) simp
    have "ports_drift {} e (release_ownership_before_epoch g ?f) \<and> devices_grow e (release_ownership_before_epoch g ?f)" for g
      using release_drifts [OF ok, of e] by (simp add: release_ownership_before_epoch_def)
    then show ?thesis
      using begin_epoch_state [of e] begin_epoch_ok [OF assms]
      by (auto simp: Op_BeginEpoch devices_grow_same ports_drift_same)
  next
    case (Op_RegisterPublisher publisher boot epoch)
    then show ?thesis
      by (simp add: register_publisher_ok [OF assms] register_publisher_frame devices_grow_same ports_drift_same)
  next
    case (Op_RegisterDevice device g label)
    then show ?thesis
      using register_device_ok [OF assms, of device g label] register_device_state [of device g label e]
      by (auto simp: port_of_def intro!: ports_drift_same intro: devices_grow_same devices_grow_update)
  next
    case (Op_SetTopology g)
    then show ?thesis
      using set_topology_ok [OF assms, of g] set_topology_state [of g e]
      by (auto simp: port_of_def intro!: ports_drift_same devices_grow_same)
  next
    case (Op_DefineProfile p)
    then show ?thesis
      using define_profile_ok [OF assms, of p]
      by (auto simp: define_profile_state port_of_def intro!: ports_drift_same devices_grow_same)
  next
    case (Op_BindPort q)
    then show ?thesis using bind_port_ok [OF assms] bind_drifts [OF assms] by simp
  next
    case Op_Shutdown
    with assms show ?thesis
      by (auto simp: shutdown_def engine_ok_frame port_of_def intro!: ports_drift_same devices_grow_same)
  qed
  then show "engine_ok (operate env op e)" "devices_grow e (operate env op e)"
    "ports_drift (operation_attempts op) e (operate env op e)" by blast+
qed

section \<open>What a mutation under way has established\<close>

primrec held :: "stage \<Rightarrow> port_record option" where
  "held Submitted = None" | "held Admitted = None" | "held (Read snap) = Some snap"
| "held (Checked snap) = Some snap" | "held (Resolved snap epoch topology device) = Some snap"
| "held (Planned snap plan) = Some snap" | "held (Decided snap d) = Some snap"
| "held (Persisting ending progress) = None" | "held (Answered r) = None"

text \<open>The plan of a mutation on a snapshot: it may be stored, and it expects that snapshot.\<close>

definition plan_sound :: "mutation_request \<Rightarrow> port_record \<Rightarrow> engine \<Rightarrow> mutation_plan \<Rightarrow> bool" where
  "plan_sound q snap e p \<longleftrightarrow>
     record_core_ok (pl_next p) \<and> device_known e (pl_next p) \<and> pr_port (pl_next p) = target q \<and>
     pl_expected p = capture_expected snap \<and> lm_attempt (pr_last_mutation (pl_next p)) = attempt q"

primrec stage_sound :: "mutation_request \<Rightarrow> engine \<Rightarrow> stage \<Rightarrow> bool" where
  "stage_sound q e Submitted = True"
| "stage_sound q e Admitted = True"
| "stage_sound q e (Read snap) \<longleftrightarrow> record_core_ok snap \<and> device_known e snap \<and> pr_port snap = target q"
| "stage_sound q e (Checked snap) \<longleftrightarrow>
     record_core_ok snap \<and> device_known e snap \<and> pr_port snap = target q \<and> pr_lifecycle snap \<noteq> LC_Retired"
| "stage_sound q e (Resolved snap epoch topology device) \<longleftrightarrow>
     record_core_ok snap \<and> device_known e snap \<and> pr_port snap = target q \<and> pr_lifecycle snap \<noteq> LC_Retired \<and>
     (device \<noteq> None \<longrightarrow> map_of (en_devices e) (pr_parent_device snap) \<noteq> None)"
| "stage_sound q e (Planned snap plan) = plan_sound q snap e plan"
| "stage_sound q e (Decided snap d) = on_ready (\<lambda>p a settled. plan_sound q snap e p) d"
| "stage_sound q e (Persisting ending progress) = True"
| "stage_sound q e (Answered r) = True"

lemma stage_sound_grow: "stage_sound q e st \<Longrightarrow> devices_grow e e' \<Longrightarrow> stage_sound q e' st"
  by (cases st) (auto simp: plan_sound_def on_ready_def devices_grow_def device_known_def)

lemma plan_stage_sound:
  assumes "stage_sound q e (Resolved snap epoch topology device)"
  shows "stage_sound q e (plan_stage env q snap epoch topology device e)"
proof (cases rule: plan_stage_cases [of env q snap epoch topology device e])
  case (planned evidence)
  let ?inp = "staged_input q snap epoch topology device evidence e"
  have cur: "bi_current ?inp = snap" "bi_parent_device_generation ?inp = device" by (simp_all add: staged_input_def)
  have failure: "pl_failure (request_build q ?inp) = OC_Ok" "record_validate (pl_next (request_build q ?inp)) = None"
    using planned(3) by (simp_all add: gate_plan_None)
  have core: "record_core_ok (bi_current ?inp)" "pr_lifecycle (bi_current ?inp) \<noteq> LC_Retired"
    using assms by (simp_all add: cur)
  have plan: "plan_ok ?inp (request_build q ?inp)"
    by (rule mutation_builder.accepts [OF request_builder core failure(1)])
  have "device_known e (pl_next (request_build q ?inp))"
    using plan assms by (auto simp: plan_ok_def Let_def cur device_known_def)
  with plan mutation_builder.next_core_ok [OF request_builder core failure] assms planned(4) show ?thesis
    by (auto simp: plan_sound_def plan_ok_def Let_def cur record_core_ok_def device_known_def attempt_def)
qed simp

lemma apply_stage_sound:
  assumes "plan_sound q snap e plan"
  shows "on_ready (\<lambda>p a settled. plan_sound q snap e p) (apply_plan env cf port snap plan)"
proof -
  have "plan_sound q snap e p" if "settles plan p" for p
    using assms that by (auto simp: plan_sound_def settles_def same_but_evidence_def record_core_ok_def device_known_def)
  then show ?thesis using on_ready_apply [of plan env cf port snap] by (simp add: on_ready_def)
qed

text \<open>The section that writes: it changes one record, and answers or starts to save.\<close>

lemma store_stage_cases:
  obtains (answered) r where "store_stage env q d e = (Answered r, e)"
  | (uncertain) t code override plan before ending where "d = Uncertain t code override plan"
      "port_of e (target q) = Some before"
      "store_stage env q d e = (Persisting ending At_Authority,
        (store_record before (uncertain_record env (caller q)
            (gv_configuration (pr_generations (pl_next plan))) Applied_OutcomeUnknown t before) e)
          \<lparr>en_generation := gen_next (en_generation e)\<rparr>)"
  | (ready) plan a settled cur ending where "d = Ready plan a settled" "port_of e (target q) = Some cur"
      "commit_answer (target q) (pl_expected plan) plan cur (en_generation e) = None"
      "store_stage env q d e = (Persisting ending At_Authority,
        (store_record cur (committed_record plan (pr_provenance (pl_next plan)) a settled) e)
          \<lparr>en_generation := gen_next (en_generation e)\<rparr>)"
proof (cases d)
  case (Refused r)
  then show thesis by (intro answered) (simp add: store_stage_def)
next
  case (Uncertain t code override plan)
  then show thesis
    by (cases "port_of e (target q)") (auto simp: store_stage_def intro: answered uncertain)
next
  case (Ready plan a settled)
  show thesis
  proof (cases "port_of e (target q)")
    case None
    with Ready show thesis by (intro answered) (simp add: store_stage_def)
  next
    case (Some cur)
    with Ready show thesis
      by (cases "commit_answer (target q) (pl_expected plan) plan cur (en_generation e)")
        (auto simp: store_stage_def Let_def intro: answered ready)
  qed
qed

text \<open>
  What one turn does to the runtime: nothing to the records, or one record drifts or is replaced by
  a committed one, with which the mutation has spent its attempt.
\<close>

definition spends :: "mutation_request \<Rightarrow> engine \<Rightarrow> engine \<Rightarrow> bool" where
  "spends q e e' \<longleftrightarrow> (\<exists>cur r. port_of e (target q) = Some cur \<and> port_of e' = (port_of e)(target q \<mapsto> r) \<and>
     (drifts cur r \<or> lm_attempt (pr_last_mutation r) = attempt q))"

lemma store_stage_keeps:
  assumes "engine_ok e" "on_ready (\<lambda>p a settled. plan_sound q snap e p) d" "store_stage env q d e = (st', e')"
  shows "engine_ok e'" "devices_grow e e'" "stage_sound q e' st'" "held st' = None"
    "port_of e' = port_of e \<or> spends q e e'"
proof -
  have "engine_ok e' \<and> devices_grow e e' \<and> stage_sound q e' st' \<and> held st' = None \<and>
      (port_of e' = port_of e \<or> spends q e e')"
  proof (cases rule: store_stage_cases [of env q d e])
    case (answered r)
    with assms(3) have "st' = Answered r" "e' = e" by simp_all
    with assms(1) show ?thesis by (simp add: devices_grow_def)
  next
    case (uncertain t code override plan before ending)
    let ?r = "uncertain_record env (caller q) (gv_configuration (pr_generations (pl_next plan)))
      Applied_OutcomeUnknown t before"
    have p: "pr_port before = target q" by (rule engine_okD(1) [OF assms(1) uncertain(2)])
    have "engine_ok (store_record before ?r e)"
      using engine_okD [OF assms(1) uncertain(2)]
      by (intro engine_ok_store [OF assms(1) uncertain(2)]) (simp_all add: record_core_ok_uncertain device_known_uncertain)
    with uncertain assms(3) p show ?thesis
      by (auto simp: engine_ok_frame devices_grow_def spends_def drifts_uncertain)
  next
    case (ready plan a settled cur ending)
    let ?r = "committed_record plan (pr_provenance (pl_next plan)) a settled"
    have p: "pr_port cur = target q" by (rule engine_okD(1) [OF assms(1) ready(2)])
    have sound: "plan_sound q snap e plan" using assms(2) ready(1) by (simp add: on_ready_def)
    then have "engine_ok (store_record cur ?r e)"
      by (intro engine_ok_store [OF assms(1) ready(2)])
        (auto simp: plan_sound_def record_core_ok_def device_known_def)
    with ready assms(3) p sound show ?thesis
      by (auto simp: engine_ok_frame devices_grow_def spends_def plan_sound_def)
  qed
  then show "engine_ok e'" "devices_grow e e'" "stage_sound q e' st'" "held st' = None"
    "port_of e' = port_of e \<or> spends q e e'" by blast+
qed

lemma persist_step_keeps:
  assumes "persist_step env ending e pr = (st', e')"
  shows "engine_ok e' = engine_ok e" "en_devices e' = en_devices e" "port_of e' = port_of e"
    "held st' = None" "stage_sound q e' st'" "st' \<noteq> Submitted" "st' \<noteq> Admitted"
  using assms by (cases pr; auto simp: Let_def engine_ok_frame split: if_splits)+

definition pending :: "stage \<Rightarrow> bool" where
  "pending st \<longleftrightarrow> st = Submitted \<or> st = Admitted \<or> held st \<noteq> None"

lemma advance_keeps:
  assumes "engine_ok e" "stage_sound q e st" "advance env q e st = (st', e')"
  shows "engine_ok e'" "devices_grow e e'" "stage_sound q e' st'" "pending st' \<Longrightarrow> pending st"
    "held st' = held st \<or> held st' = None \<or> (st = Admitted \<and> held st' = port_of e (target q))"
    "port_of e' = port_of e \<or> (spends q e e' \<and> pending st \<and> \<not> pending st' \<and> held st' = None)"
proof -
  have "engine_ok e' \<and> devices_grow e e' \<and> stage_sound q e' st' \<and> (pending st' \<longrightarrow> pending st) \<and>
      (held st' = held st \<or> held st' = None \<or> (st = Admitted \<and> held st' = port_of e (target q))) \<and>
      (port_of e' = port_of e \<or> (spends q e e' \<and> pending st \<and> \<not> pending st' \<and> held st' = None))"
  proof (cases st)
    case Submitted
    have "engine_ok (snd (check_authority (caller q) e))" using assms(1) by (rule check_authority_ok)
    then show ?thesis
      using assms Submitted
      by (auto simp: split_beta pending_def devices_grow_def split: option.splits if_splits)
  next
    case Admitted
    then show ?thesis
      using assms engine_okD [OF assms(1), of "target q"]
      by (auto simp: pending_def devices_grow_def split: option.splits)
  next
    case (Read snap)
    have st: "st' = check_stage q snap e" "e' = e" using assms(3) Read by auto
    show ?thesis
      using assms(1,2) Read
      by (cases rule: check_stage_cases [of q snap e])
        (auto simp: st pending_def devices_grow_def dest: gate_replay_not_retired)
  next
    case (Checked snap)
    then show ?thesis
      using assms by (auto simp: pending_def devices_grow_def device_generation_def)
  next
    case (Resolved snap epoch topology device)
    then have st: "st' = plan_stage env q snap epoch topology device e" "e' = e" using assms(3) by auto
    have "stage_sound q e st'" unfolding st using assms(2) Resolved by (simp only: plan_stage_sound)
    moreover have "held st' = None \<or> held st' = Some snap"
      unfolding st by (rule plan_stage_cases [of env q snap epoch topology device e]) simp_all
    ultimately show ?thesis
      using assms(1) Resolved st(2) by (auto simp: pending_def devices_grow_def)
  next
    case (Planned snap plan)
    then show ?thesis
      using assms apply_stage_sound [of q snap e plan env] by (auto simp: pending_def devices_grow_def)
  next
    case (Decided snap d)
    have st: "st' \<noteq> Submitted" "st' \<noteq> Admitted"
      using assms(3) Decided by (cases rule: store_stage_cases [of env q d e]; auto)+
    show ?thesis
      using store_stage_keeps [OF assms(1) _ assms(3) [unfolded Decided advance.simps]] assms(2) Decided st
      by (auto simp: pending_def)
  next
    case (Persisting ending pr)
    show ?thesis
      using persist_step_keeps [OF assms(3) [unfolded Persisting advance.simps]] assms(1) Persisting
      by (auto simp: pending_def devices_grow_def)
  qed (use assms in \<open>auto simp: pending_def devices_grow_def\<close>)
  then show "engine_ok e'" "devices_grow e e'" "stage_sound q e' st'" "pending st' \<Longrightarrow> pending st"
    "held st' = held st \<or> held st' = None \<or> (st = Admitted \<and> held st' = port_of e (target q))"
    "port_of e' = port_of e \<or> (spends q e e' \<and> pending st \<and> \<not> pending st' \<and> held st' = None)"
    by blast+
qed

section \<open>The invariant of a system\<close>

definition held_attempts :: "(mutation_request \<times> stage) list \<Rightarrow> strong_id set" where
  "held_attempts ts = {lm_attempt (pr_last_mutation snap) |q st snap. (q, st) \<in> set ts \<and> held st = Some snap}"

definition thread_sound :: "engine \<Rightarrow> strong_id set \<Rightarrow> mutation_request \<times> stage \<Rightarrow> bool" where
  "thread_sound e used = (\<lambda>(q, st). stage_sound q e st \<and> attempt q \<in> used \<and>
     (\<forall>snap. held st = Some snap \<longrightarrow> lm_attempt (pr_last_mutation snap) \<in> used \<and>
        (\<exists>cur. port_of e (target q) = Some cur \<and> (cur = snap \<or> moved_on snap cur))))"

definition unspent :: "engine \<Rightarrow> (mutation_request \<times> stage) list \<Rightarrow> mutation_request \<times> stage \<Rightarrow> bool" where
  "unspent e ts = (\<lambda>(q, st). pending st \<longrightarrow> attempt q \<notin> recorded_attempts e \<and> attempt q \<notin> held_attempts ts)"

definition system_sound :: "system \<Rightarrow> bool" where
  "system_sound s \<longleftrightarrow> engine_ok (sy_engine s) \<and> recorded_attempts (sy_engine s) \<subseteq> sy_used s \<and>
     distinct (map (attempt \<circ> fst) (sy_threads s)) \<and>
     (\<forall>t \<in> set (sy_threads s). thread_sound (sy_engine s) (sy_used s) t \<and> unspent (sy_engine s) (sy_threads s) t)"

lemma recorded_attemptsI: "port_of e p = Some r \<Longrightarrow> lm_attempt (pr_last_mutation r) \<in> recorded_attempts e"
  by (auto simp: recorded_attempts_def ran_def)

lemma recorded_drift:
  assumes "ports_drift new e e'"
  shows "recorded_attempts e' \<subseteq> recorded_attempts e \<union> new"
proof
  fix a assume "a \<in> recorded_attempts e'"
  then obtain p r' where r': "port_of e' p = Some r'" "a = lm_attempt (pr_last_mutation r')"
    by (auto simp: recorded_attempts_def ran_def)
  show "a \<in> recorded_attempts e \<union> new"
  proof (cases "port_of e p")
    case None
    with r' assms show ?thesis by (auto simp: ports_drift_def)
  next
    case (Some r)
    with r' assms have "drifts r r'" by (fastforce simp: ports_drift_def)
    with Some r'(2) show ?thesis by (auto simp: drifts_attempt recorded_attemptsI)
  qed
qed

lemma held_attempts_used:
  "\<forall>t \<in> set ts. thread_sound e used t \<Longrightarrow> held_attempts ts \<subseteq> used"
  by (fastforce simp: held_attempts_def thread_sound_def)

lemma thread_sound_drift:
  assumes "thread_sound e used t" "ports_drift new e e'" "devices_grow e e'" "used \<subseteq> used'"
  shows "thread_sound e' used' t"
proof -
  obtain q st where t: "t = (q, st)" by (cases t)
  have "\<exists>cur. port_of e' (target q) = Some cur \<and> (cur = snap \<or> moved_on snap cur)"
    if "held st = Some snap" for snap
  proof -
    from that assms(1) obtain cur where cur: "port_of e (target q) = Some cur" "cur = snap \<or> moved_on snap cur"
      by (auto simp: thread_sound_def t)
    with assms(2) obtain cur' where "port_of e' (target q) = Some cur'" "drifts cur cur'"
      by (fastforce simp: ports_drift_def)
    with drifts_moved_on [OF cur(2)] show ?thesis by blast
  qed
  with assms(1,4) stage_sound_grow [OF _ assms(3)] show ?thesis by (auto simp: thread_sound_def t)
qed

lemma operated_sound:
  assumes "system_sound s" "operation_attempts op \<inter> sy_used s = {}"
  shows "system_sound (s\<lparr>sy_engine := operate env op (sy_engine s), sy_used := operation_attempts op \<union> sy_used s\<rparr>)"
proof -
  let ?e = "sy_engine s" and ?e' = "operate env op (sy_engine s)"
  have ok: "engine_ok ?e" and used: "recorded_attempts ?e \<subseteq> sy_used s" using assms(1) by (simp_all add: system_sound_def)
  note k = operate_keeps [OF ok, where env = env and op = op]
  have rec: "recorded_attempts ?e' \<subseteq> recorded_attempts ?e \<union> operation_attempts op" by (rule recorded_drift [OF k(3)])
  have "thread_sound ?e' (operation_attempts op \<union> sy_used s) t \<and> unspent ?e' (sy_threads s) t"
    if "t \<in> set (sy_threads s)" for t
  proof -
    have t: "thread_sound ?e (sy_used s) t" "unspent ?e (sy_threads s) t"
      using assms(1) that by (auto simp: system_sound_def)
    then have "attempt (fst t) \<in> sy_used s" by (auto simp: thread_sound_def)
    with t(2) rec assms(2) have "unspent ?e' (sy_threads s) t" by (auto simp: unspent_def)
    with thread_sound_drift [OF t(1) k(3,2)] show ?thesis by blast
  qed
  with assms(1) k(1) rec used show ?thesis by (auto simp: system_sound_def)
qed

lemma submitted_sound:
  assumes "system_sound s" "attempt q \<notin> sy_used s"
  shows "system_sound (s\<lparr>sy_threads := sy_threads s @ [(q, Submitted)], sy_used := insert (attempt q) (sy_used s)\<rparr>)"
proof -
  have held: "held_attempts (sy_threads s @ [(q, Submitted)]) = held_attempts (sy_threads s)"
    by (auto simp: held_attempts_def)
  have "attempt (fst t) \<in> sy_used s" if "t \<in> set (sy_threads s)" for t
    using assms(1) that by (force simp: system_sound_def thread_sound_def)
  moreover have "held_attempts (sy_threads s) \<subseteq> sy_used s"
    using assms(1) by (intro held_attempts_used) (auto simp: system_sound_def)
  ultimately show ?thesis
    using assms by (auto simp: system_sound_def held unspent_def thread_sound_def)
qed

text \<open>A turn that changes no record.\<close>

lemma turned_quietly:
  assumes "system_sound s" "i < length (sy_threads s)" "sy_threads s ! i = (q, st)"
    "advance env q (sy_engine s) st = (st', e')" "port_of e' = port_of (sy_engine s)"
  shows "\<forall>t \<in> set ((sy_threads s)[i := (q, st')]).
     thread_sound e' (sy_used s) t \<and> unspent e' ((sy_threads s)[i := (q, st')]) t"
proof -
  let ?e = "sy_engine s" and ?ts = "sy_threads s"
  have ok: "engine_ok ?e" using assms(1) by (simp add: system_sound_def)
  have i: "(q, st) \<in> set ?ts" using assms(2,3) by (metis nth_mem)
  have all: "thread_sound ?e (sy_used s) t" "unspent ?e ?ts t" if "t \<in> set ?ts" for t
    using assms(1) that by (auto simp: system_sound_def)
  have mine: "stage_sound q ?e st" using all(1) [OF i] by (simp add: thread_sound_def)
  note k = advance_keeps [OF ok mine assms(4)]
  have rec: "recorded_attempts e' = recorded_attempts ?e" by (simp add: recorded_attempts_def assms(5))
  have drift: "ports_drift {} ?e e'" by (rule ports_drift_same [OF assms(5)])
  have held: "held_attempts (?ts[i := (q, st')]) \<subseteq> held_attempts ?ts \<union> recorded_attempts ?e"
    using k(5) i set_update_subset_insert [of ?ts i "(q, st')"]
    by (fastforce simp: held_attempts_def intro: recorded_attemptsI)
  have sound: "thread_sound e' (sy_used s) (q, st')"
    using k(3,5) all(1) [OF i] assms(1,5) recorded_attemptsI [of ?e "target q"]
    by (auto simp: thread_sound_def system_sound_def)
  have fresh: "unspent e' (?ts[i := (q, st')]) (q, st')"
    using k(4) all(2) [OF i] held by (auto simp: unspent_def rec)
  show ?thesis
  proof
    fix t assume "t \<in> set (?ts[i := (q, st')])"
    then consider "t = (q, st')" | "t \<in> set ?ts" using set_update_subset_insert [of ?ts i "(q, st')"] by blast
    then show "thread_sound e' (sy_used s) t \<and> unspent e' (?ts[i := (q, st')]) t"
    proof cases
      case 1
      with sound fresh show ?thesis by simp
    next
      case 2
      with thread_sound_drift [OF all(1) [OF 2] drift k(2) order_refl] all(2) [OF 2] held show ?thesis
        by (auto simp: unspent_def rec)
    qed
  qed
qed

text \<open>A turn in which a mutation changes the record of its port, and with that spends its attempt.\<close>

lemma spent_moved_on:
  assumes "spends q e e'" "port_of e (target q') = Some cur" "cur = snap \<or> moved_on snap cur"
    "attempt q \<noteq> lm_attempt (pr_last_mutation snap)"
  shows "\<exists>cur'. port_of e' (target q') = Some cur' \<and> (cur' = snap \<or> moved_on snap cur')"
proof -
  obtain old r where r: "port_of e (target q) = Some old" "port_of e' = (port_of e)(target q \<mapsto> r)"
    "drifts old r \<or> lm_attempt (pr_last_mutation r) = attempt q"
    using assms(1) by (auto simp: spends_def)
  show ?thesis
  proof (cases "target q' = target q")
    case True
    with r(1) assms(2) have "old = cur" by simp
    with r(2,3) True drifts_moved_on [OF assms(3)] assms(4) show ?thesis by (auto simp: moved_on_def)
  next
    case False
    with assms(2,3) r(2) show ?thesis by auto
  qed
qed

lemma spent_recorded: "spends q e e' \<Longrightarrow> recorded_attempts e' \<subseteq> insert (attempt q) (recorded_attempts e)"
proof
  fix a assume s: "spends q e e'" and "a \<in> recorded_attempts e'"
  then obtain p r' where r': "port_of e' p = Some r'" "a = lm_attempt (pr_last_mutation r')"
    by (auto simp: recorded_attempts_def ran_def)
  from s obtain cur r where r: "port_of e (target q) = Some cur" "port_of e' = (port_of e)(target q \<mapsto> r)"
    "drifts cur r \<or> lm_attempt (pr_last_mutation r) = attempt q" by (auto simp: spends_def)
  show "a \<in> insert (attempt q) (recorded_attempts e)"
    using r r' recorded_attemptsI [of e] by (cases "p = target q") (auto simp: drifts_attempt)
qed

lemma turned_spending:
  assumes "system_sound s" "i < length (sy_threads s)" "sy_threads s ! i = (q, st)"
    "advance env q (sy_engine s) st = (st', e')" "spends q (sy_engine s) e'" "pending st" "\<not> pending st'" "held st' = None"
  shows "\<forall>t \<in> set ((sy_threads s)[i := (q, st')]).
     thread_sound e' (sy_used s) t \<and> unspent e' ((sy_threads s)[i := (q, st')]) t"
proof -
  let ?e = "sy_engine s" and ?ts = "sy_threads s"
  have ok: "engine_ok ?e" and d: "distinct (map (attempt \<circ> fst) ?ts)" using assms(1) by (simp_all add: system_sound_def)
  have i: "(q, st) \<in> set ?ts" using assms(2,3) by (metis nth_mem)
  have all: "thread_sound ?e (sy_used s) t" "unspent ?e ?ts t" if "t \<in> set ?ts" for t
    using assms(1) that by (auto simp: system_sound_def)
  have mine: "stage_sound q ?e st" using all(1) [OF i] by (simp add: thread_sound_def)
  note k = advance_keeps [OF ok mine assms(4)]
  have mine_fresh: "attempt q \<notin> held_attempts ?ts" using all(2) [OF i] assms(6) by (simp add: unspent_def)
  have held: "held_attempts (?ts[i := (q, st')]) \<subseteq> held_attempts ?ts"
    using assms(8) set_update_subset_insert [of ?ts i "(q, st')"] by (fastforce simp: held_attempts_def)
  show ?thesis
  proof
    fix t assume "t \<in> set (?ts[i := (q, st')])"
    then obtain j where j: "j < length ?ts" "t = (?ts[i := (q, st')]) ! j"
      by (metis in_set_conv_nth length_list_update)
    show "thread_sound e' (sy_used s) t \<and> unspent e' (?ts[i := (q, st')]) t"
    proof (cases "j = i")
      case True
      with j have "t = (q, st')" by simp
      with all(1) [OF i] k(3) assms(7,8) show ?thesis by (simp add: thread_sound_def unspent_def)
    next
      case False
      obtain q' st2 where t: "t = (q', st2)" by (cases t)
      with False j have tj: "?ts ! j = (q', st2)" by simp
      then have other: "(q', st2) \<in> set ?ts" using j(1) by (metis nth_mem)
      have "attempt q' \<noteq> attempt q"
        using d False j(1) tj assms(2,3) by (force simp: distinct_conv_nth)
      then have "unspent e' (?ts[i := (q, st')]) t"
        using all(2) [OF other] held spent_recorded [OF assms(5)] by (auto simp: unspent_def t)
      moreover have "\<exists>cur'. port_of e' (target q') = Some cur' \<and> (cur' = snap \<or> moved_on snap cur')"
        if h: "held st2 = Some snap" for snap
      proof -
        have "attempt q \<noteq> lm_attempt (pr_last_mutation snap)"
          using mine_fresh other h by (auto simp: held_attempts_def)
        moreover obtain cur where "port_of ?e (target q') = Some cur" "cur = snap \<or> moved_on snap cur"
          using all(1) [OF other] h by (auto simp: thread_sound_def)
        ultimately show ?thesis using spent_moved_on [OF assms(5)] by blast
      qed
      ultimately show ?thesis
        using all(1) [OF other] stage_sound_grow [OF _ k(2)] by (auto simp: thread_sound_def t)
    qed
  qed
qed

lemma turned_sound:
  assumes "system_sound s" "i < length (sy_threads s)"
  shows "system_sound (turn env i s)"
proof -
  obtain q st where th: "sy_threads s ! i = (q, st)" by (cases "sy_threads s ! i")
  obtain st' e' where adv: "advance env q (sy_engine s) st = (st', e')"
    by (cases "advance env q (sy_engine s) st")
  have ok: "engine_ok (sy_engine s)" and used: "recorded_attempts (sy_engine s) \<subseteq> sy_used s"
    and d: "distinct (map (attempt \<circ> fst) (sy_threads s))" using assms(1) by (simp_all add: system_sound_def)
  have i: "(q, st) \<in> set (sy_threads s)" using assms(2) th by (metis nth_mem)
  then have mine: "stage_sound q (sy_engine s) st" "attempt q \<in> sy_used s"
    using assms(1) by (auto simp: system_sound_def thread_sound_def)
  note k = advance_keeps [OF ok mine(1) adv]
  have "map (attempt \<circ> fst) ((sy_threads s)[i := (q, st')]) = map (attempt \<circ> fst) (sy_threads s)"
    using assms(2) th by (simp add: map_update list_update_same_conv)
  with d have d': "distinct (map (attempt \<circ> fst) ((sy_threads s)[i := (q, st')]))" by simp
  have same: "port_of e' = port_of (sy_engine s) \<Longrightarrow> recorded_attempts e' = recorded_attempts (sy_engine s)"
    by (simp add: recorded_attempts_def)
  have "recorded_attempts e' \<subseteq> sy_used s"
    using k(6) spent_recorded [of q "sy_engine s" e'] used mine(2) same by blast
  moreover have "\<forall>t \<in> set ((sy_threads s)[i := (q, st')]).
     thread_sound e' (sy_used s) t \<and> unspent e' ((sy_threads s)[i := (q, st')]) t"
    using k(6) turned_quietly [OF assms th adv] turned_spending [OF assms th adv] by blast
  ultimately show ?thesis
    using k(1) d' by (simp add: turn_def th adv system_sound_def)
qed

lemma reachable_sound: "reachable e0 s \<Longrightarrow> engine_ok e0 \<Longrightarrow> system_sound s"
proof (induction rule: reachable.induct)
  case initial
  then show ?case by (simp add: system_sound_def)
qed (simp_all add: submitted_sound turned_sound operated_sound)

section \<open>What interleaving cannot break\<close>


text \<open>
  Property C12. Compare-and-commit never loses an update. In every reachable system of mutations and
  bindings that carry attempt identities of their own, a prepared mutation whose next section starts to
  save has replaced exactly the record it was decided on (or, once the ownership or evidence
  generation of the port has run out of values, a record that cannot be told from it): whatever
  another mutation, an uncertain apply or a release of ownership did to the port in between makes the
  commit fail.
\<close>

theorem no_update_is_lost:
  assumes "engine_ok e0" "reachable e0 s" "(q, Decided snap (Ready p a settled)) \<in> set (sy_threads s)"
    "advance env q (sy_engine s) (Decided snap (Ready p a settled)) = (Persisting ending pr, e')"
  shows "\<exists>cur. port_of (sy_engine s) (target q) = Some cur \<and> (cur = snap \<or> exhausted cur) \<and>
    port_of e' = (port_of (sy_engine s))(target q \<mapsto> committed_record p (pr_provenance (pl_next p)) a settled)"
proof -
  let ?e = "sy_engine s"
  have sound: "system_sound s" by (rule reachable_sound [OF assms(2,1)])
  then have t: "plan_sound q snap ?e p" "\<exists>cur. port_of ?e (target q) = Some cur \<and> (cur = snap \<or> moved_on snap cur)"
    using assms(3) by (auto simp: system_sound_def thread_sound_def on_ready_def)
  then obtain cur where cur: "port_of ?e (target q) = Some cur" "cur = snap \<or> moved_on snap cur" by blast
  have adv: "store_stage env q (Ready p a settled) ?e = (Persisting ending pr, e')" using assms(4) by simp
  show ?thesis
  proof (cases rule: store_stage_cases [of env q "Ready p a settled" ?e])
    case (ready plan a' settled' cur' ending')
    then have "expected_matches (capture_expected snap) cur"
      using cur(1) t(1) commit_answer_None(1) by (auto simp: plan_sound_def)
    moreover have "pr_port cur' = target q"
      using sound ready(2) engine_okD(1) by (auto simp: system_sound_def)
    ultimately show ?thesis
      using cur moved_on_rejected ready adv by auto
  qed (use adv in simp_all)
qed

end
