(* ===== verification/Races.thy ===== *)
theory Races
  imports Interleaving
begin

text \<open>
  What interleaving does break. A mutation that has passed the authority gate is committed although
  its publisher has been fenced meanwhile; a save that was gathered early and written late puts an
  older state on disk, with success reported to everybody; and a binding that is withdrawn after
  another mutation has changed the new port leaves an index that points to no port.
\<close>

section \<open>Turns of one mutation\<close>

definition turns :: "environment \<Rightarrow> nat \<Rightarrow> nat \<Rightarrow> system \<Rightarrow> system" where
  "turns env i n = turn env i ^^ n"

lemma turns_length: "length (sy_threads (turns env i n s)) = length (sy_threads s)"
  by (induction n) (simp_all add: turns_def turn_def split_beta)

lemma reachable_turns: "reachable e0 s \<Longrightarrow> i < length (sy_threads s) \<Longrightarrow> reachable e0 (turns env i n s)"
proof (induction n)
  case (Suc n)
  then have "reachable e0 (turn env i (turns env i n s))" by (intro turned) (simp_all add: turns_length)
  then show ?case by (simp add: turns_def)
qed (simp add: turns_def)

text \<open>Turns of one mutation, with nothing in between, run it as it runs alone.\<close>

lemma turns_run_alone:
  assumes "i < length (sy_threads s)" "sy_threads s ! i = (q, st)" "run_alone env q n (st, sy_engine s) = (st', e')"
  shows "sy_engine (turns env i n s) = e'" "sy_threads (turns env i n s) = (sy_threads s)[i := (q, st')]"
proof -
  have "sy_engine (turns env i n s) = snd (run_alone env q n (st, sy_engine s)) \<and>
      sy_threads (turns env i n s) = (sy_threads s)[i := (q, fst (run_alone env q n (st, sy_engine s)))]"
  proof (induction n)
    case 0
    show ?case by (simp add: turns_def run_alone_def) (metis assms(2) list_update_id)
  next
    case (Suc n)
    have "turns env i (Suc n) s = turn env i (turns env i n s)" by (simp add: turns_def)
    moreover have "run_alone env q (Suc n) x = (case run_alone env q n x of (st, e) \<Rightarrow> advance env q e st)" for x
      by (simp add: run_alone_def)
    ultimately show ?case using Suc assms(1) by (simp add: turn_def split_beta)
  qed
  with assms(3) show "sy_engine (turns env i n s) = e'" "sy_threads (turns env i n s) = (sy_threads s)[i := (q, st')]"
    by simp_all
qed

text \<open>A system with one mutation under way, and one with two.\<close>

lemma reachable_one:
  assumes "attempt q \<notin> recorded_attempts e"
  obtains s where "reachable e s" "sy_engine s = e" "sy_threads s = [(q, Submitted)]"
  using submitted [OF initial] assms by fastforce

lemma reachable_two:
  assumes "attempt q \<notin> recorded_attempts e" "attempt q' \<notin> recorded_attempts e" "attempt q \<noteq> attempt q'"
  obtains s where "reachable e s" "sy_engine s = e" "sy_threads s = [(q, Submitted), (q', Submitted)]"
  using submitted [OF submitted [OF initial [of e], of q], of q'] assms by fastforce

section \<open>Fencing does not reach a prepared mutation\<close>

text \<open>
  Property C14. A mutation that takes ownership of an unowned port and has been prepared is committed
  although its publisher is fenced before the commit: there is an interleaving at whose end the
  publisher incarnation is fenced and the port is owned by that incarnation, which the fencing of
  either order alone excludes.
\<close>

theorem prepared_mutation_outlives_fencing:
  assumes "engine_ok e" "admits q e" "attempt q \<notin> recorded_attempts e"
    "port_of e (target q) = Some snap" "pr_ownership snap = None"
    "decision_of env q snap e = Ready p a settled"
    "commit_answer (target q) (pl_expected p) p snap (en_generation e) = None"
    "pr_ownership (pl_next p) = Some w" "ow_publisher w = au_publisher (caller q)" "ow_boot w = au_boot (caller q)"
    "\<not> gen_exhaustible (gen_next (en_generation e))"
  shows "\<exists>s r. reachable e s \<and> is_publisher_fenced (ow_publisher w) (ow_boot w) (sy_engine s) \<and>
    port_of (sy_engine s) (target q) = Some r \<and> pr_ownership r = Some w"
proof -
  let ?p = "ow_publisher w" and ?b = "ow_boot w" and ?d = "Decided snap (Ready p a settled)"
  let ?r = "committed_record p (pr_provenance (pl_next p)) a settled"
  obtain s0 where s0: "reachable e s0" "sy_engine s0 = e" "sy_threads s0 = [(q, Submitted)]"
    by (rule reachable_one [OF assms(3)])
  let ?s1 = "turns env 0 6 s0"
  have s1: "reachable e ?s1" "sy_engine ?s1 = admitted q e" "sy_threads ?s1 = [(q, ?d)]"
    using reachable_turns [OF s0(1), of 0 env 6] turns_run_alone [of 0 s0 q Submitted env 6]
      run_to_decision [OF assms(2,4,6)] s0(2,3) by simp_all
  have gate: "authority_valid (caller q)" "live_incarnation (admitted q e) ?p ?b"
    using assms(2) check_authority_admits [of "caller q" e]
    by (simp_all add: admits_def check_authority_admit_iff admitted_def assms(9,10))
  then obtain known where known: "map_of (en_publishers (admitted q e)) ?p = Some known" "pub_boot known = ?b"
    "\<not> pub_fenced known" by (auto simp: live_incarnation_def)
  have valid: "id_valid ?p" "id_valid ?b" using gate(1) by (simp_all add: authority_valid_def assms(9,10))
  let ?f = "(admitted q e)\<lparr>en_publishers := om_update ?p (known\<lparr>pub_fenced := True\<rparr>) (en_publishers (admitted q e))\<rparr>"
  let ?e2 = "release_ownership_of (pub_publisher known) (pub_boot known) ?f"
  have fenced: "snd (fence_publisher ?p ?b (admitted q e)) = ?e2"
    using known valid by (simp add: fence_publisher_def)
  have ok: "engine_ok ?f"
    using admitted_ok [OF assms(1)] known(1) by (intro engine_ok_register) (auto simp: engine_ok_def)
  note rel = release_where_spec [OF ok refl, folded release_ownership_of_def]
  have cur: "port_of ?e2 (target q) = Some snap"
    using assms(4,5) by (simp add: release_ownership_of_def release_where_spec(2) [OF ok refl] released_def)
      (simp add: port_of_def)
  have gen: "en_generation ?e2 = en_generation e \<or> en_generation ?e2 = gen_advance (en_generation e)"
    by (auto simp: release_ownership_of_def release_where_spec(10) [OF ok refl])
  have answer: "commit_answer (target q) (pl_expected p) p snap (en_generation ?e2) = None"
    using gen assms(7,11) by (auto simp: commit_answer_def gen_advance_def gen_exhaustible_def split: if_split_asm)
  let ?s2 = "?s1\<lparr>sy_engine := operate env (Op_FencePublisher ?p ?b) (sy_engine ?s1),
    sy_used := operation_attempts (Op_FencePublisher ?p ?b) \<union> sy_used ?s1\<rparr>"
  have s2: "reachable e ?s2" by (rule operated [OF s1(1)]) simp
  have e2: "sy_engine ?s2 = ?e2" "sy_threads ?s2 = [(q, ?d)]" using s1(2,3) fenced by simp_all
  let ?e3 = "(store_record snap ?r ?e2)\<lparr>en_generation := gen_next (en_generation ?e2)\<rparr>"
  have "advance env q ?e2 ?d = (Persisting (Stored_Commit (request_kind q) p ?r) At_Authority, ?e3)"
    using cur answer by (simp add: store_stage_def Let_def)
  then have e3: "sy_engine (turn env 0 ?s2) = ?e3" using e2 by (simp add: turn_def)
  have "reachable e (turn env 0 ?s2)" using s2 e2(2) by (intro turned) simp_all
  moreover have "is_publisher_fenced ?p ?b ?e3"
    using known(2) release_where_spec(7) [OF ok refl] by (simp add: is_publisher_fenced_def release_ownership_of_def)
  moreover have "port_of ?e3 (target q) = Some ?r"
    using engine_okD(1) [OF assms(1,4)] by simp
  ultimately show ?thesis using e3 assms(8) by (metis committed_fields(5))
qed

section \<open>A slow save puts an older state on disk\<close>

lemma committed_state_dirty: "en_durability_dirty (committed_state q snap r e) = en_durability_dirty e"
  by (simp add: committed_state_def store_record_def admitted_def check_authority_def split: option.split)

text \<open>What a successful mutation with automatic persistence leaves, and the save it ends with.\<close>

lemma saved_mutation:
  assumes "cf_persistence (en_config e) = Persistence_Automatic" "cf_persistence_path (en_config e) \<noteq> []"
    "\<And>path ps. outcome_ok (ev_save env path ps)" "\<not> en_durability_dirty e"
    "mutate env q e = (r, e')" "oc_code (mr_outcome r) = OC_Ok"
  obtains ending where "run_alone env q 10 (Submitted, e) = (Persisting ending (At_Save (gather_state e')), e')"
    "advance env q x (Persisting ending (At_Save ps)) = (Answered (ending_report (ev_save env (cf_persistence_path (en_config x)) ps) ending), x\<lparr>en_durability_dirty := False\<rparr>)"
    "ending_report (ev_save env (cf_persistence_path (en_config e)) (gather_state e')) ending = r"
    "en_generation e' = gen_next (en_generation e)" "\<not> gen_exhaustible (en_generation e)"
    "en_config e' = en_config e" "\<not> en_durability_dirty e'"
proof (cases rule: mutate_cases [where env = env and q = q and e = e])
  case unchanged
  with assms(5,6) show thesis by (simp add: quiet_def quiet_code_def)
next
  case (uncertain snap t c override p)
  with assms(5,6) show thesis by simp
next
  case (committed snap p a settled dirty)
  let ?r = "committed_record p (pr_provenance (pl_next p)) a settled"
  let ?e = "committed_state q snap ?r e" and ?en = "Stored_Commit (request_kind q) p ?r"
  note run = run_to_save [OF committed(1-4) assms(1,2)]
  have cf: "en_config ?e = en_config e" by (simp add: committed_state_def)
  have last: "advance env q y (Persisting ?en (At_Save ps)) =
      (Answered (ending_report (ev_save env (cf_persistence_path (en_config y)) ps) ?en), y\<lparr>en_durability_dirty := False\<rparr>)"
    for y ps using assms(3) by (simp add: Let_def)
  have clean: "?e\<lparr>en_durability_dirty := False\<rparr> = ?e"
    using committed_state_dirty [of q snap ?r e] assms(4) by simp
  have "run_alone env q 11 (Submitted, e) =
      (case run_alone env q 10 (Submitted, e) of (st, e) \<Rightarrow> advance env q e st)"
    by (simp add: run_alone_def numeral_eq_Suc)
  then have "(Answered r, e') = (Answered (ending_report (ev_save env (cf_persistence_path (en_config e))
      (gather_state ?e)) ?en), ?e)"
    using stages_run [of env q e] run last [of ?e "gather_state ?e"] clean assms(5) by (simp add: cf)
  then have e': "e' = ?e" "r = ending_report (ev_save env (cf_persistence_path (en_config e)) (gather_state ?e)) ?en"
    by simp_all
  have generation: "en_generation ?e = gen_next (en_generation e)" by (simp add: committed_state_def)
  show thesis
  proof (rule that [of ?en])
    show "run_alone env q 10 (Submitted, e) = (Persisting ?en (At_Save (gather_state e')), e')"
      unfolding e'(1) by (rule run)
    show "ending_report (ev_save env (cf_persistence_path (en_config e)) (gather_state e')) ?en = r"
      unfolding e' ..
    show "\<not> en_durability_dirty e'" using assms(4) by (simp add: e'(1) committed_state_dirty)
  qed (simp_all only: e'(1) cf generation last commit_answer_None(3) [OF committed(4)] not_False_eq_True)
qed

text \<open>
  Property C15. A save is gathered and written without a lock over both, and the last writer wins:
  two mutations in a row, both told that they were committed and saved, can end with a container that
  holds the state before the second one, while the runtime believes its durable state is current.
\<close>

theorem slow_save_restores_older_state:
  assumes "cf_persistence (en_config e) = Persistence_Automatic" "cf_persistence_path (en_config e) \<noteq> []"
    "\<And>path ps. outcome_ok (ev_save env path ps)" "\<not> en_durability_dirty e"
    "mutate env first e = (r1, e1)" "oc_code (mr_outcome r1) = OC_Ok"
    "mutate env second e1 = (r2, e2)" "oc_code (mr_outcome r2) = OC_Ok"
    "attempt first \<notin> recorded_attempts e" "attempt second \<notin> recorded_attempts e" "attempt first \<noteq> attempt second"
  shows "\<exists>s. reachable e s \<and> sy_threads s = [(first, Answered r1), (second, Answered r2)] \<and>
    sy_engine s = e2 \<and> \<not> en_durability_dirty e2 \<and>
    sy_disk s = Some (gather_state e1) \<and> gather_state e1 \<noteq> gather_state e2"
proof -
  obtain en where a: "run_alone env first 10 (Submitted, e) = (Persisting en (At_Save (gather_state e1)), e1)"
    "advance env first e2 (Persisting en (At_Save (gather_state e1))) =
      (Answered (ending_report (ev_save env (cf_persistence_path (en_config e2)) (gather_state e1)) en),
       e2\<lparr>en_durability_dirty := False\<rparr>)"
    "ending_report (ev_save env (cf_persistence_path (en_config e)) (gather_state e1)) en = r1"
    "en_config e1 = en_config e" "\<not> en_durability_dirty e1"
    by (rule saved_mutation [OF assms(1-6), of e2 "gather_state e1"])
  obtain b: "en_generation e2 = gen_next (en_generation e1)" "\<not> gen_exhaustible (en_generation e1)"
    "en_config e2 = en_config e" "\<not> en_durability_dirty e2"
    using saved_mutation [OF _ _ assms(3) a(5) assms(7,8)] assms(1,2) a(4) by (metis (no_types))
  obtain s0 where s0: "reachable e s0" "sy_engine s0 = e" "sy_threads s0 = [(first, Submitted), (second, Submitted)]"
    by (rule reachable_two [OF assms(9-11)])
  let ?s1 = "turns env 0 10 s0"
  have s1: "reachable e ?s1" "sy_engine ?s1 = e1"
    "sy_threads ?s1 = [(first, Persisting en (At_Save (gather_state e1))), (second, Submitted)]"
    using reachable_turns [OF s0(1), of 0 env 10] turns_run_alone [of 0 s0 first Submitted env 10] a(1) s0(2,3)
    by simp_all
  let ?s2 = "turns env 1 11 ?s1"
  have s2: "reachable e ?s2" "sy_engine ?s2 = e2"
    "sy_threads ?s2 = [(first, Persisting en (At_Save (gather_state e1))), (second, Answered r2)]"
    using reachable_turns [OF s1(1), of 1 env 11] turns_run_alone [of 1 ?s1 second Submitted env 11]
      stages_run [of env second e1] assms(7) s1(2,3) by simp_all
  let ?s3 = "turn env 0 ?s2"
  have "reachable e ?s3" using s2(1,3) by (intro turned) simp_all
  moreover have "e2\<lparr>en_durability_dirty := False\<rparr> = e2" using b(4) by simp
  then have "sy_threads ?s3 = [(first, Answered r1), (second, Answered r2)]" "sy_engine ?s3 = e2"
    "sy_disk ?s3 = Some (gather_state e1)"
    using s2(2,3) a(2,3) b(3) assms(3) by (simp_all add: turn_def disk_after_def)
  moreover have "gather_state e1 \<noteq> gather_state e2"
  proof
    assume "gather_state e1 = gather_state e2"
    then have "en_generation e1 = en_generation e2" by (simp add: gather_state_def)
    with b(1) gen_next_strict [OF b(2)] show False by simp
  qed
  ultimately show ?thesis using b(4) by blast
qed

section \<open>A withdrawn binding leaves an index behind\<close>

text \<open>
  Property C16. A binding files its record, lets go of the lock and then finds its device replaced:
  it withdraws the record with the index keys the record had when it was bound. Where a mutation has
  given the port an owner meanwhile, the port is gone and the owner's index still lists it; the
  invariant of the runtime is broken.
\<close>

theorem withdrawn_binding_breaks_index:
  assumes "engine_ok e" "port_of e (bq_port q) = Some r" "pr_ownership r = Some w"
    "map_of (en_devices e) (bq_parent_device q) = Some known" "bq_device_generation q < dv_generation known"
  shows "port_of (snd (bind_device q (bound_record q ev) e)) (bq_port q) = None \<and>
    bq_port q \<in> ix_ports (ow_owner w) (ix_by_owner (en_indexes (snd (bind_device q (bound_record q ev) e)))) \<and>
    \<not> engine_ok (snd (bind_device q (bound_record q ev) e))"
proof -
  let ?e = "snd (bind_device q (bound_record q ev) e)"
  have "\<not> dv_generation known < bq_device_generation q" using assms(5) by simp
  then have e': "?e = withdraw_record (bound_record q ev) e"
    using assms(4,5) by (simp add: bind_device_def)
  have gone: "port_of ?e (bq_port q) = None" by (simp add: e' withdraw_record_def port_of_def)
  have "bq_port q \<in> ix_ports (ow_owner w) (ix_by_owner (en_indexes e))"
    using assms(1-3) by (auto simp: engine_ok_def indexes_exact_def own_ix.exact_def key_owner_def)
  moreover have "ix_by_owner (en_indexes ?e) = ix_by_owner (en_indexes e)"
    by (simp add: e' withdraw_record_def index_remove_def Let_def)
  ultimately have there: "bq_port q \<in> ix_ports (ow_owner w) (ix_by_owner (en_indexes ?e))" by simp
  have "\<not> engine_ok ?e"
  proof
    assume "engine_ok ?e"
    with there gone show False
      by (auto simp: engine_ok_def indexes_exact_def own_ix.exact_def)
  qed
  with gone there show ?thesis by blast
qed

section \<open>Instances\<close>

text \<open>A claim or a release by the agent of the samples, on an unconfigured port.\<close>

definition at_agent :: "engine \<Rightarrow> port_record \<Rightarrow> bool" where
  "at_agent e snap \<longleftrightarrow> \<not> en_shutting_down e \<and> en_epoch e = 7 \<and> live_incarnation e ''agent'' ''boot-1'' \<and>
     port_of e ''p1'' = Some snap \<and> pr_lifecycle snap = LC_Unconfigured \<and> pr_configuration snap = None \<and>
     gv_configuration (pr_generations snap) = 0 \<and> gv_device (pr_generations snap) = 3 \<and>
     pr_parent_device snap = ''leaf'' \<and> device_generation ''leaf'' e = Some 3 \<and> \<not> gen_exhaustible (en_generation e)"

lemma agent_decides:
  assumes "at_agent e snap" "request_envelope q = sample_envelope a 0" "id_valid a"
    "lm_attempt (pr_last_mutation snap) \<noteq> a" "request_kind q \<in> {MK_ClaimOwnership, MK_ReleaseOwnership}"
    "plan_of q snap no_binding e = propose snap nxt" "record_ok nxt"
  obtains p applied where "admits q e" "target q = ''p1''" "decision_of env q snap e = Ready p applied False"
    "commit_answer (target q) (pl_expected p) p snap (en_generation e) = None" "pr_ownership (pl_next p) = pr_ownership nxt"
    "conclude_decision env (request_envelope q) (request_kind q) (Ready p applied False) e' =
       (explain_commit (request_kind q) p (fst (commit env (target q) (pl_expected p) p (pr_provenance (pl_next p)) applied False e')),
        snd (commit env (target q) (pl_expected p) p (pr_provenance (pl_next p)) applied False e'))"
proof -
  let ?s = "stamp (request_envelope q) (request_payload q) (request_fallback q) (propose snap nxt)"
  have q: "me_authority (request_envelope q) = sample_authority a 0" "target q = ''p1''"
    using assms(2) by (simp_all add: sample_envelope_def)
  obtain known where known: "map_of (en_publishers e) ''agent'' = Some known" "pub_boot known = ''boot-1''" "\<not> pub_fenced known"
    using assms(1) by (auto simp: at_agent_def live_incarnation_def)
  have "admits q e"
    using assms(1,3) known
    by (auto simp: admits_def gate_admission_def q at_agent_def authority_refusal_None live_incarnation_def)
      (simp_all add: sample_authority_def authority_valid_def id_valid_def gen_valid_def)
  moreover have "gates_passed env (request_envelope q) (request_kind q) (request_payload q) snap e no_binding"
    using assms(1,4,5)
    by (auto simp: gates_passed_def gate_None q at_agent_def needs_capability_def needs_configuration_expectation_def)
      (simp_all add: sample_authority_def gen_valid_def id_valid_def)
  moreover have "gate_plan snap (propose snap nxt) = None" using assms(7) by (simp add: gate_plan_None record_validate_ok)
  ultimately have d: "decision_of env q snap e = Ready ?s (pr_applied (pl_next ?s)) False"
    using assms(6)
    by (simp add: decision_of_def decide_def gates_passed_def Let_def plan_of_def apply_nothing stamp_def)
  have "commit_answer (target q) (pl_expected ?s) ?s snap (en_generation e) = None"
    by (rule commit_answer_current) (use assms(1,4) q in \<open>auto simp: at_agent_def sample_authority_def\<close>)
  with \<open>admits q e\<close> d q(2) show thesis
    by (intro that [of ?s "pr_applied (pl_next ?s)"]) (simp_all add: conclude_decision_def split_beta)
qed

lemma agent_commits:
  assumes "at_agent e snap" "request_envelope q = sample_envelope a 0" "id_valid a"
    "lm_attempt (pr_last_mutation snap) \<noteq> a" "request_kind q \<in> {MK_ClaimOwnership, MK_ReleaseOwnership}"
    "plan_of q snap no_binding e = propose snap nxt" "record_ok nxt" "\<And>path ps. outcome_ok (ev_save env path ps)"
    "cf_persistence_path (en_config e) \<noteq> []"
  shows "oc_code (mr_outcome (fst (mutate env q e))) = OC_Ok"
proof -
  obtain p applied where d: "admits q e" "target q = ''p1''" "decision_of env q snap e = Ready p applied False"
    "commit_answer (target q) (pl_expected p) p snap (en_generation e) = None"
    "conclude_decision env (request_envelope q) (request_kind q) (Ready p applied False) (admitted q e) =
       (explain_commit (request_kind q) p (fst (commit env (target q) (pl_expected p) p (pr_provenance (pl_next p)) applied False (admitted q e))),
        snd (commit env (target q) (pl_expected p) p (pr_provenance (pl_next p)) applied False (admitted q e)))"
    by (rule agent_decides [OF assms(1-7)])
  have snap: "port_of e ''p1'' = Some snap" using assms(1) by (simp add: at_agent_def)
  have saves: "outcome_ok (fst (persist_locked_state env x))" if "cf_persistence_path (en_config x) \<noteq> []" for x
    using assms(8) that by (simp add: persist_locked_state_def outcome_ok_def Let_def)
  have "mutate env q e = conclude_decision env (request_envelope q) (request_kind q) (Ready p applied False) (admitted q e)"
    using d(1-3) snap by (simp add: mutate_eq admits_def)
  moreover have "oc_code (mr_outcome (fst (commit env (target q) (pl_expected p) p (pr_provenance (pl_next p)) applied False
      (admitted q e)))) = OC_Ok"
    using d(2,4) snap saves assms(9) by (simp add: commit_report_eq split_beta commit_report_def reporting_def result_outcome)
  ultimately show ?thesis by (simp add: d(5))
qed

lemma sample_envelope_fields [simp]:
  "me_port (sample_envelope a g) = ''p1''" "me_authority (sample_envelope a g) = sample_authority a g"
  by (simp_all add: sample_envelope_def)

lemma claim_plan: "plan_of claim fresh_port no_binding e = propose fresh_port claimed_port"
  by (simp add: plan_of_def claim_def mutation_input_def build_ownership_def claim_refusal_def
      owner_incomplete_def fresh_port_def empty_record_def id_valid_def delegate_refusal_def
      delegates_def granted_ownership_def Let_def advance_ownership_generation_def
      no_generations_def sample_envelope_def sample_authority_def claimed_port_def gen_advance_def
      gen_valid_def sample_texts)

lemma claimed_port_ok: "record_ok claimed_port"
  by (simp add: record_ok_def claimed_port_def fresh_port_def empty_record_def id_valid_def binding_valid_def
      sample_capability_def gen_valid_def ownership_valid_def sample_texts)

lemma claim_fields:
  "request_envelope claim = sample_envelope ''a1'' 0" "request_kind claim = MK_ClaimOwnership"
  "target claim = ''p1''" "attempt claim = ''a1''" "caller claim = sample_authority ''a1'' 0"
  by (simp_all add: claim_def attempt_def sample_envelope_def sample_authority_def)

lemma at_agent_fresh: "at_agent (one_port pol fresh_port) fresh_port"
  by (simp add: at_agent_def live_incarnation_def fresh_port_fields device_generation_def gen_exhaustible_def)
    (simp add: fresh_port_def no_generations_def empty_record_def)

lemma claim_decides:
  assumes "at_agent e fresh_port"
  obtains p applied where "admits claim e" "decision_of env claim fresh_port e = Ready p applied False"
    "commit_answer (target claim) (pl_expected p) p fresh_port (en_generation e) = None"
    "pr_ownership (pl_next p) = pr_ownership claimed_port"
proof (rule agent_decides [OF assms claim_fields(1) _ _ _ claim_plan claimed_port_ok])
  show "id_valid ''a1''" by (simp add: id_valid_def)
  show "lm_attempt (pr_last_mutation fresh_port) \<noteq> ''a1''" by (simp add: fresh_port_fields no_last_mutation_def)
  show "request_kind claim \<in> {MK_ClaimOwnership, MK_ReleaseOwnership}" by (simp add: claim_fields)
qed (rule that)

lemma fresh_attempts: "recorded_attempts (one_port pol fresh_port) = {[]}"
  by (simp add: recorded_attempts_def fresh_port_fields no_last_mutation_def)

text \<open>A claim on its way, up to its decision.\<close>

lemma prepared_claim:
  obtains s p applied where "reachable (one_port pol fresh_port) s" "sy_engine s = admitted claim (one_port pol fresh_port)"
    "sy_threads s = [(claim, Decided fresh_port (Ready p applied False))]"
    "commit_answer (target claim) (pl_expected p) p fresh_port 0 = None"
proof -
  let ?e = "one_port pol fresh_port"
  obtain p applied where d: "admits claim ?e" "decision_of quiet_env claim fresh_port ?e = Ready p applied False"
    "commit_answer (target claim) (pl_expected p) p fresh_port (en_generation ?e) = None"
    by (rule claim_decides [OF at_agent_fresh])
  have port: "port_of ?e (target claim) = Some fresh_port" by (simp add: claim_fields fresh_port_fields)
  obtain s where s: "reachable ?e s" "sy_engine s = ?e" "sy_threads s = [(claim, Submitted)]"
    by (rule reachable_one [of claim ?e]) (simp_all add: fresh_attempts claim_fields)
  show thesis
    by (rule that [of "turns quiet_env 0 6 s" p applied])
      (use reachable_turns [OF s(1), of 0 quiet_env 6] turns_run_alone [of 0 s claim Submitted quiet_env 6]
        run_to_decision [OF d(1) port d(2)] s(2,3) d(3) in simp_all)
qed


theorem no_update_is_lost_witness:
  "\<exists>s p applied ending e'. reachable (one_port Policy_Apply fresh_port) s \<and>
     (claim, Decided fresh_port (Ready p applied False)) \<in> set (sy_threads s) \<and>
     advance quiet_env claim (sy_engine s) (Decided fresh_port (Ready p applied False)) = (Persisting ending At_Authority, e') \<and>
     (\<exists>cur. port_of (sy_engine s) (target claim) = Some cur \<and> (cur = fresh_port \<or> exhausted cur) \<and>
       port_of e' = (port_of (sy_engine s))(target claim \<mapsto>
         committed_record p (pr_provenance (pl_next p)) applied False))"
proof -
  obtain s p applied where s: "reachable (one_port Policy_Apply fresh_port) s"
    "sy_engine s = admitted claim (one_port Policy_Apply fresh_port)"
    "sy_threads s = [(claim, Decided fresh_port (Ready p applied False))]"
    "commit_answer (target claim) (pl_expected p) p fresh_port 0 = None" by (rule prepared_claim)
  have ok: "engine_ok (one_port Policy_Apply fresh_port)" by (rule one_port_ok) (simp_all add: fresh_port_ok fresh_port_fields)
  have mem: "(claim, Decided fresh_port (Ready p applied False)) \<in> set (sy_threads s)" by (simp add: s(3))
  obtain ending e' where adv: "advance quiet_env claim (sy_engine s) (Decided fresh_port (Ready p applied False)) =
      (Persisting ending At_Authority, e')"
    using s(4) by (simp add: s(2) store_stage_def Let_def claim_fields fresh_port_fields)
  from no_update_is_lost [OF ok s(1) mem adv] s(1) mem adv show ?thesis by blast
qed

theorem prepared_mutation_outlives_fencing_witness:
  "\<exists>s r. reachable (one_port Policy_Apply fresh_port) s \<and> is_publisher_fenced ''agent'' ''boot-1'' (sy_engine s) \<and>
     port_of (sy_engine s) ''p1'' = Some r \<and> pr_ownership r = pr_ownership claimed_port"
proof -
  let ?e = "one_port Policy_Apply fresh_port"
  obtain p applied where d: "admits claim ?e" "decision_of quiet_env claim fresh_port ?e = Ready p applied False"
    "commit_answer (target claim) (pl_expected p) p fresh_port (en_generation ?e) = None"
    "pr_ownership (pl_next p) = pr_ownership claimed_port"
    by (rule claim_decides [OF at_agent_fresh])
  obtain w where w: "pr_ownership claimed_port = Some w" "ow_publisher w = ''agent''" "ow_boot w = ''boot-1''"
    by (simp add: claimed_port_def)
  have "engine_ok ?e" by (rule one_port_ok) (simp_all add: fresh_port_ok fresh_port_fields)
  from prepared_mutation_outlives_fencing [OF this d(1) _ _ _ d(2,3), of w] d(4) w
  show ?thesis
    by (simp add: claim_fields fresh_attempts fresh_port_fields sample_authority_def gen_next_def gen_exhaustible_def)
      (simp add: fresh_port_def empty_record_def)
qed

theorem withdrawn_binding_breaks_index_witness:
  "\<not> engine_ok (snd (bind_device (sample_binding_request\<lparr>bq_port := ''p1'', bq_device_generation := 2\<rparr>)
     (bound_record (sample_binding_request\<lparr>bq_port := ''p1'', bq_device_generation := 2\<rparr>) None)
     (one_port Policy_Apply configured_port)))"
proof -
  have "engine_ok (one_port Policy_Apply configured_port)"
    by (rule one_port_ok [OF configured_port_ok]) (simp add: configured_port_def fresh_port_fields)
  from withdrawn_binding_breaks_index [OF this, of "sample_binding_request\<lparr>bq_port := ''p1'', bq_device_generation := 2\<rparr>"
      configured_port sample_owner _ None]
  show ?thesis by (simp add: configured_port_def fresh_port_fields sample_binding_request_def)
qed

text \<open>The same port in a runtime that saves automatically: claimed, then released.\<close>

definition saving :: engine where
  "saving = (one_port Policy_Apply fresh_port)
     \<lparr>en_config := (en_config (one_port Policy_Apply fresh_port))
        \<lparr>cf_persistence := Persistence_Automatic, cf_persistence_path := ''state''\<rparr>\<rparr>"

definition release :: mutation_request where
  "release = Req_ReleaseOwnership \<lparr>oq_envelope = sample_envelope ''a2'' 0, oq_owner_kind = Owner_SwitchAgent,
     oq_owner = ''agent'', oq_exclusive = True, oq_release = True, oq_delegate_publisher = [], oq_delegate_boot = []\<rparr>"

lemma at_agent_saving: "at_agent saving fresh_port"
  using at_agent_fresh [of Policy_Apply]
  by (simp add: at_agent_def saving_def live_incarnation_def device_generation_def port_of_def)

lemma release_fields:
  "request_envelope release = sample_envelope ''a2'' 0" "request_kind release = MK_ReleaseOwnership"
  "attempt release = ''a2''"
  by (simp_all add: release_def attempt_def sample_authority_def)

lemma quiet_saves: "outcome_ok (ev_save quiet_env path ps)"
  by (simp add: quiet_env_def outcome_ok_def)

lemma claim_saved: "oc_code (mr_outcome (fst (mutate quiet_env claim saving))) = OC_Ok"
  by (rule agent_commits [OF at_agent_saving claim_fields(1) _ _ _ claim_plan claimed_port_ok quiet_saves])
    (simp_all add: claim_fields fresh_port_fields no_last_mutation_def id_valid_def saving_def)

lemma saving_ok: "engine_ok saving"
proof -
  have "engine_ok (one_port Policy_Apply fresh_port)" by (rule one_port_ok) (simp_all add: fresh_port_ok fresh_port_fields)
  then show ?thesis by (simp add: engine_ok_def saving_def port_of_def device_known_def)
qed

lemma release_saved: "oc_code (mr_outcome (fst (mutate quiet_env release (snd (mutate quiet_env claim saving))))) = OC_Ok"
proof -
  let ?e = "snd (mutate quiet_env claim saving)"
  have fresh: "port_of saving (target claim) = Some fresh_port"
    using at_agent_saving by (simp add: at_agent_def claim_fields)
  have code: "oc_code (mr_outcome (fst (mutate quiet_env claim saving))) \<in> {OC_Ok, OC_PersistenceIoFailure}"
    by (simp add: claim_saved)
  obtain snap r evidence where r: "port_of saving (target claim) = Some snap"
    "gates_passed quiet_env (request_envelope claim) (request_kind claim) (request_payload claim) snap saving evidence"
    "commits snap r (plan_of claim snap evidence saving) (request_envelope claim) (request_payload claim)"
    "port_of ?e = (port_of saving)(target claim \<mapsto> r)" "record_core_ok r"
    by (rule mutate_commits [OF saving_ok code])
  have "evidence = no_binding" using r(2) by (simp add: gates_passed_def claim_fields needs_capability_def)
  moreover have "snap = fresh_port" using r(1) fresh by simp
  ultimately have c: "commits fresh_port r (propose fresh_port claimed_port) (sample_envelope ''a1'' 0) (request_payload claim)"
    using r(3) claim_plan claim_fields(1) by simp
  have fields: "pr_port r = ''p1''" "pr_lifecycle r = LC_Unconfigured" "pr_configuration r = None"
    "pr_parent_device r = ''leaf''" "pr_ownership r = pr_ownership claimed_port"
    "gv_configuration (pr_generations r) = 0" "gv_device (pr_generations r) = 3"
    "lm_attempt (pr_last_mutation r) = ''a1''"
    using c by (simp_all add: commits_def same_but_evidence_def)
      (simp_all add: claimed_port_def fresh_port_def empty_record_def no_generations_def sample_authority_def)
  obtain w where w: "pr_ownership r = Some w" "held_by w ''agent'' ''boot-1'' 7"
    by (simp add: fields(5) claimed_port_def held_by_def ownership_valid_def id_valid_def gen_valid_def)
  have known: "map_of (en_publishers saving) ''agent'' \<noteq> None" by (simp add: saving_def)
  have rest: "\<not> en_shutting_down ?e \<and> en_epoch ?e = 7 \<and> en_publishers ?e = en_publishers saving \<and>
      en_devices ?e = en_devices saving \<and> en_generation ?e = 1 \<and> en_config ?e = en_config saving"
  proof (cases rule: mutate_cases [where env = quiet_env and q = claim and e = saving])
    case (committed snap p a s d)
    have "en_publishers (admitted claim saving) = en_publishers saving"
      using known by (auto simp: admitted_def check_authority_def claim_fields sample_authority_def split: option.split)
    with committed(5) show ?thesis
      by (simp add: saving_def gen_next_def gen_exhaustible_def)
  qed (use claim_saved in \<open>simp_all add: quiet_def quiet_code_def\<close>)
  have agent: "at_agent ?e r"
    using at_agent_saving rest r(4) fields
    by (simp add: at_agent_def claim_fields live_incarnation_def device_generation_def gen_exhaustible_def)
  let ?next = "(advance_ownership_generation r)\<lparr>pr_ownership := None, pr_status_reason := ''OWNERSHIP_RELEASED'',
    pr_status_detail := []\<rparr>"
  have plan: "plan_of release r no_binding ?e = propose r ?next"
    using w by (simp add: plan_of_def release_def mutation_input_def build_ownership_def holder_refusal_def
        caller_holds_def sample_authority_def Let_def) (simp add: sample_envelope_def)
  have "validate_text ''OWNERSHIP_RELEASED'' max_name_length = None" by code_simp
  then have next_ok: "record_ok ?next"
    using r(5) fields by (simp add: record_ok_def record_core_ok_def sample_texts advance_ownership_generation_def)
  show ?thesis
    by (rule agent_commits [OF agent release_fields(1) _ _ _ plan next_ok quiet_saves])
      (simp_all add: release_fields fields id_valid_def rest, simp add: saving_def)
qed

theorem slow_save_restores_older_state_witness:
  "\<exists>s. reachable saving s \<and> sy_disk s \<noteq> Some (gather_state (sy_engine s)) \<and> \<not> en_durability_dirty (sy_engine s) \<and>
     list_all (\<lambda>(q, st). \<exists>r. st = Answered r \<and> oc_code (mr_outcome r) = OC_Ok) (sy_threads s)"
proof -
  have attempts: "recorded_attempts saving = {[]}"
    using fresh_attempts [of Policy_Apply] by (simp add: saving_def recorded_attempts_def port_of_def)
  have cf: "cf_persistence (en_config saving) = Persistence_Automatic" "cf_persistence_path (en_config saving) \<noteq> []"
    "\<not> en_durability_dirty saving"
    by (simp_all add: saving_def) (simp add: one_port_def one_agent_def register_publisher_def register_fresh_def engine_create_def)
  obtain s where "reachable saving s"
    "sy_threads s = [(claim, Answered (fst (mutate quiet_env claim saving))),
       (release, Answered (fst (mutate quiet_env release (snd (mutate quiet_env claim saving)))))]"
    "sy_engine s = snd (mutate quiet_env release (snd (mutate quiet_env claim saving)))"
    "\<not> en_durability_dirty (sy_engine s)" "sy_disk s \<noteq> Some (gather_state (sy_engine s))"
    using slow_save_restores_older_state [OF cf(1,2) quiet_saves cf(3) surjective_pairing claim_saved
        surjective_pairing release_saved] by (auto simp: attempts claim_fields release_fields)
  with claim_saved release_saved show ?thesis by (intro exI [of _ s]) simp
qed

end
