(* ===== verification/Codec.thy ===== *)
theory Codec
  imports Digest
begin

unbundle bit_operations_syntax

text \<open>
  The bounded byte codec of \<open>src/codec.cpp\<close> and \<open>src/codec.hpp\<close>: \<open>ByteWriter\<close>, which is poisoned
  by the first write that does not fit its limit, \<open>ByteReader\<close>, which is poisoned by the first read
  that does not find its bytes, and CRC-32. A byte string is a \<open>std::string\<close>, hence a list of characters.

  A reader that failed never succeeds again and every decoder of the code returns at once, so a reader
  is a function from the remaining input to an error or the value read and the input that is left. A
  writer is a state transformer. The relation \<open>codec\<close> says that what a writer emits, a reader reads
  back; one rule for each way of building writers and readers makes the round trip of every
  message a walk through its definition.
\<close>

section \<open>Little-endian words\<close>

primrec le_bytes :: "nat \<Rightarrow> 'a::len word \<Rightarrow> string" where
  "le_bytes 0 v = []"
| "le_bytes (Suc n) v = char_of (unat (v AND 0xff)) # le_bytes n (drop_bit 8 v)"

primrec le_word :: "string \<Rightarrow> 'a::len word" where
  "le_word [] = 0"
| "le_word (c # cs) = of_nat (of_char c) OR push_bit 8 (le_word cs)"

lemma length_le_bytes [simp]: "length (le_bytes n v) = n"
  by (induction n arbitrary: v) auto

lemma le_byte: "of_nat (unat (v AND 0xff) mod 256) = take_bit 8 (v :: 'a::len word)"
proof -
  have "of_nat (unat (v AND 0xff) mod 256) = take_bit 8 (v AND 0xff)"
    using take_bit_of_nat [of 8 "unat (v AND 0xff)", where 'a = "'a word"]
    by (simp add: take_bit_eq_mod)
  also have "\<dots> = take_bit 8 v"
    using take_bit_eq_mask [of 8 v] by (simp add: mask_eq_exp_minus_1)
  finally show ?thesis .
qed

lemma le_word_bytes: "le_word (le_bytes n v) = take_bit (8 * n) (v :: 'a::len word)"
proof (induction n arbitrary: v)
  case (Suc n)
  have "take_bit 8 v OR push_bit 8 (take_bit (8 * n) (drop_bit 8 v)) = take_bit (8 * Suc n) v"
    by (rule bit_word_eqI) (auto simp: bit_simps)
  with Suc show ?case by (simp add: le_byte)
qed simp

lemma le_word_whole: "LENGTH('a) \<le> 8 * n \<Longrightarrow> le_word (le_bytes n v) = (v :: 'a::len word)"
  by (simp add: le_word_bytes take_bit_word_eq_self)

section \<open>The writer\<close>

record writer =
  wr_out :: string
  wr_limit :: nat
  wr_ok :: bool

definition open_writer :: "nat \<Rightarrow> writer" where
  "open_writer limit = \<lparr>wr_out = [], wr_limit = limit, wr_ok = True\<rparr>"

definition writer_require :: "nat \<Rightarrow> writer \<Rightarrow> writer" where
  "writer_require additional w =
     (if \<not> wr_ok w then w
      else if wr_limit w < additional \<or> wr_limit w - additional < length (wr_out w)
      then w\<lparr>wr_ok := False\<rparr> else w)"

definition write_raw :: "string \<Rightarrow> writer \<Rightarrow> writer" where
  "write_raw bs w =
     (let w = writer_require (length bs) w
      in if \<not> wr_ok w then w else w\<lparr>wr_out := wr_out w @ bs\<rparr>)"

definition write_u8 :: "u8 \<Rightarrow> writer \<Rightarrow> writer" where "write_u8 v = write_raw (le_bytes 1 v)"
definition write_u16 :: "16 word \<Rightarrow> writer \<Rightarrow> writer" where "write_u16 v = write_raw (le_bytes 2 v)"
definition write_u32 :: "u32 \<Rightarrow> writer \<Rightarrow> writer" where "write_u32 v = write_raw (le_bytes 4 v)"
definition write_u64 :: "u64 \<Rightarrow> writer \<Rightarrow> writer" where "write_u64 v = write_raw (le_bytes 8 v)"

definition write_boolean :: "bool \<Rightarrow> writer \<Rightarrow> writer" where
  "write_boolean b = write_u8 (if b then 1 else 0)"

definition write_text :: "nat \<Rightarrow> string \<Rightarrow> writer \<Rightarrow> writer" where
  "write_text max_length value w =
     (if max_length < length value then w\<lparr>wr_ok := False\<rparr>
      else write_raw value (write_u32 (of_nat (length value)) w))"

text \<open>A sequence of writes.\<close>

definition write_all :: "(writer \<Rightarrow> writer) list \<Rightarrow> writer \<Rightarrow> writer" where
  "write_all ops w = foldl (\<lambda>w op. op w) w ops"

section \<open>The reader\<close>

type_synonym ('e, 'a) reader = "string \<Rightarrow> 'e + 'a \<times> string"

definition returning :: "'a \<Rightarrow> ('e, 'a) reader" where
  "returning x = (\<lambda>bs. Inr (x, bs))"

definition failing :: "'e \<Rightarrow> ('e, 'a) reader" where
  "failing e = (\<lambda>bs. Inl e)"

definition reading :: "('e, 'a) reader \<Rightarrow> ('a \<Rightarrow> ('e, 'b) reader) \<Rightarrow> ('e, 'b) reader" where
  "reading r k = (\<lambda>bs. case r bs of Inl e \<Rightarrow> Inl e | Inr (x, rest) \<Rightarrow> k x rest)"

text \<open>The early returns of a decoder: a condition that must hold, and an error that replaces any other.\<close>

definition requiring :: "bool \<Rightarrow> 'e \<Rightarrow> ('e, 'a) reader \<Rightarrow> ('e, 'a) reader" where
  "requiring ok e r = (if ok then r else failing e)"

definition labelled :: "'f \<Rightarrow> ('e, 'a) reader \<Rightarrow> ('f, 'a) reader" where
  "labelled e r = (\<lambda>bs. case r bs of Inl _ \<Rightarrow> Inl e | Inr y \<Rightarrow> Inr y)"

type_synonym 'a plain_reader = "(unit, 'a) reader"

definition read_raw :: "nat \<Rightarrow> string plain_reader" where
  "read_raw n = (\<lambda>bs. if length bs < n then Inl () else Inr (take n bs, drop n bs))"

definition read_word :: "nat \<Rightarrow> ('a::len word) plain_reader" where
  "read_word n = reading (read_raw n) (\<lambda>bs. returning (le_word bs))"

definition read_u8 :: "u8 plain_reader" where "read_u8 = read_word 1"
definition read_u16 :: "16 word plain_reader" where "read_u16 = read_word 2"
definition read_u32 :: "u32 plain_reader" where "read_u32 = read_word 4"
definition read_u64 :: "u64 plain_reader" where "read_u64 = read_word 8"

definition read_boolean :: "bool plain_reader" where
  "read_boolean = reading read_u8 (\<lambda>raw. requiring (raw \<le> 1) () (returning (raw = 1)))"

definition read_text :: "nat \<Rightarrow> string plain_reader" where
  "read_text max_length =
     reading read_u32 (\<lambda>n. requiring (unat n \<le> max_length) () (read_raw (unat n)))"

text \<open>A count that the remaining input cannot satisfy is rejected before anything is reserved.\<close>

definition read_bounded_count :: "nat \<Rightarrow> nat plain_reader" where
  "read_bounded_count limit =
     reading read_u32 (\<lambda>n. requiring (unat n \<le> limit) ()
       (\<lambda>bs. if length bs < unat n then Inl () else Inr (unat n, bs)))"

fun read_times :: "nat \<Rightarrow> ('e, 'a) reader \<Rightarrow> ('e, 'a list) reader" where
  "read_times 0 r = returning []"
| "read_times (Suc n) r = reading r (\<lambda>x. reading (read_times n r) (\<lambda>xs. returning (x # xs)))"

definition write_list :: "('a \<Rightarrow> writer \<Rightarrow> writer) \<Rightarrow> 'a list \<Rightarrow> writer \<Rightarrow> writer" where
  "write_list f xs = write_all (write_u32 (of_nat (length xs)) # map f xs)"

definition read_list :: "nat \<Rightarrow> 'a plain_reader \<Rightarrow> 'a list plain_reader" where
  "read_list limit r = reading (read_bounded_count limit) (\<lambda>n. read_times n r)"

definition write_option :: "('a \<Rightarrow> writer \<Rightarrow> writer) \<Rightarrow> 'a option \<Rightarrow> writer \<Rightarrow> writer" where
  "write_option f x =
     (case x of None \<Rightarrow> write_boolean False | Some y \<Rightarrow> write_all [write_boolean True, f y])"

definition read_option :: "'a plain_reader \<Rightarrow> 'a option plain_reader" where
  "read_option r =
     reading read_boolean (\<lambda>has. if has then reading r (\<lambda>x. returning (Some x)) else returning None)"

text \<open>An enumerator travels as its value in one byte; a value that is none is rejected.\<close>

definition enum_index :: "'e list \<Rightarrow> 'e \<Rightarrow> nat" where
  "enum_index all e = length (takeWhile (\<lambda>x. x \<noteq> e) all)"

definition write_enum :: "'e list \<Rightarrow> 'e \<Rightarrow> writer \<Rightarrow> writer" where
  "write_enum all e = write_u8 (of_nat (enum_index all e))"

definition read_enum :: "'e list \<Rightarrow> 'e plain_reader" where
  "read_enum all = reading read_u8 (\<lambda>b. requiring (unat b < length all) () (returning (all ! unat b)))"

section \<open>What is written is read back\<close>

text \<open>
  \<open>codec f r x\<close>: whenever the writer is not poisoned after \<open>f\<close>, it was not before and \<open>f\<close> appended
  bytes from which \<open>r\<close> reads \<open>x\<close>, whatever follows them.
\<close>

definition codec :: "(writer \<Rightarrow> writer) \<Rightarrow> ('e, 'a) reader \<Rightarrow> 'a \<Rightarrow> bool" where
  "codec f r x \<longleftrightarrow> (\<forall>w. wr_ok (f w) \<longrightarrow> wr_ok w \<and>
     (\<exists>bs. wr_out (f w) = wr_out w @ bs \<and> (\<forall>rest. r (bs @ rest) = Inr (x, rest))))"

named_theorems codecs

lemma codecI:
  assumes "\<And>w. wr_ok (f w) \<Longrightarrow> wr_ok w \<and> wr_out (f w) = wr_out w @ bs"
    "\<And>rest. r (bs @ rest) = Inr (x, rest)"
  shows "codec f r x"
  using assms by (auto simp: codec_def)

lemma write_raw_ok: "wr_ok (write_raw bs w) \<Longrightarrow> wr_ok w \<and> wr_out (write_raw bs w) = wr_out w @ bs"
  by (auto simp: write_raw_def writer_require_def Let_def split: if_splits)

lemma codec_end: "x = y \<Longrightarrow> codec (write_all []) (returning x) y"
  by (rule codecI [where bs = "[]"]) (simp_all add: write_all_def returning_def)

lemma codec_then:
  assumes "codec f r x" "codec (write_all ops) (k x) y"
  shows "codec (write_all (f # ops)) (reading r k) y"
  unfolding codec_def
proof (intro allI impI)
  fix w
  assume ok: "wr_ok (write_all (f # ops) w)"
  have all: "write_all (f # ops) w = write_all ops (f w)" by (simp add: write_all_def)
  obtain bs where bs: "wr_ok (f w)" "wr_out (write_all ops (f w)) = wr_out (f w) @ bs"
    "\<forall>rest. k x (bs @ rest) = Inr (y, rest)"
    using assms(2) ok unfolding all codec_def by blast
  obtain as where as: "wr_ok w" "wr_out (f w) = wr_out w @ as" "\<forall>rest. r (as @ rest) = Inr (x, rest)"
    using assms(1) bs(1) unfolding codec_def by blast
  have "reading r k ((as @ bs) @ rest) = Inr (y, rest)" for rest
    using as(3) bs(3) by (simp add: reading_def)
  then show "wr_ok w \<and> (\<exists>bs. wr_out (write_all (f # ops) w) = wr_out w @ bs \<and>
      (\<forall>rest. reading r k (bs @ rest) = Inr (y, rest)))"
    using as bs unfolding all by (metis append.assoc)
qed

lemma codec_requiring: "ok \<Longrightarrow> codec f r x \<Longrightarrow> codec f (requiring ok e r) x"
  by (simp add: requiring_def)

lemma codec_labelled: "codec f r x \<Longrightarrow> codec f (labelled e r) x"
  unfolding codec_def labelled_def by fastforce

lemma codec_word:
  fixes v :: "'a::len word"
  assumes "LENGTH('a) \<le> 8 * n"
  shows "codec (write_raw (le_bytes n v)) (read_word n) v"
  by (rule codecI [where bs = "le_bytes n v"])
    (simp_all add: write_raw_ok read_word_def reading_def read_raw_def returning_def le_word_whole assms)

lemma codec_words [codecs]:
  "codec (write_u8 a) read_u8 a" "codec (write_u16 b) read_u16 b" "codec (write_u32 c) read_u32 c"
  "codec (write_u64 d) read_u64 d"
  unfolding write_u8_def read_u8_def write_u16_def read_u16_def write_u32_def read_u32_def
    write_u64_def read_u64_def by (rule codec_word; simp)+

text \<open>A writer of one value is a sequence of one write.\<close>

lemma write_all_single [simp]: "write_all [f] = f"
  by (rule ext) (simp add: write_all_def)

lemma codec_single: "codec (write_all [f]) r x \<Longrightarrow> codec f r x"
  by simp

lemma codec_map:
  assumes "codec f r x"
  shows "codec f (reading r (\<lambda>y. returning (g y))) (g x)"
proof -
  have "reading r (\<lambda>y. returning (g y)) bs = Inr (g x, rest)" if "r bs = Inr (x, rest)" for bs rest
    using that by (simp add: reading_def returning_def)
  with assms show ?thesis unfolding codec_def by blast
qed

lemma codec_boolean [codecs]: "codec (write_boolean b) read_boolean b"
  unfolding write_boolean_def read_boolean_def
  by (rule codec_single, rule codec_then, rule codec_words, rule codec_requiring)
    (simp, rule codec_end, simp)

lemma codec_raw: "length bs = n \<Longrightarrow> codec (write_raw bs) (read_raw n) bs"
  by (rule codecI [where bs = bs]) (simp_all add: write_raw_ok read_raw_def)

lemma codec_text [codecs]:
  assumes "m < 2 ^ 32"
  shows "codec (write_text m s) (read_text m) s"
proof (cases "length s \<le> m")
  case True
  then have len: "unat (of_nat (length s) :: u32) = length s"
    using assms by (simp add: unat_of_nat)
  have "codec (write_all [write_u32 (of_nat (length s)), write_raw s]) (read_text m) s"
    unfolding read_text_def
    by (rule codec_then [OF codec_words(3)], rule codec_requiring)
      (use True codec_raw [of s] in \<open>simp_all add: len write_all_def\<close>)
  moreover have "write_text m s = write_all [write_u32 (of_nat (length s)), write_raw s]"
    using True by (auto simp: write_text_def write_all_def fun_eq_iff)
  ultimately show ?thesis by simp
next
  case False
  then show ?thesis by (simp add: codec_def write_text_def)
qed

lemma enum_index_nth: "e \<in> set all \<Longrightarrow> enum_index all e < length all \<and> all ! enum_index all e = e"
  unfolding enum_index_def
  by (induction all) auto

lemma codec_enum:
  assumes "e \<in> set all" "length all \<le> 256"
  shows "codec (write_enum all e) (read_enum all) e"
proof -
  note at = enum_index_nth [OF assms(1)]
  then have "unat (of_nat (enum_index all e) :: u8) = enum_index all e"
    using assms(2) by (simp add: unat_of_nat)
  with at show ?thesis
    unfolding write_enum_def read_enum_def
    by - (rule codec_single, rule codec_then, rule codec_words, rule codec_requiring,
      simp, rule codec_end, simp)
qed

lemma codec_option [codecs]:
  assumes "\<And>y. x = Some y \<Longrightarrow> codec (f y) r y"
  shows "codec (write_option f x) (read_option r) x"
proof (cases x)
  case None
  have "codec (write_all [write_boolean False]) (read_option r) x"
    unfolding read_option_def
    by (rule codec_then [OF codec_boolean]) (simp add: None codec_end)
  then show ?thesis by (simp add: write_option_def None)
next
  case (Some y)
  have "codec (write_all [write_boolean True, f y]) (read_option r) x"
    unfolding read_option_def
    by (rule codec_then [OF codec_boolean])
      (simp add: Some codec_map [OF assms [OF Some]])
  then show ?thesis by (simp add: write_option_def Some)
qed

text \<open>A list whose elements all take at least one byte.\<close>

lemma codec_times:
  "(\<And>x. x \<in> set xs \<Longrightarrow> codec (f x) r x) \<Longrightarrow> codec (write_all (map f xs)) (read_times (length xs) r) xs"
proof (induction xs)
  case Nil
  show ?case by (simp add: codec_end)
next
  case (Cons x xs)
  have "codec (write_all (map f xs)) (reading (read_times (length xs) r) (\<lambda>ys. returning (x # ys))) (x # xs)"
    using Cons by (intro codec_map) simp
  with Cons.prems show ?case by (auto intro: codec_then)
qed

lemma codec_emits:
  assumes "codec f r x" "\<forall>y. r [] \<noteq> Inr y" "wr_ok (f w)"
  shows "length (wr_out w) < length (wr_out (f w))"
proof -
  obtain bs where bs: "wr_out (f w) = wr_out w @ bs" "\<forall>rest. r (bs @ rest) = Inr (x, rest)"
    using assms(1,3) unfolding codec_def by blast
  have "bs \<noteq> []"
  proof
    assume "bs = []"
    then have "r [] = Inr (x, [])" using bs(2) [rule_format, of "[]"] by simp
    with assms(2) show False by simp
  qed
  with bs(1) show ?thesis by simp
qed

lemma writes_grow:
  assumes "\<And>x. x \<in> set xs \<Longrightarrow> codec (f x) r x" "\<forall>y. r [] \<noteq> Inr y" "wr_ok (write_all (map f xs) w)"
  shows "length (wr_out w) + length xs \<le> length (wr_out (write_all (map f xs) w))"
  using assms(1,3)
proof (induction xs arbitrary: w)
  case (Cons x xs)
  have all: "write_all (map f (x # xs)) w = write_all (map f xs) (f x w)" by (simp add: write_all_def)
  have ok: "wr_ok (write_all (map f xs) (f x w))" using Cons.prems(2) all by simp
  have "codec (write_all (map f xs)) (read_times (length xs) r) xs"
    by (rule codec_times) (use Cons.prems(1) in simp)
  then have "wr_ok (f x w)" using ok unfolding codec_def by blast
  then have "length (wr_out w) < length (wr_out (f x w))"
    using codec_emits [OF Cons.prems(1) assms(2)] by simp
  with Cons.IH [of "f x w"] Cons.prems(1) ok show ?case unfolding all by fastforce
qed (simp add: write_all_def)

text \<open>A count and the elements it announces: the count is accepted, because each element takes a byte.\<close>

lemma labelled_unit [simp]: "labelled () r = r"
  by (rule ext) (simp add: labelled_def split: sum.split)

lemma codec_counted:
  assumes "length xs \<le> limit" "limit < 2 ^ 32" "\<And>x. x \<in> set xs \<Longrightarrow> codec (f x) r x" "\<forall>y. r [] \<noteq> Inr y"
    "codec (write_all (map f xs)) (k (length xs)) y"
  shows "codec (write_list f xs) (reading (labelled e (read_bounded_count limit)) k) y"
  unfolding codec_def
proof (intro allI impI)
  fix w
  let ?n = "of_nat (length xs) :: u32" and ?r = "reading (labelled e (read_bounded_count limit)) k"
  have len: "unat ?n = length xs" using assms(1,2) by (simp add: unat_of_nat)
  have all: "write_list f xs w = write_all (map f xs) (write_u32 ?n w)"
    by (simp add: write_list_def write_all_def)
  assume "wr_ok (write_list f xs w)"
  then have ok: "wr_ok (write_all (map f xs) (write_u32 ?n w))" by (simp only: all)
  obtain bs where bs: "wr_ok (write_u32 ?n w)"
    "wr_out (write_all (map f xs) (write_u32 ?n w)) = wr_out (write_u32 ?n w) @ bs"
    "\<forall>rest. k (length xs) (bs @ rest) = Inr (y, rest)"
    using assms(5) ok unfolding codec_def by blast
  obtain cs where cs: "wr_ok w" "wr_out (write_u32 ?n w) = wr_out w @ cs"
    "\<forall>rest. read_u32 (cs @ rest) = Inr (?n, rest)"
    using codec_words(3) bs(1) unfolding codec_def by blast
  have "length xs \<le> length bs"
    using writes_grow [OF assms(3,4) ok] bs(2) by simp
  then have "?r ((cs @ bs) @ rest) = Inr (y, rest)" for rest
    using bs(3) cs(3) assms(1)
    by (simp add: read_bounded_count_def reading_def requiring_def labelled_def len)
  then show "wr_ok w \<and> (\<exists>bs. wr_out (write_list f xs w) = wr_out w @ bs \<and>
      (\<forall>rest. ?r (bs @ rest) = Inr (y, rest)))"
    using cs bs unfolding all by (metis append.assoc)
qed

lemma codec_list [codecs]:
  assumes "length xs \<le> limit" "limit < 2 ^ 32" "\<And>x. x \<in> set xs \<Longrightarrow> codec (f x) r x" "\<forall>y. r [] \<noteq> Inr y"
  shows "codec (write_list f xs) (read_list limit r) xs"
proof -
  have "codec (write_all (map f xs)) (read_times (length xs) r) xs"
    by (rule codec_times) (rule assms(3))
  from codec_counted [where e = "()" and k = "\<lambda>n. read_times n r", OF assms(1-4) this]
  show ?thesis by (simp add: read_list_def)
qed

end
