(* ===== verification/Wire.thy ===== *)
theory Wire
  imports Codec Engine_State
begin

text \<open>
  The field codecs of \<open>src/wire.cpp\<close>, shared by the container and the protocol: for every type of the
  data model one writer and one reader, in the order of the code, and the proof that what is
  written is read back. The values a C++ class can hold are part of the statement: an identifier is
  null or valid, a rate, an MTU or a lane configuration is the default or within its range.
\<close>

section \<open>Fields\<close>

definition write_id :: "strong_id \<Rightarrow> writer \<Rightarrow> writer" where
  "write_id i = write_text max_identifier_length i"

definition read_id :: "string plain_reader" where
  "read_id = read_text max_identifier_length"

text \<open>\<open>read_strong_id\<close>: an empty encoding is the null identifier.\<close>

definition taking :: "'a option \<Rightarrow> 'a plain_reader" where
  "taking x = (case x of None \<Rightarrow> failing () | Some y \<Rightarrow> returning y)"

definition read_strong_id :: "strong_id plain_reader" where
  "read_strong_id = reading read_id (\<lambda>t. if t = [] then returning [] else taking (id_parse t))"

definition read_speed :: "port_speed plain_reader" where
  "read_speed = reading read_u64 (\<lambda>bits. taking (speed_from_bits_per_second bits))"

definition read_rate :: "port_speed plain_reader" where
  "read_rate = reading read_u64 (\<lambda>v. if v \<noteq> 0 then taking (speed_from_bits_per_second v) else returning 0)"

definition read_mtu :: "mtu plain_reader" where
  "read_mtu = reading read_u32 (\<lambda>v. taking (mtu_create v))"

definition write_lanes :: "lane_configuration \<Rightarrow> writer \<Rightarrow> writer" where
  "write_lanes l = write_all [write_u32 (lane_count l), write_u64 (lane_rate l)]"

definition read_lanes :: "lane_configuration plain_reader" where
  "read_lanes = reading read_u32 (\<lambda>lanes. reading read_speed (\<lambda>per_lane. taking (lanes_create lanes per_lane)))"

definition write_speed_setting :: "speed_setting \<Rightarrow> writer \<Rightarrow> writer" where
  "write_speed_setting s = write_all [write_enum all_speed_selection (ss_selection s), write_u64 (ss_rate s)]"

definition read_speed_setting :: "speed_setting plain_reader" where
  "read_speed_setting =
     reading (read_enum all_speed_selection) (\<lambda>selection. reading read_rate (\<lambda>rate.
       returning \<lparr>ss_selection = selection, ss_rate = rate\<rparr>))"

text \<open>The validation at the end of a reader.\<close>

definition accepting :: "('a \<Rightarrow> bool) \<Rightarrow> 'a \<Rightarrow> 'a plain_reader" where
  "accepting valid x = requiring (valid x) () (returning x)"

lemma codec_accepting: "x = y \<Longrightarrow> valid y \<Longrightarrow> codec (write_all []) (accepting valid x) y"
  by (simp add: accepting_def codec_requiring codec_end)

text \<open>What the classes of the code can hold.\<close>

definition speed_wf :: "port_speed \<Rightarrow> bool" where
  "speed_wf s \<longleftrightarrow> s = 0 \<or> speed_from_bits_per_second s = Some s"

definition mtu_wf :: "mtu \<Rightarrow> bool" where
  "mtu_wf m \<longleftrightarrow> m = 0 \<or> mtu_create m = Some m"

definition lanes_wf :: "lane_configuration \<Rightarrow> bool" where
  "lanes_wf l \<longleftrightarrow> l = no_lanes \<or>
     (speed_wf (lane_rate l) \<and> lanes_create (lane_count l) (lane_rate l) = Some l)"

lemma codec_taking: "x = Some y \<Longrightarrow> codec (write_all []) (taking x) y"
  by (simp add: taking_def codec_end)

lemma codec_strong_id [codecs]: "id_wf i \<Longrightarrow> codec (write_id i) read_strong_id i"
  unfolding write_id_def read_strong_id_def read_id_def
  by (rule codec_single, rule codec_then, rule codec_text)
    (auto simp: max_identifier_length_def id_wf_def id_parse_Some_iff intro: codec_end codec_taking)

lemma codec_speed [codecs]: "speed_wf s \<Longrightarrow> speed_valid s \<Longrightarrow> codec (write_u64 s) read_speed s"
  unfolding read_speed_def
  by (rule codec_single, rule codec_then, rule codec_words, rule codec_taking)
    (simp add: speed_wf_def speed_valid_def)

lemma codec_rate [codecs]: "speed_wf s \<Longrightarrow> codec (write_u64 s) read_rate s"
  unfolding read_rate_def
  by (rule codec_single, rule codec_then, rule codec_words)
    (auto simp: speed_wf_def intro: codec_end codec_taking)

lemma codec_mtu [codecs]: "mtu_wf m \<Longrightarrow> mtu_valid m \<Longrightarrow> codec (write_u32 m) read_mtu m"
  unfolding read_mtu_def
  by (rule codec_single, rule codec_then, rule codec_words, rule codec_taking)
    (simp add: mtu_wf_def mtu_valid_def)

lemma codec_lanes [codecs]:
  assumes "lanes_wf l" "lanes_valid l"
  shows "codec (write_lanes l) read_lanes l"
proof -
  have rate: "speed_wf (lane_rate l)" "speed_valid (lane_rate l)"
    and create: "lanes_create (lane_count l) (lane_rate l) = Some l"
    using assms by (auto simp: lanes_wf_def lanes_valid_def no_lanes_def)
  show ?thesis
    unfolding write_lanes_def read_lanes_def
    by (rule codec_then [OF codec_words(3)], rule codec_then [OF codec_speed [OF rate]])
      (rule codec_taking [OF create])
qed

lemma codec_enums [codecs]:
  "codec (write_enum all_speed_selection a1) (read_enum all_speed_selection) a1"
  "codec (write_enum all_provenance_kind a2) (read_enum all_provenance_kind) a2"
  "codec (write_enum all_capability_certainty a3) (read_enum all_capability_certainty) a3"
  "codec (write_enum all_fec_mode a4) (read_enum all_fec_mode) a4"
  "codec (write_enum all_autoneg_policy a5) (read_enum all_autoneg_policy) a5"
  "codec (write_enum all_pause_mode a6) (read_enum all_pause_mode) a6"
  "codec (write_enum all_protocol_family a7) (read_enum all_protocol_family) a7"
  "codec (write_enum all_duplex_mode a8) (read_enum all_duplex_mode) a8"
  "codec (write_enum all_administrative_state a9) (read_enum all_administrative_state) a9"
  "codec (write_enum all_port_mode a10) (read_enum all_port_mode) a10"
  "codec (write_enum all_breakout_mode a11) (read_enum all_breakout_mode) a11"
  "codec (write_enum all_port_owner_kind a12) (read_enum all_port_owner_kind) a12"
  "codec (write_enum all_port_lifecycle a13) (read_enum all_port_lifecycle) a13"
  "codec (write_enum all_applied_outcome a14) (read_enum all_applied_outcome) a14"
  "codec (write_enum all_drift_state a15) (read_enum all_drift_state) a15"
  by (rule codec_enum,
      rule speed_selection_text.complete provenance_kind_text.complete
      capability_certainty_text.complete fec_mode_text.complete autoneg_policy_text.complete
      pause_mode_text.complete protocol_family_text.complete duplex_mode_text.complete
      administrative_state_text.complete port_mode_text.complete breakout_mode_text.complete
      port_owner_kind_text.complete port_lifecycle_text.complete applied_outcome_text.complete
      drift_state_text.complete,
      simp add: all_speed_selection_def all_provenance_kind_def all_capability_certainty_def
      all_fec_mode_def all_autoneg_policy_def all_pause_mode_def all_protocol_family_def
      all_duplex_mode_def all_administrative_state_def all_port_mode_def all_breakout_mode_def
      all_port_owner_kind_def all_port_lifecycle_def all_applied_outcome_def all_drift_state_def)+

lemma codec_speed_setting [codecs]:
  "speed_wf (ss_rate s) \<Longrightarrow> codec (write_speed_setting s) read_speed_setting s"
  unfolding write_speed_setting_def read_speed_setting_def
  by (rule codec_then codecs codec_end | simp; fail)+

text \<open>Every text of the model is bounded far below the range of its length prefix.\<close>

lemma codec_texts [codecs]:
  "codec (write_text max_name_length s) (read_text max_name_length) s"
  "codec (write_text max_description_length t) (read_text max_description_length) t"
  by (rule codec_text; simp add: max_name_length_def max_description_length_def)+

section \<open>Provenance\<close>

definition write_provenance :: "provenance \<Rightarrow> writer \<Rightarrow> writer" where
  "write_provenance p = write_all
     [write_enum all_provenance_kind (pv_kind p), write_text max_name_length (pv_source p),
      write_id (pv_publisher p), write_id (pv_boot p), write_u64 (pv_epoch p), write_id (pv_attempt p)]"

definition read_provenance :: "provenance plain_reader" where
  "read_provenance =
     reading (read_enum all_provenance_kind) (\<lambda>kind.
     reading (read_text max_name_length) (\<lambda>source.
     reading read_strong_id (\<lambda>publisher.
     reading read_strong_id (\<lambda>boot.
     reading read_u64 (\<lambda>epoch.
     reading read_strong_id (\<lambda>attempt.
       returning \<lparr>pv_kind = kind, pv_source = source, pv_publisher = publisher, pv_boot = boot,
                  pv_epoch = epoch, pv_attempt = attempt\<rparr>))))))"

definition provenance_wf :: "provenance \<Rightarrow> bool" where
  "provenance_wf p \<longleftrightarrow> id_wf (pv_publisher p) \<and> id_wf (pv_boot p) \<and> id_wf (pv_attempt p)"

lemma codec_provenance [codecs]: "provenance_wf p \<Longrightarrow> codec (write_provenance p) read_provenance p"
  unfolding write_provenance_def read_provenance_def
  by (rule codec_then codecs codec_end | simp add: provenance_wf_def; fail)+

section \<open>Capabilities\<close>

definition write_capabilities :: "port_capabilities \<Rightarrow> writer \<Rightarrow> writer" where
  "write_capabilities c = write_all
     [write_enum all_capability_certainty (cap_certainty c),
      write_list write_u64 (cap_supported_speeds c),
      write_list write_u32 (cap_lane_modes c),
      write_u32 (cap_max_lanes c),
      write_boolean (cap_breakout_supported c),
      write_u32 (cap_max_breakout_children c),
      write_list (write_enum all_fec_mode) (cap_fec_modes c),
      write_list (write_enum all_autoneg_policy) (cap_autoneg_modes c),
      write_list (write_enum all_pause_mode) (cap_pause_modes c),
      write_list (write_enum all_protocol_family) (cap_protocol_families c),
      write_u32 (cap_mtu_min c),
      write_u32 (cap_mtu_max c),
      write_enum all_duplex_mode (cap_duplex c),
      write_boolean (cap_logical_interface_supported c),
      write_u32 (cap_max_queue_count c),
      write_boolean (cap_transceiver_required c),
      write_text max_name_length (cap_transceiver_class c)]"

definition read_capabilities :: "port_capabilities plain_reader" where
  "read_capabilities =
     reading (read_enum all_capability_certainty) (\<lambda>certainty.
     reading (read_list max_capability_entries read_speed) (\<lambda>speeds.
     reading (read_list max_mode_entries read_u32) (\<lambda>lane_modes.
     reading read_u32 (\<lambda>lane_bound.
     reading read_boolean (\<lambda>breakout_supported.
     reading read_u32 (\<lambda>children.
     reading (read_list max_mode_entries (read_enum all_fec_mode)) (\<lambda>fec_modes.
     reading (read_list max_mode_entries (read_enum all_autoneg_policy)) (\<lambda>autoneg_modes.
     reading (read_list max_mode_entries (read_enum all_pause_mode)) (\<lambda>pause_modes.
     reading (read_list max_mode_entries (read_enum all_protocol_family)) (\<lambda>families.
     reading read_u32 (\<lambda>mtu_min.
     reading read_u32 (\<lambda>mtu_max.
     reading (read_enum all_duplex_mode) (\<lambda>duplex.
     reading read_boolean (\<lambda>logical.
     reading read_u32 (\<lambda>queues.
     reading read_boolean (\<lambda>transceiver.
     reading (read_text max_name_length) (\<lambda>transceiver_class.
       accepting (\<lambda>x. capabilities_validate x = None)
         \<lparr>cap_certainty = certainty, cap_supported_speeds = speeds,
           cap_lane_modes = lane_modes, cap_max_lanes = lane_bound,
           cap_breakout_supported = breakout_supported,
           cap_max_breakout_children = children, cap_fec_modes = fec_modes,
           cap_autoneg_modes = autoneg_modes, cap_pause_modes = pause_modes,
           cap_protocol_families = families, cap_mtu_min = mtu_min, cap_mtu_max = mtu_max,
           cap_duplex = duplex, cap_logical_interface_supported = logical,
           cap_max_queue_count = queues, cap_transceiver_required = transceiver,
           cap_transceiver_class = transceiver_class\<rparr>)))))))))))))))))"

definition write_capability_binding :: "capability_binding \<Rightarrow> writer \<Rightarrow> writer" where
  "write_capability_binding b = write_all
     [write_boolean (cb_present b),
      write_u64 (cb_generation b),
      write_u64 (cb_evidence_generation b),
      write_id (cb_evidence b),
      write_text max_name_length (cb_source b),
      write_capabilities (cb_capabilities b)]"

definition read_capability_binding :: "capability_binding plain_reader" where
  "read_capability_binding =
     reading read_boolean (\<lambda>present.
     reading read_u64 (\<lambda>generation.
     reading read_u64 (\<lambda>evidence_generation.
     reading read_strong_id (\<lambda>evidence.
     reading (read_text max_name_length) (\<lambda>source.
     reading read_capabilities (\<lambda>capabilities.
       accepting binding_valid
         \<lparr>cb_capabilities = capabilities, cb_generation = generation,
           cb_evidence_generation = evidence_generation, cb_evidence = evidence,
           cb_source = source, cb_present = present\<rparr>))))))"

section \<open>Configurations\<close>

definition write_aggregation :: "aggregation_membership \<Rightarrow> writer \<Rightarrow> writer" where
  "write_aggregation a = write_all
     [write_boolean (ag_member a),
      write_id (ag_aggregate a),
      write_u64 (ag_generation a),
      write_boolean (ag_participation a)]"

definition read_aggregation :: "aggregation_membership plain_reader" where
  "read_aggregation =
     reading read_boolean (\<lambda>in_aggregate.
     reading read_strong_id (\<lambda>aggregate.
     reading read_u64 (\<lambda>generation.
     reading read_boolean (\<lambda>participation.
       returning \<lparr>ag_member = in_aggregate, ag_aggregate = aggregate, ag_generation = generation,
           ag_participation = participation\<rparr>))))"

definition write_profile_binding :: "profile_binding \<Rightarrow> writer \<Rightarrow> writer" where
  "write_profile_binding b = write_all
     [write_boolean (pb_bound b),
      write_id (pb_id b),
      write_u64 (pb_generation b)]"

definition read_profile_binding :: "profile_binding plain_reader" where
  "read_profile_binding =
     reading read_boolean (\<lambda>bound.
     reading read_strong_id (\<lambda>profile.
     reading read_u64 (\<lambda>generation.
       returning \<lparr>pb_bound = bound, pb_id = profile, pb_generation = generation\<rparr>)))"

definition write_configuration :: "port_configuration \<Rightarrow> writer \<Rightarrow> writer" where
  "write_configuration c = write_all
     [write_id (pc_record c),
      write_id (pc_port c),
      write_id (pc_parent_device c),
      write_u64 (pc_device_generation c),
      write_u64 (pc_topology_generation c),
      write_u64 (pc_generation c),
      write_enum all_administrative_state (pc_administrative c),
      write_enum all_port_mode (pc_mode c),
      write_enum all_protocol_family (pc_protocol c),
      write_speed_setting (pc_speed c),
      write_enum all_duplex_mode (pc_duplex c),
      write_u32 (pc_mtu c),
      write_lanes (pc_lanes c),
      write_enum all_breakout_mode (pc_breakout c),
      write_enum all_autoneg_policy (pc_autoneg c),
      write_enum all_fec_mode (pc_fec c),
      write_enum all_pause_mode (pc_pause c),
      write_aggregation (pc_aggregation c),
      write_profile_binding (pc_profile c),
      write_text max_name_length (pc_role c),
      write_id (pc_logical_identity c),
      write_id (pc_derived_from c),
      write_u32 (pc_child_index c),
      write_provenance (pc_provenance c),
      write_u64 (pc_capability_generation c),
      write_u64 (pc_evidence_generation c)]"

definition read_configuration :: "port_configuration plain_reader" where
  "read_configuration =
     reading read_strong_id (\<lambda>record_id.
     reading read_strong_id (\<lambda>port.
     reading read_strong_id (\<lambda>parent_device.
     reading read_u64 (\<lambda>device_generation.
     reading read_u64 (\<lambda>topology_generation.
     reading read_u64 (\<lambda>generation.
     reading (read_enum all_administrative_state) (\<lambda>administrative.
     reading (read_enum all_port_mode) (\<lambda>mode.
     reading (read_enum all_protocol_family) (\<lambda>protocol.
     reading read_speed_setting (\<lambda>speed.
     reading (read_enum all_duplex_mode) (\<lambda>duplex.
     reading read_mtu (\<lambda>mtu.
     reading read_lanes (\<lambda>lanes.
     reading (read_enum all_breakout_mode) (\<lambda>breakout.
     reading (read_enum all_autoneg_policy) (\<lambda>autoneg.
     reading (read_enum all_fec_mode) (\<lambda>fec.
     reading (read_enum all_pause_mode) (\<lambda>pause.
     reading read_aggregation (\<lambda>aggregation.
     reading read_profile_binding (\<lambda>profile.
     reading (read_text max_name_length) (\<lambda>role.
     reading read_strong_id (\<lambda>logical_identity.
     reading read_strong_id (\<lambda>parent.
     reading read_u32 (\<lambda>child_index.
     reading read_provenance (\<lambda>provenance.
     reading read_u64 (\<lambda>capability_generation.
     reading read_u64 (\<lambda>evidence_generation.
       returning \<lparr>pc_record = record_id, pc_port = port, pc_parent_device = parent_device,
           pc_device_generation = device_generation,
           pc_topology_generation = topology_generation, pc_generation = generation,
           pc_administrative = administrative, pc_mode = mode, pc_protocol = protocol,
           pc_speed = speed, pc_duplex = duplex, pc_mtu = mtu, pc_lanes = lanes,
           pc_breakout = breakout, pc_autoneg = autoneg, pc_fec = fec, pc_pause = pause,
           pc_aggregation = aggregation, pc_profile = profile, pc_role = role,
           pc_logical_identity = logical_identity, pc_derived_from = parent,
           pc_child_index = child_index, pc_provenance = provenance,
           pc_capability_generation = capability_generation,
           pc_evidence_generation = evidence_generation\<rparr>))))))))))))))))))))))))))"

section \<open>Ownership, evidence and generations\<close>

definition write_ownership :: "port_ownership \<Rightarrow> writer \<Rightarrow> writer" where
  "write_ownership w = write_all
     [write_id (ow_id w),
      write_enum all_port_owner_kind (ow_kind w),
      write_id (ow_owner w),
      write_u64 (ow_generation w),
      write_id (ow_publisher w),
      write_id (ow_boot w),
      write_u64 (ow_epoch w),
      write_boolean (ow_exclusive w)]"

definition read_ownership :: "port_ownership plain_reader" where
  "read_ownership =
     reading read_strong_id (\<lambda>identity.
     reading (read_enum all_port_owner_kind) (\<lambda>kind.
     reading read_strong_id (\<lambda>owner.
     reading read_u64 (\<lambda>generation.
     reading read_strong_id (\<lambda>publisher.
     reading read_strong_id (\<lambda>boot.
     reading read_u64 (\<lambda>epoch.
     reading read_boolean (\<lambda>exclusive.
       accepting ownership_valid
         \<lparr>ow_id = identity, ow_kind = kind, ow_owner = owner, ow_generation = generation,
           ow_publisher = publisher, ow_boot = boot, ow_epoch = epoch,
           ow_exclusive = exclusive\<rparr>))))))))"

definition write_applied :: "applied_evidence \<Rightarrow> writer \<Rightarrow> writer" where
  "write_applied e = write_all
     [write_enum all_applied_outcome (ae_outcome e),
      write_u64 (ae_generation e),
      write_u64 (ae_evidence_generation e),
      write_text max_name_length (ae_source e),
      write_boolean (ae_verified e)]"

definition read_applied :: "applied_evidence plain_reader" where
  "read_applied =
     reading (read_enum all_applied_outcome) (\<lambda>applied.
     reading read_u64 (\<lambda>generation.
     reading read_u64 (\<lambda>evidence_generation.
     reading (read_text max_name_length) (\<lambda>source.
     reading read_boolean (\<lambda>verified.
       returning \<lparr>ae_outcome = applied, ae_generation = generation,
           ae_evidence_generation = evidence_generation, ae_source = source,
           ae_verified = verified\<rparr>)))))"

definition write_generations :: "generation_vector \<Rightarrow> writer \<Rightarrow> writer" where
  "write_generations g = write_all
     [write_u64 (gv_configuration g),
      write_u64 (gv_administrative g),
      write_u64 (gv_ownership g),
      write_u64 (gv_capability g),
      write_u64 (gv_topology g),
      write_u64 (gv_device g),
      write_u64 (gv_lifecycle g),
      write_u64 (gv_evidence g)]"

definition read_generations :: "generation_vector plain_reader" where
  "read_generations =
     reading read_u64 (\<lambda>configuration.
     reading read_u64 (\<lambda>administrative.
     reading read_u64 (\<lambda>ownership.
     reading read_u64 (\<lambda>capability.
     reading read_u64 (\<lambda>topology.
     reading read_u64 (\<lambda>device.
     reading read_u64 (\<lambda>lifecycle.
     reading read_u64 (\<lambda>evidence.
       returning \<lparr>gv_configuration = configuration, gv_administrative = administrative,
           gv_ownership = ownership, gv_capability = capability, gv_topology = topology,
           gv_device = device, gv_lifecycle = lifecycle, gv_evidence = evidence\<rparr>))))))))"

definition write_authority :: "authority_context \<Rightarrow> writer \<Rightarrow> writer" where
  "write_authority a = write_all
     [write_u64 (au_epoch a),
      write_id (au_publisher a),
      write_id (au_boot a),
      write_id (au_ownership a),
      write_u64 (au_ownership_generation a),
      write_u64 (au_expected_configuration a),
      write_u64 (au_expected_capability a),
      write_u64 (au_expected_topology a),
      write_u64 (au_expected_device a),
      write_id (au_attempt a)]"

definition read_authority :: "authority_context plain_reader" where
  "read_authority =
     reading read_u64 (\<lambda>epoch.
     reading read_strong_id (\<lambda>publisher.
     reading read_strong_id (\<lambda>boot.
     reading read_strong_id (\<lambda>ownership.
     reading read_u64 (\<lambda>ownership_generation.
     reading read_u64 (\<lambda>expected_configuration.
     reading read_u64 (\<lambda>expected_capability.
     reading read_u64 (\<lambda>expected_topology.
     reading read_u64 (\<lambda>expected_device.
     reading read_strong_id (\<lambda>attempt.
       returning \<lparr>au_epoch = epoch, au_publisher = publisher, au_boot = boot,
           au_ownership = ownership, au_ownership_generation = ownership_generation,
           au_expected_configuration = expected_configuration,
           au_expected_capability = expected_capability,
           au_expected_topology = expected_topology, au_expected_device = expected_device,
           au_attempt = attempt\<rparr>))))))))))"

definition write_last_mutation :: "last_mutation_record \<Rightarrow> writer \<Rightarrow> writer" where
  "write_last_mutation m = write_all
     [write_id (lm_attempt m),
      write_u64 (lm_payload_digest m),
      write_u64 (lm_result_generation m)]"

definition read_last_mutation :: "last_mutation_record plain_reader" where
  "read_last_mutation =
     reading read_strong_id (\<lambda>attempt.
     reading read_u64 (\<lambda>payload.
     reading read_u64 (\<lambda>result.
       returning \<lparr>lm_attempt = attempt, lm_payload_digest = payload, lm_result_generation = result\<rparr>)))"

section \<open>Records\<close>

definition write_record :: "port_record \<Rightarrow> writer \<Rightarrow> writer" where
  "write_record r = write_all
     [write_id (pr_port r),
      write_id (pr_parent_device r),
      write_enum all_port_lifecycle (pr_lifecycle r),
      write_option write_configuration (pr_configuration r),
      write_option write_ownership (pr_ownership r),
      write_capability_binding (pr_capability r),
      write_applied (pr_applied r),
      write_enum all_drift_state (pr_drift r),
      write_generations (pr_generations r),
      write_provenance (pr_provenance r),
      write_last_mutation (pr_last_mutation r),
      write_text max_name_length (pr_status_reason r),
      write_text max_description_length (pr_status_detail r)]"

definition read_record :: "port_record plain_reader" where
  "read_record =
     reading read_strong_id (\<lambda>port.
     reading read_strong_id (\<lambda>parent_device.
     reading (read_enum all_port_lifecycle) (\<lambda>lifecycle.
     reading (read_option read_configuration) (\<lambda>configuration.
     reading (read_option read_ownership) (\<lambda>ownership.
     reading read_capability_binding (\<lambda>capability.
     reading read_applied (\<lambda>applied.
     reading (read_enum all_drift_state) (\<lambda>drift.
     reading read_generations (\<lambda>generations.
     reading read_provenance (\<lambda>provenance.
     reading read_last_mutation (\<lambda>last_mutation.
     reading (read_text max_name_length) (\<lambda>status_reason.
     reading (read_text max_description_length) (\<lambda>status_detail.
       accepting (\<lambda>x. record_validate x = None)
         \<lparr>pr_port = port, pr_parent_device = parent_device, pr_lifecycle = lifecycle,
           pr_configuration = configuration, pr_ownership = ownership,
           pr_capability = capability, pr_applied = applied, pr_drift = drift,
           pr_generations = generations, pr_provenance = provenance,
           pr_last_mutation = last_mutation, pr_status_reason = status_reason,
           pr_status_detail = status_detail\<rparr>)))))))))))))"

section \<open>Profiles\<close>

text \<open>An MTU is read only where the profile specifies one; otherwise the field must be zero.\<close>

definition read_profile_mtu :: "bool \<Rightarrow> mtu plain_reader" where
  "read_profile_mtu specified =
     reading read_u32 (\<lambda>v. if specified then taking (mtu_create v)
       else if v \<noteq> 0 then failing () else returning 0)"

definition write_profile_configuration :: "profile_configuration \<Rightarrow> writer \<Rightarrow> writer" where
  "write_profile_configuration p = write_all
     [write_boolean (pf_specifies_speed p),
      write_speed_setting (pf_speed p),
      write_boolean (pf_specifies_mtu p),
      write_u32 (pf_mtu p),
      write_boolean (pf_specifies_duplex p),
      write_enum all_duplex_mode (pf_duplex p),
      write_boolean (pf_specifies_autoneg p),
      write_enum all_autoneg_policy (pf_autoneg p),
      write_boolean (pf_specifies_fec p),
      write_enum all_fec_mode (pf_fec p),
      write_boolean (pf_specifies_pause p),
      write_enum all_pause_mode (pf_pause p),
      write_boolean (pf_specifies_breakout p),
      write_enum all_breakout_mode (pf_breakout p),
      write_boolean (pf_specifies_mode p),
      write_enum all_port_mode (pf_mode p),
      write_boolean (pf_specifies_protocol p),
      write_enum all_protocol_family (pf_protocol p),
      write_boolean (pf_specifies_aggregation p),
      write_boolean (pf_aggregate_participation p),
      write_boolean (pf_specifies_role p),
      write_text max_name_length (pf_role p)]"

definition read_profile_configuration :: "profile_configuration plain_reader" where
  "read_profile_configuration =
     reading read_boolean (\<lambda>has_speed.
     reading read_speed_setting (\<lambda>speed.
     reading read_boolean (\<lambda>has_mtu.
     reading (read_profile_mtu has_mtu) (\<lambda>mtu.
     reading read_boolean (\<lambda>has_duplex.
     reading (read_enum all_duplex_mode) (\<lambda>duplex.
     reading read_boolean (\<lambda>has_autoneg.
     reading (read_enum all_autoneg_policy) (\<lambda>autoneg.
     reading read_boolean (\<lambda>has_fec.
     reading (read_enum all_fec_mode) (\<lambda>fec.
     reading read_boolean (\<lambda>has_pause.
     reading (read_enum all_pause_mode) (\<lambda>pause.
     reading read_boolean (\<lambda>has_breakout.
     reading (read_enum all_breakout_mode) (\<lambda>breakout.
     reading read_boolean (\<lambda>has_mode.
     reading (read_enum all_port_mode) (\<lambda>mode.
     reading read_boolean (\<lambda>has_protocol.
     reading (read_enum all_protocol_family) (\<lambda>protocol.
     reading read_boolean (\<lambda>has_aggregation.
     reading read_boolean (\<lambda>participation.
     reading read_boolean (\<lambda>has_role.
     reading (read_text max_name_length) (\<lambda>role.
       accepting (\<lambda>x. profile_configuration_validate x = None)
         \<lparr>pf_specifies_speed = has_speed, pf_speed = speed, pf_specifies_mtu = has_mtu,
           pf_mtu = mtu, pf_specifies_duplex = has_duplex, pf_duplex = duplex,
           pf_specifies_autoneg = has_autoneg, pf_autoneg = autoneg,
           pf_specifies_fec = has_fec, pf_fec = fec, pf_specifies_pause = has_pause,
           pf_pause = pause, pf_specifies_breakout = has_breakout, pf_breakout = breakout,
           pf_specifies_mode = has_mode, pf_mode = mode,
           pf_specifies_protocol = has_protocol, pf_protocol = protocol,
           pf_specifies_aggregation = has_aggregation,
           pf_aggregate_participation = participation, pf_specifies_role = has_role,
           pf_role = role\<rparr>))))))))))))))))))))))"

definition write_profile :: "port_profile \<Rightarrow> writer \<Rightarrow> writer" where
  "write_profile p = write_all
     [write_id (pp_id p),
      write_u64 (pp_generation p),
      write_text max_name_length (pp_name p),
      write_text max_description_length (pp_description p),
      write_profile_configuration (pp_configuration p),
      write_provenance (pp_provenance p)]"

definition read_profile :: "port_profile plain_reader" where
  "read_profile =
     reading read_strong_id (\<lambda>identity.
     reading read_u64 (\<lambda>generation.
     reading (read_text max_name_length) (\<lambda>profile_name.
     reading (read_text max_description_length) (\<lambda>description.
     reading read_profile_configuration (\<lambda>configuration.
     reading read_provenance (\<lambda>provenance.
       accepting (\<lambda>x. profile_validate x = None)
         \<lparr>pp_id = identity, pp_generation = generation, pp_name = profile_name,
           pp_description = description, pp_configuration = configuration,
           pp_provenance = provenance\<rparr>))))))"

section \<open>Devices and publishers\<close>

definition write_device :: "device_binding \<Rightarrow> writer \<Rightarrow> writer" where
  "write_device d = write_all
     [write_id (dv_device d),
      write_u64 (dv_generation d),
      write_text max_name_length (dv_source d)]"

definition read_device :: "device_binding plain_reader" where
  "read_device =
     reading read_strong_id (\<lambda>device.
     reading read_u64 (\<lambda>generation.
     reading (read_text max_name_length) (\<lambda>source.
       accepting (\<lambda>x. id_valid (dv_device x) \<and> gen_valid (dv_generation x))
         \<lparr>dv_device = device, dv_generation = generation, dv_source = source\<rparr>)))"

definition write_publisher :: "publisher_record \<Rightarrow> writer \<Rightarrow> writer" where
  "write_publisher p = write_all
     [write_id (pub_publisher p),
      write_id (pub_boot p),
      write_u64 (pub_epoch p),
      write_boolean (pub_fenced p)]"

definition read_publisher :: "publisher_record plain_reader" where
  "read_publisher =
     reading read_strong_id (\<lambda>publisher.
     reading read_strong_id (\<lambda>boot.
     reading read_u64 (\<lambda>epoch.
     reading read_boolean (\<lambda>fenced.
       accepting (\<lambda>x. id_valid (pub_publisher x) \<and> id_valid (pub_boot x))
         \<lparr>pub_publisher = publisher, pub_boot = boot, pub_epoch = epoch,
           pub_fenced = fenced\<rparr>))))"

section \<open>Round trips\<close>

text \<open>No reader of an element accepts the empty input, so every element takes at least one byte.\<close>

lemma reading_Inl: "r bs = Inl e \<Longrightarrow> reading r k bs = Inl e"
  by (simp add: reading_def)

lemma read_words_Nil [simp]:
  "read_u8 [] = Inl ()" "read_u16 [] = Inl ()" "read_u32 [] = Inl ()" "read_u64 [] = Inl ()"
  by (simp_all add: read_u8_def read_u16_def read_u32_def read_u64_def read_word_def reading_Inl read_raw_def)

lemma read_fields_Nil [simp]:
  "read_enum es [] = Inl ()" "read_speed [] = Inl ()" "read_boolean [] = Inl ()" "read_text n [] = Inl ()"
  by (simp_all add: read_enum_def read_speed_def read_boolean_def read_text_def reading_Inl)

lemma read_strong_id_Nil [simp]: "read_strong_id [] = Inl ()"
  by (simp add: read_strong_id_def read_id_def reading_Inl)

lemma read_values_Nil [simp]:
  "read_record [] = Inl ()" "read_profile [] = Inl ()" "read_device [] = Inl ()" "read_publisher [] = Inl ()"
  by (simp_all add: read_record_def read_profile_def read_device_def read_publisher_def reading_Inl)

definition capabilities_wf :: "port_capabilities \<Rightarrow> bool" where
  "capabilities_wf c \<longleftrightarrow> (\<forall>s \<in> set (cap_supported_speeds c). speed_wf s)"

lemma capabilities_validate_bounds:
  assumes "capabilities_validate c = None"
  shows "length (cap_supported_speeds c) \<le> 64" "length (cap_lane_modes c) \<le> 32"
    "length (cap_fec_modes c) \<le> 32" "length (cap_autoneg_modes c) \<le> 32"
    "length (cap_pause_modes c) \<le> 32" "length (cap_protocol_families c) \<le> 32"
    "\<forall>s \<in> set (cap_supported_speeds c). speed_valid s"
  using assms
  by (auto simp: capabilities_validate_def max_capability_entries_def max_mode_entries_def
      list_ex_iff split: if_splits)

lemma codec_speeds:
  assumes "length xs \<le> 64" "\<forall>s \<in> set xs. speed_valid s" "\<forall>s \<in> set xs. speed_wf s"
  shows "codec (write_list write_u64 xs) (read_list max_capability_entries read_speed) xs"
  by (rule codec_list) (use assms in \<open>simp_all add: max_capability_entries_def codec_speed\<close>)

lemma codec_modes:
  assumes "length xs \<le> 32" "\<And>x. codec (f x) r x" "\<forall>y. r [] \<noteq> Inr y"
  shows "codec (write_list f xs) (read_list max_mode_entries r) xs"
  by (rule codec_list) (use assms in \<open>simp_all add: max_mode_entries_def\<close>)

lemma codec_capabilities [codecs]:
  assumes "capabilities_wf c" "capabilities_validate c = None"
  shows "codec (write_capabilities c) read_capabilities c"
proof -
  note bounds = capabilities_validate_bounds [OF assms(2)]
  have "\<forall>s \<in> set (cap_supported_speeds c). speed_wf s" using assms(1) by (simp add: capabilities_wf_def)
  note lists = codec_speeds [OF bounds(1,7) this] codec_modes [OF bounds(2) codec_words(3)]
    codec_modes [OF bounds(3) codec_enums(4)] codec_modes [OF bounds(4) codec_enums(5)]
    codec_modes [OF bounds(5) codec_enums(6)] codec_modes [OF bounds(6) codec_enums(7)]
  show ?thesis
    unfolding write_capabilities_def read_capabilities_def
    by (rule codec_then lists codec_enums codec_words codec_boolean codec_texts codec_accepting
        | simp add: assms(2); fail)+
qed

definition binding_wf :: "capability_binding \<Rightarrow> bool" where
  "binding_wf b \<longleftrightarrow> id_wf (cb_evidence b) \<and> capabilities_wf (cb_capabilities b)"

lemma codec_binding [codecs]:
  "binding_wf b \<Longrightarrow> binding_valid b \<Longrightarrow> capabilities_validate (cb_capabilities b) = None \<Longrightarrow>
   codec (write_capability_binding b) read_capability_binding b"
  unfolding write_capability_binding_def read_capability_binding_def
  by (rule codec_then codecs codec_accepting | simp add: binding_wf_def; fail)+

lemma codec_aggregation [codecs]:
  "id_wf (ag_aggregate a) \<Longrightarrow> codec (write_aggregation a) read_aggregation a"
  unfolding write_aggregation_def read_aggregation_def
  by (rule codec_then codecs codec_end | simp; fail)+

lemma codec_profile_binding [codecs]:
  "id_wf (pb_id b) \<Longrightarrow> codec (write_profile_binding b) read_profile_binding b"
  unfolding write_profile_binding_def read_profile_binding_def
  by (rule codec_then codecs codec_end | simp; fail)+

text \<open>What the fields of a configuration can hold, and what the reader asks of it in addition.\<close>

definition configuration_wf :: "port_configuration \<Rightarrow> bool" where
  "configuration_wf c \<longleftrightarrow> id_wf (pc_record c) \<and> id_wf (pc_port c) \<and> id_wf (pc_parent_device c) \<and>
     speed_wf (ss_rate (pc_speed c)) \<and> mtu_wf (pc_mtu c) \<and> lanes_wf (pc_lanes c) \<and>
     id_wf (ag_aggregate (pc_aggregation c)) \<and> id_wf (pb_id (pc_profile c)) \<and>
     id_wf (pc_logical_identity c) \<and> id_wf (pc_derived_from c) \<and> provenance_wf (pc_provenance c)"

lemma codec_configuration [codecs]:
  "configuration_wf c \<Longrightarrow> mtu_valid (pc_mtu c) \<Longrightarrow> lanes_valid (pc_lanes c) \<Longrightarrow>
   codec (write_configuration c) read_configuration c"
  unfolding write_configuration_def read_configuration_def
  by (rule codec_then codecs codec_end | simp add: configuration_wf_def; fail)+

definition ownership_wf :: "port_ownership \<Rightarrow> bool" where
  "ownership_wf w \<longleftrightarrow> id_wf (ow_id w) \<and> id_wf (ow_owner w) \<and> id_wf (ow_publisher w) \<and> id_wf (ow_boot w)"

lemma codec_ownership [codecs]:
  "ownership_wf w \<Longrightarrow> ownership_valid w \<Longrightarrow> codec (write_ownership w) read_ownership w"
  unfolding write_ownership_def read_ownership_def
  by (rule codec_then codecs codec_accepting | simp add: ownership_wf_def; fail)+

lemma codec_applied [codecs]: "codec (write_applied e) read_applied e"
  unfolding write_applied_def read_applied_def
  by (rule codec_then codecs codec_end | simp; fail)+

lemma codec_generations [codecs]: "codec (write_generations g) read_generations g"
  unfolding write_generations_def read_generations_def
  by (rule codec_then codecs codec_end | simp; fail)+

definition authority_wf :: "authority_context \<Rightarrow> bool" where
  "authority_wf a \<longleftrightarrow> id_wf (au_publisher a) \<and> id_wf (au_boot a) \<and> id_wf (au_ownership a) \<and> id_wf (au_attempt a)"

lemma codec_authority [codecs]: "authority_wf a \<Longrightarrow> codec (write_authority a) read_authority a"
  unfolding write_authority_def read_authority_def
  by (rule codec_then codecs codec_end | simp add: authority_wf_def; fail)+

lemma codec_last_mutation [codecs]:
  "id_wf (lm_attempt m) \<Longrightarrow> codec (write_last_mutation m) read_last_mutation m"
  unfolding write_last_mutation_def read_last_mutation_def
  by (rule codec_then codecs codec_end | simp; fail)+

definition record_wf :: "port_record \<Rightarrow> bool" where
  "record_wf r \<longleftrightarrow> id_wf (pr_port r) \<and> id_wf (pr_parent_device r) \<and>
     (\<forall>c. pr_configuration r = Some c \<longrightarrow> configuration_wf c) \<and>
     (\<forall>w. pr_ownership r = Some w \<longrightarrow> ownership_wf w) \<and> binding_wf (pr_capability r) \<and>
     provenance_wf (pr_provenance r) \<and> id_wf (lm_attempt (pr_last_mutation r))"

text \<open>A record that validates carries a configuration and an owner that the readers accept.\<close>

lemma record_parts:
  assumes "record_validate r = None" "record_wf r"
  shows "pr_configuration r = Some c \<Longrightarrow> codec (write_configuration c) read_configuration c"
    "pr_ownership r = Some w \<Longrightarrow> codec (write_ownership w) read_ownership w"
    "binding_valid (pr_capability r)"
proof -
  have ok: "record_ok r" using assms(1) by (simp only: record_validate_ok)
  show "codec (write_configuration c) read_configuration c" if c: "pr_configuration r = Some c"
  proof (rule codec_configuration)
    have "configuration_validate c = None" using ok c by (simp add: record_ok_def)
    then show "mtu_valid (pc_mtu c)" "lanes_valid (pc_lanes c)"
      by (auto simp: configuration_validate_def split: if_splits)
    show "configuration_wf c" using assms(2) c by (simp add: record_wf_def)
  qed
  show "codec (write_ownership w) read_ownership w" if "pr_ownership r = Some w"
    by (rule codec_ownership) (use ok assms(2) that in \<open>simp_all add: record_ok_def record_wf_def\<close>)
  show "binding_valid (pr_capability r)" using ok by (simp add: record_ok_def)
qed

lemma codec_record [codecs]:
  assumes "record_wf r" "record_validate r = None"
    "capabilities_validate (cb_capabilities (pr_capability r)) = None"
  shows "codec (write_record r) read_record r"
proof -
  note parts = record_parts [OF assms(2,1)]
  have "codec (write_option write_configuration (pr_configuration r)) (read_option read_configuration) (pr_configuration r)"
    "codec (write_option write_ownership (pr_ownership r)) (read_option read_ownership) (pr_ownership r)"
    "codec (write_capability_binding (pr_capability r)) read_capability_binding (pr_capability r)"
    by (rule codec_option, rule parts(1), assumption) (rule codec_option, rule parts(2), assumption,
      rule codec_binding, use assms parts(3) in \<open>simp_all add: record_wf_def\<close>)
  note whole = this
  show ?thesis
    unfolding write_record_def read_record_def
    by (rule codec_then whole codec_enums codec_words codec_texts codec_strong_id codec_applied
        codec_generations codec_provenance codec_last_mutation codec_accepting
        | use assms in \<open>simp add: record_wf_def; fail\<close>)+
qed

definition profile_wf :: "port_profile \<Rightarrow> bool" where
  "profile_wf p \<longleftrightarrow> id_wf (pp_id p) \<and> speed_wf (ss_rate (pf_speed (pp_configuration p))) \<and>
     mtu_wf (pf_mtu (pp_configuration p)) \<and> provenance_wf (pp_provenance p)"

text \<open>The condition that the reader imposes and no validation of the code establishes.\<close>

definition mtu_recoverable :: "profile_configuration \<Rightarrow> bool" where
  "mtu_recoverable p \<longleftrightarrow> pf_specifies_mtu p \<or> pf_mtu p = 0"

lemma codec_profile_mtu [codecs]:
  "mtu_wf m \<Longrightarrow> (specified \<Longrightarrow> mtu_valid m) \<Longrightarrow> specified \<or> m = 0 \<Longrightarrow>
   codec (write_u32 m) (read_profile_mtu specified) m"
  unfolding read_profile_mtu_def
  by (rule codec_single, rule codec_then, rule codec_words)
    (auto simp: mtu_wf_def mtu_valid_def intro: codec_end codec_taking)

lemma codec_profile_configuration [codecs]:
  assumes "profile_configuration_validate p = None" "speed_wf (ss_rate (pf_speed p))" "mtu_wf (pf_mtu p)"
    "mtu_recoverable p"
  shows "codec (write_profile_configuration p) read_profile_configuration p"
proof -
  have "pf_specifies_mtu p \<Longrightarrow> mtu_valid (pf_mtu p)"
    using assms(1) by (auto simp: profile_configuration_validate_def split: if_splits)
  note mtu = codec_profile_mtu [OF assms(3) this assms(4) [unfolded mtu_recoverable_def]]
  show ?thesis
    unfolding write_profile_configuration_def read_profile_configuration_def
    by (rule codec_then codec_boolean mtu codec_speed_setting codec_enums codec_texts codec_accepting
        | use assms in \<open>simp; fail\<close>)+
qed

lemma codec_profile [codecs]:
  assumes "profile_wf p" "profile_validate p = None" "mtu_recoverable (pp_configuration p)"
  shows "codec (write_profile p) read_profile p"
proof -
  have "profile_configuration_validate (pp_configuration p) = None"
    using assms(2) by (auto simp: profile_validate_def split: if_splits option.splits)
  with assms(1,3) have "codec (write_profile_configuration (pp_configuration p)) read_profile_configuration (pp_configuration p)"
    by (simp add: codec_profile_configuration profile_wf_def)
  note whole = this
  show ?thesis
    unfolding write_profile_def read_profile_def
    by (rule codec_then whole codec_words codec_texts codec_strong_id codec_provenance codec_accepting
        | use assms in \<open>simp add: profile_wf_def; fail\<close>)+
qed

lemma codec_device [codecs]:
  "id_wf (dv_device d) \<Longrightarrow> id_valid (dv_device d) \<Longrightarrow> gen_valid (dv_generation d) \<Longrightarrow>
   codec (write_device d) read_device d"
  unfolding write_device_def read_device_def
  by (rule codec_then codecs codec_accepting | simp; fail)+

lemma codec_publisher [codecs]:
  "id_wf (pub_publisher p) \<Longrightarrow> id_wf (pub_boot p) \<Longrightarrow> id_valid (pub_publisher p) \<Longrightarrow> id_valid (pub_boot p) \<Longrightarrow>
   codec (write_publisher p) read_publisher p"
  unfolding write_publisher_def read_publisher_def
  by (rule codec_then codecs codec_accepting | simp; fail)+

end
