(* ===== verification/Crc.thy ===== *)
theory Crc
  imports Digest
begin

unbundle bit_operations_syntax

text \<open>
  CRC-32 of \<open>src/codec.cpp\<close>, the integrity check of frames and containers: a table of 256 entries
  and one lookup for each byte. The lemmas show that the table-driven step is eight steps of the
  bitwise division and that every step is injective, so that a change within one byte is always
  detected.
\<close>

definition crc_shift :: "u32 \<Rightarrow> u32" where
  "crc_shift v = (if v AND 1 \<noteq> 0 then 0xedb88320 XOR drop_bit 1 v else drop_bit 1 v)"

definition crc_table :: "u32 list" where
  "crc_table = map (\<lambda>i. (crc_shift ^^ 8) (of_nat i)) [0..<256]"

definition crc_step :: "u32 \<Rightarrow> char \<Rightarrow> u32" where
  "crc_step crc ch = (crc_table ! unat ((crc XOR of_nat (of_char ch)) AND 0xff)) XOR drop_bit 8 crc"

definition crc32 :: "string \<Rightarrow> u32" where
  "crc32 bytes = foldl crc_step 0xffffffff bytes XOR 0xffffffff"

section \<open>The table step is eight bitwise steps\<close>

text \<open>The reference: one byte is eight shifts of the register with the byte added.\<close>

definition crc_bitwise :: "u32 \<Rightarrow> char \<Rightarrow> u32" where
  "crc_bitwise crc ch = (crc_shift ^^ 8) (crc XOR of_nat (of_char ch))"

lemma crc_shift_eq: "crc_shift v = drop_bit 1 v XOR (if bit v 0 then 0xedb88320 else 0)"
  by (simp add: crc_shift_def and_one_eq xor.commute odd_iff_mod_2_eq_one bit_0)

lemma crc_shift_xor: "crc_shift (x XOR y) = crc_shift x XOR crc_shift y"
  by (simp add: crc_shift_eq drop_bit_xor bit_xor_iff xor.assoc xor.left_commute)

lemma crc_shifts_xor: "(crc_shift ^^ n) (x XOR y) = (crc_shift ^^ n) x XOR (crc_shift ^^ n) y"
  by (induction n) (simp_all add: crc_shift_xor)

lemma crc_shift_high: "\<not> bit v 0 \<Longrightarrow> crc_shift v = drop_bit 1 v"
  by (simp add: crc_shift_eq)

lemma crc_shifts_high: "(\<forall>i < n. \<not> bit v i) \<Longrightarrow> (crc_shift ^^ n) v = drop_bit n v"
proof (induction n)
  case (Suc n)
  then have "(crc_shift ^^ n) v = drop_bit n v" by simp
  moreover have "\<not> bit (drop_bit n v) 0" using Suc.prems by (simp add: bit_drop_bit_eq)
  ultimately show ?case by (simp add: crc_shift_high drop_bit_drop_bit add.commute)
qed simp

lemma crc_table_nth: "n < 256 \<Longrightarrow> crc_table ! n = (crc_shift ^^ 8) (of_nat n)"
  by (simp add: crc_table_def)

lemma low_byte: "unat (v AND 0xff :: u32) < 256"
proof -
  have "v AND 0xff \<le> 0xff" by (rule word_and_le1)
  then show ?thesis by (simp add: word_le_nat_alt)
qed

lemma high_bytes: "i < 8 \<Longrightarrow> \<not> bit (push_bit 8 w :: u32) i"
  by (simp add: bit_push_bit_iff)

lemma split_byte: "v = (v AND 0xff :: u32) XOR push_bit 8 (drop_bit 8 v)"
proof -
  have "v AND 0xff = take_bit 8 v"
    using take_bit_eq_mask [of 8 v] by (simp add: mask_eq_exp_minus_1)
  moreover have "v = take_bit 8 v XOR push_bit 8 (drop_bit 8 v)"
    by (rule bit_word_eqI) (auto simp: bit_simps)
  ultimately show ?thesis by simp
qed

text \<open>
  The table-driven step of the code equals the bitwise reference.
\<close>

lemma crc_step_bitwise: "crc_step crc ch = crc_bitwise crc ch"
proof -
  let ?b = "of_nat (of_char ch) :: u32"
  let ?z = "crc XOR ?b"
  have byte: "drop_bit 8 ?b = 0"
  proof -
    have "of_char ch < (256 :: nat)" by simp
    then have "take_bit 8 ?b = ?b"
      by (simp add: take_bit_of_nat take_bit_nat_eq_self)
    then have "drop_bit 8 (take_bit 8 ?b) = drop_bit 8 ?b" by simp
    then show ?thesis by (simp add: drop_bit_take_bit)
  qed
  have split: "?z = (?z AND 0xff) XOR push_bit 8 (drop_bit 8 ?z)"
    by (rule split_byte)
  have "drop_bit 8 (push_bit 8 (drop_bit 8 ?z)) = drop_bit 8 ?z"
    by (rule bit_word_eqI) (auto simp: bit_simps dest: bit_imp_le_length)
  then have "(crc_shift ^^ 8) (push_bit 8 (drop_bit 8 ?z)) = drop_bit 8 crc"
    using byte by (subst crc_shifts_high) (simp_all add: high_bytes drop_bit_xor)
  then have "crc_bitwise crc ch = (crc_shift ^^ 8) (?z AND 0xff) XOR drop_bit 8 crc"
    unfolding crc_bitwise_def by (subst split) (simp only: crc_shifts_xor)
  then show ?thesis
    by (simp add: crc_step_def crc_table_nth low_byte)
qed

section \<open>Every step is injective\<close>

lemma crc_shift_zero: "crc_shift v = 0 \<Longrightarrow> v = 0"
proof -
  assume zero: "crc_shift v = 0"
  have "\<not> bit v 0"
  proof
    assume odd: "bit v 0"
    then have "bit (crc_shift v) 31" by (auto simp: crc_shift_eq bit_xor_iff bit_drop_bit_eq dest: bit_imp_le_length)
    with zero show False by simp
  qed
  with zero have "drop_bit 1 v = 0" by (simp add: crc_shift_high)
  have "\<not> bit v n" for n
  proof (cases n)
    case 0
    with \<open>\<not> bit v 0\<close> show ?thesis by simp
  next
    case (Suc m)
    have "\<not> bit (drop_bit 1 v) m" using \<open>drop_bit 1 v = 0\<close> by simp
    with Suc show ?thesis by (simp add: bit_drop_bit_eq)
  qed
  then show "v = 0" by (simp add: bit_eq_iff)
qed

lemma xor_eq_zero: "x XOR y = 0 \<longleftrightarrow> x = (y :: u32)"
  by (auto simp: bit_eq_iff bit_xor_iff)

lemma crc_shifts_inject: "(crc_shift ^^ n) x = (crc_shift ^^ n) y \<longleftrightarrow> x = y"
proof
  assume "(crc_shift ^^ n) x = (crc_shift ^^ n) y"
  then have "(crc_shift ^^ n) (x XOR y) = 0" by (simp add: crc_shifts_xor)
  then have "x XOR y = 0"
    by (induction n) (auto dest: crc_shift_zero)
  then show "x = y" by (simp only: xor_eq_zero)
qed simp

lemma xor_cancel: "x XOR z = y XOR z \<longleftrightarrow> x = (y :: u32)" "z XOR x = z XOR y \<longleftrightarrow> x = y"
  by (auto simp: bit_eq_iff bit_xor_iff)

lemma crc_step_register: "crc_step x ch = crc_step y ch \<longleftrightarrow> x = y"
  by (simp add: crc_step_bitwise crc_bitwise_def crc_shifts_inject xor_cancel)

lemma byte_inject: "(of_nat (of_char a) :: u32) = of_nat (of_char b) \<longleftrightarrow> a = b"
proof
  assume "(of_nat (of_char a) :: u32) = of_nat (of_char b)"
  then have "unat (of_nat (of_char a) :: u32) = unat (of_nat (of_char b) :: u32)" by simp
  moreover have "of_char c < (2 :: nat) ^ 32" for c
    by (rule order.strict_trans [where b = 256]) simp_all
  ultimately have "of_char a = (of_char b :: nat)" by (simp add: unat_of_nat)
  then show "a = b" by simp
qed simp

lemma crc_step_byte: "crc_step x a = crc_step x b \<longleftrightarrow> a = b"
  by (simp only: crc_step_bitwise crc_bitwise_def crc_shifts_inject xor_cancel byte_inject)

lemma crc_fold_register: "foldl crc_step x bs = foldl crc_step y bs \<longleftrightarrow> x = y"
  by (induction bs arbitrary: x y) (simp_all add: crc_step_register)

text \<open>
  The checksum of the containers and frames is the bitwise CRC-32: the table lookup of
  every byte is eight shifts of the division register. Two byte strings that differ in exactly
  one byte never have the same checksum, so damage confined to one byte is always detected.
\<close>

theorem crc32_detects_byte_damage:
  "crc32 bytes = foldl crc_bitwise 0xffffffff bytes XOR 0xffffffff \<and>
   (crc32 (before @ [a] @ after) = crc32 (before @ [b] @ after) \<longleftrightarrow> a = b)"
proof
  have "crc_step = crc_bitwise" by (intro ext) (rule crc_step_bitwise)
  then show "crc32 bytes = foldl crc_bitwise 0xffffffff bytes XOR 0xffffffff"
    by (simp add: crc32_def)
  show "crc32 (before @ [a] @ after) = crc32 (before @ [b] @ after) \<longleftrightarrow> a = b"
    by (simp only: crc32_def xor_cancel foldl_append foldl_Cons foldl_Nil crc_fold_register crc_step_byte)
qed

end
