(* ===== verification/Container.thy ===== *)
theory Container
  imports Wire Crc
begin

text \<open>
  The durable container of \<open>src/persistence.cpp\<close>: a header of 32 bytes with magic, version, lengths
  and two checksums, and a payload of the whole persisted state. Encoding refuses a state that
  does not validate; decoding refuses everything that encoding does not produce.
\<close>

definition container_magic :: string where "container_magic = ''PORTFABC''"
definition persistence_format_version :: u32 where "persistence_format_version = 1"
definition container_header_size :: nat where "container_header_size = 32"
definition container_payload_limit :: nat where "container_payload_limit = 268435456"
definition max_persistence_bytes :: nat where "max_persistence_bytes = 536870912"
definition max_persisted_records :: nat where "max_persisted_records = 1000000"

section \<open>Encoding\<close>

text \<open>The validation of the elements of a list stops at the first that fails.\<close>

fun first_invalid :: "('a \<Rightarrow> check) \<Rightarrow> 'a list \<Rightarrow> check" where
  "first_invalid validate [] = None"
| "first_invalid validate (x # xs) =
     (case validate x of Some err \<Rightarrow> Some err | None \<Rightarrow> first_invalid validate xs)"

definition state_refusal :: "persisted_state \<Rightarrow> outcome option" where
  "state_refusal ps =
     (if max_persisted_records < length (ps_records ps)
      then Some (failure OC_PersistenceBoundsExceeded ''the record count exceeds the configured bound'')
      else case first_invalid record_validate (ps_records ps) of
        Some err \<Rightarrow> Some (failure OC_InvalidConfiguration (''a record is inconsistent: '' @ err))
      | None \<Rightarrow>
        if max_profiles < length (ps_profiles ps)
        then Some (failure OC_PersistenceBoundsExceeded ''the profile count exceeds the configured bound'')
        else case first_invalid profile_validate (ps_profiles ps) of
          Some err \<Rightarrow> Some (failure OC_InvalidProfile (''a profile is inconsistent: '' @ err))
        | None \<Rightarrow>
          if max_devices < length (ps_devices ps)
          then Some (failure OC_PersistenceBoundsExceeded ''the device count exceeds the configured bound'')
          else if max_publishers < length (ps_publishers ps)
          then Some (failure OC_PersistenceBoundsExceeded ''the publisher count exceeds the configured bound'')
          else None)"

definition write_state :: "persisted_state \<Rightarrow> writer \<Rightarrow> writer" where
  "write_state ps = write_all
     [write_id (ps_fabric ps), write_id (ps_site ps), write_u64 (ps_epoch ps),
      write_u64 (ps_engine_generation ps), write_u64 (ps_topology ps),
      write_list write_record (ps_records ps), write_list write_profile (ps_profiles ps),
      write_list write_device (ps_devices ps), write_list write_publisher (ps_publishers ps)]"

definition container_header :: "string \<Rightarrow> string" where
  "container_header payload =
     (let w = write_all [write_raw container_magic, write_u32 persistence_format_version,
                write_u32 (of_nat container_header_size), write_u64 (of_nat (length payload)),
                write_u32 (crc32 payload)] (open_writer container_header_size)
      in wr_out (write_u32 (crc32 (wr_out w)) w))"

definition encode_persisted_state :: "persisted_state \<Rightarrow> outcome \<times> string" where
  "encode_persisted_state ps =
     (case state_refusal ps of
        Some answer \<Rightarrow> (answer, [])
      | None \<Rightarrow>
        (let w = write_state ps (open_writer container_payload_limit)
         in if \<not> wr_ok w
            then (failure OC_PersistenceBoundsExceeded
                    ''the state does not fit in the configured container bound'', [])
            else (success ''state encoded'', container_header (wr_out w) @ wr_out w)))"

section \<open>Decoding\<close>

definition corrupt :: "string \<Rightarrow> outcome" where
  "corrupt m = failure OC_PersistenceCorruption m"

record container_fields =
  ch_version :: u32
  ch_header_size :: u32
  ch_payload_length :: u64
  ch_payload_crc :: u32
  ch_header_crc :: u32

definition read_header :: "container_fields plain_reader" where
  "read_header =
     reading (read_raw 8) (\<lambda>magic.
     reading read_u32 (\<lambda>version.
     reading read_u32 (\<lambda>header_size.
     reading read_u64 (\<lambda>payload_length.
     reading read_u32 (\<lambda>payload_crc.
     reading read_u32 (\<lambda>header_crc.
       returning \<lparr>ch_version = version, ch_header_size = header_size,
         ch_payload_length = payload_length, ch_payload_crc = payload_crc,
         ch_header_crc = header_crc\<rparr>))))))"

definition container_payload :: "string \<Rightarrow> outcome + string" where
  "container_payload bytes =
     (if length bytes < container_header_size
      then Inl (corrupt ''the container is shorter than its header'')
      else if take 8 bytes \<noteq> container_magic then Inl (corrupt ''the container magic does not match'')
      else
       (let header = take container_header_size bytes; payload = drop container_header_size bytes
        in case read_header header of
             Inl _ \<Rightarrow> Inl (corrupt ''the container header is truncated'')
           | Inr (h, _) \<Rightarrow>
               if unat (ch_header_size h) \<noteq> container_header_size
               then Inl (corrupt ''the container header size is not the expected size'')
               else if crc32 (take (container_header_size - 4) header) \<noteq> ch_header_crc h
               then Inl (corrupt ''the container header integrity check failed'')
               else if ch_version h \<noteq> persistence_format_version
               then Inl (failure OC_PersistenceVersionUnsupported
                      ''the container format version is not supported by this build'')
               else if max_persistence_bytes < unat (ch_payload_length h)
               then Inl (failure OC_PersistenceBoundsExceeded
                      ''the container payload exceeds the configured bound'')
               else if unat (ch_payload_length h) \<noteq> length bytes - container_header_size
               then Inl (corrupt ''the container payload length does not match the container size'')
               else if crc32 payload \<noteq> ch_payload_crc h
               then Inl (corrupt ''the container payload integrity check failed'')
               else Inr payload))"

text \<open>
  A section: a bounded count, then that many elements; an element whose key is already there is
  a duplicate.
\<close>

fun read_distinct :: "nat \<Rightarrow> 'a plain_reader \<Rightarrow> ('a \<Rightarrow> 'k) \<Rightarrow> outcome \<Rightarrow> outcome \<Rightarrow> 'a list \<Rightarrow>
    (outcome, 'a list) reader" where
  "read_distinct 0 r key bad duplicate acc = returning acc"
| "read_distinct (Suc n) r key bad duplicate acc =
     reading (labelled bad r) (\<lambda>x. requiring (list_all (\<lambda>y. key y \<noteq> key x) acc) duplicate
       (read_distinct n r key bad duplicate (acc @ [x])))"

definition read_section :: "nat \<Rightarrow> 'a plain_reader \<Rightarrow> ('a \<Rightarrow> 'k) \<Rightarrow> string \<Rightarrow> string \<Rightarrow> string \<Rightarrow>
    (outcome, 'a list) reader" where
  "read_section limit r key bounds bad duplicate =
     reading (labelled (failure OC_PersistenceBoundsExceeded bounds) (read_bounded_count limit))
       (\<lambda>n. read_distinct n r key (corrupt bad) (failure OC_DuplicateRecord duplicate) [])"

definition read_state :: "(outcome, persisted_state) reader" where
  "read_state =
     reading (labelled (corrupt ''the fabric identity is malformed'') read_strong_id) (\<lambda>fabric.
     reading (labelled (corrupt ''the site identity is malformed'') read_strong_id) (\<lambda>site.
     reading (labelled (corrupt ''the coordinator epoch is missing'') read_u64) (\<lambda>epoch.
     reading (labelled (corrupt ''the engine generation is missing'') read_u64) (\<lambda>engine_generation.
     reading (labelled (corrupt ''the topology generation is missing'') read_u64) (\<lambda>topology.
     reading (read_section max_persisted_records read_record pr_port
       ''the record count is out of bounds'' ''a port record could not be decoded''
       ''the container carries a duplicate port identity'') (\<lambda>records.
     reading (read_section max_profiles read_profile (\<lambda>p. (pp_id p, pp_generation p))
       ''the profile count is out of bounds'' ''a profile record could not be decoded''
       ''the container carries a duplicate profile generation'') (\<lambda>profiles.
     reading (read_section max_devices read_device dv_device
       ''the device count is out of bounds'' ''a device binding could not be decoded''
       ''the container carries a duplicate device binding'') (\<lambda>devices.
     reading (read_section max_publishers read_publisher (\<lambda>p. (pub_publisher p, pub_boot p))
       ''the publisher count is out of bounds'' ''a publisher record could not be decoded''
       ''the container carries a duplicate publisher incarnation'') (\<lambda>publishers.
       returning \<lparr>ps_fabric = fabric, ps_site = site, ps_epoch = epoch,
         ps_engine_generation = engine_generation, ps_topology = topology, ps_records = records,
         ps_profiles = profiles, ps_devices = devices, ps_publishers = publishers\<rparr>)))))))))"

definition decode_persisted_state :: "string \<Rightarrow> outcome + persisted_state" where
  "decode_persisted_state bytes =
     (case container_payload bytes of
        Inl answer \<Rightarrow> Inl answer
      | Inr payload \<Rightarrow>
        (case read_state payload of
           Inl answer \<Rightarrow> Inl answer
         | Inr (ps, rest) \<Rightarrow>
             if rest \<noteq> [] then Inl (corrupt ''the container carries trailing bytes'') else Inr ps))"

section \<open>Writes stay within the limit and only append\<close>

definition bounded_write :: "(writer \<Rightarrow> writer) \<Rightarrow> bool" where
  "bounded_write f \<longleftrightarrow> (\<forall>w. wr_limit (f w) = wr_limit w \<and>
     (length (wr_out w) \<le> wr_limit w \<longrightarrow> length (wr_out (f w)) \<le> wr_limit w) \<and>
     (wr_ok (f w) \<longrightarrow> wr_ok w \<and> (\<exists>bs. wr_out (f w) = wr_out w @ bs)))"

named_theorems bounded_writes

lemma bounded_raw [bounded_writes]: "bounded_write (write_raw bs)"
  by (auto simp: bounded_write_def write_raw_def writer_require_def Let_def)

lemma bounded_compose: "bounded_write f \<Longrightarrow> bounded_write g \<Longrightarrow> bounded_write (\<lambda>w. g (f w))"
  unfolding bounded_write_def by (metis append.assoc)

lemma bounded_all [bounded_writes]: "\<forall>f \<in> set ops. bounded_write f \<Longrightarrow> bounded_write (write_all ops)"
proof (induction ops)
  case (Cons f ops)
  have "write_all (f # ops) = (\<lambda>w. write_all ops (f w))" by (simp add: write_all_def fun_eq_iff)
  with Cons show ?case by (simp add: bounded_compose)
qed (simp add: bounded_write_def write_all_def)

lemma bounded_words [bounded_writes]:
  "bounded_write (write_u8 a)" "bounded_write (write_u16 b)" "bounded_write (write_u32 c)"
  "bounded_write (write_u64 d)" "bounded_write (write_boolean e)" "bounded_write (write_enum es x)"
  by (simp_all add: write_u8_def write_u16_def write_u32_def write_u64_def write_boolean_def
      write_enum_def bounded_raw)

lemma bounded_text [bounded_writes]: "bounded_write (write_text n s)"
  using bounded_compose [OF bounded_words(3) [of "of_nat (length s)"] bounded_raw [of s]]
  by (simp add: bounded_write_def write_text_def)

lemma bounded_id [bounded_writes]: "bounded_write (write_id i)"
  by (simp add: write_id_def bounded_text)

lemma bounded_list [bounded_writes]: "(\<And>x. bounded_write (f x)) \<Longrightarrow> bounded_write (write_list f xs)"
  unfolding write_list_def by (rule bounded_all) (auto intro: bounded_words)

lemma bounded_option [bounded_writes]: "(\<And>x. bounded_write (f x)) \<Longrightarrow> bounded_write (write_option f x)"
  unfolding write_option_def
  by (cases x) (auto intro!: bounded_all bounded_words simp: bounded_words)

lemma bounded_parts [bounded_writes]:
  "bounded_write (write_lanes l)" "bounded_write (write_speed_setting s)" "bounded_write (write_provenance p)"
  "bounded_write (write_aggregation a)" "bounded_write (write_profile_binding b)"
  "bounded_write (write_applied e)" "bounded_write (write_generations g)" "bounded_write (write_last_mutation m)"
  "bounded_write (write_ownership w)" "bounded_write (write_authority au)" "bounded_write (write_device d)"
  "bounded_write (write_publisher pub)" "bounded_write (write_capabilities c)"
  "bounded_write (write_profile_configuration pf)"
  by (simp_all add: bounded_writes write_lanes_def write_speed_setting_def write_provenance_def
      write_aggregation_def write_profile_binding_def write_applied_def write_generations_def
      write_last_mutation_def write_ownership_def write_authority_def write_device_def
      write_publisher_def write_capabilities_def write_profile_configuration_def)

lemma bounded_values [bounded_writes]:
  "bounded_write (write_capability_binding b)" "bounded_write (write_configuration c)"
  "bounded_write (write_profile p)"
  by (simp_all add: bounded_writes write_capability_binding_def write_configuration_def write_profile_def)

lemma bounded_record [bounded_writes]: "bounded_write (write_record r)"
  by (simp add: bounded_writes write_record_def)

lemma bounded_state: "bounded_write (write_state ps)"
  by (simp add: bounded_writes write_state_def)

section \<open>The header\<close>

text \<open>The 32 bytes of the header, written out.\<close>

definition header_prefix :: "string \<Rightarrow> string" where
  "header_prefix payload = container_magic @ le_bytes 4 persistence_format_version @
     le_bytes 4 (of_nat container_header_size :: u32) @ le_bytes 8 (of_nat (length payload) :: u64) @
     le_bytes 4 (crc32 payload)"

lemma container_header_eq:
  "container_header payload = header_prefix payload @ le_bytes 4 (crc32 (header_prefix payload))"
  by (simp add: container_header_def header_prefix_def write_all_def write_raw_def writer_require_def
      write_u32_def write_u64_def open_writer_def container_header_size_def container_magic_def Let_def)

lemma length_header_prefix [simp]: "length (header_prefix payload) = 28"
  by (simp add: header_prefix_def container_magic_def)

lemma read_word_bytes:
  fixes v :: "'a::len word"
  assumes "LENGTH('a) \<le> 8 * n"
  shows "read_word n (le_bytes n v @ rest) = Inr (v, rest)"
  by (simp add: read_word_def reading_def read_raw_def returning_def le_word_whole assms)

lemma read_bytes:
  "read_u32 (le_bytes 4 a @ rest) = Inr (a, rest)" "read_u64 (le_bytes 8 b @ rest) = Inr (b, rest)"
  "read_u32 (le_bytes 4 a) = Inr (a, [])"
  using read_word_bytes [where n = 4 and v = a and rest = "[]"]
  by (simp_all add: read_u32_def read_u64_def read_word_bytes)

lemma read_container_header:
  "read_header (container_header payload) = Inr (\<lparr>ch_version = 1, ch_header_size = 32,
     ch_payload_length = of_nat (length payload), ch_payload_crc = crc32 payload,
     ch_header_crc = crc32 (header_prefix payload)\<rparr>, [])"
proof -
  have "read_raw 8 (container_header payload) = Inr (container_magic, drop 8 (container_header payload))"
    by (simp add: read_raw_def container_header_eq header_prefix_def container_magic_def)
  moreover have "drop 8 (container_header payload) = le_bytes 4 persistence_format_version @
     le_bytes 4 (of_nat container_header_size :: u32) @ le_bytes 8 (of_nat (length payload) :: u64) @
     le_bytes 4 (crc32 payload) @ le_bytes 4 (crc32 (header_prefix payload))"
    by (simp add: container_header_eq header_prefix_def container_magic_def)
  ultimately show ?thesis
    by (simp add: read_header_def reading_def read_bytes returning_def persistence_format_version_def
        container_header_size_def)
qed

lemma container_payload_encoded:
  assumes "length payload \<le> container_payload_limit"
  shows "container_payload (container_header payload @ payload) = Inr payload"
proof -
  have len: "length (container_header payload) = 32" by (simp add: container_header_eq)
  have magic: "take 8 (container_header payload) = container_magic"
    by (simp add: container_header_eq header_prefix_def container_magic_def)
  have prefix: "take 28 (container_header payload) = header_prefix payload"
    by (simp add: container_header_eq)
  have "unat (of_nat (length payload) :: u64) = length payload"
    using assms by (simp add: unat_of_nat container_payload_limit_def)
  with assms len magic prefix show ?thesis
    by (simp add: container_payload_def container_header_size_def read_container_header Let_def
        persistence_format_version_def container_payload_limit_def max_persistence_bytes_def)
qed

section \<open>Round trip\<close>

lemma codec_distinct:
  "(\<And>x. x \<in> set xs \<Longrightarrow> codec (f x) r x) \<Longrightarrow> distinct (map key (acc @ xs)) \<Longrightarrow>
   codec (write_all (map f xs)) (read_distinct (length xs) r key bad duplicate acc) (acc @ xs)"
proof (induction xs arbitrary: acc)
  case (Cons x xs)
  have "codec (write_all (map f xs)) (read_distinct (length xs) r key bad duplicate (acc @ [x])) ((acc @ [x]) @ xs)"
    using Cons.prems by (intro Cons.IH) simp_all
  moreover have "list_all (\<lambda>y. key y \<noteq> key x) acc" using Cons.prems(2) by (simp add: list_all_iff) (metis imageI)
  ultimately show ?case
    using Cons.prems(1) by (auto intro!: codec_then codec_labelled codec_requiring)
qed (simp add: codec_end)

lemma codec_section [codecs]:
  assumes "length xs \<le> limit" "limit < 2 ^ 32" "\<And>x. x \<in> set xs \<Longrightarrow> codec (f x) r x" "\<forall>y. r [] \<noteq> Inr y"
    "distinct (map key xs)"
  shows "codec (write_list f xs) (read_section limit r key bounds bad duplicate) xs"
proof -
  have "codec (write_all (map f xs)) (read_distinct (length xs) r key (corrupt bad)
      (failure OC_DuplicateRecord duplicate) []) ([] @ xs)"
    by (rule codec_distinct) (use assms in simp_all)
  then show ?thesis
    unfolding read_section_def by - (rule codec_counted [OF assms(1-4)], simp_all)
qed

text \<open>The values that the classes of the code can hold, under distinct keys.\<close>

definition persisted_wf :: "persisted_state \<Rightarrow> bool" where
  "persisted_wf ps \<longleftrightarrow> id_wf (ps_fabric ps) \<and> id_wf (ps_site ps) \<and>
     list_all (\<lambda>r. record_wf r \<and> capabilities_validate (cb_capabilities (pr_capability r)) = None) (ps_records ps) \<and>
     list_all (\<lambda>p. profile_wf p \<and> mtu_recoverable (pp_configuration p)) (ps_profiles ps) \<and>
     list_all (\<lambda>d. id_wf (dv_device d) \<and> id_valid (dv_device d) \<and> gen_valid (dv_generation d)) (ps_devices ps) \<and>
     list_all (\<lambda>p. id_wf (pub_publisher p) \<and> id_wf (pub_boot p) \<and> id_valid (pub_publisher p) \<and>
       id_valid (pub_boot p)) (ps_publishers ps) \<and>
     distinct (map pr_port (ps_records ps)) \<and>
     distinct (map (\<lambda>p. (pp_id p, pp_generation p)) (ps_profiles ps)) \<and>
     distinct (map dv_device (ps_devices ps)) \<and>
     distinct (map (\<lambda>p. (pub_publisher p, pub_boot p)) (ps_publishers ps))"

lemma first_invalid_None: "first_invalid validate xs = None \<longleftrightarrow> (\<forall>x \<in> set xs. validate x = None)"
  by (induction xs) (auto split: option.splits)

lemma state_refusal_None:
  "state_refusal ps = None \<longleftrightarrow>
     length (ps_records ps) \<le> max_persisted_records \<and> length (ps_profiles ps) \<le> max_profiles \<and>
     length (ps_devices ps) \<le> max_devices \<and> length (ps_publishers ps) \<le> max_publishers \<and>
     (\<forall>r \<in> set (ps_records ps). record_validate r = None) \<and>
     (\<forall>p \<in> set (ps_profiles ps). profile_validate p = None)"
  by (simp add: state_refusal_def first_invalid_None [symmetric] linorder_not_less split: option.split)

lemma empty_input: "\<forall>y. read_strong_id [] \<noteq> Inr y"
  by (simp add: read_strong_id_def reading_def read_id_def read_text_def read_u32_def read_word_def
      read_raw_def)

lemma empty_elements:
  "\<forall>y. read_record [] \<noteq> Inr y" "\<forall>y. read_profile [] \<noteq> Inr y" "\<forall>y. read_device [] \<noteq> Inr y"
  "\<forall>y. read_publisher [] \<noteq> Inr y"
  using empty_input
  by (auto simp: read_record_def read_profile_def read_device_def read_publisher_def reading_def
      split: sum.splits)

lemma codec_state:
  assumes "persisted_wf ps" "state_refusal ps = None"
  shows "codec (write_state ps) read_state ps"
proof -
  note limits = max_persisted_records_def max_profiles_def max_devices_def max_publishers_def
  have records: "codec (write_list write_record (ps_records ps))
      (read_section max_persisted_records read_record pr_port b1 b2 b3) (ps_records ps)" for b1 b2 b3
    by (rule codec_section)
      (use assms in \<open>auto simp: empty_elements limits persisted_wf_def state_refusal_None list_all_iff intro!: codec_record\<close>)
  have profiles: "codec (write_list write_profile (ps_profiles ps))
      (read_section max_profiles read_profile (\<lambda>p. (pp_id p, pp_generation p)) b1 b2 b3) (ps_profiles ps)" for b1 b2 b3
    by (rule codec_section)
      (use assms in \<open>auto simp: empty_elements limits persisted_wf_def state_refusal_None list_all_iff intro!: codec_profile\<close>)
  have devices: "codec (write_list write_device (ps_devices ps))
      (read_section max_devices read_device dv_device b1 b2 b3) (ps_devices ps)" for b1 b2 b3
    by (rule codec_section)
      (use assms in \<open>auto simp: empty_elements limits persisted_wf_def state_refusal_None list_all_iff intro!: codec_device\<close>)
  have publishers: "codec (write_list write_publisher (ps_publishers ps))
      (read_section max_publishers read_publisher (\<lambda>p. (pub_publisher p, pub_boot p)) b1 b2 b3) (ps_publishers ps)" for b1 b2 b3
    by (rule codec_section)
      (use assms in \<open>auto simp: empty_elements limits persisted_wf_def state_refusal_None list_all_iff intro!: codec_publisher\<close>)
  have "id_wf (ps_fabric ps)" "id_wf (ps_site ps)" using assms(1) by (simp_all add: persisted_wf_def)
  then show ?thesis
    unfolding write_state_def read_state_def
    by - (rule codec_then codec_labelled records profiles devices publishers codec_strong_id codec_words
        codec_end | assumption | simp; fail)+
qed

lemma encoded_container:
  assumes "encode_persisted_state ps = (answer, bytes)" "outcome_ok answer"
  shows "state_refusal ps = None \<and> wr_ok (write_state ps (open_writer container_payload_limit)) \<and>
    bytes = container_header (wr_out (write_state ps (open_writer container_payload_limit))) @
      wr_out (write_state ps (open_writer container_payload_limit))"
proof -
  have "\<not> outcome_ok answer" if "state_refusal ps = Some answer"
    using that by (auto simp: state_refusal_def outcome_ok_def split: if_splits option.splits)
  with assms show ?thesis
    by (auto simp: encode_persisted_state_def outcome_ok_def Let_def split: option.splits if_splits)
qed

lemma encoded_state_decodes:
  assumes "persisted_wf ps" "encode_persisted_state ps = (answer, bytes)" "outcome_ok answer"
  shows "decode_persisted_state bytes = Inr ps"
proof -
  let ?w = "write_state ps (open_writer container_payload_limit)"
  note enc = encoded_container [OF assms(2,3)]
  have out: "wr_out (open_writer container_payload_limit) = []" "wr_limit (open_writer container_payload_limit) = container_payload_limit"
    by (simp_all add: open_writer_def)
  have "length (wr_out ?w) \<le> container_payload_limit"
    using bounded_state [of ps] out unfolding bounded_write_def by (metis le0 list.size(3))
  then have "container_payload bytes = Inr (wr_out ?w)"
    using enc by (simp add: container_payload_encoded)
  moreover have "read_state (wr_out ?w) = Inr (ps, [])"
    using codec_state [OF assms(1)] enc out unfolding codec_def by (metis append_Nil append_Nil2)
  ultimately show ?thesis by (simp add: decode_persisted_state_def)
qed

text \<open>
  Property C22. A persisted state that encodes decodes to itself, field by field: header, checksums,
  identities, generations and every record, profile, device binding and publisher in its order. The
  hypotheses say what values the classes of the code can hold, that keys are distinct, and that
  no profile sets an MTU it does not specify, the one value that encodes and does not decode.
\<close>

theorem container_roundtrip:
  assumes "persisted_wf ps" "encode_persisted_state ps = (answer, bytes)" "outcome_ok answer"
  shows "decode_persisted_state bytes = Inr ps"
  by (rule encoded_state_decodes [OF assms])

section \<open>Damage\<close>

lemma byte_bit: "bit (of_char c :: nat) n \<Longrightarrow> n < 8"
proof -
  assume "bit (of_char c :: nat) n"
  then have "bit (take_bit 8 (of_char c :: nat)) n" by (simp add: take_bit_nat_eq_self)
  then show ?thesis by (simp only: bit_take_bit_iff)
qed

lemma le_word_bit: "bit (le_word cs :: 'a::len word) n \<Longrightarrow> n < 8 * length cs"
proof (induction cs arbitrary: n)
  case (Cons c cs)
  from Cons.prems show ?case
    by (auto simp: bit_simps dest!: byte_bit Cons.IH)
qed simp

lemma le_bytes_word:
  "8 * length cs \<le> LENGTH('a) \<Longrightarrow> le_bytes (length cs) (le_word cs :: 'a::len word) = cs"
proof (induction cs)
  case (Cons c cs)
  let ?c = "of_nat (of_char c) :: 'a word" and ?w = "le_word cs :: 'a word"
  have "drop_bit 8 (?c OR push_bit 8 ?w) = ?w"
    by (rule bit_word_eqI) (use Cons.prems in \<open>auto simp: bit_simps dest: byte_bit le_word_bit\<close>)
  moreover have "(?c OR push_bit 8 ?w) AND 0xff = ?c"
  proof -
    have "(?c OR push_bit 8 ?w) AND 0xff = take_bit 8 (?c OR push_bit 8 ?w)"
      using take_bit_eq_mask [of 8 "?c OR push_bit 8 ?w"] by (simp add: mask_eq_exp_minus_1)
    also have "\<dots> = ?c" by (rule bit_word_eqI) (auto simp: bit_simps dest: byte_bit)
    finally show ?thesis .
  qed
  moreover have "char_of (unat ?c) = c"
  proof -
    have "(256 :: nat) \<le> 2 ^ LENGTH('a)"
      using power_increasing [of 8 "LENGTH('a)" "2 :: nat"] Cons.prems by simp
    moreover have "of_char c < (256 :: nat)" by simp
    ultimately have "of_char c < (2 :: nat) ^ LENGTH('a)" by (rule order.strict_trans2 [rotated])
    then show ?thesis by (simp add: unat_of_nat)
  qed
  ultimately show ?case using Cons by simp
qed simp

text \<open>What an accepted container says about its bytes.\<close>

lemma read_word_take:
  "read_word n bs = Inr (v, rest) \<longleftrightarrow> n \<le> length bs \<and> v = le_word (take n bs) \<and> rest = drop n bs"
  by (auto simp: read_word_def reading_def read_raw_def returning_def)

lemma reading_Inr:
  "reading r k bs = Inr y \<longleftrightarrow> (\<exists>x rest. r bs = Inr (x, rest) \<and> k x rest = Inr y)"
  by (auto simp: reading_def split: sum.split)

lemma read_header_fields:
  assumes "read_header bs = Inr (h, rest)"
  shows "ch_payload_crc h = le_word (take 4 (drop 24 bs)) \<and> ch_header_crc h = le_word (take 4 (drop 28 bs))"
  using assms
  by (auto simp: read_header_def reading_Inr read_u32_def read_u64_def read_word_take read_raw_def
      returning_def split: if_splits)

text \<open>
  The two checksums of a header of 32 bytes: the last word covers the rest of the header, the word
  before it covers the payload. The container and the frames of the protocol have this layout.
\<close>

definition checksums_hold :: "string \<Rightarrow> bool" where
  "checksums_hold bytes \<longleftrightarrow> 32 \<le> length bytes \<and>
     crc32 (take 28 bytes) = le_word (take 4 (drop 28 bytes)) \<and>
     crc32 (drop 32 bytes) = le_word (take 4 (drop 24 bytes))"

lemma container_payload_checks:
  assumes "container_payload bytes = Inr payload"
  shows "checksums_hold bytes"
proof -
  have long: "\<not> length bytes < container_header_size" and magic: "take 8 bytes = container_magic"
    using assms unfolding container_payload_def by (metis Inl_Inr_False)+
  show ?thesis
  proof (cases "read_header (take 32 bytes)")
    case (Inl e)
    with assms long magic show ?thesis
      by (simp add: container_payload_def container_header_size_def)
  next
    case (Inr y)
    obtain h rest where y: "y = (h, rest)" by (cases y)
    have "crc32 (take 28 (take 32 bytes)) = ch_header_crc h \<and> crc32 (drop 32 bytes) = ch_payload_crc h \<and>
        payload = drop 32 bytes"
      using assms long magic Inr y
      by (simp add: container_payload_def container_header_size_def Let_def split: if_splits)
    moreover have "take 4 (drop 28 (take 32 bytes)) = take 4 (drop 28 bytes)"
      "take 4 (drop 24 (take 32 bytes)) = take 4 (drop 24 bytes)" "take 28 (take 32 bytes) = take 28 bytes"
      by (simp_all add: take_drop min_def)
    ultimately show ?thesis
      using read_header_fields [OF Inr [unfolded y]] long by (simp add: checksums_hold_def container_header_size_def)
  qed
qed

lemma crc32_one_byte: "crc32 (before @ a # after) = crc32 (before @ b # after) \<longleftrightarrow> a = b"
  by (simp only: crc32_def xor_cancel foldl_append foldl_Cons crc_fold_register crc_step_byte)

lemma le_word_inject:
  assumes "length as = 4" "length bs = 4"
  shows "(le_word as :: u32) = le_word bs \<longleftrightarrow> as = bs"
proof
  have "le_bytes 4 (le_word cs :: u32) = cs" if "length cs = 4" for cs
    using le_bytes_word [of cs, where 'a = 32] that by simp
  moreover assume "(le_word as :: u32) = le_word bs"
  ultimately show "as = bs" using assms by metis
qed simp

lemma checksums_byte:
  assumes "checksums_hold (before @ a # after)" "checksums_hold (before @ b # after)"
  shows "a = b"
proof -
  let ?x = "before @ a # after" and ?y = "before @ b # after" and ?n = "length before"
  note x = assms(1) [unfolded checksums_hold_def] and y = assms(2) [unfolded checksums_hold_def]
  consider (head) "?n < 28" | (crc) "28 \<le> ?n" "?n < 32" | (body) "32 \<le> ?n" by linarith
  then show ?thesis
  proof cases
    case head
    then have "drop 28 ?x = drop 28 ?y" by (cases "28 - ?n") simp_all
    then have "crc32 (take 28 ?x) = crc32 (take 28 ?y)" using x y by metis
    moreover have "take 28 (before @ c # after) = before @ c # take (27 - ?n) after" for c
      using head by (simp add: take_Cons' Suc_diff_Suc)
    ultimately show ?thesis by (simp only: crc32_one_byte)
  next
    case crc
    then have "take 28 ?x = take 28 ?y" by simp
    then have "(le_word (take 4 (drop 28 ?x)) :: u32) = le_word (take 4 (drop 28 ?y))" using x y by metis
    moreover have "length (take 4 (drop 28 ?x)) = 4" "length (take 4 (drop 28 ?y)) = 4" using x y by auto
    ultimately have "take 4 (drop 28 ?x) = take 4 (drop 28 ?y)" by (simp only: le_word_inject)
    then have "take 4 (drop 28 ?x) ! (?n - 28) = take 4 (drop 28 ?y) ! (?n - 28)" by (simp only:)
    with crc show ?thesis by (simp add: nth_append)
  next
    case body
    then have "take 4 (drop 24 ?x) = take 4 (drop 24 ?y)" by simp
    then have "crc32 (drop 32 ?x) = crc32 (drop 32 ?y)" using x y by metis
    with body show ?thesis by (simp add: crc32_one_byte)
  qed
qed

text \<open>
  No two containers that decode differ in exactly one byte: whatever byte of a
  readable container is changed, in the magic, a length, a checksum or the payload, loading
  reports an error.
\<close>

theorem container_detects_byte_damage:
  assumes "decode_persisted_state (before @ [a] @ after) = Inr ps" "a \<noteq> b"
  shows "\<exists>answer. decode_persisted_state (before @ [b] @ after) = Inl answer"
proof (cases "container_payload (before @ b # after)")
  case (Inl answer)
  then show ?thesis by (simp add: decode_persisted_state_def)
next
  case (Inr q)
  obtain p where "container_payload (before @ a # after) = Inr p"
    using assms(1) by (auto simp: decode_persisted_state_def split: sum.splits)
  with Inr checksums_byte container_payload_checks assms(2) show ?thesis by blast
qed

end
