(* ===== verification/Frame.thy ===== *)
theory Frame
  imports Container
begin

text \<open>
  The frames of the control protocol, \<open>src/protocol.cpp\<close>: 32 bytes of header with magic, version,
  type, flags, sequence number, payload length and two checksums, and a bounded payload.
\<close>

section \<open>Message types\<close>

datatype message_type = MT_Hello | MT_HelloAck | MT_RegisterPublisher | MT_RegisterPublisherAck
    | MT_Mutation | MT_MutationAck | MT_Query | MT_QueryAck | MT_FencePublisher
    | MT_FencePublisherAck | MT_Heartbeat | MT_HeartbeatAck | MT_Shutdown | MT_ErrorResponse

primrec message_type_to_string :: "message_type \<Rightarrow> string" where
  "message_type_to_string MT_Hello = ''HELLO''"
| "message_type_to_string MT_HelloAck = ''HELLO_ACK''"
| "message_type_to_string MT_RegisterPublisher = ''REGISTER_PUBLISHER''"
| "message_type_to_string MT_RegisterPublisherAck = ''REGISTER_PUBLISHER_ACK''"
| "message_type_to_string MT_Mutation = ''MUTATION''"
| "message_type_to_string MT_MutationAck = ''MUTATION_ACK''"
| "message_type_to_string MT_Query = ''QUERY''"
| "message_type_to_string MT_QueryAck = ''QUERY_ACK''"
| "message_type_to_string MT_FencePublisher = ''FENCE_PUBLISHER''"
| "message_type_to_string MT_FencePublisherAck = ''FENCE_PUBLISHER_ACK''"
| "message_type_to_string MT_Heartbeat = ''HEARTBEAT''"
| "message_type_to_string MT_HeartbeatAck = ''HEARTBEAT_ACK''"
| "message_type_to_string MT_Shutdown = ''SHUTDOWN''"
| "message_type_to_string MT_ErrorResponse = ''ERROR_RESPONSE''"

definition all_message_type :: "message_type list" where
  "all_message_type = [MT_Hello, MT_HelloAck, MT_RegisterPublisher, MT_RegisterPublisherAck,
     MT_Mutation, MT_MutationAck, MT_Query, MT_QueryAck, MT_FencePublisher, MT_FencePublisherAck,
     MT_Heartbeat, MT_HeartbeatAck, MT_Shutdown, MT_ErrorResponse]"

primrec is_valid_message_type :: "message_type \<Rightarrow> bool" where
  "is_valid_message_type MT_Hello = True"
| "is_valid_message_type MT_HelloAck = True"
| "is_valid_message_type MT_RegisterPublisher = True"
| "is_valid_message_type MT_RegisterPublisherAck = True"
| "is_valid_message_type MT_Mutation = True"
| "is_valid_message_type MT_MutationAck = True"
| "is_valid_message_type MT_Query = True"
| "is_valid_message_type MT_QueryAck = True"
| "is_valid_message_type MT_FencePublisher = True"
| "is_valid_message_type MT_FencePublisherAck = True"
| "is_valid_message_type MT_Heartbeat = True"
| "is_valid_message_type MT_HeartbeatAck = True"
| "is_valid_message_type MT_Shutdown = True"
| "is_valid_message_type MT_ErrorResponse = True"

lemma is_valid_message_type_True [simp]: "is_valid_message_type e"
  by (cases e) simp_all

text \<open>On the wire a message type is its position, counted from one.\<close>

definition message_type_code :: "message_type \<Rightarrow> u16" where
  "message_type_code t = of_nat (enum_index all_message_type t + 1)"

definition message_type_of :: "u16 \<Rightarrow> message_type option" where
  "message_type_of v =
     (if v = 0 \<or> length all_message_type < unat v then None else Some (all_message_type ! (unat v - 1)))"

lemma message_type_code_of [simp]: "message_type_of (message_type_code t) = Some t"
  by (cases t) (simp_all add: message_type_of_def message_type_code_def all_message_type_def enum_index_def)

section \<open>Frames\<close>

definition frame_magic :: string where "frame_magic = ''PFR1''"
definition frame_header_size :: nat where "frame_header_size = 32"
definition max_frame_bytes :: nat where "max_frame_bytes = 1048576"
definition protocol_version :: u16 where "protocol_version = 1"

record frame =
  fr_type :: message_type
  fr_flags :: u16
  fr_sequence :: u64
  fr_payload :: string

record frame_header =
  fh_version :: u16
  fh_type :: message_type
  fh_flags :: u16
  fh_sequence :: u64
  fh_payload_length :: u32
  fh_payload_crc :: u32

definition frame_header_bytes :: "frame \<Rightarrow> string" where
  "frame_header_bytes f =
     (let w = write_all [write_raw frame_magic, write_u16 protocol_version,
                write_u16 (message_type_code (fr_type f)), write_u16 (fr_flags f), write_u16 0,
                write_u64 (fr_sequence f), write_u32 (of_nat (length (fr_payload f))),
                write_u32 (crc32 (fr_payload f))] (open_writer frame_header_size)
      in wr_out (write_u32 (crc32 (wr_out w)) w))"

definition encode_frame :: "frame \<Rightarrow> outcome \<times> string" where
  "encode_frame f =
     (if \<not> is_valid_message_type (fr_type f)
      then (failure OC_MalformedRequest ''the message type is not a legal protocol message type'', [])
      else if max_frame_bytes < length (fr_payload f)
      then (failure OC_ResourceBoundExceeded ''the frame payload exceeds the configured frame bound'', [])
      else (success ''frame encoded'', frame_header_bytes f @ fr_payload f))"

definition transport :: "string \<Rightarrow> outcome" where
  "transport m = failure OC_TransportFailure m"

definition read_frame_fields :: "(u16 \<times> u16 \<times> u16 \<times> u16 \<times> u64 \<times> u32 \<times> u32 \<times> u32) plain_reader" where
  "read_frame_fields =
     reading (read_raw 4) (\<lambda>magic.
     reading read_u16 (\<lambda>version.
     reading read_u16 (\<lambda>type.
     reading read_u16 (\<lambda>flags.
     reading read_u16 (\<lambda>reserved.
     reading read_u64 (\<lambda>sequence.
     reading read_u32 (\<lambda>payload_length.
     reading read_u32 (\<lambda>payload_crc.
     reading read_u32 (\<lambda>header_crc.
       returning (version, type, flags, reserved, sequence, payload_length, payload_crc, header_crc))))))))))"

definition decode_frame_header :: "string \<Rightarrow> outcome + frame_header" where
  "decode_frame_header header =
     (if length header \<noteq> frame_header_size
      then Inl (transport ''the frame header is not the expected size'')
      else if take 4 header \<noteq> frame_magic then Inl (transport ''the frame magic does not match'')
      else case read_frame_fields header of
        Inl _ \<Rightarrow> Inl (transport ''the frame header is truncated'')
      | Inr ((version, type, flags, reserved, sequence, payload_length, payload_crc, header_crc), _) \<Rightarrow>
          if crc32 (take (frame_header_size - 4) header) \<noteq> header_crc
          then Inl (transport ''the frame header integrity check failed'')
          else if version \<noteq> protocol_version
          then Inl (transport ''the frame protocol version is not supported by this build'')
          else case message_type_of type of
            None \<Rightarrow> Inl (transport ''the frame carries an unknown message type'')
          | Some t \<Rightarrow>
            if reserved \<noteq> 0 then Inl (transport ''the frame carries non-zero reserved bits'')
            else if max_frame_bytes < unat payload_length
            then Inl (failure OC_ResourceBoundExceeded
                   ''the frame payload length exceeds the configured frame bound'')
            else Inr \<lparr>fh_version = version, fh_type = t, fh_flags = flags, fh_sequence = sequence,
                   fh_payload_length = payload_length, fh_payload_crc = payload_crc\<rparr>)"

definition decode_frame :: "string \<Rightarrow> outcome + frame" where
  "decode_frame bytes =
     (if length bytes < frame_header_size then Inl (transport ''the frame is shorter than its header'')
      else case decode_frame_header (take frame_header_size bytes) of
        Inl answer \<Rightarrow> Inl answer
      | Inr h \<Rightarrow>
        if length bytes \<noteq> frame_header_size + unat (fh_payload_length h)
        then Inl (transport ''the frame length does not match the declared payload length'')
        else if crc32 (drop frame_header_size bytes) \<noteq> fh_payload_crc h
        then Inl (transport ''the frame payload integrity check failed'')
        else Inr \<lparr>fr_type = fh_type h, fr_flags = fh_flags h, fr_sequence = fh_sequence h,
               fr_payload = drop frame_header_size bytes\<rparr>)"

section \<open>Round trip\<close>

definition frame_prefix :: "frame \<Rightarrow> string" where
  "frame_prefix f = frame_magic @ le_bytes 2 protocol_version @ le_bytes 2 (message_type_code (fr_type f)) @
     le_bytes 2 (fr_flags f) @ le_bytes 2 (0 :: u16) @ le_bytes 8 (fr_sequence f) @
     le_bytes 4 (of_nat (length (fr_payload f)) :: u32) @ le_bytes 4 (crc32 (fr_payload f))"

lemma length_frame_prefix [simp]: "length (frame_prefix f) = 28"
  by (simp add: frame_prefix_def frame_magic_def)

lemma frame_header_bytes_eq:
  "frame_header_bytes f = frame_prefix f @ le_bytes 4 (crc32 (frame_prefix f))"
  by (simp add: frame_header_bytes_def frame_prefix_def write_all_def write_raw_def writer_require_def
      write_u16_def write_u32_def write_u64_def open_writer_def frame_header_size_def frame_magic_def Let_def)

lemma read_u16_bytes: "read_u16 (le_bytes 2 a @ rest) = Inr (a, rest)"
  by (simp add: read_u16_def read_word_bytes)

lemma read_frame_header:
  "read_frame_fields (frame_header_bytes f) = Inr ((protocol_version, message_type_code (fr_type f), fr_flags f, 0,
     fr_sequence f, of_nat (length (fr_payload f)), crc32 (fr_payload f), crc32 (frame_prefix f)), [])"
proof -
  have "read_raw 4 (frame_header_bytes f) = Inr (frame_magic, drop 4 (frame_header_bytes f))"
    by (simp add: read_raw_def frame_header_bytes_eq frame_prefix_def frame_magic_def)
  moreover have "drop 4 (frame_header_bytes f) = le_bytes 2 protocol_version @
      le_bytes 2 (message_type_code (fr_type f)) @ le_bytes 2 (fr_flags f) @ le_bytes 2 (0 :: u16) @
      le_bytes 8 (fr_sequence f) @ le_bytes 4 (of_nat (length (fr_payload f)) :: u32) @
      le_bytes 4 (crc32 (fr_payload f)) @ le_bytes 4 (crc32 (frame_prefix f))"
    by (simp add: frame_header_bytes_eq frame_prefix_def frame_magic_def)
  ultimately show ?thesis
    by (simp add: read_frame_fields_def reading_def read_bytes read_u16_bytes returning_def)
qed

lemma encoded_frame_decodes:
  assumes "encode_frame f = (answer, bytes)" "outcome_ok answer"
  shows "decode_frame bytes = Inr f"
proof -
  have small: "length (fr_payload f) \<le> max_frame_bytes" and bytes: "bytes = frame_header_bytes f @ fr_payload f"
    using assms by (auto simp: encode_frame_def outcome_ok_def split: if_splits)
  have len: "unat (of_nat (length (fr_payload f)) :: u32) = length (fr_payload f)"
    using small by (simp add: unat_of_nat max_frame_bytes_def)
  have head: "length (frame_header_bytes f) = 32" "take 4 (frame_header_bytes f) = frame_magic"
    "take 28 (frame_header_bytes f) = frame_prefix f"
    by (simp_all add: frame_header_bytes_eq) (simp add: frame_prefix_def frame_magic_def)
  have "decode_frame_header (frame_header_bytes f) = Inr \<lparr>fh_version = protocol_version, fh_type = fr_type f,
      fh_flags = fr_flags f, fh_sequence = fr_sequence f,
      fh_payload_length = of_nat (length (fr_payload f)), fh_payload_crc = crc32 (fr_payload f)\<rparr>"
    using head small len by (simp add: decode_frame_header_def frame_header_size_def read_frame_header)
  then show ?thesis
    using head len by (simp add: decode_frame_def bytes frame_header_size_def)
qed

text \<open>
  A frame that encodes decodes to itself: type, flags, sequence number and payload.
\<close>

theorem frame_roundtrip:
  assumes "encode_frame f = (answer, bytes)" "outcome_ok answer"
  shows "decode_frame bytes = Inr f"
  by (rule encoded_frame_decodes [OF assms])

lemma decode_frame_checks:
  assumes "decode_frame bytes = Inr f"
  shows "checksums_hold bytes"
proof -
  have long: "\<not> length bytes < 32" and head: "take 4 (take 32 bytes) = frame_magic"
    using assms by (auto simp: decode_frame_def decode_frame_header_def frame_header_size_def
        split: if_splits sum.splits)
  show ?thesis
  proof (cases "read_frame_fields (take 32 bytes)")
    case (Inl e)
    with assms long head show ?thesis
      by (simp add: decode_frame_def decode_frame_header_def frame_header_size_def)
  next
    case (Inr y)
    obtain v t fl z sq pl pc hc rest where y: "y = ((v, t, fl, z, sq, pl, pc, hc), rest)"
      by (metis surj_pair)
    have "pc = le_word (take 4 (drop 24 (take 32 bytes))) \<and> hc = le_word (take 4 (drop 28 (take 32 bytes)))"
      using Inr y by (auto simp: read_frame_fields_def reading_Inr read_u16_def read_u32_def read_u64_def
          read_word_take read_raw_def returning_def split: if_splits)
    moreover have "take 4 (drop 28 (take 32 bytes)) = take 4 (drop 28 bytes)"
      "take 4 (drop 24 (take 32 bytes)) = take 4 (drop 24 bytes)" "take 28 (take 32 bytes) = take 28 bytes"
      by (simp_all add: take_drop min_def)
    moreover have "crc32 (take 28 (take 32 bytes)) = hc \<and> crc32 (drop 32 bytes) = pc"
      using assms long head Inr y
      by (auto simp: decode_frame_def decode_frame_header_def frame_header_size_def
          split: if_splits option.splits)
    ultimately show ?thesis using long by (simp add: checksums_hold_def)
  qed
qed

text \<open>
  A frame with one damaged byte is never accepted: no two frames that decode differ in
  exactly one byte, wherever the byte is.
\<close>

theorem frame_detects_byte_damage:
  assumes "decode_frame (before @ [a] @ after) = Inr f" "a \<noteq> b"
  shows "\<exists>answer. decode_frame (before @ [b] @ after) = Inl answer"
proof (cases "decode_frame (before @ [b] @ after)")
  case (Inr g)
  have "a = b"
    using decode_frame_checks [OF assms(1)] decode_frame_checks [OF Inr]
    by (intro checksums_byte [of before a after b]) simp_all
  with assms(2) show ?thesis by simp
qed simp

definition sample_frame :: frame where
  "sample_frame = \<lparr>fr_type = MT_Heartbeat, fr_flags = 0, fr_sequence = 7, fr_payload = ''ping''\<rparr>"

theorem frame_roundtrip_witness:
  "decode_frame (snd (encode_frame sample_frame)) = Inr sample_frame"
  by (rule frame_roundtrip [OF prod.collapse [symmetric]])
    (simp add: encode_frame_def sample_frame_def max_frame_bytes_def outcome_ok_def)

theorem frame_detects_byte_damage_witness:
  "\<exists>after answer. decode_frame ([CHR ''P''] @ after) = Inr sample_frame \<and> decode_frame ([CHR ''Q''] @ after) = Inl answer"
proof -
  let ?bytes = "snd (encode_frame sample_frame)"
  have good: "decode_frame ?bytes = Inr sample_frame"
    by (rule encoded_frame_decodes [OF prod.collapse [symmetric]])
      (simp add: encode_frame_def sample_frame_def max_frame_bytes_def outcome_ok_def)
  obtain after where "?bytes = [] @ [CHR ''P''] @ after"
    by (simp add: encode_frame_def sample_frame_def max_frame_bytes_def frame_header_bytes_eq frame_prefix_def frame_magic_def)
  with frame_detects_byte_damage [of "[]" "CHR ''P''" after sample_frame "CHR ''Q''"] good
  show ?thesis by auto
qed

end
