(* ===== verification/Container_Size.thy ===== *)
theory Container_Size
  imports Container Sample
begin

text \<open>
  The size of what the writers of \<open>src/wire.cpp\<close> emit. \<open>takes f n\<close> says that \<open>f\<close> succeeds when \<open>n\<close>
  bytes are left and uses at most \<open>n\<close>; one rule for each way of building writers bounds every part
  of the data model. The bounds show that a state with validated records and bounded labels is
  always encoded: saving is refused for the labels that no validation bounds, and for size only.
\<close>

section \<open>Bounded writers\<close>

definition takes :: "(writer \<Rightarrow> writer) \<Rightarrow> nat \<Rightarrow> bool" where
  "takes f n \<longleftrightarrow> (\<forall>w. wr_ok w \<and> length (wr_out w) + n \<le> wr_limit w \<longrightarrow>
     wr_ok (f w) \<and> wr_limit (f w) = wr_limit w \<and> length (wr_out (f w)) \<le> length (wr_out w) + n)"

named_theorems sizes

lemma takes_raw: "length bs \<le> n \<Longrightarrow> takes (write_raw bs) n"
  by (auto simp: takes_def write_raw_def writer_require_def)

lemma takes_nil: "takes (write_all []) 0"
  by (simp add: takes_def write_all_def)

lemma takes_cons: "takes f a \<Longrightarrow> takes (write_all ops) b \<Longrightarrow> takes (write_all (f # ops)) (a + b)"
  by (fastforce simp: takes_def write_all_def)

lemma takes_more: "takes f a \<Longrightarrow> a \<le> n \<Longrightarrow> takes f n"
  by (fastforce simp: takes_def)

lemma takes_words [sizes]:
  "takes (write_u8 a) 1" "takes (write_u32 c) 4" "takes (write_u64 d) 8"
  "takes (write_boolean e) 1" "takes (write_enum es x) 1"
  by (simp_all add: write_u8_def write_u32_def write_u64_def write_boolean_def write_enum_def takes_raw)

lemma takes_text:
  assumes "length s \<le> m"
  shows "takes (write_text m s) (4 + m)"
proof -
  have "takes (write_all [write_u32 (of_nat (length s)), write_raw s]) (4 + (m + 0))"
    by (intro takes_cons takes_nil takes_words takes_raw assms)
  moreover have "write_text m s = write_all [write_u32 (of_nat (length s)), write_raw s]"
    using assms by (auto simp: write_text_def write_all_def fun_eq_iff)
  ultimately show ?thesis by simp
qed

lemma takes_name [sizes]: "length s \<le> max_name_length \<Longrightarrow> takes (write_text max_name_length s) 132"
  using takes_text [of s max_name_length] by (simp add: max_name_length_def)

lemma takes_description [sizes]:
  "length s \<le> max_description_length \<Longrightarrow> takes (write_text max_description_length s) 1028"
  using takes_text [of s max_description_length] by (simp add: max_description_length_def)

lemma takes_id [sizes]:
  assumes "id_wf i"
  shows "takes (write_id i) 132"
proof -
  have "length i \<le> max_identifier_length"
    using assms by (auto simp: id_wf_def validate_identifier_Ok_iff max_identifier_length_def)
  then show ?thesis
    using takes_text [of i max_identifier_length] by (simp add: write_id_def max_identifier_length_def)
qed

lemma takes_each: "(\<And>x. x \<in> set xs \<Longrightarrow> takes (f x) n) \<Longrightarrow> takes (write_all (map f xs)) (n * length xs)"
proof (induction xs)
  case (Cons x xs)
  then have "takes (write_all (f x # map f xs)) (n + n * length xs)" by (intro takes_cons) simp_all
  then show ?case by simp
qed (simp add: takes_nil)

lemma takes_list: "(\<And>x. x \<in> set xs \<Longrightarrow> takes (f x) n) \<Longrightarrow> takes (write_list f xs) (4 + n * length xs)"
  unfolding write_list_def by (intro takes_cons takes_each takes_words)

lemma takes_list_bounded:
  assumes "\<And>x. x \<in> set xs \<Longrightarrow> takes (f x) n" "length xs \<le> m"
  shows "takes (write_list f xs) (4 + n * m)"
  by (rule takes_more [OF takes_list [OF assms(1)]]) (use assms(2) in simp_all)

lemma takes_option:
  assumes "\<And>y. x = Some y \<Longrightarrow> takes (f y) n"
  shows "takes (write_option f x) (1 + n)"
proof (cases x)
  case None
  then show ?thesis by (simp add: write_option_def takes_more [OF takes_words(4)])
next
  case (Some y)
  have "takes (write_all [write_boolean True, f y]) (1 + (n + 0))"
    by (intro takes_cons takes_nil takes_words assms Some)
  then show ?thesis by (simp add: Some write_option_def)
qed

lemma takes_open:
  assumes "takes f n" "n \<le> limit"
  shows "wr_ok (f (open_writer limit)) \<and> length (wr_out (f (open_writer limit))) \<le> n"
  using assms(1) [unfolded takes_def, rule_format, of "open_writer limit"] assms(2)
  by (simp add: open_writer_def)

section \<open>The parts of a record\<close>

lemma takes_parts [sizes]:
  "takes (write_lanes l) 12" "takes (write_speed_setting s) 9" "takes (write_generations g) 64"
  unfolding write_lanes_def write_speed_setting_def write_generations_def
  by (rule takes_more, (rule takes_cons takes_nil takes_words)+, simp)+

lemma takes_provenance [sizes]:
  "provenance_wf p \<Longrightarrow> length (pv_source p) \<le> max_name_length \<Longrightarrow> takes (write_provenance p) 537"
  unfolding write_provenance_def
  by (rule takes_more, (rule takes_cons takes_nil sizes | simp add: provenance_wf_def; fail)+)

lemma takes_mutation [sizes]: "id_wf (lm_attempt m) \<Longrightarrow> takes (write_last_mutation m) 148"
  unfolding write_last_mutation_def
  by (rule takes_more, (rule takes_cons takes_nil sizes | simp; fail)+)

lemma takes_applied [sizes]: "length (ae_source e) \<le> max_name_length \<Longrightarrow> takes (write_applied e) 150"
  unfolding write_applied_def
  by (rule takes_more, (rule takes_cons takes_nil sizes | simp; fail)+)

lemma takes_ownership [sizes]: "ownership_wf w \<Longrightarrow> takes (write_ownership w) 546"
  unfolding write_ownership_def
  by (rule takes_more, (rule takes_cons takes_nil sizes | simp add: ownership_wf_def; fail)+)

lemma takes_aggregation [sizes]: "id_wf (ag_aggregate a) \<Longrightarrow> takes (write_aggregation a) 142"
  unfolding write_aggregation_def
  by (rule takes_more, (rule takes_cons takes_nil sizes | simp; fail)+)

lemma takes_profile_binding [sizes]: "id_wf (pb_id b) \<Longrightarrow> takes (write_profile_binding b) 141"
  unfolding write_profile_binding_def
  by (rule takes_more, (rule takes_cons takes_nil sizes | simp; fail)+)

lemma takes_capabilities [sizes]:
  assumes "capabilities_validate c = None"
  shows "takes (write_capabilities c) 950"
proof -
  have "length (cap_supported_speeds c) \<le> max_capability_entries"
    "length (cap_lane_modes c) \<le> max_mode_entries" "length (cap_fec_modes c) \<le> max_mode_entries"
    "length (cap_autoneg_modes c) \<le> max_mode_entries" "length (cap_pause_modes c) \<le> max_mode_entries"
    "length (cap_protocol_families c) \<le> max_mode_entries"
    "length (cap_transceiver_class c) \<le> max_name_length"
    using assms by (auto simp: capabilities_validate_def validate_text_None_iff split: if_splits option.splits)
  note bounds = this
  show ?thesis
    unfolding write_capabilities_def
    by (rule takes_more, (rule takes_cons takes_nil takes_list_bounded sizes bounds
          | simp add: max_capability_entries_def max_mode_entries_def; fail)+)
qed

text \<open>The labels that no validation bounds: the evidence, adapter and provenance sources.\<close>

definition labels_fit :: "port_record \<Rightarrow> bool" where
  "labels_fit r \<longleftrightarrow> length (cb_source (pr_capability r)) \<le> max_name_length \<and>
     length (ae_source (pr_applied r)) \<le> max_name_length \<and>
     length (pv_source (pr_provenance r)) \<le> max_name_length \<and>
     (\<forall>c. pr_configuration r = Some c \<longrightarrow> length (pv_source (pc_provenance c)) \<le> max_name_length)"

lemma takes_configuration [sizes]:
  assumes "configuration_wf c" "configuration_validate c = None" "length (pv_source (pc_provenance c)) \<le> max_name_length"
  shows "takes (write_configuration c) 1700"
proof -
  have "length (pc_role c) \<le> max_name_length"
    using assms(2) by (auto simp: configuration_validate_def validate_text_None_iff split: if_splits option.splits)
  note bounds = this assms(3)
  show ?thesis
    unfolding write_configuration_def
    by (rule takes_more, (rule takes_cons takes_nil sizes bounds
          | use assms(1) in \<open>simp add: configuration_wf_def\<close>; fail)+)
qed

lemma takes_binding:
  assumes "binding_wf b" "capabilities_validate (cb_capabilities b) = None" "length (cb_source b) \<le> max_name_length"
  shows "takes (write_capability_binding b) 1300"
  unfolding write_capability_binding_def
  by (rule takes_more, (rule takes_cons takes_nil sizes assms
        | use assms(1) in \<open>simp add: binding_wf_def\<close>; fail)+)

lemma takes_record:
  assumes "record_wf r" "record_validate r = None" "capabilities_validate (cb_capabilities (pr_capability r)) = None"
    "labels_fit r"
  shows "takes (write_record r) 8000"
proof -
  have ok: "record_ok r" using assms(2) by (simp only: record_validate_ok)
  have conf: "takes (write_option write_configuration (pr_configuration r)) (1 + 1700)"
    by (rule takes_option, rule takes_configuration)
      (use ok assms(1,4) in \<open>simp_all add: record_ok_def record_wf_def labels_fit_def\<close>)
  have own: "takes (write_option write_ownership (pr_ownership r)) (1 + 546)"
    by (rule takes_option, rule takes_ownership) (use assms(1) in \<open>simp add: record_wf_def\<close>)
  have bind: "takes (write_capability_binding (pr_capability r)) 1300"
    by (rule takes_binding) (use assms in \<open>simp_all add: record_wf_def labels_fit_def\<close>)
  have texts: "length (pr_status_reason r) \<le> max_name_length" "length (pr_status_detail r) \<le> max_description_length"
    using ok by (simp_all add: record_ok_def validate_text_None_iff)
  show ?thesis
    unfolding write_record_def
    by (rule takes_more, (rule takes_cons takes_nil conf own bind sizes texts
          | use assms(1,4) in \<open>simp add: record_wf_def labels_fit_def\<close>; fail)+)
qed

section \<open>Profiles, devices, publishers\<close>

lemma takes_profile_configuration [sizes]:
  "length (pf_role p) \<le> max_name_length \<Longrightarrow> takes (write_profile_configuration p) 200"
  unfolding write_profile_configuration_def
  by (rule takes_more, (rule takes_cons takes_nil sizes | simp; fail)+)

lemma takes_profile:
  assumes "profile_wf p" "profile_validate p = None" "length (pv_source (pp_provenance p)) \<le> max_name_length"
  shows "takes (write_profile p) 2100"
proof -
  have "length (pp_name p) \<le> max_name_length" "length (pp_description p) \<le> max_description_length"
    "length (pf_role (pp_configuration p)) \<le> max_name_length"
    using assms(2)
    by (auto simp: profile_validate_def profile_configuration_validate_def prefixed_def validate_text_None_iff split: if_splits option.splits)
  note bounds = this assms(3)
  show ?thesis
    unfolding write_profile_def
    by (rule takes_more, (rule takes_cons takes_nil sizes bounds
          | use assms(1) in \<open>simp add: profile_wf_def\<close>; fail)+)
qed

lemma takes_device: "id_wf (dv_device d) \<Longrightarrow> length (dv_source d) \<le> max_name_length \<Longrightarrow> takes (write_device d) 300"
  unfolding write_device_def
  by (rule takes_more, (rule takes_cons takes_nil sizes | simp; fail)+)

lemma takes_publisher: "id_wf (pub_publisher p) \<Longrightarrow> id_wf (pub_boot p) \<Longrightarrow> takes (write_publisher p) 300"
  unfolding write_publisher_def
  by (rule takes_more, (rule takes_cons takes_nil sizes | simp; fail)+)

section \<open>A profile that is saved and cannot be read\<close>

text \<open>\<open>rejects f r\<close>: what \<open>f\<close> writes, \<open>r\<close> refuses, whatever follows.\<close>

definition rejects :: "(writer \<Rightarrow> writer) \<Rightarrow> ('e, 'a) reader \<Rightarrow> bool" where
  "rejects f r \<longleftrightarrow> (\<forall>w. wr_ok (f w) \<longrightarrow> wr_ok w \<and>
     (\<exists>bs. wr_out (f w) = wr_out w @ bs \<and> (\<forall>rest. \<exists>e. r (bs @ rest) = Inl e)))"

lemma rejects_then:
  assumes "codec f r x" "rejects (write_all ops) (k x)"
  shows "rejects (write_all (f # ops)) (reading r k)"
  unfolding rejects_def
proof (intro allI impI)
  fix w
  assume ok: "wr_ok (write_all (f # ops) w)"
  have all: "write_all (f # ops) w = write_all ops (f w)" by (simp add: write_all_def)
  obtain bs where bs: "wr_ok (f w)" "wr_out (write_all ops (f w)) = wr_out (f w) @ bs"
    "\<forall>rest. \<exists>e. k x (bs @ rest) = Inl e"
    using assms(2) ok unfolding all rejects_def by blast
  obtain as where as: "wr_ok w" "wr_out (f w) = wr_out w @ as" "\<forall>rest. r (as @ rest) = Inr (x, rest)"
    using assms(1) bs(1) unfolding codec_def by blast
  have "\<exists>e. reading r k ((as @ bs) @ rest) = Inl e" for rest using as(3) bs(3) by (simp add: reading_def)
  then show "wr_ok w \<and> (\<exists>bs. wr_out (write_all (f # ops) w) = wr_out w @ bs \<and>
      (\<forall>rest. \<exists>e. reading r k (bs @ rest) = Inl e))"
    using as bs unfolding all by (metis append.assoc)
qed

lemma rejects_here:
  assumes "rejects f r" "bounded_write (write_all ops)"
  shows "rejects (write_all (f # ops)) (reading r k)"
  unfolding rejects_def
proof (intro allI impI)
  fix w
  assume ok: "wr_ok (write_all (f # ops) w)"
  have all: "write_all (f # ops) w = write_all ops (f w)" by (simp add: write_all_def)
  obtain bs where bs: "wr_ok (f w)" "wr_out (write_all ops (f w)) = wr_out (f w) @ bs"
    using assms(2) ok unfolding all bounded_write_def by blast
  obtain as where as: "wr_ok w" "wr_out (f w) = wr_out w @ as" "\<forall>rest. \<exists>e. r (as @ rest) = Inl e"
    using assms(1) bs(1) unfolding rejects_def by blast
  have "\<exists>e. reading r k ((as @ bs) @ rest) = Inl e" for rest
    using as(3) [rule_format, of "bs @ rest"] by (auto simp: reading_def)
  then show "wr_ok w \<and> (\<exists>bs. wr_out (write_all (f # ops) w) = wr_out w @ bs \<and>
      (\<forall>rest. \<exists>e. reading r k (bs @ rest) = Inl e))"
    using as bs unfolding all by (metis append.assoc)
qed

lemma rejects_labelled: "rejects f r \<Longrightarrow> rejects f (labelled e r)"
  unfolding rejects_def labelled_def by (metis (no_types, lifting) sum.simps(5))

lemma rejects_failing: "bounded_write f \<Longrightarrow> rejects f (failing e)"
  unfolding bounded_write_def rejects_def failing_def by blast

lemma rejects_distinct:
  "(\<And>x. x \<in> set xs \<Longrightarrow> bounded_write (f x) \<and> (codec (f x) r x \<or> rejects (f x) r)) \<Longrightarrow>
   \<exists>x \<in> set xs. rejects (f x) r \<Longrightarrow>
   rejects (write_all (map f xs)) (read_distinct (length xs) r key bad duplicate acc)"
proof (induction xs arbitrary: acc)
  case (Cons x xs)
  have rest: "bounded_write (write_all (map f xs))" 
    by (rule bounded_all) (use Cons.prems(1) in auto)
  show ?case
  proof (cases "rejects (f x) r")
    case True
    then show ?thesis using rest by (simp add: rejects_here rejects_labelled)
  next
    case False
    then have good: "codec (f x) r x" and bad: "\<exists>x \<in> set xs. rejects (f x) r" using Cons.prems by auto
    have "rejects (write_all (map f xs)) (read_distinct (length xs) r key bad duplicate (acc @ [x]))"
      using Cons.prems(1) bad by (intro Cons.IH) auto
    then have "rejects (write_all (map f xs)) (requiring (list_all (\<lambda>y. key y \<noteq> key x) acc) duplicate
        (read_distinct (length xs) r key bad duplicate (acc @ [x])))"
      by (simp add: requiring_def rejects_failing rest)
    with codec_labelled [OF good] show ?thesis
      unfolding list.map read_distinct.simps length_Cons by (rule rejects_then)
  qed
qed simp

lemma rejects_section:
  assumes "length xs \<le> limit" "limit < 2 ^ 32"
    "\<And>x. x \<in> set xs \<Longrightarrow> bounded_write (f x) \<and> (codec (f x) r x \<or> rejects (f x) r)"
    "\<exists>x \<in> set xs. rejects (f x) r"
  shows "rejects (write_list f xs) (read_section limit r key bounds bad duplicate)"
  unfolding rejects_def
proof (intro allI impI)
  fix w
  let ?n = "of_nat (length xs) :: u32"
  let ?r = "read_section limit r key bounds bad duplicate"
  have len: "unat ?n = length xs" using assms(1,2) by (simp add: unat_of_nat)
  have all: "write_list f xs w = write_all (map f xs) (write_u32 ?n w)"
    by (simp add: write_list_def write_all_def)
  assume "wr_ok (write_list f xs w)"
  then obtain bs where bs: "wr_ok (write_u32 ?n w)"
    "wr_out (write_all (map f xs) (write_u32 ?n w)) = wr_out (write_u32 ?n w) @ bs"
    "\<forall>rest. \<exists>e. read_distinct (length xs) r key (corrupt bad) (failure OC_DuplicateRecord duplicate) [] (bs @ rest) = Inl e"
    using rejects_distinct [OF assms(3,4), where bad = "corrupt bad"] unfolding all rejects_def by blast
  obtain cs where cs: "wr_ok w" "wr_out (write_u32 ?n w) = wr_out w @ cs"
    "\<forall>rest. read_u32 (cs @ rest) = Inr (?n, rest)"
    using codec_words(3) bs(1) unfolding codec_def by blast
  have "\<exists>e. ?r ((cs @ bs) @ rest) = Inl e" for rest
    using bs(3) cs(3) by (auto simp: read_section_def read_bounded_count_def reading_def requiring_def
      failing_def labelled_def len)
  then show "wr_ok w \<and> (\<exists>bs. wr_out (write_list f xs w) = wr_out w @ bs \<and> (\<forall>rest. \<exists>e. ?r (bs @ rest) = Inl e))"
    using cs bs unfolding all by (metis append.assoc)
qed

lemma rejects_mtu: "mtu_wf m \<Longrightarrow> m \<noteq> 0 \<Longrightarrow> rejects (write_u32 m) (read_profile_mtu False)"
  using codec_words(3) [of m]
  by (fastforce simp: codec_def rejects_def read_profile_mtu_def reading_def failing_def mtu_wf_def)

lemma rejects_profile:
  assumes "profile_wf p" "\<not> mtu_recoverable (pp_configuration p)"
  shows "rejects (write_profile p) read_profile"
proof -
  let ?c = "pp_configuration p"
  have off: "pf_specifies_mtu ?c = False" "pf_mtu ?c \<noteq> 0" using assms(2) by (auto simp: mtu_recoverable_def)
  have wf: "id_wf (pp_id p)" "speed_wf (ss_rate (pf_speed ?c))" "mtu_wf (pf_mtu ?c)"
    using assms(1) by (simp_all add: profile_wf_def)
  have bad: "rejects (write_profile_configuration ?c) read_profile_configuration"
    unfolding write_profile_configuration_def read_profile_configuration_def off(1)
    by (rule rejects_then, rule codec_boolean, rule rejects_then, rule codec_speed_setting [OF wf(2)],
        rule rejects_then, rule codec_boolean, rule rejects_here, rule rejects_mtu [OF wf(3) off(2)])
      (simp add: bounded_writes)
  show ?thesis
    unfolding write_profile_def read_profile_def
    by (rule rejects_then, rule codec_strong_id [OF wf(1)], rule rejects_then, rule codec_words,
        rule rejects_then, rule codec_texts, rule rejects_then, rule codec_texts, rule rejects_here, rule bad)
      (simp add: bounded_writes)
qed

lemma rejects_state:
  assumes "persisted_wf (ps\<lparr>ps_profiles := []\<rparr>)" "state_refusal ps = None"
    "list_all profile_wf (ps_profiles ps)" "\<not> list_all (\<lambda>p. mtu_recoverable (pp_configuration p)) (ps_profiles ps)"
  shows "rejects (write_state ps) read_state"
proof -
  have records: "codec (write_list write_record (ps_records ps))
      (read_section max_persisted_records read_record pr_port b1 b2 b3) (ps_records ps)" for b1 b2 b3
    by (rule codec_section)
      (use assms in \<open>auto simp: empty_elements max_persisted_records_def persisted_wf_def state_refusal_None list_all_iff intro!: codec_record\<close>)
  have profiles: "rejects (write_list write_profile (ps_profiles ps))
      (read_section max_profiles read_profile (\<lambda>p. (pp_id p, pp_generation p)) b1 b2 b3)" for b1 b2 b3
  proof (rule rejects_section)
    fix p
    assume p: "p \<in> set (ps_profiles ps)"
    show "bounded_write (write_profile p) \<and> (codec (write_profile p) read_profile p \<or> rejects (write_profile p) read_profile)"
      using assms(2,3) p codec_profile [of p] rejects_profile [of p]
      by (auto simp: bounded_writes state_refusal_None list_all_iff)
  qed (use assms rejects_profile in \<open>auto simp: max_profiles_def state_refusal_None list_all_iff\<close>)
  have ids: "id_wf (ps_fabric ps)" "id_wf (ps_site ps)" using assms(1) by (simp_all add: persisted_wf_def)
  show ?thesis
    unfolding write_state_def read_state_def
    by ((rule rejects_then, rule codec_labelled, rule codec_strong_id, rule ids)+,
        (rule rejects_then, rule codec_labelled, rule codec_words)+,
        rule rejects_then, rule records, rule rejects_here, rule profiles)
      (simp add: bounded_writes)
qed

text \<open>
  Property C26. A profile may carry an MTU that it does not declare specified: it validates, the state is
  encoded and written with success, and the container can never be read again. No validation on
  the way to the disk asks for what the reader asks for.
\<close>

theorem unspecified_mtu_makes_container_unreadable:
  assumes "persisted_wf (ps\<lparr>ps_profiles := []\<rparr>)" "list_all profile_wf (ps_profiles ps)"
    "\<not> list_all (\<lambda>p. mtu_recoverable (pp_configuration p)) (ps_profiles ps)"
    "encode_persisted_state ps = (answer, bytes)" "outcome_ok answer"
  shows "\<exists>error. decode_persisted_state bytes = Inl error"
proof -
  let ?w = "write_state ps (open_writer container_payload_limit)"
  note enc = encoded_container [OF assms(4,5)]
  have out: "wr_out (open_writer container_payload_limit) = []" "wr_limit (open_writer container_payload_limit) = container_payload_limit"
    by (simp_all add: open_writer_def)
  have "length (wr_out ?w) \<le> container_payload_limit"
    using bounded_state [of ps] out unfolding bounded_write_def by (metis le0 list.size(3))
  then have "container_payload bytes = Inr (wr_out ?w)"
    using enc by (simp add: container_payload_encoded)
  moreover have "\<exists>e. read_state (wr_out ?w) = Inl e"
    using rejects_state [OF assms(1) conjunct1 [OF enc] assms(2,3)] enc out
    unfolding rejects_def by (metis append_Nil append_Nil2)
  ultimately show ?thesis by (auto simp: decode_persisted_state_def)
qed

section \<open>A state that fits\<close>

definition state_labels_fit :: "persisted_state \<Rightarrow> bool" where
  "state_labels_fit ps \<longleftrightarrow> list_all labels_fit (ps_records ps) \<and>
     list_all (\<lambda>p. length (pv_source (pp_provenance p)) \<le> max_name_length) (ps_profiles ps) \<and>
     list_all (\<lambda>d. length (dv_source d) \<le> max_name_length) (ps_devices ps)"

definition state_size :: "persisted_state \<Rightarrow> nat" where
  "state_size ps = 304 + 8000 * length (ps_records ps) + 2100 * length (ps_profiles ps) +
     300 * length (ps_devices ps) + 300 * length (ps_publishers ps)"

lemma takes_state:
  assumes "persisted_wf (ps\<lparr>ps_profiles := []\<rparr>)" "list_all profile_wf (ps_profiles ps)"
    "state_refusal ps = None" "state_labels_fit ps"
  shows "takes (write_state ps) (state_size ps)"
proof -
  note parts = assms(1,2,4) [unfolded persisted_wf_def state_labels_fit_def list_all_iff] assms(3) [unfolded state_refusal_None]
  have records: "takes (write_list write_record (ps_records ps)) (4 + 8000 * length (ps_records ps))"
    by (rule takes_list, rule takes_record) (use parts in auto)
  have profiles: "takes (write_list write_profile (ps_profiles ps)) (4 + 2100 * length (ps_profiles ps))"
    by (rule takes_list, rule takes_profile) (use parts in auto)
  have devices: "takes (write_list write_device (ps_devices ps)) (4 + 300 * length (ps_devices ps))"
    by (rule takes_list, rule takes_device) (use parts in auto)
  have publishers: "takes (write_list write_publisher (ps_publishers ps)) (4 + 300 * length (ps_publishers ps))"
    by (rule takes_list, rule takes_publisher) (use parts in auto)
  have ids: "id_wf (ps_fabric ps)" "id_wf (ps_site ps)" using parts by auto
  show ?thesis
    unfolding write_state_def
    by (rule takes_more, (rule takes_cons takes_nil records profiles devices publishers sizes ids)+)
      (simp add: state_size_def)
qed

lemma persisted_wf_parts:
  "persisted_wf ps \<Longrightarrow> persisted_wf (ps\<lparr>ps_profiles := []\<rparr>) \<and> list_all profile_wf (ps_profiles ps)"
  by (simp add: persisted_wf_def list_all_iff)

lemma encode_fits:
  assumes "persisted_wf (ps\<lparr>ps_profiles := []\<rparr>)" "list_all profile_wf (ps_profiles ps)"
    "state_refusal ps = None" "state_labels_fit ps" "state_size ps \<le> container_payload_limit"
  shows "\<exists>bytes. encode_persisted_state ps = (success ''state encoded'', bytes) \<and>
    length bytes \<le> container_header_size + state_size ps"
  using takes_open [OF takes_state [OF assms(1-4)] assms(5)]
  by (simp add: encode_persisted_state_def assms(3) Let_def container_header_eq container_header_size_def)


text \<open>The sample: the configured port, a profile, and their device and publisher.\<close>

definition sample_profile :: port_profile where
  "sample_profile = \<lparr>pp_id = ''core'', pp_generation = 1, pp_name = ''core'', pp_description = [],
     pp_configuration = no_profile_configuration, pp_provenance = no_provenance\<lparr>pv_kind := PK_Operator, pv_epoch := 7\<rparr>\<rparr>"

definition sample_state :: persisted_state where
  "sample_state = \<lparr>ps_fabric = ''fabric'', ps_site = ''site'', ps_epoch = 7, ps_engine_generation = 3,
     ps_topology = 1, ps_records = [configured_port], ps_profiles = [sample_profile],
     ps_devices = [\<lparr>dv_device = ''leaf'', dv_generation = 3, dv_source = []\<rparr>],
     ps_publishers = [\<lparr>pub_publisher = ''agent'', pub_boot = ''boot-1'', pub_epoch = 7, pub_fenced = False\<rparr>]\<rparr>"

lemma sample_ids:
  "id_wf ''fabric''" "id_wf ''site''" "id_wf ''p1''" "id_wf ''leaf''" "id_wf ''agent''" "id_wf ''boot-1''"
  "id_wf ''own-1''" "id_wf ''cfg-1''" "id_wf ''a0''" "id_wf ''core''" "id_wf []"
  by code_simp+

lemma sample_values:
  "speed_wf 100000000000" "speed_wf 0" "mtu_wf 9000" "mtu_wf 0" "lanes_wf sample_lanes"
  "capabilities_wf (cb_capabilities sample_capability)"
  "capabilities_validate (cb_capabilities sample_capability) = None"
  by code_simp+

lemma sample_record_wf: "record_wf configured_port"
  using sample_ids sample_values
  by (simp add: record_wf_def configured_port_def fresh_port_def empty_record_def configuration_wf_def
      ownership_wf_def binding_wf_def provenance_wf_def sample_config_def sample_request_def
      sample_owner_def no_configuration_def no_provenance_def no_last_mutation_def sample_capability_def
      no_aggregation_def no_profile_def no_binding_def)

lemma sample_state_wf: "persisted_wf sample_state"
  using sample_ids sample_values sample_record_wf
  by (simp add: persisted_wf_def sample_state_def profile_wf_def sample_profile_def mtu_recoverable_def
      no_profile_configuration_def provenance_wf_def no_provenance_def id_valid_def gen_valid_def
      configured_port_def fresh_port_def)

lemma sample_state_valid: "state_refusal sample_state = None"
proof -
  have "record_validate configured_port = None" by code_simp
  moreover have "profile_validate sample_profile = None" by code_simp
  ultimately show ?thesis
    by (simp add: state_refusal_None sample_state_def max_persisted_records_def max_profiles_def
        max_devices_def max_publishers_def)
qed

lemma sample_state_fits: "state_labels_fit sample_state" "state_size sample_state \<le> container_payload_limit"
  by (simp_all add: state_labels_fit_def labels_fit_def state_size_def container_payload_limit_def
      max_name_length_def sample_state_def sample_profile_def configured_port_def fresh_port_def
      sample_capability_def empty_record_def sample_config_def no_provenance_def no_binding_def
      no_applied_def no_profile_configuration_def)


lemma sample_state_encodes: "outcome_ok (fst (encode_persisted_state sample_state))"
  using encode_fits [OF conjunct1 [OF persisted_wf_parts] conjunct2 [OF persisted_wf_parts]
      sample_state_valid sample_state_fits] sample_state_wf
  by (auto simp: outcome_ok_def)

theorem container_roundtrip_witness:
  "decode_persisted_state (snd (encode_persisted_state sample_state)) = Inr sample_state"
  by (rule container_roundtrip [OF sample_state_wf prod.collapse [symmetric] sample_state_encodes])

theorem container_detects_byte_damage_witness:
  "\<exists>after answer. decode_persisted_state ([CHR ''P''] @ after) = Inr sample_state \<and>
     decode_persisted_state ([CHR ''Q''] @ after) = Inl answer"
proof -
  let ?bytes = "snd (encode_persisted_state sample_state)"
  have good: "decode_persisted_state ?bytes = Inr sample_state"
    by (rule encoded_state_decodes [OF sample_state_wf prod.collapse [symmetric] sample_state_encodes])
  then have "take 8 ?bytes = container_magic"
    by (auto simp: decode_persisted_state_def container_payload_def split: sum.splits if_splits)
  then obtain after where "?bytes = [] @ [CHR ''P''] @ after"
    by (cases ?bytes) (auto simp: container_magic_def)
  with container_detects_byte_damage [of "[]" "CHR ''P''" after sample_state "CHR ''Q''"] good
  show ?thesis by auto
qed

text \<open>The sample with an unspecified MTU in its profile.\<close>

definition odd_state :: persisted_state where
  "odd_state = sample_state\<lparr>ps_profiles := [sample_profile\<lparr>pp_configuration :=
     no_profile_configuration\<lparr>pf_mtu := 9000\<rparr>\<rparr>]\<rparr>"

lemma odd_state_wf: "persisted_wf (odd_state\<lparr>ps_profiles := []\<rparr>)" "list_all profile_wf (ps_profiles odd_state)"
  using persisted_wf_parts [OF sample_state_wf] sample_values
  by (simp_all add: odd_state_def sample_state_def profile_wf_def sample_profile_def no_profile_configuration_def)

lemma odd_state_encodes: "outcome_ok (fst (encode_persisted_state odd_state))"
proof -
  have "profile_validate (sample_profile\<lparr>pp_configuration := no_profile_configuration\<lparr>pf_mtu := 9000\<rparr>\<rparr>) = None"
    by code_simp
  then have "state_refusal odd_state = None"
    using sample_state_valid by (simp add: state_refusal_None odd_state_def sample_state_def)
  moreover have "state_labels_fit odd_state" "state_size odd_state \<le> container_payload_limit"
    using sample_state_fits
    by (simp_all add: state_labels_fit_def state_size_def odd_state_def sample_state_def)
  ultimately show ?thesis using encode_fits [OF odd_state_wf] by (auto simp: outcome_ok_def)
qed

theorem unspecified_mtu_makes_container_unreadable_witness:
  "outcome_ok (fst (encode_persisted_state odd_state)) \<and>
   (\<exists>error. decode_persisted_state (snd (encode_persisted_state odd_state)) = Inl error)"
proof
  show "outcome_ok (fst (encode_persisted_state odd_state))" by (rule odd_state_encodes)
  show "\<exists>error. decode_persisted_state (snd (encode_persisted_state odd_state)) = Inl error"
    by (rule unspecified_mtu_makes_container_unreadable [OF odd_state_wf _ prod.collapse [symmetric] odd_state_encodes])
      (simp add: odd_state_def mtu_recoverable_def no_profile_configuration_def)
qed

end
