(* ===== verification/Messages.thy ===== *)
theory Messages
  imports Frame Container_Size
begin

text \<open>
  The messages of the control protocol, \<open>src/protocol.cpp\<close> and \<open>include/portfabric/protocol.hpp\<close>: the
  session messages, the mutation request, the query and its response, and the outcome, with the
  encoder and the decoder of each. An enumerator that a decoder does not check is the byte it came as.
\<close>

section \<open>Kinds\<close>

datatype query_kind = QK_Port | QK_Configuration | QK_Lifecycle | QK_AdministrativeState
    | QK_Ownership | QK_CapabilityBinding | QK_AppliedEvidence | QK_PortsOfDevice
    | QK_PortsWithLifecycle | QK_PortsRequiringRevalidation | QK_PortsOfOwner | QK_PortsByProfile
    | QK_DerivedPorts | QK_StaleProfileBindings | QK_Explain | QK_Snapshot | QK_EngineInfo
    | QK_Profiles | QK_Devices

primrec query_kind_to_string :: "query_kind \<Rightarrow> string" where
  "query_kind_to_string QK_Port = ''PORT''"
| "query_kind_to_string QK_Configuration = ''CONFIGURATION''"
| "query_kind_to_string QK_Lifecycle = ''LIFECYCLE''"
| "query_kind_to_string QK_AdministrativeState = ''ADMINISTRATIVE_STATE''"
| "query_kind_to_string QK_Ownership = ''OWNERSHIP''"
| "query_kind_to_string QK_CapabilityBinding = ''CAPABILITY_BINDING''"
| "query_kind_to_string QK_AppliedEvidence = ''APPLIED_EVIDENCE''"
| "query_kind_to_string QK_PortsOfDevice = ''PORTS_OF_DEVICE''"
| "query_kind_to_string QK_PortsWithLifecycle = ''PORTS_WITH_LIFECYCLE''"
| "query_kind_to_string QK_PortsRequiringRevalidation = ''PORTS_REQUIRING_REVALIDATION''"
| "query_kind_to_string QK_PortsOfOwner = ''PORTS_OF_OWNER''"
| "query_kind_to_string QK_PortsByProfile = ''PORTS_BY_PROFILE''"
| "query_kind_to_string QK_DerivedPorts = ''DERIVED_PORTS''"
| "query_kind_to_string QK_StaleProfileBindings = ''STALE_PROFILE_BINDINGS''"
| "query_kind_to_string QK_Explain = ''EXPLAIN''"
| "query_kind_to_string QK_Snapshot = ''SNAPSHOT''"
| "query_kind_to_string QK_EngineInfo = ''ENGINE_INFO''"
| "query_kind_to_string QK_Profiles = ''PROFILES''"
| "query_kind_to_string QK_Devices = ''DEVICES''"

definition all_query_kind :: "query_kind list" where
  "all_query_kind = [QK_Port, QK_Configuration, QK_Lifecycle, QK_AdministrativeState,
     QK_Ownership, QK_CapabilityBinding, QK_AppliedEvidence, QK_PortsOfDevice,
     QK_PortsWithLifecycle, QK_PortsRequiringRevalidation, QK_PortsOfOwner, QK_PortsByProfile,
     QK_DerivedPorts, QK_StaleProfileBindings, QK_Explain, QK_Snapshot, QK_EngineInfo,
     QK_Profiles, QK_Devices]"

definition query_kind_table :: "(string \<times> query_kind) list" where
  "query_kind_table = [(''PORT'', QK_Port), (''CONFIGURATION'', QK_Configuration),
     (''LIFECYCLE'', QK_Lifecycle), (''ADMINISTRATIVE_STATE'', QK_AdministrativeState),
     (''OWNERSHIP'', QK_Ownership), (''CAPABILITY_BINDING'', QK_CapabilityBinding),
     (''APPLIED_EVIDENCE'', QK_AppliedEvidence), (''PORTS_OF_DEVICE'', QK_PortsOfDevice),
     (''PORTS_WITH_LIFECYCLE'', QK_PortsWithLifecycle),
     (''PORTS_REQUIRING_REVALIDATION'', QK_PortsRequiringRevalidation),
     (''PORTS_OF_OWNER'', QK_PortsOfOwner), (''PORTS_BY_PROFILE'', QK_PortsByProfile),
     (''DERIVED_PORTS'', QK_DerivedPorts), (''STALE_PROFILE_BINDINGS'', QK_StaleProfileBindings),
     (''EXPLAIN'', QK_Explain), (''SNAPSHOT'', QK_Snapshot), (''ENGINE_INFO'', QK_EngineInfo),
     (''PROFILES'', QK_Profiles), (''DEVICES'', QK_Devices)]"

definition parse_query_kind :: "string \<Rightarrow> query_kind option" where
  "parse_query_kind t = first_match t query_kind_table"

interpretation query_kind_text: enum_text query_kind_to_string query_kind_table all_query_kind
proof
  show "query_kind_table = map (\<lambda>e. (query_kind_to_string e, e)) all_query_kind"
    by (simp add: query_kind_table_def all_query_kind_def)
  show "e \<in> set all_query_kind" for e
    by (cases e) (simp_all add: all_query_kind_def)
  show "distinct (map query_kind_to_string all_query_kind)"
    by (simp add: all_query_kind_def)
qed

section \<open>Encoding and decoding\<close>

definition encoding :: "outcome \<Rightarrow> (writer \<Rightarrow> writer) \<Rightarrow> outcome \<times> string" where
  "encoding refusal f =
     (let w = f (open_writer max_frame_bytes)
      in (if wr_ok w then success ''encoded'' else refusal, wr_out w))"

text \<open>A decoder that ignores what follows the message, and one that refuses it.\<close>

definition decoding :: "(outcome, 'a) reader \<Rightarrow> string \<Rightarrow> outcome + 'a" where
  "decoding r bytes = (case r bytes of Inl answer \<Rightarrow> Inl answer | Inr (x, _) \<Rightarrow> Inr x)"

definition decoding_all :: "string \<Rightarrow> (outcome, 'a) reader \<Rightarrow> string \<Rightarrow> outcome + 'a" where
  "decoding_all trailing r bytes =
     (case r bytes of
        Inl answer \<Rightarrow> Inl answer
      | Inr (x, rest) \<Rightarrow> if rest \<noteq> [] then Inl (transport trailing) else Inr x)"

lemma encoded_decodes:
  assumes "codec f r x" "encoding refusal f = (answer, bytes)" "outcome_ok answer" "\<not> outcome_ok refusal"
  shows "decoding r bytes = Inr x" "decoding_all trailing r bytes = Inr x"
proof -
  have "wr_ok (f (open_writer max_frame_bytes))" and bytes: "bytes = wr_out (f (open_writer max_frame_bytes))"
    using assms(2-4) by (auto simp: encoding_def Let_def split: if_splits)
  then have "r (bytes @ rest) = Inr (x, rest)" for rest
    using assms(1) unfolding codec_def by (metis open_writer_def append_Nil writer.select_convs(1))
  from this [of "[]"] show "decoding r bytes = Inr x" "decoding_all trailing r bytes = Inr x"
    by (simp_all add: decoding_def decoding_all_def)
qed

section \<open>Session messages\<close>

record hello_message =
  hm_version :: u16
  hm_publisher :: strong_id
  hm_boot :: strong_id
  hm_epoch :: generation
  hm_role :: string

record hello_ack_message =
  ha_accepted :: bool
  ha_epoch :: generation
  ha_detail :: string

record register_message =
  rm_publisher :: strong_id
  rm_boot :: strong_id
  rm_epoch :: generation

record fence_message =
  fm_publisher :: strong_id
  fm_boot :: strong_id
  fm_detail :: string

definition write_hello :: "hello_message \<Rightarrow> writer \<Rightarrow> writer" where
  "write_hello m = write_all [write_u16 (hm_version m), write_id (hm_publisher m), write_id (hm_boot m),
     write_u64 (hm_epoch m), write_text max_name_length (hm_role m)]"

definition encode_hello :: "hello_message \<Rightarrow> outcome \<times> string" where
  "encode_hello m =
     encoding (failure OC_MalformedRequest ''the hello message could not be encoded'') (write_hello m)"

definition read_hello :: "(outcome, hello_message) reader" where
  "read_hello =
     (let bad = transport ''the hello message is malformed''
      in reading (labelled bad read_u16) (\<lambda>version.
         requiring (version = protocol_version) (transport ''the peer speaks an unsupported protocol version'')
         (reading (labelled bad read_strong_id) (\<lambda>publisher.
          reading (labelled bad read_strong_id) (\<lambda>boot.
          reading (labelled bad read_u64) (\<lambda>epoch.
          reading (labelled bad (read_text max_name_length)) (\<lambda>role.
            returning \<lparr>hm_version = version, hm_publisher = publisher, hm_boot = boot, hm_epoch = epoch,
              hm_role = role\<rparr>)))))))"

definition decode_hello :: "string \<Rightarrow> outcome + hello_message" where
  "decode_hello = decoding_all ''the hello message carries trailing bytes'' read_hello"

definition write_hello_ack :: "hello_ack_message \<Rightarrow> writer \<Rightarrow> writer" where
  "write_hello_ack m = write_all [write_boolean (ha_accepted m), write_u64 (ha_epoch m),
     write_text max_description_length (ha_detail m)]"

definition encode_hello_ack :: "hello_ack_message \<Rightarrow> outcome \<times> string" where
  "encode_hello_ack m =
     encoding (failure OC_MalformedRequest ''the hello acknowledgement is too large'') (write_hello_ack m)"

definition read_hello_ack :: "hello_ack_message plain_reader" where
  "read_hello_ack =
     reading read_boolean (\<lambda>accepted.
     reading read_u64 (\<lambda>epoch.
     reading (read_text max_description_length) (\<lambda>detail.
       returning \<lparr>ha_accepted = accepted, ha_epoch = epoch, ha_detail = detail\<rparr>)))"

definition decode_hello_ack :: "string \<Rightarrow> outcome + hello_ack_message" where
  "decode_hello_ack = decoding (labelled (transport ''the hello acknowledgement is malformed'') read_hello_ack)"

definition write_register :: "register_message \<Rightarrow> writer \<Rightarrow> writer" where
  "write_register m = write_all [write_id (rm_publisher m), write_id (rm_boot m), write_u64 (rm_epoch m)]"

definition encode_register_publisher :: "register_message \<Rightarrow> outcome \<times> string" where
  "encode_register_publisher m =
     encoding (failure OC_MalformedRequest ''the publisher registration could not be encoded'') (write_register m)"

definition read_register :: "register_message plain_reader" where
  "read_register =
     reading read_strong_id (\<lambda>publisher.
     reading read_strong_id (\<lambda>boot.
     reading read_u64 (\<lambda>epoch.
       returning \<lparr>rm_publisher = publisher, rm_boot = boot, rm_epoch = epoch\<rparr>)))"

definition decode_register_publisher :: "string \<Rightarrow> outcome + register_message" where
  "decode_register_publisher =
     decoding (labelled (transport ''the publisher registration is malformed'') read_register)"

definition write_fence :: "fence_message \<Rightarrow> writer \<Rightarrow> writer" where
  "write_fence m = write_all [write_id (fm_publisher m), write_id (fm_boot m),
     write_text max_description_length (fm_detail m)]"

definition encode_fence :: "fence_message \<Rightarrow> outcome \<times> string" where
  "encode_fence m =
     encoding (failure OC_MalformedRequest ''the fence message could not be encoded'') (write_fence m)"

definition read_fence :: "fence_message plain_reader" where
  "read_fence =
     reading read_strong_id (\<lambda>publisher.
     reading read_strong_id (\<lambda>boot.
     reading (read_text max_description_length) (\<lambda>detail.
       returning \<lparr>fm_publisher = publisher, fm_boot = boot, fm_detail = detail\<rparr>)))"

definition decode_fence :: "string \<Rightarrow> outcome + fence_message" where
  "decode_fence = decoding (labelled (transport ''the fence message is malformed'') read_fence)"

section \<open>Mutations\<close>

record mutation_message =
  mm_kind :: u8
  mm_authority :: authority_context
  mm_port :: strong_id
  mm_parent_device :: strong_id
  mm_device_generation :: generation
  mm_has_configuration :: bool
  mm_configuration :: port_configuration
  mm_administrative_op :: u8
  mm_profile :: strong_id
  mm_profile_generation :: generation
  mm_release :: bool
  mm_capability :: capability_binding
  mm_detail :: string
  mm_owner_kind :: u8
  mm_owner :: strong_id
  mm_exclusive :: bool
  mm_evidence :: applied_evidence
  mm_drift :: u8
  mm_provenance_kind :: u8
  mm_provenance_source :: string

definition mutation_message_to_string :: "mutation_message \<Rightarrow> string" where
  "mutation_message_to_string m =
     ''kind='' @ format_u64 (ucast (mm_kind m)) @ '' port='' @ id_or_none (mm_port m) @
     '' authority=['' @ authority_to_string (mm_authority m) @ '']''"

definition write_mutation :: "mutation_message \<Rightarrow> writer \<Rightarrow> writer" where
  "write_mutation m = write_all
     [write_u8 (mm_kind m), write_authority (mm_authority m), write_id (mm_port m),
      write_id (mm_parent_device m), write_u64 (mm_device_generation m),
      write_boolean (mm_has_configuration m),
      if mm_has_configuration m then write_configuration (mm_configuration m) else write_all [],
      write_u8 (mm_administrative_op m), write_id (mm_profile m), write_u64 (mm_profile_generation m),
      write_boolean (mm_release m), write_capability_binding (mm_capability m),
      write_text max_description_length (mm_detail m), write_u8 (mm_owner_kind m), write_id (mm_owner m),
      write_boolean (mm_exclusive m), write_applied (mm_evidence m), write_u8 (mm_drift m),
      write_u8 (mm_provenance_kind m), write_text max_name_length (mm_provenance_source m)]"

definition encode_mutation :: "mutation_message \<Rightarrow> outcome \<times> string" where
  "encode_mutation m =
     encoding (failure OC_MalformedRequest ''the mutation message exceeds the frame bound'') (write_mutation m)"

definition read_mutation :: "(outcome, mutation_message) reader" where
  "read_mutation =
     (let bad = transport ''the mutation message is malformed''
      in reading (labelled bad read_u8) (\<lambda>kind.
         reading (labelled (transport ''the authority context is malformed'') read_authority) (\<lambda>authority.
         reading (labelled (transport ''the port identity is malformed'') read_strong_id) (\<lambda>port.
         reading (labelled (transport ''the parent device is malformed'') read_strong_id) (\<lambda>parent.
         reading (labelled bad read_u64) (\<lambda>device_generation.
         reading (labelled bad read_boolean) (\<lambda>has.
         reading (if has then labelled (transport ''the configuration is malformed'') read_configuration
                  else returning no_configuration) (\<lambda>configuration.
         reading (labelled bad read_u8) (\<lambda>administrative_op.
         reading (labelled (transport ''the profile identity is malformed'') read_strong_id) (\<lambda>profile.
         reading (labelled bad read_u64) (\<lambda>profile_generation.
         reading (labelled bad read_boolean) (\<lambda>release.
         reading (labelled (transport ''the capability binding is malformed'') read_capability_binding) (\<lambda>capability.
         reading (labelled bad (read_text max_description_length)) (\<lambda>detail.
         reading (labelled bad read_u8) (\<lambda>owner_kind.
         reading (labelled (transport ''the owner identity is malformed'') read_strong_id) (\<lambda>owner.
         reading (labelled bad read_boolean) (\<lambda>exclusive.
         reading (labelled (transport ''the applied evidence is malformed'') read_applied) (\<lambda>evidence.
         reading (labelled bad read_u8) (\<lambda>drift.
         reading (labelled bad read_u8) (\<lambda>provenance_kind.
         reading (labelled bad (read_text max_name_length)) (\<lambda>provenance_source.
           returning \<lparr>mm_kind = kind, mm_authority = authority, mm_port = port, mm_parent_device = parent,
             mm_device_generation = device_generation, mm_has_configuration = has,
             mm_configuration = configuration, mm_administrative_op = administrative_op,
             mm_profile = profile, mm_profile_generation = profile_generation, mm_release = release,
             mm_capability = capability, mm_detail = detail, mm_owner_kind = owner_kind,
             mm_owner = owner, mm_exclusive = exclusive, mm_evidence = evidence, mm_drift = drift,
             mm_provenance_kind = provenance_kind, mm_provenance_source = provenance_source\<rparr>)))))))))))))))))))))"

definition decode_mutation :: "string \<Rightarrow> outcome + mutation_message" where
  "decode_mutation = decoding_all ''the mutation message carries trailing bytes'' read_mutation"

section \<open>Queries\<close>

record query_message =
  qm_kind :: query_kind
  qm_port :: strong_id
  qm_device :: strong_id
  qm_owner :: strong_id
  qm_profile :: strong_id
  qm_lifecycle :: port_lifecycle
  qm_administrative :: administrative_state

definition write_query :: "query_message \<Rightarrow> writer \<Rightarrow> writer" where
  "write_query m = write_all [write_enum all_query_kind (qm_kind m), write_id (qm_port m),
     write_id (qm_device m), write_id (qm_owner m), write_id (qm_profile m),
     write_enum all_port_lifecycle (qm_lifecycle m), write_enum all_administrative_state (qm_administrative m)]"

definition encode_query :: "query_message \<Rightarrow> outcome \<times> string" where
  "encode_query m =
     encoding (failure OC_MalformedRequest ''the query message could not be encoded'') (write_query m)"

definition read_query :: "(outcome, query_message) reader" where
  "read_query =
     (let bad = transport ''the query message is malformed''
      in reading (labelled bad read_u8) (\<lambda>kind.
         requiring (unat kind < length all_query_kind)
           (failure OC_MalformedRequest ''the query selector is not a legal value'')
         (reading (labelled bad read_strong_id) (\<lambda>port.
          reading (labelled bad read_strong_id) (\<lambda>device.
          reading (labelled bad read_strong_id) (\<lambda>owner.
          reading (labelled bad read_strong_id) (\<lambda>profile.
          reading (labelled bad read_u8) (\<lambda>lifecycle.
          reading (labelled bad read_u8) (\<lambda>administrative.
          requiring (unat lifecycle < length all_port_lifecycle \<and> unat administrative < length all_administrative_state)
            (failure OC_MalformedRequest ''the query carries an invalid lifecycle or administrative state'')
          (returning \<lparr>qm_kind = all_query_kind ! unat kind, qm_port = port, qm_device = device,
             qm_owner = owner, qm_profile = profile, qm_lifecycle = all_port_lifecycle ! unat lifecycle,
             qm_administrative = all_administrative_state ! unat administrative\<rparr>))))))))))"

definition decode_query :: "string \<Rightarrow> outcome + query_message" where
  "decode_query = decoding read_query"

section \<open>Outcomes on the wire\<close>

text \<open>An outcome as it travels: the decoder takes any byte for a code.\<close>

record wire_outcome =
  wo_code :: u8
  wo_message :: string
  wo_details :: "(string \<times> string) list"

definition wire_outcome_of :: "outcome \<Rightarrow> wire_outcome" where
  "wire_outcome_of oc = \<lparr>wo_code = of_nat (enum_index all_outcome_code (oc_code oc)),
     wo_message = oc_message oc, wo_details = oc_details oc\<rparr>"

definition write_detail :: "string \<times> string \<Rightarrow> writer \<Rightarrow> writer" where
  "write_detail d = write_all [write_text max_name_length (fst d), write_text max_description_length (snd d)]"

definition write_outcome :: "wire_outcome \<Rightarrow> writer \<Rightarrow> writer" where
  "write_outcome m = write_all [write_u8 (wo_code m), write_text max_description_length (wo_message m),
     write_list write_detail (wo_details m)]"

definition read_detail :: "(string \<times> string) plain_reader" where
  "read_detail =
     reading (read_text max_name_length) (\<lambda>key.
     reading (read_text max_description_length) (\<lambda>value. returning (key, value)))"

definition keep_detail :: "(string \<times> string) list \<Rightarrow> string \<times> string \<Rightarrow> (string \<times> string) list" where
  "keep_detail kept d =
     (if max_outcome_details \<le> length kept then kept
      else kept @ [(take max_name_length (single_line (fst d)),
                    take max_description_length (single_line (snd d)))])"

definition read_outcome :: "wire_outcome plain_reader" where
  "read_outcome =
     reading read_u8 (\<lambda>code.
     reading (read_text max_description_length) (\<lambda>message.
     reading (read_bounded_count max_outcome_details) (\<lambda>n.
     reading (read_times n read_detail) (\<lambda>details.
       returning \<lparr>wo_code = code, wo_message = take max_description_length (single_line message),
         wo_details = foldl keep_detail [] details\<rparr>))))"

definition encode_outcome :: "wire_outcome \<Rightarrow> outcome \<times> string" where
  "encode_outcome m =
     encoding (failure OC_MalformedRequest ''the outcome could not be encoded'') (write_outcome m)"

definition decode_outcome :: "string \<Rightarrow> outcome + wire_outcome" where
  "decode_outcome = decoding (labelled (transport ''the outcome is malformed'') read_outcome)"

section \<open>Query responses\<close>

record query_response =
  qr_outcome :: wire_outcome
  qr_kind :: query_kind
  qr_ports :: "strong_id list"
  qr_records :: "port_record list"
  qr_profiles :: "port_profile list"
  qr_devices :: "device_binding list"
  qr_text :: string
  qr_generation :: generation
  qr_epoch :: generation
  qr_digest :: digest

definition max_snapshot_ports :: nat where "max_snapshot_ports = 1000000"
definition max_query_text_bytes :: nat where "max_query_text_bytes = 8192"

definition write_response_head :: "query_response \<Rightarrow> writer \<Rightarrow> writer" where
  "write_response_head m = write_all [write_outcome (qr_outcome m), write_enum all_query_kind (qr_kind m)]"

definition write_response :: "query_response \<Rightarrow> writer \<Rightarrow> writer" where
  "write_response m = write_all [write_outcome (qr_outcome m), write_enum all_query_kind (qr_kind m),
     write_list write_id (qr_ports m), write_list write_record (qr_records m),
     write_list write_profile (qr_profiles m), write_list write_device (qr_devices m),
     write_text max_query_text_bytes (qr_text m), write_u64 (qr_generation m), write_u64 (qr_epoch m),
     write_text 64 (bytes_to_hex (qr_digest m))]"

definition encode_query_response :: "query_response \<Rightarrow> outcome \<times> string" where
  "encode_query_response m =
     (if max_snapshot_ports < length (qr_ports m)
      then (failure OC_ResourceBoundExceeded ''the query response exceeds the configured port bound'',
            wr_out (write_response_head m (open_writer max_frame_bytes)))
      else encoding (failure OC_ResourceBoundExceeded ''the query response exceeds the configured frame bound'')
             (write_response m))"

definition hex_nibble :: "char \<Rightarrow> nat option" where
  "hex_nibble ch =
     (if is_digit ch then Some (of_char ch - 48)
      else if (97 :: nat) \<le> of_char ch \<and> of_char ch \<le> (102 :: nat) then Some (of_char ch - 97 + 10)
      else None)"

fun hex_bytes :: "string \<Rightarrow> u8 list option" where
  "hex_bytes (a # b # rest) =
     (case (hex_nibble a, hex_nibble b) of
        (Some high, Some low) \<Rightarrow>
          map_option (\<lambda>bytes. (push_bit 4 (of_nat high) OR of_nat low) # bytes) (hex_bytes rest)
      | _ \<Rightarrow> None)"
| "hex_bytes _ = Some []"

text \<open>A bounded group of elements: a bad count and a bad element are different errors.\<close>

definition read_group :: "nat \<Rightarrow> 'a plain_reader \<Rightarrow> outcome \<Rightarrow> outcome \<Rightarrow> (outcome, 'a list) reader" where
  "read_group limit r bad_count bad_element =
     reading (labelled bad_count (read_bounded_count limit)) (\<lambda>n. read_times n (labelled bad_element r))"

definition read_digest :: "(outcome, digest) reader" where
  "read_digest =
     reading (labelled (transport ''the query response outcome is malformed'') (read_text 64)) (\<lambda>t.
       let bad = transport ''the response digest is malformed''
       in if length t \<noteq> 64 then failing bad
          else case hex_bytes t of None \<Rightarrow> failing bad | Some bytes \<Rightarrow> returning bytes)"

definition read_response :: "(outcome, query_response) reader" where
  "read_response =
     (let bad = transport ''the query response outcome is malformed''
      in reading (labelled bad read_outcome) (\<lambda>oc.
         reading (labelled bad (read_enum all_query_kind)) (\<lambda>kind.
         reading (read_group max_snapshot_ports read_strong_id bad (transport ''a port identity is malformed'')) (\<lambda>ports.
         reading (read_group max_snapshot_ports read_record bad (transport ''a port record is malformed'')) (\<lambda>records.
         reading (read_group max_profiles read_profile bad (transport ''a profile is malformed'')) (\<lambda>profiles.
         reading (read_group max_devices read_device bad (transport ''a device binding is malformed'')) (\<lambda>devices.
         reading (labelled bad (read_text max_query_text_bytes)) (\<lambda>t.
         reading (labelled bad read_u64) (\<lambda>generation.
         reading (labelled bad read_u64) (\<lambda>epoch.
         reading read_digest (\<lambda>digest.
           returning \<lparr>qr_outcome = oc, qr_kind = kind, qr_ports = ports, qr_records = records,
             qr_profiles = profiles, qr_devices = devices, qr_text = t, qr_generation = generation,
             qr_epoch = epoch, qr_digest = digest\<rparr>)))))))))))"

definition decode_query_response :: "string \<Rightarrow> outcome + query_response" where
  "decode_query_response = decoding_all ''the query response carries trailing bytes'' read_response"

section \<open>Round trips\<close>

lemma codec_choice:
  "(has \<Longrightarrow> codec f r x) \<Longrightarrow> (\<not> has \<Longrightarrow> x = d) \<Longrightarrow>
   codec (if has then f else write_all []) (if has then r else returning d) x"
  by (simp add: codec_end)

lemma codec_hello:
  assumes "id_wf (hm_publisher m)" "id_wf (hm_boot m)" "hm_version m = protocol_version"
  shows "codec (write_hello m) read_hello m"
  unfolding write_hello_def read_hello_def Let_def
  by (rule codec_then codec_labelled codec_requiring codecs codec_end | use assms in \<open>simp; fail\<close>)+

lemma codec_hello_ack: "codec (write_hello_ack m) read_hello_ack m"
  unfolding write_hello_ack_def read_hello_ack_def
  by (rule codec_then codecs codec_end | simp; fail)+

lemma codec_register: "id_wf (rm_publisher m) \<Longrightarrow> id_wf (rm_boot m) \<Longrightarrow> codec (write_register m) read_register m"
  unfolding write_register_def read_register_def
  by (rule codec_then codecs codec_end | simp; fail)+

lemma codec_fence: "id_wf (fm_publisher m) \<Longrightarrow> id_wf (fm_boot m) \<Longrightarrow> codec (write_fence m) read_fence m"
  unfolding write_fence_def read_fence_def
  by (rule codec_then codecs codec_end | simp; fail)+

text \<open>The values the request classes can hold.\<close>

definition mutation_wf :: "mutation_message \<Rightarrow> bool" where
  "mutation_wf m \<longleftrightarrow> authority_wf (mm_authority m) \<and> id_wf (mm_port m) \<and> id_wf (mm_parent_device m) \<and>
     id_wf (mm_profile m) \<and> id_wf (mm_owner m) \<and> binding_wf (mm_capability m) \<and>
     binding_valid (mm_capability m) \<and> capabilities_validate (cb_capabilities (mm_capability m)) = None \<and>
     (if mm_has_configuration m
      then configuration_wf (mm_configuration m) \<and> mtu_valid (pc_mtu (mm_configuration m)) \<and>
        lanes_valid (pc_lanes (mm_configuration m))
      else mm_configuration m = no_configuration)"

lemma codec_mutation:
  assumes "mutation_wf m"
  shows "codec (write_mutation m) read_mutation m"
proof -
  have configuration: "codec
      (if mm_has_configuration m then write_configuration (mm_configuration m) else write_all [])
      (if mm_has_configuration m then labelled e read_configuration else returning no_configuration)
      (mm_configuration m)" for e
    by (rule codec_choice) (use assms in \<open>auto simp: mutation_wf_def intro: codec_labelled codec_configuration\<close>)
  show ?thesis
    unfolding write_mutation_def read_mutation_def Let_def
    by (rule codec_then configuration codec_labelled codec_words codec_boolean codec_authority codec_strong_id
        codec_binding codec_texts codec_applied codec_end
        | use assms in \<open>simp add: mutation_wf_def; fail\<close>)+
qed

lemma enum_bytes:
  "unat (of_nat (enum_index all_query_kind k) :: u8) = enum_index all_query_kind k"
  "unat (of_nat (enum_index all_port_lifecycle l) :: u8) = enum_index all_port_lifecycle l"
  "unat (of_nat (enum_index all_administrative_state a) :: u8) = enum_index all_administrative_state a"
  using enum_index_nth [OF query_kind_text.complete, of k] enum_index_nth [OF port_lifecycle_text.complete, of l]
    enum_index_nth [OF administrative_state_text.complete, of a]
  by (simp_all add: unat_of_nat all_query_kind_def all_port_lifecycle_def all_administrative_state_def)

lemma codec_query:
  assumes "id_wf (qm_port m)" "id_wf (qm_device m)" "id_wf (qm_owner m)" "id_wf (qm_profile m)"
  shows "codec (write_query m) read_query m"
  unfolding write_query_def read_query_def Let_def write_enum_def
  by (rule codec_then codec_labelled codec_requiring codec_words codec_strong_id codec_end assms
      | simp add: enum_bytes enum_index_nth query_kind_text.complete port_lifecycle_text.complete
          administrative_state_text.complete; fail)+

definition detail_clean :: "string \<times> string \<Rightarrow> bool" where
  "detail_clean d \<longleftrightarrow> single_line (fst d) = fst d \<and> single_line (snd d) = snd d \<and>
     length (fst d) \<le> max_name_length \<and> length (snd d) \<le> max_description_length"

definition outcome_clean :: "wire_outcome \<Rightarrow> bool" where
  "outcome_clean m \<longleftrightarrow> single_line (wo_message m) = wo_message m \<and>
     length (wo_message m) \<le> max_description_length \<and>
     length (wo_details m) \<le> max_outcome_details \<and> list_all detail_clean (wo_details m)"

lemma keep_details:
  "length (kept @ ds) \<le> max_outcome_details \<Longrightarrow> list_all detail_clean ds \<Longrightarrow> foldl keep_detail kept ds = kept @ ds"
  by (induction ds arbitrary: kept) (simp_all add: keep_detail_def detail_clean_def)

lemma codec_detail [codecs]: "codec (write_detail d) read_detail d"
  unfolding write_detail_def read_detail_def
  by (rule codec_then codecs codec_end | simp; fail)+

lemma read_empty: "\<forall>y. read_detail [] \<noteq> Inr y" "\<forall>y. read_strong_id [] \<noteq> Inr y"
  using empty_input by (simp_all add: read_detail_def reading_def read_text_def read_u32_def read_word_def read_raw_def)

lemma codec_outcome:
  assumes "outcome_clean m"
  shows "codec (write_outcome m) read_outcome m"
proof -
  let ?k = "\<lambda>n. reading (read_times n read_detail) (\<lambda>details. returning \<lparr>wo_code = wo_code m,
      wo_message = take max_description_length (single_line (wo_message m)),
      wo_details = foldl keep_detail [] details\<rparr>)"
  have same: "\<lparr>wo_code = wo_code m, wo_message = take max_description_length (single_line (wo_message m)),
      wo_details = foldl keep_detail [] (wo_details m)\<rparr> = m"
    using assms keep_details [of "[]" "wo_details m"] by (simp add: outcome_clean_def)
  have "codec (write_all (map write_detail (wo_details m))) (?k (length (wo_details m))) m"
    using codec_map [OF codec_times [of "wo_details m" write_detail read_detail],
      of "\<lambda>details. \<lparr>wo_code = wo_code m, wo_message = take max_description_length (single_line (wo_message m)),
        wo_details = foldl keep_detail [] details\<rparr>"] codec_detail same by simp
  then have "codec (write_list write_detail (wo_details m)) (reading (labelled () (read_bounded_count max_outcome_details)) ?k) m"
    using assms read_empty(1) codec_detail
    by (intro codec_counted) (simp_all add: outcome_clean_def max_outcome_details_def)
  then have "codec (write_all [write_list write_detail (wo_details m)])
      (reading (read_bounded_count max_outcome_details) ?k) m"
    by simp
  then show ?thesis
    unfolding write_outcome_def read_outcome_def
    by (intro codec_then [OF codec_words(1)] codec_then [OF codec_texts(2)])
qed

lemma hex_nibble_digit: "n < 16 \<Longrightarrow> hex_nibble (hex_digit n) = Some n"
proof -
  assume "n < 16"
  then have "n \<in> set [0..<16]" by simp
  moreover have "\<forall>n \<in> set [0..<16]. hex_nibble (hex_digit n) = Some n"
    by (simp add: upt_rec hex_nibble_def hex_digit_def is_digit_def)
  ultimately show ?thesis by blast
qed

lemma hex_bytes_roundtrip: "hex_bytes (bytes_to_hex bytes) = Some bytes"
proof (induction bytes)
  case (Cons v bytes)
  have small: "unat (w AND 0x0f) < 16" for w :: u8
  proof -
    have "w AND 0x0f \<le> 0x0f" by (rule word_and_le1)
    then show ?thesis by (simp add: word_le_nat_alt)
  qed
  have "push_bit 4 (drop_bit 4 v AND 0x0f) OR (v AND 0x0f) = v"
  proof -
    have mask: "w AND 0x0f = take_bit 4 w" for w :: u8
      using take_bit_eq_mask [of 4 w] by (simp add: mask_eq_exp_minus_1)
    show ?thesis unfolding mask by (rule bit_word_eqI) (auto simp: bit_simps)
  qed
  with Cons show ?case by (simp add: bytes_to_hex_def hex_nibble_digit small)
qed (simp add: bytes_to_hex_def)

lemma length_bytes_to_hex [simp]: "length (bytes_to_hex bytes) = 2 * length bytes"
  by (induction bytes) (simp_all add: bytes_to_hex_def)

lemma codec_digest:
  assumes "length d = 32"
  shows "codec (write_text 64 (bytes_to_hex d)) read_digest d"
  unfolding read_digest_def
  by (rule codec_single, rule codec_then, rule codec_labelled, rule codec_text)
    (use assms in \<open>simp_all add: hex_bytes_roundtrip codec_end\<close>)

lemma codec_group:
  assumes "length xs \<le> limit" "limit < 2 ^ 32" "\<And>x. x \<in> set xs \<Longrightarrow> codec (f x) r x" "\<forall>y. r [] \<noteq> Inr y"
  shows "codec (write_list f xs) (read_group limit r bad_count bad_element) xs"
proof -
  have "codec (write_all (map f xs)) (read_times (length xs) (labelled bad_element r)) xs"
    by (rule codec_times, rule codec_labelled) (rule assms(3))
  then show ?thesis
    unfolding read_group_def by - (rule codec_counted [OF assms], simp_all)
qed

definition response_wf :: "query_response \<Rightarrow> bool" where
  "response_wf m \<longleftrightarrow> outcome_clean (qr_outcome m) \<and> length (qr_digest m) = 32 \<and>
     length (qr_records m) \<le> max_snapshot_ports \<and> length (qr_profiles m) \<le> max_profiles \<and>
     length (qr_devices m) \<le> max_devices \<and> list_all id_wf (qr_ports m) \<and>
     list_all (\<lambda>r. record_wf r \<and> record_validate r = None \<and>
       capabilities_validate (cb_capabilities (pr_capability r)) = None) (qr_records m) \<and>
     list_all (\<lambda>p. profile_wf p \<and> profile_validate p = None \<and> mtu_recoverable (pp_configuration p)) (qr_profiles m) \<and>
     list_all (\<lambda>d. id_wf (dv_device d) \<and> id_valid (dv_device d) \<and> gen_valid (dv_generation d)) (qr_devices m)"

lemma codec_response:
  assumes "response_wf m" "length (qr_ports m) \<le> max_snapshot_ports"
  shows "codec (write_response m) read_response m"
proof -
  note wf = assms [unfolded response_wf_def list_all_iff]
  have ports: "codec (write_list write_id (qr_ports m)) (read_group max_snapshot_ports read_strong_id b1 b2) (qr_ports m)" for b1 b2
    by (rule codec_group) (use wf in \<open>auto simp: read_empty max_snapshot_ports_def intro: codec_strong_id\<close>)
  have records: "codec (write_list write_record (qr_records m)) (read_group max_snapshot_ports read_record b1 b2) (qr_records m)" for b1 b2
    by (rule codec_group) (use wf in \<open>auto simp: empty_elements max_snapshot_ports_def intro: codec_record\<close>)
  have profiles: "codec (write_list write_profile (qr_profiles m)) (read_group max_profiles read_profile b1 b2) (qr_profiles m)" for b1 b2
    by (rule codec_group) (use wf in \<open>auto simp: empty_elements max_profiles_def intro: codec_profile\<close>)
  have devices: "codec (write_list write_device (qr_devices m)) (read_group max_devices read_device b1 b2) (qr_devices m)" for b1 b2
    by (rule codec_group) (use wf in \<open>auto simp: empty_elements max_devices_def intro: codec_device\<close>)
  have kind: "codec (write_enum all_query_kind (qr_kind m)) (read_enum all_query_kind) (qr_kind m)"
    by (rule codec_enum) (simp_all add: query_kind_text.complete all_query_kind_def [THEN arg_cong, of length])
  have t: "codec (write_text max_query_text_bytes (qr_text m)) (read_text max_query_text_bytes) (qr_text m)"
    by (rule codec_text) (simp add: max_query_text_bytes_def)
  show ?thesis
    unfolding write_response_def read_response_def Let_def
    by (rule codec_then ports records profiles devices kind t codec_labelled codec_outcome codec_digest
        codec_words codec_end | use wf in \<open>simp; fail\<close>)+
qed

text \<open>
  A mutation request crosses the wire unchanged: what a client encodes, the server
  decodes to the same authority context, port, configuration, evidence and selectors, and nothing
  may follow it.
\<close>

theorem mutation_message_roundtrip:
  assumes "mutation_wf m" "encode_mutation m = (answer, bytes)" "outcome_ok answer"
  shows "decode_mutation bytes = Inr m \<and> (\<forall>b rest. \<exists>error. decode_mutation (bytes @ b # rest) = Inl error)"
proof -
  have "codec (write_mutation m) read_mutation m" by (rule codec_mutation [OF assms(1)])
  moreover have "wr_ok (write_mutation m (open_writer max_frame_bytes))"
    and bytes: "bytes = wr_out (write_mutation m (open_writer max_frame_bytes))"
    using assms(2,3) by (auto simp: encode_mutation_def encoding_def outcome_ok_def Let_def split: if_splits)
  ultimately have read: "read_mutation (bytes @ rest) = Inr (m, rest)" for rest
    unfolding codec_def by (metis open_writer_def append_Nil writer.select_convs(1))
  show ?thesis
    using read [of "[]"] read by (simp add: decode_mutation_def decoding_all_def)
qed

text \<open>
  A query and its response cross the wire unchanged: the selector with its arguments,
  and the outcome, the ports, the records, profiles and devices, the text, the generations and the
  digest in hexadecimal.
\<close>

theorem query_exchange_roundtrip:
  assumes "id_wf (qm_port q)" "id_wf (qm_device q)" "id_wf (qm_owner q)" "id_wf (qm_profile q)"
    "encode_query q = (answer, bytes)" "outcome_ok answer"
    "response_wf r" "encode_query_response r = (answer', bytes')" "outcome_ok answer'"
  shows "decode_query bytes = Inr q \<and> decode_query_response bytes' = Inr r"
proof
  have "encoding (failure OC_MalformedRequest ''the query message could not be encoded'') (write_query q) = (answer, bytes)"
    using assms(5) by (simp add: encode_query_def)
  from encoded_decodes(1) [OF codec_query [OF assms(1-4)] this assms(6)]
  show "decode_query bytes = Inr q" by (simp add: decode_query_def outcome_ok_def)
  have few: "length (qr_ports r) \<le> max_snapshot_ports"
    using assms(8,9) by (auto simp: encode_query_response_def outcome_ok_def split: if_splits)
  then have "encoding (failure OC_ResourceBoundExceeded ''the query response exceeds the configured frame bound'')
      (write_response r) = (answer', bytes')"
    using assms(8) by (simp add: encode_query_response_def)
  from encoded_decodes(2) [OF codec_response [OF assms(7) few] this assms(9)]
  show "decode_query_response bytes' = Inr r"
    by (simp add: decode_query_response_def outcome_ok_def)
qed

section \<open>Samples\<close>

lemma takes_authority [sizes]: "authority_wf a \<Longrightarrow> takes (write_authority a) 576"
  unfolding write_authority_def
  by (rule takes_more, (rule takes_cons takes_nil sizes | simp add: authority_wf_def; fail)+)

definition sample_mutation :: mutation_message where
  "sample_mutation = \<lparr>mm_kind = 1, mm_authority = sample_authority ''a0'' 0, mm_port = ''p1'',
     mm_parent_device = ''leaf'', mm_device_generation = 3, mm_has_configuration = True,
     mm_configuration = sample_config, mm_administrative_op = 0, mm_profile = [], mm_profile_generation = 0,
     mm_release = False, mm_capability = sample_capability, mm_detail = [], mm_owner_kind = 0, mm_owner = [],
     mm_exclusive = True, mm_evidence = no_applied, mm_drift = 0, mm_provenance_kind = 1,
     mm_provenance_source = []\<rparr>"

lemma sample_configuration_wf: "configuration_wf sample_config"
  using sample_record_wf by (simp add: record_wf_def configured_port_def)

lemma sample_mutation_wf: "mutation_wf sample_mutation"
proof -
  have "mtu_valid (pc_mtu sample_config)" "lanes_valid (pc_lanes sample_config)"
    "binding_valid sample_capability" by code_simp+
  then show ?thesis
    using sample_ids sample_values sample_configuration_wf
    by (simp add: mutation_wf_def sample_mutation_def authority_wf_def sample_authority_def binding_wf_def
        sample_capability_def no_binding_def)
qed

lemma mutation_encodes:
  assumes "mutation_wf m" "mm_configuration m = sample_config" "mm_capability m = sample_capability"
    "mm_evidence m = no_applied" "mm_detail m = []" "mm_provenance_source m = []"
  shows "outcome_ok (fst (encode_mutation m))"
proof -
  have conf: "takes (write_configuration sample_config) 1700"
    by (rule takes_configuration [OF sample_configuration_wf sample_config_valid])
      (simp add: sample_config_def)
  have bind: "takes (write_capability_binding sample_capability) 1300"
    by (rule takes_binding)
      (use sample_ids sample_values in \<open>simp_all add: binding_wf_def sample_capability_def no_binding_def\<close>)
  have whole: "takes (if mm_has_configuration m then write_configuration (mm_configuration m) else write_all []) 1700"
    using conf assms(2) by (auto intro: takes_more [OF takes_nil])
  have "takes (write_mutation m) 6000"
    unfolding write_mutation_def
    by (rule takes_more, (rule takes_cons takes_nil whole sizes
          | use assms bind in \<open>simp add: mutation_wf_def no_applied_def\<close>; fail)+)
  then have "wr_ok (write_mutation m (open_writer max_frame_bytes))"
    by (rule takes_open [THEN conjunct1]) (simp add: max_frame_bytes_def)
  then show ?thesis by (simp add: encode_mutation_def encoding_def Let_def outcome_ok_def)
qed

lemma sample_mutation_encodes: "outcome_ok (fst (encode_mutation sample_mutation))"
  by (rule mutation_encodes [OF sample_mutation_wf]) (simp_all add: sample_mutation_def)

theorem mutation_message_roundtrip_witness:
  "decode_mutation (snd (encode_mutation sample_mutation)) = Inr sample_mutation"
  using mutation_message_roundtrip [OF sample_mutation_wf prod.collapse [symmetric] sample_mutation_encodes]
  by blast

definition sample_query :: query_message where
  "sample_query = \<lparr>qm_kind = QK_Port, qm_port = ''p1'', qm_device = [], qm_owner = [], qm_profile = [],
     qm_lifecycle = LC_Unconfigured, qm_administrative = Adm_Unknown\<rparr>"

definition sample_response :: query_response where
  "sample_response = \<lparr>qr_outcome = wire_outcome_of (success ''port found''), qr_kind = QK_Port, qr_ports = [''p1''],
     qr_records = [configured_port], qr_profiles = [], qr_devices = [], qr_text = [], qr_generation = 1,
     qr_epoch = 7, qr_digest = replicate 32 0\<rparr>"

lemma sample_query_encodes: "outcome_ok (fst (encode_query sample_query))"
proof -
  have "takes (write_query sample_query) 1000"
    unfolding write_query_def
    by (rule takes_more, (rule takes_cons takes_nil sizes
          | use sample_ids in \<open>simp add: sample_query_def\<close>; fail)+)
  then have "wr_ok (write_query sample_query (open_writer max_frame_bytes))"
    by (rule takes_open [THEN conjunct1]) (simp add: max_frame_bytes_def)
  then show ?thesis by (simp add: encode_query_def encoding_def Let_def outcome_ok_def)
qed

lemma sample_record_valid: "record_validate configured_port = None"
  by code_simp

lemma sample_response_wf: "response_wf sample_response"
  using sample_ids sample_record_wf sample_record_valid sample_values
  by (simp add: response_wf_def sample_response_def max_snapshot_ports_def outcome_clean_def wire_outcome_of_def
      success_def single_line_def max_description_length_def configured_port_def fresh_port_def)

lemma sample_response_encodes: "outcome_ok (fst (encode_query_response sample_response))"
proof -
  have rec: "takes (write_record configured_port) 8000"
    by (rule takes_record [OF sample_record_wf sample_record_valid])
      (use sample_values sample_state_fits(1) in \<open>simp_all add: state_labels_fit_def sample_state_def configured_port_def fresh_port_def\<close>)
  have oc: "takes (write_outcome (wire_outcome_of (success ''port found''))) 2000"
    unfolding write_outcome_def
    by (rule takes_more, (rule takes_cons takes_nil sizes takes_list_bounded [where n = 0 and m = 0]
          | simp add: wire_outcome_of_def success_def max_description_length_def; fail)+)
  have groups: "takes (write_list write_id [''p1'']) (4 + 132 * 1)" "takes (write_list write_record [configured_port]) (4 + 8000 * 1)"
    "takes (write_list write_profile []) (4 + 0 * 0)" "takes (write_list write_device []) (4 + 0 * 0)"
    by (rule takes_list_bounded; use rec sample_ids in \<open>auto intro: takes_id\<close>)+
  have texts: "takes (write_text max_query_text_bytes []) (4 + max_query_text_bytes)"
    "takes (write_text 64 (bytes_to_hex (replicate 32 0))) (4 + 64)"
    by (rule takes_text, simp)+
  have "takes (write_response sample_response) 30000"
    unfolding write_response_def
    by (rule takes_more, (rule takes_cons takes_nil sizes
          | use rec oc groups texts in \<open>simp add: sample_response_def max_query_text_bytes_def\<close>; fail)+)
  then have "wr_ok (write_response sample_response (open_writer max_frame_bytes))"
    by (rule takes_open [THEN conjunct1]) (simp add: max_frame_bytes_def)
  then show ?thesis
    by (simp add: encode_query_response_def encoding_def Let_def outcome_ok_def sample_response_def max_snapshot_ports_def)
qed

theorem query_exchange_roundtrip_witness:
  "decode_query (snd (encode_query sample_query)) = Inr sample_query \<and>
   decode_query_response (snd (encode_query_response sample_response)) = Inr sample_response"
  by (rule query_exchange_roundtrip [OF _ _ _ _ prod.collapse [symmetric] sample_query_encodes
        sample_response_wf prod.collapse [symmetric] sample_response_encodes])
    (use sample_ids in \<open>simp_all add: sample_query_def\<close>)

end
