(* ===== verification/Queries.thy ===== *)
theory Queries
  imports Authority
begin

text \<open>
  The read side of the runtime: the getters and index queries of \<open>src/engine_queries.cpp\<close>, and the
  snapshots of \<open>src/engine_explain.cpp\<close> and \<open>src/snapshot.cpp\<close>. A query that reads a secondary index
  answers from the index alone; that the answer is the one a scan of all records would give is
  the point of the invariant.
\<close>

section \<open>One port\<close>

definition port_count :: "engine \<Rightarrow> nat" where
  "port_count e = length (en_records e)"

definition contains_port :: "strong_id \<Rightarrow> engine \<Rightarrow> bool" where
  "contains_port port e \<longleftrightarrow> port_of e port \<noteq> None"

definition configuration_of :: "strong_id \<Rightarrow> engine \<Rightarrow> port_configuration option" where
  "configuration_of port e = (case port_of e port of None \<Rightarrow> None | Some r \<Rightarrow> pr_configuration r)"

definition lifecycle_of :: "strong_id \<Rightarrow> engine \<Rightarrow> port_lifecycle option" where
  "lifecycle_of port e = map_option pr_lifecycle (port_of e port)"

definition administrative_state_in :: "strong_id \<Rightarrow> engine \<Rightarrow> administrative_state option" where
  "administrative_state_in port e =
     (case port_of e port of
        None \<Rightarrow> None
      | Some r \<Rightarrow> map_option pc_administrative (pr_configuration r))"

definition ownership_of :: "strong_id \<Rightarrow> engine \<Rightarrow> port_ownership option" where
  "ownership_of port e = (case port_of e port of None \<Rightarrow> None | Some r \<Rightarrow> pr_ownership r)"

definition capability_binding_of :: "strong_id \<Rightarrow> engine \<Rightarrow> capability_binding option" where
  "capability_binding_of port e = map_option pr_capability (port_of e port)"

definition applied_evidence_of :: "strong_id \<Rightarrow> engine \<Rightarrow> applied_evidence option" where
  "applied_evidence_of port e = map_option pr_applied (port_of e port)"

definition parent_device_of :: "strong_id \<Rightarrow> engine \<Rightarrow> strong_id option" where
  "parent_device_of port e = map_option pr_parent_device (port_of e port)"

section \<open>Sets of ports\<close>

text \<open>\<open>collect\<close> copies the set of one key in its ascending order.\<close>

definition collect :: "'k \<Rightarrow> 'k index \<Rightarrow> strong_id list" where
  "collect k ix =
     (case map_of ix k of None \<Rightarrow> [] | Some ports \<Rightarrow> sorted_list_of_set ports)"

definition ports_of_device :: "strong_id \<Rightarrow> engine \<Rightarrow> strong_id list" where
  "ports_of_device device e = collect device (ix_by_device (en_indexes e))"

definition ports_with_lifecycle :: "port_lifecycle \<Rightarrow> engine \<Rightarrow> strong_id list" where
  "ports_with_lifecycle state e = collect state (ix_by_lifecycle (en_indexes e))"

definition ports_with_administrative_state :: "administrative_state \<Rightarrow> engine \<Rightarrow> strong_id list" where
  "ports_with_administrative_state state e = collect state (ix_by_administrative (en_indexes e))"

definition ports_of_owner :: "strong_id \<Rightarrow> engine \<Rightarrow> strong_id list" where
  "ports_of_owner owner e = collect owner (ix_by_owner (en_indexes e))"

definition ports_by_profile :: "strong_id \<Rightarrow> engine \<Rightarrow> strong_id list" where
  "ports_by_profile profile e = collect profile (ix_by_profile (en_indexes e))"

definition ports_of_aggregate :: "strong_id \<Rightarrow> engine \<Rightarrow> strong_id list" where
  "ports_of_aggregate aggregate e = collect aggregate (ix_by_aggregate (en_indexes e))"

definition derived_ports :: "strong_id \<Rightarrow> engine \<Rightarrow> strong_id list" where
  "derived_ports parent e = collect parent (ix_derived_from (en_indexes e))"

definition ports_requiring_revalidation :: "engine \<Rightarrow> strong_id list" where
  "ports_requiring_revalidation e =
     (let indexed = ix_revalidation (en_indexes e);
          drifted = map pr_port (filter (\<lambda>r. pr_drift r = Drift_RevalidationRequired \<and>
                                              pr_port r \<notin> indexed) (map snd (en_records e)))
      in remdups_adj (sort (sorted_list_of_set indexed @ drifted)))"

definition profile_is_stale :: "profile_registry \<Rightarrow> port_record \<Rightarrow> bool" where
  "profile_is_stale reg r =
     (case pr_configuration r of
        None \<Rightarrow> False
      | Some c \<Rightarrow> pb_bound (pc_profile c) \<and>
         (case registry_latest (pb_id (pc_profile c)) reg of
            None \<Rightarrow> True
          | Some latest \<Rightarrow> pp_generation latest \<noteq> pb_generation (pc_profile c)))"

definition ports_with_stale_profile_binding :: "engine \<Rightarrow> strong_id list" where
  "ports_with_stale_profile_binding e =
     sort (map pr_port (filter (profile_is_stale (en_profiles e)) (map snd (en_records e))))"

definition state_digest :: "engine \<Rightarrow> digest" where
  "state_digest e = digest_records (map snd (en_records e))"

section \<open>Snapshots\<close>

record snapshot =
  sn_id :: strong_id
  sn_generation :: generation
  sn_epoch :: generation
  sn_topology :: generation
  sn_digest :: digest
  sn_records :: "port_record list"

definition snapshot_current_for :: "generation \<Rightarrow> generation \<Rightarrow> snapshot \<Rightarrow> bool" where
  "snapshot_current_for g epoch s \<longleftrightarrow>
     gen_valid (sn_generation s) \<and> sn_generation s = g \<and> sn_epoch s = epoch"

definition snapshot_find :: "strong_id \<Rightarrow> snapshot \<Rightarrow> port_record option" where
  "snapshot_find port s = find (\<lambda>r. pr_port r = port) (sn_records s)"

definition snapshot_to_string :: "snapshot \<Rightarrow> string" where
  "snapshot_to_string s =
     ''snapshot='' @ id_or_none (sn_id s) @ '' generation='' @ gen_or_none (sn_generation s) @
     '' epoch='' @ gen_or_none (sn_epoch s) @ '' topology='' @ gen_or_none (sn_topology s) @
     '' ports='' @ decimal (length (sn_records s)) @ '' digest='' @ bytes_to_hex (sn_digest s)"

definition snapshot_of_records :: "port_record list \<Rightarrow> engine \<Rightarrow> snapshot" where
  "snapshot_of_records records e =
     \<lparr>sn_id = id_from_validated
        (compose_identifier ''snap'' (cf_coordinator (en_config e)) (en_generation e)),
      sn_generation = en_generation e, sn_epoch = en_epoch e, sn_topology = en_topology e,
      sn_digest = digest_records records, sn_records = records\<rparr>"

definition take_snapshot :: "engine \<Rightarrow> snapshot" where
  "take_snapshot e = snapshot_of_records (sort_key pr_port (map snd (en_records e))) e"

definition snapshot_of_port :: "strong_id \<Rightarrow> engine \<Rightarrow> snapshot" where
  "snapshot_of_port port e =
     snapshot_of_records (case port_of e port of None \<Rightarrow> [] | Some r \<Rightarrow> [r]) e"

section \<open>The answers are those of a scan\<close>

text \<open>The ports whose record satisfies a predicate, in ascending order.\<close>

definition scan :: "(port_record \<Rightarrow> bool) \<Rightarrow> engine \<Rightarrow> strong_id list" where
  "scan P e = map fst (filter (P \<circ> snd) (en_records e))"

lemma scan_sorted:
  assumes "om_sorted (en_records e)"
  shows "sorted (scan P e)" "distinct (scan P e)"
    "set (scan P e) = {p. \<exists>r. port_of e p = Some r \<and> P r}"
proof -
  have "sorted_wrt (<) (map fst (en_records e))" using assms by (simp add: om_sorted_def)
  then have "sorted_wrt (<) (scan P e)"
    unfolding scan_def by (induction "en_records e" arbitrary: e rule: list.induct)
      (auto simp: sorted_wrt_map intro: sorted_wrt_filter)
  then show "sorted (scan P e)" "distinct (scan P e)"
    by (simp_all add: strict_sorted_imp_sorted strict_sorted_iff)
  show "set (scan P e) = {p. \<exists>r. port_of e p = Some r \<and> P r}"
    using om_map_of_mem [OF assms] by (force simp: scan_def port_of_def)
qed

lemma collect_ports: "ix_ok ix \<Longrightarrow> collect k ix = sorted_list_of_set (ix_ports k ix)"
  by (simp add: collect_def ix_ports_def split: option.split)

lemma collect_scan:
  assumes "om_sorted (en_records e)" "ix_ok ix" "ix_ports k ix = {p. \<exists>r. port_of e p = Some r \<and> P r}"
  shows "collect k ix = scan P e"
proof -
  have "sorted_list_of_set (set (scan P e)) = scan P e"
    by (rule sorted_list_of_set.idem_if_sorted_distinct) (rule scan_sorted [OF assms(1)])+
  then show ?thesis
    unfolding collect_ports [OF assms(2)] assms(3) scan_sorted(3) [OF assms(1)] .
qed

lemma engine_ok_indexes:
  assumes "engine_ok e"
  shows "om_sorted (en_records e)" "well_filed (port_of e)"
    "dev_ix.exact (port_of e) (en_indexes e)" "lc_ix.exact (port_of e) (en_indexes e)"
    "adm_ix.exact (port_of e) (en_indexes e)" "own_ix.exact (port_of e) (en_indexes e)"
    "prof_ix.exact (port_of e) (en_indexes e)" "agg_ix.exact (port_of e) (en_indexes e)"
    "der_ix.exact (port_of e) (en_indexes e)" "revalidation_exact (port_of e) (en_indexes e)"
  using assms by (simp_all add: engine_ok_def indexes_exact_def)

text \<open>A list of the ports of some records, read through the record map.\<close>

lemma ports_of_filter:
  assumes "om_sorted (en_records e)" "well_filed (port_of e)"
  shows "map pr_port (filter P (map snd (en_records e))) = scan P e"
proof -
  have "\<forall>(p, r) \<in> set (en_records e). pr_port r = p"
    using assms by (auto simp: om_map_of_mem well_filed_def port_of_def)
  moreover have "map pr_port (filter P (map snd rs)) = map fst (filter (P \<circ> snd) rs)"
    if "\<forall>(p, r) \<in> set rs. pr_port r = p" for rs
    using that by (induction rs) auto
  ultimately show ?thesis by (simp add: scan_def)
qed

lemma distinct_remdups_adj_sorted: "sorted (xs :: 'a :: linorder list) \<Longrightarrow> distinct (remdups_adj xs)"
  by (induction xs rule: remdups_adj.induct) (auto simp: remdups_adj_set)

lemma revalidation_scan:
  assumes "om_sorted (en_records e)" "well_filed (port_of e)"
    "revalidation_exact (port_of e) (en_indexes e)"
  shows "ports_requiring_revalidation e = scan (\<lambda>r. pr_lifecycle r = LC_RevalidationRequired \<or>
    pr_drift r = Drift_RevalidationRequired) e"
proof -
  let ?P = "\<lambda>r. pr_lifecycle r = LC_RevalidationRequired \<or> pr_drift r = Drift_RevalidationRequired"
  let ?ix = "ix_revalidation (en_indexes e)"
  let ?raw = "sorted_list_of_set ?ix @ scan (\<lambda>r. pr_drift r = Drift_RevalidationRequired \<and> pr_port r \<notin> ?ix) e"
  have ix: "?ix = set (scan (\<lambda>r. pr_lifecycle r = LC_RevalidationRequired) e)"
    using assms(3) scan_sorted(3) [OF assms(1)] by (simp add: revalidation_exact_def)
  then have "finite ?ix" by simp
  with ix have "set ?raw = set (scan ?P e)"
    using assms(2) by (auto simp: scan_sorted(3) [OF assms(1)] well_filed_def)
  moreover have "remdups_adj (sort xs) = sorted_list_of_set (set xs)" for xs :: "strong_id list"
    using sorted_list_of_set.idem_if_sorted_distinct [of "remdups_adj (sort xs)"]
    by (simp add: distinct_remdups_adj_sorted)
  moreover have "sorted_list_of_set (set (scan ?P e)) = scan ?P e"
    by (rule sorted_list_of_set.idem_if_sorted_distinct) (rule scan_sorted [OF assms(1)])+
  ultimately show ?thesis
    unfolding ports_requiring_revalidation_def Let_def ports_of_filter [OF assms(1,2)] by simp
qed

text \<open>
  Property C21. In a runtime that keeps its invariant every query through a secondary index
  gives what a scan of all records would give: exactly the ports whose current record has the
  device, lifecycle, administrative state, owner, profile, aggregate or parent port asked for,
  each once and in ascending order. The ports reported for revalidation are those whose
  lifecycle or whose drift demands it.
\<close>

theorem queries_answer_as_scans:
  assumes "engine_ok e"
  shows "ports_of_device device e = scan (\<lambda>r. pr_parent_device r = device) e \<and>
    ports_with_lifecycle state e = scan (\<lambda>r. pr_lifecycle r = state) e \<and>
    ports_with_administrative_state adm e =
       scan (\<lambda>r. \<exists>c. pr_configuration r = Some c \<and> pc_administrative c = adm) e \<and>
    ports_of_owner owner e = scan (\<lambda>r. \<exists>w. pr_ownership r = Some w \<and> ow_owner w = owner) e \<and>
    ports_by_profile profile e = scan (\<lambda>r. \<exists>c. pr_configuration r = Some c \<and>
       pb_bound (pc_profile c) \<and> pb_id (pc_profile c) = profile) e \<and>
    ports_of_aggregate aggregate e = scan (\<lambda>r. \<exists>c. pr_configuration r = Some c \<and>
       ag_member (pc_aggregation c) \<and> ag_aggregate (pc_aggregation c) = aggregate) e \<and>
    derived_ports parent e = scan (\<lambda>r. \<exists>c. pr_configuration r = Some c \<and>
       id_valid (pc_derived_from c) \<and> pc_derived_from c = parent) e \<and>
    ports_requiring_revalidation e = scan (\<lambda>r. pr_lifecycle r = LC_RevalidationRequired \<or>
       pr_drift r = Drift_RevalidationRequired) e \<and>
    ports_with_stale_profile_binding e = scan (profile_is_stale (en_profiles e)) e"
proof (intro conjI)
  note ok = engine_ok_indexes [OF assms]
  note by_index = collect_scan [OF ok(1)]
  show "ports_of_device device e = scan (\<lambda>r. pr_parent_device r = device) e"
    using ok(3) unfolding ports_of_device_def
    by (intro by_index) (auto simp: dev_ix.exact_def key_device_def)
  show "ports_with_lifecycle state e = scan (\<lambda>r. pr_lifecycle r = state) e"
    using ok(4) unfolding ports_with_lifecycle_def
    by (intro by_index) (auto simp: lc_ix.exact_def key_lifecycle_def)
  show "ports_with_administrative_state adm e =
      scan (\<lambda>r. \<exists>c. pr_configuration r = Some c \<and> pc_administrative c = adm) e"
    using ok(5) unfolding ports_with_administrative_state_def
    by (intro by_index) (auto simp: adm_ix.exact_def key_administrative_def)
  show "ports_of_owner owner e = scan (\<lambda>r. \<exists>w. pr_ownership r = Some w \<and> ow_owner w = owner) e"
    using ok(6) unfolding ports_of_owner_def
    by (intro by_index) (auto simp: own_ix.exact_def key_owner_def)
  show "ports_by_profile profile e = scan (\<lambda>r. \<exists>c. pr_configuration r = Some c \<and>
      pb_bound (pc_profile c) \<and> pb_id (pc_profile c) = profile) e"
    using ok(7) unfolding ports_by_profile_def
    by (intro by_index) (auto simp: prof_ix.exact_def key_profile_def split: option.splits if_splits)
  show "ports_of_aggregate aggregate e = scan (\<lambda>r. \<exists>c. pr_configuration r = Some c \<and>
      ag_member (pc_aggregation c) \<and> ag_aggregate (pc_aggregation c) = aggregate) e"
    using ok(8) unfolding ports_of_aggregate_def
    by (intro by_index) (auto simp: agg_ix.exact_def key_aggregate_def split: option.splits if_splits)
  show "derived_ports parent e = scan (\<lambda>r. \<exists>c. pr_configuration r = Some c \<and>
      id_valid (pc_derived_from c) \<and> pc_derived_from c = parent) e"
    using ok(9) unfolding derived_ports_def
    by (intro by_index) (auto simp: der_ix.exact_def key_derived_def split: option.splits if_splits)
  show "ports_requiring_revalidation e = scan (\<lambda>r. pr_lifecycle r = LC_RevalidationRequired \<or>
      pr_drift r = Drift_RevalidationRequired) e"
    by (rule revalidation_scan [OF ok(1,2,10)])
  have "sort (scan (profile_is_stale (en_profiles e)) e) = scan (profile_is_stale (en_profiles e)) e"
    using scan_sorted(1) [OF ok(1)] by (rule sorted_sort_id)
  then show "ports_with_stale_profile_binding e = scan (profile_is_stale (en_profiles e)) e"
    unfolding ports_with_stale_profile_binding_def ports_of_filter [OF ok(1,2)] .
qed

theorem queries_answer_as_scans_witness: "ports_of_device ''leaf'' one_agent = []"
proof -
  have "scan (\<lambda>r. pr_parent_device r = ''leaf'') one_agent = []"
    by (simp add: scan_def one_agent_def engine_create_def register_publisher_def register_fresh_def)
  then show ?thesis using queries_answer_as_scans [OF one_agent_ok] by simp
qed

text \<open>
  A snapshot is a faithful copy. It holds every record of the runtime, looking up a
  port in it gives the runtime's record of that port, its records stand in ascending order of
  their ports, its digest is the runtime's state digest, and it is current exactly until the
  engine generation or the epoch moves.
\<close>

theorem snapshot_is_faithful:
  assumes "engine_ok e"
  shows "sn_records (take_snapshot e) = map snd (en_records e) \<and>
    (\<forall>port. snapshot_find port (take_snapshot e) = port_of e port) \<and>
    sorted_wrt (<) (map pr_port (sn_records (take_snapshot e))) \<and>
    sn_digest (take_snapshot e) = state_digest e \<and>
    (\<forall>e'. snapshot_current_for (en_generation e') (en_epoch e') (take_snapshot e) \<longleftrightarrow>
       gen_valid (en_generation e) \<and> en_generation e' = en_generation e \<and> en_epoch e' = en_epoch e)"
proof -
  note ok = engine_ok_indexes [OF assms]
  have ports: "\<forall>(p, r) \<in> set (en_records e). pr_port r = p"
    using ok(1,2) by (auto simp: om_map_of_mem well_filed_def port_of_def)
  then have names: "map pr_port (map snd (en_records e)) = map fst (en_records e)" by auto
  then have order: "sorted_wrt (<) (map pr_port (map snd (en_records e)))"
    unfolding names using ok(1) by (simp only: om_sorted_def)
  have sorted: "sort_key pr_port (map snd (en_records e)) = map snd (en_records e)"
    by (rule sort_key_id_if_sorted) (rule strict_sorted_imp_sorted [OF order])
  have lookup: "find (\<lambda>r. pr_port r = port) (map snd rs) = map_of rs port"
    if "\<forall>(p, r) \<in> set rs. pr_port r = p" for rs port
    using that by (induction rs) auto
  show ?thesis
    using order lookup [OF ports] sorted
    by (auto simp: take_snapshot_def snapshot_of_records_def snapshot_find_def state_digest_def
        snapshot_current_for_def port_of_def)
qed

theorem snapshot_is_faithful_witness: "snapshot_find ''p1'' (take_snapshot one_agent) = None"
proof -
  have "port_of one_agent ''p1'' = None"
    by (simp add: port_of_def one_agent_def engine_create_def register_publisher_def register_fresh_def)
  with snapshot_is_faithful [OF one_agent_ok] show ?thesis by metis
qed

end
