(* ===== verification/Explain.thy ===== *)
theory Explain
  imports Queries Sample
begin

text \<open>
  \<open>PortFabricEngine::explain\<close> of \<open>src/engine_explain.cpp\<close>: why a port is in the state it is in. The code
  adds reasons in a fixed order, each under its own condition; a reason that is not added is the
  empty list here.
\<close>

definition or_default :: "string \<Rightarrow> string \<Rightarrow> string" where
  "or_default text fallback = (if text = [] then fallback else text)"

type_synonym reasons = "(explanation_code \<times> string) list"

definition lifecycle_reasons :: "port_record \<Rightarrow> reasons" where
  "lifecycle_reasons r =
     (case pr_lifecycle r of
        LC_Unconfigured \<Rightarrow> [(EC_LifecycleUnconfigured,
          ''no configuration generation has been committed for this port'')]
      | LC_Superseded \<Rightarrow> [(EC_LifecycleSuperseded,
          or_default (pr_status_detail r) ''the configuration generation is fenced'')]
      | LC_Retired \<Rightarrow> [(EC_LifecycleRetired, or_default (pr_status_detail r) ''the port is retired'')]
      | LC_RevalidationRequired \<Rightarrow> [(EC_LifecycleRevalidationRequired,
          or_default (pr_status_detail r)
            ''the committed configuration must be revalidated against current evidence'')]
      | LC_Conflicted \<Rightarrow> [(EC_LifecycleConflicted,
          or_default (pr_status_detail r) ''two authorities disagree about this port'')]
      | _ \<Rightarrow> [])"

definition configuration_reasons :: "generation \<Rightarrow> port_record \<Rightarrow> port_configuration \<Rightarrow> reasons" where
  "configuration_reasons topology r c =
     (if pb_bound (pc_profile c) then [(EC_ProfileBound, profile_binding_to_string (pc_profile c))]
      else []) @
     (if pc_device_generation c \<noteq> gv_device (pr_generations r)
      then [(EC_DeviceGenerationAdvanced,
             ''the committed configuration is bound to device generation '' @
             format_u64 (pc_device_generation c) @ '' while the runtime records generation '' @
             format_u64 (gv_device (pr_generations r)))] else []) @
     (if pc_topology_generation c \<noteq> topology
      then [(EC_TopologyGenerationAdvanced,
             ''the committed configuration is bound to topology generation '' @
             format_u64 (pc_topology_generation c) @ '' while the runtime records generation '' @
             format_u64 topology)] else []) @
     (if pc_capability_generation c \<noteq> gv_capability (pr_generations r)
      then [(EC_CapabilityGenerationAdvanced,
             ''the committed configuration is bound to capability generation '' @
             format_u64 (pc_capability_generation c) @ '' while the bound evidence generation is '' @
             format_u64 (gv_capability (pr_generations r)))] else []) @
     (if \<not> applied_current_for (pr_applied r) (pc_generation c)
      then [(EC_AppliedEvidenceStale,
             ''physical application evidence for generation '' @ format_u64 (pc_generation c) @
             '' is '' @ applied_outcome_to_string (ae_outcome (pr_applied r)) @
             (if ae_verified (pr_applied r) then '' (verified)'' else '' (not independently verified)''))]
      else []) @
     (if ae_outcome (pr_applied r) = Applied_OutcomeUnknown
      then [(EC_AppliedOutcomeUnknownPending,
             ''the last apply attempt has an unknown outcome and requires readback'')] else [])"

definition drift_reasons :: "port_record \<Rightarrow> reasons" where
  "drift_reasons r =
     (case pr_drift r of
        Drift_Drifted \<Rightarrow> [(EC_DriftObserved,
          or_default (pr_status_detail r) ''observed device state differs from desired state'')]
      | Drift_InSync \<Rightarrow> [(EC_DriftObserved, ''observed device state matches desired state'')]
      | Drift_RevalidationRequired \<Rightarrow> [(EC_DriftObserved,
          ''drift requires revalidation before the configuration is trusted again'')]
      | Drift_Conflicted \<Rightarrow> [(EC_DriftObserved,
          ''the device reports a configuration that conflicts with authoritative state'')]
      | Drift_Unknown \<Rightarrow> [])"

definition record_reasons :: "engine \<Rightarrow> port_record \<Rightarrow> reasons" where
  "record_reasons e r =
     [(EC_Accepted, ''record is bound and readable'')] @ lifecycle_reasons r @
     (case pr_ownership r of
        None \<Rightarrow> [] | Some w \<Rightarrow> [(EC_OwnershipHeld, ownership_to_string w)]) @
     (case pr_configuration r of
        None \<Rightarrow> [] | Some c \<Rightarrow> configuration_reasons (en_topology e) r c) @
     drift_reasons r @
     (if pv_kind (pr_provenance r) = PK_Recovery
      then [(EC_RecoveredFromPersistence,
             ''the record was recovered from durable state and requires reconciliation'')] else []) @
     [(EC_ConfigurationCommitted,
       ''engine generation '' @ gen_or_none (en_generation e) @ '' coordinator epoch '' @
       gen_or_none (en_epoch e))]"

definition explain :: "strong_id \<Rightarrow> engine \<Rightarrow> explanation" where
  "explain port e =
     (case port_of e port of
        None \<Rightarrow> explanation_add EC_RejectedUnknownPort port
          (empty_explanation\<lparr>ex_accepted := False, ex_outcome := OC_UnknownPort,
             ex_summary := ''the port identity is not bound to this runtime''\<rparr>)
      | Some r \<Rightarrow> foldl (\<lambda>ex (code, detail). explanation_add code detail ex)
          (empty_explanation\<lparr>ex_accepted := True, ex_outcome := OC_Ok,
             ex_summary := render_port_summary r\<rparr>)
          (record_reasons e r))"

section \<open>No reason is lost\<close>

lemma explanation_add_codes:
  "length (ex_reasons ex) < max_explanation_reasons \<Longrightarrow>
   map er_code (ex_reasons (explanation_add c d ex)) = map er_code (ex_reasons ex) @ [c]"
  by (simp add: explanation_add_def)

lemma explanation_fold:
  assumes "length (ex_reasons ex) + length reasons \<le> max_explanation_reasons"
  shows "map er_code (ex_reasons (foldl (\<lambda>ex (c, d). explanation_add c d ex) ex reasons)) =
      map er_code (ex_reasons ex) @ map fst reasons \<and>
    ex_accepted (foldl (\<lambda>ex (c, d). explanation_add c d ex) ex reasons) = ex_accepted ex \<and>
    ex_outcome (foldl (\<lambda>ex (c, d). explanation_add c d ex) ex reasons) = ex_outcome ex"
  using assms
proof (induction reasons arbitrary: ex)
  case (Cons a reasons)
  obtain c d where a: "a = (c, d)" by (cases a)
  have "length (ex_reasons (explanation_add c d ex)) = Suc (length (ex_reasons ex))"
    using Cons.prems by (simp add: explanation_add_def)
  then show ?case
    using Cons.IH [of "explanation_add c d ex"] Cons.prems explanation_add_codes [of ex c d]
    by (simp add: a)
qed simp

lemma record_reasons_few: "length (record_reasons e r) \<le> 12"
proof -
  have "length (lifecycle_reasons r) \<le> 1" "length (drift_reasons r) \<le> 1"
    by (simp_all add: lifecycle_reasons_def drift_reasons_def split: port_lifecycle.split drift_state.split)
  moreover have "length (configuration_reasons t r c) \<le> 6" for t c
    by (simp add: configuration_reasons_def)
  then have "length (case pr_configuration r of None \<Rightarrow> [] | Some c \<Rightarrow> configuration_reasons (en_topology e) r c) \<le> 6"
    by (simp split: option.split)
  moreover have "length (case pr_ownership r of None \<Rightarrow> [] | Some w \<Rightarrow> [(EC_OwnershipHeld, ownership_to_string w)]) \<le> 1"
    by (simp split: option.split)
  ultimately show ?thesis unfolding record_reasons_def length_append by simp
qed

lemma explain_codes:
  assumes "port_of e port = Some r"
  shows "map er_code (ex_reasons (explain port e)) = map fst (record_reasons e r)"
    "ex_accepted (explain port e)" "ex_outcome (explain port e) = OC_Ok"
  using assms record_reasons_few [of e r]
    explanation_fold [of "empty_explanation\<lparr>ex_accepted := True, ex_outcome := OC_Ok,
      ex_summary := render_port_summary r\<rparr>" "record_reasons e r"]
  by (simp_all add: explain_def empty_explanation_def max_explanation_reasons_def)

lemma explanation_has_code: "explanation_has code ex \<longleftrightarrow> code \<in> set (map er_code (ex_reasons ex))"
  by (auto simp: explanation_has_def list_ex_iff)

text \<open>
  The explanation of a configured port is complete and honest: it says that the
  device, topology or capability generation moved on, that the evidence of application is stale or
  that an apply is in doubt if and only if the record, its configuration and the runtime's current
  generations say so; the bound on the number of reasons never hides one of them.
\<close>

theorem explain_is_exact:
  assumes "port_of e port = Some r" "pr_configuration r = Some c"
  shows "ex_accepted (explain port e) \<and>
    (explanation_has EC_DeviceGenerationAdvanced (explain port e) \<longleftrightarrow>
       pc_device_generation c \<noteq> gv_device (pr_generations r)) \<and>
    (explanation_has EC_TopologyGenerationAdvanced (explain port e) \<longleftrightarrow>
       pc_topology_generation c \<noteq> en_topology e) \<and>
    (explanation_has EC_CapabilityGenerationAdvanced (explain port e) \<longleftrightarrow>
       pc_capability_generation c \<noteq> gv_capability (pr_generations r)) \<and>
    (explanation_has EC_AppliedEvidenceStale (explain port e) \<longleftrightarrow>
       \<not> (ae_verified (pr_applied r) \<and> gen_valid (pc_generation c) \<and>
          ae_generation (pr_applied r) = pc_generation c)) \<and>
    (explanation_has EC_AppliedOutcomeUnknownPending (explain port e) \<longleftrightarrow>
       ae_outcome (pr_applied r) = Applied_OutcomeUnknown) \<and>
    (explanation_has EC_OwnershipHeld (explain port e) \<longleftrightarrow> pr_ownership r \<noteq> None) \<and>
    (explanation_has EC_LifecycleRevalidationRequired (explain port e) \<longleftrightarrow>
       pr_lifecycle r = LC_RevalidationRequired) \<and>
    (explanation_has EC_DriftObserved (explain port e) \<longleftrightarrow> pr_drift r \<noteq> Drift_Unknown)"
proof -
  have other: "set (map fst (lifecycle_reasons r)) \<subseteq> {EC_LifecycleUnconfigured, EC_LifecycleSuperseded,
      EC_LifecycleRetired, EC_LifecycleRevalidationRequired, EC_LifecycleConflicted}"
    "EC_LifecycleRevalidationRequired \<in> set (map fst (lifecycle_reasons r)) \<longleftrightarrow>
       pr_lifecycle r = LC_RevalidationRequired"
    "set (map fst (drift_reasons r)) = (if pr_drift r = Drift_Unknown then {} else {EC_DriftObserved})"
    by (simp_all add: lifecycle_reasons_def drift_reasons_def split: port_lifecycle.split drift_state.split)
  have own: "set (map fst (case pr_ownership r of None \<Rightarrow> []
      | Some w \<Rightarrow> [(EC_OwnershipHeld, ownership_to_string w)])) =
      (if pr_ownership r = None then {} else {EC_OwnershipHeld})"
    by (cases "pr_ownership r") simp_all
  have reasons: "set (map er_code (ex_reasons (explain port e))) =
      {EC_Accepted, EC_ConfigurationCommitted} \<union> set (map fst (lifecycle_reasons r)) \<union>
      (if pr_ownership r = None then {} else {EC_OwnershipHeld}) \<union>
      set (map fst (configuration_reasons (en_topology e) r c)) \<union> set (map fst (drift_reasons r)) \<union>
      (if pv_kind (pr_provenance r) = PK_Recovery then {EC_RecoveredFromPersistence} else {})"
    unfolding explain_codes(1) [OF assms(1)] record_reasons_def using assms(2) own by auto
  have conf: "set (map fst (configuration_reasons t r c)) =
      (if pb_bound (pc_profile c) then {EC_ProfileBound} else {}) \<union>
      (if pc_device_generation c \<noteq> gv_device (pr_generations r) then {EC_DeviceGenerationAdvanced} else {}) \<union>
      (if pc_topology_generation c \<noteq> t then {EC_TopologyGenerationAdvanced} else {}) \<union>
      (if pc_capability_generation c \<noteq> gv_capability (pr_generations r) then {EC_CapabilityGenerationAdvanced} else {}) \<union>
      (if \<not> applied_current_for (pr_applied r) (pc_generation c) then {EC_AppliedEvidenceStale} else {}) \<union>
      (if ae_outcome (pr_applied r) = Applied_OutcomeUnknown then {EC_AppliedOutcomeUnknownPending} else {})" for t
    by (simp add: configuration_reasons_def insert_commute)
  have inlife: "code \<in> set (map fst (lifecycle_reasons r)) \<Longrightarrow> code \<in> {EC_LifecycleUnconfigured, EC_LifecycleSuperseded,
      EC_LifecycleRetired, EC_LifecycleRevalidationRequired, EC_LifecycleConflicted}" for code
    using other(1) by blast
  note has = explanation_has_code reasons conf other(3)
  show ?thesis
  proof (intro conjI)
    show "ex_accepted (explain port e)" using explain_codes(2) [OF assms(1)] .
  qed (auto simp: has other(2) applied_current_for_def simp del: set_map dest!: inlife split: if_splits)
qed

theorem explain_is_exact_witness:
  "explanation_has EC_OwnershipHeld (explain ''p1'' (one_port Policy_Apply configured_port)) \<and>
   explanation_has EC_AppliedEvidenceStale (explain ''p1'' (one_port Policy_Apply configured_port))"
proof -
  have fields: "pr_port configured_port = ''p1''" "pr_configuration configured_port = Some sample_config"
    "pr_ownership configured_port = Some sample_owner" "ae_verified (pr_applied configured_port) = False"
    by (simp_all add: configured_port_def fresh_port_def empty_record_def no_applied_def)
  then have "port_of (one_port Policy_Apply configured_port) ''p1'' = Some configured_port" by simp
  from explain_is_exact [OF this fields(2)] fields show ?thesis by simp
qed

end
