(* ===== verification/Service.thy ===== *)
theory Service
  imports Messages Binding Explain
begin

text \<open>
  The coordinator of \<open>src/server.cpp\<close>: \<open>EngineService\<close>, which turns messages into calls of the
  runtime, and the loop that serves one session. A session is the byte string its peer sends
  before it closes; serving it is a function from those bytes to the frames sent back and the
  runtime that results. A byte that the code casts to an enumerator without a check, and that is
  none of its values, leaves the model: the result is \<open>None\<close>.
\<close>

section \<open>Mutations\<close>

definition byte_enum :: "'e list \<Rightarrow> u8 \<Rightarrow> 'e option" where
  "byte_enum all b = (if unat b < length all then Some (all ! unat b) else None)"

text \<open>The payload checks of \<open>EngineService::dispatch\<close>.\<close>

definition wire_refusal :: "port_mutation_kind \<Rightarrow> mutation_message \<Rightarrow> outcome option" where
  "wire_refusal kind m =
     (if kind = MK_Configure \<and> \<not> mm_has_configuration m
      then Some (failure OC_MalformedRequest ''a configuration mutation requires a configuration payload'')
      else if kind = MK_Reconfigure \<and> \<not> mm_has_configuration m
      then Some (failure OC_MalformedRequest ''a reconfiguration requires a configuration payload'')
      else if kind = MK_Administrative \<and> byte_enum all_administrative_op (mm_administrative_op m) = None
      then Some (failure OC_MalformedRequest ''the administrative operation is not a legal value'')
      else if kind = MK_ObserveExternalState \<and> byte_enum all_drift_state (mm_drift m) = None
      then Some (failure OC_MalformedRequest ''the observed drift state is not a legal value'')
      else None)"

definition wire_envelope :: "mutation_message \<Rightarrow> provenance_kind \<Rightarrow> mutation_envelope" where
  "wire_envelope m k = \<lparr>me_authority = mm_authority m, me_port = mm_port m,
     me_provenance_kind = k, me_provenance_source = mm_provenance_source m\<rparr>"

definition wire_binding :: "mutation_message \<Rightarrow> provenance_kind \<Rightarrow> binding_request" where
  "wire_binding m k = \<lparr>bq_port = mm_port m, bq_parent_device = mm_parent_device m,
     bq_entity_class = PEC_Unknown, bq_device_generation = mm_device_generation m,
     bq_provenance_kind = k, bq_provenance_source = mm_provenance_source m,
     bq_epoch = au_epoch (mm_authority m), bq_attempt = au_attempt (mm_authority m)\<rparr>"

definition wire_ownership :: "port_mutation_kind \<Rightarrow> mutation_message \<Rightarrow> mutation_envelope \<Rightarrow>
    ownership_request option" where
  "wire_ownership kind m envelope =
     map_option (\<lambda>owner_kind. \<lparr>oq_envelope = envelope, oq_owner_kind = owner_kind, oq_owner = mm_owner m,
         oq_exclusive = mm_exclusive m, oq_release = (kind = MK_ReleaseOwnership),
         oq_delegate_publisher = [], oq_delegate_boot = []\<rparr>)
       (byte_enum all_port_owner_kind (mm_owner_kind m))"

primrec wire_request :: "port_mutation_kind \<Rightarrow> mutation_message \<Rightarrow> mutation_envelope \<Rightarrow>
    mutation_request option" where
  "wire_request MK_BindPort m v = None"
| "wire_request MK_Configure m v =
     Some (Req_Configure \<lparr>gq_envelope = v, gq_configuration = mm_configuration m\<rparr>)"
| "wire_request MK_Reconfigure m v =
     Some (Req_Reconfigure \<lparr>gq_envelope = v, gq_configuration = mm_configuration m\<rparr>)"
| "wire_request MK_Administrative m v =
     map_option (\<lambda>op. Req_Administrative \<lparr>aq_envelope = v, aq_op = op\<rparr>)
       (byte_enum all_administrative_op (mm_administrative_op m))"
| "wire_request MK_AssignProfile m v =
     Some (Req_AssignProfile \<lparr>pq_envelope = v, pq_profile = mm_profile m,
       pq_generation = mm_profile_generation m, pq_release = mm_release m\<rparr>)"
| "wire_request MK_BindCapabilities m v =
     Some (Req_BindCapabilities \<lparr>cq_envelope = v, cq_binding = mm_capability m\<rparr>)"
| "wire_request MK_Reconcile m v = Some (Req_Reconcile \<lparr>rq_envelope = v, rq_detail = mm_detail m\<rparr>)"
| "wire_request MK_Supersede m v = Some (Req_Supersede \<lparr>fq_envelope = v, fq_detail = mm_detail m\<rparr>)"
| "wire_request MK_Retire m v = Some (Req_Retire \<lparr>fq_envelope = v, fq_detail = mm_detail m\<rparr>)"
| "wire_request MK_ClaimOwnership m v =
     map_option Req_ClaimOwnership (wire_ownership MK_ClaimOwnership m v)"
| "wire_request MK_TransferOwnership m v =
     map_option Req_TransferOwnership (wire_ownership MK_TransferOwnership m v)"
| "wire_request MK_ReleaseOwnership m v =
     map_option Req_ReleaseOwnership (wire_ownership MK_ReleaseOwnership m v)"
| "wire_request MK_RecordAppliedEvidence m v =
     Some (Req_RecordAppliedEvidence \<lparr>eq_envelope = v, eq_evidence = mm_evidence m\<rparr>)"
| "wire_request MK_ObserveExternalState m v =
     map_option (\<lambda>d. Req_ObserveExternalState \<lparr>dq_envelope = v, dq_observed = d, dq_detail = mm_detail m\<rparr>)
       (byte_enum all_drift_state (mm_drift m))"

definition dispatch :: "environment \<Rightarrow> mutation_message \<Rightarrow> engine \<Rightarrow> (mutation_result \<times> engine) option" where
  "dispatch env m e =
     (case byte_enum all_port_mutation_kind (mm_kind m) of
        None \<Rightarrow> Some (refuse (failure OC_MalformedRequest ''the mutation kind is not a legal value'')
                  EC_RejectedMalformedRequest ''mutation kind'', e)
      | Some kind \<Rightarrow>
        (case wire_refusal kind m of
           Some oc \<Rightarrow> Some (conclude False oc [], e)
         | None \<Rightarrow>
           (case byte_enum all_provenance_kind (mm_provenance_kind m) of
              None \<Rightarrow> None
            | Some k \<Rightarrow>
                if kind = MK_BindPort then Some (bind_port env (wire_binding m k) e)
                else map_option (\<lambda>q. mutate env q e) (wire_request kind m (wire_envelope m k)))))"

section \<open>Session messages\<close>

definition on_hello :: "hello_message \<Rightarrow> engine \<Rightarrow> outcome \<times> generation" where
  "on_hello m e =
     (if \<not> id_valid (hm_publisher m) \<or> \<not> id_valid (hm_boot m)
      then (failure OC_MalformedRequest ''the opening message does not identify the connecting process'', en_epoch e)
      else if gen_valid (hm_epoch m) \<and> en_epoch e < hm_epoch m
      then (failure OC_StaleCoordinatorEpoch ''the client claims a coordinator epoch newer than the coordinator'', en_epoch e)
      else (success ''session accepted'', en_epoch e))"

definition on_register_publisher :: "register_message \<Rightarrow> engine \<Rightarrow> outcome \<times> engine" where
  "on_register_publisher m e = register_publisher (rm_publisher m) (rm_boot m) (rm_epoch m) e"

definition on_fence :: "fence_message \<Rightarrow> engine \<Rightarrow> outcome \<times> engine" where
  "on_fence m e = fence_publisher (fm_publisher m) (fm_boot m) e"

section \<open>Queries\<close>

definition response_to :: "query_message \<Rightarrow> engine \<Rightarrow> query_response" where
  "response_to q e = \<lparr>qr_outcome = wire_outcome_of (success []), qr_kind = qm_kind q, qr_ports = [],
     qr_records = [], qr_profiles = [], qr_devices = [], qr_text = [],
     qr_generation = en_generation e, qr_epoch = en_epoch e, qr_digest = state_digest e\<rparr>"

definition unanswered :: "outcome_code \<Rightarrow> string \<Rightarrow> query_response \<Rightarrow> query_response" where
  "unanswered code m r = r\<lparr>qr_outcome := wire_outcome_of (failure code m)\<rparr>"

definition telling :: "'a option \<Rightarrow> ('a \<Rightarrow> string) \<Rightarrow> outcome_code \<Rightarrow> string \<Rightarrow> query_response \<Rightarrow> query_response" where
  "telling x f code m r = (case x of None \<Rightarrow> unanswered code m r | Some y \<Rightarrow> r\<lparr>qr_text := f y\<rparr>)"

definition engine_info :: "engine \<Rightarrow> string" where
  "engine_info e =
     ''ports='' @ decimal (port_count e) @
     '' profiles='' @ decimal (rg_generation_count (en_profiles e)) @
     '' generation='' @ gen_or_none (en_generation e) @
     '' epoch='' @ gen_or_none (en_epoch e) @
     '' digest='' @ bytes_to_hex (state_digest e)"

definition on_query :: "query_message \<Rightarrow> engine \<Rightarrow> query_response" where
  "on_query q e =
     (let r = response_to q e
      in case qm_kind q of
        QK_Port \<Rightarrow>
          (case port_of e (qm_port q) of
             None \<Rightarrow> unanswered OC_UnknownPort ''the port identity is not bound to this runtime'' r
           | Some x \<Rightarrow> r\<lparr>qr_records := [x], qr_text := record_to_string x\<rparr>)
      | QK_Configuration \<Rightarrow> telling (configuration_of (qm_port q) e) configuration_to_string
          OC_UnknownPort ''no committed configuration exists for this port'' r
      | QK_Lifecycle \<Rightarrow> telling (lifecycle_of (qm_port q) e) port_lifecycle_to_string
          OC_UnknownPort ''the port is not bound to this runtime'' r
      | QK_AdministrativeState \<Rightarrow> telling (administrative_state_in (qm_port q) e) administrative_state_to_string
          OC_UnknownPort ''the port carries no administrative state'' r
      | QK_Ownership \<Rightarrow> telling (ownership_of (qm_port q) e) ownership_to_string
          OC_UnknownOwnership ''the port is not owned'' r
      | QK_CapabilityBinding \<Rightarrow> telling (capability_binding_of (qm_port q) e) binding_to_string
          OC_UnknownPort ''the port is not bound to this runtime'' r
      | QK_AppliedEvidence \<Rightarrow> telling (applied_evidence_of (qm_port q) e) applied_to_string
          OC_UnknownPort ''the port is not bound to this runtime'' r
      | QK_PortsOfDevice \<Rightarrow> r\<lparr>qr_ports := ports_of_device (qm_device q) e\<rparr>
      | QK_PortsWithLifecycle \<Rightarrow> r\<lparr>qr_ports := ports_with_lifecycle (qm_lifecycle q) e\<rparr>
      | QK_PortsRequiringRevalidation \<Rightarrow> r\<lparr>qr_ports := ports_requiring_revalidation e\<rparr>
      | QK_PortsOfOwner \<Rightarrow> r\<lparr>qr_ports := ports_of_owner (qm_owner q) e\<rparr>
      | QK_PortsByProfile \<Rightarrow> r\<lparr>qr_ports := ports_by_profile (qm_profile q) e\<rparr>
      | QK_DerivedPorts \<Rightarrow> r\<lparr>qr_ports := derived_ports (qm_port q) e\<rparr>
      | QK_StaleProfileBindings \<Rightarrow> r\<lparr>qr_ports := ports_with_stale_profile_binding e\<rparr>
      | QK_Explain \<Rightarrow> r\<lparr>qr_text := explanation_to_string (explain (qm_port q) e)\<rparr>
      | QK_Snapshot \<Rightarrow>
          r\<lparr>qr_records := sn_records (take_snapshot e), qr_text := snapshot_to_string (take_snapshot e)\<rparr>
      | QK_EngineInfo \<Rightarrow> r\<lparr>qr_text := engine_info e\<rparr>
      | QK_Profiles \<Rightarrow> r\<lparr>qr_profiles := registry_list (en_profiles e)\<rparr>
      | QK_Devices \<Rightarrow> r\<lparr>qr_devices := map snd (en_devices e)\<rparr>)"

section \<open>One message\<close>

text \<open>A reply is sent when its payload could be encoded.\<close>

definition reply :: "message_type \<Rightarrow> u64 \<Rightarrow> outcome \<times> string \<Rightarrow> frame list" where
  "reply t sq encoded =
     (if outcome_ok (fst encoded)
      then [\<lparr>fr_type = t, fr_flags = 0, fr_sequence = sq, fr_payload = snd encoded\<rparr>] else [])"

definition reply_outcome :: "message_type \<Rightarrow> u64 \<Rightarrow> outcome \<Rightarrow> frame list" where
  "reply_outcome t sq oc = reply t sq (encode_outcome (wire_outcome_of oc))"

definition reply_error :: "u64 \<Rightarrow> string \<Rightarrow> frame list" where
  "reply_error sq m = reply_outcome MT_ErrorResponse sq (failure OC_MalformedRequest m)"

definition no_handshake :: string where
  "no_handshake = ''the session has not completed its opening handshake''"

text \<open>A response that does not fit is sent without its lists, as a failure.\<close>

definition without_lists :: "query_response \<Rightarrow> query_response" where
  "without_lists r =
     (unanswered OC_ResourceBoundExceeded ''the query response exceeds the frame bound'' r)
       \<lparr>qr_records := [], qr_ports := [], qr_profiles := [], qr_devices := []\<rparr>"

definition reply_query :: "u64 \<Rightarrow> query_response \<Rightarrow> frame list" where
  "reply_query sq r =
     (if outcome_ok (fst (encode_query_response r)) then reply MT_QueryAck sq (encode_query_response r)
      else reply MT_QueryAck sq (encode_query_response (without_lists r)))"

record served =
  sv_replies :: "frame list"
  sv_hello :: bool
  sv_open :: bool
  sv_engine :: engine

definition answered :: "frame list \<Rightarrow> bool \<Rightarrow> engine \<Rightarrow> served" where
  "answered replies hello e = \<lparr>sv_replies = replies, sv_hello = hello, sv_open = True, sv_engine = e\<rparr>"

definition serve_hello :: "bool \<Rightarrow> u64 \<Rightarrow> string \<Rightarrow> engine \<Rightarrow> served" where
  "serve_hello hello sq payload e =
     (case decode_hello payload of
        Inl answer \<Rightarrow> answered (reply_error sq (oc_message answer)) hello e
      | Inr m \<Rightarrow>
        (let (oc, epoch) = on_hello m e
         in answered (reply MT_HelloAck sq (encode_hello_ack
              \<lparr>ha_accepted = outcome_accepted oc, ha_epoch = epoch, ha_detail = oc_message oc\<rparr>))
              (outcome_accepted oc) e))"

definition serve_register :: "bool \<Rightarrow> u64 \<Rightarrow> string \<Rightarrow> engine \<Rightarrow> served" where
  "serve_register hello sq payload e =
     (if \<not> hello then answered (reply_error sq no_handshake) hello e
      else case decode_register_publisher payload of
        Inl answer \<Rightarrow> answered (reply_outcome MT_RegisterPublisherAck sq
          (failure OC_MalformedRequest (oc_message answer))) hello e
      | Inr m \<Rightarrow>
        (let (oc, e') = on_register_publisher m e
         in answered (reply_outcome MT_RegisterPublisherAck sq oc) hello e'))"

definition serve_mutation :: "environment \<Rightarrow> bool \<Rightarrow> u64 \<Rightarrow> string \<Rightarrow> engine \<Rightarrow> served option" where
  "serve_mutation env hello sq payload e =
     (if \<not> hello then Some (answered (reply_error sq no_handshake) hello e)
      else case decode_mutation payload of
        Inl answer \<Rightarrow> Some (answered (reply_error sq (oc_message answer)) hello e)
      | Inr m \<Rightarrow> map_option (\<lambda>(r, e').
          answered (reply_outcome MT_MutationAck sq (mr_outcome r)) hello e') (dispatch env m e))"

definition serve_query :: "bool \<Rightarrow> u64 \<Rightarrow> string \<Rightarrow> engine \<Rightarrow> served" where
  "serve_query hello sq payload e =
     (if \<not> hello then answered (reply_error sq no_handshake) hello e
      else case decode_query payload of
        Inl answer \<Rightarrow> answered (reply_error sq (oc_message answer)) hello e
      | Inr q \<Rightarrow> answered (reply_query sq (on_query q e)) hello e)"

definition serve_fence :: "bool \<Rightarrow> u64 \<Rightarrow> string \<Rightarrow> engine \<Rightarrow> served" where
  "serve_fence hello sq payload e =
     (case decode_fence payload of
        Inl answer \<Rightarrow> answered (reply_outcome MT_FencePublisherAck sq
          (failure OC_MalformedRequest (oc_message answer))) hello e
      | Inr m \<Rightarrow>
        (let (oc, e') = on_fence m e
         in answered (reply_outcome MT_FencePublisherAck sq oc) hello e'))"

definition response_refusal :: string where
  "response_refusal = ''the peer sent a response message to the coordinator''"

definition serve_message :: "environment \<Rightarrow> bool \<Rightarrow> message_type \<Rightarrow> u64 \<Rightarrow> string \<Rightarrow> engine \<Rightarrow> served option" where
  "serve_message env hello t sq payload e =
     (case t of
        MT_Hello \<Rightarrow> Some (serve_hello hello sq payload e)
      | MT_RegisterPublisher \<Rightarrow> Some (serve_register hello sq payload e)
      | MT_Mutation \<Rightarrow> serve_mutation env hello sq payload e
      | MT_Query \<Rightarrow> Some (serve_query hello sq payload e)
      | MT_FencePublisher \<Rightarrow> Some (serve_fence hello sq payload e)
      | MT_Heartbeat \<Rightarrow> Some (answered (reply MT_HeartbeatAck sq (success [], [])) hello e)
      | MT_Shutdown \<Rightarrow>
          Some (answered (reply_error sq ''the coordinator does not accept a remote shutdown request'') hello e)
      | _ \<Rightarrow> Some ((answered (reply_error sq response_refusal) hello e)\<lparr>sv_open := False\<rparr>))"

section \<open>A session\<close>

record session_end =
  se_replies :: "frame list"
  se_engine :: engine
  se_error :: string

definition closed_by_peer :: string where
  "closed_by_peer = ''the peer closed the connection''"

text \<open>
  The loop of \<open>serve\<close>: a header, its payload, one message. Every turn takes at least the 32 bytes of a
  header, so the loop ends with the input. \<open>sq\<close> is the session's own counter, used to number the
  answer to a frame whose header cannot be trusted.
\<close>

function serve :: "environment \<Rightarrow> string \<Rightarrow> bool \<Rightarrow> u64 \<Rightarrow> engine \<Rightarrow> session_end option" where
  "serve env input hello sq e =
     (if length input < frame_header_size
      then Some \<lparr>se_replies = [], se_engine = e, se_error = closed_by_peer\<rparr>
      else case decode_frame_header (take frame_header_size input) of
        Inl answer \<Rightarrow>
          Some \<lparr>se_replies = reply_outcome MT_ErrorResponse (sq + 1) (transport (oc_message answer)),
            se_engine = e, se_error = oc_message answer\<rparr>
      | Inr h \<Rightarrow>
        (let n = unat (fh_payload_length h); rest = drop frame_header_size input; payload = take n rest
         in if length rest < n
            then Some \<lparr>se_replies = [], se_engine = e, se_error = closed_by_peer\<rparr>
            else if 0 < n \<and> crc32 payload \<noteq> fh_payload_crc h
            then Some \<lparr>se_replies = reply_outcome MT_ErrorResponse (sq + 1)
                     (transport ''the frame payload integrity check failed''),
                   se_engine = e, se_error = ''frame payload integrity check failed''\<rparr>
            else case serve_message env hello (fh_type h) (fh_sequence h) payload e of
              None \<Rightarrow> None
            | Some s \<Rightarrow>
                if sv_open s
                then map_option (\<lambda>t. t\<lparr>se_replies := sv_replies s @ se_replies t\<rparr>)
                       (serve env (drop n rest) (sv_hello s) (sq + 1) (sv_engine s))
                else Some \<lparr>se_replies = sv_replies s, se_engine = sv_engine s, se_error = response_refusal\<rparr>))"
  by pat_completeness auto
termination
  by (relation "measure (\<lambda>(env, input, hello, sq, e). length input)") (auto simp: frame_header_size_def)

declare serve.simps [simp del]

text \<open>A session as the coordinator accepts it.\<close>

definition serve_session :: "environment \<Rightarrow> string \<Rightarrow> engine \<Rightarrow> session_end option" where
  "serve_session env input e = serve env input False 0 e"

section \<open>Frames of a session\<close>

lemma serve_short: "length input < frame_header_size \<Longrightarrow>
    serve env input hello sq e = Some \<lparr>se_replies = [], se_engine = e, se_error = closed_by_peer\<rparr>"
  by (subst serve.simps) simp

text \<open>A frame that decodes is one turn of the loop, whatever follows it.\<close>

lemma serve_frame:
  assumes "decode_frame bytes = Inr f"
  shows "serve env (bytes @ rest) hello sq e =
    (case serve_message env hello (fr_type f) (fr_sequence f) (fr_payload f) e of
       None \<Rightarrow> None
     | Some s \<Rightarrow>
         if sv_open s
         then map_option (\<lambda>t. t\<lparr>se_replies := sv_replies s @ se_replies t\<rparr>)
                (serve env rest (sv_hello s) (sq + 1) (sv_engine s))
         else Some \<lparr>se_replies = sv_replies s, se_engine = sv_engine s, se_error = response_refusal\<rparr>)"
proof -
  obtain h where h: "decode_frame_header (take 32 bytes) = Inr h" "32 \<le> length bytes"
    "length bytes = 32 + unat (fh_payload_length h)" "crc32 (drop 32 bytes) = fh_payload_crc h"
    "f = \<lparr>fr_type = fh_type h, fr_flags = fh_flags h, fr_sequence = fh_sequence h, fr_payload = drop 32 bytes\<rparr>"
    using assms by (auto simp: decode_frame_def frame_header_size_def split: if_splits sum.splits)
  moreover define header payload where "header = take 32 bytes" and "payload = drop 32 bytes"
  then have "bytes = header @ payload" "length header = 32" using h(2) by simp_all
  ultimately show ?thesis
    by (subst serve.simps) (simp add: frame_header_size_def Let_def split: option.split)
qed

lemma serve_encoded:
  assumes "encode_frame f = (answer, bytes)" "outcome_ok answer"
  shows "serve env (bytes @ rest) hello sq e =
    (case serve_message env hello (fr_type f) (fr_sequence f) (fr_payload f) e of
       None \<Rightarrow> None
     | Some s \<Rightarrow>
         if sv_open s
         then map_option (\<lambda>t. t\<lparr>se_replies := sv_replies s @ se_replies t\<rparr>)
                (serve env rest (sv_hello s) (sq + 1) (sv_engine s))
         else Some \<lparr>se_replies = sv_replies s, se_engine = sv_engine s, se_error = response_refusal\<rparr>)"
  by (rule serve_frame [OF encoded_frame_decodes [OF assms]])

section \<open>What a session can do\<close>

lemma answered_fields [simp]:
  "sv_replies (answered rs h e) = rs" "sv_hello (answered rs h e) = h" "sv_open (answered rs h e)"
  "sv_engine (answered rs h e) = e"
  by (simp_all add: answered_def)

text \<open>The four ways a message ends: nothing happens, or one call of the runtime.\<close>

lemma serve_message_engine:
  assumes "serve_message env hello t sq payload e = Some s"
  shows "sv_engine s = e \<or>
    (hello \<and> t = MT_RegisterPublisher \<and> (\<exists>m. sv_engine s = snd (on_register_publisher m e))) \<or>
    (hello \<and> t = MT_Mutation \<and> (\<exists>m r. dispatch env m e = Some (r, sv_engine s))) \<or>
    (t = MT_FencePublisher \<and> (\<exists>m. sv_engine s = snd (on_fence m e)))"
  using assms
  by (cases t) (auto simp: serve_message_def serve_hello_def serve_register_def serve_mutation_def
      serve_query_def serve_fence_def case_prod_beta split: if_splits sum.splits)

lemma dispatch_engine:
  assumes "dispatch env m e = Some (r, e')"
  shows "e' = e \<or> (\<exists>q. e' = snd (bind_port env q e)) \<or> (\<exists>q. e' = snd (mutate env q e))"
  using assms by (auto simp: dispatch_def split: option.splits if_splits; metis snd_conv)

lemma dispatch_ok: "engine_ok e \<Longrightarrow> dispatch env m e = Some (r, e') \<Longrightarrow> engine_ok e'"
  using dispatch_engine [of env m e r e'] bind_port_ok mutate_ok by blast

lemma serve_message_ok:
  assumes "engine_ok e" "serve_message env hello t sq payload e = Some s"
  shows "engine_ok (sv_engine s)"
  using serve_message_engine [OF assms(2)] assms(1)
  by (auto simp: on_register_publisher_def on_fence_def register_publisher_ok fence_publisher_ok
      intro: dispatch_ok)

text \<open>What is sent can be sent: every reply is a frame that encodes.\<close>

definition sendable :: "frame list \<Rightarrow> bool" where
  "sendable = list_all (\<lambda>f. outcome_ok (fst (encode_frame f)))"

lemma bounded_open: "bounded_write f \<Longrightarrow> length (wr_out (f (open_writer n))) \<le> n"
  unfolding bounded_write_def by (metis le0 list.size(3) open_writer_def writer.select_convs(1,2))

lemma encoding_bounded: "bounded_write f \<Longrightarrow> length (snd (encoding refusal f)) \<le> max_frame_bytes"
  by (simp add: encoding_def Let_def bounded_open)

lemma sendable_reply: "length (snd encoded) \<le> max_frame_bytes \<Longrightarrow> sendable (reply t sq encoded)"
  by (simp add: sendable_def reply_def encode_frame_def outcome_ok_def)

lemma bounded_messages:
  "bounded_write (write_outcome oc)" "bounded_write (write_hello_ack ack)" "bounded_write (write_response r)"
  "bounded_write (write_response_head r)"
  by (simp_all add: write_outcome_def write_detail_def write_hello_ack_def write_response_def
      write_response_head_def bounded_writes)

lemma sendable_replies:
  "sendable (reply_outcome t sq oc)" "sendable (reply_error sq m)"
  "sendable (reply t sq (encode_hello_ack ack))" "sendable (reply t sq (success [], []))"
  "sendable (reply_query sq r)" "sendable []"
proof -
  have query: "length (snd (encode_query_response r)) \<le> max_frame_bytes" for r
    using bounded_open [OF bounded_messages(4) [of r]] encoding_bounded [OF bounded_messages(3) [of r]]
    by (simp add: encode_query_response_def)
  show "sendable (reply_outcome t sq oc)" "sendable (reply_error sq m)"
    "sendable (reply t sq (encode_hello_ack ack))"
    by (simp_all add: reply_outcome_def reply_error_def encode_outcome_def encode_hello_ack_def
        sendable_reply encoding_bounded bounded_messages)
  show "sendable (reply t sq (success [], []))" "sendable []"
    by (simp_all add: sendable_reply) (simp add: sendable_def)
  show "sendable (reply_query sq r)"
    by (simp add: reply_query_def sendable_reply query)
qed

lemma serve_message_sendable:
  assumes "serve_message env hello t sq payload e = Some s"
  shows "sendable (sv_replies s)"
  using assms
  by (cases t) (auto simp: serve_message_def serve_hello_def serve_register_def serve_mutation_def
      serve_query_def serve_fence_def sendable_replies case_prod_beta split: if_splits sum.splits)

end
