(* ===== verification/Session.thy ===== *)
theory Session
  imports Service Sample
begin

text \<open>
  What a peer of the coordinator can and cannot do: the guarantees of the session loop of
  \<open>src/server.cpp\<close> for arbitrary bytes, and the two things that need no handshake at all.
\<close>

section \<open>Every session ends, and ends well\<close>

lemma dispatch_None:
  assumes "dispatch env m e = None"
  shows "byte_enum all_provenance_kind (mm_provenance_kind m) = None \<or>
    byte_enum all_port_owner_kind (mm_owner_kind m) = None"
proof (rule ccontr)
  assume "\<not> ?thesis"
  then obtain k w where bytes: "byte_enum all_provenance_kind (mm_provenance_kind m) = Some k"
    "byte_enum all_port_owner_kind (mm_owner_kind m) = Some w" by auto
  obtain kind where kind: "byte_enum all_port_mutation_kind (mm_kind m) = Some kind"
    "wire_refusal kind m = None"
    using assms by (auto simp: dispatch_def split: option.splits)
  with assms bytes have "kind \<noteq> MK_BindPort" "wire_request kind m (wire_envelope m k) = None"
    by (auto simp: dispatch_def split: if_splits)
  then show False
    using kind(2) bytes(2) by (cases kind) (auto simp: wire_refusal_def wire_ownership_def)
qed

lemma serve_message_None:
  assumes "serve_message env hello t sq payload e = None"
  shows "\<exists>m. decode_mutation payload = Inr m \<and> dispatch env m e = None"
  using assms
  by (cases t) (auto simp: serve_message_def serve_mutation_def split: if_splits sum.splits)

lemma one_reply [simp]: "length (reply t sq encoded) \<le> Suc 0"
  by (simp add: reply_def)

lemma serve_message_replies:
  assumes "serve_message env hello t sq payload e = Some s"
  shows "length (sv_replies s) \<le> Suc 0"
  using assms
  by (cases t) (auto simp: serve_message_def serve_hello_def serve_register_def serve_mutation_def
      serve_query_def serve_fence_def reply_query_def reply_error_def reply_outcome_def case_prod_beta
      split: if_splits sum.splits)

definition undecided :: "string \<Rightarrow> bool" where
  "undecided input \<longleftrightarrow> (\<exists>before payload after m. input = before @ payload @ after \<and>
     decode_mutation payload = Inr m \<and>
     (byte_enum all_provenance_kind (mm_provenance_kind m) = None \<or>
      byte_enum all_port_owner_kind (mm_owner_kind m) = None))"

lemma undecided_drop: "undecided (drop n input) \<Longrightarrow> undecided input"
  unfolding undecided_def by (metis append.assoc append_take_drop_id)

lemma undecided_payload:
  assumes "serve_message env hello t sq (take n (drop k input)) e = None"
  shows "undecided input"
proof -
  obtain m where m: "decode_mutation (take n (drop k input)) = Inr m" "dispatch env m e = None"
    using serve_message_None [OF assms] by blast
  have "input = take k input @ take n (drop k input) @ drop n (drop k input)"
    by (simp only: append_take_drop_id)
  then show ?thesis
    unfolding undecided_def using m(1) dispatch_None [OF m(2)] by (intro exI conjI)
qed

text \<open>At most one frame is sent for the 32 bytes a turn takes.\<close>

lemma paid: "length l \<le> Suc 0 \<Longrightarrow> 32 \<le> n \<Longrightarrow> 32 * length l \<le> n"
  by linarith

lemma serve_ends:
  "case serve env input hello sq e of
     Some t \<Rightarrow> 32 * length (se_replies t) \<le> length input
   | None \<Rightarrow> undecided input"
proof (induction env input hello sq e rule: serve.induct)
  case (1 env input hello sq e)
  note IH = this
  have one: "length (reply_outcome t s oc) \<le> Suc 0" for t s oc by (simp add: reply_outcome_def)
  show ?case
  proof (cases "length input < frame_header_size")
    case True
    then show ?thesis by (simp add: serve_short)
  next
    case long: False
    show ?thesis
    proof (cases "decode_frame_header (take frame_header_size input)")
      case (Inl answer)
      with long one show ?thesis
        by (subst serve.simps) (simp add: frame_header_size_def paid)
    next
      case (Inr h)
      let ?n = "unat (fh_payload_length h)" and ?rest = "drop frame_header_size input"
      show ?thesis
      proof (cases "length ?rest < ?n \<or> (0 < ?n \<and> crc32 (take ?n ?rest) \<noteq> fh_payload_crc h)")
        case True
        with long Inr one show ?thesis
          by (subst serve.simps) (auto simp: frame_header_size_def Let_def paid)
      next
        case False
        show ?thesis
        proof (cases "serve_message env hello (fh_type h) (fh_sequence h) (take ?n ?rest) e")
          case None
          then have "undecided input" by (rule undecided_payload)
          with long Inr False None show ?thesis
            by (subst serve.simps) (auto simp: Let_def)
        next
          case (Some s)
          have few: "length (sv_replies s) \<le> Suc 0" by (rule serve_message_replies [OF Some])
          have more: "case serve env (drop ?n ?rest) (sv_hello s) (sq + 1) (sv_engine s) of
              Some t \<Rightarrow> 32 * length (se_replies t) \<le> length (drop ?n ?rest) | None \<Rightarrow> undecided (drop ?n ?rest)"
            if "sv_open s"
            using IH [OF long Inr refl refl refl _ _ Some that] False by auto
          from long Inr False Some few more show ?thesis
            by (subst serve.simps)
              (auto simp: Let_def frame_header_size_def split: option.splits dest: undecided_drop)
        qed
      qed
    qed
  qed
qed

text \<open>
  Every session ends: the loop returns for every byte string, with at most one
  frame sent for each 32 bytes received. It leaves the model only where the code casts an
  unchecked byte of a decoded mutation to an enumerator that has no such value.
\<close>

theorem session_ends:
  "case serve_session env input e of
     Some t \<Rightarrow> 32 * length (se_replies t) \<le> length input
   | None \<Rightarrow> undecided input"
  unfolding serve_session_def by (rule serve_ends)

text \<open>One turn of a session that goes on.\<close>

lemma serve_turn:
  assumes "serve env input hello sq e = Some t"
  obtains "se_engine t = e" "\<forall>f \<in> set (se_replies t). fr_type f = MT_ErrorResponse" "sendable (se_replies t)"
  | ty s' payload s where "serve_message env hello ty s' payload e = Some s" "\<not> sv_open s"
      "se_engine t = sv_engine s" "se_replies t = sv_replies s"
  | ty s' payload s rest t' where "serve_message env hello ty s' payload e = Some s" "sv_open s"
      "length rest < length input" "serve env rest (sv_hello s) (sq + 1) (sv_engine s) = Some t'"
      "se_engine t = se_engine t'" "se_replies t = sv_replies s @ se_replies t'"
proof -
  have error: "\<forall>f \<in> set (reply_outcome MT_ErrorResponse s oc). fr_type f = MT_ErrorResponse" for s oc
    by (simp add: reply_outcome_def reply_def)
  show thesis
  proof (cases "length input < frame_header_size")
    case True
    then show thesis using that(1) assms by (auto simp: serve_short sendable_replies)
  next
    case long: False
    show thesis
    proof (cases "decode_frame_header (take frame_header_size input)")
      case (Inl answer)
      with long assms show thesis
        by (subst (asm) serve.simps) (auto intro!: that(1) simp: error sendable_replies)
    next
      case (Inr h)
      let ?rest = "drop frame_header_size input" and ?n = "unat (fh_payload_length h)"
      show thesis
      proof (cases "length ?rest < ?n \<or> (0 < ?n \<and> crc32 (take ?n ?rest) \<noteq> fh_payload_crc h)")
        case True
        with long Inr assms show thesis
          by (subst (asm) serve.simps)
            (auto intro!: that(1) simp: Let_def error sendable_replies split: if_splits)
      next
        case False
        with long Inr assms obtain s where s: "serve_message env hello (fh_type h) (fh_sequence h) (take ?n ?rest) e = Some s"
          by (subst (asm) serve.simps) (auto simp: Let_def split: option.splits if_splits)
        show thesis
        proof (cases "sv_open s")
          case open_: True
          with False long Inr assms s obtain t' where
            t': "serve env (drop ?n ?rest) (sv_hello s) (sq + 1) (sv_engine s) = Some t'"
              "t = t'\<lparr>se_replies := sv_replies s @ se_replies t'\<rparr>"
            by (subst (asm) serve.simps) (auto simp: Let_def)
          have "length (drop ?n ?rest) < length input" using long by (simp add: frame_header_size_def)
          from that(3) [OF s open_ this t'(1)] t'(2) show thesis by simp
        next
          case shut: False
          with False long Inr assms s have
            "t = \<lparr>se_replies = sv_replies s, se_engine = sv_engine s, se_error = response_refusal\<rparr>"
            by (subst (asm) serve.simps) (auto simp: Let_def)
          with that(2) [OF s shut] show thesis by simp
        qed
      qed
    qed
  qed
qed

lemma serve_keeps:
  assumes "engine_ok e" "serve env input hello sq e = Some t"
  shows "engine_ok (se_engine t) \<and> sendable (se_replies t)"
  using assms
proof (induction input arbitrary: hello sq e t rule: length_induct)
  case (1 input)
  from \<open>serve env input hello sq e = Some t\<close> show ?case
  proof (cases rule: serve_turn)
    case 1
    with \<open>engine_ok e\<close> show ?thesis by simp
  next
    case (2 ty s' payload s)
    then show ?thesis
      using serve_message_ok [OF \<open>engine_ok e\<close> 2(1)] serve_message_sendable [OF 2(1)] by simp
  next
    case (3 ty s' payload s rest t')
    have "engine_ok (se_engine t') \<and> sendable (se_replies t')"
      using "1.IH" 3(3,4) serve_message_ok [OF \<open>engine_ok e\<close> 3(1)] by blast
    with 3(5,6) serve_message_sendable [OF 3(1)] show ?thesis by (simp add: sendable_def)
  qed
qed


section \<open>Before the handshake\<close>

definition fences :: "(strong_id \<times> strong_id) list \<Rightarrow> engine \<Rightarrow> engine" where
  "fences targets e = foldl (\<lambda>e (publisher, boot). snd (fence_publisher publisher boot e)) e targets"

text \<open>What fits a frame is encoded.\<close>

lemma encoding_fits:
  assumes "takes f n" "n \<le> max_frame_bytes"
  shows "encoding refusal f = (success ''encoded'', wr_out (f (open_writer max_frame_bytes)))"
  using takes_open [OF assms] by (simp add: encoding_def)

lemma encoding_hello_ack:
  assumes "length (ha_detail ack) \<le> max_description_length"
  shows "outcome_ok (fst (encode_hello_ack ack))"
proof -
  have "takes (write_hello_ack ack) 2048"
    unfolding write_hello_ack_def
    by (rule takes_more, (rule takes_cons takes_nil sizes | use assms in \<open>simp; fail\<close>)+)
  from encoding_fits [OF this] show ?thesis
    by (simp add: encode_hello_ack_def max_frame_bytes_def success_def outcome_ok_def)
qed

lemma hello_detail: "length (oc_message (fst (on_hello m e))) \<le> max_description_length"
  by (simp add: on_hello_def max_description_length_def success_def failure_def)

lemma serve_message_unopened:
  assumes "serve_message env False t sq payload e = Some s" "\<forall>f \<in> set (sv_replies s). fr_type f \<noteq> MT_HelloAck"
  shows "\<not> sv_hello s \<and> (\<exists>targets. sv_engine s = fences targets e)"
proof (cases "t = MT_FencePublisher")
  case True
  have "\<exists>targets. e = fences targets e" by (rule exI [of _ "[]"]) (simp add: fences_def)
  moreover have "\<exists>targets. snd (on_fence m e) = fences targets e" for m
    by (rule exI [of _ "[(fm_publisher m, fm_boot m)]"]) (simp add: fences_def on_fence_def)
  ultimately show ?thesis
    using assms(1) True by (auto simp: serve_message_def serve_fence_def case_prod_beta split: sum.splits)
next
  case other: False
  have engine: "sv_engine s = fences [] e"
    using serve_message_engine [OF assms(1)] other by (simp add: fences_def)
  show ?thesis
  proof (cases "t = MT_Hello")
    case False
    with assms(1) other have "\<not> sv_hello s"
      by (cases t) (auto simp: serve_message_def serve_register_def serve_mutation_def serve_query_def)
    with engine show ?thesis by blast
  next
    case True
    have "\<not> sv_hello s"
    proof (cases "decode_hello payload")
      case (Inl answer)
      with True assms(1) show ?thesis by (auto simp: serve_message_def serve_hello_def)
    next
      case (Inr m)
      let ?oc = "fst (on_hello m e)" and ?ack = "\<lparr>ha_accepted = outcome_accepted (fst (on_hello m e)),
        ha_epoch = snd (on_hello m e), ha_detail = oc_message (fst (on_hello m e))\<rparr>"
      have s: "s = answered (reply MT_HelloAck sq (encode_hello_ack ?ack)) (outcome_accepted ?oc) e"
        using True Inr assms(1) by (simp add: serve_message_def serve_hello_def case_prod_beta)
      show ?thesis
      proof
        assume "sv_hello s"
        with s have ok: "outcome_accepted ?oc" by simp
        have "outcome_ok (fst (encode_hello_ack ?ack))"
          by (rule encoding_hello_ack) (simp add: hello_detail)
        then have "\<exists>f \<in> set (sv_replies s). fr_type f = MT_HelloAck"
          by (simp add: s reply_def)
        with assms(2) show False by blast
      qed
    qed
    with engine show ?thesis by blast
  qed
qed

lemma fences_compose: "fences later (fences targets e) = fences (targets @ later) e"
  by (simp add: fences_def)

text \<open>
  Property C29. Without a handshake a peer can only fence: a session in which the coordinator never
  sends a hello acknowledgement registers nothing, mutates nothing and binds nothing. Its whole
  effect on the runtime is a sequence of publisher fences.
\<close>

theorem handshake_guards_service:
  assumes "serve_session env input e = Some t" "\<forall>f \<in> set (se_replies t). fr_type f \<noteq> MT_HelloAck"
  shows "\<exists>targets. se_engine t = fences targets e"
proof -
  have "serve env input False sq e = Some t \<Longrightarrow> \<forall>f \<in> set (se_replies t). fr_type f \<noteq> MT_HelloAck \<Longrightarrow>
      \<exists>targets. se_engine t = fences targets e" for sq e t
  proof (induction input arbitrary: sq e t rule: length_induct)
    case (1 input)
    from \<open>serve env input False sq e = Some t\<close> show ?case
    proof (cases rule: serve_turn)
      case 1
      then show ?thesis by (intro exI [of _ "[]"]) (simp add: fences_def)
    next
      case (2 ty s' payload s)
      with serve_message_unopened [OF 2(1)] "1.prems"(2) show ?thesis by simp
    next
      case (3 ty s' payload s rest t')
      with serve_message_unopened [OF 3(1)] "1.prems"(2)
      have "\<not> sv_hello s" "\<exists>targets. sv_engine s = fences targets e" by auto
      with 3 "1.IH" "1.prems"(2) have "\<exists>later targets. se_engine t' = fences later (fences targets e)"
        by fastforce
      with 3(5) show ?thesis by (auto simp: fences_compose)
    qed
  qed
  with assms show ?thesis unfolding serve_session_def by blast
qed


text \<open>
  Property C30. Fencing needs no handshake and no authority: for every list of publisher
  incarnations there is a session that never says hello and fences exactly these, in this order.
  Together with the previous property, this is all an unopened session can do.
\<close>

theorem fencing_needs_no_handshake:
  assumes "\<forall>(publisher, boot) \<in> set targets. id_wf publisher \<and> id_wf boot"
  shows "\<exists>input t. serve_session env input e = Some t \<and> se_engine t = fences targets e \<and>
    (\<forall>f \<in> set (se_replies t). fr_type f \<noteq> MT_HelloAck)"
proof -
  have "\<exists>input t. serve env input False sq e = Some t \<and> se_engine t = fences targets e \<and>
    (\<forall>f \<in> set (se_replies t). fr_type f \<noteq> MT_HelloAck)" for sq
    using assms
  proof (induction targets arbitrary: sq e)
    case Nil
    show ?case
      by (rule exI [of _ "[]"]) (simp add: serve_short frame_header_size_def fences_def)
  next
    case (Cons target targets)
    obtain publisher boot where target: "target = (publisher, boot)" by (cases target)
    with Cons.prems have wf: "id_wf publisher" "id_wf boot" by auto
    define m where "m = \<lparr>fm_publisher = publisher, fm_boot = boot, fm_detail = []\<rparr>"
    have takes: "takes (write_fence m) 2048"
      unfolding write_fence_def
      by (rule takes_more, (rule takes_cons takes_nil sizes | simp add: m_def wf; fail)+)
    define payload where "payload = snd (encode_fence m)"
    have encoded: "encode_fence m = (success ''encoded'', payload)" "length payload \<le> max_frame_bytes"
      using encoding_fits [OF takes] takes_open [OF takes, of max_frame_bytes]
      by (simp_all add: payload_def encode_fence_def max_frame_bytes_def)
    have decoded: "decode_fence payload = Inr m"
      unfolding decode_fence_def
      by (rule encoded_decodes(1) [OF codec_labelled [OF codec_fence] encoded(1) [unfolded encode_fence_def]])
        (simp_all add: m_def wf outcome_ok_def success_def failure_def)
    define f where "f = \<lparr>fr_type = MT_FencePublisher, fr_flags = 0, fr_sequence = 1, fr_payload = payload\<rparr>"
    have frame: "outcome_ok (fst (encode_frame f))"
      using encoded(2) by (simp add: f_def encode_frame_def outcome_ok_def)
    obtain input t where rest: "serve env input False (sq + 1) (fences [target] e) = Some t"
      "se_engine t = fences targets (fences [target] e)" "\<forall>f \<in> set (se_replies t). fr_type f \<noteq> MT_HelloAck"
      using Cons.IH [of "sq + 1" "fences [target] e"] Cons.prems by auto
    have "serve_message env False (fr_type f) (fr_sequence f) (fr_payload f) e = Some (answered
        (reply_outcome MT_FencePublisherAck 1 (fst (on_fence m e))) False (fences [target] e))"
      using decoded by (simp add: f_def serve_message_def serve_fence_def case_prod_beta on_fence_def
          fences_def target m_def)
    with rest have "serve env (snd (encode_frame f) @ input) False sq e =
        Some (t\<lparr>se_replies := reply_outcome MT_FencePublisherAck 1 (fst (on_fence m e)) @ se_replies t\<rparr>)"
      by (subst serve_encoded [OF prod.collapse [symmetric] frame]) simp
    moreover have "\<forall>f \<in> set (reply_outcome MT_FencePublisherAck s oc). fr_type f \<noteq> MT_HelloAck" for s oc
      by (simp add: reply_outcome_def reply_def)
    ultimately show ?case
      using rest by (intro exI conjI) (assumption, auto simp: fences_compose)
  qed
  then show ?thesis by (simp add: serve_session_def)
qed

section \<open>Answers to queries\<close>

lemma length_sha_round: "length (sha_round k w v) = 8"
  by (simp add: sha_round_def Let_def)

lemma length_compress: "length h = 8 \<Longrightarrow> length (compress h block) = 8"
proof -
  assume "length h = 8"
  moreover have "length (foldl (\<lambda>v i. sha_round (round_constants ! i) (w ! i) v) v is) = 8"
    if "length v = 8" for v w "is"
    using that by (induction "is" arbitrary: v) (simp_all add: length_sha_round)
  ultimately show ?thesis by (simp add: compress_def Let_def)
qed

lemma length_sha256: "length (sha256_of m) = 32"
proof -
  have fold: "length (foldl compress h bs) = 8" if "length h = 8" for h bs
    using that by (induction bs arbitrary: h) (simp_all add: length_compress)
  have "length (concat (map word_bytes ws)) = 4 * length ws" for ws
    by (induction ws) (simp_all add: word_bytes_def)
  then show ?thesis by (simp add: sha256_of_spec sha256_spec_def fold initial_state_def)
qed

lemma length_state_digest: "length (state_digest e) = 32"
  by (simp add: state_digest_def digest_records_def Let_def digest_fields_def length_sha256)

text \<open>A sequence of writes fails when one of them does, whatever comes before and after it.\<close>

lemma write_fails:
  assumes "\<forall>w. \<not> wr_ok (f w)" "\<forall>g \<in> set after. bounded_write g"
  shows "\<not> wr_ok (write_all (before @ f # after) w)"
proof
  have "write_all (before @ f # after) w = write_all after (f (write_all before w))"
    by (simp add: write_all_def)
  moreover assume "wr_ok (write_all (before @ f # after) w)"
  ultimately show False
    using bounded_all [OF assms(2)] assms(1) unfolding bounded_write_def by metis
qed

lemma long_text_fails:
  assumes "max_query_text_bytes < length (qr_text r)"
  shows "\<not> outcome_ok (fst (encode_query_response r))"
proof -
  have "\<forall>w. \<not> wr_ok (write_text max_query_text_bytes (qr_text r) w)"
    using assms by (simp add: write_text_def)
  from write_fails [OF this, where before = "[write_outcome (qr_outcome r), write_enum all_query_kind (qr_kind r),
      write_list write_id (qr_ports r), write_list write_record (qr_records r),
      write_list write_profile (qr_profiles r), write_list write_device (qr_devices r)]" and
    after = "[write_u64 (qr_generation r), write_u64 (qr_epoch r), write_text 64 (bytes_to_hex (qr_digest r))]"]
  have "\<not> wr_ok (write_response r w)" for w
    by (simp add: write_response_def bounded_writes)
  then show ?thesis
    by (simp add: encode_query_response_def encoding_def outcome_ok_def failure_def)
qed

lemma listless_fits:
  assumes "length (qr_text r) \<le> max_query_text_bytes" "length (qr_digest r) = 32"
  shows "outcome_ok (fst (encode_query_response (without_lists r)))"
proof -
  have t: "takes (write_text max_query_text_bytes (qr_text r)) 8196"
    "takes (write_text 64 (bytes_to_hex (qr_digest r))) 68"
    using takes_text [of "qr_text r" max_query_text_bytes] takes_text [of "bytes_to_hex (qr_digest r)" 64] assms
    by (simp_all add: max_query_text_bytes_def)
  have empty: "takes (write_list g []) 4" for g :: "'a \<Rightarrow> writer \<Rightarrow> writer"
    using takes_list [of "[]" g 0] by simp
  have "write_response (without_lists r) = write_all
      [write_all [write_u8 (of_nat (enum_index all_outcome_code OC_ResourceBoundExceeded)),
         write_text max_description_length ''the query response exceeds the frame bound'', write_list write_detail []],
       write_enum all_query_kind (qr_kind r), write_list write_id [], write_list write_record [],
       write_list write_profile [], write_list write_device [], write_text max_query_text_bytes (qr_text r),
       write_u64 (qr_generation r), write_u64 (qr_epoch r), write_text 64 (bytes_to_hex (qr_digest r))]"
    by (simp add: write_response_def write_outcome_def without_lists_def unanswered_def wire_outcome_of_def failure_def)
  moreover have "takes \<dots> 10240"
    by (rule takes_more, (rule takes_cons takes_nil sizes takes_words empty t
        | simp add: max_description_length_def; fail)+)
  ultimately have "takes (write_response (without_lists r)) 10240" by simp
  from encoding_fits [OF this] show ?thesis
    by (simp add: encode_query_response_def max_frame_bytes_def without_lists_def unanswered_def
        outcome_ok_def success_def)
qed

lemma on_query_digest: "qr_digest (on_query q e) = state_digest e"
  by (cases "qm_kind q") (simp_all add: on_query_def Let_def response_to_def telling_def unanswered_def
      split: option.split)

text \<open>
  A query is answered exactly when its text fits: a list of ports, records, profiles
  or devices that is too large is replaced by a refusal, but a text of more than 8192 bytes makes
  the coordinator send nothing at all.
\<close>

lemma query_reply_iff:
  "reply_query sq (on_query q e) \<noteq> [] \<longleftrightarrow> length (qr_text (on_query q e)) \<le> max_query_text_bytes"
proof
  assume answered: "reply_query sq (on_query q e) \<noteq> []"
  have "qr_text (without_lists (on_query q e)) = qr_text (on_query q e)"
    by (simp add: without_lists_def unanswered_def)
  with answered show "length (qr_text (on_query q e)) \<le> max_query_text_bytes"
    using long_text_fails [of "on_query q e"] long_text_fails [of "without_lists (on_query q e)"]
    by (fastforce simp: reply_query_def reply_def not_le split: if_splits)
next
  assume "length (qr_text (on_query q e)) \<le> max_query_text_bytes"
  from listless_fits [OF this] show "reply_query sq (on_query q e) \<noteq> []"
    by (simp add: reply_query_def reply_def on_query_digest length_state_digest)
qed

section \<open>Instances\<close>

text \<open>A peer that speaks another protocol, against a runtime with one registered agent.\<close>

definition stray_request :: string where
  "stray_request = ''GET /ports HTTP/1.1 Host: coordinator''"

lemma stray_session:
  "serve_session env stray_request e = Some \<lparr>se_replies = reply_outcome MT_ErrorResponse 1
     (transport ''the frame magic does not match''), se_engine = e,
     se_error = ''the frame magic does not match''\<rparr>"
  unfolding serve_session_def
  by (subst serve.simps)
    (simp add: stray_request_def frame_header_size_def decode_frame_header_def frame_magic_def transport_def
      failure_def)


theorem handshake_guards_service_witness:
  "\<exists>t targets. serve_session quiet_env stray_request one_agent = Some t \<and> se_engine t = fences targets one_agent"
proof -
  have "\<exists>targets. se_engine (the (serve_session quiet_env stray_request one_agent)) = fences targets one_agent"
    by (rule handshake_guards_service [of quiet_env stray_request])
      (simp_all add: stray_session reply_outcome_def reply_def)
  then show ?thesis by (auto simp: stray_session)
qed

theorem fencing_needs_no_handshake_witness:
  "\<exists>input t. serve_session quiet_env input one_agent = Some t \<and>
     se_engine t = snd (fence_publisher ''agent'' ''boot-1'' one_agent)"
proof -
  have "\<forall>(publisher, boot) \<in> set [(''agent'', ''boot-1'')]. id_wf publisher \<and> id_wf boot"
    by (simp add: sample_ids)
  moreover have "fences [(''agent'', ''boot-1'')] one_agent = snd (fence_publisher ''agent'' ''boot-1'' one_agent)"
    by (simp add: fences_def)
  ultimately show ?thesis
    using fencing_needs_no_handshake [of "[(''agent'', ''boot-1'')]" quiet_env one_agent] by metis
qed

end
