(* ===== verification/Synthetic.thy ===== *)
theory Synthetic
  imports Session
begin

text \<open>
  The synthetic fabric of \<open>src/synthetic.cpp\<close>: an inventory of simulated devices and ports with their
  class models, injected faults and recorded external changes, the capability provider over it and
  the adapter that keeps the configuration each simulated port holds.
\<close>

section \<open>Classes and faults\<close>

datatype synthetic_port_class = SC_Management1G | SC_Access1G | SC_Server10G | SC_Server25G
    | SC_Uplink40G | SC_Uplink50G | SC_Uplink100G | SC_Spine200G | SC_Spine400G | SC_Backbone800G
    | SC_Optical400G | SC_InfiniBandHdr200G

primrec synthetic_port_class_to_string :: "synthetic_port_class \<Rightarrow> string" where
  "synthetic_port_class_to_string SC_Management1G = ''MANAGEMENT_1G''"
| "synthetic_port_class_to_string SC_Access1G = ''ACCESS_1G''"
| "synthetic_port_class_to_string SC_Server10G = ''SERVER_10G''"
| "synthetic_port_class_to_string SC_Server25G = ''SERVER_25G''"
| "synthetic_port_class_to_string SC_Uplink40G = ''UPLINK_40G''"
| "synthetic_port_class_to_string SC_Uplink50G = ''UPLINK_50G''"
| "synthetic_port_class_to_string SC_Uplink100G = ''UPLINK_100G''"
| "synthetic_port_class_to_string SC_Spine200G = ''SPINE_200G''"
| "synthetic_port_class_to_string SC_Spine400G = ''SPINE_400G''"
| "synthetic_port_class_to_string SC_Backbone800G = ''BACKBONE_800G''"
| "synthetic_port_class_to_string SC_Optical400G = ''OPTICAL_400G''"
| "synthetic_port_class_to_string SC_InfiniBandHdr200G = ''INFINIBAND_HDR_200G''"

definition all_synthetic_port_class :: "synthetic_port_class list" where
  "all_synthetic_port_class = [SC_Management1G, SC_Access1G, SC_Server10G, SC_Server25G,
     SC_Uplink40G, SC_Uplink50G, SC_Uplink100G, SC_Spine200G, SC_Spine400G, SC_Backbone800G,
     SC_Optical400G, SC_InfiniBandHdr200G]"

definition synthetic_port_class_table :: "(string \<times> synthetic_port_class) list" where
  "synthetic_port_class_table = [(''MANAGEMENT_1G'', SC_Management1G),
     (''ACCESS_1G'', SC_Access1G), (''SERVER_10G'', SC_Server10G),
     (''SERVER_25G'', SC_Server25G), (''UPLINK_40G'', SC_Uplink40G),
     (''UPLINK_50G'', SC_Uplink50G), (''UPLINK_100G'', SC_Uplink100G),
     (''SPINE_200G'', SC_Spine200G), (''SPINE_400G'', SC_Spine400G),
     (''BACKBONE_800G'', SC_Backbone800G), (''OPTICAL_400G'', SC_Optical400G),
     (''INFINIBAND_HDR_200G'', SC_InfiniBandHdr200G)]"

definition parse_synthetic_port_class :: "string \<Rightarrow> synthetic_port_class option" where
  "parse_synthetic_port_class t = first_match t synthetic_port_class_table"

interpretation synthetic_port_class_text: enum_text synthetic_port_class_to_string synthetic_port_class_table all_synthetic_port_class
proof
  show "synthetic_port_class_table = map (\<lambda>e. (synthetic_port_class_to_string e, e)) all_synthetic_port_class"
    by (simp add: synthetic_port_class_table_def all_synthetic_port_class_def)
  show "e \<in> set all_synthetic_port_class" for e
    by (cases e) (simp_all add: all_synthetic_port_class_def)
  show "distinct (map synthetic_port_class_to_string all_synthetic_port_class)"
    by (simp add: all_synthetic_port_class_def)
qed

datatype synthetic_fault = SF_None | SF_PermissionDenied | SF_DeviceDisappeared
    | SF_DeviceReplaced | SF_UnsupportedParameter | SF_PartialApply | SF_FailedVerification
    | SF_StaleHandle | SF_ConcurrentExternalChange | SF_AdapterCrash | SF_TransportFailure

primrec synthetic_fault_to_string :: "synthetic_fault \<Rightarrow> string" where
  "synthetic_fault_to_string SF_None = ''NONE''"
| "synthetic_fault_to_string SF_PermissionDenied = ''PERMISSION_DENIED''"
| "synthetic_fault_to_string SF_DeviceDisappeared = ''DEVICE_DISAPPEARED''"
| "synthetic_fault_to_string SF_DeviceReplaced = ''DEVICE_REPLACED''"
| "synthetic_fault_to_string SF_UnsupportedParameter = ''UNSUPPORTED_PARAMETER''"
| "synthetic_fault_to_string SF_PartialApply = ''PARTIAL_APPLY''"
| "synthetic_fault_to_string SF_FailedVerification = ''FAILED_VERIFICATION''"
| "synthetic_fault_to_string SF_StaleHandle = ''STALE_HANDLE''"
| "synthetic_fault_to_string SF_ConcurrentExternalChange = ''CONCURRENT_EXTERNAL_CHANGE''"
| "synthetic_fault_to_string SF_AdapterCrash = ''ADAPTER_CRASH''"
| "synthetic_fault_to_string SF_TransportFailure = ''TRANSPORT_FAILURE''"

definition all_synthetic_fault :: "synthetic_fault list" where
  "all_synthetic_fault = [SF_None, SF_PermissionDenied, SF_DeviceDisappeared, SF_DeviceReplaced,
     SF_UnsupportedParameter, SF_PartialApply, SF_FailedVerification, SF_StaleHandle,
     SF_ConcurrentExternalChange, SF_AdapterCrash, SF_TransportFailure]"

definition synthetic_fault_table :: "(string \<times> synthetic_fault) list" where
  "synthetic_fault_table = [(''NONE'', SF_None), (''PERMISSION_DENIED'', SF_PermissionDenied),
     (''DEVICE_DISAPPEARED'', SF_DeviceDisappeared), (''DEVICE_REPLACED'', SF_DeviceReplaced),
     (''UNSUPPORTED_PARAMETER'', SF_UnsupportedParameter), (''PARTIAL_APPLY'', SF_PartialApply),
     (''FAILED_VERIFICATION'', SF_FailedVerification), (''STALE_HANDLE'', SF_StaleHandle),
     (''CONCURRENT_EXTERNAL_CHANGE'', SF_ConcurrentExternalChange),
     (''ADAPTER_CRASH'', SF_AdapterCrash), (''TRANSPORT_FAILURE'', SF_TransportFailure)]"

definition parse_synthetic_fault :: "string \<Rightarrow> synthetic_fault option" where
  "parse_synthetic_fault t = first_match t synthetic_fault_table"

interpretation synthetic_fault_text: enum_text synthetic_fault_to_string synthetic_fault_table all_synthetic_fault
proof
  show "synthetic_fault_table = map (\<lambda>e. (synthetic_fault_to_string e, e)) all_synthetic_fault"
    by (simp add: synthetic_fault_table_def all_synthetic_fault_def)
  show "e \<in> set all_synthetic_fault" for e
    by (cases e) (simp_all add: all_synthetic_fault_def)
  show "distinct (map synthetic_fault_to_string all_synthetic_fault)"
    by (simp add: all_synthetic_fault_def)
qed

record class_model =
  km_class :: synthetic_port_class
  km_rate :: u64
  km_lanes :: u32
  km_fec :: fec_mode
  km_breakout :: bool
  km_infiniband :: bool
  km_optical :: bool

definition class_models :: "class_model list" where
  "class_models =
     (let model = (\<lambda>c rate lanes fec breakout infiniband optical.
            \<lparr>km_class = c, km_rate = rate, km_lanes = lanes, km_fec = fec, km_breakout = breakout,
             km_infiniband = infiniband, km_optical = optical\<rparr>)
      in [model SC_Management1G 1000000000 1 Fec_None False False False,
          model SC_Access1G 1000000000 1 Fec_None False False False,
          model SC_Server10G 10000000000 1 Fec_None False False False,
          model SC_Server25G 25000000000 1 Fec_ReedSolomon528 False False False,
          model SC_Uplink40G 40000000000 4 Fec_None True False False,
          model SC_Uplink50G 50000000000 2 Fec_ReedSolomon544 True False False,
          model SC_Uplink100G 100000000000 4 Fec_ReedSolomon528 True False False,
          model SC_Spine200G 200000000000 4 Fec_ReedSolomon544 True False False,
          model SC_Spine400G 400000000000 8 Fec_ReedSolomon544Interleaved True False False,
          model SC_Backbone800G 800000000000 8 Fec_ReedSolomon544Interleaved True False False,
          model SC_Optical400G 400000000000 4 Fec_ReedSolomon544 False False True,
          model SC_InfiniBandHdr200G 200000000000 4 Fec_ReedSolomon544 False True False])"

definition model_for :: "synthetic_port_class \<Rightarrow> class_model option" where
  "model_for c = find (\<lambda>m. km_class m = c) class_models"

definition synthetic_speed :: "u64 \<Rightarrow> port_speed" where
  "synthetic_speed rate = (case speed_from_bits_per_second rate of None \<Rightarrow> 0 | Some s \<Rightarrow> s)"

definition class_capabilities :: "class_model \<Rightarrow> port_capabilities" where
  "class_capabilities m = no_capabilities
     \<lparr>cap_certainty := Cert_Known,
      cap_supported_speeds := [synthetic_speed (km_rate m), synthetic_speed (km_rate m div 2)],
      cap_max_lanes := max_lanes, cap_lane_modes := [1, 2, 4, 8],
      cap_breakout_supported := km_breakout m,
      cap_max_breakout_children := (if km_breakout m then 4 else 1),
      cap_fec_modes := [Fec_None, Fec_Firecode, Fec_ReedSolomon528, Fec_ReedSolomon544, Fec_ReedSolomon544Interleaved],
      cap_autoneg_modes := [Autoneg_Forced, Autoneg_Preferred, Autoneg_Negotiated],
      cap_pause_modes := [Pause_Disabled, Pause_Transmit, Pause_Receive, Pause_Bidirectional],
      cap_protocol_families := [if km_infiniband m then Proto_InfiniBand else Proto_Ethernet] @
        (if km_optical m then [Proto_OpticalTransport] else []) @ [Proto_Synthetic],
      cap_mtu_min := 1280, cap_mtu_max := (if km_infiniband m then 4096 else 9216),
      cap_duplex := Duplex_Full, cap_logical_interface_supported := True, cap_max_queue_count := 256,
      cap_transceiver_required := 25000000000 \<le> km_rate m,
      cap_transceiver_class := (if 25000000000 \<le> km_rate m then ''synthetic-optics'' else [])\<rparr>"

definition capabilities_for :: "synthetic_port_class \<Rightarrow> port_capabilities" where
  "capabilities_for c = (case model_for c of None \<Rightarrow> no_capabilities | Some m \<Rightarrow> class_capabilities m)"

section \<open>The inventory\<close>

definition max_ports_per_device :: nat where "max_ports_per_device = 4096"

record synthetic_port =
  sp_port :: strong_id
  sp_device :: strong_id
  sp_entity_class :: port_entity_class
  sp_capabilities :: port_capabilities
  sp_transceiver_present :: bool

definition synthetic_port_to_string :: "synthetic_port \<Rightarrow> string" where
  "synthetic_port_to_string d =
     ''port='' @ id_or_none (sp_port d) @ '' device='' @ id_or_none (sp_device d) @
     '' class='' @ port_entity_class_to_string (sp_entity_class d) @
     '' capabilities=['' @ capabilities_to_string (sp_capabilities d) @ '']''"

record synthetic_fabric =
  sf_name :: string
  sf_ports :: "synthetic_port list"
  sf_index :: "(strong_id \<times> nat) list"
  sf_classes :: "(strong_id \<times> synthetic_port_class) list"
  sf_devices :: "(strong_id \<times> nat) list"
  sf_faults :: "(strong_id \<times> synthetic_fault) list"
  sf_external :: "(strong_id \<times> port_configuration) list"
  sf_global_fault :: synthetic_fault
  sf_generation :: generation

definition fabric_create :: "string \<Rightarrow> synthetic_fabric" where
  "fabric_create name = \<lparr>sf_name = name, sf_ports = [], sf_index = [], sf_classes = [], sf_devices = [],
     sf_faults = [], sf_external = [], sf_global_fault = SF_None, sf_generation = 1\<rparr>"

definition compose_synthetic_identity :: "string \<Rightarrow> nat \<Rightarrow> string" where
  "compose_synthetic_identity device_text i =
     take max_identifier_length
       (device_text @ ''-p'' @ (if length (decimal i) < 2 then ''0'' else []) @ decimal i)"

definition fabric_find :: "strong_id \<Rightarrow> synthetic_fabric \<Rightarrow> synthetic_port option" where
  "fabric_find p fb = map_option ((!) (sf_ports fb)) (map_of (sf_index fb) p)"

text \<open>
  A device is counted with \<open>operator[]\<close>, which starts from zero for a device that is not there.
\<close>

definition fabric_add_port :: "synthetic_port \<Rightarrow> synthetic_fabric \<Rightarrow> synthetic_fabric" where
  "fabric_add_port d fb =
     (if \<not> id_valid (sp_port d) then fb
      else case map_of (sf_index fb) (sp_port d) of
        Some i \<Rightarrow> fb\<lparr>sf_ports := (sf_ports fb)[i := d]\<rparr>
      | None \<Rightarrow> fb\<lparr>sf_index := om_update (sp_port d) (length (sf_ports fb)) (sf_index fb),
             sf_ports := sf_ports fb @ [d],
             sf_devices := om_update (sp_device d)
               ((case map_of (sf_devices fb) (sp_device d) of None \<Rightarrow> 0 | Some n \<Rightarrow> n) + 1) (sf_devices fb)\<rparr>)"

definition add_generated :: "string \<Rightarrow> strong_id \<Rightarrow> synthetic_port_class \<Rightarrow> port_entity_class \<Rightarrow> nat \<Rightarrow>
    synthetic_fabric \<Rightarrow> synthetic_fabric" where
  "add_generated device_text device c entity i fb =
     (let p = id_from_validated (compose_synthetic_identity device_text i)
      in if \<not> id_valid p then fb
         else (fabric_add_port \<lparr>sp_port = p, sp_device = device, sp_entity_class = entity,
                 sp_capabilities = capabilities_for c, sp_transceiver_present = True\<rparr> fb)
                \<lparr>sf_classes := om_update p c (sf_classes fb)\<rparr>)"

definition fabric_add_device :: "string \<Rightarrow> synthetic_port_class \<Rightarrow> nat \<Rightarrow> port_entity_class \<Rightarrow> synthetic_fabric \<Rightarrow>
    strong_id \<times> synthetic_fabric" where
  "fabric_add_device label c ports entity fb =
     (let ports = (if ports = 0 \<or> max_ports_per_device < ports then 1 else ports);
          device_text = ''syn-'' @ label;
          device = id_from_validated device_text
      in if \<not> id_valid device then ([], fb)
         else (device, fold (add_generated device_text device c entity) [1..<Suc ports]
                (fb\<lparr>sf_devices := om_update device ports (sf_devices fb)\<rparr>)))"

definition add_child :: "synthetic_port \<Rightarrow> nat \<Rightarrow> strong_id list \<times> synthetic_fabric \<Rightarrow> strong_id list \<times> synthetic_fabric" where
  "add_child parent i = (\<lambda>(created, fb).
     let p = id_from_validated (sp_port parent @ ''-b'' @ decimal i)
     in if \<not> id_valid p then (created, fb)
        else (created @ [p], fabric_add_port (parent\<lparr>sp_port := p, sp_entity_class := PEC_LogicalPort\<rparr>) fb))"

definition fabric_add_breakout_children :: "strong_id \<Rightarrow> u32 \<Rightarrow> synthetic_fabric \<Rightarrow>
    strong_id list \<times> synthetic_fabric" where
  "fabric_add_breakout_children parent children fb =
     (case fabric_find parent fb of
        None \<Rightarrow> ([], fb)
      | Some d \<Rightarrow>
          if children < 2 \<or> max_breakout_children < children then ([], fb)
          else fold (add_child d) [1..<Suc (unat children)] ([], fb))"

definition binding_for :: "strong_id \<Rightarrow> synthetic_fabric \<Rightarrow> capability_binding option" where
  "binding_for p fb =
     map_option (\<lambda>d. \<lparr>cb_capabilities = sp_capabilities d, cb_generation = sf_generation fb,
         cb_evidence_generation = sf_generation fb, cb_evidence = id_from_validated (''syn-evidence-'' @ p),
         cb_source = sf_name fb, cb_present = True\<rparr>)
       (fabric_find p fb)"

section \<open>Faults and external changes\<close>

definition set_fault :: "strong_id \<Rightarrow> synthetic_fault \<Rightarrow> synthetic_fabric \<Rightarrow> synthetic_fabric" where
  "set_fault p f fb = fb\<lparr>sf_faults := om_update p f (sf_faults fb)\<rparr>"

definition set_global_fault :: "synthetic_fault \<Rightarrow> synthetic_fabric \<Rightarrow> synthetic_fabric" where
  "set_global_fault f fb = fb\<lparr>sf_global_fault := f\<rparr>"

definition clear_faults :: "synthetic_fabric \<Rightarrow> synthetic_fabric" where
  "clear_faults fb = fb\<lparr>sf_faults := [], sf_global_fault := SF_None\<rparr>"

definition fault_for :: "strong_id \<Rightarrow> synthetic_fabric \<Rightarrow> synthetic_fault" where
  "fault_for p fb = (case map_of (sf_faults fb) p of Some f \<Rightarrow> f | None \<Rightarrow> sf_global_fault fb)"

definition set_observed_configuration :: "strong_id \<Rightarrow> port_configuration \<Rightarrow> synthetic_fabric \<Rightarrow>
    bool \<times> synthetic_fabric" where
  "set_observed_configuration p c fb =
     (if \<exists>d \<in> set (sf_ports fb). sp_port d = p
      then (True, fb\<lparr>sf_external := om_update p c (sf_external fb)\<rparr>) else (False, fb))"

definition observed_configuration_for :: "strong_id \<Rightarrow> synthetic_fabric \<Rightarrow> port_configuration option" where
  "observed_configuration_for p fb = map_of (sf_external fb) p"

definition clear_observed_configuration :: "strong_id \<Rightarrow> synthetic_fabric \<Rightarrow> synthetic_fabric" where
  "clear_observed_configuration p fb = fb\<lparr>sf_external := om_erase p (sf_external fb)\<rparr>"

definition advance_capability_generation :: "synthetic_fabric \<Rightarrow> generation \<times> synthetic_fabric" where
  "advance_capability_generation fb =
     (let g = gen_next (sf_generation fb) in (g, fb\<lparr>sf_generation := g\<rparr>))"

definition fabric_to_string :: "synthetic_fabric \<Rightarrow> string" where
  "fabric_to_string fb =
     ''synthetic fabric '' @ sf_name fb @ '' devices='' @ decimal (length (sf_devices fb)) @
     '' ports='' @ decimal (length (sf_ports fb)) @
     '' capability_generation='' @ format_u64 (sf_generation fb)"

section \<open>The provider and the adapter\<close>

definition synthetic_current :: "synthetic_fabric \<Rightarrow> strong_id \<Rightarrow> capability_binding option \<times> string" where
  "synthetic_current fb p =
     (case binding_for p fb of
        None \<Rightarrow> (None, ''the synthetic fabric does not model this port'')
      | Some b \<Rightarrow> (Some b, []))"

record synthetic_adapter =
  sa_observed :: "(strong_id \<times> port_configuration) list"
  sa_applies :: nat
  sa_readbacks :: nat

definition adapter_create :: synthetic_adapter where
  "adapter_create = \<lparr>sa_observed = [], sa_applies = 0, sa_readbacks = 0\<rparr>"

primrec fault_result :: "synthetic_fault \<Rightarrow> adapter_apply_result option" where
  "fault_result SF_None = None"
| "fault_result SF_PermissionDenied = Some (apply_failed ''permission denied by the synthetic device'')"
| "fault_result SF_DeviceDisappeared = Some (apply_failed ''the synthetic device disappeared'')"
| "fault_result SF_DeviceReplaced =
     Some (apply_unknown ''the synthetic device was replaced while the request was in flight'')"
| "fault_result SF_UnsupportedParameter =
     Some (apply_failed ''the synthetic device rejected an unsupported parameter'')"
| "fault_result SF_PartialApply =
     Some (apply_failed ''the synthetic device applied part of the configuration only'')"
| "fault_result SF_FailedVerification =
     Some (apply_applied ''the synthetic device accepted the configuration but verification failed'')"
| "fault_result SF_StaleHandle = Some (apply_failed ''the synthetic device handle is stale'')"
| "fault_result SF_ConcurrentExternalChange =
     Some (apply_unknown ''a concurrent external change made the apply outcome ambiguous'')"
| "fault_result SF_AdapterCrash = Some (apply_unknown ''the synthetic adapter crashed mid apply'')"
| "fault_result SF_TransportFailure =
     Some (apply_unknown ''the synthetic control transport failed before completion'')"

definition synthetic_apply :: "synthetic_fabric \<Rightarrow> strong_id \<Rightarrow> port_configuration \<Rightarrow> synthetic_adapter \<Rightarrow>
    adapter_apply_result \<times> synthetic_adapter" where
  "synthetic_apply fb p c ad =
     (let ad = ad\<lparr>sa_applies := sa_applies ad + 1\<rparr>
      in case fault_result (fault_for p fb) of
           Some r \<Rightarrow> (r, ad)
         | None \<Rightarrow> (apply_applied ''the synthetic device accepted the configuration'',
                   ad\<lparr>sa_observed := om_update p c (sa_observed ad)\<rparr>))"

definition readback_of :: "adapter_readback_status \<Rightarrow> port_configuration option \<Rightarrow> string \<Rightarrow> adapter_readback" where
  "readback_of status observed d = \<lparr>ab_status = status, ab_observed = observed, ab_detail = d\<rparr>"

definition synthetic_readback :: "synthetic_fabric \<Rightarrow> strong_id \<Rightarrow> synthetic_adapter \<Rightarrow>
    adapter_readback \<times> synthetic_adapter" where
  "synthetic_readback fb p ad =
     ((if fault_for p fb \<in> {SF_DeviceDisappeared, SF_StaleHandle, SF_AdapterCrash, SF_TransportFailure,
            SF_ConcurrentExternalChange, SF_DeviceReplaced}
       then readback_of RB_Unknown None ''the synthetic device could not be read back''
       else if fault_for p fb \<in> {SF_FailedVerification, SF_PartialApply}
       then readback_of RB_Mismatch (Some no_configuration)
              ''the synthetic device state does not match the request''
       else case map_of (sa_observed ad) p of
         None \<Rightarrow> readback_of RB_Unknown None ''the synthetic device holds no configuration for this port''
       | Some held \<Rightarrow>
         (case observed_configuration_for p fb of
            Some c \<Rightarrow> readback_of RB_Mismatch (Some c) ''the synthetic device state differs from the request''
          | None \<Rightarrow> readback_of RB_Verified (Some held) ''the synthetic device matches the request'')),
      ad\<lparr>sa_readbacks := sa_readbacks ad + 1\<rparr>)"

definition synthetic_observed :: "strong_id \<Rightarrow> synthetic_adapter \<Rightarrow> port_configuration option" where
  "synthetic_observed p ad = map_of (sa_observed ad) p"

section \<open>The index of the inventory\<close>

definition fabric_ok :: "synthetic_fabric \<Rightarrow> bool" where
  "fabric_ok fb \<longleftrightarrow> distinct (map sp_port (sf_ports fb)) \<and>
     (\<forall>p i. map_of (sf_index fb) p = Some i \<longleftrightarrow> i < length (sf_ports fb) \<and> sp_port (sf_ports fb ! i) = p)"

lemma fabric_ok_create: "fabric_ok (fabric_create name)"
  by (simp add: fabric_ok_def fabric_create_def)

lemma fabric_ok_cong:
  "sf_ports fb' = sf_ports fb \<Longrightarrow> sf_index fb' = sf_index fb \<Longrightarrow> fabric_ok fb' = fabric_ok fb"
  by (simp add: fabric_ok_def)

lemma fabric_ok_add_port:
  assumes "fabric_ok fb"
  shows "fabric_ok (fabric_add_port d fb)"
proof (cases "map_of (sf_index fb) (sp_port d)")
  case None
  then have fresh: "sp_port d \<notin> sp_port ` set (sf_ports fb)"
    using assms by (auto simp: fabric_ok_def in_set_conv_nth) (metis option.distinct(1))
  then have "\<forall>i < length (sf_ports fb). sp_port (sf_ports fb ! i) \<noteq> sp_port d" by (metis image_eqI nth_mem)
  with None fresh assms show ?thesis
    by (auto simp: fabric_ok_def fabric_add_port_def nth_append less_Suc_eq split: if_splits)
next
  case (Some i)
  then have i: "i < length (sf_ports fb)" "sp_port (sf_ports fb ! i) = sp_port d"
    using assms by (auto simp: fabric_ok_def)
  have same: "map sp_port ((sf_ports fb)[i := d]) = map sp_port (sf_ports fb)"
    using i by (simp add: map_update list_update_same_conv)
  then have "sp_port ((sf_ports fb)[i := d] ! j) = sp_port (sf_ports fb ! j)" if "j < length (sf_ports fb)" for j
    using that by (metis length_list_update nth_map)
  then have "fabric_ok (fb\<lparr>sf_ports := (sf_ports fb)[i := d]\<rparr>)"
    using assms same by (auto simp: fabric_ok_def)
  moreover have "fabric_add_port d fb = (if id_valid (sp_port d) then fb\<lparr>sf_ports := (sf_ports fb)[i := d]\<rparr> else fb)"
    by (simp add: fabric_add_port_def Some)
  ultimately show ?thesis using assms by simp
qed

lemma fabric_ok_add_generated: "fabric_ok fb \<Longrightarrow> fabric_ok (add_generated t d c k i fb)"
  using fabric_ok_add_port by (auto simp: add_generated_def Let_def fabric_ok_def)

lemma fabric_ok_fold: "(\<And>i fb. fabric_ok fb \<Longrightarrow> fabric_ok (f i fb)) \<Longrightarrow> fabric_ok fb \<Longrightarrow> fabric_ok (fold f is fb)"
  by (induction "is" arbitrary: fb) simp_all

lemma fabric_ok_add_device: "fabric_ok fb \<Longrightarrow> fabric_ok (snd (fabric_add_device label c n k fb))"
  by (auto simp: fabric_add_device_def Let_def intro!: fabric_ok_fold fabric_ok_add_generated)
    (simp add: fabric_ok_def)+

lemma fabric_ok_children: "fabric_ok fb \<Longrightarrow> fabric_ok (snd (fold (add_child d) is (created, fb)))"
  by (induction "is" arbitrary: created fb) (simp_all add: add_child_def Let_def fabric_ok_add_port)

lemma fabric_ok_breakout: "fabric_ok fb \<Longrightarrow> fabric_ok (snd (fabric_add_breakout_children p n fb))"
  by (simp add: fabric_add_breakout_children_def fabric_ok_children split: option.split)

text \<open>Everything a test or an example can do with a fabric.\<close>

inductive fabric_reachable :: "synthetic_fabric \<Rightarrow> bool" where
  created: "fabric_reachable (fabric_create name)"
| port_added: "fabric_reachable fb \<Longrightarrow> fabric_reachable (fabric_add_port d fb)"
| device_added: "fabric_reachable fb \<Longrightarrow> fabric_reachable (snd (fabric_add_device label c n k fb))"
| children_added: "fabric_reachable fb \<Longrightarrow> fabric_reachable (snd (fabric_add_breakout_children p m fb))"
| fault_set: "fabric_reachable fb \<Longrightarrow> fabric_reachable (set_fault p f fb)"
| global_fault_set: "fabric_reachable fb \<Longrightarrow> fabric_reachable (set_global_fault f fb)"
| faults_cleared: "fabric_reachable fb \<Longrightarrow> fabric_reachable (clear_faults fb)"
| changed_outside: "fabric_reachable fb \<Longrightarrow> fabric_reachable (snd (set_observed_configuration p x fb))"
| change_cleared: "fabric_reachable fb \<Longrightarrow> fabric_reachable (clear_observed_configuration p fb)"
| generation_advanced: "fabric_reachable fb \<Longrightarrow> fabric_reachable (snd (advance_capability_generation fb))"

lemma fabric_reachable_ok: "fabric_reachable fb \<Longrightarrow> fabric_ok fb"
  by (induction rule: fabric_reachable.induct)
    (auto simp: fabric_ok_create fabric_ok_add_port fabric_ok_add_device fabric_ok_breakout set_fault_def
      set_global_fault_def clear_faults_def set_observed_configuration_def clear_observed_configuration_def
      advance_capability_generation_def Let_def elim!: fabric_ok_cong [THEN iffD2, rotated 2])

text \<open>
  The indexed lookup of the synthetic inventory is the search it replaces: in every
  fabric that can be built, no identity occurs twice, and finding a port by its identity gives the
  definition that a scan of the inventory finds, or nothing where the scan finds nothing.
\<close>

theorem fabric_lookup_is_scan:
  assumes "fabric_reachable fb"
  shows "distinct (map sp_port (sf_ports fb)) \<and> fabric_find p fb = find (\<lambda>d. sp_port d = p) (sf_ports fb)"
proof -
  note ok = fabric_reachable_ok [OF assms, unfolded fabric_ok_def]
  show ?thesis
  proof (cases "map_of (sf_index fb) p")
    case None
    then have "\<forall>d \<in> set (sf_ports fb). sp_port d \<noteq> p"
      using ok by (auto simp: in_set_conv_nth) (metis option.distinct(1))
    then have "find (\<lambda>d. sp_port d = p) (sf_ports fb) = None" by (auto simp: find_None_iff)
    with None ok show ?thesis by (simp add: fabric_find_def)
  next
    case (Some i)
    then have i: "i < length (sf_ports fb)" "sp_port (sf_ports fb ! i) = p" using ok by auto
    moreover have "sp_port (sf_ports fb ! j) \<noteq> p" if "j < i" for j
      using ok i that by (auto simp: distinct_conv_nth)
    ultimately have found: "find (\<lambda>d. sp_port d = p) (sf_ports fb) = Some (sf_ports fb ! i)"
      by (auto simp: find_Some_iff)
    show ?thesis
      by (intro conjI) (use ok in blast, simp only: fabric_find_def Some option.map found)
  qed
qed

section \<open>A governed device\<close>

text \<open>
  A mutation over the synthetic fabric: its provider answers with the evidence of the fabric, its
  adapter applies the configuration \<open>c\<close> the mutation arrives at, and is read back after that.
\<close>

definition synthetic_env :: "synthetic_fabric \<Rightarrow> synthetic_adapter \<Rightarrow> port_configuration \<Rightarrow> environment \<Rightarrow> environment" where
  "synthetic_env fb ad c env = env
     \<lparr>ev_provider := Some (synthetic_current fb),
      ev_adapter := Some
        \<lparr>ad_label = ''synthetic'',
         ad_apply = (\<lambda>p c. fst (synthetic_apply fb p c ad)),
         ad_readback = (\<lambda>p. fst (synthetic_readback fb p (snd (synthetic_apply fb p c ad))))\<rparr>\<rparr>"

lemma synthetic_verified:
  assumes "ab_status (fst (synthetic_readback fb p ad)) = RB_Verified"
  obtains c where "synthetic_observed p ad = Some c" "ab_observed (fst (synthetic_readback fb p ad)) = Some c"
    "observed_configuration_for p fb = None" "fault_for p fb \<in> {SF_None, SF_PermissionDenied, SF_UnsupportedParameter}"
  using assms
  by (cases "fault_for p fb")
    (auto simp: synthetic_readback_def readback_of_def synthetic_observed_def split: option.splits)

lemma synthetic_apply_holds:
  assumes "ar_status (fst (synthetic_apply fb p c ad)) = AS_Applied"
    "ab_status (fst (synthetic_readback fb p (snd (synthetic_apply fb p c ad)))) = RB_Verified"
  shows "synthetic_observed p (snd (synthetic_apply fb p c ad)) = Some c" "fault_for p fb = SF_None"
proof -
  have "fault_for p fb \<in> {SF_None, SF_PermissionDenied, SF_UnsupportedParameter}"
    by (rule synthetic_verified [OF assms(2)])
  with assms(1) show "fault_for p fb = SF_None"
    by (auto simp: synthetic_apply_def Let_def apply_failed_def)
  then show "synthetic_observed p (snd (synthetic_apply fb p c ad)) = Some c"
    by (simp add: synthetic_apply_def Let_def synthetic_observed_def)
qed

text \<open>
  Property C40. VERIFIED means verified: when a mutation over the synthetic fabric commits a
  configuration and records it as verified, the simulated device was healthy, was not changed from
  outside, and holds exactly the committed configuration; and when the device reports any fault, the
  record of a committed configuration never says verified.
\<close>

theorem verified_means_the_device_agrees:
  assumes "engine_ok e" "mutate (synthetic_env fb ad c env) q e = (r, e')"
    "oc_code (mr_outcome r) \<in> {OC_Ok, OC_PersistenceIoFailure}" "needs_capability (request_kind q)"
    "port_of e' (target q) = Some after" "pr_configuration after = Some c" "ae_verified (pr_applied after)"
  shows "synthetic_observed (target q) (snd (synthetic_apply fb (target q) c ad)) = Some c \<and>
    fault_for (target q) fb = SF_None \<and> observed_configuration_for (target q) fb = None"
proof -
  let ?env = "synthetic_env fb ad c env"
  have code: "oc_code (mr_outcome (fst (mutate ?env q e))) \<in> {OC_Ok, OC_PersistenceIoFailure}"
    using assms by simp
  have "truthful ?env (en_config e) (target q) c (pr_applied after)"
  proof (rule committed_configuration [OF assms(1) code assms(4)])
    fix snap stored c' b p a s
    let ?p = "stamp (request_envelope q) (request_payload q) (request_fallback q) (plan_of q snap b e)"
    assume m: "port_of (snd (mutate ?env q e)) = (port_of e)(target q \<mapsto> stored)"
      "pr_configuration stored = Some c'" "stored = committed_record p (pr_provenance (pl_next p)) a s"
      "apply_plan ?env (en_config e) (target q) snap ?p = Ready p a s"
      "pl_requires_apply (plan_of q snap b e)" "pl_apply_configuration (plan_of q snap b e) = c'"
    have same: "stored = after" "c' = c" using m(1,2) assms(2,5,6) by auto
    have t: "s \<and> truthful ?env (en_config e) (target q) c' a"
      using apply_truthful [OF m(4)] m(5,6) by (simp add: stamp_def)
    then have "pr_applied after = a" using m(3) same(1) by (auto simp: committed_record_def Let_def)
    with t same(2) show ?thesis by simp
  qed
  then have "ar_status (fst (synthetic_apply fb (target q) c ad)) = AS_Applied"
    "ab_status (fst (synthetic_readback fb (target q) (snd (synthetic_apply fb (target q) c ad)))) = RB_Verified"
    using assms(7) by (auto simp: truthful_def synthetic_env_def)
  from synthetic_apply_holds [OF this] synthetic_verified [OF this(2)] show ?thesis by blast
qed

section \<open>Instances\<close>

text \<open>A fabric with one switch of two ports, and the sample port configured over a healthy device.\<close>

definition lab :: synthetic_fabric where
  "lab = snd (fabric_add_device ''sw1'' SC_Uplink100G 2 PEC_SwitchPort (fabric_create ''lab''))"

theorem fabric_lookup_is_scan_witness:
  "fabric_find ''syn-sw1-p02'' lab = find (\<lambda>d. sp_port d = ''syn-sw1-p02'') (sf_ports lab)"
proof -
  have "fabric_reachable lab" unfolding lab_def by (intro fabric_reachable.intros)
  from fabric_lookup_is_scan [OF this] show ?thesis by blast
qed

text \<open>Adding ports injects no fault and changes no device from outside.\<close>

definition undisturbed :: "synthetic_fabric \<Rightarrow> bool" where
  "undisturbed fb \<longleftrightarrow> sf_faults fb = [] \<and> sf_external fb = [] \<and> sf_global_fault fb = SF_None"

lemma undisturbed_add_generated: "undisturbed (add_generated t d c k i fb) = undisturbed fb"
  by (simp add: undisturbed_def add_generated_def fabric_add_port_def Let_def split: option.split)

lemma undisturbed_fold: "undisturbed (fold (add_generated t d c k) is fb) = undisturbed fb"
  by (induction "is" arbitrary: fb) (simp_all add: undisturbed_add_generated)

lemma undisturbed_lab: "undisturbed lab"
  by (simp add: lab_def fabric_add_device_def Let_def undisturbed_fold del: upt_Suc)
    (simp add: undisturbed_def fabric_create_def)

lemma sample_verified:
  defines "env \<equiv> synthetic_env lab adapter_create configured_as quiet_env"
    and "e \<equiv> one_port Policy_ApplyAndVerify fresh_port"
  shows "oc_code (mr_outcome (fst (mutate env configure e))) = OC_Ok"
    "\<exists>after. port_of (snd (mutate env configure e)) ''p1'' = Some after \<and>
       pr_configuration after = Some configured_as \<and> ae_verified (pr_applied after)"
proof -
  let ?s = "stamp (request_envelope configure) (request_payload configure) (request_fallback configure)
    (plan_of configure fresh_port sample_capability e)"
  note g = configure_gates(1,2) [where pol = Policy_ApplyAndVerify, folded e_def] configure_gates(3)
    configure_gates(4,5,6) [where pol = Policy_ApplyAndVerify, folded e_def]
  have plan: "pl_requires_apply ?s" "pl_apply_configuration ?s = configured_as"
    "pl_expected ?s = capture_expected fresh_port" "pr_configuration (pl_next ?s) = Some configured_as"
    "lm_attempt (pr_last_mutation (pl_next ?s)) = ''a1''"
    by (simp_all add: e_def configure_plan stamp_def propose_configuration_def propose_def configured_next_def)
      (simp add: configure_def sample_envelope_def sample_authority_def)
  have fault: "fault_for ''p1'' lab = SF_None" "observed_configuration_for ''p1'' lab = None"
    using undisturbed_lab by (simp_all add: undisturbed_def fault_for_def observed_configuration_for_def)
  have "\<exists>p a. apply_plan env (en_config e) (target configure) fresh_port ?s = Ready p a True \<and>
      ae_verified a \<and> pl_expected p = pl_expected ?s \<and> pr_configuration (pl_next p) = Some configured_as \<and>
      pr_last_mutation (pl_next p) = pr_last_mutation (pl_next ?s)"
    using plan fault
    by (simp add: apply_plan_def Let_def g(3) e_def env_def synthetic_env_def synthetic_apply_def apply_applied_def
        verify_applied_def synthetic_readback_def readback_of_def settle_evidence_def advance_defs)
  then obtain p a where r: "apply_plan env (en_config e) (target configure) fresh_port ?s = Ready p a True"
    "ae_verified a" "pl_expected p = pl_expected ?s" "pr_configuration (pl_next p) = Some configured_as"
    "pr_last_mutation (pl_next p) = pr_last_mutation (pl_next ?s)" by blast
  have port: "port_of e (target configure) = Some fresh_port" unfolding g(3) by (rule g)
  note kept = trans [OF r(3) plan(3)]
  have answer: "commit_answer (target configure) (pl_expected p) p fresh_port (en_generation e) = None"
    by (rule commit_answer_current)
      (simp_all add: kept r(5) plan(5) fresh_port_fields no_last_mutation_def id_valid_def e_def
        gen_exhaustible_def)
  show ok: "oc_code (mr_outcome (fst (mutate env configure e))) = OC_Ok"
    by (rule mutate_commit_ok [OF g(1,2) port g(5,6) r(1) answer]) (simp add: e_def default_config_def)
  have d: "decision_of env configure fresh_port e = Ready p a True"
    using g(5) [of env] g(6) r(1)
    by (simp add: decision_of_def decide_def gates_passed_def Let_def plan_of_def)
  show "\<exists>after. port_of (snd (mutate env configure e)) ''p1'' = Some after \<and>
       pr_configuration after = Some configured_as \<and> ae_verified (pr_applied after)"
  proof (rule mutate_cases [of env configure e])
    fix snap p' a' s' dirty
    assume m: "port_of e (target configure) = Some snap" "decision_of env configure snap e = Ready p' a' s'"
      "snd (mutate env configure e) = (store_record snap (committed_record p' (pr_provenance (pl_next p')) a' s')
        (admitted configure e))\<lparr>en_generation := gen_next (en_generation e), en_durability_dirty := dirty\<rparr>"
    then have "snap = fresh_port" "p' = p" "a' = a" "s'" using port d by auto
    with m(3) r(2,4) show ?thesis
      by (simp add: committed_record_def Let_def fresh_port_fields)
  qed (use ok in \<open>auto simp: quiet_def quiet_code_def\<close>)
qed

theorem verified_means_the_device_agrees_witness:
  "synthetic_observed ''p1'' (snd (synthetic_apply lab ''p1'' configured_as adapter_create)) = Some configured_as"
proof -
  let ?env = "synthetic_env lab adapter_create configured_as quiet_env"
  let ?e = "one_port Policy_ApplyAndVerify fresh_port"
  have ok: "engine_ok ?e" by (rule one_port_ok) (simp_all add: fresh_port_ok fresh_port_fields)
  have q: "needs_capability (request_kind configure)" "target configure = ''p1''"
    using configure_gates(3) by (simp_all add: configure_def needs_capability_def)
  obtain after where "port_of (snd (mutate ?env configure ?e)) ''p1'' = Some after"
    "pr_configuration after = Some configured_as" "ae_verified (pr_applied after)"
    using sample_verified(2) by blast
  with verified_means_the_device_agrees [OF ok surjective_pairing, of lab adapter_create configured_as quiet_env configure after]
    sample_verified(1) q
  show ?thesis by simp
qed

end
