(* ===== verification/Process.thy ===== *)
theory Process
  imports Synthetic
begin

text \<open>
  What the three programs under \<open>src/apps\<close> share: their output, the number parsing of the C library,
  the command line loop, the synthetic inventory they build, and the version of \<open>src/version.cpp\<close>. The
  version numbers are macros of the build and the width of \<open>unsigned long\<close> is that of the platform; both
  are parameters.
\<close>

section \<open>Output\<close>

text \<open>The lines a process has written to its two streams and the code it returns.\<close>

record run =
  ru_out :: "string list"
  ru_err :: "string list"
  ru_exit :: int

definition exits :: "int \<Rightarrow> string list \<Rightarrow> string list \<Rightarrow> run" where
  "exits code out err = \<lparr>ru_out = out, ru_err = err, ru_exit = code\<rparr>"

text \<open>Printing a string as a C string ends at its first null character.\<close>

definition c_str :: "string \<Rightarrow> string" where
  "c_str t = takeWhile (\<lambda>c. c \<noteq> CHR 0x00) t"

section \<open>Numbers\<close>

definition is_space :: "char \<Rightarrow> bool" where
  "is_space c \<longleftrightarrow> (of_char c :: nat) = 32 \<or> 9 \<le> (of_char c :: nat) \<and> (of_char c :: nat) \<le> 13"

text \<open>
  \<open>strtoul\<close> in base ten, for an unsigned type with the largest value \<open>limit\<close>: leading space, a sign,
  digits. A value that is too large becomes the limit, a negative one wraps, no digits are zero.
\<close>

definition signed_digits :: "string \<Rightarrow> bool \<times> string" where
  "signed_digits t =
     (case dropWhile is_space t of
        [] \<Rightarrow> (False, [])
      | c # rest \<Rightarrow>
          if c = CHR ''-'' then (True, takeWhile is_digit rest)
          else if c = CHR ''+'' then (False, takeWhile is_digit rest)
          else (False, takeWhile is_digit (c # rest)))"

definition strtoul :: "nat \<Rightarrow> string \<Rightarrow> nat" where
  "strtoul limit t =
     (let (negative, digits) = signed_digits t; v = decimal_value 0 digits
      in if limit < v then limit else if negative \<and> v \<noteq> 0 then limit + 1 - v else v)"

definition ulong_max_64 :: nat where "ulong_max_64 = 18446744073709551615"

lemma strtoul_bounded: "strtoul limit t \<le> limit"
  by (auto simp: strtoul_def Let_def split: prod.split)

lemma strtoul_decimal:
  assumes "n \<le> limit"
  shows "strtoul limit (decimal n) = n"
proof -
  obtain c ds where d: "decimal n = c # ds" by (meson decimal_nonempty neq_Nil_conv)
  have "list_all is_digit (c # ds)" using decimal_digits [of n] d by simp
  moreover from this have "\<not> is_space c" "c \<noteq> CHR ''-''" "c \<noteq> CHR ''+''"
    by (auto simp: is_digit_def is_space_def)
  ultimately have "signed_digits (decimal n) = (False, decimal n)"
    by (simp add: d signed_digits_def takeWhile_eq_all_conv list_all_iff)
  with assms show ?thesis by (simp add: strtoul_def decimal_value_decimal)
qed

section \<open>The command line\<close>

text \<open>
  The loop both daemons run over their arguments: \<open>valued\<close> are the options that take the argument after
  them, if there is one, \<open>flag\<close> those that take none. Help and an unknown option end it, with what has
  been printed.
\<close>

function parse_arguments :: "(string \<Rightarrow> string option \<Rightarrow> 'o \<Rightarrow> 'o option) \<Rightarrow> (string \<Rightarrow> 'o \<Rightarrow> 'o option) \<Rightarrow>
    string list \<Rightarrow> string list \<Rightarrow> 'o \<Rightarrow> run + 'o" where
  "parse_arguments valued flag usage [] opts = Inr opts"
| "parse_arguments valued flag usage (a # rest) opts =
     (case valued a (if rest = [] then None else Some (hd rest)) opts of
        Some opts \<Rightarrow> parse_arguments valued flag usage (tl rest) opts
      | None \<Rightarrow>
        (case flag a opts of
           Some opts \<Rightarrow> parse_arguments valued flag usage rest opts
         | None \<Rightarrow>
             Inl (if a = ''--help'' \<or> a = ''-h'' then exits 2 usage []
                  else exits 2 [] [''unknown option: '' @ c_str a])))"
  by pat_completeness auto
termination
  by (relation "measure (\<lambda>(valued, flag, usage, arguments, opts). length arguments)") auto

text \<open>A text option keeps its value when the argument is missing.\<close>

definition text_or :: "string \<Rightarrow> string option \<Rightarrow> string" where
  "text_or old v = (case v of None \<Rightarrow> old | Some t \<Rightarrow> t)"

text \<open>A number option whose argument is missing is read from the empty text.\<close>

definition number_of :: "nat \<Rightarrow> string option \<Rightarrow> nat" where
  "number_of limit v = strtoul limit (text_or [] v)"

section \<open>Version and inventory\<close>

type_synonym version = "u32 \<times> u32 \<times> u32"

definition version_string :: "version \<Rightarrow> string" where
  "version_string = (\<lambda>(major, minor, patch).
     decimal (unat major) @ ''.'' @ decimal (unat minor) @ ''.'' @ decimal (unat patch))"

definition product_name :: string where "product_name = ''Port Fabric''"

text \<open>The class and the number of ports a specification names.\<close>

definition split_specification :: "nat \<Rightarrow> string \<Rightarrow> string \<times> u32" where
  "split_specification limit spec =
     (if CHR '':'' \<in> set spec
      then (takeWhile (\<lambda>c. c \<noteq> CHR '':'') spec,
            of_nat (strtoul limit (tl (dropWhile (\<lambda>c. c \<noteq> CHR '':'') spec))))
      else (spec, 8))"

text \<open>An unknown class name leaves the class at its initial value.\<close>

definition add_inventory :: "string \<times> u32 \<Rightarrow> string \<Rightarrow> synthetic_fabric \<Rightarrow> synthetic_fabric" where
  "add_inventory = (\<lambda>(class_name, count) label fb.
     snd (fabric_add_device label
       (case parse_synthetic_port_class class_name of None \<Rightarrow> SC_Spine400G | Some c \<Rightarrow> c)
       (unat count) PEC_SyntheticPort fb))"

lemma inventory_undisturbed: "undisturbed fb \<Longrightarrow> undisturbed (add_inventory cc label fb)"
proof -
  assume "undisturbed fb"
  then have "undisturbed (fb\<lparr>sf_devices := d\<rparr>)" for d by (simp add: undisturbed_def)
  with \<open>undisturbed fb\<close> show ?thesis
    by (simp add: add_inventory_def fabric_add_device_def case_prod_beta Let_def undisturbed_fold del: upt_Suc)
qed

end
