(* ===== verification/Net.thy ===== *)
theory Net
  imports Text
begin

text \<open>
  The transport of \<open>src/net.cpp\<close>: name resolution and the candidate loops of \<open>net_connect\<close> and
  \<open>net_listen\<close>, sending in chunks and receiving. The socket calls of the operating system are a
  parameter, a record of functions on its state; the calls that set options of a socket and whose
  result the code ignores are left out. A receive that never returns is \<open>None\<close>.
\<close>

section \<open>The operating system\<close>

record 's socket_ops =
  so_startup :: "'s \<Rightarrow> bool"
  so_resolve :: "string \<Rightarrow> string \<Rightarrow> 's \<Rightarrow> string list option"
  so_open :: "string \<Rightarrow> 's \<Rightarrow> bool \<times> 's"
  so_bind :: "string \<Rightarrow> 's \<Rightarrow> bool \<times> 's"
  so_listen :: "'s \<Rightarrow> bool \<times> 's"
  so_local_port :: "'s \<Rightarrow> 16 word option"
  so_connect :: "string \<Rightarrow> 's \<Rightarrow> bool \<times> 's"
  so_send :: "string \<Rightarrow> 's \<Rightarrow> int \<times> 's"
  so_receive :: "nat \<Rightarrow> 's \<Rightarrow> (string option \<times> 's) option"
  so_close :: "'s \<Rightarrow> 's"
  so_error :: "'s \<Rightarrow> nat"

definition socket_error_text :: "'s socket_ops \<Rightarrow> string \<Rightarrow> 's \<Rightarrow> string" where
  "socket_error_text ops prefix s = prefix @ '' (winsock error '' @ decimal (so_error ops s) @ '')''"

definition unavailable :: string where
  "unavailable = ''the socket runtime is unavailable on this host''"

definition net_available :: "'s socket_ops \<Rightarrow> 's \<Rightarrow> bool" where
  "net_available ops s = so_startup ops s"

section \<open>Connecting and listening\<close>

text \<open>A candidate is opened and tried; one that fails is closed before the next.\<close>

fun try_candidates :: "'s socket_ops \<Rightarrow> (string \<Rightarrow> 's \<Rightarrow> bool \<times> 's) \<Rightarrow> string list \<Rightarrow> 's \<Rightarrow> bool \<times> 's" where
  "try_candidates ops use [] s = (False, s)"
| "try_candidates ops use (c # cs) s =
     (let (opened, s) = so_open ops c s
      in if \<not> opened then try_candidates ops use cs s
         else let (used, s) = use c s
           in if used then (True, s) else try_candidates ops use cs (so_close ops s))"

definition net_connect :: "'s socket_ops \<Rightarrow> string \<Rightarrow> 16 word \<Rightarrow> 's \<Rightarrow> string option \<times> 's" where
  "net_connect ops address port s =
     (if \<not> so_startup ops s then (Some unavailable, s)
      else case so_resolve ops address (decimal (unat port)) s of
        None \<Rightarrow> (Some ''the coordinator address could not be resolved'', s)
      | Some candidates \<Rightarrow>
        (let (connected, s) = try_candidates ops (so_connect ops) candidates s
         in if connected then (None, s)
            else (Some (socket_error_text ops ''the coordinator could not be reached'' s), s)))"

definition bind_and_listen :: "'s socket_ops \<Rightarrow> string \<Rightarrow> 's \<Rightarrow> bool \<times> 's" where
  "bind_and_listen ops c s =
     (let (bound, s) = so_bind ops c s in if bound then so_listen ops s else (False, s))"

definition net_listen :: "'s socket_ops \<Rightarrow> string \<Rightarrow> 16 word \<Rightarrow> 's \<Rightarrow> (string + 16 word) \<times> 's" where
  "net_listen ops address port s =
     (if \<not> so_startup ops s then (Inl unavailable, s)
      else case so_resolve ops address (decimal (unat port)) s of
        None \<Rightarrow> (Inl ''the listening address could not be resolved'', s)
      | Some candidates \<Rightarrow>
        (let (listening, s) = try_candidates ops (bind_and_listen ops) candidates s
         in if \<not> listening
            then (Inl (socket_error_text ops ''the coordinator could not bind its listening socket'' s), s)
            else case so_local_port ops s of
              None \<Rightarrow> (Inl (socket_error_text ops ''the listening socket address could not be read'' s),
                        so_close ops s)
            | Some bound_port \<Rightarrow> (Inr bound_port, s)))"

section \<open>Sending and receiving\<close>

definition send_chunk :: nat where "send_chunk = 1048576"

function net_send_all :: "'s socket_ops \<Rightarrow> string \<Rightarrow> 's \<Rightarrow> string option \<times> 's" where
  "net_send_all ops bytes s =
     (if bytes = [] then (None, s)
      else let (sent, s) = so_send ops (take send_chunk bytes) s
        in if sent \<le> 0 then (Some (socket_error_text ops ''a frame could not be sent'' s), s)
           else net_send_all ops (drop (nat sent) bytes) s)"
  by pat_completeness auto
termination by (relation "measure (\<lambda>(ops, bytes, s). length bytes)") auto

declare net_send_all.simps [simp del]

definition net_receive :: "'s socket_ops \<Rightarrow> nat \<Rightarrow> 's \<Rightarrow> ((string + string) \<times> 's) option" where
  "net_receive ops n s =
     (case so_receive ops n s of
        None \<Rightarrow> None
      | Some (None, s) \<Rightarrow> Some (Inl (socket_error_text ops ''a frame could not be received'' s), s)
      | Some (Some bytes, s) \<Rightarrow> Some (Inr bytes, s))"

text \<open>The loop that both ends use to read a header or a payload.\<close>

function receive_exact :: "'s socket_ops \<Rightarrow> string \<Rightarrow> nat \<Rightarrow> 's \<Rightarrow> ((string + string) \<times> 's) option" where
  "receive_exact ops closed n s =
     (if n = 0 then Some (Inr [], s)
      else case net_receive ops n s of
        None \<Rightarrow> None
      | Some (Inl error, s) \<Rightarrow> Some (Inl error, s)
      | Some (Inr bytes, s) \<Rightarrow>
          if bytes = [] then Some (Inl closed, s)
          else (case receive_exact ops closed (n - length bytes) s of
                  None \<Rightarrow> None
                | Some (r, s) \<Rightarrow> Some (map_sum id ((@) bytes) r, s)))"
  by pat_completeness auto
termination by (relation "measure (\<lambda>(ops, closed, n, s). n)") auto

declare receive_exact.simps [simp del]

section \<open>A connection\<close>

text \<open>
  What the ends of a connection rely on. A send takes a prefix of what it is given and a receive
  delivers a prefix of what is pending, of a length the operating system chooses; no byte is lost,
  repeated or reordered, and a receive with nothing pending waits. \<open>sent\<close> is what went out so far,
  \<open>got\<close> how much came in; the peer \<open>peer\<close> answers the bytes \<open>b\<close> it was sent with \<open>answers peer b\<close> and
  still listens after them unless \<open>hung_up peer b\<close>.
\<close>

locale connection =
  fixes ops :: "'s socket_ops" and sent :: "'s \<Rightarrow> string" and got :: "'s \<Rightarrow> nat" and peer :: "'s \<Rightarrow> 'p"
    and answers :: "'p \<Rightarrow> string \<Rightarrow> string" and hung_up :: "'p \<Rightarrow> string \<Rightarrow> bool"
  assumes send_prefix: "so_send ops bytes s = (k, s') \<Longrightarrow> bytes \<noteq> [] \<Longrightarrow>
      0 < k \<and> nat k \<le> length bytes \<and> sent s' = sent s @ take (nat k) bytes \<and>
      got s' = got s \<and> peer s' = peer s"
    and receive_prefix: "0 < n \<Longrightarrow> got s < length (answers (peer s) (sent s)) \<Longrightarrow>
      \<exists>k s'. so_receive ops n s = Some (Some (take k (drop (got s) (answers (peer s) (sent s)))), s') \<and>
        0 < k \<and> k \<le> n \<and> got s' = got s + k \<and> sent s' = sent s \<and> peer s' = peer s"
    and receive_waits: "0 < n \<Longrightarrow> length (answers (peer s) (sent s)) \<le> got s \<Longrightarrow>
      \<not> hung_up (peer s) (sent s) \<Longrightarrow> so_receive ops n s = None"
begin

lemma send_all:
  "\<exists>s'. net_send_all ops bytes s = (None, s') \<and> sent s' = sent s @ bytes \<and> got s' = got s \<and> peer s' = peer s"
proof (induction "length bytes" arbitrary: bytes s rule: less_induct)
  case less
  show ?case
  proof (cases "bytes = []")
    case True
    then show ?thesis by (simp add: net_send_all.simps)
  next
    case False
    then have chunk: "take send_chunk bytes \<noteq> []" by (simp add: send_chunk_def)
    obtain k s' where k: "so_send ops (take send_chunk bytes) s = (k, s')" by fastforce
    note law = send_prefix [OF k chunk]
    then have chosen: "0 < k" "sent s' = sent s @ take (nat k) bytes" by (auto simp: min_def split: if_splits)
    then have "length (drop (nat k) bytes) < length bytes" using False by auto
    from less [OF this, of s'] k chosen law False show ?thesis
      by (subst net_send_all.simps) auto
  qed
qed

lemma receive_all:
  "got s + n \<le> length (answers (peer s) (sent s)) \<Longrightarrow>
   \<exists>s'. receive_exact ops closed n s = Some (Inr (take n (drop (got s) (answers (peer s) (sent s)))), s') \<and>
     got s' = got s + n \<and> sent s' = sent s \<and> peer s' = peer s"
proof (induction n arbitrary: s rule: less_induct)
  case (less n)
  show ?case
  proof (cases "n = 0")
    case True
    then show ?thesis by (simp add: receive_exact.simps)
  next
    case False
    let ?pending = "drop (got s) (answers (peer s) (sent s))"
    from receive_prefix [of n s] False less.prems obtain k s' where k:
      "so_receive ops n s = Some (Some (take k ?pending), s')" "0 < k" "k \<le> n"
      "got s' = got s + k" "sent s' = sent s" "peer s' = peer s" by auto
    have len: "length (take k ?pending) = k" "take k ?pending \<noteq> []" using less.prems k(2,3) by auto
    have "n - k < n" "got s' + (n - k) \<le> length (answers (peer s') (sent s'))"
      using k less.prems False by auto
    from less.IH [OF this] obtain s'' where rest:
      "receive_exact ops closed (n - k) s' = Some (Inr (take (n - k) (drop (got s') (answers (peer s') (sent s')))), s'')"
      "got s'' = got s' + (n - k)" "sent s'' = sent s'" "peer s'' = peer s'" by blast
    have "take k ?pending @ take (n - k) (drop (got s') (answers (peer s') (sent s'))) = take n ?pending"
      using k(3) unfolding k(4-6) by (metis add.commute drop_drop le_add_diff_inverse take_add)
    with k(1,3,4,5,6) rest len False show ?thesis
      by (subst receive_exact.simps) (simp add: net_receive_def)
  qed
qed

end

end
