(* ===== verification/Client.thy ===== *)
theory Client
  imports Session Net
begin

text \<open>
  The client of \<open>src/client.cpp\<close>: one session with a coordinator, one request at a time. Every
  operation is a function of the client and of the state of the operating system its socket lives
  in; \<open>None\<close> is a call that never returns, because it waits for a frame that never comes. The mutex
  that serialises the calls is the order in which they are made.
\<close>

section \<open>The client\<close>

record client_config =
  cc_address :: string
  cc_port :: u16
  cc_publisher :: strong_id
  cc_boot :: strong_id
  cc_role :: string

record client =
  cl_config :: client_config
  cl_connected :: bool
  cl_sequence :: u64
  cl_epoch :: generation
  cl_last_error :: string

definition client_create :: "client_config \<Rightarrow> client" where
  "client_create config = \<lparr>cl_config = config, cl_connected = False, cl_sequence = 0, cl_epoch = 0,
     cl_last_error = []\<rparr>"

definition client_close :: "'s socket_ops \<Rightarrow> client \<times> 's \<Rightarrow> client \<times> 's" where
  "client_close ops = (\<lambda>(c, s). if cl_connected c then (c\<lparr>cl_connected := False\<rparr>, so_close ops s) else (c, s))"

section \<open>Frames\<close>

definition send_frame :: "'s socket_ops \<Rightarrow> message_type \<Rightarrow> u64 \<Rightarrow> string \<Rightarrow> 's \<Rightarrow> string option \<times> 's" where
  "send_frame ops t sq payload s =
     (let (encoded, bytes) = encode_frame \<lparr>fr_type = t, fr_flags = 0, fr_sequence = sq, fr_payload = payload\<rparr>
      in if \<not> outcome_ok encoded then (Some (oc_message encoded), s) else net_send_all ops bytes s)"

definition coordinator_closed :: string where
  "coordinator_closed = ''the coordinator closed the connection''"

text \<open>The text of an outcome whose code byte was not checked.\<close>

definition wire_outcome_to_string :: "wire_outcome \<Rightarrow> string" where
  "wire_outcome_to_string m =
     (case byte_enum all_outcome_code (wo_code m) of
        None \<Rightarrow> outcome_code_to_string OC_InternalError
      | Some code \<Rightarrow> outcome_code_to_string code) @ '': '' @
     (if wo_message m = [] then ''no detail'' else wo_message m) @
     concat (map (\<lambda>(key, value). '' '' @ key @ ''='' @ value) (wo_details m))"

text \<open>
  Reads one frame. The type that is expected matters only in that an error response fails the call
  unless a heartbeat is expected; neither the type nor the sequence number of the frame is compared
  with the request.
\<close>

definition frame_failure :: "message_type \<Rightarrow> frame_header \<Rightarrow> string \<Rightarrow> string option" where
  "frame_failure expected h payload =
     (if expected \<noteq> MT_Heartbeat \<and> fh_type h = MT_ErrorResponse
      then Some (case decode_outcome payload of
             Inl _ \<Rightarrow> ''the coordinator rejected the request''
           | Inr refusal \<Rightarrow> wire_outcome_to_string refusal)
      else None)"

definition received :: "message_type \<Rightarrow> frame_header \<Rightarrow> string \<Rightarrow> string + frame" where
  "received expected h payload =
     (if 0 < unat (fh_payload_length h) \<and> crc32 payload \<noteq> fh_payload_crc h
      then Inl ''the frame payload integrity check failed''
      else case frame_failure expected h payload of
        Some error \<Rightarrow> Inl error
      | None \<Rightarrow> Inr \<lparr>fr_type = fh_type h, fr_flags = fh_flags h, fr_sequence = fh_sequence h, fr_payload = payload\<rparr>)"

definition receive_frame :: "'s socket_ops \<Rightarrow> message_type \<Rightarrow> 's \<Rightarrow> ((string + frame) \<times> 's) option" where
  "receive_frame ops expected s =
     (case receive_exact ops coordinator_closed frame_header_size s of
        None \<Rightarrow> None
      | Some (Inl error, s) \<Rightarrow> Some (Inl error, s)
      | Some (Inr header, s) \<Rightarrow>
        (case decode_frame_header header of
           Inl answer \<Rightarrow> Some (Inl (oc_message answer), s)
         | Inr h \<Rightarrow>
           (case receive_exact ops coordinator_closed (unat (fh_payload_length h)) s of
              None \<Rightarrow> None
            | Some (Inl error, s) \<Rightarrow> Some (Inl error, s)
            | Some (Inr payload, s) \<Rightarrow> Some (received expected h payload, s))))"

section \<open>Requests\<close>

text \<open>
  The part that every operation repeats: number the request, send it, wait for one frame. A
  transport failure is recorded as the last error of the client.
\<close>

definition exchange :: "'s socket_ops \<Rightarrow> message_type \<Rightarrow> message_type \<Rightarrow> string \<Rightarrow> client \<times> 's \<Rightarrow>
    ((string + frame) \<times> client \<times> 's) option" where
  "exchange ops t expected payload = (\<lambda>(c, s).
     let c = c\<lparr>cl_sequence := cl_sequence c + 1\<rparr>;
         (unsent, s) = send_frame ops t (cl_sequence c) payload s
     in case unsent of
          Some error \<Rightarrow> Some (Inl error, c\<lparr>cl_last_error := error\<rparr>, s)
        | None \<Rightarrow>
          (case receive_frame ops expected s of
             None \<Rightarrow> None
           | Some (Inl error, s) \<Rightarrow> Some (Inl error, c\<lparr>cl_last_error := error\<rparr>, s)
           | Some (Inr f, s) \<Rightarrow> Some (Inr f, c, s)))"

definition not_connected :: string where
  "not_connected = ''the client is not connected''"

text \<open>The opening handshake; every failure closes the socket again.\<close>

definition hello_of :: "client_config \<Rightarrow> hello_message" where
  "hello_of config = \<lparr>hm_version = protocol_version, hm_publisher = cc_publisher config,
     hm_boot = cc_boot config, hm_epoch = 0, hm_role = cc_role config\<rparr>"

definition client_handshake :: "'s socket_ops \<Rightarrow> client \<times> 's \<Rightarrow> (outcome \<times> client \<times> 's) option" where
  "client_handshake ops = (\<lambda>(c, s).
     let (encoded, payload) = encode_hello (hello_of (cl_config c))
     in if \<not> outcome_ok encoded then Some (encoded, client_close ops (c, s))
        else case exchange ops MT_Hello MT_HelloAck payload (c, s) of
          None \<Rightarrow> None
        | Some (Inl error, cs) \<Rightarrow> Some (transport error, client_close ops cs)
        | Some (Inr f, c, s) \<Rightarrow>
            if fr_type f \<noteq> MT_HelloAck
            then Some (transport ''the coordinator answered the opening message with an unexpected type'',
                   client_close ops (c, s))
            else case decode_hello_ack (fr_payload f) of
              Inl answer \<Rightarrow> Some (answer, client_close ops (c, s))
            | Inr ack \<Rightarrow>
                if \<not> ha_accepted ack
                then Some (failure OC_UnauthorizedOwner (ha_detail ack), client_close ops (c, s))
                else Some (success ''session established'', c\<lparr>cl_epoch := ha_epoch ack\<rparr>, s))"

definition client_connect :: "'s socket_ops \<Rightarrow> client \<times> 's \<Rightarrow> (outcome \<times> client \<times> 's) option" where
  "client_connect ops = (\<lambda>(c, s).
     let config = cl_config c
     in if cl_connected c then Some (current ''the client is already connected'', c, s)
        else if \<not> net_available ops s
        then Some (transport unavailable, c, s)
        else if \<not> id_valid (cc_publisher config) \<or> \<not> id_valid (cc_boot config)
        then Some (failure OC_MalformedRequest ''the client configuration does not identify the process'', c, s)
        else let (refused, s) = net_connect ops (cc_address config) (cc_port config) s
          in case refused of
               Some error \<Rightarrow> Some (transport error, c\<lparr>cl_last_error := error\<rparr>, s)
             | None \<Rightarrow> client_handshake ops (c\<lparr>cl_connected := True\<rparr>, s))"

text \<open>A request that is answered with an outcome.\<close>

definition outcome_request :: "'s socket_ops \<Rightarrow> message_type \<Rightarrow> message_type \<Rightarrow> outcome \<times> string \<Rightarrow>
    client \<times> 's \<Rightarrow> (wire_outcome \<times> client \<times> 's) option" where
  "outcome_request ops t expected encoded = (\<lambda>(c, s).
     if \<not> cl_connected c then Some (wire_outcome_of (transport not_connected), c, s)
     else if \<not> outcome_ok (fst encoded) then Some (wire_outcome_of (fst encoded), c, s)
     else case exchange ops t expected (snd encoded) (c, s) of
       None \<Rightarrow> None
     | Some (Inl error, cs) \<Rightarrow> Some (wire_outcome_of (transport error), cs)
     | Some (Inr f, cs) \<Rightarrow>
         Some (case decode_outcome (fr_payload f) of Inl answer \<Rightarrow> wire_outcome_of answer | Inr m \<Rightarrow> m, cs))"

definition client_register_publisher :: "'s socket_ops \<Rightarrow> client \<times> 's \<Rightarrow> (wire_outcome \<times> client \<times> 's) option" where
  "client_register_publisher ops cs =
     (let c = fst cs
      in outcome_request ops MT_RegisterPublisher MT_RegisterPublisherAck
           (encode_register_publisher \<lparr>rm_publisher = cc_publisher (cl_config c),
              rm_boot = cc_boot (cl_config c), rm_epoch = cl_epoch c\<rparr>) cs)"

text \<open>Fencing is the one call that does not record a transport failure as the last error.\<close>

definition client_fence_publisher :: "'s socket_ops \<Rightarrow> strong_id \<Rightarrow> strong_id \<Rightarrow> string \<Rightarrow> client \<times> 's \<Rightarrow>
    (wire_outcome \<times> client \<times> 's) option" where
  "client_fence_publisher ops publisher boot detail cs =
     map_option (\<lambda>(m, c, s). (m, c\<lparr>cl_last_error := cl_last_error (fst cs)\<rparr>, s))
       (outcome_request ops MT_FencePublisher MT_FencePublisherAck
          (encode_fence \<lparr>fm_publisher = publisher, fm_boot = boot, fm_detail = detail\<rparr>) cs)"

text \<open>The result of a remote mutation: an outcome and what the client derives from it.\<close>

record client_result =
  cr_outcome :: wire_outcome
  cr_accepted :: bool
  cr_summary :: string

definition wire_accepted :: "wire_outcome \<Rightarrow> bool" where
  "wire_accepted m = (case byte_enum all_outcome_code (wo_code m) of None \<Rightarrow> False | Some code \<Rightarrow> is_accepted code)"

definition client_mutate :: "'s socket_ops \<Rightarrow> mutation_message \<Rightarrow> client \<times> 's \<Rightarrow>
    (client_result \<times> client \<times> 's) option" where
  "client_mutate ops m = (\<lambda>(c, s).
     let refused = (\<lambda>oc. \<lparr>cr_outcome = wire_outcome_of oc, cr_accepted = False, cr_summary = []\<rparr>);
         (encoded, payload) = encode_mutation m
     in if \<not> cl_connected c then Some (refused (transport not_connected), c, s)
        else if \<not> outcome_ok encoded then Some (refused encoded, c, s)
        else case exchange ops MT_Mutation MT_MutationAck payload (c, s) of
          None \<Rightarrow> None
        | Some (Inl error, cs) \<Rightarrow> Some (refused (transport error), cs)
        | Some (Inr f, cs) \<Rightarrow>
            Some (case decode_outcome (fr_payload f) of
                    Inl answer \<Rightarrow> refused answer
                  | Inr oc \<Rightarrow> \<lparr>cr_outcome = oc, cr_accepted = wire_accepted oc, cr_summary = wo_message oc\<rparr>, cs))"

text \<open>A response whose decoding fails is returned as far as it was decoded; the model keeps its outcome.\<close>

definition failed_response :: "outcome \<Rightarrow> query_response" where
  "failed_response oc = \<lparr>qr_outcome = wire_outcome_of oc, qr_kind = QK_Port, qr_ports = [], qr_records = [],
     qr_profiles = [], qr_devices = [], qr_text = [], qr_generation = 0, qr_epoch = 0, qr_digest = digest_zero\<rparr>"

definition client_query :: "'s socket_ops \<Rightarrow> query_message \<Rightarrow> client \<times> 's \<Rightarrow>
    ((outcome + query_response) \<times> client \<times> 's) option" where
  "client_query ops q = (\<lambda>(c, s).
     let (encoded, payload) = encode_query q
     in if \<not> cl_connected c then Some (Inr (failed_response (transport not_connected)), c, s)
        else if \<not> outcome_ok encoded then Some (Inr (failed_response encoded), c, s)
        else case exchange ops MT_Query MT_QueryAck payload (c, s) of
          None \<Rightarrow> None
        | Some (Inl error, cs) \<Rightarrow> Some (Inr (failed_response (transport error)), cs)
        | Some (Inr f, cs) \<Rightarrow> Some (decode_query_response (fr_payload f), cs))"

end
