(* ===== verification/Remote.thy ===== *)
theory Remote
  imports Client
begin

text \<open>
  Client and coordinator together: the client of \<open>src/client.cpp\<close> over a connection whose other end
  is the session loop of \<open>src/server.cpp\<close>. The connection delivers bytes in fragments of any fixed
  size. A remote call is shown to be the local call of the runtime the coordinator serves.
\<close>

section \<open>One request over any connection\<close>

context connection
begin

text \<open>A request that the peer answers with one frame.\<close>

lemma exchange_answered:
  assumes "outcome_ok (fst (encode_frame f))" "outcome_ok (fst (encode_frame g))"
    "got s = length (answers (peer s) (sent s))"
    "answers (peer s) (sent s @ snd (encode_frame f)) = answers (peer s) (sent s) @ snd (encode_frame g)"
    "f = \<lparr>fr_type = t, fr_flags = 0, fr_sequence = cl_sequence c + 1, fr_payload = payload\<rparr>"
    "fr_type g \<noteq> MT_ErrorResponse"
  shows "\<exists>s'. exchange ops t expected payload (c, s) = Some (Inr g, c\<lparr>cl_sequence := cl_sequence c + 1\<rparr>, s') \<and>
    sent s' = sent s @ snd (encode_frame f) \<and> got s' = length (answers (peer s') (sent s')) \<and> peer s' = peer s"
proof -
  obtain s1 where s1: "net_send_all ops (snd (encode_frame f)) s = (None, s1)"
    "sent s1 = sent s @ snd (encode_frame f)" "got s1 = got s" "peer s1 = peer s"
    using send_all by blast
  let ?bytes = "snd (encode_frame g)"
  have pending: "drop (got s1) (answers (peer s1) (sent s1)) = ?bytes"
    using s1 assms(3,4) by simp
  have "decode_frame ?bytes = Inr g" by (rule encoded_frame_decodes [OF prod.collapse [symmetric] assms(2)])
  then obtain h where h: "decode_frame_header (take 32 ?bytes) = Inr h" "32 \<le> length ?bytes"
    "length ?bytes = 32 + unat (fh_payload_length h)" "crc32 (drop 32 ?bytes) = fh_payload_crc h"
    "g = \<lparr>fr_type = fh_type h, fr_flags = fh_flags h, fr_sequence = fh_sequence h, fr_payload = drop 32 ?bytes\<rparr>"
    by (auto simp: decode_frame_def frame_header_size_def split: if_splits sum.splits)
  have "length ?bytes = length (answers (peer s1) (sent s1)) - got s1"
    using pending by (metis length_drop)
  then have total: "got s1 + length ?bytes = length (answers (peer s1) (sent s1))"
    using s1 assms(3,4) by simp
  obtain s2 where s2: "receive_exact ops coordinator_closed 32 s1 = Some (Inr (take 32 ?bytes), s2)"
    "got s2 = got s1 + 32" "sent s2 = sent s1" "peer s2 = peer s1"
    using receive_all [of s1 32 coordinator_closed] total h(2) pending by auto
  have pending2: "drop (got s2) (answers (peer s2) (sent s2)) = drop 32 ?bytes"
    using s2 pending by (metis add.commute drop_drop)
  obtain s3 where s3: "receive_exact ops coordinator_closed (unat (fh_payload_length h)) s2 =
      Some (Inr (drop 32 ?bytes), s3)"
    "got s3 = got s2 + unat (fh_payload_length h)" "sent s3 = sent s2" "peer s3 = peer s2"
    using receive_all [of s2 "unat (fh_payload_length h)" coordinator_closed] total h(2,3) s2 pending2 by auto
  have "fh_type h \<noteq> MT_ErrorResponse" using assms(6) h(5) by (cases g) simp
  then have "receive_frame ops expected s1 = Some (Inr g, s3)"
    using s2(1) s3(1) h(1,4,5) by (simp add: receive_frame_def received_def frame_failure_def frame_header_size_def)
  then have "exchange ops t expected payload (c, s) = Some (Inr g, c\<lparr>cl_sequence := cl_sequence c + 1\<rparr>, s3)"
    using s1(1) assms(1) by (simp add: exchange_def send_frame_def case_prod_beta assms(5) [symmetric])
  with s1 s2 s3 total h(3) show ?thesis by auto
qed

text \<open>A request that the peer does not answer.\<close>

lemma exchange_unanswered:
  assumes "outcome_ok (fst (encode_frame f))" "got s = length (answers (peer s) (sent s))"
    "answers (peer s) (sent s @ snd (encode_frame f)) = answers (peer s) (sent s)"
    "\<not> hung_up (peer s) (sent s @ snd (encode_frame f))"
    "f = \<lparr>fr_type = t, fr_flags = 0, fr_sequence = cl_sequence c + 1, fr_payload = payload\<rparr>"
  shows "exchange ops t expected payload (c, s) = None"
proof -
  obtain s1 where s1: "net_send_all ops (snd (encode_frame f)) s = (None, s1)"
    "sent s1 = sent s @ snd (encode_frame f)" "got s1 = got s" "peer s1 = peer s"
    using send_all by blast
  have "so_receive ops 32 s1 = None"
    by (rule receive_waits) (use s1 assms in simp_all)
  then have "receive_frame ops expected s1 = None"
    by (simp add: receive_frame_def frame_header_size_def receive_exact.simps net_receive_def)
  with s1(1) assms(1) show ?thesis
    by (simp add: exchange_def send_frame_def case_prod_beta assms(5) [symmetric])
qed

end

section \<open>The coordinator at the other end\<close>

text \<open>
  A link: the runtime the session started from, the bytes sent to the coordinator, how many bytes
  of its answers were read, and the size of a fragment less one.
\<close>

record link =
  lk_start :: engine
  lk_input :: string
  lk_read :: nat
  lk_fragment :: nat

definition coordinator_answers :: "environment \<Rightarrow> engine \<Rightarrow> string \<Rightarrow> string" where
  "coordinator_answers env e input =
     (case serve_session env input e of
        None \<Rightarrow> []
      | Some t \<Rightarrow> concat (map (\<lambda>f. snd (encode_frame f)) (se_replies t)))"

text \<open>The session is over when it ended for another reason than that no more bytes came.\<close>

definition coordinator_hung_up :: "environment \<Rightarrow> engine \<Rightarrow> string \<Rightarrow> bool" where
  "coordinator_hung_up env e input =
     (case serve_session env input e of None \<Rightarrow> True | Some t \<Rightarrow> se_error t \<noteq> closed_by_peer)"

definition coordinator_ops :: "environment \<Rightarrow> link socket_ops" where
  "coordinator_ops env = \<lparr>
     so_startup = (\<lambda>_. True), so_resolve = (\<lambda>address service _. Some [address]),
     so_open = (\<lambda>_ s. (True, s)), so_bind = (\<lambda>_ s. (False, s)), so_listen = (\<lambda>s. (False, s)),
     so_local_port = (\<lambda>_. None), so_connect = (\<lambda>_ s. (True, s)),
     so_send = (\<lambda>bytes s.
       let k = min (Suc (lk_fragment s)) (length bytes)
       in (int k, s\<lparr>lk_input := lk_input s @ take k bytes\<rparr>)),
     so_receive = (\<lambda>n s.
       let pending = drop (lk_read s) (coordinator_answers env (lk_start s) (lk_input s));
           k = min n (min (Suc (lk_fragment s)) (length pending))
       in if pending = []
          then (if coordinator_hung_up env (lk_start s) (lk_input s) then Some (Some [], s) else None)
          else Some (Some (take k pending), s\<lparr>lk_read := lk_read s + k\<rparr>)),
     so_close = (\<lambda>s. s), so_error = (\<lambda>_. 0)\<rparr>"

interpretation coordinator: connection "coordinator_ops env" lk_input lk_read
    "\<lambda>s. (lk_start s, lk_fragment s)" "\<lambda>p. coordinator_answers env (fst p)"
    "\<lambda>p. coordinator_hung_up env (fst p)" for env
proof
  fix bytes :: string and s s' :: link and k
  assume "so_send (coordinator_ops env) bytes s = (k, s')" "bytes \<noteq> []"
  then show "0 < k \<and> nat k \<le> length bytes \<and> lk_input s' = lk_input s @ take (nat k) bytes \<and>
      lk_read s' = lk_read s \<and> (lk_start s', lk_fragment s') = (lk_start s, lk_fragment s)"
    by (auto simp: coordinator_ops_def Let_def)
next
  fix n :: nat and s :: link
  let ?answers = "coordinator_answers env (fst (lk_start s, lk_fragment s)) (lk_input s)"
  assume "0 < n" "lk_read s < length ?answers"
  then show "\<exists>k s'. so_receive (coordinator_ops env) n s = Some (Some (take k (drop (lk_read s) ?answers)), s') \<and>
      0 < k \<and> k \<le> n \<and> lk_read s' = lk_read s + k \<and> lk_input s' = lk_input s \<and>
      (lk_start s', lk_fragment s') = (lk_start s, lk_fragment s)"
    by (intro exI [of _ "min n (min (Suc (lk_fragment s)) (length ?answers - lk_read s))"])
      (auto simp: coordinator_ops_def Let_def)
next
  fix n :: nat and s :: link
  assume "0 < n" "length (coordinator_answers env (fst (lk_start s, lk_fragment s)) (lk_input s)) \<le> lk_read s"
    "\<not> coordinator_hung_up env (fst (lk_start s, lk_fragment s)) (lk_input s)"
  then show "so_receive (coordinator_ops env) n s = None" by (simp add: coordinator_ops_def)
qed

section \<open>A session under way\<close>

text \<open>
  After the bytes \<open>input\<close> the session stands at the top of its loop, with the given handshake state
  and runtime, and has sent \<open>replies\<close>: whatever follows is served from there.
\<close>

definition stands :: "environment \<Rightarrow> engine \<Rightarrow> string \<Rightarrow> bool \<Rightarrow> u64 \<Rightarrow> engine \<Rightarrow> frame list \<Rightarrow> bool" where
  "stands env start input hello sq e replies \<longleftrightarrow>
     (\<forall>rest. serve_session env (input @ rest) start =
        map_option (\<lambda>t. t\<lparr>se_replies := replies @ se_replies t\<rparr>) (serve env rest hello sq e))"

definition wire_bytes :: "frame list \<Rightarrow> string" where
  "wire_bytes fs = concat (map (\<lambda>f. snd (encode_frame f)) fs)"

lemma stands_fresh: "stands env e [] False 0 e []"
  by (simp add: stands_def serve_session_def option.map_ident)

lemma stands_step:
  assumes "stands env start input hello sq e replies" "outcome_ok (fst (encode_frame f))"
    "serve_message env hello (fr_type f) (fr_sequence f) (fr_payload f) e = Some s" "sv_open s"
  shows "stands env start (input @ snd (encode_frame f)) (sv_hello s) (sq + 1) (sv_engine s)
    (replies @ sv_replies s)"
  using assms(1,3,4)
  by (simp add: stands_def serve_encoded [OF prod.collapse [symmetric] assms(2)] option.map_comp o_def)

lemma stands_answers:
  assumes "stands env start input hello sq e replies"
  shows "coordinator_answers env start input = wire_bytes replies" "\<not> coordinator_hung_up env start input"
proof -
  have "serve_session env input start = Some \<lparr>se_replies = replies, se_engine = e, se_error = closed_by_peer\<rparr>"
    using assms [unfolded stands_def, rule_format, of "[]"] by (simp add: serve_short frame_header_size_def)
  then show "coordinator_answers env start input = wire_bytes replies" "\<not> coordinator_hung_up env start input"
    by (simp_all add: coordinator_answers_def coordinator_hung_up_def wire_bytes_def)
qed

text \<open>
  Client and coordinator are in step: the session is open after its handshake (or before, for a
  client that has only just connected), the client has read every answer, and \<open>e\<close> is the runtime the
  coordinator serves.
\<close>

definition in_step :: "environment \<Rightarrow> bool \<Rightarrow> client \<times> link \<Rightarrow> engine \<Rightarrow> bool" where
  "in_step env hello = (\<lambda>(c, s) e. cl_connected c \<and>
     (\<exists>sq replies. stands env (lk_start s) (lk_input s) hello sq e replies \<and>
        lk_read s = length (wire_bytes replies)))"

text \<open>One exchange, answered or not.\<close>

lemma exchange_in_step:
  assumes "in_step env hello (c, s) e" "length payload \<le> max_frame_bytes"
    "serve_message env hello t (cl_sequence c + 1) payload e = Some sv" "sv_open sv" "sv_replies sv = [g]"
    "fr_type g \<noteq> MT_ErrorResponse"
  shows "\<exists>s'. exchange (coordinator_ops env) t expected payload (c, s) =
      Some (Inr g, c\<lparr>cl_sequence := cl_sequence c + 1\<rparr>, s') \<and>
    in_step env (sv_hello sv) (c\<lparr>cl_sequence := cl_sequence c + 1\<rparr>, s') (sv_engine sv)"
proof -
  define f where "f = \<lparr>fr_type = t, fr_flags = 0, fr_sequence = cl_sequence c + 1, fr_payload = payload\<rparr>"
  obtain sq replies where at: "stands env (lk_start s) (lk_input s) hello sq e replies"
    "lk_read s = length (wire_bytes replies)" "cl_connected c"
    using assms(1) by (auto simp: in_step_def)
  have f: "outcome_ok (fst (encode_frame f))"
    using assms(2) by (simp add: f_def encode_frame_def outcome_ok_def)
  have g: "outcome_ok (fst (encode_frame g))"
    using serve_message_sendable [OF assms(3)] assms(5) by (simp add: sendable_def)
  have "serve_message env hello (fr_type f) (fr_sequence f) (fr_payload f) e = Some sv"
    using assms(3) by (simp add: f_def)
  note onward = stands_step [OF at(1) f this assms(4)]
  obtain s' where s': "exchange (coordinator_ops env) t expected payload (c, s) =
      Some (Inr g, c\<lparr>cl_sequence := cl_sequence c + 1\<rparr>, s')"
    "lk_input s' = lk_input s @ snd (encode_frame f)"
    "lk_read s' = length (coordinator_answers env (lk_start s') (lk_input s'))" "lk_start s' = lk_start s"
    using coordinator.exchange_answered [OF f g _ _ f_def assms(6), of s env expected]
      stands_answers(1) [OF at(1)] stands_answers(1) [OF onward] at(2) assms(5)
    by (auto simp: wire_bytes_def)
  have "in_step env (sv_hello sv) (c\<lparr>cl_sequence := cl_sequence c + 1\<rparr>, s') (sv_engine sv)"
    using onward s' at(3) stands_answers(1) [OF onward] unfolding in_step_def by (simp, blast)
  with s'(1) show ?thesis by blast
qed

lemma exchange_waits:
  assumes "in_step env hello (c, s) e" "length payload \<le> max_frame_bytes"
    "serve_message env hello t (cl_sequence c + 1) payload e = Some sv" "sv_open sv" "sv_replies sv = []"
  shows "exchange (coordinator_ops env) t expected payload (c, s) = None"
proof -
  define f where "f = \<lparr>fr_type = t, fr_flags = 0, fr_sequence = cl_sequence c + 1, fr_payload = payload\<rparr>"
  obtain sq replies where at: "stands env (lk_start s) (lk_input s) hello sq e replies"
    "lk_read s = length (wire_bytes replies)"
    using assms(1) by (auto simp: in_step_def)
  have f: "outcome_ok (fst (encode_frame f))"
    using assms(2) by (simp add: f_def encode_frame_def outcome_ok_def)
  have "serve_message env hello (fr_type f) (fr_sequence f) (fr_payload f) e = Some sv"
    using assms(3) by (simp add: f_def)
  note onward = stands_step [OF at(1) f this assms(4)]
  show ?thesis
    using coordinator.exchange_unanswered [OF f _ _ _ f_def, of s env expected]
      stands_answers [OF at(1)] stands_answers [OF onward] at(2) assms(5) by simp
qed

section \<open>Remote calls are local calls\<close>

lemma outcome_byte: "byte_enum all_outcome_code (of_nat (enum_index all_outcome_code code)) = Some code"
  by (cases code) (simp_all add: byte_enum_def enum_index_def all_outcome_code_def)

lemma wire_accepted_of [simp]: "wire_accepted (wire_outcome_of oc) = outcome_accepted oc"
  by (simp add: wire_accepted_def wire_outcome_of_def outcome_byte outcome_accepted_def)

lemma wire_message [simp]: "wo_message (wire_outcome_of oc) = oc_message oc"
  by (simp add: wire_outcome_of_def)

lemmas encoding_decodes = encoded_decodes [OF _ prod.collapse [symmetric]]

lemma not_ok_failure [simp]: "outcome_ok (failure code m) \<longleftrightarrow> code = OC_Ok"
  by (simp add: outcome_ok_def)

lemma encoded_outcome_decodes:
  assumes "outcome_clean m" "outcome_ok (fst (encode_outcome m))"
  shows "decode_outcome (snd (encode_outcome m)) = Inr m"
  using assms(2) unfolding decode_outcome_def encode_outcome_def
  by (intro encoding_decodes(1) codec_labelled codec_outcome assms(1)) simp_all

lemma query_response_decodes:
  assumes "response_wf r" "outcome_ok (fst (encode_query_response r))"
  shows "decode_query_response (snd (encode_query_response r)) = Inr r"
proof -
  have few: "length (qr_ports r) \<le> max_snapshot_ports"
    using assms(2) by (auto simp: encode_query_response_def split: if_splits)
  with assms show ?thesis
    unfolding decode_query_response_def encode_query_response_def
    by (simp add: encoding_decodes(2) codec_response)
qed

lemma encoded_payload_fits:
  "length (snd (encode_mutation m)) \<le> max_frame_bytes" "length (snd (encode_query q)) \<le> max_frame_bytes"
  "length (snd (encode_hello h)) \<le> max_frame_bytes"
  unfolding encode_mutation_def encode_query_def encode_hello_def
  by (rule encoding_bounded, simp add: write_mutation_def write_query_def write_hello_def bounded_writes)+

text \<open>An outcome that is clean can always be sent.\<close>

lemma clean_outcome_encodes:
  assumes "outcome_clean m"
  shows "outcome_ok (fst (encode_outcome m))"
proof -
  have detail: "takes (write_detail d) 1160" if "d \<in> set (wo_details m)" for d
    unfolding write_detail_def
    by (rule takes_more, (rule takes_cons takes_nil sizes
          | use that assms in \<open>simp add: outcome_clean_def detail_clean_def list_all_iff; fail\<close>)+)
  have "takes (write_outcome m) 40000"
    unfolding write_outcome_def
    by (rule takes_more, (rule takes_cons takes_nil sizes takes_list_bounded [where n = 1160 and m = 32] detail
          | use assms in \<open>simp add: outcome_clean_def max_outcome_details_def; fail\<close>)+)
  from encoding_fits [OF this] show ?thesis
    by (simp add: encode_outcome_def max_frame_bytes_def outcome_ok_def)
qed

text \<open>A request answered with an outcome that can be sent.\<close>

lemma outcome_answered:
  assumes "in_step env True (c, s) e" "length payload \<le> max_frame_bytes" "t' \<noteq> MT_ErrorResponse"
    "serve_message env True t (cl_sequence c + 1) payload e =
       Some (answered (reply_outcome t' (cl_sequence c + 1) oc) True e')"
    "outcome_clean (wire_outcome_of oc)"
  shows "\<exists>f s'. exchange (coordinator_ops env) t t' payload (c, s) =
      Some (Inr f, c\<lparr>cl_sequence := cl_sequence c + 1\<rparr>, s') \<and>
    decode_outcome (fr_payload f) = Inr (wire_outcome_of oc) \<and>
    in_step env True (c\<lparr>cl_sequence := cl_sequence c + 1\<rparr>, s') e'"
proof -
  note fits = clean_outcome_encodes [OF assms(5)]
  then have one: "reply_outcome t' (cl_sequence c + 1) oc = [\<lparr>fr_type = t', fr_flags = 0,
      fr_sequence = cl_sequence c + 1, fr_payload = snd (encode_outcome (wire_outcome_of oc))\<rparr>]"
    by (simp add: reply_outcome_def reply_def)
  from exchange_in_step [OF assms(1,2,4), of _ t'] assms(3) encoded_outcome_decodes [OF assms(5) fits]
  show ?thesis by (fastforce simp: one)
qed

lemma mutation_served:
  assumes "mutation_wf m" "outcome_ok (fst (encode_mutation m))" "dispatch env m e = Some (r, e')"
  shows "serve_message env True MT_Mutation sq (snd (encode_mutation m)) e =
    Some (answered (reply_outcome MT_MutationAck sq (mr_outcome r)) True e')"
proof -
  have "decode_mutation (snd (encode_mutation m)) = Inr m"
    using assms(2) unfolding decode_mutation_def encode_mutation_def
    by (intro encoding_decodes(2) codec_mutation assms(1)) simp_all
  then show ?thesis using assms(3) by (simp add: serve_message_def serve_mutation_def)
qed

lemma mutation_answered:
  assumes "in_step env True (c, s) e" "mutation_wf m" "outcome_ok (fst (encode_mutation m))"
    "dispatch env m e = Some (r, e')" "outcome_clean (wire_outcome_of (mr_outcome r))"
  shows "\<exists>cs'. client_mutate (coordinator_ops env) m (c, s) =
      Some (\<lparr>cr_outcome = wire_outcome_of (mr_outcome r), cr_accepted = result_accepted r,
        cr_summary = oc_message (mr_outcome r)\<rparr>, cs') \<and> in_step env True cs' e'"
proof -
  have "cl_connected c" using assms(1) by (auto simp: in_step_def)
  with outcome_answered [OF assms(1) encoded_payload_fits(1) _ mutation_served [OF assms(2-4)] assms(5)] assms(3)
  show ?thesis by (auto simp: client_mutate_def case_prod_beta Let_def result_accepted_def)
qed

lemma registration_answered:
  assumes "in_step env True (c, s) e" "id_wf (cc_publisher (cl_config c))" "id_wf (cc_boot (cl_config c))"
    "register_publisher (cc_publisher (cl_config c)) (cc_boot (cl_config c)) (cl_epoch c) e = (oc, e')"
    "outcome_clean (wire_outcome_of oc)"
  shows "\<exists>s'. client_register_publisher (coordinator_ops env) (c, s) =
      Some (wire_outcome_of oc, c\<lparr>cl_sequence := cl_sequence c + 1\<rparr>, s') \<and>
    in_step env True (c\<lparr>cl_sequence := cl_sequence c + 1\<rparr>, s') e'"
proof -
  define m where "m = \<lparr>rm_publisher = cc_publisher (cl_config c), rm_boot = cc_boot (cl_config c), rm_epoch = cl_epoch c\<rparr>"
  have connected: "cl_connected c" using assms(1) by (auto simp: in_step_def)
  have "takes (write_register m) 2048"
    unfolding write_register_def
    by (rule takes_more, (rule takes_cons takes_nil sizes takes_words | use assms in \<open>simp add: m_def; fail\<close>)+)
  then have ok: "outcome_ok (fst (encode_register_publisher m))"
    and short: "length (snd (encode_register_publisher m)) \<le> max_frame_bytes"
    unfolding encode_register_publisher_def
    by (simp add: encoding_fits max_frame_bytes_def outcome_ok_def,
      intro encoding_bounded) (simp add: write_register_def bounded_writes)
  have "decode_register_publisher (snd (encode_register_publisher m)) = Inr m"
    using ok unfolding decode_register_publisher_def encode_register_publisher_def
    by (intro encoding_decodes(1) codec_labelled codec_register) (use assms(2,3) in \<open>simp_all add: m_def\<close>)
  then have served: "serve_message env True MT_RegisterPublisher (cl_sequence c + 1) (snd (encode_register_publisher m)) e =
      Some (answered (reply_outcome MT_RegisterPublisherAck (cl_sequence c + 1) oc) True e')"
    using assms(4) by (simp add: serve_message_def serve_register_def on_register_publisher_def m_def)
  from outcome_answered [OF assms(1) short _ served assms(5)] connected ok
  show ?thesis
    by (auto simp: client_register_publisher_def outcome_request_def Let_def m_def)
qed


text \<open>The opening message of a client that identifies itself is served with an acceptance.\<close>

definition identified :: "client_config \<Rightarrow> bool" where
  "identified config \<longleftrightarrow> id_wf (cc_publisher config) \<and> id_valid (cc_publisher config) \<and>
     id_wf (cc_boot config) \<and> id_valid (cc_boot config) \<and> length (cc_role config) \<le> max_name_length"

definition acceptance :: "engine \<Rightarrow> hello_ack_message" where
  "acceptance e = \<lparr>ha_accepted = True, ha_epoch = en_epoch e, ha_detail = ''session accepted''\<rparr>"

definition acceptance_frame :: "u64 \<Rightarrow> engine \<Rightarrow> frame" where
  "acceptance_frame sq e = \<lparr>fr_type = MT_HelloAck, fr_flags = 0, fr_sequence = sq,
     fr_payload = snd (encode_hello_ack (acceptance e))\<rparr>"

lemma acceptance_encodes: "outcome_ok (fst (encode_hello_ack (acceptance e)))"
  by (rule encoding_hello_ack) (simp add: acceptance_def max_description_length_def)

lemma acceptance_decodes: "decode_hello_ack (fr_payload (acceptance_frame sq e)) = Inr (acceptance e)"
  using acceptance_encodes unfolding decode_hello_ack_def encode_hello_ack_def acceptance_frame_def
  by (simp add: encoding_decodes(1) codec_labelled codec_hello_ack)

lemma hello_accepted:
  assumes "identified config"
  shows "outcome_ok (fst (encode_hello (hello_of config)))"
    "serve_message env False MT_Hello sq (snd (encode_hello (hello_of config))) e =
       Some (answered [acceptance_frame sq e] True e)"
proof -
  have fits: "takes (write_hello (hello_of config)) 2048"
    unfolding write_hello_def write_u16_def
    by (rule takes_more, (rule takes_cons takes_nil takes_raw sizes order_refl
        | use assms in \<open>simp add: hello_of_def identified_def\<close>; fail)+)
  show ok: "outcome_ok (fst (encode_hello (hello_of config)))"
    using encoding_fits [OF fits] by (simp add: encode_hello_def max_frame_bytes_def outcome_ok_def)
  have "decode_hello (snd (encode_hello (hello_of config))) = Inr (hello_of config)"
    using ok unfolding decode_hello_def encode_hello_def
    by (intro encoding_decodes(2) codec_hello) (use assms in \<open>simp_all add: hello_of_def identified_def\<close>)
  moreover have "on_hello (hello_of config) e = (success ''session accepted'', en_epoch e)"
    using assms by (simp add: on_hello_def hello_of_def identified_def gen_valid_def)
  ultimately show "serve_message env False MT_Hello sq (snd (encode_hello (hello_of config))) e =
      Some (answered [acceptance_frame sq e] True e)"
    using acceptance_encodes [of e, unfolded acceptance_def]
    by (simp add: serve_message_def serve_hello_def reply_def acceptance_frame_def acceptance_def success_def
        outcome_accepted_def is_accepted_def)
qed

text \<open>
  A client that identifies itself is admitted: connecting to a coordinator succeeds for
  every runtime and every fragmentation, tells the client the epoch of the coordinator, changes nothing
  on the runtime, and leaves both in step for the calls that follow.
\<close>

theorem client_connects:
  assumes "identified config"
  shows "\<exists>c s. client_connect (coordinator_ops env) (client_create config,
      \<lparr>lk_start = e, lk_input = [], lk_read = 0, lk_fragment = n\<rparr>) = Some (success ''session established'', c, s) \<and>
    in_step env True (c, s) e \<and> cl_epoch c = en_epoch e \<and> cl_config c = config"
proof -
  define s0 where "s0 = \<lparr>lk_start = e, lk_input = [], lk_read = 0, lk_fragment = n\<rparr>"
  define c0 where "c0 = (client_create config)\<lparr>cl_connected := True\<rparr>"
  let ?g = "acceptance_frame (cl_sequence c0 + 1) e" and ?hello = "encode_hello (hello_of config)"
  have config: "cl_config c0 = config" by (simp add: c0_def client_create_def)
  have start: "in_step env False (c0, s0) e"
    by (auto simp: in_step_def c0_def s0_def intro!: exI [of _ 0] exI [of _ "[]"] stands_fresh)
      (simp add: wire_bytes_def)
  obtain s1 where s1: "exchange (coordinator_ops env) MT_Hello MT_HelloAck (snd ?hello) (c0, s0) =
      Some (Inr ?g, c0\<lparr>cl_sequence := cl_sequence c0 + 1\<rparr>, s1)"
    "in_step env True (c0\<lparr>cl_sequence := cl_sequence c0 + 1\<rparr>, s1) e"
    using exchange_in_step [OF start encoded_payload_fits(3) hello_accepted(2) [OF assms], of ?g MT_HelloAck]
    by (auto simp: acceptance_frame_def)
  have "client_handshake (coordinator_ops env) (c0, s0) =
      Some (success ''session established'', c0\<lparr>cl_sequence := cl_sequence c0 + 1, cl_epoch := en_epoch e\<rparr>, s1)"
    using s1(1) hello_accepted(1) [OF assms] acceptance_decodes [of "cl_sequence c0 + 1" e]
    by (simp add: client_handshake_def case_prod_beta config) (simp add: acceptance_frame_def acceptance_def)
  moreover have "net_connect (coordinator_ops env) (cc_address config) (cc_port config) s0 = (None, s0)"
    by (simp add: net_connect_def coordinator_ops_def)
  ultimately have "client_connect (coordinator_ops env) (client_create config, s0) =
      Some (success ''session established'', c0\<lparr>cl_sequence := cl_sequence c0 + 1, cl_epoch := en_epoch e\<rparr>, s1)"
    using assms by (simp add: client_connect_def net_available_def coordinator_ops_def client_create_def
        c0_def Let_def identified_def)
  moreover have "in_step env True (c0\<lparr>cl_sequence := cl_sequence c0 + 1, cl_epoch := en_epoch e\<rparr>, s1) e"
    using s1(2) by (simp add: in_step_def)
  moreover have "cl_config (c0\<lparr>cl_sequence := cl_sequence c0 + 1, cl_epoch := en_epoch e\<rparr>) = config"
    by (simp add: config)
  ultimately show ?thesis unfolding s0_def by (intro exI conjI) (assumption | simp)+
qed


section \<open>Instances\<close>

text \<open>The outcome of a mutation that commits and is saved.\<close>

lemma committed_outcome:
  assumes "oc_code (mr_outcome (fst (mutate env q e))) = OC_Ok"
  shows "mr_outcome (fst (mutate env q e)) = success ''mutation committed''"
proof (rule mutate_cases [of env q e])
  fix snap p a s d
  assume c: "admits q e" "port_of e (target q) = Some snap" "decision_of env q snap e = Ready p a s"
    "commit_answer (target q) (pl_expected p) p snap (en_generation e) = None"
  have "mutate env q e = conclude_decision env (request_envelope q) (request_kind q) (Ready p a s) (admitted q e)"
    using c by (simp add: mutate_eq admits_def)
  then show ?thesis
    using c(2,4) assms
    by (auto simp: conclude_decision_def commit_def Let_def case_prod_beta reporting_def result_outcome
        conclude_def split: if_splits)
qed (use assms in \<open>auto simp: quiet_def quiet_code_def\<close>)

lemma success_encodes:
  assumes "length m \<le> max_description_length"
  shows "outcome_ok (fst (encode_outcome (wire_outcome_of (success m))))"
proof -
  have "takes (write_outcome (wire_outcome_of (success m))) 2000"
    unfolding write_outcome_def
    by (rule takes_more, (rule takes_cons takes_nil sizes takes_list_bounded [where n = 0 and m = 0]
          | use assms in \<open>simp add: wire_outcome_of_def success_def\<close>; fail)+)
  from encoding_fits [OF this] show ?thesis
    by (simp add: encode_outcome_def max_frame_bytes_def outcome_ok_def)
qed

definition sample_client :: client_config where
  "sample_client = \<lparr>cc_address = ''127.0.0.1'', cc_port = 7000, cc_publisher = ''agent'',
     cc_boot = ''boot-1'', cc_role = ''client''\<rparr>"

lemma sample_client_identified: "identified sample_client"
  using sample_ids by (simp add: identified_def sample_client_def id_valid_def max_name_length_def)

theorem client_connects_witness:
  "\<exists>c s. client_connect (coordinator_ops quiet_env) (client_create sample_client,
      \<lparr>lk_start = one_agent, lk_input = [], lk_read = 0, lk_fragment = 2\<rparr>) = Some (success ''session established'', c, s) \<and>
    cl_epoch c = 7"
  using client_connects [OF sample_client_identified, of quiet_env one_agent 2]
  by (auto simp: one_agent_publishers)

text \<open>A client in step with a coordinator that serves the runtime \<open>e\<close>.\<close>

lemma some_in_step:
  obtains c s where "in_step env True (c, s) e"
proof -
  define f where "f = \<lparr>fr_type = MT_Hello, fr_flags = 0, fr_sequence = 1,
    fr_payload = snd (encode_hello (hello_of sample_client))\<rparr>"
  have "outcome_ok (fst (encode_frame f))"
    using encoded_payload_fits(3) [of "hello_of sample_client"]
    by (simp add: f_def encode_frame_def outcome_ok_def)
  from stands_step [OF stands_fresh this, of env e "answered [acceptance_frame 1 e] True e"]
  have at: "stands env e (snd (encode_frame f)) True 1 e [acceptance_frame 1 e]"
    by (simp add: f_def hello_accepted(2) [OF sample_client_identified])
  let ?c = "(client_create sample_client)\<lparr>cl_connected := True, cl_sequence := 1\<rparr>"
  let ?s = "\<lparr>lk_start = e, lk_input = snd (encode_frame f),
    lk_read = length (wire_bytes [acceptance_frame 1 e]), lk_fragment = 0\<rparr>"
  have "in_step env True (?c, ?s) e"
    unfolding in_step_def using at by auto
  then show thesis by (rule that)
qed

text \<open>The claim of the sample runtime as a message.\<close>

definition remote_claim :: mutation_message where
  "remote_claim = sample_mutation\<lparr>mm_kind := of_nat (enum_index all_port_mutation_kind MK_ClaimOwnership),
     mm_authority := sample_authority ''a1'' 0,
     mm_owner_kind := of_nat (enum_index all_port_owner_kind Owner_SwitchAgent), mm_owner := ''agent'',
     mm_provenance_kind := of_nat (enum_index all_provenance_kind PK_Operator)\<rparr>"

lemma dispatch_claim: "dispatch env remote_claim e = Some (mutate env claim e)"
  by (simp add: dispatch_def byte_enum_def remote_claim_def all_port_mutation_kind_def enum_index_def
      all_provenance_kind_def all_port_owner_kind_def wire_refusal_def wire_ownership_def wire_envelope_def
      claim_def sample_envelope_def sample_mutation_def)



end
