(* ===== verification/Worker.thy ===== *)
theory Worker
  imports Process Remote
begin

text \<open>
  The port agent of \<open>apps/pf_worker/main.cpp\<close>: its options, the requests it sends, and its two modes. A
  run is a function of the socket calls it makes; \<open>None\<close> is a run that does not end, because an answer or
  the stop file never comes. Every run ends with the destructor of the client, which closes it. An agent
  that is fenced at the coordinator is shown to be refused in both modes.
\<close>

section \<open>Options\<close>

record worker_options =
  wk_address :: string
  wk_port_number :: u16
  wk_publisher :: string
  wk_boot :: string
  wk_role :: string
  wk_owner :: string
  wk_owner_kind :: string
  wk_port :: string
  wk_device :: string
  wk_stop_file :: string
  wk_mode :: string
  wk_claim :: bool
  wk_configure :: bool
  wk_speed :: string
  wk_mtu :: u32
  wk_generation :: u64

definition worker_defaults :: worker_options where
  "worker_defaults = \<lparr>wk_address = ''127.0.0.1'', wk_port_number = 0, wk_publisher = ''agent-a'',
     wk_boot = ''boot-a'', wk_role = ''switch-agent'', wk_owner = ''owner-a'', wk_owner_kind = ''SWITCH_AGENT'',
     wk_port = [], wk_device = ''coordinator-device'', wk_stop_file = [], wk_mode = ''agent'', wk_claim = True,
     wk_configure = True, wk_speed = ''400G'', wk_mtu = 4096, wk_generation = 0\<rparr>"

definition worker_usage :: "version \<Rightarrow> string list" where
  "worker_usage v =
     [''pf-worker - Port Fabric port agent '' @ version_string v,
      ''usage: pf-worker --fabric-port <id> [options]'',
      ''  --address <ip> --port-number <n>   coordinator endpoint'',
      ''  --publisher <id> --boot <id>       process incarnation identity'',
      ''  --owner <id> --owner-kind <kind>   control ownership identity'',
      ''  --fabric-port <id>                 canonical port to govern'',
      ''  --mode agent|replay                operating mode'',
      ''  --no-claim --no-configure          skip ownership or configuration'',
      ''  --speed <rate> --mtu <n>           configuration payload'',
      ''  --stop-file <path>                 exit gracefully when the file appears'']"

definition worker_valued :: "nat \<Rightarrow> string \<Rightarrow> string option \<Rightarrow> worker_options \<Rightarrow> worker_options option" where
  "worker_valued limit a v w =
     (if a = ''--address'' then Some (w\<lparr>wk_address := text_or (wk_address w) v\<rparr>)
      else if a = ''--port-number'' then Some (w\<lparr>wk_port_number := of_nat (number_of limit v)\<rparr>)
      else if a = ''--publisher'' then Some (w\<lparr>wk_publisher := text_or (wk_publisher w) v\<rparr>)
      else if a = ''--boot'' then Some (w\<lparr>wk_boot := text_or (wk_boot w) v\<rparr>)
      else if a = ''--role'' then Some (w\<lparr>wk_role := text_or (wk_role w) v\<rparr>)
      else if a = ''--owner'' then Some (w\<lparr>wk_owner := text_or (wk_owner w) v\<rparr>)
      else if a = ''--owner-kind'' then Some (w\<lparr>wk_owner_kind := text_or (wk_owner_kind w) v\<rparr>)
      else if a = ''--fabric-port'' then Some (w\<lparr>wk_port := text_or (wk_port w) v\<rparr>)
      else if a = ''--device'' then Some (w\<lparr>wk_device := text_or (wk_device w) v\<rparr>)
      else if a = ''--stop-file'' then Some (w\<lparr>wk_stop_file := text_or (wk_stop_file w) v\<rparr>)
      else if a = ''--mode'' then Some (w\<lparr>wk_mode := text_or (wk_mode w) v\<rparr>)
      else if a = ''--speed'' then Some (w\<lparr>wk_speed := text_or (wk_speed w) v\<rparr>)
      else if a = ''--mtu'' then Some (w\<lparr>wk_mtu := of_nat (number_of limit v)\<rparr>)
      else if a = ''--generation'' then Some (w\<lparr>wk_generation := of_nat (number_of ulong_max_64 v)\<rparr>)
      else None)"

definition worker_flag :: "string \<Rightarrow> worker_options \<Rightarrow> worker_options option" where
  "worker_flag a w =
     (if a = ''--no-claim'' then Some (w\<lparr>wk_claim := False\<rparr>)
      else if a = ''--no-configure'' then Some (w\<lparr>wk_configure := False\<rparr>)
      else None)"

definition worker_parse :: "version \<Rightarrow> nat \<Rightarrow> string list \<Rightarrow> run + worker_options" where
  "worker_parse v limit arguments =
     (case parse_arguments (worker_valued limit) worker_flag (worker_usage v) arguments worker_defaults of
        Inl r \<Rightarrow> Inl r
      | Inr w \<Rightarrow>
          if wk_port w = [] then Inl (exits 2 [] [''--fabric-port <canonical port identity> is required''])
          else Inr w)"

section \<open>Requests\<close>

definition worker_client :: "worker_options \<Rightarrow> client_config" where
  "worker_client w = \<lparr>cc_address = wk_address w, cc_port = wk_port_number w,
     cc_publisher = id_from_validated (wk_publisher w), cc_boot = id_from_validated (wk_boot w), cc_role = wk_role w\<rparr>"

text \<open>The part that the three requests share; every field that is not set keeps the value of its type.\<close>

definition worker_authority :: "worker_options \<Rightarrow> string \<Rightarrow> strong_id \<Rightarrow> generation \<Rightarrow> authority_context" where
  "worker_authority w attempt ownership epoch =
     \<lparr>au_epoch = epoch, au_publisher = id_from_validated (wk_publisher w), au_boot = id_from_validated (wk_boot w),
      au_ownership = ownership, au_ownership_generation = 0, au_expected_configuration = wk_generation w,
      au_expected_capability = 0, au_expected_topology = 0, au_expected_device = 0,
      au_attempt = id_from_validated (attempt @ wk_publisher w @ ''-'' @ wk_boot w)\<rparr>"

definition worker_message :: "worker_options \<Rightarrow> port_mutation_kind \<Rightarrow> strong_id \<Rightarrow> authority_context \<Rightarrow> mutation_message" where
  "worker_message w kind port au =
     \<lparr>mm_kind = of_nat (enum_index all_port_mutation_kind kind), mm_authority = au, mm_port = port,
      mm_parent_device = [], mm_device_generation = 0, mm_has_configuration = False,
      mm_configuration = no_configuration, mm_administrative_op = 0, mm_profile = [], mm_profile_generation = 0,
      mm_release = False, mm_capability = no_binding, mm_detail = [], mm_owner_kind = 0, mm_owner = [],
      mm_exclusive = True, mm_evidence = no_applied, mm_drift = 0,
      mm_provenance_kind = of_nat (enum_index all_provenance_kind PK_SwitchAgent),
      mm_provenance_source = wk_publisher w\<rparr>"

definition replay_message :: "worker_options \<Rightarrow> strong_id \<Rightarrow> generation \<Rightarrow> mutation_message" where
  "replay_message w port epoch =
     (worker_message w MK_Administrative port (worker_authority w ''replay-'' [] epoch))
       \<lparr>mm_administrative_op := of_nat (enum_index all_administrative_op Op_Enable)\<rparr>"

definition claim_message :: "worker_options \<Rightarrow> strong_id \<Rightarrow> generation \<Rightarrow> mutation_message" where
  "claim_message w port epoch =
     (worker_message w MK_ClaimOwnership port (worker_authority w ''claim-'' [] epoch))
       \<lparr>mm_owner_kind := of_nat (enum_index all_port_owner_kind
          (case parse_port_owner_kind (wk_owner_kind w) of None \<Rightarrow> Owner_SwitchAgent | Some k \<Rightarrow> k)),
        mm_owner := id_from_validated (wk_owner w)\<rparr>"

definition port_query :: "strong_id \<Rightarrow> query_message" where
  "port_query port = \<lparr>qm_kind = QK_Port, qm_port = port, qm_device = [], qm_owner = [], qm_profile = [],
     qm_lifecycle = LC_Unconfigured, qm_administrative = Adm_Unknown\<rparr>"

definition worker_configuration :: "worker_options \<Rightarrow> strong_id \<Rightarrow> port_speed \<Rightarrow> mtu \<Rightarrow> lane_configuration \<Rightarrow>
    port_configuration" where
  "worker_configuration w port speed mtu lanes = no_configuration
     \<lparr>pc_port := port, pc_parent_device := id_from_validated (wk_device w), pc_administrative := Adm_Enabled,
      pc_mode := Mode_Physical, pc_protocol := Proto_Synthetic,
      pc_speed := \<lparr>ss_selection = Speed_Forced, ss_rate = speed\<rparr>, pc_duplex := Duplex_Full,
      pc_autoneg := Autoneg_Forced, pc_fec := Fec_None, pc_pause := Pause_Disabled, pc_breakout := Breakout_None,
      pc_mtu := mtu, pc_lanes := lanes\<rparr>"

definition configure_message :: "worker_options \<Rightarrow> strong_id \<Rightarrow> strong_id \<Rightarrow> generation \<Rightarrow> port_configuration \<Rightarrow>
    mutation_message" where
  "configure_message w port ownership epoch configuration =
     (worker_message w MK_Configure port (worker_authority w ''configure-'' ownership epoch))
       \<lparr>mm_has_configuration := True, mm_parent_device := id_from_validated (wk_device w),
        mm_device_generation := 1, mm_configuration := configuration\<rparr>"

section \<open>The run\<close>

text \<open>The code of an outcome as it is printed; a byte that is no code prints as the internal error.\<close>

definition outcome_text :: "wire_outcome \<Rightarrow> string" where
  "outcome_text m = outcome_code_to_string
     (case byte_enum all_outcome_code (wo_code m) of None \<Rightarrow> OC_InternalError | Some code \<Rightarrow> code)"

definition message_line :: "wire_outcome \<Rightarrow> string" where
  "message_line m = ''message='' @ c_str (wo_message m)"

text \<open>The end of every run.\<close>

definition worker_exit :: "'s socket_ops \<Rightarrow> int \<Rightarrow> string list \<Rightarrow> client \<times> 's \<Rightarrow> (run \<times> 's) option" where
  "worker_exit ops code out cs = Some (exits code out [], snd (client_close ops cs))"

definition worker_replay :: "'s socket_ops \<Rightarrow> worker_options \<Rightarrow> strong_id \<Rightarrow> string list \<Rightarrow> client \<times> 's \<Rightarrow>
    (run \<times> 's) option" where
  "worker_replay ops w port out cs =
     (case client_mutate ops (replay_message w port (cl_epoch (fst cs))) cs of
        None \<Rightarrow> None
      | Some (result, cs) \<Rightarrow>
          worker_exit ops (if cr_accepted result then 0 else 3)
            (out @ [''result='' @ outcome_text (cr_outcome result), message_line (cr_outcome result)]) cs)"

text \<open>\<open>polls\<close> are the answers to whether the stop file is there.\<close>

definition worker_stay :: "'s socket_ops \<Rightarrow> bool list \<Rightarrow> worker_options \<Rightarrow> strong_id \<Rightarrow> string list \<Rightarrow> client \<times> 's \<Rightarrow>
    (run \<times> 's) option" where
  "worker_stay ops polls w ownership out cs =
     (let out = out @ [''publisher='' @ c_str (wk_publisher w), ''boot='' @ c_str (wk_boot w),
            ''fabric-port='' @ c_str (wk_port w)] @
          (if id_valid ownership then [''ownership='' @ ownership] else []) @ [''ready=true'']
      in if wk_stop_file w \<noteq> [] \<and> True \<notin> set polls then None
         else worker_exit ops 0 (out @ [''stopped=true'']) cs)"

definition worker_configures :: "'s socket_ops \<Rightarrow> bool list \<Rightarrow> worker_options \<Rightarrow> strong_id \<Rightarrow> strong_id \<Rightarrow>
    string list \<Rightarrow> client \<times> 's \<Rightarrow> (run \<times> 's) option" where
  "worker_configures ops polls w port ownership out cs =
     (if \<not> wk_configure w then worker_stay ops polls w ownership out cs
      else case speed_parse (wk_speed w) of
        None \<Rightarrow> worker_exit ops 2 (out @ [''result=INVALID_SPEED'']) cs
      | Some speed \<Rightarrow>
        (case mtu_create (wk_mtu w) of
           None \<Rightarrow> worker_exit ops 2 (out @ [''result=INVALID_MTU'']) cs
         | Some mtu \<Rightarrow>
           (case lanes_for_total 8 speed of
              None \<Rightarrow> worker_exit ops 2 (out @ [''result=INVALID_LANE_CONFIGURATION'']) cs
            | Some lanes \<Rightarrow>
              (case client_mutate ops (configure_message w port ownership (cl_epoch (fst cs))
                   (worker_configuration w port speed mtu lanes)) cs of
                 None \<Rightarrow> None
               | Some (result, cs) \<Rightarrow>
                 (let out = out @ [''configure='' @ outcome_text (cr_outcome result)]
                  in if cr_accepted result then worker_stay ops polls w ownership out cs
                     else worker_exit ops 1 (out @ [message_line (cr_outcome result)]) cs)))))"

text \<open>The ownership an answer shows; an answer that does not decode is taken as one without records.\<close>

definition ownership_shown :: "outcome + query_response \<Rightarrow> strong_id" where
  "ownership_shown answer =
     (case answer of
        Inl _ \<Rightarrow> []
      | Inr response \<Rightarrow>
        (case qr_records response of
           [] \<Rightarrow> []
         | r # _ \<Rightarrow> (case pr_ownership r of None \<Rightarrow> [] | Some owned \<Rightarrow> ow_id owned)))"

definition worker_claims :: "'s socket_ops \<Rightarrow> bool list \<Rightarrow> worker_options \<Rightarrow> strong_id \<Rightarrow> string list \<Rightarrow>
    client \<times> 's \<Rightarrow> (run \<times> 's) option" where
  "worker_claims ops polls w port out cs =
     (if \<not> wk_claim w then worker_configures ops polls w port [] out cs
      else case client_mutate ops (claim_message w port (cl_epoch (fst cs))) cs of
        None \<Rightarrow> None
      | Some (result, cs) \<Rightarrow>
        (let out = out @ [''claim='' @ outcome_text (cr_outcome result)]
         in if \<not> cr_accepted result then worker_exit ops 1 (out @ [message_line (cr_outcome result)]) cs
            else case client_query ops (port_query port) cs of
              None \<Rightarrow> None
            | Some (answer, cs) \<Rightarrow> worker_configures ops polls w port (ownership_shown answer) out cs))"

definition worker_run :: "'s socket_ops \<Rightarrow> bool list \<Rightarrow> worker_options \<Rightarrow> 's \<Rightarrow> (run \<times> 's) option" where
  "worker_run ops polls w s =
     (case client_connect ops (client_create (worker_client w), s) of
        None \<Rightarrow> None
      | Some (connected, cs) \<Rightarrow>
        (let out = [''connect='' @ c_str (outcome_to_string connected)]
         in if \<not> outcome_ok connected then worker_exit ops 1 out cs
            else let out = out @ [''epoch='' @ format_u64 (cl_epoch (fst cs))]
              in case client_register_publisher ops cs of
                None \<Rightarrow> None
              | Some (registered, cs) \<Rightarrow>
                (let out = out @ [''register='' @ c_str (wire_outcome_to_string registered)];
                     port = id_from_validated (wk_port w)
                 in if \<not> wire_accepted registered \<and> wk_mode w \<noteq> ''replay'' then worker_exit ops 1 out cs
                    else if \<not> id_valid port then worker_exit ops 2 (out @ [''result=MALFORMED_REQUEST'']) cs
                    else if wk_mode w = ''replay'' then worker_replay ops w port out cs
                    else worker_claims ops polls w port out cs)))"

definition worker_main :: "version \<Rightarrow> nat \<Rightarrow> 's socket_ops \<Rightarrow> bool list \<Rightarrow> string list \<Rightarrow> 's \<Rightarrow> (run \<times> 's) option" where
  "worker_main v limit ops polls arguments s =
     (case worker_parse v limit arguments of
        Inl r \<Rightarrow> Some (r\<lparr>ru_out := ru_out r @ worker_usage v\<rparr>, s)
      | Inr w \<Rightarrow> worker_run ops polls w s)"

section \<open>A fenced agent\<close>

lemma validated_valid: "id_valid (id_from_validated t) \<Longrightarrow> id_from_validated t = t \<and> id_valid t \<and> length t \<le> max_identifier_length"
  by (auto simp: id_from_validated_def id_valid_def validate_identifier_def split: if_splits)

text \<open>A request without a configuration takes little room, whatever its identities are.\<close>

lemma worker_message_encodes:
  assumes "mutation_wf m" "\<not> mm_has_configuration m" "mm_capability m = no_binding" "mm_evidence m = no_applied"
    "mm_detail m = []" "length (mm_provenance_source m) \<le> max_name_length"
  shows "outcome_ok (fst (encode_mutation m))"
proof -
  have bind: "takes (write_capability_binding no_binding) 1300"
    by (rule takes_binding)
      (use assms(1,3) in \<open>simp_all add: mutation_wf_def, simp add: no_binding_def\<close>)
  have none: "takes (if mm_has_configuration m then write_configuration (mm_configuration m) else write_all []) 0"
    using assms(2) by (simp add: takes_nil)
  have "takes (write_mutation m) 6000"
    unfolding write_mutation_def
    by (rule takes_more, (rule takes_cons takes_nil none sizes
          | use assms bind in \<open>simp add: mutation_wf_def no_applied_def; fail\<close>)+)
  from encoding_fits [OF this] show ?thesis
    by (simp add: encode_mutation_def max_frame_bytes_def outcome_ok_def)
qed

lemma replay_message_wf: "id_wf port \<Longrightarrow> mutation_wf (replay_message w port epoch)"
proof -
  assume "id_wf port"
  moreover have "binding_wf no_binding" "binding_valid no_binding" "capabilities_validate (cb_capabilities no_binding) = None"
    by code_simp+
  ultimately show ?thesis
    by (simp add: mutation_wf_def replay_message_def worker_message_def worker_authority_def authority_wf_def)
      (simp add: id_wf_def)
qed

text \<open>The replay is dispatched as an administrative operation, which the authority gate refuses.\<close>

lemma dispatch_replay:
  assumes "gate_admission e (wire_envelope (replay_message w port epoch) PK_SwitchAgent) = None"
    "authority_refusal (worker_authority w ''replay-'' [] epoch) e = Some oc"
  shows "dispatch env (replay_message w port epoch) e = Some (refuse_authority oc, e)"
proof -
  let ?q = "Req_Administrative \<lparr>aq_envelope = wire_envelope (replay_message w port epoch) PK_SwitchAgent, aq_op = Op_Enable\<rparr>"
  have "dispatch env (replay_message w port epoch) e = Some (mutate env ?q e)"
    by (simp add: dispatch_def byte_enum_def replay_message_def worker_message_def all_port_mutation_kind_def
        enum_index_def all_provenance_kind_def all_administrative_op_def wire_refusal_def)
  with assms show ?thesis
    by (simp add: mutate_eq wire_envelope_def replay_message_def worker_message_def)
qed

text \<open>Two outcomes that fit the wire.\<close>

lemma fenced_outcomes_clean:
  assumes "length publisher \<le> max_description_length" "length boot \<le> max_description_length"
  shows "outcome_clean (wire_outcome_of (failure OC_PublisherFenced ''the publisher incarnation is fenced''))"
    "outcome_clean (wire_outcome_of (with_detail ''boot'' boot (with_detail ''publisher'' publisher
       (failure OC_PublisherFenced ''the publisher incarnation is fenced and can never mutate again''))))"
  using assms
  by (simp_all add: outcome_clean_def wire_outcome_of_def failure_def with_detail_def detail_clean_def single_line_def
      max_description_length_def max_outcome_details_def max_name_length_def)

lemma worker_ids:
  assumes "identified (worker_client w)"
  shows "id_from_validated (wk_publisher w) = wk_publisher w" "id_from_validated (wk_boot w) = wk_boot w"
    "id_valid (wk_publisher w)" "id_valid (wk_boot w)" "id_wf (wk_publisher w)" "id_wf (wk_boot w)"
    "length (wk_publisher w) \<le> max_description_length" "length (wk_boot w) \<le> max_description_length"
    "length (wk_publisher w) \<le> max_name_length"
proof -
  have ids: "id_from_validated (wk_publisher w) = wk_publisher w \<and> id_valid (wk_publisher w) \<and>
      length (wk_publisher w) \<le> max_identifier_length"
    "id_from_validated (wk_boot w) = wk_boot w \<and> id_valid (wk_boot w) \<and> length (wk_boot w) \<le> max_identifier_length"
    using assms validated_valid by (auto simp: identified_def worker_client_def)
  then show "id_from_validated (wk_publisher w) = wk_publisher w" "id_from_validated (wk_boot w) = wk_boot w"
    "id_valid (wk_publisher w)" "id_valid (wk_boot w)"
    "length (wk_publisher w) \<le> max_description_length" "length (wk_boot w) \<le> max_description_length"
    "length (wk_publisher w) \<le> max_name_length"
    by (simp_all add: max_identifier_length_def max_description_length_def max_name_length_def)
  from ids show "id_wf (wk_publisher w)" "id_wf (wk_boot w)" by (metis id_wf_from_validated)+
qed

lemma fenced_registration:
  assumes "in_step env True (c, s) e" "cl_config c = worker_client w" "cl_epoch c = en_epoch e" "identified (worker_client w)"
    "gen_valid (en_epoch e)" "map_of (en_publishers e) (wk_publisher w) = Some p" "pub_boot p = wk_boot w" "pub_fenced p"
  shows "\<exists>m s'. client_register_publisher (coordinator_ops env) (c, s) =
      Some (m, c\<lparr>cl_sequence := cl_sequence c + 1\<rparr>, s') \<and> \<not> wire_accepted m \<and>
    in_step env True (c\<lparr>cl_sequence := cl_sequence c + 1\<rparr>, s') e"
proof -
  let ?fenced = "failure OC_PublisherFenced ''the publisher incarnation is fenced''"
  note ids = worker_ids [OF assms(4)]
  have "register_publisher (wk_publisher w) (wk_boot w) (en_epoch e) e = (?fenced, e)"
    using assms(5-8) ids(3,4) by (simp add: register_publisher_def)
  moreover have "\<not> wire_accepted (wire_outcome_of ?fenced)"
    by (simp add: outcome_accepted_def is_accepted_def failure_def)
  ultimately show ?thesis
    using registration_answered [OF assms(1), of ?fenced e] assms(2,3) fenced_outcomes_clean(1) [OF ids(7,8)] ids
    by (auto simp: worker_client_def)
qed

lemma fenced_replay:
  assumes "in_step env True (c, s) e" "identified (worker_client w)" "id_valid (id_from_validated (wk_port w))"
    "id_valid (id_from_validated (''replay-'' @ wk_publisher w @ ''-'' @ wk_boot w))"
    "gen_valid (en_epoch e)" "\<not> en_shutting_down e"
    "map_of (en_publishers e) (wk_publisher w) = Some p" "pub_boot p = wk_boot w" "pub_fenced p"
  shows "\<exists>result cs'. client_mutate (coordinator_ops env)
      (replay_message w (id_from_validated (wk_port w)) (en_epoch e)) (c, s) = Some (result, cs') \<and>
    \<not> cr_accepted result \<and> outcome_text (cr_outcome result) = ''PUBLISHER_FENCED'' \<and> in_step env True cs' e"
proof -
  let ?m = "replay_message w (id_from_validated (wk_port w)) (en_epoch e)"
    and ?au = "worker_authority w ''replay-'' [] (en_epoch e)"
  define oc where "oc = with_detail ''boot'' (wk_boot w) (with_detail ''publisher'' (wk_publisher w)
    (failure OC_PublisherFenced ''the publisher incarnation is fenced and can never mutate again''))"
  note ids = worker_ids [OF assms(2)]
  have "authority_valid ?au"
    using assms(4,5) ids by (simp add: authority_valid_def worker_authority_def)
  then have "authority_refusal ?au e = Some oc" "gate_admission e (wire_envelope ?m PK_SwitchAgent) = None"
    using assms(3,6-9) ids
    by (simp_all add: authority_refusal_def gate_admission_def wire_envelope_def replay_message_def worker_message_def
        oc_def) (simp_all add: worker_authority_def ids)
  note sent = dispatch_replay [OF this(2,1), of env]
  have wf: "mutation_wf ?m" by (rule replay_message_wf) simp
  have enc: "outcome_ok (fst (encode_mutation ?m))"
    by (rule worker_message_encodes [OF wf]) (use ids in \<open>simp_all add: replay_message_def worker_message_def\<close>)
  have outcome: "mr_outcome (refuse_authority oc) = oc" by (simp add: refuse_authority_def because_def conclude_def)
  have "outcome_clean (wire_outcome_of oc)"
    unfolding oc_def by (rule fenced_outcomes_clean(2) [OF ids(7,8)])
  then obtain cs' where mutated: "client_mutate (coordinator_ops env) ?m (c, s) =
      Some (\<lparr>cr_outcome = wire_outcome_of oc, cr_accepted = result_accepted (refuse_authority oc),
        cr_summary = oc_message oc\<rparr>, cs')" "in_step env True cs' e"
    using mutation_answered [OF assms(1) wf enc sent] outcome by auto
  have "oc_code oc = OC_PublisherFenced" by (simp add: oc_def with_detail_def failure_def)
  then have "\<not> result_accepted (refuse_authority oc)" "outcome_text (wire_outcome_of oc) = ''PUBLISHER_FENCED''"
    using outcome_byte [of OC_PublisherFenced]
    by (simp_all add: result_accepted_def outcome outcome_accepted_def is_accepted_def outcome_text_def wire_outcome_of_def)
  with mutated show ?thesis by auto
qed

lemma session_left:
  assumes "in_step env True (c, s) e"
  shows "\<exists>t. serve_session env (lk_input s) (lk_start s) = Some t \<and> se_engine t = e"
  using assms by (auto simp: in_step_def stands_def serve_short frame_header_size_def dest!: spec [of _ "[]"])

lemma coordinator_close [simp]: "snd (client_close (coordinator_ops env) cs) = snd cs"
  by (simp add: client_close_def coordinator_ops_def case_prod_beta)

text \<open>
  Property C36. A fenced agent cannot come back. Whatever runtime the coordinator serves and however the
  stream is cut, a port agent whose incarnation is fenced there is told so and ends: in agent mode with
  exit code 1 at its registration, in replay mode with exit code 3 after its mutation has been refused;
  and the session it leaves behind has not changed the runtime.
\<close>

theorem fenced_agent_is_refused:
  assumes "identified (worker_client w)" "id_valid (id_from_validated (wk_port w))"
    "id_valid (id_from_validated (''replay-'' @ wk_publisher w @ ''-'' @ wk_boot w))"
    "gen_valid (en_epoch e)" "\<not> en_shutting_down e"
    "map_of (en_publishers e) (wk_publisher w) = Some p" "pub_boot p = wk_boot w" "pub_fenced p"
  shows "\<exists>r s. worker_run (coordinator_ops env) polls w
      \<lparr>lk_start = e, lk_input = [], lk_read = 0, lk_fragment = n\<rparr> = Some (r, s) \<and>
    (if wk_mode w = ''replay'' then ru_exit r = 3 \<and> ''result=PUBLISHER_FENCED'' \<in> set (ru_out r) else ru_exit r = 1) \<and>
    (\<exists>t. serve_session env (lk_input s) (lk_start s) = Some t \<and> se_engine t = e)"
proof -
  obtain c s where c: "client_connect (coordinator_ops env) (client_create (worker_client w),
      \<lparr>lk_start = e, lk_input = [], lk_read = 0, lk_fragment = n\<rparr>) = Some (success ''session established'', c, s)"
    "in_step env True (c, s) e" "cl_epoch c = en_epoch e" "cl_config c = worker_client w"
    using client_connects [OF assms(1)] by blast
  let ?c = "c\<lparr>cl_sequence := cl_sequence c + 1\<rparr>"
  obtain m s' where registered: "client_register_publisher (coordinator_ops env) (c, s) = Some (m, ?c, s')"
    "\<not> wire_accepted m" "in_step env True (?c, s') e"
    using fenced_registration [OF c(2,4,3) assms(1,4,6-8)] by blast
  obtain result c2 s2 where replayed: "client_mutate (coordinator_ops env)
      (replay_message w (id_from_validated (wk_port w)) (en_epoch e)) (?c, s') = Some (result, c2, s2)"
    "\<not> cr_accepted result" "outcome_text (cr_outcome result) = ''PUBLISHER_FENCED''" "in_step env True (c2, s2) e"
    using fenced_replay [OF registered(3) assms(1-8)] by auto
  show ?thesis
  proof (cases "wk_mode w = ''replay''")
    case True
    with c registered(1,2) replayed(1-3) session_left [OF replayed(4)] assms(2) show ?thesis
      by (simp add: worker_run_def worker_replay_def worker_exit_def exits_def outcome_ok_def success_def Let_def)
  next
    case False
    with c registered(1,2) session_left [OF registered(3)] show ?thesis
      by (simp add: worker_run_def worker_exit_def exits_def outcome_ok_def success_def Let_def)
  qed
qed

text \<open>The agent of the sample runtime, fenced while it was away.\<close>

theorem fenced_agent_is_refused_witness:
  "\<exists>r s. worker_run (coordinator_ops quiet_env) []
      (worker_defaults\<lparr>wk_publisher := ''agent'', wk_boot := ''boot-1'', wk_port := ''p1'', wk_mode := ''replay''\<rparr>)
      \<lparr>lk_start = snd (fence_publisher ''agent'' ''boot-1'' one_agent), lk_input = [], lk_read = 0, lk_fragment = 2\<rparr> =
        Some (r, s) \<and> ru_exit r = 3"
proof -
  let ?w = "worker_defaults\<lparr>wk_publisher := ''agent'', wk_boot := ''boot-1'', wk_port := ''p1'', wk_mode := ''replay''\<rparr>"
    and ?e = "snd (fence_publisher ''agent'' ''boot-1'' one_agent)"
  have "id_from_validated ''agent'' = ''agent''" "id_from_validated ''boot-1'' = ''boot-1''"
    "id_wf ''agent''" "id_wf ''boot-1''" by code_simp+
  then have config: "identified (worker_client ?w)"
    by (simp add: identified_def worker_client_def worker_defaults_def id_valid_def max_name_length_def)
  have port: "id_valid (id_from_validated (wk_port ?w))" by code_simp
  have attempt: "id_valid (id_from_validated (''replay-'' @ wk_publisher ?w @ ''-'' @ wk_boot ?w))" by code_simp
  have e: "gen_valid (en_epoch ?e)" "\<not> en_shutting_down ?e"
    "map_of (en_publishers ?e) ''agent'' = Some \<lparr>pub_publisher = ''agent'', pub_boot = ''boot-1'', pub_epoch = 7, pub_fenced = True\<rparr>"
    by (simp_all add: one_agent_def engine_create_def register_publisher_def register_fresh_def fence_publisher_def
        release_ownership_of_def release_where_def id_valid_def gen_valid_def max_publishers_def Let_def)
  from fenced_agent_is_refused [OF config port attempt e(1,2), of _ quiet_env "[]" 2] e(3) show ?thesis by auto
qed

end
