(* ===== verification/Host.thy ===== *)
theory Host
  imports Ids
begin

text \<open>
  The host functions of \<open>platform_windows.cpp\<close>: the evidence about the ports of the local host, from the
  interface table and the registry of the operating system, whose calls are parameters.
\<close>

section \<open>Evidence\<close>

record host_port =
  hp_identity :: string
  hp_alias :: string
  hp_description :: string
  hp_pnp :: string
  hp_class :: port_entity_class
  hp_admin :: bool
  hp_operational :: bool
  hp_speed :: u64
  hp_mtu :: u32
  hp_media :: string

definition host_port_to_string :: "host_port \<Rightarrow> string" where
  "host_port_to_string h =
     ''identity='' @ (if hp_identity h = [] then ''unknown'' else hp_identity h) @
     '' class='' @ port_entity_class_to_string (hp_class h) @ '' alias='' @ hp_alias h @
     '' admin='' @ format_bool (hp_admin h) @ '' operational='' @ format_bool (hp_operational h) @
     '' mtu='' @ decimal (unat (hp_mtu h)) @
     '' speed='' @ (if hp_speed h = 0 then ''unknown'' else format_u64 (hp_speed h)) @
     '' media='' @ hp_media h @ (if hp_pnp h = [] then [] else '' pnp='' @ hp_pnp h)"

text \<open>The media the code has a label for; every other one is \<open>NdisMediumOther\<close>.\<close>

datatype ndis_medium = NdisMedium802_3 | NdisMedium802_5 | NdisMediumFddi | NdisMediumWan
  | NdisMediumLocalTalk | NdisMediumDix | NdisMediumArcnetRaw | NdisMediumArcnet878_2 | NdisMediumAtm
  | NdisMediumWirelessWan | NdisMediumIrda | NdisMediumBpc | NdisMediumCoWan | NdisMedium1394
  | NdisMediumInfiniBand | NdisMediumTunnel | NdisMediumNative802_11 | NdisMediumLoopback
  | NdisMediumWiMAX | NdisMediumIP | NdisMediumOther

primrec media_type_label :: "ndis_medium \<Rightarrow> string" where
  "media_type_label NdisMedium802_3 = ''802.3''"
| "media_type_label NdisMedium802_5 = ''802.5''"
| "media_type_label NdisMediumFddi = ''fddi''"
| "media_type_label NdisMediumWan = ''wan''"
| "media_type_label NdisMediumLocalTalk = ''localtalk''"
| "media_type_label NdisMediumDix = ''dix''"
| "media_type_label NdisMediumArcnetRaw = ''arcnet-raw''"
| "media_type_label NdisMediumArcnet878_2 = ''arcnet-878.2''"
| "media_type_label NdisMediumAtm = ''atm''"
| "media_type_label NdisMediumWirelessWan = ''wireless-wan''"
| "media_type_label NdisMediumIrda = ''irda''"
| "media_type_label NdisMediumBpc = ''bpc''"
| "media_type_label NdisMediumCoWan = ''co-wan''"
| "media_type_label NdisMedium1394 = ''1394''"
| "media_type_label NdisMediumInfiniBand = ''infiniband''"
| "media_type_label NdisMediumTunnel = ''tunnel''"
| "media_type_label NdisMediumNative802_11 = ''802.11''"
| "media_type_label NdisMediumLoopback = ''loopback''"
| "media_type_label NdisMediumWiMAX = ''wimax''"
| "media_type_label NdisMediumIP = ''ip''"
| "media_type_label NdisMediumOther = ''unknown''"

section \<open>The operating system\<close>

text \<open>A row of the interface table. Wide texts are lists of 16 bit units that end at a zero unit.\<close>

type_synonym wide = "u16 list"

record interface_row =
  if_guid :: "u8 list"
  if_alias :: wide
  if_description :: wide
  if_admin_status :: int
  if_oper_status :: int
  if_transmit_speed :: u64
  if_mtu :: u32
  if_media :: ndis_medium

text \<open>
  The calls: \<open>hc_utf8\<close> converts a wide text, to the empty text when it fails; \<open>hc_guid\<close> writes an
  identifier, \<open>None\<close> when it fails; \<open>hc_class_key\<close>, \<open>hc_guid_key\<close> and \<open>hc_connection_key\<close> tell whether the
  three nested keys of the registry open, for the text of an identifier; \<open>hc_pnp\<close> reads the value in the
  innermost, with whether it is a text; \<open>hc_table\<close> is the status and the table of the interfaces.
\<close>

record host_calls =
  hc_utf8 :: "wide \<Rightarrow> string"
  hc_guid :: "u8 list \<Rightarrow> wide option"
  hc_class_key :: bool
  hc_guid_key :: "wide \<Rightarrow> bool"
  hc_connection_key :: "wide \<Rightarrow> bool"
  hc_pnp :: "wide \<Rightarrow> (bool \<times> wide) option"
  hc_table :: "u32 \<times> interface_row list option"
  hc_processors :: u32
  hc_process :: u32

definition from_wide :: "host_calls \<Rightarrow> wide \<Rightarrow> string" where
  "from_wide hc t = (let t = takeWhile (\<lambda>u. u \<noteq> 0) t in if t = [] then [] else hc_utf8 hc t)"

definition pnp_identity_for :: "host_calls \<Rightarrow> u8 list \<Rightarrow> string" where
  "pnp_identity_for hc guid =
     (case hc_guid hc guid of
        None \<Rightarrow> []
      | Some key \<Rightarrow>
          if \<not> hc_class_key hc \<or> \<not> hc_guid_key hc key \<or> \<not> hc_connection_key hc key then []
          else (case hc_pnp hc key of
                  None \<Rightarrow> []
                | Some (is_text, t) \<Rightarrow> if is_text then from_wide hc t else []))"

section \<open>Enumeration\<close>

text \<open>Both status constants are 1.\<close>

definition evidence_of :: "host_calls \<Rightarrow> interface_row \<Rightarrow> host_port" where
  "evidence_of hc row =
     \<lparr>hp_identity = (case hc_guid hc (if_guid row) of None \<Rightarrow> [] | Some t \<Rightarrow> from_wide hc t),
      hp_alias = from_wide hc (if_alias row), hp_description = from_wide hc (if_description row),
      hp_pnp = pnp_identity_for hc (if_guid row), hp_class = PEC_NicPort,
      hp_admin = (if_admin_status row = 1), hp_operational = (if_oper_status row = 1),
      hp_speed = if_transmit_speed row, hp_mtu = if_mtu row, hp_media = media_type_label (if_media row)\<rparr>"

text \<open>\<open>None\<close> is the build for another system than Windows. The result is the error and the evidence.\<close>

definition platform_available :: "host_calls option \<Rightarrow> bool" where
  "platform_available host \<longleftrightarrow> host \<noteq> None"

definition backend_label :: "host_calls option \<Rightarrow> string" where
  "backend_label host = (if host = None then ''unsupported'' else ''windows-mib-if'')"

definition max_interfaces :: nat where "max_interfaces = 4096"

definition enumerate_ports :: "host_calls option \<Rightarrow> string \<times> host_port list" where
  "enumerate_ports host =
     (case host of
        None \<Rightarrow> (''host port enumeration is UNSUPPORTED on this platform'', [])
      | Some hc \<Rightarrow>
        (case hc_table hc of
           (status, table) \<Rightarrow>
             if status \<noteq> 0 \<or> table = None
             then (''the host interface table could not be read (netio status '' @ decimal (unat status) @ '')'', [])
             else if max_interfaces < length (the table)
             then (''the host reported an implausible interface count'', [])
             else ([], map (evidence_of hc) (the table))))"

text \<open>\<open>n\<close> is what the C++ library answers on a system other than Windows.\<close>

definition processor_count :: "host_calls option \<Rightarrow> u32 \<Rightarrow> u32" where
  "processor_count host n =
     (let n = (case host of None \<Rightarrow> n | Some hc \<Rightarrow> hc_processors hc) in if n = 0 then 1 else n)"

definition current_process_id :: "host_calls option \<Rightarrow> u32" where
  "current_process_id host = (case host of None \<Rightarrow> 0 | Some hc \<Rightarrow> hc_process hc)"

text \<open>
  An enumeration either fails, with a reason and nothing else, or answers with one piece of evidence for
  each interface, which never claims to be more than that of a host adapter.
\<close>

lemma enumerate_ports_cases:
  assumes "enumerate_ports host = (err, hs)"
  shows "(err \<noteq> [] \<and> hs = []) \<or>
    (err = [] \<and> length hs \<le> max_interfaces \<and> platform_available host \<and> (\<forall>h \<in> set hs. hp_class h = PEC_NicPort))"
  using assms
  by (auto simp: enumerate_ports_def platform_available_def evidence_of_def split: option.splits prod.splits if_splits)

lemma processor_count_positive: "0 < processor_count host n"
  by (simp add: processor_count_def Let_def word_gt_0)

end
