(* ===== verification/Recovery.thy ===== *)
theory Recovery
  imports Sample "HOL-Library.Product_Lexorder"
begin

text \<open>
  \<open>PortFabricEngine::load\<close> of \<open>src/engine_persistence.cpp\<close>: the conservative recovery of durable
  state. The container's own decoding is the environment's \<open>ev_load\<close>; everything the runtime
  does with the decoded state is here, in the order of the code, and every early return gives
  the state as far as it was changed by then.
\<close>

section \<open>One record\<close>

definition release_on_recovery :: "port_record \<Rightarrow> port_record" where
  "release_on_recovery r =
     (if pr_ownership r = None then r
      else r\<lparr>pr_generations := (pr_generations r)
               \<lparr>gv_ownership := gen_advance (gv_ownership (pr_generations r))\<rparr>,
             pr_ownership := None,
             pr_status_reason := ''OWNERSHIP_RELEASED_ON_RECOVERY'',
             pr_status_detail :=
               ''ownership held by a previous process incarnation does not survive restart''\<rparr>)"

definition doubt_applied :: "port_record \<Rightarrow> port_record" where
  "doubt_applied r =
     (if ae_outcome (pr_applied r) = Applied_Applied \<or> ae_outcome (pr_applied r) = Applied_Verified
      then let evidence = gen_advance (gv_evidence (pr_generations r))
           in r\<lparr>pr_applied := (pr_applied r)\<lparr>ae_outcome := Applied_OutcomeUnknown,
                  ae_verified := False, ae_source := ''recovered'', ae_evidence_generation := evidence\<rparr>,
                pr_generations := (pr_generations r)\<lparr>gv_evidence := evidence\<rparr>\<rparr>
      else r)"

definition require_revalidation :: "port_record \<Rightarrow> port_record" where
  "require_revalidation r =
     (if pr_configuration r \<noteq> None \<and> pr_lifecycle r \<noteq> LC_Retired
      then r\<lparr>pr_lifecycle := LC_RevalidationRequired,
             pr_generations := (pr_generations r)
               \<lparr>gv_lifecycle := gen_advance (gv_lifecycle (pr_generations r))\<rparr>,
             pr_drift := Drift_RevalidationRequired,
             pr_status_reason := ''RECOVERED_FROM_PERSISTENCE'',
             pr_status_detail :=
               ''durable desired configuration recovered; revalidation against current device, topology and capability generations is required before it is trusted again''\<rparr>
      else r)"

definition recover_record :: "port_record \<Rightarrow> port_record" where
  "recover_record r =
     (let r = require_revalidation (doubt_applied (release_on_recovery r))
      in r\<lparr>pr_last_mutation := no_last_mutation,
           pr_provenance := (pr_provenance r)\<lparr>pv_kind := PK_Recovery\<rparr>\<rparr>)"

section \<open>The stages of recovery\<close>

text \<open>The checks before anything is changed.\<close>

definition load_refusal :: "engine \<Rightarrow> persisted_state \<Rightarrow> outcome option" where
  "load_refusal e ps =
     (if cf_port_bound (en_config e) < length (ps_records ps)
      then Some (failure OC_PersistenceBoundsExceeded
             ''the container carries more records than the configured port bound'')
      else if id_valid (cf_fabric (en_config e)) \<and> id_valid (ps_fabric ps) \<and>
              cf_fabric (en_config e) \<noteq> ps_fabric ps
      then Some (failure OC_ConflictDetected
             ''the container belongs to a different fabric authority domain'')
      else if id_valid (cf_site (en_config e)) \<and> id_valid (ps_site ps) \<and>
              cf_site (en_config e) \<noteq> ps_site ps
      then Some (failure OC_ConflictDetected
             ''the container belongs to a different site authority domain'')
      else None)"

text \<open>The first profile the registry does not accept ends the loop.\<close>

fun restore_profiles :: "port_profile list \<Rightarrow> profile_registry \<Rightarrow> outcome option \<times> profile_registry" where
  "restore_profiles [] reg = (None, reg)"
| "restore_profiles (p # rest) reg =
     (let (defined, reg) = registry_define p reg
      in if \<not> outcome_accepted defined
         then (Some (failure OC_PersistenceCorruption
                 (''a recovered profile could not be restored: '' @ outcome_to_string defined)), reg)
         else restore_profiles rest reg)"

definition ordered_profiles :: "port_profile list \<Rightarrow> port_profile list" where
  "ordered_profiles = sort_key (\<lambda>p. (pp_id p, pp_generation p))"

definition restore_devices :: "device_binding list \<Rightarrow> (strong_id \<times> device_binding) list" where
  "restore_devices bindings = foldl (\<lambda>m b. om_update (dv_device b) b m) [] bindings"

definition restore_publishers :: "publisher_record list \<Rightarrow> (strong_id \<times> publisher_record) list" where
  "restore_publishers publishers =
     foldl (\<lambda>m p. om_update (pub_publisher p) (p\<lparr>pub_fenced := True\<rparr>) m) [] publishers"

definition restore_authority :: "persisted_state \<Rightarrow> engine \<Rightarrow> outcome option \<times> engine" where
  "restore_authority ps e =
     (if en_epoch e \<le> ps_epoch ps \<and> gen_exhaustible (ps_epoch ps)
      then (Some (failure OC_ResourceBoundExceeded
              ''the persisted coordinator epoch can no longer advance''), e)
      else (None, e\<lparr>
        en_epoch := (if en_epoch e \<le> ps_epoch ps then gen_next (ps_epoch ps) else en_epoch e),
        en_topology := (if gen_valid (ps_topology ps) \<and> en_topology e < ps_topology ps
                        then ps_topology ps else en_topology e),
        en_devices := restore_devices (ps_devices ps),
        en_publishers := restore_publishers (ps_publishers ps)\<rparr>))"

text \<open>
  \<open>emplace\<close> keeps the record of a port that is already there; the first record that does not
  validate ends the loop.
\<close>

fun restore_records ::
  "port_record list \<Rightarrow> (strong_id \<times> port_record) list \<Rightarrow> outcome option \<times> (strong_id \<times> port_record) list" where
  "restore_records [] records = (None, records)"
| "restore_records (r # rest) records =
     (case record_validate (recover_record r) of
        Some err \<Rightarrow> (Some (failure OC_PersistenceCorruption
                       (''a recovered record is inconsistent: '' @ err)), records)
      | None \<Rightarrow> restore_records rest
          (if map_of records (pr_port r) = None
           then om_update (pr_port r) (recover_record r) records else records))"

definition load_outcome :: "environment \<Rightarrow> engine \<Rightarrow> outcome \<times> persisted_state" where
  "load_outcome env e = ev_load env (cf_persistence_path (en_config e))"

definition load :: "environment \<Rightarrow> engine \<Rightarrow> outcome \<times> engine" where
  "load env e =
     (if cf_persistence_path (en_config e) = []
      then (failure OC_PersistenceIoFailure ''no persistence container path is configured'', e)
      else
       (let (read, ps) = load_outcome env e
        in if \<not> outcome_ok read then (read, e)
        else case load_refusal e ps of
          Some answer \<Rightarrow> (answer, e)
        | None \<Rightarrow>
         (case restore_profiles (ordered_profiles (ps_profiles ps)) (registry_clear (en_profiles e)) of
            (Some answer, reg) \<Rightarrow> (answer, e\<lparr>en_profiles := reg\<rparr>)
          | (None, reg) \<Rightarrow>
           (case restore_authority ps (e\<lparr>en_profiles := reg\<rparr>) of
              (Some answer, e) \<Rightarrow> (answer, e)
            | (None, e) \<Rightarrow>
             (case restore_records (ps_records ps) [] of
                (Some answer, records) \<Rightarrow> (answer, e\<lparr>en_records := records\<rparr>)
              | (None, records) \<Rightarrow>
               (let e = e\<lparr>en_records := records, en_indexes := reindex_all records\<rparr>
                in if gen_valid (ps_engine_generation ps) \<and> gen_exhaustible (ps_engine_generation ps)
                   then (failure OC_ResourceBoundExceeded
                           ''the persisted engine generation can no longer advance'', e)
                   else (success ''durable state recovered conservatively'',
                         e\<lparr>en_generation := (if gen_valid (ps_engine_generation ps)
                             then gen_next (ps_engine_generation ps) else 1)\<rparr>)))))))"

section \<open>What each stage guarantees\<close>

lemma recover_record_fields [simp]:
  "pr_port (recover_record r) = pr_port r" "pr_parent_device (recover_record r) = pr_parent_device r"
  "pr_configuration (recover_record r) = pr_configuration r" "pr_ownership (recover_record r) = None"
  "pr_capability (recover_record r) = pr_capability r"
  "pr_last_mutation (recover_record r) = no_last_mutation"
  "gv_configuration (pr_generations (recover_record r)) = gv_configuration (pr_generations r)"
  "pr_lifecycle (recover_record r) =
     (if pr_configuration r \<noteq> None \<and> pr_lifecycle r \<noteq> LC_Retired then LC_RevalidationRequired
      else pr_lifecycle r)"
  by (simp_all add: recover_record_def require_revalidation_def doubt_applied_def
      release_on_recovery_def Let_def) auto

lemma recover_record_applied:
  "ae_outcome (pr_applied (recover_record r)) \<noteq> Applied_Applied"
  "ae_outcome (pr_applied (recover_record r)) \<noteq> Applied_Verified"
  "pr_drift (recover_record r) =
     (if pr_configuration r \<noteq> None \<and> pr_lifecycle r \<noteq> LC_Retired then Drift_RevalidationRequired
      else pr_drift r)"
  by (auto simp: recover_record_def require_revalidation_def doubt_applied_def
      release_on_recovery_def Let_def)

text \<open>Recovery repairs the status texts of a configured record and keeps valid ones.\<close>

lemma recovery_texts:
  "validate_text ''OWNERSHIP_RELEASED_ON_RECOVERY'' max_name_length = None"
  "validate_text ''ownership held by a previous process incarnation does not survive restart''
     max_description_length = None"
  "validate_text ''RECOVERED_FROM_PERSISTENCE'' max_name_length = None"
  "validate_text ''durable desired configuration recovered; revalidation against current device, topology and capability generations is required before it is trusted again''
     max_description_length = None"
  by code_simp+

lemma recover_record_status:
  assumes "validate_text (pr_status_reason r) max_name_length = None"
    "validate_text (pr_status_detail r) max_description_length = None"
  shows "validate_text (pr_status_reason (recover_record r)) max_name_length = None"
    "validate_text (pr_status_detail (recover_record r)) max_description_length = None"
  using assms recovery_texts
  by (simp_all add: recover_record_def require_revalidation_def doubt_applied_def
      release_on_recovery_def Let_def)

lemma recover_record_ok: "record_ok r \<Longrightarrow> record_ok (recover_record r)"
  using recover_record_status [of r] by (auto simp: record_ok_def split: option.splits)

lemma record_core_ok_recovered:
  "record_ok (recover_record r) \<Longrightarrow> record_core_ok (recover_record r)"
  by (auto simp: record_ok_def record_core_ok_def split: option.splits if_splits)

lemma device_known_recovered [simp]: "device_known e (recover_record r)"
  by (auto simp: device_known_def is_live_def)

lemma restore_profiles_ok:
  "registry_ok reg \<Longrightarrow> registry_ok (snd (restore_profiles ps reg))"
proof (induction ps reg rule: restore_profiles.induct)
  case (2 p rest reg)
  then show ?case
    using registry_define_ok [OF "2.prems", of p] by (cases "registry_define p reg") auto
qed simp

text \<open>The two tables of the authority state are filled the same way.\<close>

definition filed :: "('b \<Rightarrow> 'a :: linorder) \<Rightarrow> ('b \<Rightarrow> bool) \<Rightarrow> ('a \<times> 'b) list \<Rightarrow> bool" where
  "filed key P m \<longleftrightarrow> om_sorted m \<and> (\<forall>k v. map_of m k = Some v \<longrightarrow> key v = k \<and> P v)"

lemma filed_update: "filed key P m \<Longrightarrow> P v \<Longrightarrow> filed key P (om_update (key v) v m)"
  by (simp add: filed_def om_sorted_update)

lemma length_om_update: "om_sorted m \<Longrightarrow> length (om_update k v m) \<le> Suc (length m)"
  by (simp add: om_length_update)

lemma table_fold:
  assumes "filed key P m" "\<And>x. P (f x)" "\<And>x. key (f x) = key x"
  shows "filed key P (foldl (\<lambda>m x. om_update (key x) (f x) m) m xs) \<and>
    length (foldl (\<lambda>m x. om_update (key x) (f x) m) m xs) \<le> length m + length xs"
  using assms(1)
proof (induction xs arbitrary: m)
  case (Cons x xs)
  have "filed key P (om_update (key x) (f x) m)"
    using filed_update [OF Cons.prems assms(2)] by (simp add: assms(3))
  note IH = Cons.IH [OF this]
  have "length (om_update (key x) (f x) m) \<le> Suc (length m)"
    using Cons.prems by (simp only: filed_def length_om_update)
  with IH show ?case unfolding foldl_Cons list.size by linarith
qed simp

lemma filed_Nil: "filed key P []"
  by (simp add: filed_def om_sorted_def)

lemma restore_publishers_fenced:
  "filed pub_publisher pub_fenced (restore_publishers ps)" "length (restore_publishers ps) \<le> length ps"
  using table_fold [OF filed_Nil, of pub_fenced "\<lambda>p. p\<lparr>pub_fenced := True\<rparr>" pub_publisher ps]
  by (simp_all add: restore_publishers_def)

lemma restore_devices_filed: "filed dv_device (\<lambda>_. True) (restore_devices ds)"
  using table_fold [OF filed_Nil, of "\<lambda>_. True" "\<lambda>d. d" dv_device ds]
  by (simp add: restore_devices_def)

text \<open>Every restored record comes from a persisted one, and every persisted port is restored.\<close>

lemma restore_records_spec:
  assumes "restore_records rs m = (None, m')" "om_sorted m"
  shows "om_sorted m' \<and> length m' \<le> length m + length rs \<and>
    (\<forall>p. map_of m p \<noteq> None \<longrightarrow> map_of m' p = map_of m p) \<and>
    (\<forall>r \<in> set rs. record_ok (recover_record r) \<and> map_of m' (pr_port r) \<noteq> None) \<and>
    (\<forall>p s. map_of m p = None \<and> map_of m' p = Some s \<longrightarrow>
       (\<exists>r \<in> set rs. pr_port r = p \<and> s = recover_record r))"
  using assms
proof (induction rs m rule: restore_records.induct)
  case (2 r rest m)
  let ?m = "if map_of m (pr_port r) = None then om_update (pr_port r) (recover_record r) m else m"
  have valid: "record_validate (recover_record r) = None"
    and rest: "restore_records rest ?m = (None, m')"
    using "2.prems"(1) by (auto split: option.splits)
  have "om_sorted ?m" using "2.prems"(2) by (simp add: om_sorted_update)
  note IH = "2.IH" [OF valid rest this]
  have new: "map_of ?m = (if map_of m (pr_port r) = None then (map_of m)(pr_port r \<mapsto> recover_record r) else map_of m)"
    by simp
  have ok: "record_ok (recover_record r)" using valid by (simp only: record_validate_ok)
  have len: "length ?m \<le> Suc (length m)" using "2.prems"(2) by (simp add: om_length_update)
  have held: "map_of ?m (pr_port r) \<noteq> None" by simp
  have keep: "map_of ?m p = map_of m p" if "map_of m p \<noteq> None" for p
    unfolding new using that by auto
  have kept: "map_of m p \<noteq> None \<longrightarrow> map_of m' p = map_of m p" for p
    using IH keep [of p] by metis
  have held': "map_of m' (pr_port r) \<noteq> None" using IH held by metis
  have origin: "\<exists>r' \<in> set (r # rest). pr_port r' = p \<and> s = recover_record r'"
    if "map_of m p = None" "map_of m' p = Some s" for p s
  proof (cases "map_of ?m p = None")
    case True
    with IH that(2) show ?thesis by auto
  next
    case False
    with that(1) have "p = pr_port r" by (auto split: if_splits)
    moreover from this that(1) have "map_of ?m p = Some (recover_record r)" by simp
    ultimately show ?thesis using IH that(2) False by (metis list.set_intros(1) option.inject)
  qed
  show ?case using IH len ok kept held' origin by (auto simp del: fun_upd_apply)
qed auto

section \<open>What a load guarantees\<close>

text \<open>The state after a successful load, in terms of the decoded state.\<close>

definition recovered_engine ::
  "persisted_state \<Rightarrow> profile_registry \<Rightarrow> (strong_id \<times> port_record) list \<Rightarrow> engine \<Rightarrow> engine" where
  "recovered_engine ps reg records e =
     e\<lparr>en_profiles := reg,
       en_epoch := (if en_epoch e \<le> ps_epoch ps then gen_next (ps_epoch ps) else en_epoch e),
       en_topology := (if gen_valid (ps_topology ps) \<and> en_topology e < ps_topology ps
                       then ps_topology ps else en_topology e),
       en_devices := restore_devices (ps_devices ps),
       en_publishers := restore_publishers (ps_publishers ps),
       en_records := records, en_indexes := reindex_all records,
       en_generation := (if gen_valid (ps_engine_generation ps)
                         then gen_next (ps_engine_generation ps) else 1)\<rparr>"

lemma recovered_engine_fields [simp]:
  "en_publishers (recovered_engine ps reg records e) = restore_publishers (ps_publishers ps)"
  "en_devices (recovered_engine ps reg records e) = restore_devices (ps_devices ps)"
  "en_records (recovered_engine ps reg records e) = records"
  "en_indexes (recovered_engine ps reg records e) = reindex_all records"
  "en_profiles (recovered_engine ps reg records e) = reg"
  "en_config (recovered_engine ps reg records e) = en_config e"
  "en_epoch (recovered_engine ps reg records e) =
     (if en_epoch e \<le> ps_epoch ps then gen_next (ps_epoch ps) else en_epoch e)"
  "port_of (recovered_engine ps reg records e) = map_of records"
  by (simp_all add: recovered_engine_def port_of_def)

lemma load_succeeds:
  assumes "cf_persistence_path (en_config e) \<noteq> []" "load_outcome env e = (read, ps)" "outcome_ok read"
    "load_refusal e ps = None"
    "restore_profiles (ordered_profiles (ps_profiles ps)) (registry_clear (en_profiles e)) = (None, reg)"
    "\<not> (en_epoch e \<le> ps_epoch ps \<and> gen_exhaustible (ps_epoch ps))"
    "restore_records (ps_records ps) [] = (None, records)"
    "\<not> (gen_valid (ps_engine_generation ps) \<and> gen_exhaustible (ps_engine_generation ps))"
  shows "load env e =
    (success ''durable state recovered conservatively'', recovered_engine ps reg records e)"
  using assms(1-5,7)
  by (simp add: load_def restore_authority_def if_not_P [OF assms(6)] if_not_P [OF assms(8)]
      recovered_engine_def Let_def del: if_split)

lemma load_success:
  assumes "oc_code (fst (load env e)) = OC_Ok"
  obtains read ps reg records where
    "cf_persistence_path (en_config e) \<noteq> []" "load_outcome env e = (read, ps)" "outcome_ok read"
    "load_refusal e ps = None"
    "restore_profiles (ordered_profiles (ps_profiles ps)) (registry_clear (en_profiles e)) = (None, reg)"
    "\<not> (en_epoch e \<le> ps_epoch ps \<and> gen_exhaustible (ps_epoch ps))"
    "restore_records (ps_records ps) [] = (None, records)"
    "\<not> (gen_valid (ps_engine_generation ps) \<and> gen_exhaustible (ps_engine_generation ps))"
    "snd (load env e) = recovered_engine ps reg records e"
proof -
  have path: "cf_persistence_path (en_config e) \<noteq> []"
    using assms by (auto simp: load_def)
  obtain read ps where l: "load_outcome env e = (read, ps)" by (cases "load_outcome env e")
  have read: "outcome_ok read"
    using assms path l by (auto simp: load_def outcome_ok_def split: if_splits)
  have none: "load_refusal e ps = None"
  proof (cases "load_refusal e ps")
    case (Some answer)
    then have "oc_code answer \<noteq> OC_Ok" by (auto simp: load_refusal_def split: if_splits)
    with assms path l read Some show ?thesis by (simp add: load_def)
  qed
  obtain err reg where profiles:
    "restore_profiles (ordered_profiles (ps_profiles ps)) (registry_clear (en_profiles e)) = (err, reg)"
    by fastforce
  have code: "oc_code a \<noteq> OC_Ok" if "fst (restore_profiles xs rg) = Some a" for xs rg a
    using that by (induction xs rg rule: restore_profiles.induct) (auto simp: Let_def split: if_splits prod.splits)
  have err: "err = None"
  proof (cases err)
    case (Some a)
    with code [of "ordered_profiles (ps_profiles ps)" "registry_clear (en_profiles e)" a]
    show ?thesis using assms path l read none profiles by (simp add: load_def)
  qed
  have epoch: "\<not> (en_epoch e \<le> ps_epoch ps \<and> gen_exhaustible (ps_epoch ps))"
    using assms path l read none profiles err
    by (auto simp: load_def restore_authority_def)
  obtain err2 records where records: "restore_records (ps_records ps) [] = (err2, records)"
    by fastforce
  have code2: "oc_code a \<noteq> OC_Ok" if "fst (restore_records xs m) = Some a" for xs m a
    using that by (induction xs m rule: restore_records.induct) (auto split: option.splits)
  have err2: "err2 = None"
  proof (cases err2)
    case (Some a)
    with code2 [of "ps_records ps" "[]" a]
    show ?thesis using assms path l read none profiles err epoch records
      by (simp add: load_def restore_authority_def if_not_P [OF epoch])
  qed
  have gen: "\<not> (gen_valid (ps_engine_generation ps) \<and> gen_exhaustible (ps_engine_generation ps))"
    using assms path l read none profiles err records err2
    by (auto simp: load_def restore_authority_def if_not_P [OF epoch] Let_def)
  show thesis
    using that [OF path l read none profiles [unfolded err] epoch records [unfolded err2] gen]
      load_succeeds [OF path l read none profiles [unfolded err] epoch records [unfolded err2] gen]
    by simp
qed

lemma registry_ok_clear: "registry_ok (registry_clear reg)"
  by (simp add: registry_ok_def registry_clear_def registry_list_def om_sorted_def)

lemma recovered_engine_ok:
  assumes "load_refusal e ps = None" "length (ps_publishers ps) \<le> max_publishers"
    "restore_profiles profiles (registry_clear (en_profiles e)) = (None, reg)"
    "restore_records (ps_records ps) [] = (None, records)"
  shows "engine_ok (recovered_engine ps reg records e)"
proof -
  let ?e = "recovered_engine ps reg records e"
  have "om_sorted ([] :: (strong_id \<times> port_record) list)" by (simp add: om_sorted_def)
  note spec = restore_records_spec [OF assms(4) this]
  have valid: "\<forall>r \<in> set (ps_records ps). record_ok (recover_record r)"
    and origin: "map_of records p = Some s \<Longrightarrow>
      \<exists>r \<in> set (ps_records ps). pr_port r = p \<and> s = recover_record r" for p s
    using spec by simp_all
  have filed: "well_filed (map_of records)"
    unfolding well_filed_def by (auto dest!: origin)
  have core: "record_core_ok s \<and> device_known ?e s" if "map_of records p = Some s" for p s
    using origin [OF that] valid by (auto intro: record_core_ok_recovered)
  have "length records \<le> cf_port_bound (en_config e)"
    using spec assms(1) by (auto simp: load_refusal_def split: if_splits)
  moreover have "registry_ok reg"
    using restore_profiles_ok [OF registry_ok_clear, of profiles "en_profiles e"] assms(3) by simp
  ultimately show ?thesis
    using spec filed core reindex_all_exact [OF conjunct1 [OF spec] filed] restore_devices_filed
      restore_publishers_fenced [of "ps_publishers ps"] assms(2)
    by (simp add: engine_ok_def filed_def)
qed

section \<open>What was saved is recovered\<close>

lemma registry_sorted:
  assumes "registry_ok reg"
  shows "ordered_profiles (registry_list reg) = registry_list reg"
proof -
  have order: "sorted (map (\<lambda>p. (pp_id p, pp_generation p)) (concat (map snd m)))"
    if "om_sorted m" "\<forall>(i, ps) \<in> set m. generations_ok i ps" for m
    using that
  proof (induction m)
    case (Cons a m)
    obtain i ps where a: "a = (i, ps)" by (cases a)
    then have ps: "sorted (map pp_generation ps)" "\<forall>p \<in> set ps. pp_id p = i"
      using Cons.prems(2) by (simp_all add: generations_ok_def strict_sorted_imp_sorted)
    then have "sorted (map (\<lambda>p. (pp_id p, pp_generation p)) ps)"
      by (auto simp: sorted_wrt_map sorted_wrt_iff_nth_less)
    moreover have "i < pp_id q" if q: "q \<in> set (concat (map snd m))" for q
    proof -
      obtain j qs where jq: "(j, qs) \<in> set m" "q \<in> set qs" using q by fastforce
      then have "pp_id q = j" using Cons.prems(2) by (auto simp: generations_ok_def)
      with jq Cons.prems(1) a show ?thesis by (force simp: om_sorted_def)
    qed
    ultimately show ?case
      using Cons ps(2) a by (auto simp: sorted_append om_sorted_def order.strict_implies_order)
  qed simp
  have "om_sorted (rg_profiles reg)" "\<forall>(i, ps) \<in> set (rg_profiles reg). generations_ok i ps"
    using assms by (auto simp: registry_ok_def om_map_of_mem)
  from order [OF this] have "sorted (map (\<lambda>p. (pp_id p, pp_generation p)) (registry_list reg))"
    by (simp only: registry_list_def)
  then show ?thesis by (simp add: ordered_profiles_def sort_key_id_if_sorted)
qed

lemma restore_profiles_append:
  "restore_profiles xs reg = (None, reg') \<Longrightarrow>
   restore_profiles (xs @ ys) reg = restore_profiles ys reg'"
  by (induction xs reg rule: restore_profiles.induct) (auto simp: Let_def split: prod.splits if_splits)

lemma restore_one_profile:
  "define_accepts p reg \<Longrightarrow>
   restore_profiles [p] reg = (None, reg\<lparr>rg_profiles :=
     om_update (pp_id p) (stored_generations (pp_id p) reg @ [p]) (rg_profiles reg),
     rg_generation_count := rg_generation_count reg + 1\<rparr>)"
  using registry_define_result [of p reg]
  by (simp add: Let_def split_beta outcome_accepted_def is_accepted_def)

lemma om_update_last:
  assumes "\<forall>(j, w) \<in> set m. j < k"
  shows "om_update k v m = m @ [(k, v)]" "om_update k v (m @ [(k, w)]) = m @ [(k, v)]"
  using assms by (induction k v m rule: om_update.induct) (auto dest: order_less_not_sym)

lemma map_of_last: "\<forall>(j, w) \<in> set m. j < (k :: 'a :: linorder) \<Longrightarrow> map_of m k = None"
  by (auto simp: map_of_eq_None_iff)

text \<open>The generations of one identifier, after those of the smaller identifiers.\<close>

lemma restore_identifier:
  assumes "generations_ok i ps" "\<forall>(j, w) \<in> set m. j < i" "length m < max_profiles"
    "ps = qs @ rest" "qs \<noteq> []"
  shows "restore_profiles rest \<lparr>rg_profiles = m @ [(i, qs)], rg_generation_count = n\<rparr> =
    (None, \<lparr>rg_profiles = m @ [(i, ps)], rg_generation_count = n + length rest\<rparr>)"
  using assms(4,5)
proof (induction rest arbitrary: qs n)
  case (Cons p rest)
  let ?reg = "\<lparr>rg_profiles = m @ [(i, qs)], rg_generation_count = n\<rparr>"
  have p: "pp_id p = i" "profile_validate p = None" "pp_generation (last qs) < pp_generation p"
    "length qs < max_profile_generations"
    using assms(1) Cons.prems by (auto simp: generations_ok_def sorted_wrt_append)
  have found: "map_of (m @ [(i, qs)]) i = Some qs"
    using map_of_last [OF assms(2)] by (simp add: map_add_def)
  have "define_accepts p ?reg" using p found by (simp add: define_accepts_def)
  from restore_one_profile [OF this]
  have "restore_profiles [p] ?reg =
      (None, \<lparr>rg_profiles = m @ [(i, qs @ [p])], rg_generation_count = n + 1\<rparr>)"
    using p(1) found om_update_last(2) [OF assms(2)] by (simp add: stored_generations_def)
  from restore_profiles_append [OF this, of rest] Cons.IH [of "qs @ [p]" "n + 1"] Cons.prems
  show ?case by simp
qed simp

lemma restore_identifiers:
  assumes "om_sorted (m @ rest)" "\<forall>(i, ps) \<in> set rest. generations_ok i ps"
    "length m + length rest \<le> max_profiles"
  shows "restore_profiles (concat (map snd rest)) \<lparr>rg_profiles = m, rg_generation_count = n\<rparr> =
    (None, \<lparr>rg_profiles = m @ rest, rg_generation_count = n + length (concat (map snd rest))\<rparr>)"
  using assms
proof (induction rest arbitrary: m n)
  case (Cons a rest)
  obtain i ps where a: "a = (i, ps)" by (cases a)
  have ps: "generations_ok i ps" using Cons.prems(2) a by simp
  then obtain p qs where cons: "ps = p # qs" by (cases ps) (auto simp: generations_ok_def)
  have less: "\<forall>(j, w) \<in> set m. j < i"
    using Cons.prems(1) a by (fastforce simp: om_sorted_def sorted_wrt_append)
  have p: "pp_id p = i" "profile_validate p = None" "pp_generation p = 1"
    using ps cons by (auto simp: generations_ok_def)
  let ?reg = "\<lparr>rg_profiles = m, rg_generation_count = n\<rparr>"
  have "define_accepts p ?reg"
    using p map_of_last [OF less] Cons.prems(3) by (simp add: define_accepts_def)
  from restore_one_profile [OF this]
  have first: "restore_profiles [p] ?reg =
      (None, \<lparr>rg_profiles = m @ [(i, [p])], rg_generation_count = n + 1\<rparr>)"
    using p(1) map_of_last [OF less] om_update_last(1) [OF less] by (simp add: stored_generations_def)
  have "length m < max_profiles" using Cons.prems(3) by simp
  from restore_profiles_append [OF first, of qs] restore_identifier [OF ps less this, of "[p]" qs "n + 1"]
  have "restore_profiles ps ?reg =
      (None, \<lparr>rg_profiles = m @ [(i, ps)], rg_generation_count = n + length ps\<rparr>)"
    using cons by simp
  from restore_profiles_append [OF this, of "concat (map snd rest)"]
    Cons.IH [of "m @ [(i, ps)]" "n + length ps"] Cons.prems
  show ?case by (simp add: a)
qed simp

lemma restore_registry:
  assumes "registry_ok reg"
  shows "restore_profiles (ordered_profiles (registry_list reg)) (registry_clear other) = (None, reg)"
proof -
  have "\<forall>(i, ps) \<in> set (rg_profiles reg). generations_ok i ps"
    using assms by (auto simp: registry_ok_def om_map_of_mem)
  moreover have "om_sorted ([] @ rg_profiles reg)" "length ([] :: (strong_id \<times> port_profile list) list) + length (rg_profiles reg) \<le> max_profiles"
    using assms by (simp_all add: registry_ok_def)
  moreover have "registry_clear other = \<lparr>rg_profiles = [], rg_generation_count = 0\<rparr>"
    by (simp add: registry_clear_def)
  moreover have "reg = \<lparr>rg_profiles = rg_profiles reg, rg_generation_count = length (registry_list reg)\<rparr>"
    using assms by (simp add: registry_ok_def)
  ultimately show ?thesis
    using restore_identifiers [of "[]" "rg_profiles reg" 0] registry_sorted [OF assms]
    by (simp add: registry_list_def)
qed

lemma restore_records_accepts:
  "\<forall>r \<in> set rs. record_ok (recover_record r) \<Longrightarrow> fst (restore_records rs m) = None"
  by (induction rs m rule: restore_records.induct) (auto simp: record_validate_ok [symmetric])

lemma restore_saved_records:
  assumes "om_sorted m" "well_filed (map_of m)" "\<forall>p r. map_of m p = Some r \<longrightarrow> record_ok r"
  obtains records where "restore_records (map snd m) [] = (None, records)"
    "\<forall>p. map_of records p = map_option recover_record (map_of m p)"
proof -
  have mem: "r \<in> set (map snd m) \<longleftrightarrow> map_of m (pr_port r) = Some r" for r
  proof
    assume "r \<in> set (map snd m)"
    then obtain p where "map_of m p = Some r" using om_map_of_mem [OF assms(1)] by auto
    moreover from this have "pr_port r = p" using assms(2) by (simp add: well_filed_def)
    ultimately show "map_of m (pr_port r) = Some r" by simp
  qed (force dest: map_of_SomeD)
  have "\<forall>r \<in> set (map snd m). record_ok (recover_record r)"
    using assms(3) by (auto simp only: mem intro: recover_record_ok)
  from restore_records_accepts [OF this, of "[]"]
  obtain records where r: "restore_records (map snd m) [] = (None, records)"
    by (cases "restore_records (map snd m) []") simp
  have "om_sorted ([] :: (strong_id \<times> port_record) list)" by (simp add: om_sorted_def)
  note spec = restore_records_spec [OF r this]
  have origin: "map_of records p = Some s \<Longrightarrow>
      \<exists>r \<in> set (map snd m). pr_port r = p \<and> s = recover_record r" for p s
    using spec by (metis map_of.simps(1))
  have present: "r \<in> set (map snd m) \<Longrightarrow> map_of records (pr_port r) \<noteq> None" for r
    using spec by metis
  have "map_of records p = map_option recover_record (map_of m p)" for p
  proof (cases "map_of records p")
    case None
    have "map_of m p = None"
    proof (rule ccontr)
      assume "map_of m p \<noteq> None"
      then obtain r where r: "map_of m p = Some r" by auto
      then have "pr_port r = p" using assms(2) by (simp add: well_filed_def)
      with r mem [of r] present [of r] None show False by simp
    qed
    with None show ?thesis by simp
  next
    case (Some s)
    from origin [OF this] obtain r where r: "r \<in> set (map snd m)" "pr_port r = p" "s = recover_record r"
      by blast
    with Some show ?thesis unfolding mem by simp
  qed
  with that r show thesis by blast
qed

text \<open>The sample runtime with a container: it saves and reads its own state.\<close>

definition durable_port :: "port_record \<Rightarrow> engine" where
  "durable_port r = (one_port Policy_Apply r)\<lparr>en_config :=
     (en_config (one_port Policy_Apply r))\<lparr>cf_persistence_path := ''state.pf''\<rparr>\<rparr>"

definition store_env :: "persisted_state \<Rightarrow> environment" where
  "store_env ps = quiet_env\<lparr>ev_load := (\<lambda>_. (success [], ps))\<rparr>"

lemma durable_port_fields [simp]:
  "en_config (durable_port r) = (en_config (one_port Policy_Apply r))\<lparr>cf_persistence_path := ''state.pf''\<rparr>"
  "en_epoch (durable_port r) = 7" "en_generation (durable_port r) = 0"
  "port_of (durable_port r) = [pr_port r \<mapsto> r]"
  "load_outcome (store_env ps) (durable_port r) = (success [], ps)"
  using one_port_fields(5) [of Policy_Apply r]
  by (simp_all add: durable_port_def port_of_def load_outcome_def store_env_def)

lemma durable_port_ok: "record_core_ok r \<Longrightarrow> pr_parent_device r = ''leaf'' \<Longrightarrow> engine_ok (durable_port r)"
  using one_port_ok [of r Policy_Apply]
  by (simp add: engine_ok_def durable_port_def port_of_def device_known_def)

lemma configured_port_fields [simp]:
  "pr_port configured_port = ''p1''" "pr_parent_device configured_port = ''leaf''"
  by (simp_all add: configured_port_def fresh_port_fields)

lemma success_ok: "outcome_ok (success m)"
  by (simp add: outcome_ok_def)

lemma configured_port_valid: "record_ok configured_port"
  using configured_port_ok sample_texts
  by (simp add: record_core_ok_def record_ok_def configured_port_def fresh_port_def empty_record_def)



lemma saved_runtime_is_recovered:
  assumes "engine_ok e" "\<forall>port r. port_of e port = Some r \<longrightarrow> record_ok r"
    "\<not> gen_exhaustible (en_epoch e)" "\<not> gen_exhaustible (en_generation e)"
    "en_config e' = en_config e" "cf_persistence_path (en_config e) \<noteq> []"
    "load_outcome env e' = (read, gather_state e)" "outcome_ok read"
  shows "oc_code (fst (load env e')) = OC_Ok \<and> engine_ok (snd (load env e')) \<and>
    en_profiles (snd (load env e')) = en_profiles e \<and>
    (\<forall>port. port_of (snd (load env e')) port = map_option recover_record (port_of e port))"
proof -
  let ?ps = "gather_state e"
  have ok: "om_sorted (en_records e)" "well_filed (map_of (en_records e))" "registry_ok (en_profiles e)"
    "length (en_records e) \<le> cf_port_bound (en_config e)" "length (en_publishers e) \<le> max_publishers"
    using assms(1) by (simp_all add: engine_ok_def port_of_def)
  obtain records where records: "restore_records (ps_records ?ps) [] = (None, records)"
    and same: "\<forall>p. map_of records p = map_option recover_record (port_of e p)"
    using restore_saved_records [OF ok(1,2)] assms(2) by (auto simp: gather_state_def port_of_def)
  have refused: "load_refusal e' ?ps = None"
    using ok(4) assms(5) by (simp add: load_refusal_def gather_state_def)
  have profiles: "restore_profiles (ordered_profiles (ps_profiles ?ps)) (registry_clear (en_profiles e')) =
      (None, en_profiles e)"
    using restore_registry [OF ok(3)] by (simp add: gather_state_def)
  have "load env e' = (success ''durable state recovered conservatively'',
      recovered_engine ?ps (en_profiles e) records e')"
    by (rule load_succeeds [OF _ assms(7,8) refused profiles _ records])
      (use assms(3-6) in \<open>simp_all add: gather_state_def\<close>)
  moreover have "engine_ok (recovered_engine ?ps (en_profiles e) records e')"
    using recovered_engine_ok [OF refused _ profiles records] ok(5) by (simp add: gather_state_def)
  ultimately show ?thesis using same by simp
qed

text \<open>
  Property C19. What a runtime saves it can recover. If every record of a runtime that keeps
  the invariant validates, and its epoch and generation are not exhausted, then loading the
  saved state succeeds, in any runtime of the same configuration and whatever that held before:
  every profile generation is back, every port is back as the recovery of what it was, and no
  other port appears.
\<close>

theorem saved_state_is_recovered:
  assumes "engine_ok e" "\<forall>port r. port_of e port = Some r \<longrightarrow> record_ok r"
    "\<not> gen_exhaustible (en_epoch e)" "\<not> gen_exhaustible (en_generation e)"
    "en_config e' = en_config e" "cf_persistence_path (en_config e) \<noteq> []"
    "load_outcome env e' = (read, gather_state e)" "outcome_ok read"
  shows "oc_code (fst (load env e')) = OC_Ok \<and> engine_ok (snd (load env e')) \<and>
    en_profiles (snd (load env e')) = en_profiles e \<and>
    (\<forall>port. port_of (snd (load env e')) port = map_option recover_record (port_of e port))"
  by (rule saved_runtime_is_recovered [OF assms])

theorem saved_state_is_recovered_witness:
  "port_of (snd (load (store_env (gather_state (durable_port configured_port))) (durable_port configured_port))) ''p1'' =
     Some (recover_record configured_port)"
proof -
  let ?e = "durable_port configured_port"
  have all: "\<forall>port r. port_of ?e port = Some r \<longrightarrow> record_ok r"
    by (simp add: configured_port_valid)
  have "engine_ok ?e" by (rule durable_port_ok [OF configured_port_ok]) simp
  from saved_state_is_recovered [OF this all _ _ refl _ durable_port_fields(5) success_ok]
  show ?thesis by (simp add: gen_exhaustible_def)
qed



end
