(* ===== verification/Store.thy ===== *)
theory Store
  imports Container_Size Recovery
begin

text \<open>
  \<open>PersistenceStore\<close> of \<open>src/persistence.cpp\<close>: the durable write through a temporary file that is
  read back and then put in place of the container, and the bounded read. The operating system's
  file operations are parameters; \<open>file_laws\<close> states what the write, read, removal and replacement
  of \<open>src/platform_windows.cpp\<close> promise about the content of files.
\<close>

section \<open>File operations\<close>

text \<open>
  An operation that fails to open its file yields \<open>None\<close>; one that fails later reports it and may have
  changed the file.
\<close>

record 'fs file_ops =
  fo_parts :: "string \<Rightarrow> string list"
  fo_parent_ok :: "string \<Rightarrow> 'fs \<Rightarrow> bool"
  fo_exists :: "string \<Rightarrow> 'fs \<Rightarrow> bool"
  fo_size :: "string \<Rightarrow> 'fs \<Rightarrow> nat option"
  fo_read :: "string \<Rightarrow> 'fs \<Rightarrow> string option option"
  fo_write :: "string \<Rightarrow> string \<Rightarrow> 'fs \<Rightarrow> (bool \<times> 'fs) option"
  fo_remove :: "string \<Rightarrow> 'fs \<Rightarrow> 'fs"
  fo_move :: "string \<Rightarrow> string \<Rightarrow> 'fs \<Rightarrow> bool \<times> 'fs"

definition max_path_length :: nat where "max_path_length = 4096"

definition validate_file_path :: "'fs file_ops \<Rightarrow> string \<Rightarrow> 'fs \<Rightarrow> outcome" where
  "validate_file_path ops path fs =
     (if path = [] then failure OC_MalformedRequest ''the file path is empty''
      else if max_path_length < length path then failure OC_ResourceBoundExceeded ''the file path is too long''
      else if list_ex is_control path
      then failure OC_MalformedRequest ''the file path contains a control character''
      else if ''..'' \<in> set (fo_parts ops path)
      then failure OC_MalformedRequest ''the file path contains a traversal component''
      else if \<not> fo_parent_ok ops path fs
      then failure OC_PersistenceIoFailure ''the parent directory of the path does not exist''
      else success ''path accepted'')"

definition read_file_bounded :: "'fs file_ops \<Rightarrow> string \<Rightarrow> nat \<Rightarrow> 'fs \<Rightarrow> outcome \<times> string" where
  "read_file_bounded ops path max_bytes fs =
     (let check = validate_file_path ops path fs
      in if \<not> outcome_ok check then (check, [])
         else case fo_size ops path fs of
             None \<Rightarrow> (failure OC_PersistenceIoFailure ''the file size could not be read'', [])
           | Some stored \<Rightarrow>
             if max_bytes < stored
             then (failure OC_PersistenceBoundsExceeded ''the file exceeds the configured byte bound'', [])
             else case fo_read ops path fs of
                 None \<Rightarrow> (failure OC_PersistenceIoFailure ''the file could not be opened'', [])
               | Some None \<Rightarrow> (failure OC_PersistenceIoFailure ''the file could not be read'', [])
               | Some (Some bytes) \<Rightarrow> (success ''file read'', bytes))"

definition write_file_flushed :: "'fs file_ops \<Rightarrow> string \<Rightarrow> string \<Rightarrow> 'fs \<Rightarrow> outcome \<times> 'fs" where
  "write_file_flushed ops path bytes fs =
     (let check = validate_file_path ops path fs
      in if \<not> outcome_ok check then (check, fs)
         else case fo_write ops path bytes fs of
             None \<Rightarrow> (failure OC_PersistenceIoFailure ''the file could not be created'', fs)
           | Some (True, fs') \<Rightarrow> (success ''file written and flushed'', fs')
           | Some (False, fs') \<Rightarrow>
               (failure OC_PersistenceIoFailure ''the file could not be written'', fo_remove ops path fs'))"

definition atomic_replace_file :: "'fs file_ops \<Rightarrow> string \<Rightarrow> string \<Rightarrow> 'fs \<Rightarrow> outcome \<times> 'fs" where
  "atomic_replace_file ops origin dest fs =
     (let check = validate_file_path ops origin fs
      in if \<not> outcome_ok check then (check, fs)
         else let check = validate_file_path ops dest fs
           in if \<not> outcome_ok check then (check, fs)
              else case fo_move ops origin dest fs of
                  (True, fs') \<Rightarrow> (success ''container replaced'', fs')
                | (False, fs') \<Rightarrow>
                    (failure OC_PersistenceIoFailure ''the container could not be replaced atomically'', fs'))"

section \<open>The store\<close>

definition temporary_path :: "string \<Rightarrow> string" where
  "temporary_path path = path @ ''.pftmp''"

definition store_save :: "'fs file_ops \<Rightarrow> string \<Rightarrow> persisted_state \<Rightarrow> 'fs \<Rightarrow> outcome \<times> 'fs" where
  "store_save ops path ps fs =
     (let check = validate_file_path ops path fs
      in if \<not> outcome_ok check then (check, fs)
         else let (encoded, bytes) = encode_persisted_state ps
           in if \<not> outcome_ok encoded then (encoded, fs)
              else let temporary = temporary_path path;
                  fs = fo_remove ops temporary fs;
                  (written, fs) = write_file_flushed ops temporary bytes fs
                in if \<not> outcome_ok written then (written, fo_remove ops temporary fs)
                   else let (read, verify) = read_file_bounded ops temporary max_persistence_bytes fs
                     in if \<not> outcome_ok read \<or> verify \<noteq> bytes
                        then (failure OC_PersistenceIoFailure ''the temporary container failed verification'',
                              fo_remove ops temporary fs)
                        else let (replaced, fs) = atomic_replace_file ops temporary path fs
                          in if \<not> outcome_ok replaced then (replaced, fo_remove ops temporary fs)
                             else (success ''durable state written'', fs))"

definition store_load :: "'fs file_ops \<Rightarrow> string \<Rightarrow> 'fs \<Rightarrow> outcome + persisted_state" where
  "store_load ops path fs =
     (let check = validate_file_path ops path fs
      in if \<not> outcome_ok check then Inl check
         else if \<not> fo_exists ops path fs
         then Inl (failure OC_PersistenceIoFailure ''the container does not exist at the configured path'')
         else let (read, bytes) = read_file_bounded ops path max_persistence_bytes fs
           in if \<not> outcome_ok read then Inl read else decode_persisted_state bytes)"

section \<open>Atomic replacement\<close>

text \<open>What the operations promise about the content of files.\<close>

definition file_laws :: "'fs file_ops \<Rightarrow> ('fs \<Rightarrow> string \<Rightarrow> string option) \<Rightarrow> bool" where
  "file_laws ops content \<longleftrightarrow>
     (\<forall>p b fs ok fs'. fo_write ops p b fs = Some (ok, fs') \<longrightarrow> (\<forall>q. q \<noteq> p \<longrightarrow> content fs' q = content fs q)) \<and>
     (\<forall>p fs q. q \<noteq> p \<longrightarrow> content (fo_remove ops p fs) q = content fs q) \<and>
     (\<forall>p fs b. fo_read ops p fs = Some (Some b) \<longrightarrow> content fs p = Some b) \<and>
     (\<forall>s t fs ok fs'. fo_move ops s t fs = (ok, fs') \<longrightarrow>
        (\<forall>q. q \<noteq> s \<and> q \<noteq> t \<longrightarrow> content fs' q = content fs q) \<and>
        content fs' t = (if ok then content fs s else content fs t))"

lemma temporary_path_neq [simp]: "temporary_path path \<noteq> path" "path \<noteq> temporary_path path"
  by (simp_all add: temporary_path_def)

lemma write_elsewhere:
  assumes "file_laws ops content" "write_file_flushed ops p b fs = (oc, fs')" "q \<noteq> p"
  shows "content fs' q = content fs q"
  using assms by (auto simp: write_file_flushed_def file_laws_def Let_def split: if_splits option.splits bool.splits)

lemma read_content:
  assumes "file_laws ops content" "read_file_bounded ops p n fs = (oc, b)" "outcome_ok oc"
  shows "content fs p = Some b"
  using assms
  by (auto simp: read_file_bounded_def file_laws_def outcome_ok_def Let_def split: if_splits option.splits)

lemma replace_content:
  assumes "file_laws ops content" "atomic_replace_file ops s t fs = (oc, fs')"
  shows "content fs' t = (if outcome_ok oc then content fs s else content fs t)"
    "q \<noteq> s \<Longrightarrow> q \<noteq> t \<Longrightarrow> content fs' q = content fs q"
proof -
  obtain ok gs where mv: "fo_move ops s t fs = (ok, gs)" by (cases "fo_move ops s t fs")
  then have "(\<forall>q. q \<noteq> s \<and> q \<noteq> t \<longrightarrow> content gs q = content fs q) \<and>
      content gs t = (if ok then content fs s else content fs t)"
    using assms(1) unfolding file_laws_def by blast
  with assms(2) mv show "content fs' t = (if outcome_ok oc then content fs s else content fs t)"
    "q \<noteq> s \<Longrightarrow> q \<noteq> t \<Longrightarrow> content fs' q = content fs q"
    by (auto simp: atomic_replace_file_def outcome_ok_def Let_def split: if_splits bool.splits)
qed

lemma remove_elsewhere: "file_laws ops content \<Longrightarrow> q \<noteq> p \<Longrightarrow> content (fo_remove ops p fs) q = content fs q"
  by (simp add: file_laws_def)

lemma store_save_content:
  assumes laws: "file_laws ops content" and save: "store_save ops path ps fs = (oc, fs')"
  shows "(if outcome_ok oc
          then \<exists>encoded bytes. encode_persisted_state ps = (encoded, bytes) \<and> outcome_ok encoded \<and>
            content fs' path = Some bytes
          else content fs' path = content fs path) \<and>
    (\<forall>q. q \<noteq> path \<and> q \<noteq> temporary_path path \<longrightarrow> content fs' q = content fs q)"
proof -
  let ?t = "temporary_path path"
  obtain encoded bytes where enc: "encode_persisted_state ps = (encoded, bytes)"
    by (cases "encode_persisted_state ps")
  let ?f1 = "fo_remove ops ?t fs"
  obtain written f2 where w: "write_file_flushed ops ?t bytes ?f1 = (written, f2)"
    by (cases "write_file_flushed ops ?t bytes ?f1")
  obtain read verify where r: "read_file_bounded ops ?t max_persistence_bytes f2 = (read, verify)"
    by (cases "read_file_bounded ops ?t max_persistence_bytes f2")
  obtain replaced f3 where m: "atomic_replace_file ops ?t path f2 = (replaced, f3)"
    by (cases "atomic_replace_file ops ?t path f2")
  have before: "content f2 q = content fs q" if "q \<noteq> ?t" for q
    using write_elsewhere [OF laws w that] remove_elsewhere [OF laws that] by simp
  note facts = save enc w r m before remove_elsewhere [OF laws] replace_content [OF laws m]
  show ?thesis
    using facts read_content [OF laws r]
    by (auto simp: store_save_def Let_def outcome_ok_def split: if_splits)
qed

text \<open>
  Property C25. Saving is atomic. When it reports success the container at the path is exactly the
  encoding of the state; when it reports any failure, at any stage, the container that was there
  is still there; and apart from the temporary file no other file is touched.
\<close>

theorem store_save_is_atomic:
  assumes "file_laws ops content" "store_save ops path ps fs = (oc, fs')"
  shows "(if outcome_ok oc
          then \<exists>encoded bytes. encode_persisted_state ps = (encoded, bytes) \<and> outcome_ok encoded \<and>
            content fs' path = Some bytes
          else content fs' path = content fs path) \<and>
    (\<forall>q. q \<noteq> path \<and> q \<noteq> temporary_path path \<longrightarrow> content fs' q = content fs q)"
  by (rule store_save_content [OF assms])

lemma stored_state_is_loaded:
  assumes "file_laws ops content" "persisted_wf ps" "store_save ops path ps fs = (oc, fs')" "outcome_ok oc"
    "content fs'' path = content fs' path"
    "fo_exists ops path fs''" "outcome_ok (fst (read_file_bounded ops path max_persistence_bytes fs''))"
  shows "store_load ops path fs'' = Inr ps"
proof -
  obtain encoded bytes where enc: "encode_persisted_state ps = (encoded, bytes)" "outcome_ok encoded"
    "content fs' path = Some bytes"
    using store_save_content [OF assms(1,3)] assms(4) by auto
  obtain read b where r: "read_file_bounded ops path max_persistence_bytes fs'' = (read, b)" "outcome_ok read"
    using assms(7) by (cases "read_file_bounded ops path max_persistence_bytes fs''") auto
  have "b = bytes" using read_content [OF assms(1) r] enc(3) assms(5) by simp
  moreover have "outcome_ok (validate_file_path ops path fs'')"
    using r by (auto simp: read_file_bounded_def Let_def split: if_splits)
  ultimately show ?thesis
    using assms(6) r encoded_state_decodes [OF assms(2) enc(1,2)] by (simp add: store_load_def Let_def)
qed

section \<open>Restart\<close>

text \<open>The runtime's persistence through the store, on the files as they are.\<close>

definition empty_state :: persisted_state where
  "empty_state = \<lparr>ps_fabric = [], ps_site = [], ps_epoch = 0, ps_engine_generation = 0, ps_topology = 0,
     ps_records = [], ps_profiles = [], ps_devices = [], ps_publishers = []\<rparr>"

definition stored_env :: "'fs file_ops \<Rightarrow> 'fs \<Rightarrow> environment \<Rightarrow> environment" where
  "stored_env ops fs env = env\<lparr>
     ev_save := (\<lambda>path ps. fst (store_save ops path ps fs)),
     ev_load := (\<lambda>path. case store_load ops path fs of
       Inr ps \<Rightarrow> (success ''state decoded'', ps) | Inl answer \<Rightarrow> (answer, empty_state))\<rparr>"


section \<open>A disk in memory\<close>

type_synonym disk = "string \<Rightarrow> string option"

definition disk_ops :: "disk file_ops" where
  "disk_ops = \<lparr>fo_parts = (\<lambda>p. [p]), fo_parent_ok = (\<lambda>_ _. True), fo_exists = (\<lambda>p d. d p \<noteq> None),
     fo_size = (\<lambda>p d. map_option length (d p)), fo_read = (\<lambda>p d. map_option Some (d p)),
     fo_write = (\<lambda>p b d. Some (True, d(p := Some b))), fo_remove = (\<lambda>p d. d(p := None)),
     fo_move = (\<lambda>s t d. case d s of None \<Rightarrow> (False, d) | Some b \<Rightarrow> (True, d(s := None, t := Some b)))\<rparr>"

lemma disk_laws: "file_laws disk_ops (\<lambda>d. d)"
  by (auto simp: file_laws_def disk_ops_def split: option.splits)

lemma sample_path:
  "outcome_ok (validate_file_path disk_ops ''state.pf'' d)"
  "outcome_ok (validate_file_path disk_ops (temporary_path ''state.pf'') d)"
  by (simp_all add: validate_file_path_def disk_ops_def max_path_length_def is_control_def temporary_path_def outcome_ok_def)

lemma disk_read:
  assumes "d ''state.pf'' = Some bytes" "length bytes \<le> max_persistence_bytes"
  shows "fo_exists disk_ops ''state.pf'' d"
    "outcome_ok (fst (read_file_bounded disk_ops ''state.pf'' max_persistence_bytes d))"
  using assms sample_path(1) [of d] by (simp_all add: read_file_bounded_def disk_ops_def Let_def outcome_ok_def)

lemma disk_save:
  assumes "outcome_ok (fst (encode_persisted_state ps))" "length (snd (encode_persisted_state ps)) \<le> max_persistence_bytes"
  shows "store_save disk_ops ''state.pf'' ps (\<lambda>_. None) =
    (success ''durable state written'',
     (\<lambda>_. None)(temporary_path ''state.pf'' := None, ''state.pf'' := Some (snd (encode_persisted_state ps))))"
proof -
  obtain oc bytes where enc: "encode_persisted_state ps = (oc, bytes)" by (cases "encode_persisted_state ps")
  have read: "read_file_bounded disk_ops (temporary_path ''state.pf'') max_persistence_bytes
      ((\<lambda>_. None)(temporary_path ''state.pf'' := Some bytes)) = (success ''file read'', bytes)"
    using assms(2) enc sample_path(2) by (simp add: read_file_bounded_def disk_ops_def Let_def)
  have "write_file_flushed disk_ops (temporary_path ''state.pf'') bytes (\<lambda>_. None) =
      (success ''file written and flushed'', (\<lambda>_. None)(temporary_path ''state.pf'' := Some bytes))"
    using sample_path(2) by (simp add: write_file_flushed_def disk_ops_def Let_def)
  moreover have "atomic_replace_file disk_ops (temporary_path ''state.pf'') ''state.pf''
      ((\<lambda>_. None)(temporary_path ''state.pf'' := Some bytes)) =
      (success ''container replaced'', (\<lambda>_. None)(temporary_path ''state.pf'' := None, ''state.pf'' := Some bytes))"
    using sample_path by (simp add: atomic_replace_file_def disk_ops_def Let_def)
  moreover have "fo_remove disk_ops (temporary_path ''state.pf'') (\<lambda>_. None) = (\<lambda>_. None)"
    by (simp add: disk_ops_def fun_eq_iff)
  ultimately show ?thesis
    using assms(1) enc sample_path(1) read by (simp add: store_save_def Let_def outcome_ok_def)
qed

abbreviation "sample_runtime \<equiv> durable_port configured_port"

lemma sample_runtime_gathered:
  "gather_state sample_runtime = sample_state\<lparr>ps_fabric := [], ps_site := [], ps_engine_generation := 0, ps_profiles := []\<rparr>"
  by (simp add: gather_state_def durable_port_def one_port_def one_agent_publishers sample_state_def
      one_agent_def engine_create_def register_publisher_def register_fresh_def config_valid_def default_config_def
      id_valid_def gen_valid_def Let_def registry_empty_def registry_list_def max_publishers_def)

lemma sample_runtime_state:
  "persisted_wf (gather_state sample_runtime)" "state_refusal (gather_state sample_runtime) = None"
  "state_labels_fit (gather_state sample_runtime)" "state_size (gather_state sample_runtime) \<le> container_payload_limit"
  using sample_state_wf sample_state_valid sample_state_fits sample_ids
  by (simp_all add: sample_runtime_gathered persisted_wf_def state_refusal_None state_labels_fit_def
      state_size_def container_payload_limit_def sample_state_def)

lemma sample_runtime_saved:
  "outcome_ok (fst (encode_persisted_state (gather_state sample_runtime)))"
  "length (snd (encode_persisted_state (gather_state sample_runtime))) \<le> max_persistence_bytes"
proof -
  obtain bytes where "encode_persisted_state (gather_state sample_runtime) = (success ''state encoded'', bytes)"
    "length bytes \<le> container_header_size + state_size (gather_state sample_runtime)"
    using encode_fits [OF conjunct1 [OF persisted_wf_parts] conjunct2 [OF persisted_wf_parts]
      sample_runtime_state(2-4)] sample_runtime_state(1) by blast
  then show "outcome_ok (fst (encode_persisted_state (gather_state sample_runtime)))"
    "length (snd (encode_persisted_state (gather_state sample_runtime))) \<le> max_persistence_bytes"
    using sample_runtime_state(4)
    by (simp_all add: outcome_ok_def container_header_size_def max_persistence_bytes_def container_payload_limit_def)
qed

theorem store_save_is_atomic_witness:
  "\<exists>encoded bytes. encode_persisted_state (gather_state sample_runtime) = (encoded, bytes) \<and> outcome_ok encoded \<and>
     snd (store_save disk_ops ''state.pf'' (gather_state sample_runtime) (\<lambda>_. None)) ''state.pf'' = Some bytes"
  using store_save_is_atomic [OF disk_laws disk_save [OF sample_runtime_saved]]
  by (simp add: disk_save [OF sample_runtime_saved] outcome_ok_def)


end
