(* ===== verification/Server.thy ===== *)
theory Server
  imports Service Net "HOL-Library.Multiset"
begin

text \<open>
  The control server of \<open>src/server.cpp\<close>: its accept thread, the registry of its sessions, starting,
  stopping and joining, with the waiting calls of \<open>src/net.cpp\<close> it is built on. What one session says
  to its peer is the subject of \<open>Service\<close>; here a session is the way its thread goes through its
  bookkeeping. Threads take turns: every lock region and every atomic operation is one step.
\<close>

section \<open>Waiting for a connection\<close>

text \<open>What the calls of the operating system answer while \<open>net_accept\<close> runs once.\<close>

datatype wake = Wake_Accept | Wake_Stop | Wake_Failed

record accept_calls =
  ac_create :: bool
  ac_arm :: bool
  ac_wait :: wake
  ac_inspect :: "bool option"
  ac_accept :: "nat option"
  ac_unblock :: bool
  ac_error :: nat

record arrival =
  av_socket :: "nat option"
  av_stopped :: bool
  av_error :: string

definition net_error_text :: "string \<Rightarrow> nat \<Rightarrow> string" where
  "net_error_text prefix code = prefix @ '' (winsock error '' @ decimal code @ '')''"

definition no_arrival :: "string \<Rightarrow> arrival" where
  "no_arrival error = \<lparr>av_socket = None, av_stopped = False, av_error = error\<rparr>"

definition net_accept :: "accept_calls \<Rightarrow> arrival" where
  "net_accept a =
     (let failed = (\<lambda>prefix. no_arrival (net_error_text prefix (ac_error a)))
      in if \<not> ac_create a then failed ''the accept event could not be created''
         else if \<not> ac_arm a then failed ''the listening socket could not be armed for accept''
         else case ac_wait a of
           Wake_Failed \<Rightarrow> failed ''waiting for an inbound connection failed''
         | Wake_Stop \<Rightarrow> (no_arrival [])\<lparr>av_stopped := True\<rparr>
         | Wake_Accept \<Rightarrow>
           (case ac_inspect a of
              None \<Rightarrow> failed ''the accept event could not be inspected''
            | Some False \<Rightarrow> no_arrival ''the accept event did not report an inbound connection''
            | Some True \<Rightarrow>
              (case ac_accept a of
                 None \<Rightarrow> failed ''an inbound connection could not be accepted''
               | Some socket \<Rightarrow>
                   if ac_unblock a then (no_arrival [])\<lparr>av_socket := Some socket\<rparr>
                   else failed ''a session socket could not be set to blocking mode'')))"

section \<open>Waiting for data\<close>

text \<open>
  One turn of the polling loop sees whether the stop event is set, what \<open>select\<close> returned and the
  error code after it. The answers of all turns are a list; \<open>None\<close> is a loop that is still polling.
\<close>

record poll =
  po_stop :: bool
  po_ready :: int
  po_error :: nat

datatype readiness = Readable | Stopped | Wait_Failed string

definition interrupted :: nat where "interrupted = 10004"

fun net_wait_readable :: "poll list \<Rightarrow> readiness option" where
  "net_wait_readable [] = None"
| "net_wait_readable (p # ps) =
     (if po_stop p then Some Stopped
      else if 0 < po_ready p then Some Readable
      else if po_ready p = 0 \<or> po_error p = interrupted then net_wait_readable ps
      else Some (Wait_Failed (net_error_text ''waiting for readable data failed'' (po_error p))))"

text \<open>
  \<open>read_exact\<close>: wait, receive, until everything is there. \<open>wait\<close> is the answer of the polling loop in a
  state of the operating system.
\<close>

datatype reading = Read_All string | Read_Stopped | Read_Failed string

primrec read_on :: "string \<Rightarrow> reading \<Rightarrow> reading" where
  "read_on bytes (Read_All others) = Read_All (bytes @ others)"
| "read_on bytes Read_Stopped = Read_Stopped"
| "read_on bytes (Read_Failed error) = Read_Failed error"

function read_exact :: "'s socket_ops \<Rightarrow> ('s \<Rightarrow> (readiness \<times> 's) option) \<Rightarrow> nat \<Rightarrow> 's \<Rightarrow>
    (reading \<times> 's) option" where
  "read_exact ops wait n s =
     (if n = 0 then Some (Read_All [], s)
      else case wait s of
        None \<Rightarrow> None
      | Some (Stopped, s) \<Rightarrow> Some (Read_Stopped, s)
      | Some (Wait_Failed error, s) \<Rightarrow> Some (Read_Failed error, s)
      | Some (Readable, s) \<Rightarrow>
        (case net_receive ops n s of
           None \<Rightarrow> None
         | Some (Inl error, s) \<Rightarrow> Some (Read_Failed error, s)
         | Some (Inr bytes, s) \<Rightarrow>
             if bytes = [] then Some (Read_Failed closed_by_peer, s)
             else map_option (\<lambda>(r, s). (read_on bytes r, s)) (read_exact ops wait (n - length bytes) s)))"
  by pat_completeness auto
termination
  by (relation "measure (\<lambda>(ops, wait, n, s). n)") auto

declare read_exact.simps [simp del]

lemma read_exact_zero [simp]: "read_exact ops wait 0 s = Some (Read_All [], s)"
  by (subst read_exact.simps) simp

text \<open>
  As long as data is reported and the stop event is not set, the loop of the server reads what the
  loop of the client reads.
\<close>

lemma read_exact_receives:
  "read_exact ops (\<lambda>s. Some (Readable, s)) n s =
     map_option (\<lambda>(r, s). (case r of Inl error \<Rightarrow> Read_Failed error | Inr bytes \<Rightarrow> Read_All bytes, s))
       (receive_exact ops closed_by_peer n s)"
proof (induction n arbitrary: s rule: less_induct)
  case (less n)
  show ?case
  proof (cases "n = 0")
    case True
    then show ?thesis by (simp add: receive_exact.simps)
  next
    case False
    with less.IH show ?thesis
      by (subst read_exact.simps, subst receive_exact.simps)
        (auto split: option.splits sum.splits)
  qed
qed

text \<open>A stop that is signalled while a session waits ends the wait with the next turn.\<close>

lemma wait_sees_stop: "po_stop p \<Longrightarrow> \<forall>q\<in>set ps. po_ready q = 0 \<Longrightarrow> net_wait_readable (ps @ p # qs) = Some Stopped"
  by (induction ps) auto

section \<open>The server\<close>

text \<open>The points at which the thread of a session can stand, in the order it passes them.\<close>

datatype session_phase = SP_Started | SP_Active | SP_Counted | SP_Registered | SP_Unregistered
  | SP_Closed | SP_Returned | SP_Done

record session =
  ss_socket :: nat
  ss_phase :: session_phase

datatype accept_phase = AP_None | AP_Test | AP_Prune | AP_Wait | AP_Leave | AP_Ended

text \<open>The control thread: free, or at a point of \<open>join\<close>.\<close>

datatype join_phase = JP_Free | JP_Shut | JP_Accept | JP_Sessions | JP_Close

record server_config =
  vc_address :: string
  vc_port :: u16
  vc_max_sessions :: nat

text \<open>
  \<open>vr_leaving\<close> are the sessions that \<open>join\<close> has taken out of the registry; \<open>vr_open\<close> are the connections
  that are open in the operating system, \<open>vr_shut\<close> those that were shut down. A stop event that exists
  is \<open>Some\<close> of whether it is signalled.
\<close>

record server =
  vr_config :: server_config
  vr_listening :: bool
  vr_stop :: "bool option"
  vr_bound_port :: u16
  vr_running :: bool
  vr_stop_requested :: bool
  vr_active :: nat
  vr_total :: nat
  vr_registered :: "nat list"
  vr_sessions :: "session list"
  vr_leaving :: "session list"
  vr_acceptor :: accept_phase
  vr_control :: join_phase
  vr_open :: "nat list"
  vr_shut :: "nat list"
  vr_last_error :: string

definition server_create :: "server_config \<Rightarrow> server" where
  "server_create config =
     \<lparr>vr_config = config, vr_listening = False, vr_stop = None, vr_bound_port = 0, vr_running = False,
      vr_stop_requested = False, vr_active = 0, vr_total = 0, vr_registered = [], vr_sessions = [],
      vr_leaving = [], vr_acceptor = AP_None, vr_control = JP_Free, vr_open = [], vr_shut = [],
      vr_last_error = []\<rparr>"

text \<open>
  Starting; \<open>event\<close> tells whether the stop event could be created. Assigning a thread to the handle of one
  that was never joined ends the process: \<open>None\<close>. The handle is joinable from the start of the accept
  thread until it has been joined.
\<close>

definition start_listening :: "string + u16 \<Rightarrow> bool \<Rightarrow> server \<Rightarrow> (outcome \<times> server) option" where
  "start_listening listened event v =
     (case listened of
        Inl error \<Rightarrow>
          Some (transport error, v\<lparr>vr_stop := None, vr_listening := False, vr_bound_port := 0\<rparr>)
      | Inr bound \<Rightarrow>
          if vr_acceptor v \<noteq> AP_None then None
          else Some (success ''the coordinator is listening'',
            v\<lparr>vr_stop := if event then Some False else None, vr_listening := True, vr_bound_port := bound,
              vr_stop_requested := False, vr_running := True, vr_acceptor := AP_Test\<rparr>))"

definition server_start :: "'s socket_ops \<Rightarrow> bool \<Rightarrow> 's \<Rightarrow> server \<Rightarrow> (outcome \<times> server \<times> 's) option" where
  "server_start ops event s v =
     (if vr_running v then Some (current ''the server is already running'', v, s)
      else if \<not> net_available ops s then Some (transport unavailable, v, s)
      else let (listened, s) = net_listen ops (vc_address (vr_config v)) (vc_port (vr_config v)) s
        in map_option (\<lambda>(oc, v). (oc, v, s)) (start_listening listened event v))"

text \<open>The three effects of \<open>stop\<close>.\<close>

definition request_stop :: "server \<Rightarrow> server" where
  "request_stop v = v\<lparr>vr_stop_requested := True, vr_stop := map_option (\<lambda>_. True) (vr_stop v)\<rparr>"

definition shutdown_sessions :: "server \<Rightarrow> server" where
  "shutdown_sessions v = v\<lparr>vr_shut := vr_registered v @ vr_shut v\<rparr>"

definition server_stop :: "server \<Rightarrow> server" where
  "server_stop v = shutdown_sessions (request_stop v)"

text \<open>The accept thread.\<close>

definition prune_sessions :: "server \<Rightarrow> server" where
  "prune_sessions v = v\<lparr>vr_sessions := filter (\<lambda>x. ss_phase x \<noteq> SP_Done) (vr_sessions v)\<rparr>"

definition session_bound_reached :: string where
  "session_bound_reached = ''the session bound was reached and an inbound connection was refused''"

definition take_connection :: "nat \<Rightarrow> server \<Rightarrow> server" where
  "take_connection socket v =
     (if vc_max_sessions (vr_config v) \<le> length (vr_sessions v)
      then v\<lparr>vr_last_error := session_bound_reached\<rparr>
      else v\<lparr>vr_sessions := vr_sessions v @ [\<lparr>ss_socket = socket, ss_phase = SP_Started\<rparr>],
             vr_open := socket # vr_open v\<rparr>)"

definition accept_turn :: "accept_calls \<Rightarrow> server \<Rightarrow> server" where
  "accept_turn a v =
     (case vr_acceptor v of
        AP_Test \<Rightarrow> v\<lparr>vr_acceptor := if vr_stop_requested v then AP_Leave else AP_Prune\<rparr>
      | AP_Prune \<Rightarrow> (prune_sessions v)\<lparr>vr_acceptor := AP_Wait\<rparr>
      | AP_Wait \<Rightarrow>
          (let arrived = net_accept a
           in if av_stopped arrived then v\<lparr>vr_acceptor := AP_Leave\<rparr>
              else case av_socket arrived of
                None \<Rightarrow> v\<lparr>vr_acceptor := AP_Test,
                  vr_last_error := if av_error arrived = [] then vr_last_error v else av_error arrived\<rparr>
              | Some socket \<Rightarrow> (take_connection socket v)\<lparr>vr_acceptor := AP_Test\<rparr>)
      | AP_Leave \<Rightarrow> v\<lparr>vr_running := False, vr_acceptor := AP_Ended\<rparr>
      | _ \<Rightarrow> v)"

text \<open>
  The thread of a session: what it does at each point, and where it stands after it. It stays in its
  loop while it is registered; the error that ended the loop, if any, is \<open>report\<close>.
\<close>

primrec next_phase :: "session_phase \<Rightarrow> session_phase" where
  "next_phase SP_Started = SP_Active"
| "next_phase SP_Active = SP_Counted"
| "next_phase SP_Counted = SP_Registered"
| "next_phase SP_Registered = SP_Unregistered"
| "next_phase SP_Unregistered = SP_Closed"
| "next_phase SP_Closed = SP_Returned"
| "next_phase SP_Returned = SP_Done"
| "next_phase SP_Done = SP_Done"

primrec session_effect :: "session_phase \<Rightarrow> nat \<Rightarrow> string option \<Rightarrow> server \<Rightarrow> server" where
  "session_effect SP_Started socket report v = v\<lparr>vr_active := vr_active v + 1\<rparr>"
| "session_effect SP_Active socket report v = v\<lparr>vr_total := vr_total v + 1\<rparr>"
| "session_effect SP_Counted socket report v = v\<lparr>vr_registered := vr_registered v @ [socket]\<rparr>"
| "session_effect SP_Registered socket report v =
     v\<lparr>vr_registered := remove1 socket (vr_registered v), vr_last_error := case_option (vr_last_error v) id report\<rparr>"
| "session_effect SP_Unregistered socket report v =
     v\<lparr>vr_open := remove1 socket (vr_open v), vr_shut := removeAll socket (vr_shut v)\<rparr>"
| "session_effect SP_Closed socket report v = v\<lparr>vr_active := vr_active v - 1\<rparr>"
| "session_effect SP_Returned socket report v = v"
| "session_effect SP_Done socket report v = v"

definition onward :: "session \<Rightarrow> session" where
  "onward x = x\<lparr>ss_phase := next_phase (ss_phase x)\<rparr>"

definition session_turn :: "nat \<Rightarrow> string option \<Rightarrow> server \<Rightarrow> server" where
  "session_turn i report v =
     (let x = vr_sessions v ! i
      in (session_effect (ss_phase x) (ss_socket x) report v)\<lparr>vr_sessions := (vr_sessions v)[i := onward x]\<rparr>)"

definition leaving_turn :: "nat \<Rightarrow> string option \<Rightarrow> server \<Rightarrow> server" where
  "leaving_turn i report v =
     (let x = vr_leaving v ! i
      in (session_effect (ss_phase x) (ss_socket x) report v)\<lparr>vr_leaving := (vr_leaving v)[i := onward x]\<rparr>)"

text \<open>
  \<open>join\<close>: stop, wait for the accept thread, take the sessions out of the registry, wait for them, close
  the listener and the event. The outcome is given when the call returns.
\<close>

definition join_turn :: "server \<Rightarrow> server" where
  "join_turn v =
     (case vr_control v of
        JP_Free \<Rightarrow>
          if \<not> vr_listening v \<and> vr_stop v = None then v
          else (request_stop v)\<lparr>vr_control := JP_Shut\<rparr>
      | JP_Shut \<Rightarrow> (shutdown_sessions v)\<lparr>vr_control := JP_Accept\<rparr>
      | JP_Accept \<Rightarrow>
          v\<lparr>vr_acceptor := AP_None, vr_leaving := vr_sessions v, vr_sessions := [], vr_control := JP_Sessions\<rparr>
      | JP_Sessions \<Rightarrow> v\<lparr>vr_leaving := [], vr_control := JP_Close\<rparr>
      | JP_Close \<Rightarrow> v\<lparr>vr_listening := False, vr_stop := None, vr_running := False, vr_control := JP_Free\<rparr>)"

definition join_ready :: "server \<Rightarrow> bool" where
  "join_ready v =
     (case vr_control v of
        JP_Accept \<Rightarrow> vr_acceptor v \<in> {AP_None, AP_Ended}
      | JP_Sessions \<Rightarrow> list_all (\<lambda>x. ss_phase x = SP_Done) (vr_leaving v)
      | _ \<Rightarrow> True)"

definition join_answer :: "server \<Rightarrow> outcome" where
  "join_answer v =
     (if vr_control v = JP_Free then success ''the server is not running''
      else success ''the coordinator stopped'')"

section \<open>Turns\<close>

text \<open>
  What the operating system may answer the accept thread: it wakes it for the stop event only when that
  is signalled, and hands out no connection under the number of an open one.
\<close>

definition possible_calls :: "accept_calls \<Rightarrow> server \<Rightarrow> bool" where
  "possible_calls a v \<longleftrightarrow>
     (ac_wait a = Wake_Stop \<longrightarrow> vr_stop v = Some True) \<and>
     (\<forall>socket. ac_accept a = Some socket \<longrightarrow> socket \<notin> set (vr_open v))"

text \<open>One turn of one of the threads of the server; \<open>join\<close> is a thread once it has been called.\<close>

inductive turn :: "server \<Rightarrow> server \<Rightarrow> bool" where
  accepting: "vr_acceptor v \<notin> {AP_None, AP_Ended} \<Longrightarrow> possible_calls a v \<Longrightarrow> turn v (accept_turn a v)"
| serving: "i < length (vr_sessions v) \<Longrightarrow> ss_phase (vr_sessions v ! i) \<noteq> SP_Done \<Longrightarrow>
    turn v (session_turn i report v)"
| leaving: "i < length (vr_leaving v) \<Longrightarrow> ss_phase (vr_leaving v ! i) \<noteq> SP_Done \<Longrightarrow>
    turn v (leaving_turn i report v)"
| joining: "vr_control v \<noteq> JP_Free \<Longrightarrow> join_ready v \<Longrightarrow> turn v (join_turn v)"

text \<open>The servers a process can arrive at: it starts, stops and joins one it has created.\<close>

inductive server_reachable :: "server_config \<Rightarrow> server \<Rightarrow> bool" for config where
  created: "server_reachable config (server_create config)"
| started: "server_reachable config v \<Longrightarrow> vr_control v = JP_Free \<Longrightarrow> \<not> vr_running v \<Longrightarrow>
    start_listening listened event v = Some (oc, v') \<Longrightarrow> server_reachable config v'"
| requested: "server_reachable config v \<Longrightarrow> server_reachable config (request_stop v)"
| shut: "server_reachable config v \<Longrightarrow> server_reachable config (shutdown_sessions v)"
| joined: "server_reachable config v \<Longrightarrow> vr_control v = JP_Free \<Longrightarrow> server_reachable config (join_turn v)"
| turned: "server_reachable config v \<Longrightarrow> turn v v' \<Longrightarrow> server_reachable config v'"

text \<open>The points at which a session holds its connection, is in the list of sockets, and is counted.\<close>

definition holding :: "session_phase set" where
  "holding = {SP_Started, SP_Active, SP_Counted, SP_Registered, SP_Unregistered}"

definition counted :: "session_phase set" where
  "counted = {SP_Active, SP_Counted, SP_Registered, SP_Unregistered, SP_Closed}"

definition sockets_in :: "session_phase set \<Rightarrow> session list \<Rightarrow> nat multiset" where
  "sockets_in ps xs = mset (map ss_socket (filter (\<lambda>x. ss_phase x \<in> ps) xs))"

definition all_sessions :: "server \<Rightarrow> session list" where
  "all_sessions v = vr_sessions v @ vr_leaving v"

definition server_ok :: "server_config \<Rightarrow> server \<Rightarrow> bool" where
  "server_ok config v \<longleftrightarrow>
     vr_config v = config \<and> length (all_sessions v) \<le> vc_max_sessions config \<and>
     mset (vr_open v) = sockets_in holding (all_sessions v) \<and>
     mset (vr_registered v) = sockets_in {SP_Registered} (all_sessions v) \<and>
     vr_active v = size (sockets_in counted (all_sessions v)) \<and>
     (vr_acceptor v = AP_None \<longrightarrow> vr_sessions v = []) \<and>
     (vr_control v \<noteq> JP_Sessions \<longrightarrow> vr_leaving v = []) \<and>
     (vr_control v \<in> {JP_Sessions, JP_Close} \<longrightarrow> vr_acceptor v = AP_None) \<and>
     (vr_control v \<noteq> JP_Free \<longrightarrow> vr_stop_requested v \<and> vr_stop v \<noteq> Some False)"

lemma sockets_in_simps [simp]:
  "sockets_in ps [] = {#}" "sockets_in ps (xs @ ys) = sockets_in ps xs + sockets_in ps ys"
  "sockets_in ps (x # xs) = (if ss_phase x \<in> ps then {#ss_socket x#} else {#}) + sockets_in ps xs"
  by (simp_all add: sockets_in_def)

text \<open>The turn of one session, in the list it stands in.\<close>

lemma sockets_in_update:
  assumes "i < length xs"
  shows "sockets_in ps (xs[i := y]) + (if ss_phase (xs ! i) \<in> ps then {#ss_socket (xs ! i)#} else {#}) =
    sockets_in ps xs + (if ss_phase y \<in> ps then {#ss_socket y#} else {#})"
proof -
  obtain as x bs where "xs = as @ x # bs" "length as = i"
    using assms by (metis id_take_nth_drop length_take min.absorb2 nat_less_le)
  then show ?thesis by (auto simp: list_update_append nth_append ac_simps)
qed

lemma sockets_in_prune: "SP_Done \<notin> ps \<Longrightarrow> sockets_in ps (filter (\<lambda>x. ss_phase x \<noteq> SP_Done) xs) = sockets_in ps xs"
  by (induction xs) auto

section \<open>The invariant\<close>

lemmas phase_sets = holding_def counted_def

text \<open>
  What the turn of a session does to the shared state, whichever list the session stands in: \<open>a\<close> and
  \<open>b\<close> are the sessions before and after it.
\<close>

lemma session_effect_ok:
  assumes "mset (vr_open v) = sockets_in holding (a @ x # b)"
    "mset (vr_registered v) = sockets_in {SP_Registered} (a @ x # b)"
    "vr_active v = size (sockets_in counted (a @ x # b))"
    "v' = session_effect (ss_phase x) (ss_socket x) report v"
  shows "mset (vr_open v') = sockets_in holding (a @ onward x # b)"
    "mset (vr_registered v') = sockets_in {SP_Registered} (a @ onward x # b)"
    "vr_active v' = size (sockets_in counted (a @ onward x # b))"
  using assms by (cases "ss_phase x"; simp add: onward_def phase_sets; fail)+

lemma session_effect_frame [simp]:
  "vr_config (session_effect p k report v) = vr_config v"
  "vr_sessions (session_effect p k report v) = vr_sessions v"
  "vr_leaving (session_effect p k report v) = vr_leaving v"
  "vr_acceptor (session_effect p k report v) = vr_acceptor v"
  "vr_control (session_effect p k report v) = vr_control v"
  "vr_stop (session_effect p k report v) = vr_stop v"
  "vr_stop_requested (session_effect p k report v) = vr_stop_requested v"
  "vr_running (session_effect p k report v) = vr_running v"
  "vr_listening (session_effect p k report v) = vr_listening v"
  by (cases p; simp; fail)+

lemma split_at: "i < length xs \<Longrightarrow> \<exists>a x b. xs = a @ x # b \<and> i = length a"
  by (metis id_take_nth_drop length_take min.absorb4)

lemma session_turn_ok:
  assumes "server_ok config v" "i < length (vr_sessions v)"
  shows "server_ok config (session_turn i report v)"
proof -
  obtain a x b where s: "vr_sessions v = a @ x # b" "i = length a" using split_at [OF assms(2)] by blast
  have ok: "mset (vr_open v) = sockets_in holding (a @ x # b @ vr_leaving v)"
    "mset (vr_registered v) = sockets_in {SP_Registered} (a @ x # b @ vr_leaving v)"
    "vr_active v = size (sockets_in counted (a @ x # b @ vr_leaving v))"
    using assms(1) s(1) by (simp_all add: server_ok_def all_sessions_def ac_simps)
  show ?thesis
    using assms session_effect_ok [OF ok refl, of report] s
    by (auto simp: server_ok_def all_sessions_def session_turn_def Let_def ac_simps)
qed

lemma leaving_turn_ok:
  assumes "server_ok config v" "i < length (vr_leaving v)"
  shows "server_ok config (leaving_turn i report v)"
proof -
  obtain a x b where s: "vr_leaving v = a @ x # b" "i = length a" using split_at [OF assms(2)] by blast
  have ok: "mset (vr_open v) = sockets_in holding ((vr_sessions v @ a) @ x # b)"
    "mset (vr_registered v) = sockets_in {SP_Registered} ((vr_sessions v @ a) @ x # b)"
    "vr_active v = size (sockets_in counted ((vr_sessions v @ a) @ x # b))"
    using assms(1) s(1) by (simp_all add: server_ok_def all_sessions_def ac_simps)
  show ?thesis
    using assms session_effect_ok [OF ok refl, of report] s
    by (auto simp: server_ok_def all_sessions_def leaving_turn_def Let_def ac_simps)
qed

lemma prune_ok: "server_ok config v \<Longrightarrow> server_ok config (prune_sessions v)"
  by (auto simp: server_ok_def all_sessions_def prune_sessions_def sockets_in_prune phase_sets
      intro: le_trans [OF length_filter_le])

lemma accept_turn_ok:
  assumes "server_ok config v" "vr_acceptor v \<notin> {AP_None, AP_Ended}"
  shows "server_ok config (accept_turn a v)"
proof -
  have "vr_control v \<noteq> JP_Sessions" "vr_control v \<noteq> JP_Close" using assms by (auto simp: server_ok_def)
  then have "vr_leaving v = []" using assms(1) by (auto simp: server_ok_def)
  with assms prune_ok [OF assms(1)] show ?thesis
    by (auto simp: server_ok_def all_sessions_def accept_turn_def take_connection_def prune_sessions_def
        phase_sets Let_def split: accept_phase.split option.split)
qed

lemma join_turn_ok:
  assumes "server_ok config v" "join_ready v"
  shows "server_ok config (join_turn v)"
proof -
  have "sockets_in ps (vr_leaving v) = {#}" if "vr_control v = JP_Sessions" "SP_Done \<notin> ps" for ps
    using assms(2) that by (auto simp: join_ready_def sockets_in_def list_all_iff)
  with assms show ?thesis
    by (cases "vr_control v")
      (auto simp: server_ok_def all_sessions_def join_turn_def request_stop_def shutdown_sessions_def phase_sets)
qed

lemma start_listening_ok:
  assumes "server_ok config v" "vr_control v = JP_Free" "start_listening listened event v = Some (oc, v')"
  shows "server_ok config v'"
  using assms by (auto simp: server_ok_def all_sessions_def start_listening_def split: if_splits sum.splits)

lemma turn_ok: "turn v v' \<Longrightarrow> server_ok config v \<Longrightarrow> server_ok config v'"
  by (induction rule: turn.induct) (simp_all add: accept_turn_ok session_turn_ok leaving_turn_ok join_turn_ok)

lemma server_reachable_ok: "server_reachable config v \<Longrightarrow> server_ok config v"
proof (induction rule: server_reachable.induct)
  case created
  show ?case by (simp add: server_ok_def server_create_def all_sessions_def)
next
  case (started v listened event oc v')
  then show ?case by (metis start_listening_ok)
next
  case (requested v)
  then show ?case by (auto simp: server_ok_def all_sessions_def request_stop_def)
next
  case (shut v)
  then show ?case by (simp add: server_ok_def all_sessions_def shutdown_sessions_def)
next
  case (joined v)
  then show ?case by (simp add: join_turn_ok join_ready_def)
next
  case (turned v v')
  then show ?case by (simp add: turn_ok)
qed

section \<open>The guarantees\<close>

text \<open>
  Property C33. However its threads take turns, and however often it is started, stopped and joined, a
  server never has more sessions than its bound, never counts more active ones, and a connection is
  open exactly as long as a session holds it: the sockets it will shut down are those of the sessions
  that are in their loop, each once.
\<close>

theorem sessions_stay_within_bound:
  assumes "server_reachable config v"
  shows "length (vr_sessions v) \<le> vc_max_sessions config \<and> vr_active v \<le> vc_max_sessions config \<and>
    mset (vr_open v) = sockets_in holding (all_sessions v) \<and>
    mset (vr_registered v) = sockets_in {SP_Registered} (all_sessions v)"
proof -
  have "size (sockets_in counted xs) \<le> length xs" for xs by (induction xs) auto
  from this [of "all_sessions v"] server_reachable_ok [OF assms] show ?thesis
    unfolding server_ok_def all_sessions_def by (auto simp del: sockets_in_simps)
qed

text \<open>How many turns are left once a stop was requested.\<close>

primrec session_pending :: "session_phase \<Rightarrow> nat" where
  "session_pending SP_Started = 7"
| "session_pending SP_Active = 6"
| "session_pending SP_Counted = 5"
| "session_pending SP_Registered = 4"
| "session_pending SP_Unregistered = 3"
| "session_pending SP_Closed = 2"
| "session_pending SP_Returned = 1"
| "session_pending SP_Done = 0"

primrec accept_pending :: "accept_phase \<Rightarrow> nat" where
  "accept_pending AP_None = 0"
| "accept_pending AP_Ended = 0"
| "accept_pending AP_Leave = 1"
| "accept_pending AP_Test = 2"
| "accept_pending AP_Wait = 10"
| "accept_pending AP_Prune = 11"

primrec join_pending :: "join_phase \<Rightarrow> nat" where
  "join_pending JP_Shut = 4"
| "join_pending JP_Accept = 3"
| "join_pending JP_Sessions = 2"
| "join_pending JP_Close = 1"
| "join_pending JP_Free = 0"

definition sessions_pending :: "session list \<Rightarrow> nat" where
  "sessions_pending xs = sum_list (map (\<lambda>x. session_pending (ss_phase x)) xs)"

definition turns_left :: "server \<Rightarrow> nat" where
  "turns_left v = sessions_pending (all_sessions v) + accept_pending (vr_acceptor v) + join_pending (vr_control v)"

lemma sessions_pending_simps [simp]:
  "sessions_pending [] = 0" "sessions_pending (xs @ ys) = sessions_pending xs + sessions_pending ys"
  "sessions_pending (x # xs) = session_pending (ss_phase x) + sessions_pending xs"
  by (simp_all add: sessions_pending_def)

lemma sessions_pending_filter: "sessions_pending (filter P xs) \<le> sessions_pending xs"
  by (induction xs) auto

lemma onward_pending: "ss_phase x \<noteq> SP_Done \<Longrightarrow> session_pending (ss_phase (onward x)) < session_pending (ss_phase x)"
  by (cases "ss_phase x") (simp_all add: onward_def)

lemma turn_pending:
  assumes "turn v v'" "server_ok config v" "vr_control v \<noteq> JP_Free"
  shows "turns_left v' < turns_left v"
  using assms
proof (induction rule: turn.induct)
  case (accepting v a)
  then have "vr_stop_requested v" by (simp add: server_ok_def)
  with accepting.hyps show ?case
    using sessions_pending_filter [of "\<lambda>x. ss_phase x \<noteq> SP_Done" "vr_sessions v"]
    by (cases "vr_acceptor v")
      (auto simp: turns_left_def all_sessions_def accept_turn_def take_connection_def prune_sessions_def Let_def
        split: option.split)
next
  case (serving i v report)
  obtain a x b where s: "vr_sessions v = a @ x # b" "i = length a" using split_at [OF serving.hyps(1)] by blast
  with serving.hyps onward_pending [of x] show ?case
    by (simp add: turns_left_def all_sessions_def session_turn_def Let_def)
next
  case (leaving i v report)
  obtain a x b where s: "vr_leaving v = a @ x # b" "i = length a" using split_at [OF leaving.hyps(1)] by blast
  with leaving.hyps onward_pending [of x] show ?case
    by (simp add: turns_left_def all_sessions_def leaving_turn_def Let_def)
next
  case (joining v)
  then show ?case
    by (cases "vr_control v")
      (auto simp: turns_left_def all_sessions_def join_turn_def shutdown_sessions_def server_ok_def)
qed

lemma session_moves: "x \<in> set xs \<Longrightarrow> \<exists>i. i < length xs \<and> xs ! i = x"
  by (simp add: in_set_conv_nth)

lemma join_proceeds:
  assumes "server_ok config v" "vr_control v \<noteq> JP_Free"
  shows "\<exists>v'. turn v v'"
proof (cases "join_ready v")
  case True
  with assms show ?thesis by (blast intro: turn.joining)
next
  case False
  then consider "vr_acceptor v \<notin> {AP_None, AP_Ended}"
    | x where "x \<in> set (vr_leaving v)" "ss_phase x \<noteq> SP_Done"
    by (auto simp: join_ready_def list_all_iff split: join_phase.splits)
  then show ?thesis
  proof cases
    case 1
    let ?a = "\<lparr>ac_create = True, ac_arm = True, ac_wait = if vr_stop v = Some True then Wake_Stop else Wake_Failed,
      ac_inspect = None, ac_accept = None, ac_unblock = True, ac_error = 0\<rparr>"
    have "possible_calls ?a v" by (simp add: possible_calls_def)
    with 1 show ?thesis by (blast intro: turn.accepting)
  next
    case 2
    then show ?thesis by (metis session_moves turn.leaving)
  qed
qed

text \<open>Joining comes to its end whichever thread is chosen at every turn.\<close>

inductive surely_joined :: "server \<Rightarrow> bool" where
  returned: "vr_control v = JP_Free \<Longrightarrow> surely_joined v"
| onward: "\<exists>v'. turn v v' \<Longrightarrow> (\<And>v'. turn v v' \<Longrightarrow> surely_joined v') \<Longrightarrow> surely_joined v"

lemma joins: "server_ok config v \<Longrightarrow> surely_joined v"
proof (induction "turns_left v" arbitrary: v rule: less_induct)
  case less
  show ?case
  proof (cases "vr_control v = JP_Free")
    case False
    show ?thesis
    proof (rule surely_joined.onward)
      show "\<exists>v'. turn v v'" by (rule join_proceeds [OF less.prems False])
      show "surely_joined v'" if "turn v v'" for v'
        using less.hyps turn_pending [OF that less.prems False] turn_ok [OF that less.prems] by blast
    qed
  qed (rule surely_joined.returned)
qed


section \<open>Idle sessions\<close>

text \<open>A connection that arrives without a failing call.\<close>

definition connecting :: "nat \<Rightarrow> accept_calls" where
  "connecting socket = \<lparr>ac_create = True, ac_arm = True, ac_wait = Wake_Accept, ac_inspect = Some True,
     ac_accept = Some socket, ac_unblock = True, ac_error = 0\<rparr>"

lemma accept_connecting [simp]: "net_accept (connecting k) = (no_arrival [])\<lparr>av_socket := Some k\<rparr>"
  by (simp add: net_accept_def connecting_def)

lemma accept_turns:
  "vr_acceptor v = AP_Test \<Longrightarrow> \<not> vr_stop_requested v \<Longrightarrow> turn v (v\<lparr>vr_acceptor := AP_Prune\<rparr>)"
  "vr_acceptor v = AP_Prune \<Longrightarrow> turn v ((prune_sessions v)\<lparr>vr_acceptor := AP_Wait\<rparr>)"
  "vr_acceptor v = AP_Wait \<Longrightarrow> k \<notin> set (vr_open v) \<Longrightarrow> turn v ((take_connection k v)\<lparr>vr_acceptor := AP_Test\<rparr>)"
proof -
  let ?a = "(connecting k)\<lparr>ac_accept := None\<rparr>"
  have possible: "possible_calls ?a v" by (simp add: possible_calls_def connecting_def)
  show "turn v (v\<lparr>vr_acceptor := AP_Prune\<rparr>)" if "vr_acceptor v = AP_Test" "\<not> vr_stop_requested v"
    using turn.accepting [OF _ possible] that by (simp add: accept_turn_def)
  show "turn v ((prune_sessions v)\<lparr>vr_acceptor := AP_Wait\<rparr>)" if "vr_acceptor v = AP_Prune"
    using turn.accepting [OF _ possible] that by (simp add: accept_turn_def)
  show "turn v ((take_connection k v)\<lparr>vr_acceptor := AP_Test\<rparr>)"
    if "vr_acceptor v = AP_Wait" "k \<notin> set (vr_open v)"
    using turn.accepting [of v "connecting k"] that
    by (simp add: accept_turn_def possible_calls_def connecting_def net_accept_def no_arrival_def)
qed

text \<open>A server that waits for the next connection with \<open>n\<close> sessions just started.\<close>

definition waiting_with :: "nat \<Rightarrow> server \<Rightarrow> bool" where
  "waiting_with n v \<longleftrightarrow> vr_acceptor v = AP_Wait \<and> \<not> vr_stop_requested v \<and> vr_control v = JP_Free \<and>
     vr_leaving v = [] \<and> vr_listening v \<and> length (vr_sessions v) = n"

lemma one_more_session:
  assumes "server_reachable config v" "waiting_with n v" "\<forall>x\<in>set (vr_sessions v). ss_phase x = SP_Started"
    "n < vc_max_sessions config"
  shows "\<exists>v'. server_reachable config v' \<and> waiting_with (Suc n) v' \<and>
    (\<forall>x\<in>set (vr_sessions v'). ss_phase x = SP_Started)"
proof -
  obtain k where k: "k \<notin> set (vr_open v)" using ex_new_if_finite [of "set (vr_open v)"] by auto
  note w = assms(2) [unfolded waiting_with_def]
  define v1 where "v1 = (take_connection k v)\<lparr>vr_acceptor := AP_Test\<rparr>"
  define v2 where "v2 = v1\<lparr>vr_acceptor := AP_Prune\<rparr>"
  define v3 where "v3 = (prune_sessions v2)\<lparr>vr_acceptor := AP_Wait\<rparr>"
  have config: "vr_config v = config" using server_reachable_ok [OF assms(1)] by (simp add: server_ok_def)
  have sessions: "vr_sessions v1 = vr_sessions v @ [\<lparr>ss_socket = k, ss_phase = SP_Started\<rparr>]"
    "\<not> vr_stop_requested v1" "vr_acceptor v1 = AP_Test" "vr_control v1 = JP_Free" "vr_leaving v1 = []"
    "vr_listening v1"
    using w assms(4) config by (simp_all add: v1_def take_connection_def)
  have "turn v v1" using accept_turns(3) w k by (simp add: v1_def)
  moreover have "turn v1 v2" using accept_turns(1) sessions by (simp add: v2_def)
  moreover have "turn v2 v3" using accept_turns(2) by (simp add: v2_def v3_def)
  ultimately have "server_reachable config v3" using assms(1) by (blast intro: server_reachable.turned)
  moreover have "vr_sessions v3 = vr_sessions v1"
    using assms(3) by (simp add: v3_def v2_def prune_sessions_def sessions filter_id_conv)
  moreover have "waiting_with (Suc n) v3"
    using calculation(2) w sessions by (simp add: waiting_with_def v3_def v2_def prune_sessions_def)
  ultimately show ?thesis using assms(3) sessions(1) by (intro exI [of _ v3]) simp
qed

text \<open>A server that has been started and has filled up.\<close>

lemma first_wait: "\<exists>v. server_reachable config v \<and> waiting_with 0 v"
proof -
  let ?v0 = "server_create config"
  obtain v1 oc where v1: "start_listening (Inr 7) True ?v0 = Some (oc, v1)" "vr_acceptor v1 = AP_Test"
    "\<not> vr_stop_requested v1" "vr_sessions v1 = []" "vr_control v1 = JP_Free" "vr_leaving v1 = []"
    "vr_listening v1"
    by (simp add: start_listening_def server_create_def)
  let ?v2 = "v1\<lparr>vr_acceptor := AP_Prune\<rparr>"
  let ?v3 = "(prune_sessions ?v2)\<lparr>vr_acceptor := AP_Wait\<rparr>"
  have "server_reachable config v1"
    by (rule server_reachable.started [OF server_reachable.created _ _ v1(1)]) (simp_all add: server_create_def)
  moreover have "turn v1 ?v2" using accept_turns(1) v1 by simp
  moreover have "turn ?v2 ?v3" by (rule accept_turns(2)) simp
  ultimately have "server_reachable config ?v3" by (blast intro: server_reachable.turned)
  moreover have "waiting_with 0 ?v3" using v1 by (simp add: waiting_with_def prune_sessions_def)
  ultimately show ?thesis by blast
qed

lemma filled: "n \<le> vc_max_sessions config \<Longrightarrow> \<exists>v. server_reachable config v \<and> waiting_with n v \<and>
    (\<forall>x\<in>set (vr_sessions v). ss_phase x = SP_Started)"
proof (induction n)
  case 0
  with first_wait show ?case by (fastforce simp: waiting_with_def)
next
  case (Suc n)
  then show ?case by (metis one_more_session Suc_leD Suc_le_lessD)
qed

text \<open>Its sessions come to their end while it waits.\<close>

lemma sessions_end:
  "server_reachable config v \<Longrightarrow> waiting_with n v \<Longrightarrow>
   \<exists>v'. server_reachable config v' \<and> waiting_with n v' \<and> (\<forall>x\<in>set (vr_sessions v'). ss_phase x = SP_Done)"
proof (induction "sessions_pending (vr_sessions v)" arbitrary: v rule: less_induct)
  case less
  show ?case
  proof (cases "\<forall>x\<in>set (vr_sessions v). ss_phase x = SP_Done")
    case False
    then obtain i where i: "i < length (vr_sessions v)" "ss_phase (vr_sessions v ! i) \<noteq> SP_Done"
      by (metis session_moves)
    obtain a x b where s: "vr_sessions v = a @ x # b" "i = length a" using split_at [OF i(1)] by blast
    let ?v = "session_turn i None v"
    have "server_reachable config ?v"
      using less.prems(1) turn.serving [OF i] by (blast intro: server_reachable.turned)
    moreover have "waiting_with n ?v"
      using less.prems(2) by (simp add: waiting_with_def session_turn_def Let_def)
    moreover have "sessions_pending (vr_sessions ?v) < sessions_pending (vr_sessions v)"
      using onward_pending [of x] i(2) by (simp add: session_turn_def Let_def s)
    ultimately show ?thesis using less.hyps by blast
  qed (use less.prems in blast)
qed

text \<open>
  Property C35. The session bound counts threads that have not been joined, not connections: whatever the
  bound is, a server can wait for a connection with no connection open and no session active and still
  refuse every connection that comes next, because the sessions that ended while it waited are only
  removed before the next wait.
\<close>

theorem idle_server_refuses_connection:
  "\<exists>v. server_reachable config v \<and> vr_acceptor v = AP_Wait \<and> vr_active v = 0 \<and>
     vr_open v = [] \<and>
     (\<forall>k. vr_open (accept_turn (connecting k) v) = [] \<and>
        vr_last_error (accept_turn (connecting k) v) = session_bound_reached)"
proof -
  obtain v0 where "server_reachable config v0" "waiting_with (vc_max_sessions config) v0"
    using filled [OF order_refl] by blast
  then obtain v where v: "server_reachable config v" "waiting_with (vc_max_sessions config) v"
    "\<forall>x\<in>set (vr_sessions v). ss_phase x = SP_Done"
    using sessions_end by blast
  have none: "sockets_in ps (vr_sessions v) = {#}" if "SP_Done \<notin> ps" for ps
    using v(3) that by (auto simp: sockets_in_def filter_empty_conv)
  have ok: "server_ok config v" by (rule server_reachable_ok [OF v(1)])
  have idle: "vr_open v = []" "vr_active v = 0" "vr_config v = config"
    using ok v(2) none by (auto simp: server_ok_def all_sessions_def waiting_with_def phase_sets)
  have "accept_turn (connecting k) v = v\<lparr>vr_last_error := session_bound_reached, vr_acceptor := AP_Test\<rparr>" for k
    using v(2) idle(3) by (simp add: accept_turn_def waiting_with_def take_connection_def no_arrival_def)
  with v(1,2) idle show ?thesis by (auto simp: waiting_with_def)
qed

text \<open>
  A server that was stopped, but not joined, cannot be started again: the handle of its accept thread is
  still joinable.
\<close>

lemma restart_without_join_aborts:
  assumes "vr_acceptor v = AP_Ended" "\<not> vr_running v" "net_available ops s"
    "net_listen ops (vc_address (vr_config v)) (vc_port (vr_config v)) s = (Inr bound, s')"
  shows "server_start ops event s v = None"
  using assms by (simp add: server_start_def start_listening_def)

section \<open>Instances\<close>

definition small_server :: server_config where
  "small_server = \<lparr>vc_address = ''127.0.0.1'', vc_port = 0, vc_max_sessions = 3\<rparr>"

theorem sessions_stay_within_bound_witness:
  "\<exists>v. server_reachable small_server v \<and> length (vr_sessions v) = 3 \<and> vr_active v \<le> 3 \<and>
     mset (vr_open v) = sockets_in holding (all_sessions v)"
proof -
  obtain v where "server_reachable small_server v" "waiting_with 3 v"
    using filled [of 3 small_server] by (auto simp: small_server_def)
  with sessions_stay_within_bound [OF this(1)] show ?thesis
    by (intro exI [of _ v]) (simp add: waiting_with_def small_server_def)
qed


end
