(* ===== verification/Coordinator.thy ===== *)
theory Coordinator
  imports Process Store Server
begin

text \<open>
  The coordinator process of \<open>apps/pf_coordinator/main.cpp\<close>: its options, the boot sequence that loads
  the durable state, begins an epoch and starts the server, and the orderly end. Between the two, the
  sessions of \<open>Service\<close> run; the runtime they leave is an argument of the end.
\<close>

section \<open>Options\<close>

record coordinator_options =
  co_address :: string
  co_port :: u16
  co_state_path :: string
  co_stop_file :: string
  co_fabric :: string
  co_site :: string
  co_coordinator :: string
  co_epoch :: u64
  co_synthetic_spec :: string
  co_synthetic_device :: string
  co_verbose :: bool

definition coordinator_defaults :: coordinator_options where
  "coordinator_defaults = \<lparr>co_address = ''127.0.0.1'', co_port = 0, co_state_path = [], co_stop_file = [],
     co_fabric = ''fabric'', co_site = ''site'', co_coordinator = ''coordinator'', co_epoch = 1,
     co_synthetic_spec = ''SPINE_400G:8'', co_synthetic_device = ''coordinator-device'', co_verbose = False\<rparr>"

definition coordinator_usage :: "version \<Rightarrow> string list" where
  "coordinator_usage v =
     [''pf-coordinator - Port Fabric coordinator '' @ version_string v,
      ''usage: pf-coordinator [options]'',
      ''  --address <ip>            listen address (default 127.0.0.1)'',
      ''  --port <n>                listen port, 0 selects an ephemeral port'',
      ''  --state <path>            persistence container path'',
      ''  --stop-file <path>        exit gracefully when this file appears'',
      ''  --epoch <n>               starting coordinator epoch'',
      ''  --coordinator <id>        coordinator identity'',
      ''  --fabric <id> --site <id> authority domain identities'',
      ''  --synthetic <CLASS:COUNT> synthetic device inventory'',
      ''  --verbose                 print committed mutations'']"

text \<open>\<open>limit\<close> is the largest \<open>unsigned long\<close>; an epoch is read with 64 bits on every platform.\<close>

definition coordinator_valued :: "nat \<Rightarrow> string \<Rightarrow> string option \<Rightarrow> coordinator_options \<Rightarrow> coordinator_options option" where
  "coordinator_valued limit a v o' =
     (if a = ''--address'' then Some (o'\<lparr>co_address := text_or (co_address o') v\<rparr>)
      else if a = ''--port'' then Some (o'\<lparr>co_port := of_nat (number_of limit v)\<rparr>)
      else if a = ''--state'' then Some (o'\<lparr>co_state_path := text_or (co_state_path o') v\<rparr>)
      else if a = ''--stop-file'' then Some (o'\<lparr>co_stop_file := text_or (co_stop_file o') v\<rparr>)
      else if a = ''--epoch'' then Some (o'\<lparr>co_epoch := of_nat (number_of ulong_max_64 v)\<rparr>)
      else if a = ''--coordinator'' then Some (o'\<lparr>co_coordinator := text_or (co_coordinator o') v\<rparr>)
      else if a = ''--fabric'' then Some (o'\<lparr>co_fabric := text_or (co_fabric o') v\<rparr>)
      else if a = ''--site'' then Some (o'\<lparr>co_site := text_or (co_site o') v\<rparr>)
      else if a = ''--synthetic'' then Some (o'\<lparr>co_synthetic_spec := text_or (co_synthetic_spec o') v\<rparr>)
      else None)"

definition coordinator_flag :: "string \<Rightarrow> coordinator_options \<Rightarrow> coordinator_options option" where
  "coordinator_flag a o' = (if a = ''--verbose'' then Some (o'\<lparr>co_verbose := True\<rparr>) else None)"

definition coordinator_parse :: "version \<Rightarrow> nat \<Rightarrow> string list \<Rightarrow> run + coordinator_options" where
  "coordinator_parse v limit arguments =
     parse_arguments (coordinator_valued limit) coordinator_flag (coordinator_usage v) arguments coordinator_defaults"

section \<open>Boot\<close>

definition coordinator_inventory :: "nat \<Rightarrow> coordinator_options \<Rightarrow> synthetic_fabric" where
  "coordinator_inventory limit o' =
     add_inventory (split_specification limit (co_synthetic_spec o')) (co_synthetic_device o')
       (fabric_create ''coordinator-synthetic'')"

definition coordinator_config :: "coordinator_options \<Rightarrow> engine_config" where
  "coordinator_config o' = default_config
     \<lparr>cf_fabric := id_from_validated (co_fabric o'), cf_site := id_from_validated (co_site o'),
      cf_coordinator := id_from_validated (co_coordinator o'), cf_epoch := co_epoch o',
      cf_persistence_path := co_state_path o',
      cf_persistence := if co_state_path o' = [] then Persistence_Manual else Persistence_Automatic,
      cf_adapter_policy := Policy_ApplyAndVerify\<rparr>"

text \<open>
  A boot ends with the process (its run) or with a coordinator that serves: the lines printed so far,
  the runtime and the server. \<open>None\<close> would be a process that is terminated while starting its server.
\<close>

record coordinator =
  cd_options :: coordinator_options
  cd_out :: "string list"
  cd_engine :: engine
  cd_server :: server

definition recovery_line :: "outcome \<Rightarrow> string" where
  "recovery_line oc = ''recovery='' @ c_str (outcome_to_string oc)"

text \<open>The durable state, if a path is given; only a failure to read the container is tolerated.\<close>

definition coordinator_recover :: "environment \<Rightarrow> coordinator_options \<Rightarrow> engine \<Rightarrow> bool \<times> string list \<times> engine" where
  "coordinator_recover env o' e =
     (if co_state_path o' = [] then (True, [], e)
      else let (loaded, e) = load env e
        in (outcome_ok loaded \<or> oc_code loaded = OC_PersistenceIoFailure, [recovery_line loaded], e))"

definition coordinator_listen :: "'s socket_ops \<Rightarrow> bool \<Rightarrow> 's \<Rightarrow> coordinator_options \<Rightarrow> string list \<Rightarrow> engine \<Rightarrow>
    ((run + coordinator) \<times> 's) option" where
  "coordinator_listen sops event s o' out e =
     (case server_start sops event s
         (server_create \<lparr>vc_address = co_address o', vc_port = co_port o', vc_max_sessions = 64\<rparr>) of
        None \<Rightarrow> None
      | Some (started, v, s) \<Rightarrow>
        (let out = out @ [''listen='' @ c_str (outcome_to_string started)]
         in if \<not> outcome_ok started then Some (Inl (exits 1 out []), s)
            else Some (Inr \<lparr>cd_options = o',
              cd_out = out @ [''port='' @ decimal (unat (vr_bound_port v)),
                ''coordinator='' @ c_str (co_coordinator o'), ''ready=true''],
              cd_engine = e, cd_server = v\<rparr>, s)))"

definition coordinator_boot :: "version \<Rightarrow> environment \<Rightarrow> 's socket_ops \<Rightarrow> bool \<Rightarrow> 's \<Rightarrow> coordinator_options \<Rightarrow>
    ((run + coordinator) \<times> 's) option" where
  "coordinator_boot v env sops event s o' =
     (let out = [''pf-coordinator starting version='' @ version_string v];
          (going, recovery, e) = coordinator_recover env o' (engine_create (coordinator_config o'));
          out = out @ recovery
      in if \<not> going then Some (Inl (exits 1 out []), s)
         else let (begun, e) = begin_epoch e
           in if \<not> outcome_ok begun
              then Some (Inl (exits 1 (out @ [''epoch='' @ c_str (outcome_to_string begun)]) []), s)
              else coordinator_listen sops event s o' (out @ [''epoch='' @ format_u64 (en_epoch e)]) e)"

text \<open>The process from its command line.\<close>

definition coordinator_main :: "version \<Rightarrow> nat \<Rightarrow> environment \<Rightarrow> 's socket_ops \<Rightarrow> bool \<Rightarrow> 's \<Rightarrow> string list \<Rightarrow>
    ((run + coordinator) \<times> 's) option" where
  "coordinator_main v limit env sops event s arguments =
     (case coordinator_parse v limit arguments of
        Inl r \<Rightarrow> Some (Inl (r\<lparr>ru_out := ru_out r @ coordinator_usage v\<rparr>), s)
      | Inr o' \<Rightarrow> coordinator_boot v env sops event s o')"

section \<open>Waiting and the end\<close>

text \<open>
  The main thread polls for its stop file; \<open>polls\<close> are the answers. Without a stop file, or before the
  file appears, it does not return.
\<close>

definition coordinator_stops :: "coordinator_options \<Rightarrow> bool list \<Rightarrow> bool" where
  "coordinator_stops o' polls \<longleftrightarrow> co_stop_file o' \<noteq> [] \<and> True \<in> set polls"

text \<open>The end, once the server has been joined: the runtime is saved through the store.\<close>

definition coordinator_end :: "'fs file_ops \<Rightarrow> 'fs \<Rightarrow> engine \<Rightarrow> coordinator \<Rightarrow> outcome \<Rightarrow> run \<times> 'fs" where
  "coordinator_end ops fs e cd joined =
     (let out = cd_out cd @ [''shutdown='' @ c_str (outcome_to_string joined)]
      in if co_state_path (cd_options cd) = [] then (exits 0 (out @ [''stopped=true'']) [], fs)
         else let (saved, fs) = store_save ops (co_state_path (cd_options cd)) (gather_state e) fs
           in (exits 0 (out @ [''persisted='' @ c_str (outcome_to_string saved), ''stopped=true'']) [], fs))"

section \<open>What a boot guarantees\<close>

lemma reading_result:
  "reading r k bs = Inr y \<longleftrightarrow> (\<exists>x rest. r bs = Inr (x, rest) \<and> k x rest = Inr y)"
  by (auto simp: reading_def split: sum.split)

lemma labelled_result [simp]: "labelled e r bs = Inr y \<longleftrightarrow> r bs = Inr y"
  by (auto simp: labelled_def split: sum.split)

lemma read_distinct_length:
  "read_distinct n r key bad duplicate acc bs = Inr (xs, rest) \<Longrightarrow> length xs = length acc + n"
proof (induction n r key bad duplicate acc arbitrary: bs rule: read_distinct.induct)
  case (2 n r key bad duplicate acc)
  then show ?case by (fastforce simp: reading_result requiring_def failing_def split: if_splits)
qed (simp add: returning_def)

lemma read_section_length:
  assumes "read_section limit r key bounds bad duplicate bs = Inr (xs, rest)"
  shows "length xs \<le> limit"
  using assms
  by (auto simp: read_section_def reading_result read_bounded_count_def requiring_def failing_def returning_def
      dest!: read_distinct_length split: if_splits)

lemma decoded_publishers:
  assumes "decode_persisted_state bytes = Inr ps"
  shows "length (ps_publishers ps) \<le> max_publishers"
proof -
  obtain payload rest where "read_state payload = Inr (ps, rest)"
    using assms by (auto simp: decode_persisted_state_def split: sum.splits if_splits prod.splits)
  then show ?thesis
    unfolding read_state_def reading_result returning_def by (auto dest!: read_section_length)
qed

lemma stored_publishers: "length (ps_publishers (snd (load_outcome (stored_env ops fs env) e))) \<le> max_publishers"
  by (auto simp: load_outcome_def stored_env_def store_load_def empty_state_def Let_def
      split: sum.split if_splits prod.splits dest: decoded_publishers)

text \<open>
  A runtime without live agents: the invariant holds, no port is owned and every publisher is fenced.
\<close>

definition without_agents :: "engine \<Rightarrow> bool" where
  "without_agents e \<longleftrightarrow> engine_ok e \<and> (\<forall>p r. port_of e p = Some r \<longrightarrow> pr_ownership r = None) \<and>
     (\<forall>i p. map_of (en_publishers e) i = Some p \<longrightarrow> pub_fenced p)"

lemma load_without_agents:
  assumes "oc_code (fst (load env e)) = OC_Ok" "length (ps_publishers (snd (load_outcome env e))) \<le> max_publishers"
  shows "without_agents (snd (load env e)) \<and> en_epoch e \<le> en_epoch (snd (load env e)) \<and>
    ps_epoch (snd (load_outcome env e)) < en_epoch (snd (load env e))"
proof (cases rule: load_success [OF assms(1)])
  case (1 read ps reg records)
  have "om_sorted ([] :: (strong_id \<times> port_record) list)" by (simp add: om_sorted_def)
  note spec = restore_records_spec [OF 1(7) this]
  have "pr_ownership s = None" if "map_of records p = Some s" for p s
    using spec that by (metis map_of.simps(1) recover_record_fields(4))
  moreover have "engine_ok (recovered_engine ps reg records e)"
    by (rule recovered_engine_ok [OF 1(4) _ 1(5,7)]) (use assms(2) 1(2) in simp)
  ultimately show ?thesis
    using 1(2,6) gen_next_strict [of "ps_epoch ps"] restore_publishers_fenced(1) [of "ps_publishers ps"]
    by (auto simp: without_agents_def 1(9) filed_def not_le)
qed

lemma restored_codes:
  "fst (restore_profiles ps reg) = Some a \<Longrightarrow> oc_code a = OC_PersistenceCorruption"
  "fst (restore_records rs m) = Some a \<Longrightarrow> oc_code a = OC_PersistenceCorruption"
proof -
  show "fst (restore_profiles ps reg) = Some a \<Longrightarrow> oc_code a = OC_PersistenceCorruption"
    by (induction ps reg rule: restore_profiles.induct) (auto simp: Let_def split: if_splits prod.splits)
  show "fst (restore_records rs m) = Some a \<Longrightarrow> oc_code a = OC_PersistenceCorruption"
    by (induction rs m rule: restore_records.induct) (auto split: option.splits)
qed

lemma load_unreadable:
  assumes "oc_code (fst (load env e)) = OC_PersistenceIoFailure"
  shows "snd (load env e) = e"
proof (rule ccontr)
  assume changed: "snd (load env e) \<noteq> e"
  obtain read ps where l: "load_outcome env e = (read, ps)" by fastforce
  let ?profiles = "restore_profiles (ordered_profiles (ps_profiles ps)) (registry_clear (en_profiles e))"
  let ?records = "restore_records (ps_records ps) []"
  have start: "cf_persistence_path (en_config e) \<noteq> []" "outcome_ok read" "load_refusal e ps = None"
    using changed l by (auto simp: load_def split: if_splits option.splits)
  obtain err reg where p: "?profiles = (err, reg)" by fastforce
  obtain err2 records where r: "?records = (err2, records)" by fastforce
  have err: "err = None"
  proof (cases err)
    case (Some a)
    with start l p assms restored_codes(1) [of "ordered_profiles (ps_profiles ps)" "registry_clear (en_profiles e)"]
    show ?thesis by (simp add: load_def)
  qed
  show False
  proof (cases "en_epoch e \<le> ps_epoch ps \<and> gen_exhaustible (ps_epoch ps)")
    case True
    with start l p err assms show False by (simp add: load_def restore_authority_def)
  next
    case False
    show False
    proof (cases err2)
      case None
      with start l p err r assms show False
        by (auto simp: load_def restore_authority_def if_not_P [OF False] Let_def split: if_splits)
    next
      case (Some a)
      with start l p err r assms restored_codes(2) [of "ps_records ps" "[]"] show False
        by (simp add: load_def restore_authority_def if_not_P [OF False])
    qed
  qed
qed

lemma begin_epoch_without_agents:
  assumes "without_agents e" "outcome_ok (fst (begin_epoch e))"
  shows "without_agents (snd (begin_epoch e))" "en_epoch e < en_epoch (snd (begin_epoch e))"
    "en_config (snd (begin_epoch e)) = en_config e"
proof -
  let ?g = "gen_next (en_epoch e)"
  let ?f = "\<lambda>p. if pub_epoch p < ?g then p\<lparr>pub_fenced := True\<rparr> else p"
  let ?m = "e\<lparr>en_epoch := ?g, en_publishers := om_map_values ?f (en_publishers e)\<rparr>"
  have able: "\<not> gen_exhaustible (en_epoch e)" "snd (begin_epoch e) = release_ownership_before_epoch ?g ?m"
    using assms(2) by (auto simp: begin_epoch_def Let_def outcome_ok_def split: if_splits)
  have m: "engine_ok ?m"
    by (rule engine_ok_fenced) (use assms(1) in \<open>simp_all add: without_agents_def\<close>)
  note spec = release_where_spec [OF m refl, folded release_ownership_before_epoch_def]
  have same: "port_of ?m = port_of e" by (simp add: port_of_def)
  have unowned: "pr_ownership r = None" if r: "port_of (snd (begin_epoch e)) p = Some r" for p r
  proof (rule ccontr)
    assume "pr_ownership r \<noteq> None"
    then obtain w where "pr_ownership r = Some w" by auto
    with release_where_owned [OF m refl r [unfolded able(2) release_ownership_before_epoch_def]] same assms(1)
    show False by (auto simp: without_agents_def)
  qed
  show "without_agents (snd (begin_epoch e))"
    using unowned assms(1) spec(1,7) able(2)
    by (auto simp: without_agents_def release_ownership_before_epoch_def release_where_spec [OF m refl])
  show "en_epoch e < en_epoch (snd (begin_epoch e))" "en_config (snd (begin_epoch e)) = en_config e"
    using able gen_next_strict [of "en_epoch e"]
    by (simp_all add: release_ownership_before_epoch_def release_where_spec [OF m refl])
qed

lemma created_without_agents: "without_agents (engine_create cf)"
  using engine_ok_create by (simp add: without_agents_def) (simp add: engine_create_def port_of_def)

lemma recover_without_agents:
  assumes "coordinator_recover (stored_env ops fs env) o' (engine_create cf) = (True, out, e)"
  shows "without_agents e \<and> cf_epoch cf \<le> en_epoch e"
proof (cases "co_state_path o' = []")
  case True
  with assms created_without_agents [of cf] show ?thesis
    by (auto simp: coordinator_recover_def engine_create_def)
next
  case False
  let ?e = "engine_create cf" and ?env = "stored_env ops fs env"
  have e: "e = snd (load ?env ?e)" "oc_code (fst (load ?env ?e)) \<in> {OC_Ok, OC_PersistenceIoFailure}"
    using assms False by (auto simp: coordinator_recover_def outcome_ok_def Let_def split: prod.splits)
  have start: "en_epoch ?e = cf_epoch cf" by (simp add: engine_create_def)
  show ?thesis
    using e load_without_agents [OF _ stored_publishers, of ops fs env ?e] load_unreadable [of ?env ?e]
      created_without_agents [of cf] start by auto
qed

lemma boot_serves:
  assumes "coordinator_boot v env sops event s o' = Some (Inr cd, s')"
  obtains out e where "coordinator_recover env o' (engine_create (coordinator_config o')) = (True, out, e)"
    "outcome_ok (fst (begin_epoch e))" "cd_engine cd = snd (begin_epoch e)" "cd_options cd = o'"
    "vr_acceptor (cd_server cd) = AP_Test" "vr_running (cd_server cd)" "last (cd_out cd) = ''ready=true''"
proof -
  obtain going out e where r: "coordinator_recover env o' (engine_create (coordinator_config o')) = (going, out, e)"
    by (cases "coordinator_recover env o' (engine_create (coordinator_config o'))") auto
  show thesis
    by (rule that [of out e])
      (use assms r in \<open>auto simp: coordinator_boot_def coordinator_listen_def server_start_def start_listening_def
        server_create_def transport_def outcome_ok_def current_def Let_def
        split: if_splits prod.splits option.splits sum.splits\<close>)
qed

text \<open>
  Property C31. A coordinator that reports it is ready trusts nothing of an earlier life: whatever the
  container holds, the invariant of the runtime holds, no port is owned, every publisher it knows is
  fenced, its epoch is newer than the one it was started with, and every request that carries an earlier
  epoch is refused; its server accepts connections.
\<close>

theorem ready_coordinator_is_fenced:
  assumes "coordinator_boot v (stored_env ops fs env) sops event s o' = Some (Inr cd, s')"
  shows "without_agents (cd_engine cd) \<and> co_epoch o' < en_epoch (cd_engine cd) \<and>
    (\<forall>au. au_epoch au < en_epoch (cd_engine cd) \<longrightarrow> authority_refusal au (cd_engine cd) \<noteq> None) \<and>
    vr_running (cd_server cd) \<and> last (cd_out cd) = ''ready=true''"
proof (rule boot_serves [OF assms])
  fix out e
  assume b: "coordinator_recover (stored_env ops fs env) o' (engine_create (coordinator_config o')) = (True, out, e)"
    "outcome_ok (fst (begin_epoch e))" "cd_engine cd = snd (begin_epoch e)" "vr_running (cd_server cd)"
    "last (cd_out cd) = ''ready=true''"
  have e: "without_agents e" "co_epoch o' \<le> en_epoch e"
    using recover_without_agents [OF b(1)] by (simp_all add: coordinator_config_def)
  note fresh = begin_epoch_without_agents [OF e(1) b(2)]
  have "authority_refusal au (cd_engine cd) \<noteq> None" if "au_epoch au < en_epoch (cd_engine cd)" for au
    using that by (auto simp: authority_refusal_None)
  with fresh e(2) b(3-5) show ?thesis by simp
qed

text \<open>
  Property C32. A container that cannot be read is lost: when the load fails to read the container
  that is there, the coordinator starts all the same, without a single port, and its orderly end replaces
  the container by one without records and exits with success.
\<close>

theorem unreadable_container_is_overwritten:
  assumes "file_laws ops content" "co_state_path o' = path" "path \<noteq> []"
    "store_load ops path fs = Inl answer" "oc_code answer = OC_PersistenceIoFailure"
    "coordinator_boot v (stored_env ops fs env) sops event s o' = Some (Inr cd, s')"
    "coordinator_end ops fs (cd_engine cd) cd joined = (r, fs')"
    "outcome_ok (fst (store_save ops path (gather_state (cd_engine cd)) fs))"
  shows "ps_records (gather_state (cd_engine cd)) = [] \<and> ru_exit r = 0 \<and>
    (\<exists>encoded bytes. encode_persisted_state (gather_state (cd_engine cd)) = (encoded, bytes) \<and>
       content fs' path = Some bytes)"
proof (rule boot_serves [OF assms(6)])
  fix out e
  let ?e = "engine_create (coordinator_config o')"
  assume b: "coordinator_recover (stored_env ops fs env) o' ?e = (True, out, e)"
    "outcome_ok (fst (begin_epoch e))" "cd_engine cd = snd (begin_epoch e)" "cd_options cd = o'"
  have path: "cf_persistence_path (en_config ?e) = path"
    using assms(2) by (simp add: engine_create_def coordinator_config_def)
  have "load (stored_env ops fs env) ?e = (answer, ?e)"
    using path assms(3-5) by (simp add: load_def load_outcome_def stored_env_def outcome_ok_def)
  then have e: "e = ?e" using b(1) assms(2,3) by (simp add: coordinator_recover_def)
  have none: "port_of (cd_engine cd) p = None" for p
    using b(2,3) release_where_spec(2) [OF engine_ok_fenced [OF engine_ok_create, of
        "\<lambda>p. if pub_epoch p < gen_next (en_epoch ?e) then p\<lparr>pub_fenced := True\<rparr> else p"
        "coordinator_config o'" "gen_next (en_epoch ?e)"] refl]
    by (auto simp: e begin_epoch_def release_ownership_before_epoch_def Let_def outcome_ok_def port_of_def
        engine_create_def split: if_splits)
  then have empty: "en_records (cd_engine cd) = []"
    by (metis map_of_eq_empty_iff port_of_def ext)
  obtain saved fs2 where save: "store_save ops path (gather_state (cd_engine cd)) fs = (saved, fs2)" by fastforce
  have "fs' = fs2" "ru_exit r = 0"
    using assms(2,3,7) b(4) save by (auto simp: coordinator_end_def exits_def Let_def)
  moreover have "\<exists>encoded bytes. encode_persisted_state (gather_state (cd_engine cd)) = (encoded, bytes) \<and>
      content fs2 path = Some bytes"
    using store_save_content [OF assms(1) save] assms(8) save by auto
  moreover have "ps_records (gather_state (cd_engine cd)) = []" using empty by (simp add: gather_state_def)
  ultimately show ?thesis by simp
qed

section \<open>Instances\<close>

text \<open>An operating system on which listening succeeds.\<close>

definition loopback :: "unit socket_ops" where
  "loopback = \<lparr>so_startup = (\<lambda>_. True), so_resolve = (\<lambda>address service _. Some [address]),
     so_open = (\<lambda>_ s. (True, s)), so_bind = (\<lambda>_ s. (True, s)), so_listen = (\<lambda>s. (True, s)),
     so_local_port = (\<lambda>_. Some 7000), so_connect = (\<lambda>_ s. (False, s)), so_send = (\<lambda>_ s. (0, s)),
     so_receive = (\<lambda>_ _. None), so_close = (\<lambda>s. s), so_error = (\<lambda>_. 0)\<rparr>"

lemma loopback_listens:
  "coordinator_listen loopback event s o' out e =
     Some (Inr \<lparr>cd_options = o',
       cd_out = out @ [''listen='' @ c_str (outcome_to_string (success ''the coordinator is listening'')),
         ''port='' @ decimal 7000, ''coordinator='' @ c_str (co_coordinator o'), ''ready=true''],
       cd_engine = e,
       cd_server = snd (the (start_listening (Inr 7000) event (server_create
         \<lparr>vc_address = co_address o', vc_port = co_port o', vc_max_sessions = 64\<rparr>)))\<rparr>, s)"
  by (simp add: coordinator_listen_def server_start_def start_listening_def server_create_def net_available_def
      net_listen_def bind_and_listen_def loopback_def outcome_ok_def)

text \<open>A coordinator that keeps its state in a file that another process holds open.\<close>

definition state_options :: coordinator_options where
  "state_options = coordinator_defaults\<lparr>co_state_path := ''state.pf''\<rparr>"

definition locked_disk :: "disk file_ops" where
  "locked_disk = disk_ops\<lparr>fo_read := (\<lambda>p d. if p = ''state.pf'' then None else map_option Some (d p))\<rparr>"

lemma boot_ready:
  assumes "coordinator_recover env o' (engine_create (coordinator_config o')) = (True, out, e)"
    "outcome_ok (fst (begin_epoch e))"
  shows "\<exists>cd. coordinator_boot v env loopback event () o' = Some (Inr cd, ())"
  using assms loopback_listens by (simp add: coordinator_boot_def Let_def case_prod_beta)

lemma state_options_config:
  "cf_persistence_path (en_config (engine_create (coordinator_config state_options))) = ''state.pf''"
  "en_epoch (engine_create (coordinator_config state_options)) = 1"
  "co_state_path state_options = ''state.pf''"
  by (simp_all add: engine_create_def coordinator_config_def state_options_def coordinator_defaults_def)

text \<open>It boots on the container the sample runtime has written.\<close>

abbreviation "saved_disk \<equiv> snd (store_save disk_ops ''state.pf'' (gather_state sample_runtime) (\<lambda>_. None))"

lemma saved_disk_loads: "store_load disk_ops ''state.pf'' saved_disk = Inr (gather_state sample_runtime)"
proof -
  have content: "saved_disk ''state.pf'' = Some (snd (encode_persisted_state (gather_state sample_runtime)))"
    by (simp add: disk_save [OF sample_runtime_saved])
  note readable = disk_read [where d = saved_disk, OF content sample_runtime_saved(2)]
  show ?thesis
    by (rule stored_state_is_loaded [OF disk_laws sample_runtime_state(1) disk_save [OF sample_runtime_saved]])
      (use readable in \<open>simp_all add: disk_save [OF sample_runtime_saved] outcome_ok_def\<close>)
qed

lemma sample_state_loads:
  assumes "cf_persistence_path (en_config e) = ''state.pf''" "cf_port_bound (en_config e) = max_ports"
    "en_profiles e = registry_empty"
  shows "load (stored_env disk_ops saved_disk quiet_env) e =
     (success ''durable state recovered conservatively'', recovered_engine (gather_state sample_runtime)
       (registry_clear registry_empty) [(''p1'', recover_record configured_port)] e)"
proof -
  let ?ps = "gather_state sample_runtime"
  have ps: "ps_records ?ps = [configured_port]" "ps_profiles ?ps = []" "ps_epoch ?ps = 7" "ps_engine_generation ?ps = 0"
    "ps_fabric ?ps = []" "ps_site ?ps = []"
    by (simp_all add: sample_runtime_gathered sample_state_def)
  have valid: "record_validate (recover_record configured_port) = None"
    using recover_record_ok [OF configured_port_valid] by (simp only: record_validate_ok)
  have out: "load_outcome (stored_env disk_ops saved_disk quiet_env) e = (success ''state decoded'', ?ps)"
    using saved_disk_loads assms(1) by (simp add: load_outcome_def stored_env_def)
  show ?thesis
    by (rule load_succeeds [OF _ out success_ok, where reg = "registry_clear registry_empty"])
      (simp_all add: ps valid ordered_profiles_def gen_exhaustible_def gen_valid_def assms(1,3),
        simp add: load_refusal_def ps assms(2) max_ports_def id_valid_def)
qed

lemma sample_state_recovers:
  "load (stored_env disk_ops saved_disk quiet_env) (engine_create (coordinator_config state_options)) =
     (success ''durable state recovered conservatively'', recovered_engine (gather_state sample_runtime)
       (registry_clear registry_empty) [(''p1'', recover_record configured_port)]
       (engine_create (coordinator_config state_options)))"
proof (rule sample_state_loads)
  let ?e = "engine_create (coordinator_config state_options)"
  show "cf_persistence_path (en_config ?e) = ''state.pf''" by (rule state_options_config)
  have "id_from_validated ''coordinator'' \<noteq> []" by code_simp
  then show "cf_port_bound (en_config ?e) = max_ports"
    by (simp add: engine_create_def coordinator_config_def state_options_def coordinator_defaults_def config_valid_def
        default_config_def id_valid_def gen_valid_def max_ports_def max_devices_def)
  show "en_profiles ?e = registry_empty" by (simp add: engine_create_def)
qed

theorem ready_coordinator_is_fenced_witness:
  "\<exists>cd. coordinator_boot (1, 0, 0) (stored_env disk_ops saved_disk quiet_env) loopback True () state_options =
     Some (Inr cd, ()) \<and> without_agents (cd_engine cd)"
proof -
  let ?env = "stored_env disk_ops saved_disk quiet_env" and ?e = "engine_create (coordinator_config state_options)"
  have "fst (coordinator_recover ?env state_options ?e)"
    "en_epoch (snd (snd (coordinator_recover ?env state_options ?e))) = 8"
    using state_options_config by (simp_all add: coordinator_recover_def sample_state_recovers outcome_ok_def)
      (simp add: sample_runtime_gathered sample_state_def gen_next_def)
  then obtain out e where r: "coordinator_recover ?env state_options ?e = (True, out, e)" "en_epoch e = 8"
    by (metis prod.collapse)
  from r(2) have "outcome_ok (fst (begin_epoch e))"
    by (simp add: begin_epoch_def gen_valid_def gen_exhaustible_def outcome_ok_def)
  from boot_ready [OF r(1) this, where v = "(1, 0, 0)" and event = True] obtain cd where
    "coordinator_boot (1, 0, 0) ?env loopback True () state_options = Some (Inr cd, ())" by blast
  with ready_coordinator_is_fenced [OF this] show ?thesis by blast
qed

text \<open>With the container locked it boots empty; the temporary file is not locked, so the end can save.\<close>

lemma locked_laws: "file_laws locked_disk (\<lambda>d. d)"
  by (auto simp: file_laws_def locked_disk_def disk_ops_def split: option.splits if_splits)

lemma locked_paths:
  "outcome_ok (validate_file_path locked_disk ''state.pf'' d)"
  "outcome_ok (validate_file_path locked_disk (temporary_path ''state.pf'') d)"
proof -
  have "validate_file_path locked_disk p d = validate_file_path disk_ops p d" for p
    by (simp add: validate_file_path_def locked_disk_def)
  then show "outcome_ok (validate_file_path locked_disk ''state.pf'' d)"
    "outcome_ok (validate_file_path locked_disk (temporary_path ''state.pf'') d)"
    using sample_path by simp_all
qed

lemma saved_disk_content: "saved_disk ''state.pf'' = Some (snd (encode_persisted_state (gather_state sample_runtime)))"
  by (simp add: disk_save [OF sample_runtime_saved])

lemma locked_fields:
  "fo_exists locked_disk p d = (d p \<noteq> None)" "fo_size locked_disk p d = map_option length (d p)"
  "fo_read locked_disk p d = (if p = ''state.pf'' then None else map_option Some (d p))"
  "fo_write locked_disk p b d = Some (True, d(p := Some b))" "fo_remove locked_disk p d = d(p := None)"
  "fo_move locked_disk s t d = (case d s of None \<Rightarrow> (False, d) | Some b \<Rightarrow> (True, d(s := None, t := Some b)))"
  by (simp_all add: locked_disk_def disk_ops_def)

lemma ok_values: "outcome_ok (success m)" "outcome_ok (failure code m) \<longleftrightarrow> code = OC_Ok"
  by (simp_all add: outcome_ok_def)

lemma locked_load:
  "store_load locked_disk ''state.pf'' saved_disk = Inl (failure OC_PersistenceIoFailure ''the file could not be opened'')"
  using locked_paths sample_runtime_saved(2) saved_disk_content
  by (simp add: store_load_def read_file_bounded_def locked_fields ok_values Let_def)

lemma locked_save:
  assumes "outcome_ok (fst (encode_persisted_state ps))" "length (snd (encode_persisted_state ps)) \<le> max_persistence_bytes"
  shows "outcome_ok (fst (store_save locked_disk ''state.pf'' ps d))"
proof -
  have other: "temporary_path ''state.pf'' \<noteq> ''state.pf''" by simp
  show ?thesis
    using assms locked_paths other
    by (simp add: store_save_def write_file_flushed_def read_file_bounded_def atomic_replace_file_def Let_def
        case_prod_beta locked_fields ok_values not_less)
qed

lemma locked_boot:
  defines "env \<equiv> stored_env locked_disk saved_disk quiet_env" and "e \<equiv> engine_create (coordinator_config state_options)"
  shows "\<exists>out. coordinator_recover env state_options e = (True, out, e)" "outcome_ok (fst (begin_epoch e))"
proof -
  have "load env e = (failure OC_PersistenceIoFailure ''the file could not be opened'', e)"
    using locked_load state_options_config
    by (simp add: load_def load_outcome_def stored_env_def env_def e_def outcome_ok_def)
  then show "\<exists>out. coordinator_recover env state_options e = (True, out, e)"
    by (simp add: coordinator_recover_def state_options_config)
  show "outcome_ok (fst (begin_epoch e))"
    using state_options_config(2)
    by (simp add: begin_epoch_def e_def gen_valid_def gen_exhaustible_def outcome_ok_def)
qed

text \<open>A runtime without ports, profiles, devices and publishers fits a container.\<close>

lemma bare_state_encodes:
  assumes "ps_records ps = []" "ps_profiles ps = []" "ps_devices ps = []" "ps_publishers ps = []"
    "id_wf (ps_fabric ps)" "id_wf (ps_site ps)"
  shows "outcome_ok (fst (encode_persisted_state ps))" "length (snd (encode_persisted_state ps)) \<le> max_persistence_bytes"
proof -
  have "persisted_wf ps" "state_refusal ps = None" "state_labels_fit ps" "state_size ps \<le> container_payload_limit"
    using assms by (simp_all add: persisted_wf_def state_refusal_None state_labels_fit_def state_size_def
        container_payload_limit_def)
  then obtain bytes where "encode_persisted_state ps = (success ''state encoded'', bytes)"
    "length bytes \<le> container_header_size + state_size ps"
    using encode_fits [OF conjunct1 [OF persisted_wf_parts] conjunct2 [OF persisted_wf_parts]] by blast
  then show "outcome_ok (fst (encode_persisted_state ps))"
    "length (snd (encode_persisted_state ps)) \<le> max_persistence_bytes"
    using assms by (simp_all add: outcome_ok_def container_header_size_def max_persistence_bytes_def state_size_def)
qed

theorem unreadable_container_is_overwritten_witness:
  "\<exists>cd encoded bytes. coordinator_boot (1, 0, 0) (stored_env locked_disk saved_disk quiet_env) loopback True ()
       state_options = Some (Inr cd, ()) \<and> ps_records (gather_state (cd_engine cd)) = [] \<and>
     encode_persisted_state (gather_state (cd_engine cd)) = (encoded, bytes) \<and>
     snd (coordinator_end locked_disk saved_disk (cd_engine cd) cd (success ''the coordinator stopped'')) ''state.pf'' =
       Some bytes"
proof -
  let ?env = "stored_env locked_disk saved_disk quiet_env" and ?e = "engine_create (coordinator_config state_options)"
  obtain out where r: "coordinator_recover ?env state_options ?e = (True, out, ?e)" using locked_boot(1) by blast
  from boot_ready [OF r locked_boot(2), where v = "(1, 0, 0)" and event = True] obtain cd where
    cd: "coordinator_boot (1, 0, 0) ?env loopback True () state_options = Some (Inr cd, ())" by blast
  have engine: "cd_engine cd = snd (begin_epoch ?e)"
    using cd r locked_boot(2) loopback_listens by (simp add: coordinator_boot_def Let_def case_prod_beta) auto
  have "en_config (cd_engine cd) = en_config ?e" "en_profiles (cd_engine cd) = registry_empty"
    "en_devices (cd_engine cd) = []" "en_publishers (cd_engine cd) = []" "en_records (cd_engine cd) = []"
    using locked_boot(2)
    by (simp_all add: engine begin_epoch_def Let_def release_ownership_before_epoch_def release_where_def
        om_map_values_def engine_create_def outcome_ok_def split: if_splits)
  then have parts: "ps_records (gather_state (cd_engine cd)) = []" "ps_profiles (gather_state (cd_engine cd)) = []"
    "ps_devices (gather_state (cd_engine cd)) = []" "ps_publishers (gather_state (cd_engine cd)) = []"
    "id_wf (ps_fabric (gather_state (cd_engine cd)))" "id_wf (ps_site (gather_state (cd_engine cd)))"
    by (simp_all add: gather_state_def registry_empty_def registry_list_def)
      (simp_all add: engine_create_def coordinator_config_def)
  note saved = locked_save [OF bare_state_encodes [OF parts]]
  from unreadable_container_is_overwritten [OF locked_laws state_options_config(3) _ locked_load _ cd
      prod.collapse [symmetric] saved] cd parts(1)
  show ?thesis by auto
qed

end
