(* ===== verification/Diff.thy ===== *)
theory Diff
  imports Queries Sample
begin

text \<open>
  Differences between configurations and records, \<open>src/diff.cpp\<close>: a difference is a list of
  entries, one for each dimension whose rendering changes, in the order of the dimensions.
\<close>

section \<open>Dimensions\<close>

datatype (plugins only: code) diff_field = DF_Lifecycle | DF_Administrative | DF_PortMode
    | DF_ProtocolFamily | DF_Speed | DF_LaneConfiguration | DF_Mtu | DF_Duplex | DF_Fec
    | DF_Autoneg | DF_Pause | DF_Breakout | DF_LogicalDerivation | DF_Aggregation | DF_Profile
    | DF_Role | DF_Ownership | DF_CapabilityBinding | DF_DeviceGeneration | DF_TopologyGeneration
    | DF_AppliedEvidence | DF_Drift

primrec diff_field_to_string :: "diff_field \<Rightarrow> string" where
  "diff_field_to_string DF_Lifecycle = ''lifecycle''"
| "diff_field_to_string DF_Administrative = ''administrative''"
| "diff_field_to_string DF_PortMode = ''port_mode''"
| "diff_field_to_string DF_ProtocolFamily = ''protocol_family''"
| "diff_field_to_string DF_Speed = ''speed''"
| "diff_field_to_string DF_LaneConfiguration = ''lane_configuration''"
| "diff_field_to_string DF_Mtu = ''mtu''"
| "diff_field_to_string DF_Duplex = ''duplex''"
| "diff_field_to_string DF_Fec = ''fec''"
| "diff_field_to_string DF_Autoneg = ''autoneg''"
| "diff_field_to_string DF_Pause = ''pause''"
| "diff_field_to_string DF_Breakout = ''breakout''"
| "diff_field_to_string DF_LogicalDerivation = ''logical_derivation''"
| "diff_field_to_string DF_Aggregation = ''aggregation''"
| "diff_field_to_string DF_Profile = ''profile''"
| "diff_field_to_string DF_Role = ''role''"
| "diff_field_to_string DF_Ownership = ''ownership''"
| "diff_field_to_string DF_CapabilityBinding = ''capability_binding''"
| "diff_field_to_string DF_DeviceGeneration = ''device_generation''"
| "diff_field_to_string DF_TopologyGeneration = ''topology_generation''"
| "diff_field_to_string DF_AppliedEvidence = ''applied_evidence''"
| "diff_field_to_string DF_Drift = ''drift''"

definition all_diff_field :: "diff_field list" where
  "all_diff_field = [DF_Lifecycle, DF_Administrative, DF_PortMode, DF_ProtocolFamily, DF_Speed,
     DF_LaneConfiguration, DF_Mtu, DF_Duplex, DF_Fec, DF_Autoneg, DF_Pause, DF_Breakout,
     DF_LogicalDerivation, DF_Aggregation, DF_Profile, DF_Role, DF_Ownership,
     DF_CapabilityBinding, DF_DeviceGeneration, DF_TopologyGeneration, DF_AppliedEvidence,
     DF_Drift]"

definition diff_field_table :: "(string \<times> diff_field) list" where
  "diff_field_table = [(''lifecycle'', DF_Lifecycle), (''administrative'', DF_Administrative),
     (''port_mode'', DF_PortMode), (''protocol_family'', DF_ProtocolFamily),
     (''speed'', DF_Speed), (''lane_configuration'', DF_LaneConfiguration), (''mtu'', DF_Mtu),
     (''duplex'', DF_Duplex), (''fec'', DF_Fec), (''autoneg'', DF_Autoneg),
     (''pause'', DF_Pause), (''breakout'', DF_Breakout),
     (''logical_derivation'', DF_LogicalDerivation), (''aggregation'', DF_Aggregation),
     (''profile'', DF_Profile), (''role'', DF_Role), (''ownership'', DF_Ownership),
     (''capability_binding'', DF_CapabilityBinding),
     (''device_generation'', DF_DeviceGeneration),
     (''topology_generation'', DF_TopologyGeneration),
     (''applied_evidence'', DF_AppliedEvidence), (''drift'', DF_Drift)]"

definition parse_diff_field :: "string \<Rightarrow> diff_field option" where
  "parse_diff_field t = first_match t diff_field_table"

interpretation diff_field_text: enum_text diff_field_to_string diff_field_table all_diff_field
proof
  show "diff_field_table = map (\<lambda>e. (diff_field_to_string e, e)) all_diff_field"
    by (simp add: diff_field_table_def all_diff_field_def)
  show "e \<in> set all_diff_field" for e
    by (cases e) (simp_all add: all_diff_field_def)
  show "distinct (map diff_field_to_string all_diff_field)"
    by (simp add: all_diff_field_def)
qed

text \<open>The value of the enumerator, by which entries are sorted.\<close>

primrec diff_field_code :: "diff_field \<Rightarrow> nat" where
  "diff_field_code DF_Lifecycle = 0"
| "diff_field_code DF_Administrative = 1"
| "diff_field_code DF_PortMode = 2"
| "diff_field_code DF_ProtocolFamily = 3"
| "diff_field_code DF_Speed = 4"
| "diff_field_code DF_LaneConfiguration = 5"
| "diff_field_code DF_Mtu = 6"
| "diff_field_code DF_Duplex = 7"
| "diff_field_code DF_Fec = 8"
| "diff_field_code DF_Autoneg = 9"
| "diff_field_code DF_Pause = 10"
| "diff_field_code DF_Breakout = 11"
| "diff_field_code DF_LogicalDerivation = 12"
| "diff_field_code DF_Aggregation = 13"
| "diff_field_code DF_Profile = 14"
| "diff_field_code DF_Role = 15"
| "diff_field_code DF_Ownership = 16"
| "diff_field_code DF_CapabilityBinding = 17"
| "diff_field_code DF_DeviceGeneration = 18"
| "diff_field_code DF_TopologyGeneration = 19"
| "diff_field_code DF_AppliedEvidence = 20"
| "diff_field_code DF_Drift = 21"

record diff_entry =
  de_field :: diff_field
  de_before :: string
  de_after :: string

definition diff_entry_to_string :: "diff_entry \<Rightarrow> string" where
  "diff_entry_to_string d =
     diff_field_to_string (de_field d) @ '': '' @ (if de_before d = [] then ''none'' else de_before d) @
     '' -> '' @ (if de_after d = [] then ''none'' else de_after d)"

type_synonym configuration_diff = "diff_entry list"

text \<open>Rendering joins the entries, by line feeds or on one line.\<close>

fun join_with :: "string \<Rightarrow> string list \<Rightarrow> string" where
  "join_with separator [] = []"
| "join_with separator [x] = x"
| "join_with separator (x # y # rest) = x @ separator @ join_with separator (y # rest)"

definition diff_to_string :: "configuration_diff \<Rightarrow> string" where
  "diff_to_string d =
     (if d = [] then ''no differences'' else join_with [char_of (10 :: nat)] (map diff_entry_to_string d))"

definition diff_to_single_line :: "configuration_diff \<Rightarrow> string" where
  "diff_to_single_line d =
     (if d = [] then ''no differences'' else join_with ''; '' (map diff_entry_to_string d))"

section \<open>Computing a difference\<close>

definition add_if_changed :: "diff_field \<Rightarrow> string \<Rightarrow> string \<Rightarrow> configuration_diff \<Rightarrow> configuration_diff" where
  "add_if_changed f before after entries =
     (if before = after then entries
      else entries @ [\<lparr>de_field = f, de_before = before, de_after = after\<rparr>])"

definition sort_entries :: "configuration_diff \<Rightarrow> configuration_diff" where
  "sort_entries = sort_key (\<lambda>d. diff_field_code (de_field d))"

definition render_configuration_field :: "port_configuration \<Rightarrow> diff_field \<Rightarrow> string" where
  "render_configuration_field c f =
     (case f of
        DF_Administrative \<Rightarrow> administrative_state_to_string (pc_administrative c)
      | DF_PortMode \<Rightarrow> port_mode_to_string (pc_mode c)
      | DF_ProtocolFamily \<Rightarrow> protocol_family_to_string (pc_protocol c)
      | DF_Speed \<Rightarrow> speed_setting_to_string (pc_speed c)
      | DF_LaneConfiguration \<Rightarrow> lanes_to_string (pc_lanes c)
      | DF_Mtu \<Rightarrow> mtu_to_string (pc_mtu c)
      | DF_Duplex \<Rightarrow> duplex_mode_to_string (pc_duplex c)
      | DF_Fec \<Rightarrow> fec_mode_to_string (pc_fec c)
      | DF_Autoneg \<Rightarrow> autoneg_policy_to_string (pc_autoneg c)
      | DF_Pause \<Rightarrow> pause_mode_to_string (pc_pause c)
      | DF_Breakout \<Rightarrow> breakout_mode_to_string (pc_breakout c)
      | DF_LogicalDerivation \<Rightarrow>
          id_or_none (pc_logical_identity c) @ ''->'' @ id_or_none (pc_derived_from c) @ ''#'' @
          decimal (unat (pc_child_index c))
      | DF_Aggregation \<Rightarrow> aggregation_to_string (pc_aggregation c)
      | DF_Profile \<Rightarrow> profile_binding_to_string (pc_profile c)
      | DF_Role \<Rightarrow> pc_role c
      | DF_CapabilityBinding \<Rightarrow> gen_or_none (pc_capability_generation c)
      | DF_DeviceGeneration \<Rightarrow> gen_or_none (pc_device_generation c)
      | DF_TopologyGeneration \<Rightarrow> gen_or_none (pc_topology_generation c)
      | DF_Lifecycle \<Rightarrow> [] | DF_Ownership \<Rightarrow> [] | DF_AppliedEvidence \<Rightarrow> [] | DF_Drift \<Rightarrow> [])"

text \<open>\<open>kConfigurationFields\<close>, and the four fields that the loops over it skip.\<close>

definition configuration_fields :: "diff_field list" where
  "configuration_fields = all_diff_field"

definition record_only :: "diff_field \<Rightarrow> bool" where
  "record_only f \<longleftrightarrow> f = DF_Lifecycle \<or> f = DF_Ownership \<or> f = DF_AppliedEvidence \<or> f = DF_Drift"

text \<open>The loop over the fields, for two renderings.\<close>

definition compare_fields ::
  "(diff_field \<Rightarrow> string) \<Rightarrow> (diff_field \<Rightarrow> string) \<Rightarrow> configuration_diff \<Rightarrow> configuration_diff" where
  "compare_fields before after entries =
     foldl (\<lambda>d f. if record_only f then d else add_if_changed f (before f) (after f) d)
       entries configuration_fields"

definition diff_configurations :: "port_configuration \<Rightarrow> port_configuration \<Rightarrow> configuration_diff" where
  "diff_configurations before after =
     sort_entries (compare_fields (render_configuration_field before) (render_configuration_field after) [])"

definition configuration_changes :: "port_record \<Rightarrow> port_record \<Rightarrow> configuration_diff" where
  "configuration_changes before after =
     (case (pr_configuration before, pr_configuration after) of
        (Some b, Some a) \<Rightarrow> diff_configurations b a
      | (None, Some a) \<Rightarrow> compare_fields (\<lambda>_. ''absent'') (render_configuration_field a) []
      | (Some b, None) \<Rightarrow> compare_fields (render_configuration_field b) (\<lambda>_. ''absent'') []
      | (None, None) \<Rightarrow> [])"

definition owner_text :: "port_record \<Rightarrow> string" where
  "owner_text r = (case pr_ownership r of None \<Rightarrow> ''unowned'' | Some w \<Rightarrow> ownership_to_string w)"

definition record_changes :: "port_record \<Rightarrow> port_record \<Rightarrow> configuration_diff \<Rightarrow> configuration_diff" where
  "record_changes before after d =
     (let d = add_if_changed DF_Lifecycle (port_lifecycle_to_string (pr_lifecycle before))
                (port_lifecycle_to_string (pr_lifecycle after)) d;
          d = add_if_changed DF_Ownership (owner_text before) (owner_text after) d;
          d = add_if_changed DF_AppliedEvidence (applied_to_string (pr_applied before))
                (applied_to_string (pr_applied after)) d;
          d = add_if_changed DF_Drift (drift_state_to_string (pr_drift before))
                (drift_state_to_string (pr_drift after)) d
      in add_if_changed DF_CapabilityBinding (gen_or_none (cb_generation (pr_capability before)))
           (gen_or_none (cb_generation (pr_capability after))) d)"

definition diff_records :: "port_record \<Rightarrow> port_record \<Rightarrow> configuration_diff" where
  "diff_records before after =
     sort_entries (record_changes before after (configuration_changes before after))"

text \<open>\<open>PortFabricEngine::diff\<close>: the effect a proposed configuration would have on a record.\<close>

definition engine_diff :: "strong_id \<Rightarrow> port_configuration \<Rightarrow> engine \<Rightarrow> configuration_diff" where
  "engine_diff port proposed e =
     (case port_of e port of
        None \<Rightarrow> []
      | Some r \<Rightarrow> diff_records r (r\<lparr>pr_configuration := Some proposed\<rparr>))"

section \<open>What a difference says\<close>

definition swap_entry :: "diff_entry \<Rightarrow> diff_entry" where
  "swap_entry d = d\<lparr>de_before := de_after d, de_after := de_before d\<rparr>"

lemma swap_entry_field [simp]: "de_field (swap_entry d) = de_field d"
  by (simp add: swap_entry_def)

definition change :: "(diff_field \<Rightarrow> string) \<Rightarrow> (diff_field \<Rightarrow> string) \<Rightarrow> diff_field \<Rightarrow> diff_entry" where
  "change before after f = \<lparr>de_field = f, de_before = before f, de_after = after f\<rparr>"

text \<open>The loop appends one entry for each compared field that differs.\<close>

lemma compare_fields_eq:
  "compare_fields b a d =
     d @ map (change b a) (filter (\<lambda>f. \<not> record_only f \<and> b f \<noteq> a f) configuration_fields)"
proof -
  have "foldl (\<lambda>d f. if record_only f then d else add_if_changed f (b f) (a f) d) d fs =
      d @ map (change b a) (filter (\<lambda>f. \<not> record_only f \<and> b f \<noteq> a f) fs)" for fs
    by (induction fs arbitrary: d) (simp_all add: add_if_changed_def change_def)
  then show ?thesis by (simp add: compare_fields_def)
qed

lemma swap_change [simp]: "swap_entry (change b a f) = change a b f"
  by (simp add: swap_entry_def change_def)

lemma add_swap: "add_if_changed f a b (map swap_entry d) = map swap_entry (add_if_changed f b a d)"
  by (simp add: add_if_changed_def swap_entry_def)

lemma compare_swap: "compare_fields a b [] = map swap_entry (compare_fields b a [])"
proof -
  have "filter (\<lambda>f. \<not> record_only f \<and> a f \<noteq> b f) fs = filter (\<lambda>f. \<not> record_only f \<and> b f \<noteq> a f) fs" for fs
    by (rule filter_cong) auto
  then show ?thesis by (simp add: compare_fields_eq comp_def)
qed

lemma sort_swap: "sort_entries (map swap_entry d) = map swap_entry (sort_entries d)"
proof -
  have "insort_key k (swap_entry x) (map swap_entry d) = map swap_entry (insort_key k x d)"
    if "\<And>x. k (swap_entry x) = k x" for k :: "diff_entry \<Rightarrow> nat" and x d
    using that by (induction d) auto
  then have "sort_key k (map swap_entry d) = map swap_entry (sort_key k d)"
    if "\<And>x. k (swap_entry x) = k x" for k :: "diff_entry \<Rightarrow> nat"
    using that by (induction d) auto
  then show ?thesis by (simp add: sort_entries_def)
qed

lemma record_changes_swap:
  "record_changes a b (map swap_entry d) = map swap_entry (record_changes b a d)"
  by (simp only: record_changes_def Let_def add_swap)

lemma set_sort_entries [simp]: "set (sort_entries d) = set d"
  by (simp add: sort_entries_def)

lemma diff_swap: "diff_configurations a b = map swap_entry (diff_configurations b a)"
  using compare_swap [of "render_configuration_field a" "render_configuration_field b"]
  by (simp add: diff_configurations_def sort_swap)

lemma configuration_changes_swap:
  "configuration_changes x y = map swap_entry (configuration_changes y x)"
proof (cases "pr_configuration x")
  case None
  then show ?thesis
    using compare_swap [of "\<lambda>_. ''absent''"] by (simp add: configuration_changes_def split: option.split)
next
  case (Some a)
  then show ?thesis
    using compare_swap [of "render_configuration_field a" "\<lambda>_. ''absent''"] diff_swap [of a]
    by (cases "pr_configuration y") (simp_all add: configuration_changes_def)
qed

lemma changes_in_add:
  "(\<forall>x \<in> set (add_if_changed f b a d). de_before x \<noteq> de_after x) \<longleftrightarrow>
   (\<forall>x \<in> set d. de_before x \<noteq> de_after x)"
  by (auto simp: add_if_changed_def)

lemma changes_in_compare: "\<forall>x \<in> set (compare_fields b a []). de_before x \<noteq> de_after x"
  by (auto simp: compare_fields_eq change_def)

text \<open>
  A configuration difference is exact: a dimension is reported, once, if and only if
  its rendering differs between the two configurations, with the two renderings, and the entries
  stand in the order of the dimensions.
\<close>

theorem diff_configurations_exact:
  "map de_field (diff_configurations before after) =
     filter (\<lambda>f. \<not> record_only f \<and>
       render_configuration_field before f \<noteq> render_configuration_field after f) all_diff_field \<and>
   (\<forall>d \<in> set (diff_configurations before after).
      de_before d = render_configuration_field before (de_field d) \<and>
      de_after d = render_configuration_field after (de_field d))"
proof -
  let ?b = "render_configuration_field before" and ?a = "render_configuration_field after"
  let ?fs = "filter (\<lambda>f. \<not> record_only f \<and> ?b f \<noteq> ?a f) all_diff_field"
  have "sorted (map diff_field_code all_diff_field)" by (simp add: all_diff_field_def)
  then have "sorted (map diff_field_code ?fs)" by (rule sorted_filter)
  then have "sort_entries (map (change ?b ?a) ?fs) = map (change ?b ?a) ?fs"
    unfolding sort_entries_def by (intro sort_key_id_if_sorted) (simp add: comp_def change_def)
  then have "diff_configurations before after = map (change ?b ?a) ?fs"
    by (simp add: diff_configurations_def compare_fields_eq configuration_fields_def)
  then show ?thesis by (auto simp: change_def comp_def)
qed

theorem diff_configurations_exact_witness:
  "map de_field (diff_configurations sample_config (sample_config\<lparr>pc_role := ''uplink''\<rparr>)) = [DF_Role]"
proof -
  have "pc_role sample_config = []" by (simp add: sample_config_def sample_request_def no_configuration_def)
  then show ?thesis
    using diff_configurations_exact [of sample_config "sample_config\<lparr>pc_role := ''uplink''\<rparr>"]
    by (simp add: all_diff_field_def record_only_def render_configuration_field_def)
qed

text \<open>
  A record difference reports changes only, in the order of the dimensions, reading it
  backwards gives the difference of the swapped records, and a record does not differ from itself.
\<close>

theorem diff_records_antisymmetric:
  "diff_records after before = map swap_entry (diff_records before after) \<and>
   (\<forall>d \<in> set (diff_records before after). de_before d \<noteq> de_after d) \<and>
   sorted (map (\<lambda>d. diff_field_code (de_field d)) (diff_records before after)) \<and>
   diff_records before before = []"
proof (intro conjI)
  show "diff_records after before = map swap_entry (diff_records before after)"
    unfolding diff_records_def configuration_changes_swap [of after before] record_changes_swap sort_swap ..
  have "\<forall>d \<in> set (configuration_changes before after). de_before d \<noteq> de_after d"
    using changes_in_compare
    by (cases "pr_configuration before"; cases "pr_configuration after")
      (simp_all add: configuration_changes_def diff_configurations_def)
  then show "\<forall>d \<in> set (diff_records before after). de_before d \<noteq> de_after d"
    by (simp add: diff_records_def record_changes_def Let_def changes_in_add)
  show "sorted (map (\<lambda>d. diff_field_code (de_field d)) (diff_records before after))"
    by (simp add: diff_records_def sort_entries_def)
  have "configuration_changes before before = []"
    by (cases "pr_configuration before")
      (simp_all add: configuration_changes_def diff_configurations_def compare_fields_eq sort_entries_def)
  then show "diff_records before before = []"
    by (simp add: diff_records_def record_changes_def Let_def add_if_changed_def sort_entries_def)
qed

theorem diff_records_antisymmetric_witness: "diff_records configured_port configured_port = []"
  using diff_records_antisymmetric [of configured_port configured_port] by simp

end
