(* ===== verification/Inspect.thy ===== *)
theory Inspect
  imports Host Coordinator Diff
begin

text \<open>
  The inspection tool of \<open>apps/pf_inspect/main.cpp\<close>: its options and every command. A run is a function of
  the files, of the host and of the command line; it changes nothing.
\<close>

section \<open>Options\<close>

record inspect_options =
  io_state_path :: string
  io_synthetic_spec :: string
  io_device_label :: string
  io_help :: bool

definition inspect_defaults :: inspect_options where
  "inspect_defaults = \<lparr>io_state_path = [], io_synthetic_spec = [], io_device_label = ''inspect-device'', io_help = False\<rparr>"

definition inspect_usage :: "version \<Rightarrow> string list" where
  "inspect_usage v =
     [''pf-inspect - Port Fabric inspection tool '' @ version_string v, [],
      ''usage: pf-inspect [--state <path>] [--synthetic <CLASS:COUNT>] <command> [args]'', [],
      ''commands:'',
      ''  version                             print the runtime version'',
      ''  list-ports [--lifecycle S] [--administrative S] [--device D] [--profile P] [--revalidation]'',
      ''  show-port <port>                    full record rendering'',
      ''  show-config <port>                  committed configuration'',
      ''  show-lifecycle <port>               lifecycle state'',
      ''  show-admin <port>                   administrative state'',
      ''  show-owner <port>                   control ownership'',
      ''  show-profile <port>                 profile binding'',
      ''  show-capability <port>              bound capability evidence'',
      ''  show-applied <port>                 applied evidence'',
      ''  show-devices                        recorded device generations'',
      ''  show-profiles                       defined profile generations'',
      ''  explain <port>                      deterministic explanation'',
      ''  diff --set key=value ... <port>     deterministic configuration diff'',
      ''  validate <port>                     capability validation of committed state'',
      ''  snapshot                            immutable state snapshot summary'',
      ''  inspect-persistence                 container header and record summary'',
      ''  host-ports                          real local host port evidence'', [],
      ''with no --state and no --synthetic, a deterministic synthetic fabric is used.'']"

text \<open>
  The options may stand anywhere; what is none of them is kept, in order. An option whose value is missing
  is kept too.
\<close>

fun inspect_parse :: "string list \<Rightarrow> inspect_options \<Rightarrow> inspect_options \<times> string list" where
  "inspect_parse [] o' = (o', [])"
| "inspect_parse [a] o' =
     (if a = ''--help'' \<or> a = ''-h'' then (o'\<lparr>io_help := True\<rparr>, []) else (o', [a]))"
| "inspect_parse (a # v # rest) o' =
     (if a = ''--state'' then inspect_parse rest (o'\<lparr>io_state_path := v\<rparr>)
      else if a = ''--synthetic'' then inspect_parse rest (o'\<lparr>io_synthetic_spec := v\<rparr>)
      else if a = ''--device'' then inspect_parse rest (o'\<lparr>io_device_label := v\<rparr>)
      else if a = ''--help'' \<or> a = ''-h'' then inspect_parse (v # rest) (o'\<lparr>io_help := True\<rparr>)
      else (let (o', kept) = inspect_parse (v # rest) o' in (o', a # kept)))"

section \<open>The runtime that is inspected\<close>

definition inspect_config :: "string \<Rightarrow> engine_config" where
  "inspect_config state_path = default_config
     \<lparr>cf_fabric := id_from_validated ''inspect-fabric'', cf_site := id_from_validated ''inspect-site'',
      cf_coordinator := id_from_validated ''pf-inspect'', cf_epoch := 1,
      cf_persistence_path := state_path, cf_persistence := Persistence_Manual\<rparr>"

text \<open>The synthetic inventory is built, but its ports are never bound: no command reads it.\<close>

definition inspect_inventory :: "nat \<Rightarrow> inspect_options \<Rightarrow> synthetic_fabric" where
  "inspect_inventory limit o' =
     add_inventory
       (if io_synthetic_spec o' = [] then (''SPINE_400G'', 8) else split_specification limit (io_synthetic_spec o'))
       (io_device_label o') (fabric_create ''inspect-synthetic'')"

definition inspect_load :: "environment \<Rightarrow> inspect_options \<Rightarrow> run + engine" where
  "inspect_load env o' =
     (let e = engine_create (inspect_config (io_state_path o'))
      in if io_state_path o' = [] then Inr e
         else let (loaded, e) = load env e
           in if outcome_ok loaded then Inr e
              else Inl (exits 1 [] [''load failed: '' @ c_str (outcome_to_string loaded)]))"

section \<open>Commands without a port\<close>

definition inspect_version :: "version \<Rightarrow> host_calls option \<Rightarrow> run" where
  "inspect_version v host =
     exits 0 [''Port Fabric '' @ version_string v,
       ''persistence_format='' @ decimal (unat persistence_format_version),
       ''protocol='' @ decimal (unat protocol_version), ''host_platform='' @ backend_label host] []"

definition inspect_host :: "host_calls option \<Rightarrow> run" where
  "inspect_host host =
     (let (err, evidence) = enumerate_ports host
      in if err \<noteq> [] then exits 1 [] [''host enumeration error: '' @ err]
         else exits 0 (map (c_str \<circ> host_port_to_string) evidence @ [''total='' @ decimal (length evidence)]) [])"

text \<open>The filters of \<open>list-ports\<close>; a state that does not parse is no filter.\<close>

record port_filter =
  pf_lifecycle :: "port_lifecycle option"
  pf_administrative :: "administrative_state option"
  pf_device :: strong_id
  pf_profile :: strong_id
  pf_revalidation :: bool

definition no_filter :: port_filter where
  "no_filter = \<lparr>pf_lifecycle = None, pf_administrative = None, pf_device = [], pf_profile = [], pf_revalidation = False\<rparr>"

fun list_filters :: "string list \<Rightarrow> port_filter \<Rightarrow> port_filter" where
  "list_filters [] f = f"
| "list_filters [a] f = (if a = ''--revalidation'' then f\<lparr>pf_revalidation := True\<rparr> else f)"
| "list_filters (a # v # rest) f =
     (if a = ''--lifecycle'' then list_filters rest (f\<lparr>pf_lifecycle := parse_port_lifecycle v\<rparr>)
      else if a = ''--administrative'' then list_filters rest (f\<lparr>pf_administrative := parse_administrative_state v\<rparr>)
      else if a = ''--device'' then list_filters rest (f\<lparr>pf_device := id_from_validated v\<rparr>)
      else if a = ''--profile'' then list_filters rest (f\<lparr>pf_profile := id_from_validated v\<rparr>)
      else if a = ''--revalidation'' then list_filters (v # rest) (f\<lparr>pf_revalidation := True\<rparr>)
      else list_filters (v # rest) f)"

definition listed_ports :: "port_filter \<Rightarrow> engine \<Rightarrow> strong_id list" where
  "listed_ports f e =
     (if pf_revalidation f then ports_requiring_revalidation e
      else case pf_lifecycle f of
        Some s \<Rightarrow> ports_with_lifecycle s e
      | None \<Rightarrow>
        (case pf_administrative f of
           Some s \<Rightarrow> ports_with_administrative_state s e
         | None \<Rightarrow>
             if id_valid (pf_device f) then ports_of_device (pf_device f) e
             else if id_valid (pf_profile f) then ports_by_profile (pf_profile f) e
             else map pr_port (sn_records (take_snapshot e))))"

definition print_ports :: "strong_id list \<Rightarrow> run" where
  "print_ports ports = exits 0 (map c_str ports @ [''total='' @ decimal (length ports)]) []"

definition inspect_snapshot :: "engine \<Rightarrow> run" where
  "inspect_snapshot e =
     (let s = take_snapshot e
      in exits 0 [c_str (snapshot_to_string s), ''ports='' @ decimal (length (sn_records s))] [])"

definition inspect_container :: "outcome + persisted_state \<Rightarrow> run" where
  "inspect_container loaded =
     (case loaded of
        Inl answer \<Rightarrow> exits 1 [''result='' @ c_str (outcome_to_string answer)] []
      | Inr ps \<Rightarrow> exits 0
          [''result='' @ c_str (outcome_to_string (success ''state decoded'')),
           ''magic='' @ container_magic, ''format='' @ decimal (unat persistence_format_version),
           ''fabric='' @ ps_fabric ps, ''site='' @ ps_site ps, ''epoch='' @ format_u64 (ps_epoch ps),
           ''engine_generation='' @ format_u64 (ps_engine_generation ps),
           ''records='' @ decimal (length (ps_records ps)), ''profiles='' @ decimal (length (ps_profiles ps)),
           ''devices='' @ decimal (length (ps_devices ps)), ''publishers='' @ decimal (length (ps_publishers ps))] [])"

section \<open>Commands on a port\<close>

definition show_lines :: "string \<Rightarrow> engine \<Rightarrow> strong_id \<Rightarrow> port_record \<Rightarrow> string list option" where
  "show_lines command e port r =
     (if command = ''show-port'' then Some [c_str (record_to_string r)]
      else if command = ''show-config''
      then Some (case pr_configuration r of
        None \<Rightarrow> [''configuration=none''] | Some c \<Rightarrow> [c_str (configuration_to_string c)])
      else if command = ''show-lifecycle'' then Some [port_lifecycle_to_string (pr_lifecycle r)]
      else if command = ''show-admin''
      then Some (case pr_configuration r of
        None \<Rightarrow> [''administrative=UNKNOWN''] | Some c \<Rightarrow> [administrative_state_to_string (pc_administrative c)])
      else if command = ''show-owner''
      then Some [case pr_ownership r of None \<Rightarrow> ''unowned'' | Some w \<Rightarrow> c_str (ownership_to_string w)]
      else if command = ''show-profile''
      then Some [case pr_configuration r of None \<Rightarrow> ''none'' | Some c \<Rightarrow> c_str (profile_binding_to_string (pc_profile c))]
      else if command = ''show-capability'' then Some [c_str (binding_to_string (pr_capability r))]
      else if command = ''show-applied'' then Some [c_str (applied_to_string (pr_applied r))]
      else if command = ''explain'' then Some [c_str (explanation_to_string (explain port e))]
      else None)"

definition inspect_validate :: "port_record \<Rightarrow> run" where
  "inspect_validate r =
     (case pr_configuration r of
        None \<Rightarrow> exits 0 [''result=NO_CONFIGURATION''] []
      | Some c \<Rightarrow>
        (let verdict = validate_against_capabilities c (pr_capability r)
         in exits 0 ([''result='' @ cv_to_string verdict, ''accepted='' @ format_bool (cv_accepted verdict)] @
              (if cv_accepted verdict then []
               else [''reason='' @ c_str (cv_reason verdict), ''detail='' @ c_str (cv_detail verdict)])) []))"

text \<open>One assignment of \<open>diff\<close>: the changed candidate or what is wrong with it.\<close>

definition assign_field :: "nat \<Rightarrow> string \<Rightarrow> string \<Rightarrow> port_configuration \<Rightarrow> string + port_configuration" where
  "assign_field limit key t c =
     (if key = ''speed''
      then (case speed_parse t of
              None \<Rightarrow> Inl (''malformed speed: '' @ t)
            | Some speed \<Rightarrow>
              (let c = c\<lparr>pc_speed := \<lparr>ss_selection = Speed_Forced, ss_rate = speed\<rparr>\<rparr>
               in Inr (case lanes_for_total (lane_count (pc_lanes c)) speed of
                         None \<Rightarrow> c | Some lanes \<Rightarrow> c\<lparr>pc_lanes := lanes\<rparr>)))
      else if key = ''mtu''
      then (case mtu_create (of_nat (strtoul limit t)) of
              None \<Rightarrow> Inl (''malformed mtu: '' @ t) | Some m \<Rightarrow> Inr (c\<lparr>pc_mtu := m\<rparr>))
      else if key = ''admin''
      then (case parse_administrative_state t of
              None \<Rightarrow> Inl (''malformed administrative state: '' @ t) | Some s \<Rightarrow> Inr (c\<lparr>pc_administrative := s\<rparr>))
      else if key = ''fec''
      then (case parse_fec_mode t of
              None \<Rightarrow> Inl (''malformed fec mode: '' @ t) | Some m \<Rightarrow> Inr (c\<lparr>pc_fec := m\<rparr>))
      else if key = ''pause''
      then (case parse_pause_mode t of
              None \<Rightarrow> Inl (''malformed pause mode: '' @ t) | Some m \<Rightarrow> Inr (c\<lparr>pc_pause := m\<rparr>))
      else if key = ''breakout''
      then (case parse_breakout_mode t of
              None \<Rightarrow> Inl (''malformed breakout mode: '' @ t) | Some m \<Rightarrow> Inr (c\<lparr>pc_breakout := m\<rparr>))
      else Inl (''unknown field: '' @ key))"

fun diff_candidate :: "nat \<Rightarrow> string list \<Rightarrow> port_configuration \<Rightarrow> string + port_configuration" where
  "diff_candidate limit (a # v # rest) c =
     (if a \<noteq> ''--set'' then diff_candidate limit (v # rest) c
      else if CHR ''='' \<notin> set v then Inl (''malformed assignment: '' @ v)
      else case assign_field limit (takeWhile (\<lambda>ch. ch \<noteq> CHR ''='') v) (tl (dropWhile (\<lambda>ch. ch \<noteq> CHR ''='') v)) c of
        Inl err \<Rightarrow> Inl err
      | Inr c \<Rightarrow> diff_candidate limit rest c)"
| "diff_candidate limit _ c = Inr c"

definition inspect_diff :: "nat \<Rightarrow> string list \<Rightarrow> engine \<Rightarrow> strong_id \<Rightarrow> port_record \<Rightarrow> run" where
  "inspect_diff limit arguments e port r =
     (case pr_configuration r of
        None \<Rightarrow> exits 1 [] [''the port carries no committed configuration'']
      | Some c \<Rightarrow>
        (case diff_candidate limit arguments c of
           Inl err \<Rightarrow> exits 2 [] [c_str err]
         | Inr candidate \<Rightarrow> exits 0 [c_str (diff_to_string (engine_diff port candidate e))] []))"

definition inspect_record :: "version \<Rightarrow> nat \<Rightarrow> string \<Rightarrow> string list \<Rightarrow> engine \<Rightarrow> strong_id \<Rightarrow>
    port_record \<Rightarrow> run" where
  "inspect_record v limit command arguments e port r =
     (case show_lines command e port r of
        Some out \<Rightarrow> exits 0 out []
      | None \<Rightarrow>
          if command = ''validate'' then inspect_validate r
          else if command = ''diff'' then inspect_diff limit arguments e port r
          else exits 2 (inspect_usage v) [''unknown command: '' @ c_str command])"

text \<open>The port is the last argument, whatever the command.\<close>

definition inspect_port :: "version \<Rightarrow> nat \<Rightarrow> string \<Rightarrow> string list \<Rightarrow> engine \<Rightarrow> run" where
  "inspect_port v limit command arguments e =
     (if arguments = [] then exits 2 [] [''command '' @ c_str command @ '' requires a port identity'']
      else case id_parse (last arguments) of
        None \<Rightarrow> exits 2 [] [''malformed port identity: '' @ id_validation_to_string (validate_identifier (last arguments))]
      | Some port \<Rightarrow>
        (case sn_records (snapshot_of_port port e) of
           [] \<Rightarrow> exits 1 [] [''unknown port: '' @ c_str (last arguments)]
         | r # _ \<Rightarrow> inspect_record v limit command arguments e port r))"

section \<open>The run\<close>

definition inspect_command :: "version \<Rightarrow> nat \<Rightarrow> host_calls option \<Rightarrow> 'fs file_ops \<Rightarrow> 'fs \<Rightarrow> inspect_options \<Rightarrow>
    string \<Rightarrow> string list \<Rightarrow> engine \<Rightarrow> run" where
  "inspect_command v limit host ops fs o' command arguments e =
     (if command = ''version'' then inspect_version v host
      else if command = ''host-ports'' then inspect_host host
      else if command = ''list-ports'' then print_ports (listed_ports (list_filters arguments no_filter) e)
      else if command = ''snapshot'' then inspect_snapshot e
      else if command = ''inspect-persistence''
      then (if io_state_path o' = [] then exits 2 [] [''inspect-persistence requires --state <path>'']
            else inspect_container (store_load ops (io_state_path o') fs))
      else if command = ''show-devices'' then exits 0 (map (c_str \<circ> device_binding_to_string \<circ> snd) (en_devices e)) []
      else if command = ''show-profiles''
      then exits 0 (map (c_str \<circ> profile_to_string) (registry_list (en_profiles e))) []
      else inspect_port v limit command arguments e)"

definition inspect_main :: "version \<Rightarrow> nat \<Rightarrow> host_calls option \<Rightarrow> 'fs file_ops \<Rightarrow> 'fs \<Rightarrow> environment \<Rightarrow>
    string list \<Rightarrow> run" where
  "inspect_main v limit host ops fs env arguments =
     (case inspect_parse arguments inspect_defaults of
        (o', kept) \<Rightarrow>
          if io_help o' \<or> kept = [] then exits (if io_help o' then 0 else 2) (inspect_usage v) []
          else case inspect_load (stored_env ops fs env) o' of
            Inl r \<Rightarrow> r
          | Inr e \<Rightarrow> inspect_command v limit host ops fs o' (hd kept) (tl kept) e)"

section \<open>The device filter\<close>

text \<open>An option with a value that is kept is the last word of the command line.\<close>

lemma parse_keeps_device:
  "inspect_parse arguments o' = (o'', kept) \<Longrightarrow> ''--device'' \<notin> set (butlast kept)"
proof (induction arguments o' arbitrary: o'' kept rule: inspect_parse.induct)
  case (3 a v rest o')
  then show ?case by (auto simp: Let_def split: if_splits prod.splits)
qed (auto split: if_splits)

lemma filters_without_device:
  "''--device'' \<notin> set (butlast arguments) \<Longrightarrow> pf_device (list_filters arguments f) = pf_device f"
proof (induction arguments f rule: list_filters.induct)
  case (3 a v rest f)
  have "''--device'' \<notin> set (butlast (v # rest))" "rest \<noteq> [] \<Longrightarrow> ''--device'' \<notin> set (butlast rest)" "a \<noteq> ''--device''"
    using "3.prems" by (auto split: if_splits)
  with 3 show ?case by (cases rest) auto
qed auto

text \<open>
  The device filter of \<open>list-ports\<close> does nothing. However the command line is written, no
  device ever reaches the filters, because the parser of the options takes the option first: listing the
  ports of one device prints every port of the container.
\<close>

theorem list_ports_ignores_device:
  "(inspect_parse arguments inspect_defaults = (o', command # kept) \<longrightarrow> pf_device (list_filters kept no_filter) = []) \<and>
   inspect_main v limit host ops fs env [''--state'', path, ''list-ports'', ''--device'', d] =
     inspect_main v limit host ops fs env [''--state'', path, ''list-ports'']"
proof
  show "inspect_parse arguments inspect_defaults = (o', command # kept) \<longrightarrow> pf_device (list_filters kept no_filter) = []"
  proof
    assume "inspect_parse arguments inspect_defaults = (o', command # kept)"
    then have "''--device'' \<notin> set (butlast kept)"
      using parse_keeps_device by (fastforce split: if_splits)
    then show "pf_device (list_filters kept no_filter) = []"
      by (simp add: filters_without_device) (simp add: no_filter_def)
  qed
  show "inspect_main v limit host ops fs env [''--state'', path, ''list-ports'', ''--device'', d] =
      inspect_main v limit host ops fs env [''--state'', path, ''list-ports'']"
    by (simp add: inspect_main_def inspect_defaults_def inspect_load_def inspect_command_def Let_def split: sum.split)
qed

theorem list_ports_ignores_device_witness:
  "pf_device (list_filters [''--lifecycle'', ''ACTIVE'', ''--device''] no_filter) = []"
proof -
  have "inspect_parse [''list-ports'', ''--lifecycle'', ''ACTIVE'', ''--device'', ''leaf-1'', ''--device''] inspect_defaults =
      (inspect_defaults\<lparr>io_device_label := ''leaf-1''\<rparr>, ''list-ports'' # [''--lifecycle'', ''ACTIVE'', ''--device''])"
    by (simp add: inspect_defaults_def)
  with list_ports_ignores_device [THEN conjunct1, THEN mp] show ?thesis by blast
qed

section \<open>What an inspection shows\<close>

lemma loaded_record:
  assumes "oc_code (fst (load env e)) = OC_Ok" "port_of (snd (load env e)) port = Some s"
  shows "\<exists>r \<in> set (ps_records (snd (load_outcome env e))). pr_port r = port \<and> s = recover_record r"
proof (cases rule: load_success [OF assms(1)])
  case (1 read ps reg records)
  have "om_sorted ([] :: (strong_id \<times> port_record) list)" by (simp add: om_sorted_def)
  from restore_records_spec [OF 1(7) this] have "map_of records port = Some s \<Longrightarrow>
      \<exists>r \<in> set (ps_records ps). pr_port r = port \<and> s = recover_record r"
    by simp
  with assms(2) 1(2,9) show ?thesis by (simp add: filed_def port_of_def)
qed

lemma inspected_record:
  assumes "inspect_load (stored_env ops fs env) o' = Inr e" "io_state_path o' \<noteq> []" "port_of e port = Some s"
  shows "\<exists>ps r. store_load ops (io_state_path o') fs = Inr ps \<and> r \<in> set (ps_records ps) \<and> pr_port r = port \<and>
    s = recover_record r"
proof -
  let ?e = "engine_create (inspect_config (io_state_path o'))" and ?env = "stored_env ops fs env"
  have e: "e = snd (load ?env ?e)" "oc_code (fst (load ?env ?e)) = OC_Ok"
    using assms(1,2) by (auto simp: inspect_load_def outcome_ok_def Let_def split: prod.splits if_splits)
  from loaded_record [OF e(2)] assms(3) e(1) obtain r where
    r: "r \<in> set (ps_records (snd (load_outcome ?env ?e)))" "pr_port r = port" "s = recover_record r" by blast
  have "cf_persistence_path (en_config ?e) = io_state_path o'"
    by (simp add: engine_create_def inspect_config_def)
  with r(1) have "\<exists>ps. store_load ops (io_state_path o') fs = Inr ps \<and> r \<in> set (ps_records ps)"
    by (auto simp: load_outcome_def stored_env_def empty_state_def split: sum.splits)
  with r(2,3) show ?thesis by blast
qed

text \<open>A command on a port that ends well has found the record.\<close>

lemma shown_record:
  assumes "ru_exit (inspect_port v limit command arguments e) = 0"
  obtains r where "port_of e (last arguments) = Some r"
    "inspect_port v limit command arguments e = inspect_record v limit command arguments e (last arguments) r"
  using assms
  by (auto simp: inspect_port_def exits_def id_parse_def id_from_validated_def snapshot_of_port_def snapshot_of_records_def
      split: if_splits option.splits list.splits)

text \<open>
  Property C37. An inspection never shows what the container holds about ownership and lifecycle, but
  what recovery makes of it: whoever owned the port, it is printed as unowned, and a configured port that
  is not retired is printed as one that requires revalidation.
\<close>

theorem inspection_shows_recovery:
  assumes "inspect_parse arguments inspect_defaults = (o', command # kept)" "\<not> io_help o'" "io_state_path o' \<noteq> []"
    "command \<in> {''show-owner'', ''show-lifecycle''}" "inspect_main v limit host ops fs env arguments = run"
    "ru_exit run = 0"
  shows "\<exists>ps r. store_load ops (io_state_path o') fs = Inr ps \<and> r \<in> set (ps_records ps) \<and> pr_port r = last kept \<and>
    (command = ''show-owner'' \<longrightarrow> ru_out run = [''unowned'']) \<and>
    (command = ''show-lifecycle'' \<longrightarrow> ru_out run = [port_lifecycle_to_string
       (if pr_configuration r \<noteq> None \<and> pr_lifecycle r \<noteq> LC_Retired then LC_RevalidationRequired else pr_lifecycle r)])"
proof -
  obtain e where e: "inspect_load (stored_env ops fs env) o' = Inr e"
    "inspect_port v limit command kept e = run"
    using assms by (auto simp: inspect_main_def inspect_command_def inspect_load_def exits_def Let_def
        split: sum.splits if_splits prod.splits)
  obtain s where s: "port_of e (last kept) = Some s" "run = inspect_record v limit command kept e (last kept) s"
    using shown_record [of v limit command kept e] e(2) assms(6) by metis
  from inspected_record [OF e(1) assms(3) s(1)] assms(4) s(2) show ?thesis
    by (fastforce simp: inspect_record_def show_lines_def exits_def)
qed

text \<open>The sample runtime holds a configured port; the tool shows it as one that requires revalidation.\<close>

lemma inspected_sample:
  "\<exists>e s. inspect_load (stored_env disk_ops saved_disk quiet_env) (inspect_defaults\<lparr>io_state_path := ''state.pf''\<rparr>) = Inr e \<and>
     port_of e ''p1'' = Some s"
proof -
  let ?e = "engine_create (inspect_config ''state.pf'')"
  have "id_from_validated ''pf-inspect'' \<noteq> []" by code_simp
  then have "load (stored_env disk_ops saved_disk quiet_env) ?e =
     (success ''durable state recovered conservatively'', recovered_engine (gather_state sample_runtime)
       (registry_clear registry_empty) [(''p1'', recover_record configured_port)] ?e)"
    by (intro sample_state_loads)
      (simp_all add: engine_create_def inspect_config_def config_valid_def default_config_def id_valid_def gen_valid_def
        max_ports_def max_devices_def)
  then show ?thesis
    by (simp add: inspect_load_def inspect_defaults_def outcome_ok_def filed_def port_of_def)
qed

theorem inspection_shows_recovery_witness:
  "\<exists>ps r. store_load disk_ops ''state.pf'' saved_disk = Inr ps \<and> r \<in> set (ps_records ps) \<and> pr_port r = ''p1'' \<and>
     pr_lifecycle r = LC_Configured \<and>
     ru_out (inspect_main (1, 0, 0) ulong_max_64 None disk_ops saved_disk quiet_env
       [''--state'', ''state.pf'', ''show-lifecycle'', ''p1'']) = [''REVALIDATION_REQUIRED'']"
proof -
  let ?o = "inspect_defaults\<lparr>io_state_path := ''state.pf''\<rparr>"
    and ?words = "[''--state'', ''state.pf'', ''show-lifecycle'', ''p1'']"
  let ?run = "inspect_main (1, 0, 0) ulong_max_64 None disk_ops saved_disk quiet_env ?words"
  have parse: "inspect_parse ?words inspect_defaults = (?o, ''show-lifecycle'' # [''p1''])" by simp
  have id: "id_parse ''p1'' = Some ''p1''" by code_simp
  obtain e s where e: "inspect_load (stored_env disk_ops saved_disk quiet_env) ?o = Inr e" "port_of e ''p1'' = Some s"
    using inspected_sample by blast
  have "ru_exit ?run = 0"
    using e id parse by (simp add: inspect_main_def inspect_command_def inspect_port_def snapshot_of_port_def
        snapshot_of_records_def inspect_record_def show_lines_def exits_def inspect_defaults_def)
  from inspection_shows_recovery [OF parse _ _ _ refl this] obtain ps r where
    r: "store_load disk_ops ''state.pf'' saved_disk = Inr ps" "r \<in> set (ps_records ps)" "pr_port r = ''p1''"
      "ru_out ?run = [port_lifecycle_to_string
        (if pr_configuration r \<noteq> None \<and> pr_lifecycle r \<noteq> LC_Retired then LC_RevalidationRequired else pr_lifecycle r)]"
    by (auto simp: inspect_defaults_def)
  have "r = configured_port"
    using r(1,2) saved_disk_loads by (simp add: sample_runtime_gathered sample_state_def)
  then have "pr_configuration r \<noteq> None" "pr_lifecycle r = LC_Configured" by (simp_all add: configured_port_def)
  with r show ?thesis by auto
qed

end
