(* ===== verification/Spec2Isabelle.thy ===== *)
theory Spec2Isabelle
  imports Races Worker Inspect
begin

text \<open>
  Port Fabric, a runtime that keeps the authoritative desired state of network ports: which
  configuration a port is meant to have, who may change it, on what evidence, and what is known of
  the device. This library models the implementation under \<open>src/src\<close> and \<open>src/include/portfabric\<close>.

  The parts and how they interact. A client (\<open>client.cpp\<close>) sends frames (\<open>protocol.cpp\<close>) to a coordinator
  (\<open>server.cpp\<close>), whose service calls one runtime, \<open>EngineImpl\<close>. The runtime files one record per port, with
  eight secondary indexes, and keeps profiles, publishers, devices, an epoch and a topology generation.
  A mutation passes gates (shutdown, authority, replay, expectations, ownership, device), is turned into
  a plan by a builder, is checked against capability evidence, is applied through an adapter, and is
  committed by comparing the generations of the record with those it was decided on. The durable state
  is written as a checksummed container through a temporary file, and is recovered conservatively.

  Vocabulary. \<open>Prelude\<close>: machine integers, generations (\<open>generation.hpp\<close>) and the ordered association
  lists that stand for \<open>std::map\<close>. \<open>Text\<close>: \<open>text.cpp\<close>. \<open>Ids\<close>: \<open>ids.cpp\<close>. \<open>Outcome_Code\<close>,
  \<open>Explanation_Code\<close>, \<open>Outcome\<close>: results and their explanations. \<open>Sha256\<close>: \<open>sha256.cpp\<close>, with an
  abstract specification that the incremental hash refines.

  Data. \<open>Speed\<close>, \<open>Characteristics\<close>, \<open>Capability\<close>, \<open>Lifecycle\<close>, \<open>Configuration\<close> (also
  \<open>ownership.cpp\<close> and \<open>authority.cpp\<close>), \<open>Port_Record\<close>, \<open>Digest\<close>, \<open>Profile\<close>: one record or datatype for
  each struct or enum, one definition for each function; enumerations keep the order of their values. A
  validation returns \<open>None\<close> for success or the message of the failing check, and is characterised by an
  equivalence.

  The runtime. \<open>Port_Index\<close>: the indexes; the locale \<open>record_index\<close> states what adding and removing a
  record does to one of them and is interpreted once for each. \<open>Engine_State\<close>: the state \<open>engine\<close>, the
  environment (provider, adapter, store) and the invariant \<open>engine_ok\<close>. \<open>Authority\<close>: the authority gate,
  epochs, publishers, fencing, devices, topology. \<open>Builders\<close>: requests, plans and the ten builders; the
  locale \<open>mutation_builder\<close> is their contract. \<open>Mutation\<close>: the pipeline \<open>execute_mutation\<close>.
  \<open>Mutation_Safety\<close> derives what every mutation guarantees from the contract; \<open>Sample\<close> holds a small
  runtime on which theorems are instantiated; \<open>Mutation_Correct\<close>, \<open>Mutation_Evidence\<close> and
  \<open>Mutation_Limits\<close> state the guarantees: effect, refusal, replay, ownership, capability evidence, truth
  of applied evidence, uncertain applies and what no sequence of mutations can do. \<open>Binding\<close>:
  \<open>bind_port\<close>. \<open>Queries\<close>, \<open>Explain\<close>, \<open>Diff\<close>: the read side, proved equal to scans of the records.

  Concurrency. \<open>Stages\<close> cuts the pipeline at its locks and proves that the stages, run one after the
  other, are the pipeline. \<open>Interleaving\<close> lets any number of mutations and the other operations take turns:
  the invariant holds in every reachable system and compare-and-commit loses no update. \<open>Races\<close> shows
  three executions that go wrong.

  Durability. \<open>Codec\<close>, \<open>Crc\<close>, \<open>Wire\<close>, \<open>Container\<close>: bytes; the locale \<open>codec\<close> is the contract of a writer
  and its reader, interpreted for every type of the data model. \<open>Container_Size\<close> computes how much each
  writer takes and when a state fits. \<open>Recovery\<close>: \<open>load\<close>. \<open>Store\<close>: \<open>PersistenceStore\<close>; the file
  operations are a parameter whose laws are the locale \<open>file_laws\<close>, interpreted on a disk.

  Distribution. \<open>Frame\<close> and \<open>Messages\<close>: \<open>protocol.cpp\<close>. \<open>Service\<close>: \<open>EngineService\<close> and the loop of one
  session, a function of the bytes the peer sends; \<open>Session\<close>: what arbitrary peers can and cannot do.
  \<open>Server\<close>: the coordinator's listener, its accept thread, the registry of sessions, start, stop and join,
  with the threads as a relation of turns; every reachable server keeps the bound on sessions, and the
  join after a stop ends however the threads are scheduled.
  \<open>Net\<close> and \<open>Client\<close>: \<open>net.cpp\<close> and \<open>client.cpp\<close> over socket calls that are a parameter; the locale
  \<open>connection\<close> states what a stream socket guarantees. \<open>Remote\<close> connects the client with the modelled
  coordinator and proves that a remote call is the local one. \<open>Synthetic\<close>: \<open>synthetic.cpp\<close>, an
  environment of the pipeline that is itself modelled.

  Programs. \<open>Process\<close>: command lines, the conversions of the C library they use, and \<open>version.cpp\<close>.
  \<open>Coordinator\<close>, \<open>Worker\<close> and \<open>Inspect\<close>: \<open>apps/pf_coordinator\<close>, \<open>apps/pf_worker\<close> and \<open>apps/pf_inspect\<close>, from
  the arguments to the exit code, composed of the runtime, the store, the server and the client. A
  coordinator that is ready trusts nothing of an earlier life, a fenced agent is refused, and an inspection
  shows what recovery makes of a container. \<open>Host\<close>: the host functions of \<open>platform_windows.cpp\<close> over calls
  of the operating system, which are parameters.

  Conventions. Undefined behaviour is either excluded by the invariant or a branch of its own. A call
  that never returns is \<open>None\<close>. No definition needs fuel: the session loop terminates because every turn
  consumes a frame, the receive loops because every receive that goes on delivers a byte, and a mutation has
  answered after eleven turns. Integers keep their width where they can wrap; counters of completed
  calls and positions in a buffer are natural numbers.

  Not modelled: the operating system itself, whose sockets, files, clock, registry and interface table are
  parameters; the examples, benchmarks and tests, which only call the library. Memory exhaustion is not
  represented.
\<close>

end
